(* ===== verification/Prelude.thy ===== *)
theory Prelude
  imports Main "HOL-Library.Word" "HOL-Library.AList" "HOL-Library.Char_ord"
    "HOL-Library.List_Lexorder"
begin

text \<open>
  The prelude of the development: the names of the model's basic types, the collections of
  facts the component theories fill, and the generic lemmas on lists, association lists,
  options and bytes that their proofs share.

  A Go \<open>[]byte\<close> is a list of \<open>8 word\<close>; a Go \<open>string\<close> is an Isabelle \<open>string\<close> (a list of
  8-bit characters, as in Go); a Go map that the code ranges over is an association list with
  distinct keys; \<open>(T, error)\<close> results are sums \<open>'e + 'a\<close> with the error on the left.
\<close>

type_synonym byte = "8 word"
type_synonym bytes = "byte list"
type_synonym u64 = "64 word"

named_theorems go_defs \<open>definitions of the modelled Go library functions\<close>
named_theorems ks_defs \<open>definitions of the keystore operations\<close>
named_theorems pay_defs \<open>definitions of the payment operations\<close>
named_theorems frame \<open>what an operation leaves unchanged\<close>

subsection \<open>Sums as results\<close>

abbreviation is_err :: "'e + 'a \<Rightarrow> bool" where
  "is_err r \<equiv> isl r"

definition bind_res :: "'e + 'a \<Rightarrow> ('a \<Rightarrow> 'e + 'b) \<Rightarrow> 'e + 'b" where
  "bind_res r f = (case r of Inl e \<Rightarrow> Inl e | Inr a \<Rightarrow> f a)"

lemma bind_res_simps [simp]:
  "bind_res (Inl e) f = Inl e"
  "bind_res (Inr a) f = f a"
  by (simp_all add: bind_res_def)

lemma bind_res_Inr_iff: "bind_res r f = Inr b \<longleftrightarrow> (\<exists>a. r = Inr a \<and> f a = Inr b)"
  by (cases r) auto

subsection \<open>Association lists as Go maps\<close>

abbreviation keys_distinct :: "('k \<times> 'v) list \<Rightarrow> bool" where
  "keys_distinct m \<equiv> distinct (map fst m)"

lemma keys_distinct_update [simp]: "keys_distinct m \<Longrightarrow> keys_distinct (AList.update k v m)"
  by (rule distinct_update)

lemma map_of_update [simp]: "map_of (AList.update k v m) = (map_of m)(k \<mapsto> v)"
  by (rule update_conv')

lemma map_of_map_value:
  "map_of (map (\<lambda>(k, v). (k, f v)) m) k = map_option f (map_of m k)"
  by (induction m) auto

lemma fst_map_value [simp]: "map fst (map (\<lambda>(k, v). (k, f v)) m) = map fst m"
  by (induction m) auto

text \<open>Removing the entries a predicate holds of: the \<open>for k := range m { delete(m, k) }\<close> loop.\<close>

lemma keys_distinct_filter [simp]: "keys_distinct m \<Longrightarrow> keys_distinct (filter P m)"
  by (induction m) auto

lemma map_of_filter_distinct:
  "keys_distinct m \<Longrightarrow> map_of (filter (\<lambda>(k, v). P k v) m) k =
     (case map_of m k of None \<Rightarrow> None | Some v \<Rightarrow> if P k v then Some v else None)"
  by (induction m) (auto split: option.splits simp: weak_map_of_SomeI map_of_eq_None_iff)

lemma map_of_delete [simp]: "map_of (AList.delete k m) = (map_of m)(k := None)"
  by (rule delete_conv')

lemma keys_distinct_delete [simp]: "keys_distinct m \<Longrightarrow> keys_distinct (AList.delete k m)"
  by (rule distinct_delete)

subsection \<open>Lists\<close>

lemma foldl_append_conv: "foldl (\<lambda>a x. a @ f x) acc xs = acc @ concat (map f xs)"
  by (induction xs arbitrary: acc) auto

subsection \<open>Bytes and characters\<close>

lemma unat_byte_less [simp]: "unat (b :: byte) < 256"
  using unsigned_less [of b, where ?'a = nat] by simp

lemma unat_byte_of_nat: "n < 256 \<Longrightarrow> unat (word_of_nat n :: byte) = n"
  by (simp add: unat_of_nat)

end
