(* ===== verification/Go_Base.thy ===== *)
theory Go_Base
  imports Prelude
begin

text \<open>
  What the sources use of the Go language and its standard library: byte strings,
  \<open>encoding/hex\<close>, the functions of package \<open>strings\<close>, \<open>encoding/binary\<close> and the file
  operations of package \<open>os\<close> that the sealed stores are written with. JSON and the hash and
  signature functions stay parameters (records of functions) of the components that call them.
\<close>

subsection \<open>Strings\<close>

text \<open>\<open>[]byte(s)\<close>: a Go string is its bytes.\<close>

definition str_bytes :: "string \<Rightarrow> bytes" where
  "str_bytes s = map of_char s"

definition hasPrefix :: "string \<Rightarrow> string \<Rightarrow> bool" where
  "hasPrefix s p = (take (length p) s = p)"

definition hasSuffix :: "string \<Rightarrow> string \<Rightarrow> bool" where
  "hasSuffix s p = (length p \<le> length s \<and> drop (length s - length p) s = p)"

fun containsStr :: "string \<Rightarrow> string \<Rightarrow> bool" where
  "containsStr [] p = (p = [])"
| "containsStr (c # cs) p = (hasPrefix (c # cs) p \<or> containsStr cs p)"

definition is_lower :: "char \<Rightarrow> bool" where
  "is_lower c = (of_char c \<ge> (97::nat) \<and> of_char c \<le> (122::nat))"

definition is_upper :: "char \<Rightarrow> bool" where
  "is_upper c = (of_char c \<ge> (65::nat) \<and> of_char c \<le> (90::nat))"

definition is_digit :: "char \<Rightarrow> bool" where
  "is_digit c = (of_char c \<ge> (48::nat) \<and> of_char c \<le> (57::nat))"

fun map_result :: "('a \<Rightarrow> 'b option) \<Rightarrow> 'a list \<Rightarrow> 'b list option" where
  "map_result f [] = Some []"
| "map_result f (x # xs) =
     (case f x of None \<Rightarrow> None
      | Some y \<Rightarrow> (case map_result f xs of None \<Rightarrow> None | Some ys \<Rightarrow> Some (y # ys)))"

text \<open>\<open>utf8.ValidString\<close>: what \<open>encoding/json\<close> can carry in a string unchanged.\<close>

definition utf8_cont :: "nat \<Rightarrow> bool" where
  "utf8_cont b = (128 \<le> b \<and> b \<le> 191)"

fun utf8_nats :: "nat list \<Rightarrow> bool" where
  "utf8_nats [] = True"
| "utf8_nats (a # xs) =
     (if a < 128 then utf8_nats xs
      else if 194 \<le> a \<and> a \<le> 223 then
        (case xs of b # ys \<Rightarrow> utf8_cont b \<and> utf8_nats ys | [] \<Rightarrow> False)
      else if 224 \<le> a \<and> a \<le> 239 then
        (case xs of b # c # ys \<Rightarrow>
           utf8_cont b \<and> (a = 224 \<longrightarrow> 160 \<le> b) \<and> (a = 237 \<longrightarrow> b \<le> 159) \<and> utf8_cont c \<and> utf8_nats ys
         | _ \<Rightarrow> False)
      else if 240 \<le> a \<and> a \<le> 244 then
        (case xs of b # c # e # ys \<Rightarrow>
           utf8_cont b \<and> (a = 240 \<longrightarrow> 144 \<le> b) \<and> (a = 244 \<longrightarrow> b \<le> 143) \<and> utf8_cont c \<and> utf8_cont e
             \<and> utf8_nats ys
         | _ \<Rightarrow> False)
      else False)"

definition valid_utf8 :: "string \<Rightarrow> bool" where
  "valid_utf8 s = utf8_nats (map of_char s)"

subsection \<open>Package \<open>encoding/hex\<close>\<close>

definition hexdigit :: "nat \<Rightarrow> char" where
  "hexdigit n = (if n < 10 then char_of (48 + n) else char_of (87 + n))"

definition fromHexChar :: "char \<Rightarrow> nat option" where
  "fromHexChar c =
     (let n = of_char c in
      if 48 \<le> n \<and> n \<le> 57 then Some (n - 48)
      else if 97 \<le> n \<and> n \<le> 102 then Some (n - 87)
      else if 65 \<le> n \<and> n \<le> 70 then Some (n - 55)
      else None)"

fun hexEncode :: "bytes \<Rightarrow> string" where
  "hexEncode [] = []"
| "hexEncode (b # bs) = hexdigit (unat b div 16) # hexdigit (unat b mod 16) # hexEncode bs"

fun hexDecode :: "string \<Rightarrow> bytes option" where
  "hexDecode [] = Some []"
| "hexDecode [c] = None"
| "hexDecode (a # b # cs) =
     (case (fromHexChar a, fromHexChar b) of
        (Some h, Some l) \<Rightarrow> map_option (\<lambda>bs. word_of_nat (16 * h + l) # bs) (hexDecode cs)
      | _ \<Rightarrow> None)"

subsection \<open>Package \<open>encoding/binary\<close>: big-endian integers\<close>

definition be32 :: "nat \<Rightarrow> bytes" where
  "be32 n = map (\<lambda>i. word_of_nat (n div 256 ^ i)) [3, 2, 1, 0]"

definition be64 :: "u64 \<Rightarrow> bytes" where
  "be64 w = map (\<lambda>i. word_of_nat (unat w div 256 ^ i)) [7, 6, 5, 4, 3, 2, 1, 0]"

text \<open>Arithmetic of the 64-bit type \<open>int\<close>: a result wraps into the signed range; division truncates.\<close>

definition goInt :: "int \<Rightarrow> int" where
  "goInt x = (x + 2 ^ 63) mod 2 ^ 64 - 2 ^ 63"

definition goDiv :: "int \<Rightarrow> int \<Rightarrow> int" where
  "goDiv a b = sgn a * sgn b * (\<bar>a\<bar> div \<bar>b\<bar>)"

text \<open>
  Times and durations of package \<open>time\<close> are numbers of nanoseconds; \<open>Truncate\<close> rounds a time down
  to a multiple of a duration.
\<close>

definition second :: int where
  "second = 1000000000"

definition minute :: int where
  "minute = 60 * second"

definition hour :: int where
  "hour = 60 * minute"

definition truncate_time :: "int \<Rightarrow> int \<Rightarrow> int" where
  "truncate_time t d = t - t mod d"

text \<open>The value of a hash function as a Go \<open>[32]byte\<close>.\<close>

definition digest32 :: "(bytes \<Rightarrow> bytes) \<Rightarrow> bytes \<Rightarrow> bytes" where
  "digest32 sha b = take 32 (sha b @ replicate 32 0)"

subsection \<open>Package \<open>fmt\<close>: decimal numbers\<close>

fun dec_digits :: "nat \<Rightarrow> string" where
  "dec_digits n = (if n < 10 then [char_of (48 + n)] else dec_digits (n div 10) @ [char_of (48 + n mod 10)])"

declare dec_digits.simps [simp del]

definition showInt :: "int \<Rightarrow> string" where
  "showInt i = (if i < 0 then CHR ''-'' # dec_digits (nat (- i)) else dec_digits (nat i))"

text \<open>
  \<open>Sscanf\<close> with \<open>%d\<close>: spaces, a sign, the longest run of digits, in the range
  of an \<open>int\<close>. It counts the verb as matched whatever follows.
\<close>

definition digits_val :: "string \<Rightarrow> int" where
  "digits_val ds = foldl (\<lambda>acc c. acc * 10 + (of_char c - 48)) 0 ds"

definition scan_int :: "string \<Rightarrow> int option" where
  "scan_int s =
     (let s1 = dropWhile (\<lambda>c. c = CHR '' '') s;
          neg = (s1 \<noteq> [] \<and> hd s1 = CHR ''-'');
          s2 = (if s1 \<noteq> [] \<and> (hd s1 = CHR ''-'' \<or> hd s1 = CHR ''+'') then tl s1 else s1);
          ds = takeWhile is_digit s2;
          v = (if neg then - digits_val ds else digits_val ds)
      in if ds = [] then None else if v < - (2 ^ 63) \<or> v \<ge> 2 ^ 63 then None else Some v)"

subsection \<open>Package \<open>strings\<close>: white space and splitting\<close>

text \<open>
  The UTF-8 encodings of the runes of \<open>unicode.IsSpace\<close>. Each begins with a byte that no other rune
  contains, so that looking for them byte by byte finds the runes.
\<close>

definition space_encodings :: "string list" where
  "space_encodings =
     [[CHR 0x09], [CHR 0x0A], [CHR 0x0B], [CHR 0x0C], [CHR 0x0D], [CHR 0x20],
      [CHR 0xC2, CHR 0x85], [CHR 0xC2, CHR 0xA0], [CHR 0xE1, CHR 0x9A, CHR 0x80],
      [CHR 0xE2, CHR 0x80, CHR 0x80], [CHR 0xE2, CHR 0x80, CHR 0x81], [CHR 0xE2, CHR 0x80, CHR 0x82],
      [CHR 0xE2, CHR 0x80, CHR 0x83], [CHR 0xE2, CHR 0x80, CHR 0x84], [CHR 0xE2, CHR 0x80, CHR 0x85],
      [CHR 0xE2, CHR 0x80, CHR 0x86], [CHR 0xE2, CHR 0x80, CHR 0x87], [CHR 0xE2, CHR 0x80, CHR 0x88],
      [CHR 0xE2, CHR 0x80, CHR 0x89], [CHR 0xE2, CHR 0x80, CHR 0x8A], [CHR 0xE2, CHR 0x80, CHR 0xA8],
      [CHR 0xE2, CHR 0x80, CHR 0xA9], [CHR 0xE2, CHR 0x80, CHR 0xAF], [CHR 0xE2, CHR 0x81, CHR 0x9F],
      [CHR 0xE3, CHR 0x80, CHR 0x80]]"

definition space_prefix :: "string \<Rightarrow> nat" where
  "space_prefix s = (case List.find (\<lambda>e. take (length e) s = e) space_encodings of None \<Rightarrow> 0 | Some e \<Rightarrow> length e)"

function trim_left :: "(string \<Rightarrow> nat) \<Rightarrow> string \<Rightarrow> string" where
  "trim_left f s = (if f s = 0 \<or> s = [] then s else trim_left f (drop (f s) s))"
  by pat_completeness auto
termination
  by (relation "measure (\<lambda>(f, s). length s)") auto

declare trim_left.simps [simp del]

definition space_suffix :: "string \<Rightarrow> nat" where
  "space_suffix r = (case List.find (\<lambda>e. take (length e) r = rev e) space_encodings of None \<Rightarrow> 0 | Some e \<Rightarrow> length e)"

definition trimSpace :: "string \<Rightarrow> string" where
  "trimSpace s = rev (trim_left space_suffix (rev (trim_left space_prefix s)))"

text \<open>\<open>Fields\<close>; the second argument is the word read so far.\<close>

function fields_from :: "string \<Rightarrow> string \<Rightarrow> string list" where
  "fields_from s word =
     (let ws = (if word = [] then [] else [word]) in
      if s = [] then ws
      else if space_prefix s = 0 then fields_from (tl s) (word @ [hd s])
      else ws @ fields_from (drop (space_prefix s) s) [])"
  by pat_completeness auto
termination
  by (relation "measure (\<lambda>(s, w). length s)") auto

declare fields_from.simps [simp del]

definition strFields :: "string \<Rightarrow> string list" where
  "strFields s = fields_from s []"

fun splitStr :: "char \<Rightarrow> string \<Rightarrow> string list" where
  "splitStr sep [] = [[]]"
| "splitStr sep (c # cs) =
     (if c = sep then [] # splitStr sep cs
      else case splitStr sep cs of [] \<Rightarrow> [[c]] | w # ws \<Rightarrow> (c # w) # ws)"

text \<open>\<open>s[LastIndex(s, "@")+1:]\<close>, if there is one.\<close>

definition after_last :: "char \<Rightarrow> string \<Rightarrow> string option" where
  "after_last c s = (if c \<in> set s then Some (rev (takeWhile (\<lambda>x. x \<noteq> c) (rev s))) else None)"

text \<open>\<open>s[:i]\<close> and \<open>s[i+1:]\<close> for the first index of a character.\<close>

definition cut_at :: "char \<Rightarrow> string \<Rightarrow> (string \<times> string) option" where
  "cut_at c s = (if c \<in> set s then Some (takeWhile (\<lambda>x. x \<noteq> c) s, tl (dropWhile (\<lambda>x. x \<noteq> c) s)) else None)"

text \<open>\<open>io.ReadAll(io.LimitReader(r, n))\<close> on a stream that delivers \<open>b\<close>.\<close>

definition limitReader :: "int \<Rightarrow> 'a list \<Rightarrow> 'a list" where
  "limitReader n b = (if int (length b) \<le> n then b else take (nat n) b)"

lemma limitReader_take: "0 \<le> n \<Longrightarrow> limitReader n b = take (nat n) b"
  by (simp add: limitReader_def)

subsection \<open>Files\<close>

text \<open>
  The file system is an association list from paths to contents (finite, so that a
  directory can be listed). A sealed store is written by
  \<open>OpenFile(tmp, O_TRUNC)\<close>, \<open>Write\<close>, \<open>Sync\<close>, \<open>Close\<close>, \<open>Rename(tmp, path)\<close>, each of which may
  fail; a record of outcomes, chosen by the environment, says which do. A failed \<open>Write\<close> has
  written some prefix; \<open>os.Remove\<close> of the temporary file may itself fail (its error is ignored).
\<close>

type_synonym disk = "(string \<times> bytes) list"

definition readFile :: "disk \<Rightarrow> string \<Rightarrow> bytes option" where
  "readFile d p = map_of d p"

record wr_env =
  mkdir_ok :: bool
  open_ok :: bool
  write_short :: "nat option"
  sync_ok :: bool
  close_ok :: bool
  rename_ok :: bool
  remove_ok :: bool

definition all_ok :: wr_env where
  "all_ok = \<lparr>mkdir_ok = True, open_ok = True, write_short = None, sync_ok = True,
             close_ok = True, rename_ok = True, remove_ok = True\<rparr>"

definition wr_succeeds :: "wr_env \<Rightarrow> bool" where
  "wr_succeeds w = (open_ok w \<and> write_short w = None \<and> sync_ok w \<and> close_ok w \<and> rename_ok w)"

definition tmp_path :: "string \<Rightarrow> string" where
  "tmp_path p = p @ ''.tmp''"

definition osRemove :: "wr_env \<Rightarrow> disk \<Rightarrow> string \<Rightarrow> disk" where
  "osRemove w d p = (if remove_ok w then AList.delete p d else d)"

definition osRename :: "disk \<Rightarrow> string \<Rightarrow> string \<Rightarrow> disk" where
  "osRename d a b =
     (case readFile d a of None \<Rightarrow> d | Some c \<Rightarrow> AList.delete a (AList.update b c d))"

definition filepath_join :: "string \<Rightarrow> string \<Rightarrow> string" where
  "filepath_join dir nm = dir @ ''/'' @ nm"

text \<open>\<open>os.ReadDir\<close>: the names of the files in a directory, in byte order.\<close>

definition in_dir :: "string \<Rightarrow> string \<Rightarrow> bool" where
  "in_dir dir p = (hasPrefix p (dir @ ''/'') \<and> CHR ''/'' \<notin> set (drop (length dir + 1) p))"

definition readDir :: "disk \<Rightarrow> string \<Rightarrow> string list" where
  "readDir d dir = sort (map (\<lambda>p. drop (length dir + 1) p) (filter (in_dir dir) (map fst d)))"

text \<open>
  The common tail of \<open>keyStore.writeAtomic\<close>, \<open>allowlist.persistLocked\<close> and
  \<open>auditLog.persistLocked\<close>; an error is named by the step that failed.
\<close>

definition write_tmp_rename :: "wr_env \<Rightarrow> disk \<Rightarrow> string \<Rightarrow> bytes \<Rightarrow> disk \<times> string option" where
  "write_tmp_rename w d path data =
     (let tmp = tmp_path path in
      if \<not> open_ok w then (d, Some ''open tmp'')
      else (case write_short w of
        Some n \<Rightarrow> (osRemove w (AList.update tmp (take n data) d) tmp, Some ''write tmp'')
      | None \<Rightarrow>
        (let d1 = AList.update tmp data d in
         if \<not> sync_ok w then (osRemove w d1 tmp, Some ''fsync tmp'')
         else if \<not> close_ok w then (osRemove w d1 tmp, Some ''close tmp'')
         else if \<not> rename_ok w then (osRemove w d1 tmp, Some ''rename'')
         else (osRename d1 tmp path, None))))"

text \<open>What is on disk when the process dies inside that sequence.\<close>

datatype crash_point = BeforeOpen | AfterWriting nat | BeforeRename | AfterRename

definition crash_disk :: "crash_point \<Rightarrow> disk \<Rightarrow> string \<Rightarrow> bytes \<Rightarrow> disk" where
  "crash_disk c d path data =
     (case c of BeforeOpen \<Rightarrow> d
      | AfterWriting n \<Rightarrow> AList.update (tmp_path path) (take n data) d
      | BeforeRename \<Rightarrow> AList.update (tmp_path path) data d
      | AfterRename \<Rightarrow> fst (write_tmp_rename all_ok d path data))"

subsection \<open>Lemmas: strings and bytes\<close>

lemma goInt_id [simp]: "- (2 ^ 63) \<le> x \<Longrightarrow> x < 2 ^ 63 \<Longrightarrow> goInt x = x"
  by (simp add: goInt_def)

lemma goDiv_pos [simp]: "0 \<le> a \<Longrightarrow> 0 < b \<Longrightarrow> goDiv a b = a div b"
  by (cases "a = 0") (auto simp: goDiv_def sgn_if)

lemma length_digest32 [simp]: "length (digest32 sha b) = 32"
  by (simp add: digest32_def)

lemma length_be64 [simp]: "length (be64 w) = 8"
  by (simp add: be64_def)

lemma length_be32 [simp]: "length (be32 n) = 4"
  by (simp add: be32_def)

lemma byte_of_nat_eq: "(word_of_nat m :: byte) = word_of_nat n \<longleftrightarrow> m mod 256 = n mod 256"
proof -
  have "(word_of_nat m :: byte) = word_of_nat n \<longleftrightarrow> unat (word_of_nat m :: byte) = unat (word_of_nat n :: byte)"
    by (simp add: word_unat_eq_iff)
  then show ?thesis by (simp add: unat_of_nat)
qed

text \<open>A number below \<open>256 ^ k\<close> is determined by its \<open>k\<close> base-256 digits.\<close>

lemma base256_mod:
  "(\<And>i. i < k \<Longrightarrow> m div 256 ^ i mod 256 = n div 256 ^ i mod 256) \<Longrightarrow> m mod 256 ^ k = n mod (256 ^ k :: nat)"
proof (induction k)
  case (Suc k)
  have "x mod 256 ^ Suc k = 256 ^ k * (x div 256 ^ k mod 256) + x mod 256 ^ k" for x :: nat
    using mod_mult2_eq [of x "256 ^ k" 256] by (simp add: mult.commute)
  then show ?case using Suc by simp
qed simp

lemma base256_eq:
  assumes "\<And>i. i < k \<Longrightarrow> m div 256 ^ i mod 256 = n div 256 ^ i mod 256" "m < 256 ^ k" "n < (256 ^ k :: nat)"
  shows "m = n"
  using base256_mod [of k m n] assms by simp

text \<open>Evaluation of the encodings by shifts instead of powers.\<close>

lemma be64_code [code]: "be64 w = map (\<lambda>i. ucast (drop_bit (8 * i) w)) [7, 6, 5, 4, 3, 2, 1, 0]"
proof -
  have "(word_of_nat (unat w div 256 ^ i) :: byte) = ucast (drop_bit (8 * i) w)" for i
  proof -
    have "(256 :: nat) ^ i = 2 ^ (8 * i)" by (simp add: power_mult)
    then have "unat w div 256 ^ i = unat (drop_bit (8 * i) w)" by (simp add: unat_drop_bit_eq drop_bit_eq_div [where 'a = nat])
    then show ?thesis by simp
  qed
  then show ?thesis unfolding be64_def by simp
qed

lemma be32_code [code]: "be32 n = map (\<lambda>i. word_of_int (drop_bit (8 * i) (int n))) [3, 2, 1, 0]"
proof -
  have "(word_of_nat (n div 256 ^ i) :: byte) = word_of_int (drop_bit (8 * i) (int n))" for i
  proof -
    have "(256 :: nat) ^ i = 2 ^ (8 * i)" by (simp add: power_mult)
    then have "int (n div 256 ^ i) = drop_bit (8 * i) (int n)" by (simp add: drop_bit_eq_div zdiv_int)
    then show ?thesis by (metis of_int_of_nat_eq)
  qed
  then show ?thesis unfolding be32_def by simp
qed

lemma be64_inject [simp]: "be64 a = be64 b \<longleftrightarrow> a = b"
proof
  assume eq: "be64 a = be64 b"
  have "unat a div 256 ^ i mod 256 = unat b div 256 ^ i mod 256" if "i < 8" for i
  proof -
    have "i \<in> set [7, 6, 5, 4, 3, 2, 1, 0 :: nat]" using that by auto
    then show ?thesis using eq unfolding be64_def map_eq_conv byte_of_nat_eq by (rule bspec [rotated])
  qed
  moreover have "unat w < 256 ^ 8" for w :: u64 using unsigned_less [of w] by simp
  ultimately have "unat a = unat b" using base256_eq [of 8 "unat a" "unat b"] by blast
  then show "a = b" by (simp add: word_unat_eq_iff)
qed simp

lemma be32_inject:
  assumes "be32 m = be32 n" "m < 2 ^ 32" "n < 2 ^ 32"
  shows "m = n"
proof (rule base256_eq [of 4])
  show "m div 256 ^ i mod 256 = n div 256 ^ i mod 256" if "i < 4" for i
  proof -
    have "i \<in> set [3, 2, 1, 0 :: nat]" using that by auto
    then show ?thesis using assms(1) unfolding be32_def map_eq_conv byte_of_nat_eq by (rule bspec [rotated])
  qed
qed (use assms in simp_all)

lemma of_char_byte: "(of_char c :: byte) = word_of_nat (of_char c)"
  by (simp add: of_nat_of_char)

lemma str_bytes_inject [simp]: "str_bytes s = str_bytes t \<longleftrightarrow> s = t"
proof -
  have "inj (of_char :: char \<Rightarrow> byte)"
  proof (rule injI)
    fix c d :: char
    assume "(of_char c :: byte) = of_char d"
    then have "unat (word_of_nat (of_char c) :: byte) = unat (word_of_nat (of_char d) :: byte)"
      by (simp only: of_char_byte)
    then have "(of_char c :: nat) mod 256 = of_char d mod 256"
      by (simp add: unat_of_nat)
    then show "c = d" by simp
  qed
  then show ?thesis unfolding str_bytes_def by (rule inj_map_eq_map)
qed

lemma str_bytes_append [simp]: "str_bytes (s @ t) = str_bytes s @ str_bytes t"
  by (simp add: str_bytes_def)

lemma length_str_bytes [simp]: "length (str_bytes s) = length s"
  by (simp add: str_bytes_def)

lemma hasPrefix_append [simp]: "hasPrefix (p @ s) p"
  by (simp add: hasPrefix_def)

lemma hasPrefix_iff: "hasPrefix s p \<longleftrightarrow> (\<exists>t. s = p @ t)"
  by (metis append_eq_conv_conj append_take_drop_id hasPrefix_def)

lemma hasSuffix_iff: "hasSuffix s p \<longleftrightarrow> (\<exists>t. s = t @ p)"
proof
  assume "hasSuffix s p"
  then have "s = take (length s - length p) s @ p"
    unfolding hasSuffix_def by (metis append_take_drop_id)
  then show "\<exists>t. s = t @ p" ..
qed (auto simp: hasSuffix_def)

lemma containsStr_iff: "containsStr s p \<longleftrightarrow> (\<exists>a b. s = a @ p @ b)"
proof (induction s)
  case Nil
  then show ?case by auto
next
  case (Cons c cs)
  have "(\<exists>a b. c # cs = a @ p @ b) \<longleftrightarrow> (\<exists>b. c # cs = p @ b) \<or> (\<exists>a b. cs = a @ p @ b)"
  proof
    assume "\<exists>a b. c # cs = a @ p @ b"
    then obtain a b where ab: "c # cs = a @ p @ b" by blast
    then show "(\<exists>b. c # cs = p @ b) \<or> (\<exists>a b. cs = a @ p @ b)"
      by (cases a) auto
  next
    assume "(\<exists>b. c # cs = p @ b) \<or> (\<exists>a b. cs = a @ p @ b)"
    then show "\<exists>a b. c # cs = a @ p @ b"
    proof
      assume "\<exists>b. c # cs = p @ b"
      then show ?thesis by (metis append_Nil)
    next
      assume "\<exists>a b. cs = a @ p @ b"
      then obtain a b where "cs = a @ p @ b" by blast
      then have "c # cs = (c # a) @ p @ b" by simp
      then show ?thesis by blast
    qed
  qed
  then show ?case using Cons.IH by (simp add: hasPrefix_iff)
qed

subsection \<open>Lemmas: hexadecimal\<close>

lemma of_char_char_of_small: "n < 256 \<Longrightarrow> (of_char (char_of n) :: nat) = n"
  by (simp add: of_char_of)

lemma hexdigit_code: "n < 16 \<Longrightarrow> (of_char (hexdigit n) :: nat) = (if n < 10 then 48 + n else 87 + n)"
  by (simp add: hexdigit_def of_char_char_of_small)

lemma fromHexChar_hexdigit [simp]: "n < 16 \<Longrightarrow> fromHexChar (hexdigit n) = Some n"
  by (auto simp: fromHexChar_def hexdigit_code Let_def)

lemma hexDecode_hexEncode [simp]: "hexDecode (hexEncode bs) = Some bs"
proof (induction bs)
  case (Cons b bs)
  have "unat b div 16 < 16" using unat_byte_less [of b] by linarith
  then show ?case using Cons by simp
qed simp

lemma length_hexEncode [simp]: "length (hexEncode bs) = 2 * length bs"
  by (induction bs) auto

lemma hexEncode_inject [simp]: "hexEncode a = hexEncode b \<longleftrightarrow> a = b"
  by (metis hexDecode_hexEncode option.inject)

lemma hexDecode_length: "hexDecode s = Some bs \<Longrightarrow> length s = 2 * length bs"
  by (induction s arbitrary: bs rule: hexDecode.induct) (auto split: option.splits)

lemma hexEncode_chars: "c \<in> set (hexEncode bs) \<Longrightarrow> is_digit c \<or> is_lower c"
proof (induction bs)
  case (Cons b bs)
  have "unat b div 16 < 16" using unat_byte_less [of b] by linarith
  moreover have "is_digit (hexdigit n) \<or> is_lower (hexdigit n)" if "n < 16" for n
    using that
    by (auto simp: is_digit_def is_lower_def hexdigit_code)
  moreover have "unat b mod 16 < 16" by simp
  ultimately show ?case using Cons by (metis hexEncode.simps(2) set_ConsD)
qed simp

subsection \<open>Lemmas: UTF-8\<close>

lemma utf8_nats_append:
  "utf8_nats xs \<Longrightarrow> utf8_nats ys \<Longrightarrow> utf8_nats (xs @ ys)"
proof (induction xs rule: utf8_nats.induct)
  case (2 a xs)
  show ?case
    using 2 unfolding append_Cons utf8_nats.simps(2) [of a xs] utf8_nats.simps(2) [of a "xs @ ys"]
    by (auto simp del: utf8_nats.simps(2) split: list.splits if_splits)
qed simp

lemma utf8_nats_ascii: "\<forall>x\<in>set xs. x < 128 \<Longrightarrow> utf8_nats xs"
  by (induction xs) auto

lemma valid_utf8_append [simp]:
  "valid_utf8 s \<Longrightarrow> valid_utf8 t \<Longrightarrow> valid_utf8 (s @ t)"
  by (simp add: valid_utf8_def utf8_nats_append)

lemma valid_utf8_Nil [simp]: "valid_utf8 []"
  by (simp add: valid_utf8_def)

lemma valid_utf8_Cons [simp]: "(of_char c :: nat) < 128 \<Longrightarrow> valid_utf8 (c # s) \<longleftrightarrow> valid_utf8 s"
  by (simp add: valid_utf8_def)

lemma valid_utf8_ascii: "(\<And>c. c \<in> set s \<Longrightarrow> of_char c < (128::nat)) \<Longrightarrow> valid_utf8 s"
  by (auto simp: valid_utf8_def intro!: utf8_nats_ascii)

lemma valid_utf8_hexEncode [simp]: "valid_utf8 (hexEncode bs)"
  by (rule valid_utf8_ascii) (auto dest!: hexEncode_chars simp: is_digit_def is_lower_def)

subsection \<open>Lemmas: files\<close>

lemma tmp_path_neq [simp]: "tmp_path p \<noteq> p" "p \<noteq> tmp_path p"
  by (simp_all add: tmp_path_def)

lemma tmp_path_inject [simp]: "tmp_path p = tmp_path q \<longleftrightarrow> p = q"
  by (simp add: tmp_path_def)

lemma write_tmp_rename_ok: "snd (write_tmp_rename w d path data) = None \<longleftrightarrow> wr_succeeds w"
  by (auto simp: write_tmp_rename_def wr_succeeds_def Let_def split: option.splits)

lemma write_tmp_rename_SomeD:
  "snd (write_tmp_rename w d path data) = Some z \<Longrightarrow> \<not> wr_succeeds w"
  using write_tmp_rename_ok [of w d path data] by simp

text \<open>On success the file holds the new bytes; on an error it holds what it held before.\<close>

lemma write_tmp_rename_path:
  "readFile (fst (write_tmp_rename w d path data)) path =
     (if wr_succeeds w then Some data else readFile d path)"
  by (auto simp: write_tmp_rename_def wr_succeeds_def Let_def osRemove_def osRename_def
      readFile_def split: option.splits)

text \<open>No file other than the target and its temporary file changes.\<close>

lemma write_tmp_rename_other:
  "p \<noteq> path \<Longrightarrow> p \<noteq> tmp_path path \<Longrightarrow>
     readFile (fst (write_tmp_rename w d path data)) p = readFile d p"
  by (auto simp: write_tmp_rename_def Let_def osRemove_def osRename_def
      readFile_def split: option.splits)

lemma wr_succeeds_all_ok [simp]: "wr_succeeds all_ok"
  by (simp add: wr_succeeds_def all_ok_def)

lemma crash_disk_path:
  "readFile (crash_disk c d path data) path =
     (if c = AfterRename then Some data else readFile d path)"
proof (cases c)
  case AfterRename
  then show ?thesis by (simp add: crash_disk_def write_tmp_rename_path)
qed (simp_all add: crash_disk_def readFile_def)

lemma crash_disk_other:
  "p \<noteq> path \<Longrightarrow> p \<noteq> tmp_path path \<Longrightarrow> readFile (crash_disk c d path data) p = readFile d p"
proof (cases c)
  case AfterRename
  assume "p \<noteq> path" "p \<noteq> tmp_path path"
  then show ?thesis using AfterRename by (simp add: crash_disk_def write_tmp_rename_other)
qed (simp_all add: crash_disk_def readFile_def)

subsection \<open>Lemmas: decimal numbers\<close>

lemma dec_digits_props: "list_all is_digit (dec_digits n) \<and> dec_digits n \<noteq> [] \<and> digits_val (dec_digits n) = int n"
proof (induction n rule: dec_digits.induct)
  case (1 n)
  have digit: "is_digit (char_of (48 + m)) \<and> of_char (char_of (48 + m :: nat)) = (48 + int m)" if "m < 10" for m
  proof -
    have "(of_char (char_of (48 + m)) :: nat) = 48 + m" using that by (simp add: of_char_char_of_small)
    moreover from this have "(of_char (char_of (48 + m)) :: int) = 48 + int m"
      using of_nat_of_char [of "char_of (48 + m)", where 'a = int] by simp
    ultimately show ?thesis using that by (simp add: is_digit_def)
  qed
  show ?case
  proof (cases "n < 10")
    case True
    then have "dec_digits n = [char_of (48 + n)]" by (subst dec_digits.simps) simp
    then show ?thesis using digit [OF True] by (simp add: digits_val_def)
  next
    case False
    have "digits_val (dec_digits (n div 10) @ [char_of (48 + n mod 10)]) = digits_val (dec_digits (n div 10)) * 10 + int (n mod 10)"
      using digit [of "n mod 10"] by (simp add: digits_val_def)
    also have "\<dots> = int n" using 1 [OF False] by (simp add: zdiv_int zmod_int)
    finally have "digits_val (dec_digits (n div 10) @ [char_of (48 + n mod 10)]) = int n" .
    moreover have "dec_digits n = dec_digits (n div 10) @ [char_of (48 + n mod 10)]" using False by (subst dec_digits.simps) simp
    ultimately show ?thesis using 1 [OF False] digit [of "n mod 10"] by simp
  qed
qed

lemma scan_dec_digits:
  assumes "int n < 2 ^ 63"
  shows "scan_int (dec_digits n @ '')'') = Some (int n)"
proof -
  note d = dec_digits_props [of n]
  obtain c cs where c: "dec_digits n = c # cs" "is_digit c" using d by (cases "dec_digits n") auto
  then have sgn: "c \<noteq> CHR '' ''" "c \<noteq> CHR ''-''" "c \<noteq> CHR ''+''" by (auto simp: is_digit_def)
  have ds: "takeWhile is_digit (dec_digits n @ '')'') = dec_digits n"
    using d by (simp add: takeWhile_append2 list_all_iff is_digit_def)
  show ?thesis using d c sgn ds assms by (simp add: scan_int_def Let_def)
qed

end
