(* ===== verification/Ks_Types.thy ===== *)
theory Ks_Types
  imports Go_Base
begin

text \<open>
  The data of the keystore enclave (\<open>internal/keystore/types.go\<close>, \<open>errors.go\<close>,
  \<open>helpers.go\<close>): roles, key entries, requests, audit entries and sentinel errors, the role
  grammar, the hex form of an MRENCLAVE, and the record of functions for the code that is not
  part of the repository: SGX sealing, SHA-256, Ed25519 and \<open>encoding/json\<close> codecs, with the
  laws the keystore relies on as named predicates.
\<close>

subsection \<open>Data\<close>

type_synonym role = string

text \<open>\<open>[32]byte\<close>; the length is part of the well-formedness predicates.\<close>

type_synonym mrenclave = bytes

text \<open>
  The sentinel errors of \<open>errors.go\<close>; \<open>ErrOther\<close> stands for the errors built with
  \<open>fmt.Errorf\<close> around a library error, of which only the leading text is kept.
\<close>

datatype ks_error =
    ErrInvalidRole | ErrAlreadyProvisioned | ErrRoleNotFound | ErrNotAllowed
  | ErrBreakGlassRequired | ErrBreakGlassInvalid | ErrBreakGlassReplay
  | ErrCorruptedState | ErrOther string

fun ks_error_text :: "ks_error \<Rightarrow> string" where
  "ks_error_text ErrInvalidRole = ''keystore: invalid role''"
| "ks_error_text ErrAlreadyProvisioned = ''keystore: role already provisioned''"
| "ks_error_text ErrRoleNotFound = ''keystore: role not found''"
| "ks_error_text ErrNotAllowed = ''keystore: caller not on role allowlist''"
| "ks_error_text ErrBreakGlassRequired = ''keystore: break-glass credential required''"
| "ks_error_text ErrBreakGlassInvalid = ''keystore: break-glass signature invalid''"
| "ks_error_text ErrBreakGlassReplay = ''keystore: break-glass nonce replay''"
| "ks_error_text ErrCorruptedState = ''keystore: sealed state corrupted''"
| "ks_error_text (ErrOther s) = s"

record keyEntry =
  ke_Role :: role
  ke_Key :: bytes
  ke_KeyType :: string
  ke_CreatedAt :: int

record AuditEntry =
  ae_Sequence :: u64
  ae_Timestamp :: int
  ae_Action :: string
  ae_Role :: role
  ae_Actor :: string
  ae_Detail :: string
  ae_PrevHash :: string

record BreakGlassProof =
  OperatorPubKeyHex :: string
  Nonce :: string
  SignatureHex :: string

record GetRequest =
  gr_Role :: role

record DelegateRequest =
  dr_Role :: role
  NewMRENCLAVE :: mrenclave
  dr_BreakGlass :: "BreakGlassProof option"

record RevokeRequest =
  rr_Role :: role
  OldMRENCLAVE :: mrenclave
  rr_BreakGlass :: BreakGlassProof

record ProvisionRequest =
  pr_Role :: role
  pr_Key :: bytes
  pr_KeyType :: string
  pr_BreakGlass :: BreakGlassProof

record ListRequest =
  lr_BreakGlass :: BreakGlassProof
  AuditTailSize :: int

record RoleInfo =
  ri_Role :: role
  ri_KeyType :: string
  ri_CreatedAt :: int
  AllowedMRENCLAVE :: "mrenclave list"

text \<open>
  What the server answers: an error envelope with its status, or one of the response structs
  (\<open>GetResponse\<close>, \<open>DelegateResponse\<close>, \<open>ProvisionResponse\<close>, status 204, \<open>ListResponse\<close>).
\<close>

datatype ks_resp =
    RspErr nat string
  | RspGet bytes string int
  | RspDelegate role "mrenclave list" int
  | RspProvision role int
  | RspNoContent
  | RspList "RoleInfo list" "AuditEntry list"

subsection \<open>The role grammar\<close>

definition role_char :: "char \<Rightarrow> bool" where
  "role_char c = (is_lower c \<or> is_digit c \<or> c = CHR ''-'' \<or> c = CHR ''.'' \<or> c = CHR ''_'')"

text \<open>The result is the Go error: \<open>None\<close> is \<open>nil\<close>.\<close>

definition validateRole :: "string \<Rightarrow> ks_error option" where
  "validateRole s =
     (if length s = 0 \<or> length s > 128 then Some ErrInvalidRole
      else if s ! 0 = CHR ''-'' \<or> s ! 0 = CHR ''.'' then Some ErrInvalidRole
      else if s ! (length s - 1) = CHR ''-'' \<or> s ! (length s - 1) = CHR ''.'' then Some ErrInvalidRole
      else if list_all role_char s then None
      else Some ErrInvalidRole)"

subsection \<open>MRENCLAVE hex\<close>

definition encodeMRENCLAVEHex :: "mrenclave \<Rightarrow> string" where
  "encodeMRENCLAVEHex m = hexEncode m"

definition decodeMRENCLAVEHex :: "string \<Rightarrow> mrenclave option" where
  "decodeMRENCLAVEHex s = (if length s \<noteq> 64 then None else hexDecode s)"

definition zero32 :: mrenclave where
  "zero32 = replicate 32 0"

subsection \<open>The platform: code outside the repository\<close>

record platform =
  UnsealUnique :: "bytes \<Rightarrow> bytes option"
  sha256 :: "bytes \<Rightarrow> bytes"
  ed25519_Verify :: "bytes \<Rightarrow> bytes \<Rightarrow> bytes \<Rightarrow> bool"
  marshalEntry :: "keyEntry \<Rightarrow> bytes option"
  unmarshalEntry :: "bytes \<Rightarrow> keyEntry option"
  marshalAllow :: "(string \<times> string list) list \<Rightarrow> bytes option"
  unmarshalAllow :: "bytes \<Rightarrow> (string \<times> string list) list option"
  marshalLog :: "AuditEntry list \<Rightarrow> bytes option"
  unmarshalLog :: "bytes \<Rightarrow> AuditEntry list option"
  marshalAudit :: "AuditEntry \<Rightarrow> bytes option"

text \<open>
  The environment of one call: the clock, whether \<open>os.Stat\<close>, \<open>os.ReadDir\<close> and \<open>os.ReadFile\<close> of
  an existing file succeed, the outcome of each step of a write, and the sealing function. Sealing is randomised (a fresh
  AES-GCM nonce per call), so each call has its own.
\<close>

record io =
  io_now :: int
  io_stat_ok :: bool
  io_readdir_ok :: bool
  io_read_ok :: "string \<Rightarrow> bool"
  io_wr :: wr_env
  SealUnique :: "bytes \<Rightarrow> bytes option"

definition seal_law :: "platform \<Rightarrow> io \<Rightarrow> bool" where
  "seal_law P e = (\<forall>p s. SealUnique e p = Some s \<longrightarrow> UnsealUnique P s = Some p)"

definition utf8_keyEntry :: "keyEntry \<Rightarrow> bool" where
  "utf8_keyEntry k = (valid_utf8 (ke_Role k) \<and> valid_utf8 (ke_KeyType k))"

definition utf8_entry :: "AuditEntry \<Rightarrow> bool" where
  "utf8_entry a = (valid_utf8 (ae_Action a) \<and> valid_utf8 (ae_Role a) \<and> valid_utf8 (ae_Actor a)
                   \<and> valid_utf8 (ae_Detail a) \<and> valid_utf8 (ae_PrevHash a))"

text \<open>
  \<open>json.Unmarshal\<close> reads back what \<open>json.Marshal\<close> wrote, provided every string is valid UTF-8
  (Marshal replaces the invalid bytes of others). A JSON object is an unordered map, so the
  allowlist comes back as some enumeration of the same map.
\<close>

definition entry_codec_law :: "platform \<Rightarrow> bool" where
  "entry_codec_law P =
     (\<forall>k b. utf8_keyEntry k \<and> marshalEntry P k = Some b \<longrightarrow> unmarshalEntry P b = Some k)"

definition log_codec_law :: "platform \<Rightarrow> bool" where
  "log_codec_law P =
     (\<forall>l b. list_all utf8_entry l \<and> marshalLog P l = Some b \<longrightarrow> unmarshalLog P b = Some l)"

definition allow_codec_law :: "platform \<Rightarrow> bool" where
  "allow_codec_law P =
     (\<forall>m b. keys_distinct m \<and> (\<forall>(k, vs) \<in> set m. valid_utf8 k \<and> list_all valid_utf8 vs)
            \<and> marshalAllow P m = Some b \<longrightarrow>
        (\<exists>m'. unmarshalAllow P b = Some m' \<and> keys_distinct m' \<and> map_of m' = map_of m))"

text \<open>A decoded JSON object has each key once.\<close>

definition allow_decode_law :: "platform \<Rightarrow> bool" where
  "allow_decode_law P = (\<forall>b m. unmarshalAllow P b = Some m \<longrightarrow> keys_distinct m)"

text \<open>
  Marshalling a slice marshals each of its elements, and the JSON form of an audit entry
  determines it.
\<close>

definition log_elem_law :: "platform \<Rightarrow> bool" where
  "log_elem_law P = (\<forall>l b. marshalLog P l = Some b \<longrightarrow> (\<forall>a \<in> set l. marshalAudit P a \<noteq> None))"

definition audit_inj_law :: "platform \<Rightarrow> bool" where
  "audit_inj_law P =
     (\<forall>a a' b. utf8_entry a \<and> utf8_entry a' \<and> marshalAudit P a = Some b \<and> marshalAudit P a' = Some b
        \<longrightarrow> a = a')"

definition codec_laws :: "platform \<Rightarrow> bool" where
  "codec_laws P = (entry_codec_law P \<and> log_codec_law P \<and> allow_codec_law P \<and> allow_decode_law P
                   \<and> log_elem_law P \<and> audit_inj_law P)"

subsection \<open>Lemmas\<close>

lemma validateRole_cases: "validateRole s = None \<or> validateRole s = Some ErrInvalidRole"
  by (simp add: validateRole_def)

lemma validateRole_chars: "validateRole s = None \<Longrightarrow> c \<in> set s \<Longrightarrow> role_char c"
  by (auto simp: validateRole_def list_all_iff split: if_splits)

lemma role_char_ascii: "role_char c \<Longrightarrow> of_char c < (128::nat)"
  by (auto simp: role_char_def is_lower_def is_digit_def)

lemma role_char_not_sep: "\<not> role_char CHR '':''" "\<not> role_char CHR ''/''"
  by (simp_all add: role_char_def is_lower_def is_digit_def)

lemma validateRole_utf8 [simp]: "validateRole s = None \<Longrightarrow> valid_utf8 s"
  by (rule valid_utf8_ascii) (blast intro: role_char_ascii validateRole_chars)

lemma validateRole_no_colon: "validateRole s = None \<Longrightarrow> CHR '':'' \<notin> set s"
  using role_char_not_sep validateRole_chars by blast

lemma decode_encodeMRENCLAVEHex:
  "length m = 32 \<Longrightarrow> decodeMRENCLAVEHex (encodeMRENCLAVEHex m) = Some m"
  by (simp add: decodeMRENCLAVEHex_def encodeMRENCLAVEHex_def)

lemma decodeMRENCLAVEHex_length: "decodeMRENCLAVEHex s = Some m \<Longrightarrow> length m = 32"
  by (auto simp: decodeMRENCLAVEHex_def dest: hexDecode_length split: if_splits)

lemma valid_utf8_encodeMRENCLAVEHex [simp]: "valid_utf8 (encodeMRENCLAVEHex m)"
  by (simp add: encodeMRENCLAVEHex_def)

lemma length_zero32 [simp]: "length zero32 = 32"
  by (simp add: zero32_def)

end
