(* ===== verification/Ks_Sim.thy ===== *)
theory Ks_Sim
  imports Ks_Types
begin

text \<open>
  A concrete instance of the platform the keystore runs on, used to show that the laws assumed
  of it can hold and to run the model on concrete inputs: a length-prefixed binary codec in the
  place of JSON, sealing that prepends a tag byte, a hash that is the identity, and a signature
  scheme in which the signature of a message is the start of that message. It models no code of
  the repository.
\<close>

subsection \<open>A self-delimiting codec\<close>

type_synonym 'a dec = "bytes \<Rightarrow> ('a \<times> bytes) option"

definition enc_nat :: "nat \<Rightarrow> bytes" where
  "enc_nat n = replicate n 1 @ [0]"

fun dec_nat :: "nat dec" where
  "dec_nat [] = None"
| "dec_nat (b # bs) = (if b = 0 then Some (0, bs) else map_option (\<lambda>(n, r). (Suc n, r)) (dec_nat bs))"

definition enc_int :: "int \<Rightarrow> bytes" where
  "enc_int i = (if i < 0 then 1 else 0) # enc_nat (nat \<bar>i\<bar>)"

fun dec_int :: "int dec" where
  "dec_int [] = None"
| "dec_int (s # bs) = map_option (\<lambda>(n, r). (if s = 1 then - int n else int n, r)) (dec_nat bs)"

definition enc_bytes :: "bytes \<Rightarrow> bytes" where
  "enc_bytes bs = enc_nat (length bs) @ bs"

definition dec_bytes :: "bytes dec" where
  "dec_bytes bs =
     (case dec_nat bs of None \<Rightarrow> None
      | Some (n, r) \<Rightarrow> if length r < n then None else Some (take n r, drop n r))"

definition bytes_str :: "bytes \<Rightarrow> string" where
  "bytes_str bs = map (\<lambda>b. char_of (unat b)) bs"

definition enc_str :: "string \<Rightarrow> bytes" where
  "enc_str s = enc_bytes (str_bytes s)"

definition dec_str :: "string dec" where
  "dec_str bs = map_option (\<lambda>(x, r). (bytes_str x, r)) (dec_bytes bs)"

definition enc_list :: "('a \<Rightarrow> bytes) \<Rightarrow> 'a list \<Rightarrow> bytes" where
  "enc_list f xs = enc_nat (length xs) @ concat (map f xs)"

fun dec_many :: "'a dec \<Rightarrow> nat \<Rightarrow> 'a list dec" where
  "dec_many p 0 bs = Some ([], bs)"
| "dec_many p (Suc n) bs =
     (case p bs of None \<Rightarrow> None
      | Some (x, r) \<Rightarrow> map_option (\<lambda>(xs, r'). (x # xs, r')) (dec_many p n r))"

definition dec_list :: "'a dec \<Rightarrow> 'a list dec" where
  "dec_list p bs = (case dec_nat bs of None \<Rightarrow> None | Some (n, r) \<Rightarrow> dec_many p n r)"

definition whole :: "'a dec \<Rightarrow> bytes \<Rightarrow> 'a option" where
  "whole p bs = (case p bs of Some (x, []) \<Rightarrow> Some x | _ \<Rightarrow> None)"

definition dec_pair :: "'a dec \<Rightarrow> ('a \<Rightarrow> 'b dec) \<Rightarrow> 'b dec" where
  "dec_pair p q bs = (case p bs of None \<Rightarrow> None | Some (x, r) \<Rightarrow> q x r)"

definition dec_ret :: "'a \<Rightarrow> 'a dec" where
  "dec_ret x bs = Some (x, bs)"

lemma dec_nat_enc [simp]: "dec_nat (enc_nat n @ r) = Some (n, r)"
  by (induction n) (auto simp: enc_nat_def)

lemma dec_int_enc [simp]: "dec_int (enc_int i @ r) = Some (i, r)"
  by (auto simp: enc_int_def)

lemma dec_bytes_enc [simp]: "dec_bytes (enc_bytes bs @ r) = Some (bs, r)"
  by (simp add: dec_bytes_def enc_bytes_def)

lemma bytes_str_bytes [simp]: "bytes_str (str_bytes s) = s"
proof -
  have "unat (of_char c :: byte) = of_char c" for c
    by (simp add: of_char_byte unat_of_nat)
  then show ?thesis by (simp add: bytes_str_def str_bytes_def o_def)
qed

lemma dec_str_enc [simp]: "dec_str (enc_str s @ r) = Some (s, r)"
  by (simp add: dec_str_def enc_str_def)

lemma dec_many_enc:
  "(\<And>x r. x \<in> set xs \<Longrightarrow> p (f x @ r) = Some (x, r)) \<Longrightarrow>
     dec_many p (length xs) (concat (map f xs) @ r) = Some (xs, r)"
  by (induction xs) auto

lemma dec_list_enc [simp]:
  "(\<And>x r. x \<in> set xs \<Longrightarrow> p (f x @ r) = Some (x, r)) \<Longrightarrow> dec_list p (enc_list f xs @ r) = Some (xs, r)"
  by (simp add: dec_list_def enc_list_def dec_many_enc)

lemma whole_enc: "(\<And>r. p (b @ r) = Some (x, r)) \<Longrightarrow> whole p b = Some x"
proof -
  assume "\<And>r. p (b @ r) = Some (x, r)"
  from this [of "[]"] show ?thesis by (simp add: whole_def)
qed

subsection \<open>The instance\<close>

definition enc_entry :: "keyEntry \<Rightarrow> bytes" where
  "enc_entry k = enc_str (ke_Role k) @ enc_bytes (ke_Key k) @ enc_str (ke_KeyType k) @ enc_int (ke_CreatedAt k)"

definition dec_entry :: "keyEntry dec" where
  "dec_entry = dec_pair dec_str (\<lambda>r. dec_pair dec_bytes (\<lambda>k. dec_pair dec_str (\<lambda>t. dec_pair dec_int (\<lambda>c.
     dec_ret \<lparr>ke_Role = r, ke_Key = k, ke_KeyType = t, ke_CreatedAt = c\<rparr>))))"

definition enc_audit :: "AuditEntry \<Rightarrow> bytes" where
  "enc_audit a = enc_nat (unat (ae_Sequence a)) @ enc_int (ae_Timestamp a) @ enc_str (ae_Action a)
     @ enc_str (ae_Role a) @ enc_str (ae_Actor a) @ enc_str (ae_Detail a) @ enc_str (ae_PrevHash a)"

definition dec_audit :: "AuditEntry dec" where
  "dec_audit = dec_pair dec_nat (\<lambda>q. dec_pair dec_int (\<lambda>t. dec_pair dec_str (\<lambda>a. dec_pair dec_str (\<lambda>r.
     dec_pair dec_str (\<lambda>ac. dec_pair dec_str (\<lambda>dt. dec_pair dec_str (\<lambda>h.
     dec_ret \<lparr>ae_Sequence = word_of_nat q, ae_Timestamp = t, ae_Action = a, ae_Role = r,
              ae_Actor = ac, ae_Detail = dt, ae_PrevHash = h\<rparr>)))))))"

definition enc_allow :: "(string \<times> string list) list \<Rightarrow> bytes" where
  "enc_allow = enc_list (\<lambda>(k, vs). enc_str k @ enc_list enc_str vs)"

definition dec_allow :: "(string \<times> string list) list dec" where
  "dec_allow = dec_list (dec_pair dec_str (\<lambda>k. dec_pair (dec_list dec_str) (\<lambda>vs. dec_ret (k, vs))))"

definition sim_platform :: platform where
  "sim_platform =
     \<lparr>UnsealUnique = (\<lambda>b. case b of [] \<Rightarrow> None | t # r \<Rightarrow> if t = 7 then Some r else None),
      sha256 = (\<lambda>b. b),
      ed25519_Verify = (\<lambda>pub msg sig. length pub = 32 \<and> sig = take 64 (msg @ replicate 64 0)),
      marshalEntry = (\<lambda>k. Some (enc_entry k)),
      unmarshalEntry = whole dec_entry,
      marshalAllow = (\<lambda>m. Some (enc_allow m)),
      unmarshalAllow = (\<lambda>b. case whole dec_allow b of
         Some m \<Rightarrow> if keys_distinct m then Some m else None | None \<Rightarrow> None),
      marshalLog = (\<lambda>l. Some (enc_list enc_audit l)),
      unmarshalLog = whole (dec_list dec_audit),
      marshalAudit = (\<lambda>a. Some (enc_audit a))\<rparr>"

definition sim_io :: "int \<Rightarrow> io" where
  "sim_io t = \<lparr>io_now = t, io_stat_ok = True, io_readdir_ok = True, io_read_ok = (\<lambda>_. True),
               io_wr = all_ok, SealUnique = (\<lambda>p. Some (7 # p))\<rparr>"

lemma dec_entry_enc: "dec_entry (enc_entry k @ r) = Some (k, r)"
  by (simp add: dec_entry_def enc_entry_def dec_pair_def dec_ret_def)

lemma dec_audit_enc: "dec_audit (enc_audit a @ r) = Some (a, r)"
  by (simp add: dec_audit_def enc_audit_def dec_pair_def dec_ret_def)

lemma dec_allow_enc: "dec_allow (enc_allow m @ r) = Some (m, r)"
  unfolding dec_allow_def enc_allow_def
  by (rule dec_list_enc) (auto simp: dec_pair_def dec_ret_def)

lemma sim_codec_laws: "codec_laws sim_platform"
  unfolding codec_laws_def
proof (intro conjI)
  show "entry_codec_law sim_platform"
    by (simp add: entry_codec_law_def sim_platform_def whole_enc [OF dec_entry_enc])
  show "log_codec_law sim_platform"
    by (simp add: log_codec_law_def sim_platform_def whole_enc [OF dec_list_enc, OF dec_audit_enc])
  show "allow_codec_law sim_platform"
    by (simp add: allow_codec_law_def sim_platform_def whole_enc [OF dec_allow_enc])
  show "allow_decode_law sim_platform"
    by (simp add: allow_decode_law_def sim_platform_def split: option.splits)
  show "log_elem_law sim_platform"
    by (simp add: log_elem_law_def sim_platform_def)
  have "enc_audit a = enc_audit a' \<Longrightarrow> a = a'" for a a'
    using dec_audit_enc [of a "[]"] dec_audit_enc [of a' "[]"] by simp
  then show "audit_inj_law sim_platform"
    by (auto simp: audit_inj_law_def sim_platform_def)
qed

lemma sim_seal_law: "seal_law sim_platform (sim_io t)"
  by (simp add: seal_law_def sim_platform_def sim_io_def)

lemma sim_entry_codec_law: "entry_codec_law sim_platform"
  using sim_codec_laws by (simp add: codec_laws_def)

end
