(* ===== verification/Interfaces.thy ===== *)
theory Interfaces
  imports Prelude
begin

text \<open>
  The contracts that several components provide, each as a locale: its laws are assumed here,
  the client facts proved once, and each provider discharges the laws by an interpretation on
  its own definitions.

  \<^item> \<open>write_once\<close>: a table in which a key, once present, is never overwritten (role key files,
    spent tokens, consumed slots, transparency roots);
  \<^item> \<open>guarded_set\<close>: a set whose members only enter and leave through operations that report
    their success (the per-role MRENCLAVE allowlist);
  \<^item> \<open>window_limiter\<close>: a fixed-window request counter per key (the rate limiters).
\<close>

subsection \<open>Write-once tables\<close>

text \<open>
  An operation may fail after it took effect (a lost database reply), so a failure is only
  required to keep what was there.
  An operation \<open>a\<close> tries to install a value under \<open>key a\<close>; the flag of the result says that it
  succeeded. \<open>ok a\<close> collects the assumptions on the operation's environment.
\<close>

locale write_once =
  fixes find :: "'s \<Rightarrow> 'k \<Rightarrow> 'v option"
    and install :: "'a \<Rightarrow> 's \<Rightarrow> 's \<times> bool"
    and key :: "'a \<Rightarrow> 'k"
    and ok :: "'a \<Rightarrow> bool"
  assumes install_new: "ok a \<Longrightarrow> install a s = (s', True) \<Longrightarrow> find s (key a) = None \<and> find s' (key a) \<noteq> None"
    and install_keep: "ok a \<Longrightarrow> install a s = (s', r) \<Longrightarrow> find s k = Some v \<Longrightarrow> find s' k = Some v"
begin

fun run :: "'a list \<Rightarrow> 's \<Rightarrow> 's \<times> bool list" where
  "run [] s = (s, [])"
| "run (a # as) s =
     (let (s1, r) = install a s; (s2, rs) = run as s1 in (s2, r # rs))"

lemma install_keeps:
  "ok a \<Longrightarrow> find s k = Some v \<Longrightarrow> find (fst (install a s)) k = Some v"
  by (cases "install a s") (auto intro: install_keep)

lemma run_keeps:
  "list_all ok as \<Longrightarrow> find s k = Some v \<Longrightarrow> find (fst (run as s)) k = Some v"
proof (induction as arbitrary: s)
  case (Cons a as)
  then have "find (fst (install a s)) k = Some v" by (simp add: install_keeps)
  with Cons show ?case by (simp add: split_beta Let_def)
qed simp

lemma length_run [simp]: "length (snd (run as s)) = length as"
  by (induction as arbitrary: s) (auto simp: split_beta Let_def)

definition wins :: "'k \<Rightarrow> 'a list \<Rightarrow> 's \<Rightarrow> nat" where
  "wins k as s = length (filter (\<lambda>(a, r). key a = k \<and> r) (zip as (snd (run as s))))"

lemma wins_present: "list_all ok as \<Longrightarrow> find s k \<noteq> None \<Longrightarrow> wins k as s = 0"
proof (induction as arbitrary: s)
  case (Cons a as)
  obtain s1 r where step: "install a s = (s1, r)" by fastforce
  from Cons.prems obtain v where v: "find s k = Some v" by blast
  then have "find s1 k = Some v"
    using install_keeps [of a s k v] Cons.prems step by simp
  then have rest: "wins k as s1 = 0" using Cons by simp
  have "\<not> (key a = k \<and> r)"
    using install_new [of a s s1] step v Cons.prems by auto
  with rest step show ?case by (auto simp: wins_def split_beta Let_def)
qed (simp add: wins_def)

text \<open>Over any sequence of operations at most one succeeds for each key.\<close>

lemma wins_at_most_once: "list_all ok as \<Longrightarrow> wins k as s \<le> 1"
proof (induction as arbitrary: s)
  case (Cons a as)
  obtain s1 r where step: "install a s = (s1, r)" by fastforce
  show ?case
  proof (cases "key a = k \<and> r")
    case True
    then have "find s1 k \<noteq> None"
      using install_new [of a s s1] step Cons.prems by auto
    then have "wins k as s1 = 0" using wins_present Cons.prems by simp
    with True step show ?thesis by (auto simp: wins_def split_beta Let_def)
  next
    case False
    then have "wins k (a # as) s = wins k as s1"
      using step by (auto simp: wins_def split_beta Let_def)
    with Cons show ?thesis by simp
  qed
qed (simp add: wins_def)

end

subsection \<open>Sets with fallible updates\<close>

text \<open>
  \<open>add\<close> and \<open>del\<close> may fail, in which case the set must be unchanged. \<open>inv\<close> is the provider's
  representation invariant and \<open>ok\<close> its assumption on the element.
\<close>

locale guarded_set =
  fixes inv :: "'s \<Rightarrow> bool"
    and mem :: "'s \<Rightarrow> 'x \<Rightarrow> bool"
    and add :: "'e \<Rightarrow> 's \<Rightarrow> 'x \<Rightarrow> 's \<times> bool"
    and del :: "'e \<Rightarrow> 's \<Rightarrow> 'x \<Rightarrow> 's \<times> bool"
    and ok :: "'x \<Rightarrow> bool"
  assumes add_inv: "inv s \<Longrightarrow> ok x \<Longrightarrow> inv (fst (add e s x))"
    and del_inv: "inv s \<Longrightarrow> inv (fst (del e s x))"
    and add_mem: "inv s \<Longrightarrow> mem (fst (add e s x)) y \<longleftrightarrow> mem s y \<or> (snd (add e s x) \<and> y = x)"
    and del_mem: "inv s \<Longrightarrow> mem (fst (del e s x)) y \<longleftrightarrow> mem s y \<and> \<not> (snd (del e s x) \<and> y = x)"
begin

fun run :: "('e \<times> 'x + 'e \<times> 'x) list \<Rightarrow> 's \<Rightarrow> 's \<times> bool list" where
  "run [] s = (s, [])"
| "run (Inl (e, x) # ops) s =
     (let (s1, r) = add e s x; (s2, rs) = run ops s1 in (s2, r # rs))"
| "run (Inr (e, x) # ops) s =
     (let (s1, r) = del e s x; (s2, rs) = run ops s1 in (s2, r # rs))"

fun ops_ok :: "('e \<times> 'x + 'e \<times> 'x) list \<Rightarrow> bool" where
  "ops_ok [] = True"
| "ops_ok (Inl (e, x) # ops) = (ok x \<and> ops_ok ops)"
| "ops_ok (Inr (e, x) # ops) = ops_ok ops"

text \<open>The abstract set the operations that succeeded describe.\<close>

fun spec :: "('e \<times> 'x + 'e \<times> 'x) list \<Rightarrow> bool list \<Rightarrow> 'x set \<Rightarrow> 'x set" where
  "spec (Inl (e, x) # ops) (r # rs) A = spec ops rs (if r then insert x A else A)"
| "spec (Inr (e, x) # ops) (r # rs) A = spec ops rs (if r then A - {x} else A)"
| "spec _ _ A = A"

lemma run_refines:
  "inv s \<Longrightarrow> ops_ok ops \<Longrightarrow> run ops s = (s', rs) \<Longrightarrow>
     inv s' \<and> {x. mem s' x} = spec ops rs {x. mem s x}"
proof (induction ops arbitrary: s s' rs)
  case (Cons op ops)
  obtain e x where op: "op = Inl (e, x) \<or> op = Inr (e, x)" by (cases op) auto
  obtain s1 r where step: "(if isl op then add e s x else del e s x) = (s1, r)" by fastforce
  obtain s2 rs' where rest: "run ops s1 = (s2, rs')" by fastforce
  have s': "s' = s2" "rs = r # rs'"
    using Cons.prems(3) op step rest by auto
  have "inv s1" and "ops_ok ops"
    using add_inv [OF Cons.prems(1), of x e] del_inv [OF Cons.prems(1), of e x] Cons.prems(2) op step
    by (auto split: if_splits)
  then have IH: "inv s2 \<and> {x. mem s2 x} = spec ops rs' {x. mem s1 x}"
    using Cons.IH rest by blast
  have "{y. mem s1 y} = (if isl op then if r then insert x {y. mem s y} else {y. mem s y}
      else if r then {y. mem s y} - {x} else {y. mem s y})"
    using add_mem [OF Cons.prems(1), of e x] del_mem [OF Cons.prems(1), of e x] step by (cases "isl op") auto
  then show ?case using IH op s' by auto
qed simp

end

subsection \<open>Fixed-window rate limiters\<close>

text \<open>
  A limiter keeps, per key, the count of requests in the current window and when it began.
  \<open>hit t k\<close> is a request of \<open>k\<close> at time \<open>t\<close> (the flag says it is allowed), \<open>sweep t\<close> the removal
  of stale entries, which a hit may do as well. \<open>R\<close> is the number allowed per window of length \<open>W\<close>.
\<close>

datatype 'k limiter_op = Hit int 'k | Sweep int

fun op_time :: "'k limiter_op \<Rightarrow> int" where
  "op_time (Hit t k) = t"
| "op_time (Sweep t) = t"

fun times_from :: "int \<Rightarrow> 'k limiter_op list \<Rightarrow> bool" where
  "times_from t [] = True"
| "times_from t (op # ops) = (t \<le> op_time op \<and> times_from (op_time op) ops)"

text \<open>How many requests of \<open>k\<close> before time \<open>b\<close> a limiter allows over a sequence of operations.\<close>

fun limiter_step :: "(int \<Rightarrow> 'k \<Rightarrow> 's \<Rightarrow> 's \<times> bool) \<Rightarrow> (int \<Rightarrow> 's \<Rightarrow> 's) \<Rightarrow> 'k limiter_op \<Rightarrow> 's \<Rightarrow> 's \<times> bool" where
  "limiter_step hit sweep (Hit t k) s = hit t k s"
| "limiter_step hit sweep (Sweep t) s = (sweep t s, False)"

fun limiter_granted ::
    "(int \<Rightarrow> 'k \<Rightarrow> 's \<Rightarrow> 's \<times> bool) \<Rightarrow> (int \<Rightarrow> 's \<Rightarrow> 's) \<Rightarrow> 'k \<Rightarrow> int \<Rightarrow> 'k limiter_op list \<Rightarrow> 's \<Rightarrow> nat" where
  "limiter_granted hit sweep k b [] s = 0"
| "limiter_granted hit sweep k b (op # ops) s =
     (case op of Hit t k' \<Rightarrow> if k' = k \<and> t < b \<and> snd (hit t k s) then 1 else 0 | Sweep t \<Rightarrow> 0)
     + limiter_granted hit sweep k b ops (fst (limiter_step hit sweep op s))"

fun limiter_run ::
    "(int \<Rightarrow> 'k \<Rightarrow> 's \<Rightarrow> 's \<times> bool) \<Rightarrow> (int \<Rightarrow> 's \<Rightarrow> 's) \<Rightarrow> 'k limiter_op list \<Rightarrow> 's \<Rightarrow> 's" where
  "limiter_run hit sweep [] s = s"
| "limiter_run hit sweep (op # ops) s = limiter_run hit sweep ops (fst (limiter_step hit sweep op s))"

locale window_limiter =
  fixes W :: int and R :: nat
    and inv :: "'s \<Rightarrow> bool"
    and bucket :: "'s \<Rightarrow> 'k \<Rightarrow> (nat \<times> int) option"
    and hit :: "int \<Rightarrow> 'k \<Rightarrow> 's \<Rightarrow> 's \<times> bool"
    and sweep :: "int \<Rightarrow> 's \<Rightarrow> 's"
  assumes W_pos: "0 < W" and R_pos: "1 \<le> R"
    and hit_inv: "inv s \<Longrightarrow> inv (fst (hit t k s))"
    and sweep_inv: "inv s \<Longrightarrow> inv (sweep t s)"
    and hit_other: "inv s \<Longrightarrow> k' \<noteq> k \<Longrightarrow> bucket (fst (hit t k s)) k' = bucket s k' \<or>
      (bucket (fst (hit t k s)) k' = None \<and> (\<exists>c w. bucket s k' = Some (c, w) \<and> W \<le> t - w))"
    and hit_none: "inv s \<Longrightarrow> bucket s k = None \<Longrightarrow>
      bucket (fst (hit t k s)) k = (if snd (hit t k s) then Some (1, t) else None)"
    and hit_expired: "inv s \<Longrightarrow> bucket s k = Some (c, w) \<Longrightarrow> W \<le> t - w \<Longrightarrow>
      bucket (fst (hit t k s)) k = (if snd (hit t k s) then Some (1, t) else Some (c, w))"
    and hit_live: "inv s \<Longrightarrow> bucket s k = Some (c, w) \<Longrightarrow> t - w < W \<Longrightarrow>
      \<exists>c'. bucket (fst (hit t k s)) k = Some (c', w) \<and> c \<le> c' \<and> (snd (hit t k s) \<longrightarrow> c < c' \<and> c' \<le> R)"
    and sweep_bucket: "inv s \<Longrightarrow> bucket (sweep t s) k = bucket s k \<or>
      (bucket (sweep t s) k = None \<and> (\<exists>c w. bucket s k = Some (c, w) \<and> W \<le> t - w))"
begin

abbreviation "granted \<equiv> limiter_granted hit sweep"

abbreviation "step \<equiv> limiter_step hit sweep"

lemma step_inv: "inv s \<Longrightarrow> inv (fst (step op s))"
  by (cases op) (auto intro: hit_inv sweep_inv)

lemma limiter_run_inv: "inv s \<Longrightarrow> inv (limiter_run hit sweep ops s)"
  by (induction ops arbitrary: s) (auto intro: step_inv)

lemma granted_late: "times_from t ops \<Longrightarrow> b \<le> t \<Longrightarrow> granted k b ops s = 0"
proof (induction ops arbitrary: t s)
  case (Cons op ops)
  then have "granted k b ops (fst (step op s)) = 0" by (meson order_trans times_from.simps(2))
  with Cons.prems show ?case by (cases op) auto
qed simp

lemma granted_same_window:
  "inv s \<Longrightarrow> times_from t ops \<Longrightarrow> bucket s k = Some (c, w) \<Longrightarrow> b \<le> w + W \<Longrightarrow> granted k b ops s \<le> R - c"
proof (induction ops arbitrary: t s c)
  case (Cons op ops)
  show ?case
  proof (cases "b \<le> op_time op")
    case True
    then have "granted k b (op # ops) s = 0" using granted_late [of "op_time op" "op # ops"] Cons.prems(2) by simp
    then show ?thesis by simp
  next
    case early: False
    show ?thesis
    proof (cases op)
      case (Hit u k')
      show ?thesis
      proof (cases "k' = k")
        case True
        have "u - w < W" using early Hit Cons.prems(4) by simp
        from hit_live [OF Cons.prems(1,3) this] obtain c' where
          c': "bucket (fst (hit u k s)) k = Some (c', w)" "c \<le> c'" "snd (hit u k s) \<longrightarrow> c < c' \<and> c' \<le> R" by blast
        have "granted k b ops (fst (hit u k s)) \<le> R - c'"
          using Cons.IH [OF hit_inv [OF Cons.prems(1)] _ c'(1) Cons.prems(4), of u] Cons.prems(2) Hit by simp
        then show ?thesis using c' Hit True by auto
      next
        case False
        then have "bucket (fst (hit u k' s)) k = Some (c, w)"
          using hit_other [of s k k' u] early Hit Cons.prems by auto
        then show ?thesis using Cons.IH [of "fst (hit u k' s)" u c] Cons.prems hit_inv Hit False by simp
      qed
    next
      case (Sweep u)
      then have "bucket (sweep u s) k = Some (c, w)"
        using sweep_bucket [of s u k] early Cons.prems by auto
      then show ?thesis using Cons.IH [of "sweep u s" u c] Cons.prems sweep_inv Sweep by simp
    qed
  qed
qed simp

text \<open>In any span of one window length at most twice the rate is allowed.\<close>

lemma granted_span:
  "inv s \<Longrightarrow> times_from t ops \<Longrightarrow> b \<le> t + W \<Longrightarrow> granted k b ops s \<le>
     (case bucket s k of None \<Rightarrow> R | Some (c, w) \<Rightarrow> (R - c) + R)"
proof (induction ops arbitrary: t s)
  case (Cons op ops)
  have t: "t \<le> op_time op" "times_from (op_time op) ops" using Cons.prems(2) by auto
  have IH: "granted k b ops s' \<le> (case bucket s' k of None \<Rightarrow> R | Some (c, w) \<Rightarrow> (R - c) + R)" if "inv s'" for s'
    using Cons.IH [OF that t(2)] Cons.prems(3) t(1) by simp
  show ?case
  proof (cases op)
    case (Hit u k')
    show ?thesis
    proof (cases "k' = k")
      case False
      then show ?thesis using IH [OF hit_inv, of s u k'] hit_other [of s k k' u] Cons.prems(1) Hit
        by (auto split: option.splits)
    next
      case True
      have fresh: "granted k b (op # ops) s \<le> R" if "bucket (fst (hit u k s)) k = Some (1, u)"
      proof -
        have "granted k b ops (fst (hit u k s)) \<le> R - 1"
          using granted_same_window [OF hit_inv [OF Cons.prems(1)] _ that, of u ops b] t Hit Cons.prems(3) by simp
        then show ?thesis using Hit True R_pos by (simp, linarith)
      qed
      show ?thesis
      proof (cases "bucket s k")
        case None
        then show ?thesis using hit_none [OF Cons.prems(1) None, of u] fresh IH [OF hit_inv [OF Cons.prems(1)], of u k] Hit True
          by (cases "snd (hit u k s)") auto
      next
        case (Some cw)
        obtain c w where cw: "bucket s k = Some (c, w)" using Some by (cases cw) auto
        show ?thesis
        proof (cases "W \<le> u - w")
          case True
          then show ?thesis
            using hit_expired [OF Cons.prems(1) cw True] fresh IH [OF hit_inv [OF Cons.prems(1)], of u k] Hit \<open>k' = k\<close> cw
            by (cases "snd (hit u k s)") auto
        next
          case False
          then obtain c' where c': "bucket (fst (hit u k s)) k = Some (c', w)" "c \<le> c'"
            "snd (hit u k s) \<longrightarrow> c < c' \<and> c' \<le> R" using hit_live [OF Cons.prems(1) cw, of u] by auto
          then show ?thesis using IH [OF hit_inv [OF Cons.prems(1)], of u k] Hit True cw by auto
        qed
      qed
    qed
  next
    case (Sweep u)
    then show ?thesis using IH [OF sweep_inv [OF Cons.prems(1)], of u] sweep_bucket [OF Cons.prems(1), of u k] by (auto split: option.splits)
  qed
qed (auto split: option.splits)

lemma granted_twice: "inv s \<Longrightarrow> times_from t ops \<Longrightarrow> b \<le> t + W \<Longrightarrow> granted k b ops s \<le> 2 * R"
  using granted_span [of s t ops b k] by (auto split: option.splits)

end

end
