(* ===== verification/Ks_Store.thy ===== *)
theory Ks_Store
  imports Ks_Sim Interfaces
begin

text \<open>
  \<open>internal/keystore/store.go\<close>: the per-role sealed key files. A store is its directory; the
  file of a role is named by the hash of the role.
\<close>

subsection \<open>Operations\<close>

definition role_file :: "string \<Rightarrow> bytes \<Rightarrow> string" where
  "role_file dir h = filepath_join dir (hexEncode h @ ''.bin'')"

definition keyStore_path :: "platform \<Rightarrow> string \<Rightarrow> role \<Rightarrow> string" where
  "keyStore_path P dir role = role_file dir (sha256 P (str_bytes role))"

text \<open>Any error of \<open>os.Stat\<close>, not only \<open>ErrNotExist\<close>, reads as "no key stored".\<close>

definition keyStore_Has :: "platform \<Rightarrow> io \<Rightarrow> string \<Rightarrow> disk \<Rightarrow> role \<Rightarrow> bool" where
  "keyStore_Has P e dir d role = (io_stat_ok e \<and> readFile d (keyStore_path P dir role) \<noteq> None)"

definition keyStore_Get :: "platform \<Rightarrow> io \<Rightarrow> string \<Rightarrow> disk \<Rightarrow> role \<Rightarrow> ks_error + keyEntry" where
  "keyStore_Get P e dir d role =
     (let path = keyStore_path P dir role in
      case readFile d path of
        None \<Rightarrow> Inl ErrRoleNotFound
      | Some sealed \<Rightarrow>
          if \<not> io_read_ok e path then Inl (ErrOther ''read role'')
          else (case UnsealUnique P sealed of
            None \<Rightarrow> Inl (ErrOther ''unseal role'')
          | Some plain \<Rightarrow>
              (case unmarshalEntry P plain of
                 None \<Rightarrow> Inl ErrCorruptedState
               | Some entry \<Rightarrow>
                   if ke_Role entry \<noteq> role then Inl ErrCorruptedState else Inr entry)))"

definition keyStore_writeAtomic ::
    "platform \<Rightarrow> io \<Rightarrow> string \<Rightarrow> disk \<Rightarrow> keyEntry \<Rightarrow> disk \<times> ks_error option" where
  "keyStore_writeAtomic P e dir d entry =
     (case marshalEntry P entry of
        None \<Rightarrow> (d, Some (ErrOther ''marshal entry''))
      | Some plain \<Rightarrow>
          (case SealUnique e plain of
             None \<Rightarrow> (d, Some (ErrOther ''seal entry''))
           | Some sealed \<Rightarrow>
               (let (d', err) = write_tmp_rename (io_wr e) d (keyStore_path P dir (ke_Role entry)) sealed
                in (d', map_option (\<lambda>step. ErrOther (step @ '' role file'')) err))))"

definition keyStore_Provision ::
    "platform \<Rightarrow> io \<Rightarrow> string \<Rightarrow> disk \<Rightarrow> role \<Rightarrow> bytes \<Rightarrow> string \<Rightarrow> disk \<times> ks_error option" where
  "keyStore_Provision P e dir d role key keyType =
     (if keyStore_Has P e dir d role then (d, Some ErrAlreadyProvisioned)
      else keyStore_writeAtomic P e dir d
             \<lparr>ke_Role = role, ke_Key = key, ke_KeyType = keyType, ke_CreatedAt = io_now e\<rparr>)"

fun listRoles_loop :: "platform \<Rightarrow> io \<Rightarrow> string \<Rightarrow> disk \<Rightarrow> string list \<Rightarrow> role list" where
  "listRoles_loop P e dir d [] = []"
| "listRoles_loop P e dir d (nm # nms) =
     (let rest = listRoles_loop P e dir d nms; path = filepath_join dir nm in
      if \<not> hasSuffix nm ''.bin'' then rest
      else (case readFile d path of
         None \<Rightarrow> rest
       | Some sealed \<Rightarrow>
           if \<not> io_read_ok e path then rest
           else (case UnsealUnique P sealed of
              None \<Rightarrow> rest
            | Some plain \<Rightarrow>
                (case unmarshalEntry P plain of
                   None \<Rightarrow> rest
                 | Some entry \<Rightarrow> ke_Role entry # rest))))"

definition keyStore_ListRoles :: "platform \<Rightarrow> io \<Rightarrow> string \<Rightarrow> disk \<Rightarrow> ks_error + role list" where
  "keyStore_ListRoles P e dir d =
     (if \<not> io_readdir_ok e then Inl (ErrOther ''read keystore dir'')
      else Inr (listRoles_loop P e dir d (readDir d dir)))"

subsection \<open>Paths\<close>

lemma role_file_inject [simp]: "role_file dir a = role_file dir b \<longleftrightarrow> a = b"
  by (simp add: role_file_def filepath_join_def)

lemma role_file_not_tmp [simp]: "role_file dir a \<noteq> tmp_path (role_file dir b)"
proof
  assume "role_file dir a = tmp_path (role_file dir b)"
  then have "last (role_file dir a) = last (tmp_path (role_file dir b))" by simp
  then show False by (simp add: role_file_def tmp_path_def filepath_join_def)
qed

subsection \<open>Functional behaviour\<close>

lemma writeAtomic_frame [frame]:
  "h \<noteq> sha256 P (str_bytes (ke_Role entry)) \<Longrightarrow>
     readFile (fst (keyStore_writeAtomic P e dir d entry)) (role_file dir h) = readFile d (role_file dir h)"
  by (auto simp: keyStore_writeAtomic_def keyStore_path_def write_tmp_rename_other split_beta Let_def
      split: option.splits)

lemma writeAtomic_error_keeps:
  "snd (keyStore_writeAtomic P e dir d entry) \<noteq> None \<Longrightarrow>
     readFile (fst (keyStore_writeAtomic P e dir d entry)) (role_file dir h) = readFile d (role_file dir h)"
  by (cases "h = sha256 P (str_bytes (ke_Role entry))")
    (auto simp: keyStore_writeAtomic_def keyStore_path_def write_tmp_rename_path
      write_tmp_rename_other split_beta Let_def dest: write_tmp_rename_SomeD split: option.splits)

lemma writeAtomic_success:
  assumes "snd (keyStore_writeAtomic P e dir d entry) = None"
  obtains plain sealed where "marshalEntry P entry = Some plain" "SealUnique e plain = Some sealed"
    "readFile (fst (keyStore_writeAtomic P e dir d entry)) (keyStore_path P dir (ke_Role entry)) = Some sealed"
  using assms
  by (auto simp: keyStore_writeAtomic_def write_tmp_rename_path write_tmp_rename_ok
      split_beta Let_def split: option.splits)

lemma Provision_error_keeps:
  "snd (keyStore_Provision P e dir d role key kt) \<noteq> None \<Longrightarrow>
     readFile (fst (keyStore_Provision P e dir d role key kt)) (role_file dir h) = readFile d (role_file dir h)"
  by (simp add: keyStore_Provision_def writeAtomic_error_keeps split: if_splits)

text \<open>What a store holds is what \<open>Get\<close> returns: a successful \<open>Get\<close> yields an entry of that role.\<close>

lemma Get_role: "keyStore_Get P e dir d role = Inr entry \<Longrightarrow> ke_Role entry = role"
  by (auto simp: keyStore_Get_def Let_def split: option.splits if_splits)

lemma Get_not_found_iff:
  "keyStore_Get P e dir d role = Inl ErrRoleNotFound \<longleftrightarrow> readFile d (keyStore_path P dir role) = None"
  by (auto simp: keyStore_Get_def Let_def split: option.splits)

lemma Get_sealed:
  assumes "readFile d (keyStore_path P dir (ke_Role entry)) = Some sealed"
    and "seal_law P e" "SealUnique e plain = Some sealed"
    and "entry_codec_law P" "marshalEntry P entry = Some plain" "utf8_keyEntry entry"
    and "io_read_ok e' (keyStore_path P dir (ke_Role entry))"
  shows "keyStore_Get P e' dir d (ke_Role entry) = Inr entry"
proof -
  have "UnsealUnique P sealed = Some plain" using assms(2,3) by (simp add: seal_law_def)
  moreover have "unmarshalEntry P plain = Some entry" using assms(4-6) by (simp add: entry_codec_law_def)
  ultimately show ?thesis using assms(1,7) by (simp add: keyStore_Get_def Let_def)
qed

text \<open>Round trip: a key that was provisioned is read back, with the role, type and time stored.\<close>

lemma Get_after_Provision:
  assumes "snd (keyStore_Provision P e dir d role key kt) = None"
    and laws: "seal_law P e" "entry_codec_law P" "valid_utf8 role" "valid_utf8 kt"
    and "io_read_ok e' (keyStore_path P dir role)"
  shows "keyStore_Get P e' dir (fst (keyStore_Provision P e dir d role key kt)) role =
    Inr \<lparr>ke_Role = role, ke_Key = key, ke_KeyType = kt, ke_CreatedAt = io_now e\<rparr>"
proof -
  let ?en = "\<lparr>ke_Role = role, ke_Key = key, ke_KeyType = kt, ke_CreatedAt = io_now e\<rparr>"
  have run: "keyStore_Provision P e dir d role key kt = keyStore_writeAtomic P e dir d ?en"
    and ok: "snd (keyStore_writeAtomic P e dir d ?en) = None"
    using assms(1) by (auto simp: keyStore_Provision_def split: if_splits)
  from ok obtain plain sealed where "marshalEntry P ?en = Some plain" "SealUnique e plain = Some sealed"
    "readFile (fst (keyStore_writeAtomic P e dir d ?en)) (keyStore_path P dir role) = Some sealed"
    by (rule writeAtomic_success) simp
  then show ?thesis
    using Get_sealed [of "fst (keyStore_writeAtomic P e dir d ?en)" P dir ?en sealed e plain e']
      laws assms(6) run by (simp add: utf8_keyEntry_def)
qed

lemma Get_frame:
  "readFile d' (keyStore_path P dir role) = readFile d (keyStore_path P dir role) \<Longrightarrow>
     keyStore_Get P e dir d' role = keyStore_Get P e dir d role"
  by (simp add: keyStore_Get_def)

subsection \<open>Write-once semantics\<close>

text \<open>
  A Provision call as an operation of a write-once table whose keys are role hashes; the
  assumption on the environment is that \<open>os.Stat\<close> does not fail on an existing file.
\<close>

record provision_call =
  pc_io :: io
  pc_role :: role
  pc_key :: bytes
  pc_type :: string

definition provision_install :: "platform \<Rightarrow> string \<Rightarrow> provision_call \<Rightarrow> disk \<Rightarrow> disk \<times> bool" where
  "provision_install P dir c d =
     (let (d', err) = keyStore_Provision P (pc_io c) dir d (pc_role c) (pc_key c) (pc_type c)
      in (d', err = None))"

definition provision_find :: "string \<Rightarrow> disk \<Rightarrow> bytes \<Rightarrow> bytes option" where
  "provision_find dir d h = readFile d (role_file dir h)"

lemma provision_install_frame:
  assumes "provision_install P dir a s = (s', r)" "k \<noteq> sha256 P (str_bytes (pc_role a)) \<or> \<not> r"
  shows "provision_find dir s' k = provision_find dir s k"
  using assms
  by (auto simp: provision_install_def keyStore_Provision_def provision_find_def split_beta Let_def
      writeAtomic_frame writeAtomic_error_keeps split: if_splits)

interpretation role_keys: write_once "provision_find dir" "provision_install P dir"
    "\<lambda>c. sha256 P (str_bytes (pc_role c))" "\<lambda>c. io_stat_ok (pc_io c)"
  for P dir
proof
  fix a s s'
  assume "io_stat_ok (pc_io a)" "provision_install P dir a s = (s', True)"
  then have "readFile s (keyStore_path P dir (pc_role a)) = None"
    and "snd (keyStore_writeAtomic P (pc_io a) dir s
            \<lparr>ke_Role = pc_role a, ke_Key = pc_key a, ke_KeyType = pc_type a, ke_CreatedAt = io_now (pc_io a)\<rparr>) = None"
    and "s' = fst (keyStore_writeAtomic P (pc_io a) dir s
            \<lparr>ke_Role = pc_role a, ke_Key = pc_key a, ke_KeyType = pc_type a, ke_CreatedAt = io_now (pc_io a)\<rparr>)"
    by (auto simp: provision_install_def keyStore_Provision_def keyStore_Has_def split_beta Let_def
        split: if_splits)
  then show "provision_find dir s (sha256 P (str_bytes (pc_role a))) = None \<and>
      provision_find dir s' (sha256 P (str_bytes (pc_role a))) \<noteq> None"
    by (auto simp: provision_find_def keyStore_path_def elim!: writeAtomic_success)
next
  fix a s s' r k v
  assume ok: "io_stat_ok (pc_io a)" and run: "provision_install P dir a s = (s', r)"
    and v: "provision_find dir s k = Some v"
  have "k \<noteq> sha256 P (str_bytes (pc_role a)) \<or> \<not> r"
    using ok run v
    by (auto simp: provision_install_def keyStore_Provision_def provision_find_def split_beta Let_def
        keyStore_Has_def keyStore_path_def)
  with provision_install_frame [OF run] v show "provision_find dir s' k = Some v" by simp
qed

fun provision_run :: "platform \<Rightarrow> string \<Rightarrow> provision_call list \<Rightarrow> disk \<Rightarrow> disk \<times> bool list" where
  "provision_run P dir [] d = (d, [])"
| "provision_run P dir (c # cs) d =
     (let (d1, r) = provision_install P dir c d; (d2, rs) = provision_run P dir cs d1 in (d2, r # rs))"

lemma provision_run_eq: "provision_run P dir cs d = role_keys.run P dir cs d"
  by (induction cs arbitrary: d) auto

subsection \<open>Properties\<close>


text \<open>
  A provisioned key is read back exactly, and a failed Provision changes no role's key file.
\<close>

theorem provision_get_roundtrip:
  assumes "seal_law P e" "entry_codec_law P" "valid_utf8 role" "valid_utf8 kt"
    and "keyStore_Provision P e dir d role key kt = (d', err)"
  shows "(err = None \<longrightarrow> io_read_ok e' (keyStore_path P dir role) \<longrightarrow>
           keyStore_Get P e' dir d' role =
             Inr \<lparr>ke_Role = role, ke_Key = key, ke_KeyType = kt, ke_CreatedAt = io_now e\<rparr>)
     \<and> (err \<noteq> None \<longrightarrow> keyStore_Get P e' dir d' r = keyStore_Get P e' dir d r)"
proof -
  have "keyStore_Get P e' dir d' r = keyStore_Get P e' dir d r" if "err \<noteq> None"
    using assms(5) that Provision_error_keeps [of P e dir d role key kt]
    by (intro Get_frame) (simp add: keyStore_path_def)
  then show ?thesis
    using Get_after_Provision [of P e dir d role key kt e'] assms by auto
qed

text \<open>
  Crash atomicity of \<open>writeAtomic\<close>: wherever the process dies, \<open>Get\<close> on the surviving disk
  returns either what it returned before or the new entry; other roles' keys are unaffected.
\<close>

theorem writeAtomic_crash_atomic:
  assumes "seal_law P e" "entry_codec_law P" "utf8_keyEntry entry"
    and "marshalEntry P entry = Some plain" "SealUnique e plain = Some sealed"
    and "\<And>p. io_read_ok e' p"
  shows "keyStore_Get P e' dir (crash_disk c d (keyStore_path P dir (ke_Role entry)) sealed) role =
    (if sha256 P (str_bytes role) = sha256 P (str_bytes (ke_Role entry)) \<and> c = AfterRename
     then (if role = ke_Role entry then Inr entry else Inl ErrCorruptedState)
     else keyStore_Get P e' dir d role)"
proof (cases "sha256 P (str_bytes role) = sha256 P (str_bytes (ke_Role entry))")
  case same: True
  then have path: "keyStore_path P dir role = keyStore_path P dir (ke_Role entry)"
    by (simp add: keyStore_path_def)
  have new: "UnsealUnique P sealed = Some plain" "unmarshalEntry P plain = Some entry"
    using assms by (simp_all add: seal_law_def entry_codec_law_def)
  let ?D = "crash_disk c d (keyStore_path P dir (ke_Role entry)) sealed"
  have rd: "readFile ?D (keyStore_path P dir role)
      = (if c = AfterRename then Some sealed else readFile d (keyStore_path P dir role))"
    unfolding path by (rule crash_disk_path)
  show ?thesis
  proof (cases "c = AfterRename")
    case True
    then show ?thesis using rd new assms(6) same
      unfolding keyStore_Get_def Let_def by (simp split: if_splits)
  next
    case False
    then show ?thesis using Get_frame [of ?D P dir role d] rd by simp
  qed
next
  case False
  then have "readFile (crash_disk c d (keyStore_path P dir (ke_Role entry)) sealed) (keyStore_path P dir role)
      = readFile d (keyStore_path P dir role)"
    by (simp add: keyStore_path_def crash_disk_other)
  then have "keyStore_Get P e' dir (crash_disk c d (keyStore_path P dir (ke_Role entry)) sealed) role
      = keyStore_Get P e' dir d role" by (rule Get_frame)
  with False show ?thesis by simp
qed

end
