(* ===== verification/Ks_Allowlist.thy ===== *)
theory Ks_Allowlist
  imports Ks_Store
begin

text \<open>
  \<open>internal/keystore/allowlist.go\<close>: the per-role lists of MRENCLAVEs that may fetch a key, kept
  in memory and rewritten in full, sealed, on every change. The lemmas show that it implements a
  set of (role, MRENCLAVE) pairs, that a failed write leaves the set as it was, and that what is
  on disk loads back to what is in memory.
\<close>

subsection \<open>State and operations\<close>

record allowlist =
  al_path :: string
  al_roles :: "(role \<times> mrenclave list) list"

text \<open>\<open>a.roles[role]\<close>: a missing key reads as the nil slice.\<close>

definition roles_of :: "allowlist \<Rightarrow> role \<Rightarrow> mrenclave list" where
  "roles_of a r = (case map_of (al_roles a) r of None \<Rightarrow> [] | Some l \<Rightarrow> l)"

definition set_role :: "allowlist \<Rightarrow> role \<Rightarrow> mrenclave list \<Rightarrow> allowlist" where
  "set_role a r l = a\<lparr>al_roles := AList.update r l (al_roles a)\<rparr>"

fun load_roles ::
    "(string \<times> string list) list \<Rightarrow> (role \<times> mrenclave list) list \<Rightarrow> (role \<times> mrenclave list) list option" where
  "load_roles [] acc = Some acc"
| "load_roles ((k, v) # rest) acc =
     (if validateRole k \<noteq> None then None
      else (case map_result decodeMRENCLAVEHex v of
              None \<Rightarrow> None
            | Some mrencs \<Rightarrow> load_roles rest (AList.update k mrencs acc)))"

definition loadAllowlist :: "platform \<Rightarrow> io \<Rightarrow> disk \<Rightarrow> string \<Rightarrow> ks_error + allowlist" where
  "loadAllowlist P e d path =
     (case readFile d path of
        None \<Rightarrow> Inr \<lparr>al_path = path, al_roles = []\<rparr>
      | Some sealed \<Rightarrow>
          if \<not> io_read_ok e path then Inl (ErrOther ''read allowlist'')
          else (case UnsealUnique P sealed of
             None \<Rightarrow> Inl (ErrOther ''unseal allowlist'')
           | Some plain \<Rightarrow>
               (case unmarshalAllow P plain of
                  None \<Rightarrow> Inl ErrCorruptedState
                | Some onDisk \<Rightarrow>
                    (case load_roles onDisk [] of
                       None \<Rightarrow> Inl ErrCorruptedState
                     | Some rs \<Rightarrow> Inr \<lparr>al_path = path, al_roles = rs\<rparr>))))"

definition allowlist_Allowed :: "allowlist \<Rightarrow> role \<Rightarrow> mrenclave \<Rightarrow> bool" where
  "allowlist_Allowed a role m = list_ex (\<lambda>x. x = m) (roles_of a role)"

definition allowlist_Get :: "allowlist \<Rightarrow> role \<Rightarrow> mrenclave list" where
  "allowlist_Get a role = roles_of a role"

definition allowlist_Snapshot :: "allowlist \<Rightarrow> (role \<times> mrenclave list) list" where
  "allowlist_Snapshot a = map (\<lambda>(k, v). (k, v)) (al_roles a)"

definition allowlist_persistLocked ::
    "platform \<Rightarrow> io \<Rightarrow> disk \<Rightarrow> allowlist \<Rightarrow> disk \<times> ks_error option" where
  "allowlist_persistLocked P e d a =
     (let onDisk = map (\<lambda>(role, mrencs). (role, map encodeMRENCLAVEHex mrencs)) (al_roles a) in
      case marshalAllow P onDisk of
        None \<Rightarrow> (d, Some (ErrOther ''marshal allowlist''))
      | Some plain \<Rightarrow>
          (case SealUnique e plain of
             None \<Rightarrow> (d, Some (ErrOther ''seal allowlist''))
           | Some sealed \<Rightarrow>
               if \<not> mkdir_ok (io_wr e) then (d, Some (ErrOther ''mkdir allowlist dir''))
               else (let (d', err) = write_tmp_rename (io_wr e) d (al_path a) sealed
                     in (d', map_option (\<lambda>step. ErrOther (step @ '' allowlist'')) err))))"

text \<open>
  On a failed write the in-memory append is undone by truncating the slice; the key of a role
  that had no entry stays in the map with the empty slice.
\<close>

definition allowlist_Add ::
    "platform \<Rightarrow> io \<Rightarrow> disk \<Rightarrow> allowlist \<Rightarrow> role \<Rightarrow> mrenclave
       \<Rightarrow> disk \<times> allowlist \<times> (ks_error + mrenclave list)" where
  "allowlist_Add P e d a role m =
     (if list_ex (\<lambda>x. x = m) (roles_of a role) then (d, a, Inr (roles_of a role))
      else (let a1 = set_role a role (roles_of a role @ [m]) in
            case allowlist_persistLocked P e d a1 of
              (d', Some err) \<Rightarrow>
                (d', set_role a1 role (take (length (roles_of a1 role) - 1) (roles_of a1 role)), Inl err)
            | (d', None) \<Rightarrow> (d', a1, Inr (roles_of a1 role))))"

fun find_idx :: "mrenclave \<Rightarrow> mrenclave list \<Rightarrow> nat option" where
  "find_idx m [] = None"
| "find_idx m (x # xs) = (if x = m then Some 0 else map_option Suc (find_idx m xs))"

definition allowlist_Remove ::
    "platform \<Rightarrow> io \<Rightarrow> disk \<Rightarrow> allowlist \<Rightarrow> role \<Rightarrow> mrenclave \<Rightarrow> disk \<times> allowlist \<times> ks_error option" where
  "allowlist_Remove P e d a role m =
     (let cur = roles_of a role in
      case find_idx m cur of
        None \<Rightarrow> (d, a, None)
      | Some idx \<Rightarrow>
          (let a1 = set_role a role (take idx cur @ drop (idx + 1) cur) in
           case allowlist_persistLocked P e d a1 of
             (d', Some err) \<Rightarrow> (d', set_role a1 role cur, Some err)
           | (d', None) \<Rightarrow> (d', a1, None)))"

subsection \<open>Invariant\<close>

definition al_inv :: "allowlist \<Rightarrow> bool" where
  "al_inv a = (keys_distinct (al_roles a) \<and>
     (\<forall>(r, l) \<in> set (al_roles a). validateRole r = None \<and> distinct l \<and> (\<forall>m \<in> set l. length m = 32)))"

lemma roles_of_set_role [simp]: "roles_of (set_role a r l) r' = (if r' = r then l else roles_of a r')"
  by (simp add: roles_of_def set_role_def)

lemma al_path_set_role [simp]: "al_path (set_role a r l) = al_path a"
  by (simp add: set_role_def)

lemma al_inv_roles_of:
  "al_inv a \<Longrightarrow> distinct (roles_of a r) \<and> (\<forall>m \<in> set (roles_of a r). length m = 32)"
  by (auto simp: al_inv_def roles_of_def split: option.splits dest!: map_of_SomeD)

lemma al_inv_set_role:
  assumes "al_inv a" "validateRole r = None" "distinct l" "\<forall>m \<in> set l. length m = 32"
  shows "al_inv (set_role a r l)"
proof -
  have "validateRole k = None \<and> distinct v \<and> (\<forall>m \<in> set v. length m = 32)"
    if "(k, v) \<in> set (AList.update r l (al_roles a))" for k v
  proof -
    have "keys_distinct (AList.update r l (al_roles a))" using assms(1) by (simp add: al_inv_def)
    then have "map_of (AList.update r l (al_roles a)) k = Some v" using that by (rule map_of_is_SomeI)
    then show ?thesis
      using assms by (auto simp: al_inv_def split: if_splits dest!: map_of_SomeD)
  qed
  then show ?thesis using assms(1) by (auto simp: al_inv_def set_role_def)
qed

lemma Allowed_iff: "allowlist_Allowed a r m \<longleftrightarrow> m \<in> set (roles_of a r)"
  by (auto simp: allowlist_Allowed_def list_ex_iff)

subsection \<open>Persisting and loading\<close>

text \<open>Two allowlists that answer alike: an empty slice and a missing key are the same.\<close>

definition al_equiv :: "allowlist \<Rightarrow> allowlist \<Rightarrow> bool" where
  "al_equiv a b = (al_path a = al_path b \<and> roles_of a = roles_of b)"

definition al_synced :: "platform \<Rightarrow> disk \<Rightarrow> allowlist \<Rightarrow> bool" where
  "al_synced P d a =
     (\<forall>e. io_read_ok e (al_path a) \<longrightarrow>
        (\<exists>a'. loadAllowlist P e d (al_path a) = Inr a' \<and> al_equiv a' a))"

lemma persist_error_keeps:
  "snd (allowlist_persistLocked P e d a) \<noteq> None \<Longrightarrow>
     readFile (fst (allowlist_persistLocked P e d a)) (al_path a) = readFile d (al_path a)"
  by (auto simp: allowlist_persistLocked_def write_tmp_rename_path split_beta Let_def
      dest: write_tmp_rename_SomeD split: option.splits)

lemma persist_frame [frame]:
  "p \<noteq> al_path a \<Longrightarrow> p \<noteq> tmp_path (al_path a) \<Longrightarrow>
     readFile (fst (allowlist_persistLocked P e d a)) p = readFile d p"
  by (auto simp: allowlist_persistLocked_def write_tmp_rename_other split_beta Let_def
      split: option.splits)

lemma persist_success:
  assumes "snd (allowlist_persistLocked P e d a) = None"
  obtains plain sealed where
    "marshalAllow P (map (\<lambda>(r, ms). (r, map encodeMRENCLAVEHex ms)) (al_roles a)) = Some plain"
    "SealUnique e plain = Some sealed"
    "readFile (fst (allowlist_persistLocked P e d a)) (al_path a) = Some sealed"
  using assms
  by (auto simp: allowlist_persistLocked_def write_tmp_rename_path write_tmp_rename_ok
      split_beta Let_def split: option.splits if_splits)

lemma map_result_decode:
  "\<forall>m \<in> set ms. length m = 32 \<Longrightarrow> map_result decodeMRENCLAVEHex (map encodeMRENCLAVEHex ms) = Some ms"
  by (induction ms) (auto simp: decode_encodeMRENCLAVEHex)

lemma load_roles_of_written:
  assumes "keys_distinct m"
    and "\<And>k v. (k, v) \<in> set m \<Longrightarrow> validateRole k = None \<and> (\<exists>ms. v = map encodeMRENCLAVEHex ms \<and> (\<forall>x \<in> set ms. length x = 32))"
  shows "\<exists>rs. load_roles m acc = Some rs \<and>
    (\<forall>k. map_of rs k = (case map_of m k of Some v \<Rightarrow> map_result decodeMRENCLAVEHex v | None \<Rightarrow> map_of acc k))"
  using assms
proof (induction m arbitrary: acc)
  case (Cons kv m)
  obtain k v where kv: "kv = (k, v)" by fastforce
  with Cons.prems(2) [of k v] obtain ms where v: "validateRole k = None" "v = map encodeMRENCLAVEHex ms"
    "\<forall>x \<in> set ms. length x = 32" by auto
  then have dec: "map_result decodeMRENCLAVEHex v = Some ms" by (simp add: map_result_decode)
  have "map_of m k = None" using Cons.prems(1) kv by (simp add: map_of_eq_None_iff)
  moreover obtain rs where "load_roles m (AList.update k ms acc) = Some rs"
    "\<forall>j. map_of rs j = (case map_of m j of Some v \<Rightarrow> map_result decodeMRENCLAVEHex v
        | None \<Rightarrow> map_of (AList.update k ms acc) j)"
    using Cons.IH [of "AList.update k ms acc"] Cons.prems kv by auto
  ultimately show ?case using kv v dec by (auto split: option.splits)
qed simp

lemma load_written:
  assumes laws: "codec_laws P" "seal_law P e" and inv: "al_inv a"
    and ok: "snd (allowlist_persistLocked P e d a) = None"
  shows "al_synced P (fst (allowlist_persistLocked P e d a)) a"
  unfolding al_synced_def
proof (intro allI impI)
  fix e' :: io assume rd: "io_read_ok e' (al_path a)"
  let ?m = "map (\<lambda>(r, ms). (r, map encodeMRENCLAVEHex ms)) (al_roles a)"
  obtain plain sealed where w: "marshalAllow P ?m = Some plain" "SealUnique e plain = Some sealed"
    "readFile (fst (allowlist_persistLocked P e d a)) (al_path a) = Some sealed"
    using ok by (rule persist_success)
  have kd: "keys_distinct ?m" using inv by (simp add: al_inv_def fst_map_value del: map_map)
  have "\<forall>(k, vs) \<in> set ?m. valid_utf8 k \<and> list_all valid_utf8 vs"
    using inv by (auto simp: al_inv_def list_all_iff)
  then obtain m' where m': "unmarshalAllow P plain = Some m'" "keys_distinct m'" "map_of m' = map_of ?m"
    using laws(1) w(1) kd unfolding codec_laws_def allow_codec_law_def by blast
  have "validateRole k = None \<and> (\<exists>ms. v = map encodeMRENCLAVEHex ms \<and> (\<forall>x \<in> set ms. length x = 32))"
    if "(k, v) \<in> set m'" for k v
  proof -
    have "map_of ?m k = Some v" using m' that map_of_is_SomeI by metis
    then have "(k, v) \<in> set ?m" by (rule map_of_SomeD)
    then show ?thesis using inv by (auto simp: al_inv_def)
  qed
  then obtain rs where rs: "load_roles m' [] = Some rs"
    "\<forall>k. map_of rs k = (case map_of m' k of Some v \<Rightarrow> map_result decodeMRENCLAVEHex v | None \<Rightarrow> map_of [] k)"
    using load_roles_of_written [OF m'(2), of "[]"] by blast
  have "roles_of \<lparr>al_path = al_path a, al_roles = rs\<rparr> r = roles_of a r" for r
  proof (cases "map_of (al_roles a) r")
    case None
    then show ?thesis using rs(2) m'(3) by (simp add: roles_of_def map_of_map_value)
  next
    case (Some l)
    then have "\<forall>x \<in> set l. length x = 32" using al_inv_roles_of [OF inv, of r] by (simp add: roles_of_def)
    then show ?thesis
      using Some rs(2) m'(3) by (simp add: roles_of_def map_of_map_value map_result_decode)
  qed
  then have "al_equiv \<lparr>al_path = al_path a, al_roles = rs\<rparr> a" by (auto simp: al_equiv_def)
  moreover have "UnsealUnique P sealed = Some plain" using laws(2) w(2) by (simp add: seal_law_def)
  ultimately show "\<exists>a'. loadAllowlist P e' (fst (allowlist_persistLocked P e d a)) (al_path a) = Inr a' \<and> al_equiv a' a"
    using w(3) m'(1) rs(1) rd by (simp add: loadAllowlist_def)
qed

lemma al_synced_frame:
  "al_synced P d a \<Longrightarrow> readFile d' (al_path a) = readFile d (al_path a) \<Longrightarrow> al_equiv a' a \<Longrightarrow>
     al_synced P d' a'"
  by (auto simp: al_synced_def loadAllowlist_def al_equiv_def)

lemma load_roles_wf:
  "load_roles m acc = Some rs \<Longrightarrow> keys_distinct acc \<Longrightarrow> (\<forall>k \<in> fst ` set acc. validateRole k = None) \<Longrightarrow>
     keys_distinct rs \<and> (\<forall>k \<in> fst ` set rs. validateRole k = None)"
proof (induction m arbitrary: acc)
  case (Cons kv rest)
  obtain k v where kv: "kv = (k, v)" by fastforce
  then obtain ms where ms: "validateRole k = None" "load_roles rest (AList.update k ms acc) = Some rs"
    using Cons.prems(1) by (auto split: if_splits option.splits)
  have "fst ` set (AList.update k ms acc) = insert k (fst ` set acc)" by (simp add: dom_update)
  then show ?case using Cons.IH [OF ms(2)] ms(1) Cons.prems(2,3) by auto
qed simp

lemma load_inv:
  assumes "loadAllowlist P e d path = Inr a'" "al_equiv a' a" "al_inv a"
  shows "al_inv a'"
proof -
  have "\<exists>m. load_roles m [] = Some (al_roles a')"
    using assms(1) by (auto simp: loadAllowlist_def split: option.splits if_splits intro: exI [of _ "[]"])
  then obtain m where "load_roles m [] = Some (al_roles a')" ..
  from load_roles_wf [OF this]
  have wf: "keys_distinct (al_roles a')" "\<forall>k \<in> fst ` set (al_roles a'). validateRole k = None"
    by simp_all
  have "distinct l \<and> (\<forall>m \<in> set l. length m = 32)" if "(r, l) \<in> set (al_roles a')" for r l
  proof -
    have "roles_of a' r = l" using wf(1) that by (simp add: roles_of_def)
    then show ?thesis using al_inv_roles_of [OF assms(3), of r] assms(2) by (auto simp: al_equiv_def)
  qed
  then show ?thesis using wf by (force simp: al_inv_def)
qed

lemma load_synced:
  assumes "al_synced P d a" "loadAllowlist P e d (al_path a) = Inr a'"
  shows "al_equiv a' a"
proof -
  let ?e = "e\<lparr>io_read_ok := (\<lambda>_. True)\<rparr>"
  have "loadAllowlist P ?e d (al_path a) = Inr a'"
    using assms(2) by (auto simp: loadAllowlist_def split: option.splits if_splits)
  moreover obtain b where "loadAllowlist P ?e d (al_path a) = Inr b" "al_equiv b a"
    using assms(1) unfolding al_synced_def by (metis (no_types, lifting) io.select_convs(4) io.surjective io.update_convs(4))
  ultimately show ?thesis by simp
qed

subsection \<open>The operations\<close>

lemma find_idx_None: "find_idx m l = None \<longleftrightarrow> m \<notin> set l"
  by (induction l) auto

lemma find_idx_remove1: "find_idx m l = Some i \<Longrightarrow> take i l @ drop (Suc i) l = remove1 m l \<and> m \<in> set l"
  by (induction l arbitrary: i) (auto split: if_splits)

lemma al_inv_role: "al_inv a \<Longrightarrow> m \<in> set (roles_of a r) \<Longrightarrow> validateRole r = None"
  by (auto simp: al_inv_def roles_of_def split: option.splits dest!: map_of_SomeD)

lemma Add_roles:
  assumes "allowlist_Add P e d a role m = (d', a', res)"
  shows "al_path a' = al_path a \<and>
    roles_of a' r = (if r = role \<and> \<not> isl res \<and> m \<notin> set (roles_of a role)
                     then roles_of a role @ [m] else roles_of a r)"
  using assms
  by (auto simp: allowlist_Add_def list_ex_iff Let_def split: if_splits prod.splits option.splits)

lemma Add_result:
  "allowlist_Add P e d a role m = (d', a', Inr l) \<Longrightarrow> l = roles_of a' role \<and> m \<in> set l"
  by (auto simp: allowlist_Add_def list_ex_iff Let_def split: if_splits prod.splits option.splits)

lemma Add_inv:
  assumes "al_inv a" "validateRole role = None" "length m = 32"
    and "allowlist_Add P e d a role m = (d', a', res)"
  shows "al_inv a'"
proof -
  have new: "al_inv (set_role a role (roles_of a role @ [m]))" if "m \<notin> set (roles_of a role)"
    using assms al_inv_roles_of [OF assms(1), of role] that by (intro al_inv_set_role) auto
  have old: "al_inv (set_role (set_role a role (roles_of a role @ [m])) role (roles_of a role))"
    if "m \<notin> set (roles_of a role)"
    using al_inv_roles_of [OF assms(1), of role] assms new that by (intro al_inv_set_role) auto
  show ?thesis
    using assms(1,4) new old
    by (auto simp: allowlist_Add_def list_ex_iff Let_def split: if_splits prod.splits option.splits)
qed

lemma Remove_roles:
  assumes "allowlist_Remove P e d a role m = (d', a', err)"
  shows "al_path a' = al_path a \<and>
    roles_of a' r = (if r = role \<and> err = None then remove1 m (roles_of a role) else roles_of a r)"
  using assms
  by (auto simp: allowlist_Remove_def Let_def find_idx_None remove1_idem
      split: if_splits prod.splits option.splits dest!: find_idx_remove1)

lemma Remove_inv:
  assumes "al_inv a" "allowlist_Remove P e d a role m = (d', a', err)"
  shows "al_inv a'"
proof (cases "find_idx m (roles_of a role)")
  case None
  then show ?thesis using assms by (simp add: allowlist_Remove_def)
next
  case (Some i)
  let ?l = "take i (roles_of a role) @ drop (Suc i) (roles_of a role)"
  have l: "?l = remove1 m (roles_of a role)" "m \<in> set (roles_of a role)"
    using find_idx_remove1 [OF Some] by auto
  have rl: "validateRole role = None" using al_inv_role [OF assms(1) l(2)] .
  have wf: "distinct (roles_of a role)" "\<forall>x \<in> set (roles_of a role). length x = 32"
    using al_inv_roles_of [OF assms(1)] by auto
  have new: "al_inv (set_role a role ?l)"
    unfolding l(1) using wf rl assms(1) by (intro al_inv_set_role) (auto dest: notin_set_remove1 in_set_remove1 [THEN iffD1] simp: set_remove1_eq)
  then have "al_inv (set_role (set_role a role ?l) role (roles_of a role))"
    using wf rl by (simp add: al_inv_set_role)
  with new show ?thesis
    using assms(2) Some by (auto simp: allowlist_Remove_def Let_def split: prod.splits option.splits)
qed

lemma Add_frame [frame]:
  assumes "allowlist_Add P e d a role m = (d', a', res)" "p \<noteq> al_path a" "p \<noteq> tmp_path (al_path a)"
  shows "readFile d' p = readFile d p"
  using assms persist_frame [of p "set_role a role (roles_of a role @ [m])" P e d]
  by (auto simp: allowlist_Add_def Let_def split: if_splits prod.splits option.splits)

lemma Remove_frame [frame]:
  assumes "allowlist_Remove P e d a role m = (d', a', err)" "p \<noteq> al_path a" "p \<noteq> tmp_path (al_path a)"
  shows "readFile d' p = readFile d p"
  using assms persist_frame [of p "set_role a role l" P e d for l]
  by (auto simp: allowlist_Remove_def Let_def split: if_splits prod.splits option.splits)
    (metis al_path_set_role fst_conv persist_frame)+

lemma al_equiv_sym: "al_equiv a b \<Longrightarrow> al_equiv b a"
  by (simp add: al_equiv_def)

lemma Add_synced:
  assumes laws: "codec_laws P" "seal_law P e" and inv: "al_inv a" "validateRole role = None" "length m = 32"
    and sync: "al_synced P d a" and run: "allowlist_Add P e d a role m = (d', a', res)"
  shows "al_synced P d' a'"
proof (cases "m \<in> set (roles_of a role)")
  case True
  then show ?thesis using run sync by (auto simp: allowlist_Add_def list_ex_iff)
next
  case False
  let ?a1 = "set_role a role (roles_of a role @ [m])"
  have d': "d' = fst (allowlist_persistLocked P e d ?a1)"
    and err: "isl res \<longleftrightarrow> snd (allowlist_persistLocked P e d ?a1) \<noteq> None"
    using False run
    by (auto simp: allowlist_Add_def list_ex_iff Let_def split: prod.splits option.splits)
  show ?thesis
  proof (cases "isl res")
    case True
    then have "al_equiv a' a" using Add_roles [OF run] by (auto simp: al_equiv_def)
    moreover have "readFile d' (al_path a) = readFile d (al_path a)"
      using persist_error_keeps [of P e d ?a1] err True d' by simp
    ultimately show ?thesis using sync al_synced_frame by blast
  next
    case res: False
    have "a' = ?a1" using False res run
      by (auto simp: allowlist_Add_def list_ex_iff Let_def split: prod.splits option.splits)
    moreover have "al_inv ?a1"
      using inv al_inv_roles_of [OF inv(1), of role] False by (intro al_inv_set_role) auto
    ultimately show ?thesis using load_written [OF laws] err res d' by simp
  qed
qed

lemma Remove_synced:
  assumes laws: "codec_laws P" "seal_law P e" and inv: "al_inv a"
    and sync: "al_synced P d a" and run: "allowlist_Remove P e d a role m = (d', a', err)"
  shows "al_synced P d' a'"
proof (cases "find_idx m (roles_of a role)")
  case None
  then show ?thesis using run sync by (simp add: allowlist_Remove_def)
next
  case (Some i)
  let ?a1 = "set_role a role (take i (roles_of a role) @ drop (Suc i) (roles_of a role))"
  have d': "d' = fst (allowlist_persistLocked P e d ?a1)"
    and err: "err = snd (allowlist_persistLocked P e d ?a1)"
    using Some run by (auto simp: allowlist_Remove_def Let_def split: prod.splits option.splits)
  show ?thesis
  proof (cases err)
    case None
    then have "a' = ?a1" using Some run
      by (auto simp: allowlist_Remove_def Let_def split: prod.splits option.splits)
    with Remove_inv [OF inv run] show ?thesis using load_written [OF laws] err None d' by simp
  next
    case (Some z)
    then have "al_equiv a' a" using Remove_roles [OF run] by (auto simp: al_equiv_def)
    moreover have "readFile d' (al_path a) = readFile d (al_path a)"
      using persist_error_keeps [of P e d ?a1] Some by (simp add: d' err [symmetric])
    ultimately show ?thesis using sync al_synced_frame by blast
  qed
qed

subsection \<open>The allowlist as a set\<close>

definition al_member :: "disk \<times> allowlist \<Rightarrow> role \<times> mrenclave \<Rightarrow> bool" where
  "al_member s x = allowlist_Allowed (snd s) (fst x) (snd x)"

definition al_add :: "platform \<Rightarrow> io \<Rightarrow> disk \<times> allowlist \<Rightarrow> role \<times> mrenclave \<Rightarrow> (disk \<times> allowlist) \<times> bool" where
  "al_add P e s x =
     (let (d', a', res) = allowlist_Add P e (fst s) (snd s) (fst x) (snd x) in ((d', a'), \<not> isl res))"

definition al_del :: "platform \<Rightarrow> io \<Rightarrow> disk \<times> allowlist \<Rightarrow> role \<times> mrenclave \<Rightarrow> (disk \<times> allowlist) \<times> bool" where
  "al_del P e s x =
     (let (d', a', err) = allowlist_Remove P e (fst s) (snd s) (fst x) (snd x) in ((d', a'), err = None))"

interpretation allow: guarded_set "\<lambda>s. al_inv (snd s)" al_member "al_add P" "al_del P"
    "\<lambda>x. validateRole (fst x) = None \<and> length (snd x) = 32"
  for P
proof
  fix s :: "disk \<times> allowlist" and x y :: "role \<times> mrenclave" and e :: io
  assume inv: "al_inv (snd s)"
  obtain d1 a1 r1 where A: "allowlist_Add P e (fst s) (snd s) (fst x) (snd x) = (d1, a1, r1)"
    by (metis prod_cases3)
  obtain d2 a2 r2 where R: "allowlist_Remove P e (fst s) (snd s) (fst x) (snd x) = (d2, a2, r2)"
    by (metis prod_cases3)
  show "validateRole (fst x) = None \<and> length (snd x) = 32 \<Longrightarrow> al_inv (snd (fst (al_add P e s x)))"
    using Add_inv [OF inv _ _ A] A by (simp add: al_add_def)
  show "al_inv (snd (fst (al_del P e s x)))"
    using Remove_inv [OF inv R] R by (simp add: al_del_def)
  have "\<not> isl r1 \<Longrightarrow> snd x \<in> set (roles_of a1 (fst x))"
    using A Add_result by (cases r1) auto
  then show "al_member (fst (al_add P e s x)) y \<longleftrightarrow> al_member s y \<or> (snd (al_add P e s x) \<and> y = x)"
    using Add_roles [OF A, of "fst y"] A
    by (cases x; cases y) (auto simp: al_add_def al_member_def Allowed_iff split: if_splits)
  have "distinct (roles_of (snd s) (fst x))" using al_inv_roles_of [OF inv] by blast
  then show "al_member (fst (al_del P e s x)) y \<longleftrightarrow> al_member s y \<and> \<not> (snd (al_del P e s x) \<and> y = x)"
    using Remove_roles [OF R, of "fst y"] R
    by (cases x; cases y) (auto simp: al_del_def al_member_def Allowed_iff set_remove1_eq split: if_splits)
qed

text \<open>A sequence of calls, each with its own environment, and what each reported.\<close>

datatype al_op = OpAdd io role mrenclave | OpRemove io role mrenclave

fun al_step :: "platform \<Rightarrow> al_op \<Rightarrow> disk \<times> allowlist \<Rightarrow> (disk \<times> allowlist) \<times> bool" where
  "al_step P (OpAdd e r m) s = al_add P e s (r, m)"
| "al_step P (OpRemove e r m) s = al_del P e s (r, m)"

fun al_run :: "platform \<Rightarrow> al_op list \<Rightarrow> disk \<times> allowlist \<Rightarrow> (disk \<times> allowlist) \<times> bool list" where
  "al_run P [] s = (s, [])"
| "al_run P (op # ops) s =
     (let (s1, r) = al_step P op s; (s2, rs) = al_run P ops s1 in (s2, r # rs))"

fun al_spec :: "al_op list \<Rightarrow> bool list \<Rightarrow> (role \<times> mrenclave) set \<Rightarrow> (role \<times> mrenclave) set" where
  "al_spec (OpAdd e r m # ops) (b # bs) A = al_spec ops bs (if b then insert (r, m) A else A)"
| "al_spec (OpRemove e r m # ops) (b # bs) A = al_spec ops bs (if b then A - {(r, m)} else A)"
| "al_spec _ _ A = A"

fun al_op_ok :: "platform \<Rightarrow> al_op \<Rightarrow> bool" where
  "al_op_ok P (OpAdd e r m) = (seal_law P e \<and> validateRole r = None \<and> length m = 32)"
| "al_op_ok P (OpRemove e r m) = seal_law P e"

fun al_conv :: "al_op \<Rightarrow> (io \<times> role \<times> mrenclave) + (io \<times> role \<times> mrenclave)" where
  "al_conv (OpAdd e r m) = Inl (e, r, m)"
| "al_conv (OpRemove e r m) = Inr (e, r, m)"

lemma al_run_eq: "al_run P ops s = allow.run P (map al_conv ops) s"
proof (induction ops arbitrary: s)
  case (Cons op ops)
  then show ?case by (cases op) auto
qed simp

lemma al_spec_eq: "al_spec ops bs A = allow.spec (map al_conv ops) bs A"
  by (induction ops bs A rule: al_spec.induct) (auto simp: allow.spec.simps)

lemma al_ops_ok: "list_all (al_op_ok P) ops \<Longrightarrow> allow.ops_ok (map al_conv ops)"
proof (induction ops)
  case (Cons op ops)
  then show ?case by (cases op) auto
qed simp

lemma al_step_synced:
  assumes "codec_laws P" "al_op_ok P op" "al_inv a" "al_synced P d a" "al_step P op (d, a) = ((d', a'), b)"
  shows "al_inv a' \<and> al_synced P d' a' \<and> al_path a' = al_path a"
proof (cases op)
  case (OpAdd e r m)
  then obtain res where "allowlist_Add P e d a r m = (d', a', res)"
    using assms(5) by (auto simp: al_add_def split: prod.splits)
  then show ?thesis using OpAdd assms Add_synced Add_inv Add_roles by simp blast
next
  case (OpRemove e r m)
  then obtain err where "allowlist_Remove P e d a r m = (d', a', err)"
    using assms(5) by (auto simp: al_del_def split: prod.splits)
  then show ?thesis using OpRemove assms Remove_synced Remove_inv Remove_roles by simp
qed

lemma al_run_synced:
  "codec_laws P \<Longrightarrow> list_all (al_op_ok P) ops \<Longrightarrow> al_inv a \<Longrightarrow> al_synced P d a \<Longrightarrow>
     al_run P ops (d, a) = ((d', a'), bs) \<Longrightarrow> al_inv a' \<and> al_synced P d' a' \<and> al_path a' = al_path a"
proof (induction ops arbitrary: d a bs)
  case (Cons op ops)
  obtain d1 a1 b where step: "al_step P op (d, a) = ((d1, a1), b)" by (metis surj_pair)
  obtain bs' where rest: "al_run P ops (d1, a1) = ((d', a'), bs')"
    using Cons.prems(5) step by (auto simp: split_beta Let_def prod_eq_iff)
  have "al_inv a1 \<and> al_synced P d1 a1 \<and> al_path a1 = al_path a"
    using al_step_synced [OF _ _ _ _ step] Cons.prems by simp
  then show ?case using Cons.IH [OF _ _ _ _ rest] Cons.prems by simp
qed simp

subsection \<open>Properties\<close>

text \<open>
  C35: Over any sequence of \<open>Add\<close> and \<open>Remove\<close> calls, each with its own I/O and sealing faults,
  the allowlist is exactly the abstract set that the calls which reported success describe (a
  call that failed changed nothing), and reloading the sealed file yields the same answers as the
  list in memory.
\<close>

theorem allowlist_refines_set:
  assumes "codec_laws P" "list_all (al_op_ok P) ops" "al_inv a" "al_synced P d a"
    and "al_run P ops (d, a) = ((d', a'), bs)"
  shows "{x. allowlist_Allowed a' (fst x) (snd x)} = al_spec ops bs {x. allowlist_Allowed a (fst x) (snd x)}
    \<and> (io_read_ok e (al_path a) \<longrightarrow>
        (\<exists>b. loadAllowlist P e d' (al_path a) = Inr b \<and> (\<forall>r m. allowlist_Allowed b r m = allowlist_Allowed a' r m)))"
proof
  show "{x. allowlist_Allowed a' (fst x) (snd x)} = al_spec ops bs {x. allowlist_Allowed a (fst x) (snd x)}"
    using allow.run_refines [of "(d, a)" "map al_conv ops" P "(d', a')" bs] assms al_ops_ok [OF assms(2)]
    by (simp add: al_run_eq al_spec_eq al_member_def)
  have "al_synced P d' a'" "al_path a' = al_path a"
    using al_run_synced [OF assms] by auto
  then show "io_read_ok e (al_path a) \<longrightarrow>
      (\<exists>b. loadAllowlist P e d' (al_path a) = Inr b \<and> (\<forall>r m. allowlist_Allowed b r m = allowlist_Allowed a' r m))"
    by (auto simp: al_synced_def al_equiv_def allowlist_Allowed_def)
qed

end
