(* ===== verification/Ks_Audit.thy ===== *)
theory Ks_Audit
  imports Ks_Store
begin

text \<open>
  \<open>internal/keystore/audit.go\<close>: the hash-chained audit log, rewritten in full, sealed, on every
  append. The lemmas show that appending keeps the chain valid, that a log on disk loads back,
  that past entries never change, and that two valid logs with the same last entry are equal
  unless SHA-256 collides on two of their entries.
\<close>

subsection \<open>State and operations\<close>

record auditLog =
  au_path :: string
  au_entries :: "AuditEntry list"

definition genesisHash :: string where
  "genesisHash = ''47454e45534953''"

definition canonicalHash :: "platform \<Rightarrow> AuditEntry \<Rightarrow> string option" where
  "canonicalHash P e =
     (case marshalAudit P e of None \<Rightarrow> None | Some b \<Rightarrow> Some (hexEncode (sha256 P b)))"

text \<open>The loop of \<open>verifyChain\<close>: the index, the expected previous hash, the entries left.\<close>

fun verify_from :: "platform \<Rightarrow> nat \<Rightarrow> string \<Rightarrow> AuditEntry list \<Rightarrow> string option" where
  "verify_from P i expectedPrev [] = None"
| "verify_from P i expectedPrev (e # es) =
     (if ae_PrevHash e \<noteq> expectedPrev then Some ''audit chain broken''
      else if ae_Sequence e \<noteq> word_of_nat (i + 1) then Some ''audit sequence gap''
      else (case canonicalHash P e of
              None \<Rightarrow> Some ''hash entry''
            | Some h \<Rightarrow> verify_from P (i + 1) h es))"

definition auditLog_verifyChain :: "platform \<Rightarrow> AuditEntry list \<Rightarrow> string option" where
  "auditLog_verifyChain P es = verify_from P 0 genesisHash es"

definition loadAuditLog :: "platform \<Rightarrow> io \<Rightarrow> disk \<Rightarrow> string \<Rightarrow> ks_error + auditLog" where
  "loadAuditLog P e d path =
     (case readFile d path of
        None \<Rightarrow> Inr \<lparr>au_path = path, au_entries = []\<rparr>
      | Some sealed \<Rightarrow>
          if \<not> io_read_ok e path then Inl (ErrOther ''read audit log'')
          else (case UnsealUnique P sealed of
             None \<Rightarrow> Inl (ErrOther ''unseal audit log'')
           | Some plaintext \<Rightarrow>
               (case unmarshalLog P plaintext of
                  None \<Rightarrow> Inl ErrCorruptedState
                | Some es \<Rightarrow>
                    if auditLog_verifyChain P es \<noteq> None then Inl ErrCorruptedState
                    else Inr \<lparr>au_path = path, au_entries = es\<rparr>)))"

definition auditLog_persistLocked ::
    "platform \<Rightarrow> io \<Rightarrow> disk \<Rightarrow> auditLog \<Rightarrow> disk \<times> ks_error option" where
  "auditLog_persistLocked P e d a =
     (case marshalLog P (au_entries a) of
        None \<Rightarrow> (d, Some (ErrOther ''marshal audit entries''))
      | Some plain \<Rightarrow>
          (case SealUnique e plain of
             None \<Rightarrow> (d, Some (ErrOther ''seal audit log''))
           | Some sealed \<Rightarrow>
               if \<not> mkdir_ok (io_wr e) then (d, Some (ErrOther ''mkdir audit dir''))
               else (let (d', err) = write_tmp_rename (io_wr e) d (au_path a) sealed
                     in (d', map_option (\<lambda>step. ErrOther (step @ '' audit file'')) err))))"

definition auditLog_Append ::
    "platform \<Rightarrow> io \<Rightarrow> disk \<Rightarrow> auditLog \<Rightarrow> string \<Rightarrow> role \<Rightarrow> string \<Rightarrow> string
       \<Rightarrow> disk \<times> auditLog \<times> (ks_error + u64)" where
  "auditLog_Append P e d a action role actor detail =
     (let prev = (if au_entries a = [] then Some (genesisHash, 1)
                  else map_option (\<lambda>h. (h, ae_Sequence (last (au_entries a)) + 1))
                         (canonicalHash P (last (au_entries a))))
      in case prev of
           None \<Rightarrow> (d, a, Inl (ErrOther ''hash previous entry''))
         | Some (prevHash, seq) \<Rightarrow>
             (let entry = \<lparr>ae_Sequence = seq, ae_Timestamp = io_now e, ae_Action = action, ae_Role = role,
                           ae_Actor = actor, ae_Detail = detail, ae_PrevHash = prevHash\<rparr>;
                  a1 = a\<lparr>au_entries := au_entries a @ [entry]\<rparr>
              in case auditLog_persistLocked P e d a1 of
                   (d', Some err) \<Rightarrow>
                     (d', a1\<lparr>au_entries := take (length (au_entries a1) - 1) (au_entries a1)\<rparr>, Inl err)
                 | (d', None) \<Rightarrow> (d', a1, Inr seq)))"

definition auditLog_Tail :: "auditLog \<Rightarrow> int \<Rightarrow> AuditEntry list" where
  "auditLog_Tail a n =
     (let len = length (au_entries a);
          k = (if n \<le> 0 \<or> n > int len then len else nat n)
      in drop (len - k) (au_entries a))"

definition auditLog_Len :: "auditLog \<Rightarrow> nat" where
  "auditLog_Len a = length (au_entries a)"

subsection \<open>The chain\<close>

abbreviation chain_ok :: "platform \<Rightarrow> AuditEntry list \<Rightarrow> bool" where
  "chain_ok P es \<equiv> auditLog_verifyChain P es = None"

text \<open>The hash the next entry must carry: that of the last entry, or the genesis constant.\<close>

fun tip_from :: "platform \<Rightarrow> string \<Rightarrow> AuditEntry list \<Rightarrow> string option" where
  "tip_from P h [] = Some h"
| "tip_from P h (e # es) =
     (case canonicalHash P e of None \<Rightarrow> None | Some h' \<Rightarrow> tip_from P h' es)"

lemma verify_from_append:
  "verify_from P i h (xs @ ys) = None \<longleftrightarrow>
     verify_from P i h xs = None \<and>
     (\<exists>h'. tip_from P h xs = Some h' \<and> verify_from P (i + length xs) h' ys = None)"
  by (induction xs arbitrary: i h) (auto split: option.splits)

lemma verify_from_tip: "verify_from P i h xs = None \<Longrightarrow> tip_from P h xs \<noteq> None"
  by (induction xs arbitrary: i h) (auto split: option.splits if_splits)

lemma tip_from_last:
  "xs \<noteq> [] \<Longrightarrow> tip_from P h xs = Some t \<Longrightarrow> canonicalHash P (last xs) = Some t"
  by (induction xs arbitrary: h) (auto split: option.splits if_splits)

lemma verify_from_sequence:
  "verify_from P i h xs = None \<Longrightarrow> k < length xs \<Longrightarrow> ae_Sequence (xs ! k) = word_of_nat (i + k + 1)"
proof (induction xs arbitrary: i h k)
  case (Cons x xs)
  then show ?case by (cases k) (auto split: option.splits if_splits)
qed simp

lemma chain_snoc:
  "chain_ok P (es @ [e]) \<longleftrightarrow>
     chain_ok P es \<and> canonicalHash P e \<noteq> None \<and> ae_Sequence e = word_of_nat (length es + 1) \<and>
     (if es = [] then ae_PrevHash e = genesisHash else canonicalHash P (last es) = Some (ae_PrevHash e))"
proof -
  have "canonicalHash P (last es) = Some t \<Longrightarrow> chain_ok P es \<Longrightarrow> es \<noteq> [] \<Longrightarrow> tip_from P genesisHash es = Some t" for t
    using verify_from_tip [of P 0 genesisHash es] tip_from_last [of es P genesisHash]
    by (auto simp: auditLog_verifyChain_def)
  then show ?thesis
    by (auto simp: auditLog_verifyChain_def verify_from_append tip_from_last split: option.splits)
qed

subsection \<open>Appending\<close>

text \<open>The invariant: the chain verifies and every string survives the codec.\<close>

definition au_inv :: "platform \<Rightarrow> auditLog \<Rightarrow> bool" where
  "au_inv P a = (chain_ok P (au_entries a) \<and> list_all utf8_entry (au_entries a))"

definition au_synced :: "platform \<Rightarrow> disk \<Rightarrow> auditLog \<Rightarrow> bool" where
  "au_synced P d a = (\<forall>e. io_read_ok e (au_path a) \<longrightarrow> loadAuditLog P e d (au_path a) = Inr a)"

lemma au_synced_frame:
  "au_synced P d a \<Longrightarrow> readFile d' (au_path a) = readFile d (au_path a) \<Longrightarrow> au_synced P d' a"
  by (simp add: au_synced_def loadAuditLog_def)

lemma load_audit_synced:
  assumes "au_synced P d a" "loadAuditLog P e d (au_path a) = Inr a'"
  shows "a' = a"
proof -
  let ?e = "e\<lparr>io_read_ok := (\<lambda>_. True)\<rparr>"
  have "loadAuditLog P ?e d (au_path a) = Inr a'"
    using assms(2) by (auto simp: loadAuditLog_def split: option.splits if_splits)
  moreover have "io_read_ok ?e (au_path a)" by simp
  then have "loadAuditLog P ?e d (au_path a) = Inr a" using assms(1) unfolding au_synced_def by blast
  ultimately show ?thesis by simp
qed

lemma au_persist_error_keeps:
  "snd (auditLog_persistLocked P e d a) \<noteq> None \<Longrightarrow>
     readFile (fst (auditLog_persistLocked P e d a)) (au_path a) = readFile d (au_path a)"
  by (auto simp: auditLog_persistLocked_def write_tmp_rename_path split_beta Let_def
      dest: write_tmp_rename_SomeD split: option.splits)

lemma au_persist_frame [frame]:
  "p \<noteq> au_path a \<Longrightarrow> p \<noteq> tmp_path (au_path a) \<Longrightarrow>
     readFile (fst (auditLog_persistLocked P e d a)) p = readFile d p"
  by (auto simp: auditLog_persistLocked_def write_tmp_rename_other split_beta Let_def
      split: option.splits)

lemma au_persist_success:
  assumes "snd (auditLog_persistLocked P e d a) = None"
  obtains plain sealed where "marshalLog P (au_entries a) = Some plain" "SealUnique e plain = Some sealed"
    "readFile (fst (auditLog_persistLocked P e d a)) (au_path a) = Some sealed"
  using assms
  by (auto simp: auditLog_persistLocked_def write_tmp_rename_path write_tmp_rename_ok
      split_beta Let_def split: option.splits if_splits)

lemma canonicalHash_marshal: "canonicalHash P e = None \<longleftrightarrow> marshalAudit P e = None"
  by (simp add: canonicalHash_def split: option.splits)

lemma utf8_genesis [simp]: "valid_utf8 genesisHash"
  by (simp add: genesisHash_def valid_utf8_def)

lemma canonicalHash_utf8: "canonicalHash P e = Some h \<Longrightarrow> valid_utf8 h"
  by (auto simp: canonicalHash_def split: option.splits)

text \<open>The shape of every outcome: nothing appended, or exactly one entry with the next number.\<close>

lemma Append_cases:
  assumes "auditLog_Append P e d a action role actor detail = (d', a', res)"
  obtains (failed) err where "res = Inl err" "a' = a" "readFile d' (au_path a) = readFile d (au_path a)"
  | (appended) entry seq where "res = Inr seq" "a' = a\<lparr>au_entries := au_entries a @ [entry]\<rparr>"
      "d' = fst (auditLog_persistLocked P e d a')" "snd (auditLog_persistLocked P e d a') = None"
      "seq = ae_Sequence entry" "ae_Timestamp entry = io_now e"
      "ae_Action entry = action" "ae_Role entry = role" "ae_Actor entry = actor" "ae_Detail entry = detail"
      "if au_entries a = [] then ae_PrevHash entry = genesisHash \<and> ae_Sequence entry = 1
       else canonicalHash P (last (au_entries a)) = Some (ae_PrevHash entry)
            \<and> ae_Sequence entry = ae_Sequence (last (au_entries a)) + 1"
proof (cases "(if au_entries a = [] then Some (genesisHash, 1)
                  else map_option (\<lambda>h. (h, ae_Sequence (last (au_entries a)) + 1))
                         (canonicalHash P (last (au_entries a))))")
  case None
  then show ?thesis using assms failed by (auto simp: auditLog_Append_def Let_def)
next
  case (Some hs)
  obtain h seq where hs: "hs = (h, seq)" by fastforce
  let ?entry = "\<lparr>ae_Sequence = seq, ae_Timestamp = io_now e, ae_Action = action, ae_Role = role,
                           ae_Actor = actor, ae_Detail = detail, ae_PrevHash = h\<rparr>"
  let ?a1 = "a\<lparr>au_entries := au_entries a @ [?entry]\<rparr>"
  show ?thesis
  proof (cases "snd (auditLog_persistLocked P e d ?a1)")
    case None
    have "if au_entries a = [] then h = genesisHash \<and> seq = 1
        else canonicalHash P (last (au_entries a)) = Some h \<and> seq = ae_Sequence (last (au_entries a)) + 1"
      using Some hs by (auto split: if_splits)
    then show ?thesis
      using appended [of seq ?entry] assms Some hs None
      by (auto simp: auditLog_Append_def Let_def split: prod.splits option.splits)
  next
    case (Some err)
    then have "readFile (fst (auditLog_persistLocked P e d ?a1)) (au_path a) = readFile d (au_path a)"
      using au_persist_error_keeps [of P e d ?a1] by simp
    then show ?thesis
      using failed [of err] assms Some \<open>_ = Some hs\<close> hs
      by (auto simp: auditLog_Append_def Let_def split: prod.splits option.splits)
  qed
qed

lemma Append_frame [frame]:
  assumes "auditLog_Append P e d a action role actor detail = (d', a', res)"
    and "p \<noteq> au_path a" "p \<noteq> tmp_path (au_path a)"
  shows "readFile d' p = readFile d p \<and> au_path a' = au_path a"
  using assms au_persist_frame [of p "a\<lparr>au_entries := l\<rparr>" P e d for l]
  by (auto simp: auditLog_Append_def Let_def split: prod.splits option.splits)
    (metis au_persist_frame auditLog.select_convs(1) auditLog.surjective auditLog.update_convs(2) fst_conv)+

lemma Append_inv:
  assumes laws: "codec_laws P" and inv: "au_inv P a"
    and utf8: "valid_utf8 action" "valid_utf8 role" "valid_utf8 actor" "valid_utf8 detail"
    and run: "auditLog_Append P e d a action role actor detail = (d', a', res)"
  shows "au_inv P a'"
  using run
proof (cases rule: Append_cases)
  case (appended entry seq)
  obtain plain where "marshalLog P (au_entries a') = Some plain"
    using appended(4) by (rule au_persist_success)
  then have "marshalAudit P entry \<noteq> None"
    using laws appended(2) unfolding codec_laws_def log_elem_law_def by auto
  moreover have "ae_Sequence entry = word_of_nat (length (au_entries a) + 1)"
  proof (cases "au_entries a = []")
    case False
    then have "ae_Sequence (last (au_entries a)) = word_of_nat (length (au_entries a))"
      using verify_from_sequence [of P 0 genesisHash "au_entries a" "length (au_entries a) - 1"] inv
      by (simp add: au_inv_def auditLog_verifyChain_def last_conv_nth)
    then show ?thesis using False appended(11) by simp
  qed (use appended(11) in simp)
  ultimately have "chain_ok P (au_entries a @ [entry])"
    using inv appended(11) by (auto simp: chain_snoc au_inv_def canonicalHash_marshal)
  moreover have "utf8_entry entry"
    using utf8 appended by (auto simp: utf8_entry_def canonicalHash_utf8 split: if_splits)
  ultimately show ?thesis using inv appended(2) by (simp add: au_inv_def)
qed (use inv in simp)

lemma Append_synced:
  assumes laws: "codec_laws P" "seal_law P e" and inv: "au_inv P a" and inv': "au_inv P a'"
    and sync: "au_synced P d a"
    and run: "auditLog_Append P e d a action role actor detail = (d', a', res)"
  shows "au_synced P d' a'"
  using run
proof (cases rule: Append_cases)
  case (failed err)
  then show ?thesis using sync by (simp add: au_synced_def loadAuditLog_def)
next
  case (appended entry seq)
  obtain plain sealed where w: "marshalLog P (au_entries a') = Some plain" "SealUnique e plain = Some sealed"
    "readFile (fst (auditLog_persistLocked P e d a')) (au_path a') = Some sealed"
    using appended(4) by (rule au_persist_success)
  have "UnsealUnique P sealed = Some plain" using laws(2) w(2) by (simp add: seal_law_def)
  moreover have "unmarshalLog P plain = Some (au_entries a')"
    using laws(1) w(1) inv' by (auto simp: codec_laws_def log_codec_law_def au_inv_def)
  ultimately show ?thesis
    using w(3) appended(3) inv' by (simp add: au_synced_def loadAuditLog_def au_inv_def)
qed

subsection \<open>Sequences of appends\<close>

record append_call =
  ac_io :: io
  ac_action :: string
  ac_role :: role
  ac_actor :: string
  ac_detail :: string

definition append_ok :: "platform \<Rightarrow> append_call \<Rightarrow> bool" where
  "append_ok P c = (seal_law P (ac_io c) \<and> valid_utf8 (ac_action c) \<and> valid_utf8 (ac_role c)
                    \<and> valid_utf8 (ac_actor c) \<and> valid_utf8 (ac_detail c))"

fun append_run :: "platform \<Rightarrow> append_call list \<Rightarrow> disk \<Rightarrow> auditLog \<Rightarrow> disk \<times> auditLog \<times> bool list" where
  "append_run P [] d a = (d, a, [])"
| "append_run P (c # cs) d a =
     (let (d1, a1, r) = auditLog_Append P (ac_io c) d a (ac_action c) (ac_role c) (ac_actor c) (ac_detail c);
          (d2, a2, rs) = append_run P cs d1 a1
      in (d2, a2, (\<not> isl r) # rs))"

text \<open>What an entry records of its call.\<close>

definition recorded :: "AuditEntry \<Rightarrow> int \<times> string \<times> role \<times> string \<times> string" where
  "recorded a = (ae_Timestamp a, ae_Action a, ae_Role a, ae_Actor a, ae_Detail a)"

definition call_record :: "append_call \<Rightarrow> int \<times> string \<times> role \<times> string \<times> string" where
  "call_record c = (io_now (ac_io c), ac_action c, ac_role c, ac_actor c, ac_detail c)"

lemma append_run_log:
  "codec_laws P \<Longrightarrow> list_all (append_ok P) cs \<Longrightarrow> au_inv P a \<Longrightarrow> au_synced P d a \<Longrightarrow>
   append_run P cs d a = (d', a', rs) \<Longrightarrow>
     au_inv P a' \<and> au_synced P d' a' \<and> au_path a' = au_path a \<and>
     (\<exists>new. au_entries a' = au_entries a @ new \<and>
        map recorded new = map (call_record \<circ> fst) (filter snd (zip cs rs)))"
proof (induction cs arbitrary: d a rs)
  case (Cons c cs)
  obtain d1 a1 r where step: "auditLog_Append P (ac_io c) d a (ac_action c) (ac_role c) (ac_actor c) (ac_detail c) = (d1, a1, r)"
    by (metis prod_cases3)
  obtain rs' where rest: "append_run P cs d1 a1 = (d', a', rs')" and rs: "rs = (\<not> isl r) # rs'"
    using Cons.prems(5) step by (auto simp: split_beta Let_def prod_eq_iff)
  have inv1: "au_inv P a1"
    using Append_inv [OF _ _ _ _ _ _ step] Cons.prems by (simp add: append_ok_def)
  have sync1: "au_synced P d1 a1"
    using Append_synced [OF _ _ _ inv1 _ step] Cons.prems by (simp add: append_ok_def)
  obtain new where new: "au_inv P a' \<and> au_synced P d' a' \<and> au_path a' = au_path a1"
    "au_entries a' = au_entries a1 @ new" "map recorded new = map (call_record \<circ> fst) (filter snd (zip cs rs'))"
    using Cons.IH [OF Cons.prems(1) _ inv1 sync1 rest] Cons.prems(2) by auto
  from step show ?case
  proof (cases rule: Append_cases)
    case (failed err)
    then show ?thesis using new rs by simp
  next
    case (appended entry seq)
    then have "au_entries a' = au_entries a @ (entry # new)" "recorded entry = call_record c"
      using new by (simp_all add: recorded_def call_record_def)
    then show ?thesis using new rs appended by (auto intro!: exI [of _ "entry # new"])
  qed
qed simp

text \<open>Two chains that end in the same entry.\<close>

lemma chain_same_tip:
  assumes "audit_inj_law P" "length xs = length ys"
    and "verify_from P i h xs = None" "verify_from P i h' ys = None"
    and "list_all utf8_entry xs" "list_all utf8_entry ys"
    and "xs \<noteq> []" "last xs = last ys" "xs \<noteq> ys"
  shows "\<exists>k b b'. k < length xs \<and> marshalAudit P (xs ! k) = Some b \<and> marshalAudit P (ys ! k) = Some b'
    \<and> b \<noteq> b' \<and> sha256 P b = sha256 P b'"
  using assms(2-)
proof (induction xs ys arbitrary: i h h' rule: list_induct2)
  case (Cons x xs y ys)
  show ?case
  proof (cases "xs = []")
    case True
    then show ?thesis using Cons by auto
  next
    case xs: False
    then have ys: "ys \<noteq> []" using Cons.hyps by auto
    obtain b b' where m: "marshalAudit P x = Some b" "marshalAudit P y = Some b'"
      and tails: "verify_from P (i + 1) (hexEncode (sha256 P b)) xs = None"
        "verify_from P (i + 1) (hexEncode (sha256 P b')) ys = None"
      using Cons.prems(1,2) by (auto simp: canonicalHash_def split: option.splits if_splits)
    show ?thesis
    proof (cases "xs = ys")
      case True
      then have "sha256 P b = sha256 P b'"
        using tails ys by (cases ys) (auto split: if_splits)
      moreover have "x \<noteq> y" using Cons.prems True by simp
      then have "b \<noteq> b'" using assms(1) m Cons.prems by (auto simp: audit_inj_law_def)
      ultimately show ?thesis using m by (intro exI [of _ 0]) auto
    next
      case False
      then obtain k c c' where "k < length xs" "marshalAudit P (xs ! k) = Some c"
        "marshalAudit P (ys ! k) = Some c'" "c \<noteq> c'" "sha256 P c = sha256 P c'"
        using Cons.IH [OF tails] Cons.prems xs ys by (auto split: if_splits)
      then show ?thesis by (intro exI [of _ "Suc k"]) auto
    qed
  qed
qed simp

subsection \<open>Properties\<close>

text \<open>
  C34: Over any sequence of \<open>Append\<close> calls, each with its own faults, the audit log is
  append-only: the earlier log stays a prefix, what follows it is exactly the calls that
  reported success, in order, the hash chain verifies with gap-free sequence numbers, and
  reloading the sealed file gives the log in memory.
\<close>

theorem audit_append_only:
  assumes "codec_laws P" "list_all (append_ok P) cs" "au_inv P a" "au_synced P d a"
    and "append_run P cs d a = (d', a', rs)"
  shows "(\<exists>new. au_entries a' = au_entries a @ new \<and>
            map recorded new = map (call_record \<circ> fst) (filter snd (zip cs rs)))
    \<and> auditLog_verifyChain P (au_entries a') = None
    \<and> (\<forall>k < length (au_entries a'). ae_Sequence (au_entries a' ! k) = word_of_nat (k + 1))
    \<and> (\<forall>e. io_read_ok e (au_path a) \<longrightarrow> loadAuditLog P e d' (au_path a) = Inr a')"
proof -
  have inv: "au_inv P a'" "au_synced P d' a'" "au_path a' = au_path a"
    using append_run_log [OF assms] by auto
  moreover have "ae_Sequence (au_entries a' ! k) = word_of_nat (k + 1)" if "k < length (au_entries a')" for k
    using verify_from_sequence [of P 0 genesisHash "au_entries a'" k] inv(1) that
    by (simp add: au_inv_def auditLog_verifyChain_def)
  ultimately show ?thesis
    using append_run_log [OF assms] by (auto simp: au_inv_def au_synced_def)
qed

text \<open>
  C33: Tamper evidence: if two audit logs of the same length both verify and end in the same
  entry but differ anywhere, then two of their entries at the same position are an explicit
  SHA-256 collision.
\<close>

theorem audit_tamper_evident:
  assumes "audit_inj_law P"
    and "auditLog_verifyChain P xs = None" "auditLog_verifyChain P ys = None"
    and "list_all utf8_entry xs" "list_all utf8_entry ys"
    and "length xs = length ys" "xs \<noteq> []" "last xs = last ys" "xs \<noteq> ys"
  shows "\<exists>k b b'. k < length xs \<and> marshalAudit P (xs ! k) = Some b \<and> marshalAudit P (ys ! k) = Some b'
    \<and> b \<noteq> b' \<and> sha256 P b = sha256 P b'"
  using chain_same_tip [OF assms(1,6)] assms by (simp add: auditLog_verifyChain_def)

end
