(* ===== verification/Ks_BreakGlass.thy ===== *)
theory Ks_BreakGlass
  imports Ks_Store
begin

text \<open>
  \<open>internal/keystore/breakglass.go\<close>: verification of the offline operator's Ed25519 signatures
  with a per-process set of used nonces. The lemmas give what an acceptance implies, that a nonce
  is accepted at most once when calls do not overlap, that the signed string determines the
  operation, and that two overlapping calls can both be accepted, because the check and the
  insertion of the nonce are two critical sections.
\<close>

subsection \<open>State and operations\<close>

record breakGlass =
  expectedPub :: "bytes option"
  seenNonces :: "string set"

definition newBreakGlass :: "string \<Rightarrow> string + breakGlass" where
  "newBreakGlass operatorPubHex =
     (if operatorPubHex = [] then Inr \<lparr>expectedPub = None, seenNonces = {}\<rparr>
      else if length operatorPubHex \<noteq> 64 then Inl ''operator pubkey hex must be 64 chars''
      else (case hexDecode operatorPubHex of
              None \<Rightarrow> Inl ''decode operator pubkey''
            | Some pub \<Rightarrow>
                if length pub \<noteq> 32 then Inl ''operator pubkey must be 32 bytes''
                else Inr \<lparr>expectedPub = Some pub, seenNonces = {}\<rparr>))"

definition renderBreakGlass :: "string \<Rightarrow> role \<Rightarrow> bytes \<Rightarrow> string \<Rightarrow> string" where
  "renderBreakGlass action role payload nonce =
     action @ '':'' @ role @ '':'' @ hexEncode payload @ '':'' @ nonce"

definition canonicalBreakGlassSigningInput ::
    "platform \<Rightarrow> string \<Rightarrow> role \<Rightarrow> bytes \<Rightarrow> string \<Rightarrow> bytes" where
  "canonicalBreakGlassSigningInput P action role payload nonce =
     sha256 P (str_bytes (renderBreakGlass action role payload nonce))"

text \<open>The checks before the nonce set is consulted; they read no mutable state.\<close>

definition verify_static :: "breakGlass \<Rightarrow> BreakGlassProof \<Rightarrow> ks_error + bytes \<times> bytes" where
  "verify_static bg proof =
     (case expectedPub bg of
        None \<Rightarrow> Inl ErrBreakGlassInvalid
      | Some pub \<Rightarrow>
          if OperatorPubKeyHex proof = [] \<or> SignatureHex proof = [] \<or> Nonce proof = []
          then Inl ErrBreakGlassRequired
          else if OperatorPubKeyHex proof \<noteq> hexEncode pub then Inl ErrBreakGlassInvalid
          else (case hexDecode (SignatureHex proof) of
                  None \<Rightarrow> Inl ErrBreakGlassInvalid
                | Some sig \<Rightarrow>
                    if length sig \<noteq> 64 then Inl ErrBreakGlassInvalid
                    else if length (Nonce proof) < 16 then Inl ErrBreakGlassInvalid
                    else Inr (pub, sig)))"

definition breakGlass_Verify ::
    "platform \<Rightarrow> breakGlass \<Rightarrow> BreakGlassProof \<Rightarrow> string \<Rightarrow> role \<Rightarrow> bytes \<Rightarrow> breakGlass \<times> ks_error option" where
  "breakGlass_Verify P bg proof action role payload =
     (case verify_static bg proof of
        Inl err \<Rightarrow> (bg, Some err)
      | Inr (pub, sig) \<Rightarrow>
          if Nonce proof \<in> seenNonces bg then (bg, Some ErrBreakGlassReplay)
          else if \<not> ed25519_Verify P pub (canonicalBreakGlassSigningInput P action role payload (Nonce proof)) sig
          then (bg, Some ErrBreakGlassInvalid)
          else (bg\<lparr>seenNonces := insert (Nonce proof) (seenNonces bg)\<rparr>, None))"

definition breakGlass_Enabled :: "breakGlass \<Rightarrow> bool" where
  "breakGlass_Enabled bg = (expectedPub bg \<noteq> None)"

subsection \<open>What acceptance means\<close>

text \<open>
  The operator authorised the operation: a signature under the configured key over the canonical
  form of exactly this action, role, payload and nonce.
\<close>

definition operator_signed ::
    "platform \<Rightarrow> breakGlass \<Rightarrow> BreakGlassProof \<Rightarrow> string \<Rightarrow> role \<Rightarrow> bytes \<Rightarrow> bool" where
  "operator_signed P bg proof action role payload =
     (\<exists>pub sig. expectedPub bg = Some pub \<and> OperatorPubKeyHex proof = hexEncode pub
        \<and> hexDecode (SignatureHex proof) = Some sig
        \<and> ed25519_Verify P pub (canonicalBreakGlassSigningInput P action role payload (Nonce proof)) sig)"

lemma Verify_accepted:
  assumes "breakGlass_Verify P bg proof action role payload = (bg', None)"
  shows "operator_signed P bg proof action role payload \<and> Nonce proof \<notin> seenNonces bg
    \<and> length (Nonce proof) \<ge> 16
    \<and> bg' = bg\<lparr>seenNonces := insert (Nonce proof) (seenNonces bg)\<rparr>"
  using assms
  by (auto simp: breakGlass_Verify_def verify_static_def operator_signed_def
      split: option.splits sum.splits if_splits)

lemma Verify_rejected:
  "breakGlass_Verify P bg proof action role payload = (bg', Some err) \<Longrightarrow> bg' = bg"
  by (auto simp: breakGlass_Verify_def split: sum.splits if_splits)

lemma Verify_pub [frame]:
  "breakGlass_Verify P bg proof action role payload = (bg', r) \<Longrightarrow> expectedPub bg' = expectedPub bg"
  by (auto simp: breakGlass_Verify_def split: sum.splits if_splits)

lemma Verify_errors:
  "breakGlass_Verify P bg proof action role payload = (bg', Some err) \<Longrightarrow>
     err \<in> {ErrBreakGlassInvalid, ErrBreakGlassRequired, ErrBreakGlassReplay}"
  by (auto simp: breakGlass_Verify_def verify_static_def split: option.splits sum.splits if_splits)

subsection \<open>Nonces are a write-once table\<close>

record bg_call =
  bc_proof :: BreakGlassProof
  bc_action :: string
  bc_role :: role
  bc_payload :: bytes

definition bg_install :: "platform \<Rightarrow> bg_call \<Rightarrow> breakGlass \<Rightarrow> breakGlass \<times> bool" where
  "bg_install P c bg =
     (let (bg', err) = breakGlass_Verify P bg (bc_proof c) (bc_action c) (bc_role c) (bc_payload c)
      in (bg', err = None))"

definition bg_find :: "breakGlass \<Rightarrow> string \<Rightarrow> unit option" where
  "bg_find bg n = (if n \<in> seenNonces bg then Some () else None)"

interpretation nonces: write_once bg_find "bg_install P" "\<lambda>c. Nonce (bc_proof c)" "\<lambda>_. True"
  for P
proof
  fix a s s'
  assume "bg_install P a s = (s', True)"
  then show "bg_find s (Nonce (bc_proof a)) = None \<and> bg_find s' (Nonce (bc_proof a)) \<noteq> None"
    by (auto simp: bg_install_def bg_find_def split: prod.splits dest!: Verify_accepted)
next
  fix a s s' r k v
  assume step: "bg_install P a s = (s', r)" and k: "bg_find s k = Some v"
  obtain err where v: "breakGlass_Verify P s (bc_proof a) (bc_action a) (bc_role a) (bc_payload a) = (s', err)"
    using step by (auto simp: bg_install_def split: prod.splits)
  show "bg_find s' k = Some v"
  proof (cases err)
    case None
    then show ?thesis using v k by (auto simp: bg_find_def dest!: Verify_accepted split: if_splits)
  next
    case (Some z)
    then show ?thesis using v k by (auto dest!: Verify_rejected)
  qed
qed

fun bg_run :: "platform \<Rightarrow> bg_call list \<Rightarrow> breakGlass \<Rightarrow> breakGlass \<times> bool list" where
  "bg_run P [] s = (s, [])"
| "bg_run P (c # cs) s =
     (let (s1, r) = bg_install P c s; (s2, rs) = bg_run P cs s1 in (s2, r # rs))"

lemma bg_run_eq: "bg_run P cs s = nonces.run P cs s"
  by (induction cs arbitrary: s) auto

subsection \<open>The signed string determines the operation\<close>

lemma split_at_sep:
  assumes "a @ c # s = a' @ c # s'" "c \<notin> set a" "c \<notin> set a'"
  shows "a = a' \<and> s = s'"
proof -
  have "takeWhile (\<lambda>x. x \<noteq> c) (a @ c # s) = a" "takeWhile (\<lambda>x. x \<noteq> c) (a' @ c # s') = a'"
    using assms(2,3) by (auto simp: takeWhile_append2 takeWhile_tail)
  with assms(1) have "a = a'" by simp
  with assms(1) show ?thesis by simp
qed

lemma hexEncode_no_colon: "CHR '':'' \<notin> set (hexEncode b)"
  by (auto dest!: hexEncode_chars simp: is_digit_def is_lower_def)

lemma renderBreakGlass_inject:
  assumes "CHR '':'' \<notin> set action" "CHR '':'' \<notin> set action'"
    and "CHR '':'' \<notin> set role" "CHR '':'' \<notin> set role'"
    and "renderBreakGlass action role payload nonce = renderBreakGlass action' role' payload' nonce'"
  shows "action = action' \<and> role = role' \<and> payload = payload' \<and> nonce = nonce'"
proof -
  have 1: "action = action' \<and> role @ CHR '':'' # hexEncode payload @ CHR '':'' # nonce
      = role' @ CHR '':'' # hexEncode payload' @ CHR '':'' # nonce'"
    using assms(1,2,5) by (intro split_at_sep) (auto simp: renderBreakGlass_def)
  then have 2: "role = role' \<and> hexEncode payload @ CHR '':'' # nonce = hexEncode payload' @ CHR '':'' # nonce'"
    using assms(3,4) by (intro split_at_sep) auto
  then have "hexEncode payload = hexEncode payload' \<and> nonce = nonce'"
    using hexEncode_no_colon by (intro split_at_sep) auto
  with 1 2 show ?thesis by simp
qed

subsection \<open>Overlapping calls\<close>

text \<open>
  \<open>Verify\<close> reads the nonce set in one critical section of \<open>bg.mu\<close> and inserts into it in another.
  A request is a thread that takes these two steps; the handlers of provision, delegate and
  revoke hold the server's \<open>writeMu\<close> around both (\<open>bt_locked\<close>), the handler of list does not.
\<close>

datatype bg_phase = BgStart | BgChecked bytes bytes | BgAccepted | BgRejected ks_error

record bg_thread =
  bt_call :: bg_call
  bt_locked :: bool
  bt_phase :: bg_phase

abbreviation bt_nonce :: "bg_thread \<Rightarrow> string" where
  "bt_nonce t \<equiv> Nonce (bc_proof (bt_call t))"

fun is_checked :: "bg_phase \<Rightarrow> bool" where
  "is_checked (BgChecked _ _) = True"
| "is_checked _ = False"

definition mu_free :: "bg_thread list \<Rightarrow> bool" where
  "mu_free ts = list_all (\<lambda>t. \<not> (bt_locked t \<and> is_checked (bt_phase t))) ts"

inductive bg_step :: "platform \<Rightarrow> breakGlass \<times> bg_thread list \<Rightarrow> breakGlass \<times> bg_thread list \<Rightarrow> bool"
  for P :: platform where
  bg_reject_static:
    "i < length ts \<Longrightarrow> bt_phase (ts ! i) = BgStart \<Longrightarrow> (bt_locked (ts ! i) \<Longrightarrow> mu_free ts) \<Longrightarrow>
     verify_static bg (bc_proof (bt_call (ts ! i))) = Inl err \<Longrightarrow>
     bg_step P (bg, ts) (bg, ts[i := (ts ! i)\<lparr>bt_phase := BgRejected err\<rparr>])"
| bg_reject_seen:
    "i < length ts \<Longrightarrow> bt_phase (ts ! i) = BgStart \<Longrightarrow> (bt_locked (ts ! i) \<Longrightarrow> mu_free ts) \<Longrightarrow>
     verify_static bg (bc_proof (bt_call (ts ! i))) = Inr (pub, sig) \<Longrightarrow>
     bt_nonce (ts ! i) \<in> seenNonces bg \<Longrightarrow>
     bg_step P (bg, ts) (bg, ts[i := (ts ! i)\<lparr>bt_phase := BgRejected ErrBreakGlassReplay\<rparr>])"
| bg_check:
    "i < length ts \<Longrightarrow> bt_phase (ts ! i) = BgStart \<Longrightarrow> (bt_locked (ts ! i) \<Longrightarrow> mu_free ts) \<Longrightarrow>
     verify_static bg (bc_proof (bt_call (ts ! i))) = Inr (pub, sig) \<Longrightarrow>
     bt_nonce (ts ! i) \<notin> seenNonces bg \<Longrightarrow>
     bg_step P (bg, ts) (bg, ts[i := (ts ! i)\<lparr>bt_phase := BgChecked pub sig\<rparr>])"
| bg_reject_sig:
    "i < length ts \<Longrightarrow> bt_phase (ts ! i) = BgChecked pub sig \<Longrightarrow> c = bt_call (ts ! i) \<Longrightarrow>
     \<not> ed25519_Verify P pub (canonicalBreakGlassSigningInput P (bc_action c) (bc_role c) (bc_payload c)
         (Nonce (bc_proof c))) sig \<Longrightarrow>
     bg_step P (bg, ts) (bg, ts[i := (ts ! i)\<lparr>bt_phase := BgRejected ErrBreakGlassInvalid\<rparr>])"
| bg_accept:
    "i < length ts \<Longrightarrow> bt_phase (ts ! i) = BgChecked pub sig \<Longrightarrow> c = bt_call (ts ! i) \<Longrightarrow>
     ed25519_Verify P pub (canonicalBreakGlassSigningInput P (bc_action c) (bc_role c) (bc_payload c)
         (Nonce (bc_proof c))) sig \<Longrightarrow>
     bg_step P (bg, ts)
       (bg\<lparr>seenNonces := insert (Nonce (bc_proof c)) (seenNonces bg)\<rparr>, ts[i := (ts ! i)\<lparr>bt_phase := BgAccepted\<rparr>])"

inductive bg_reach :: "platform \<Rightarrow> breakGlass \<times> bg_thread list \<Rightarrow> breakGlass \<times> bg_thread list \<Rightarrow> bool"
  for P :: platform where
  bg_refl: "bg_reach P s s"
| bg_next: "bg_reach P s t \<Longrightarrow> bg_step P t u \<Longrightarrow> bg_reach P s u"

text \<open>The invariant behind the mutual exclusion of the handlers that hold \<open>writeMu\<close>.\<close>

definition pair_ok :: "bg_thread \<Rightarrow> bg_thread \<Rightarrow> bool" where
  "pair_ok t u = (bt_locked t \<longrightarrow> bt_locked u \<longrightarrow>
     \<not> (is_checked (bt_phase t) \<and> is_checked (bt_phase u)) \<and>
     (bt_phase u = BgAccepted \<longrightarrow> is_checked (bt_phase t) \<or> bt_phase t = BgAccepted \<longrightarrow>
        bt_nonce t \<noteq> bt_nonce u))"

definition seen_ok :: "breakGlass \<Rightarrow> bg_thread \<Rightarrow> bool" where
  "seen_ok bg t = (bt_phase t = BgAccepted \<longrightarrow> bt_nonce t \<in> seenNonces bg)"

definition bg_safe :: "breakGlass \<times> bg_thread list \<Rightarrow> bool" where
  "bg_safe s = ((\<forall>i < length (snd s). seen_ok (fst s) (snd s ! i)) \<and>
     (\<forall>i < length (snd s). \<forall>j < length (snd s). i \<noteq> j \<longrightarrow> pair_ok (snd s ! i) (snd s ! j)))"

lemma bg_safe_update:
  assumes "bg_safe (bg, ts)" "i < length ts" "seenNonces bg \<subseteq> seenNonces bg'" "seen_ok bg' t"
    and "\<And>j. j < length ts \<Longrightarrow> j \<noteq> i \<Longrightarrow> pair_ok t (ts ! j) \<and> pair_ok (ts ! j) t"
  shows "bg_safe (bg', ts[i := t])"
proof -
  have "seen_ok bg' (ts[i := t] ! j)" if "j < length ts" for j
    using assms(1,3,4) that by (cases "j = i") (auto simp: bg_safe_def seen_ok_def)
  moreover have "pair_ok (ts[i := t] ! j) (ts[i := t] ! k)" if "j < length ts" "k < length ts" "j \<noteq> k" for j k
    using assms(1) assms(5) [of j] assms(5) [of k] that
    by (cases "j = i"; cases "k = i") (auto simp: bg_safe_def)
  ultimately show ?thesis by (simp add: bg_safe_def)
qed

lemma mu_free_nth: "mu_free ts \<Longrightarrow> i < length ts \<Longrightarrow> bt_locked (ts ! i) \<Longrightarrow> \<not> is_checked (bt_phase (ts ! i))"
  by (auto simp: mu_free_def list_all_length)

lemma bg_safe_reject:
  "bg_safe (bg, ts) \<Longrightarrow> i < length ts \<Longrightarrow> bg_safe (bg, ts[i := (ts ! i)\<lparr>bt_phase := BgRejected err\<rparr>])"
  by (rule bg_safe_update [of bg]) (auto simp: seen_ok_def pair_ok_def)

lemma bg_safe_step: "bg_step P s s' \<Longrightarrow> bg_safe s \<Longrightarrow> bg_safe s'"
proof (induction rule: bg_step.induct)
  case (bg_check i ts bg pub sig)
  show ?case
  proof (rule bg_safe_update [OF bg_check.prems])
    fix j assume j: "j < length ts" "j \<noteq> i"
    have "bt_phase (ts ! j) = BgAccepted \<Longrightarrow> bt_nonce (ts ! j) \<in> seenNonces bg"
      using bg_check.prems j by (simp add: bg_safe_def seen_ok_def)
    then show "pair_ok ((ts ! i)\<lparr>bt_phase := BgChecked pub sig\<rparr>) (ts ! j) \<and>
        pair_ok (ts ! j) ((ts ! i)\<lparr>bt_phase := BgChecked pub sig\<rparr>)"
      using bg_check.hyps mu_free_nth [OF _ j(1)] by (auto simp: pair_ok_def)
  qed (use bg_check.hyps in \<open>auto simp: seen_ok_def\<close>)
next
  case (bg_accept i ts pub sig c bg)
  show ?case
  proof (rule bg_safe_update [OF bg_accept.prems])
    fix j assume j: "j < length ts" "j \<noteq> i"
    have "pair_ok (ts ! i) (ts ! j)" "pair_ok (ts ! j) (ts ! i)"
      using bg_accept j by (auto simp: bg_safe_def)
    then show "pair_ok ((ts ! i)\<lparr>bt_phase := BgAccepted\<rparr>) (ts ! j) \<and>
        pair_ok (ts ! j) ((ts ! i)\<lparr>bt_phase := BgAccepted\<rparr>)"
      using bg_accept.hyps by (auto simp: pair_ok_def)
  qed (use bg_accept.hyps in \<open>auto simp: seen_ok_def\<close>)
qed (auto intro: bg_safe_reject)

lemma bg_safe_reach: "bg_reach P s s' \<Longrightarrow> bg_safe s \<Longrightarrow> bg_safe s'"
  by (induction rule: bg_reach.induct) (auto intro: bg_safe_step)

subsection \<open>Properties\<close>

text \<open>
  The string the operator signs determines the operation: if two operations with well-formed
  action and role names have the same signing input, they are the same operation with the same
  nonce, or their two rendered strings are an explicit SHA-256 collision.
\<close>

theorem signing_input_binding:
  assumes "CHR '':'' \<notin> set action" "CHR '':'' \<notin> set action'"
    and "role = [] \<or> validateRole role = None" "role' = [] \<or> validateRole role' = None"
    and "canonicalBreakGlassSigningInput P action role payload nonce =
         canonicalBreakGlassSigningInput P action' role' payload' nonce'"
  shows "(action, role, payload, nonce) = (action', role', payload', nonce') \<or>
    (let x = str_bytes (renderBreakGlass action role payload nonce);
         y = str_bytes (renderBreakGlass action' role' payload' nonce')
     in x \<noteq> y \<and> sha256 P x = sha256 P y)"
proof -
  have "CHR '':'' \<notin> set role" "CHR '':'' \<notin> set role'"
    using assms(3,4) validateRole_no_colon by auto
  then show ?thesis
    using renderBreakGlass_inject [OF assms(1,2), of role role'] assms(5)
    by (auto simp: canonicalBreakGlassSigningInput_def Let_def)
qed

text \<open>
  Over any sequence of break-glass calls, at most one call with a given nonce is accepted,
  and none if the nonce was already used; every accepted call carries a signature of the
  configured operator key over exactly the action, role and payload it is accepted for.
\<close>

theorem break_glass_once:
  shows "length (filter (\<lambda>(c, r). Nonce (bc_proof c) = n \<and> r) (zip cs (snd (bg_run P cs bg))))
           \<le> (if n \<in> seenNonces bg then 0 else 1)
    \<and> (breakGlass_Verify P bg proof action role payload = (bg', None) \<longrightarrow>
         operator_signed P bg proof action role payload \<and> length (Nonce proof) \<ge> 16)"
proof -
  have ok: "list_all (\<lambda>_. True) cs" by (simp add: list_all_iff)
  have "length (filter (\<lambda>(c, r). Nonce (bc_proof c) = n \<and> r) (zip cs (snd (bg_run P cs bg)))) = nonces.wins P n cs bg"
    by (simp add: nonces.wins_def bg_run_eq)
  moreover have "nonces.wins P n cs bg \<le> 1" by (rule nonces.wins_at_most_once [OF ok])
  moreover have "n \<in> seenNonces bg \<Longrightarrow> nonces.wins P n cs bg = 0"
    using nonces.wins_present [OF ok, of bg n P] by (simp add: bg_find_def)
  ultimately show ?thesis using Verify_accepted by (auto split: if_splits)
qed

text \<open>
  C8: Under any interleaving of overlapping requests, two requests to the endpoints that hold
  \<open>writeMu\<close> (provision, delegate, revoke) are never both accepted with the same nonce.
\<close>

theorem break_glass_concurrent_once:
  assumes "list_all (\<lambda>t. bt_phase t = BgStart) ts" "bg_reach P (bg, ts) (bg', ts')"
    and "i < length ts'" "j < length ts'" "i \<noteq> j" "bt_locked (ts' ! i)" "bt_locked (ts' ! j)"
    and "bt_phase (ts' ! i) = BgAccepted" "bt_phase (ts' ! j) = BgAccepted"
  shows "bt_nonce (ts' ! i) \<noteq> bt_nonce (ts' ! j)"
proof -
  have "bg_safe (bg, ts)" using assms(1) by (simp add: bg_safe_def seen_ok_def pair_ok_def list_all_length)
  then have "bg_safe (bg', ts')" using bg_safe_reach [OF assms(2)] by simp
  then have "pair_ok (ts' ! i) (ts' ! j)" using assms(3-5) by (simp add: bg_safe_def)
  then show ?thesis using assms(6-) by (simp add: pair_ok_def)
qed

end
