(* ===== verification/Ks_Auth.thy ===== *)
theory Ks_Auth
  imports Ks_Store
begin

text \<open>
  \<open>internal/keystore/auth.go\<close>: how the TLS layer turns a client certificate into the caller
  identity the handlers authorise. The SGX quote library (\<open>echeck\<close>) and the X.509 parser are
  parameters. The property is that a caller with a non-zero MRENCLAVE has presented a
  certificate whose quote verified and whose MRSIGNER is the configured one.
\<close>

subsection \<open>Data\<close>

record quote =
  q_MREnclave :: mrenclave
  q_MRSigner :: bytes

record attest =
  parseCertificate :: "bytes \<Rightarrow> bytes option"
  extractQuote :: "bytes \<Rightarrow> quote option"
  verifyQuote :: "bytes \<Rightarrow> quote \<Rightarrow> bool"

record peerInfo =
  pi_MRENCLAVE :: mrenclave
  pi_MRSIGNER :: bytes
  pi_CertHash :: bytes

type_synonym peerStore = "bytes \<rightharpoonup> peerInfo"

subsection \<open>Operations\<close>

definition newPeerStore :: peerStore where
  "newPeerStore = Map.empty"

definition peerStore_put :: "peerStore \<Rightarrow> bytes \<Rightarrow> peerInfo \<Rightarrow> peerStore" where
  "peerStore_put s certHash info = s(certHash \<mapsto> info)"

definition peerStore_get :: "peerStore \<Rightarrow> bytes \<Rightarrow> peerInfo option" where
  "peerStore_get s certHash = s certHash"

definition peerStore_drop :: "peerStore \<Rightarrow> bytes \<Rightarrow> peerStore" where
  "peerStore_drop s certHash = s(certHash := None)"

text \<open>The \<open>peerInfo\<close> computed for a parsed certificate (\<open>raw\<close> is \<open>cert.Raw\<close>).\<close>

definition peer_of_cert :: "platform \<Rightarrow> attest \<Rightarrow> string \<Rightarrow> bytes \<Rightarrow> peerInfo" where
  "peer_of_cert P A expectedMRSIGNER raw =
     (let info = \<lparr>pi_MRENCLAVE = zero32, pi_MRSIGNER = zero32, pi_CertHash = sha256 P raw\<rparr> in
      case extractQuote A raw of
        None \<Rightarrow> info
      | Some q \<Rightarrow>
          if verifyQuote A raw q then
            (if expectedMRSIGNER = [] \<or> hexEncode (q_MRSigner q) = expectedMRSIGNER
             then info\<lparr>pi_MRENCLAVE := q_MREnclave q, pi_MRSIGNER := q_MRSigner q\<rparr>
             else info)
          else info)"

definition verifyPeerCertificate ::
    "platform \<Rightarrow> attest \<Rightarrow> string \<Rightarrow> peerStore \<Rightarrow> bytes list \<Rightarrow> peerStore \<times> string option" where
  "verifyPeerCertificate P A expectedMRSIGNER peers rawCerts =
     (case rawCerts of
        [] \<Rightarrow> (peers, Some ''keystore: client presented no certificate'')
      | c # _ \<Rightarrow>
          (case parseCertificate A c of
             None \<Rightarrow> (peers, Some ''keystore: parse client cert'')
           | Some raw \<Rightarrow>
               (peerStore_put peers (sha256 P raw) (peer_of_cert P A expectedMRSIGNER raw), None)))"

text \<open>
  \<open>ConnContext\<close>: the context of a connection carries the peer, or nothing if the connection is
  not TLS, the handshake failed or there is no certificate.
\<close>

definition connContext :: "platform \<Rightarrow> peerStore \<Rightarrow> bool \<Rightarrow> bool \<Rightarrow> bytes list \<Rightarrow> peerInfo option" where
  "connContext P peers is_tls handshake_ok peerCertificates =
     (if \<not> is_tls then None
      else if \<not> handshake_ok then None
      else (case peerCertificates of
              [] \<Rightarrow> None
            | raw # _ \<Rightarrow> peerStore_get peers (sha256 P raw)))"

fun handshakes :: "platform \<Rightarrow> attest \<Rightarrow> string \<Rightarrow> bytes list list \<Rightarrow> peerStore \<Rightarrow> peerStore" where
  "handshakes P A signer [] peers = peers"
| "handshakes P A signer (cs # css) peers = handshakes P A signer css (fst (verifyPeerCertificate P A signer peers cs))"

subsection \<open>Lemmas\<close>

definition peers_inv :: "platform \<Rightarrow> attest \<Rightarrow> string \<Rightarrow> peerStore \<Rightarrow> bool" where
  "peers_inv P A signer peers =
     (\<forall>h info. peers h = Some info \<longrightarrow> (\<exists>raw. h = sha256 P raw \<and> info = peer_of_cert P A signer raw))"

lemma verifyPeerCertificate_inv:
  "peers_inv P A signer peers \<Longrightarrow> peers_inv P A signer (fst (verifyPeerCertificate P A signer peers cs))"
  by (auto simp: peers_inv_def verifyPeerCertificate_def peerStore_put_def split: list.splits option.splits)

lemma handshakes_inv: "peers_inv P A signer peers \<Longrightarrow> peers_inv P A signer (handshakes P A signer css peers)"
  by (induction css arbitrary: peers) (auto simp: verifyPeerCertificate_inv)

lemma peer_of_cert_attested:
  assumes "pi_MRENCLAVE (peer_of_cert P A signer raw) \<noteq> zero32"
  shows "\<exists>q. extractQuote A raw = Some q \<and> verifyQuote A raw q
    \<and> pi_MRENCLAVE (peer_of_cert P A signer raw) = q_MREnclave q
    \<and> (signer \<noteq> [] \<longrightarrow> hexEncode (q_MRSigner q) = signer)"
  using assms by (auto simp: peer_of_cert_def Let_def split: option.splits if_splits)

subsection \<open>Properties\<close>

text \<open>
  After any sequence of handshakes, a connection whose caller identity has a non-zero
  MRENCLAVE presented a certificate with the SHA-256 of one whose SGX quote verified, whose
  MRENCLAVE is the caller's, and whose MRSIGNER is the configured signer; with no SHA-256
  collision it is the certificate of this connection.
\<close>

theorem peer_identity_attested:
  assumes "connContext P (handshakes P A signer css newPeerStore) tls hs (raw # certs) = Some info"
    and "pi_MRENCLAVE info \<noteq> zero32"
  shows "\<exists>raw' q. sha256 P raw' = sha256 P raw \<and> extractQuote A raw' = Some q \<and> verifyQuote A raw' q
    \<and> pi_MRENCLAVE info = q_MREnclave q \<and> (signer \<noteq> [] \<longrightarrow> hexEncode (q_MRSigner q) = signer)"
proof -
  have "peers_inv P A signer (handshakes P A signer css newPeerStore)"
    by (rule handshakes_inv) (simp add: peers_inv_def newPeerStore_def)
  then obtain raw' where "sha256 P raw' = sha256 P raw" "info = peer_of_cert P A signer raw'"
    using assms(1) by (auto simp: connContext_def peerStore_get_def peers_inv_def split: if_splits) metis
  then show ?thesis using peer_of_cert_attested assms(2) by metis
qed

end
