(* ===== verification/Ks_Server.thy ===== *)
theory Ks_Server
  imports Ks_Allowlist Ks_Audit Ks_BreakGlass Ks_Auth
begin

text \<open>
  \<open>internal/keystore/server.go\<close>: construction of the server from sealed state and the five HTTP
  handlers, each as one function from the request, the environment and the server state to the
  new state and the response. The request decoders (JSON) are parameters.
\<close>

subsection \<open>Configuration, state, environment\<close>

record config =
  SealedDir :: string
  Listen :: string
  ServerTLS_set :: bool
  ExpectedClientMRSIGNER :: string
  OperatorPubKeyHex_cfg :: string
  Snapshotter_set :: bool

record server =
  sv_disk :: disk
  sv_allow :: allowlist
  sv_audit :: auditLog
  sv_bg :: breakGlass
  sv_snaps :: "(string \<times> disk) list"

text \<open>
  The environment of one request: one \<open>io\<close> for the operation and one for the audit append, the
  clock value of the response, and whether the snapshot succeeds (its failure is only logged).
\<close>

record henv =
  h_main :: io
  h_audit :: io
  h_now :: int
  h_snap_ok :: bool

record api =
  decGet :: "bytes \<Rightarrow> GetRequest option"
  decDelegate :: "bytes \<Rightarrow> DelegateRequest option"
  decProvision :: "bytes \<Rightarrow> ProvisionRequest option"
  decRevoke :: "bytes \<Rightarrow> RevokeRequest option"
  decList :: "bytes \<Rightarrow> ListRequest option"

definition keys_dir :: "config \<Rightarrow> string" where
  "keys_dir cfg = filepath_join (SealedDir cfg) ''keys''"

definition allow_path :: "config \<Rightarrow> string" where
  "allow_path cfg = filepath_join (SealedDir cfg) ''allowlist.bin''"

definition audit_path :: "config \<Rightarrow> string" where
  "audit_path cfg = filepath_join (SealedDir cfg) ''audit.bin''"

subsection \<open>Construction and lifecycle\<close>

definition keystore_New :: "platform \<Rightarrow> config \<Rightarrow> io \<Rightarrow> disk \<Rightarrow> ks_error + server" where
  "keystore_New P cfg e d =
     (if SealedDir cfg = [] then Inl (ErrOther ''keystore: SealedDir is required'')
      else if Listen cfg = [] then Inl (ErrOther ''keystore: Listen is required'')
      else if \<not> ServerTLS_set cfg then Inl (ErrOther ''keystore: ServerTLS is required'')
      else if \<not> mkdir_ok (io_wr e) then Inl (ErrOther ''mkdir keystore dir'')
      else bind_res (loadAllowlist P e d (allow_path cfg)) (\<lambda>allow.
           bind_res (loadAuditLog P e d (audit_path cfg)) (\<lambda>audit.
           case newBreakGlass (OperatorPubKeyHex_cfg cfg) of
             Inl msg \<Rightarrow> Inl (ErrOther msg)
           | Inr bg \<Rightarrow> Inr \<lparr>sv_disk = d, sv_allow = allow, sv_audit = audit, sv_bg = bg, sv_snaps = []\<rparr>)))"

definition srv_audit ::
    "platform \<Rightarrow> io \<Rightarrow> server \<Rightarrow> string \<Rightarrow> role \<Rightarrow> string \<Rightarrow> string \<Rightarrow> server \<times> (ks_error + u64)" where
  "srv_audit P e s action role actor detail =
     (let (d', a', r) = auditLog_Append P e (sv_disk s) (sv_audit s) action role actor detail
      in (s\<lparr>sv_disk := d', sv_audit := a'\<rparr>, r))"

definition server_Start :: "platform \<Rightarrow> io \<Rightarrow> server \<Rightarrow> server \<times> ks_error option" where
  "server_Start P e s =
     (let (s', r) = srv_audit P e s ''startup'' [] ''keystore'' []
      in (s', if isl r then Some (ErrOther ''write startup audit entry'') else None))"

definition server_shutdown :: "platform \<Rightarrow> io \<Rightarrow> server \<Rightarrow> server" where
  "server_shutdown P e s = fst (srv_audit P e s ''shutdown'' [] ''keystore'' ''graceful'')"

definition snapshotAfterWrite :: "config \<Rightarrow> henv \<Rightarrow> server \<Rightarrow> string \<Rightarrow> server" where
  "snapshotAfterWrite cfg h s label =
     (if \<not> Snapshotter_set cfg then s
      else if h_snap_ok h then s\<lparr>sv_snaps := sv_snaps s @ [(label, sv_disk s)]\<rparr>
      else s)"

subsection \<open>Handlers\<close>

definition handleGet ::
    "platform \<Rightarrow> api \<Rightarrow> config \<Rightarrow> henv \<Rightarrow> peerInfo option \<Rightarrow> bytes \<Rightarrow> server \<Rightarrow> server \<times> ks_resp" where
  "handleGet P api cfg h peer body s =
     (case peer of
        None \<Rightarrow> (s, RspErr 401 ''no peer attestation'')
      | Some p \<Rightarrow>
        (case decGet api body of
           None \<Rightarrow> (s, RspErr 400 ''decode body'')
         | Some req \<Rightarrow>
           (case validateRole (gr_Role req) of
              Some err \<Rightarrow> (s, RspErr 400 (ks_error_text err))
            | None \<Rightarrow>
              if \<not> allowlist_Allowed (sv_allow s) (gr_Role req) (pi_MRENCLAVE p) then
                (let (s1, _) = srv_audit P (h_audit h) s ''get-denied'' (gr_Role req)
                                 (encodeMRENCLAVEHex (pi_MRENCLAVE p)) []
                 in (s1, RspErr 403 (ks_error_text ErrNotAllowed)))
              else
                (case keyStore_Get P (h_main h) (keys_dir cfg) (sv_disk s) (gr_Role req) of
                   Inl ErrRoleNotFound \<Rightarrow> (s, RspErr 404 (ks_error_text ErrRoleNotFound))
                 | Inl _ \<Rightarrow> (s, RspErr 500 ''internal error'')
                 | Inr entry \<Rightarrow>
                     (let (s1, _) = srv_audit P (h_audit h) s ''get'' (gr_Role req)
                                      (encodeMRENCLAVEHex (pi_MRENCLAVE p)) []
                      in (s1, RspGet (ke_Key entry) (ke_KeyType entry) (ke_CreatedAt entry)))))))"

text \<open>The authorisation switch of \<open>handleDelegate\<close>: an error response, or who authorised.\<close>

definition delegate_auth ::
    "platform \<Rightarrow> peerInfo \<Rightarrow> DelegateRequest \<Rightarrow> server \<Rightarrow> server \<times> (ks_resp + string)" where
  "delegate_auth P p req s =
     (case dr_BreakGlass req of
        Some proof \<Rightarrow>
          (case breakGlass_Verify P (sv_bg s) proof ''delegate-add'' (dr_Role req) (NewMRENCLAVE req) of
             (bg', Some err) \<Rightarrow> (s\<lparr>sv_bg := bg'\<rparr>, Inl (RspErr 403 (ks_error_text err)))
           | (bg', None) \<Rightarrow>
               (s\<lparr>sv_bg := bg'\<rparr>, Inr (''operator-break-glass:'' @ OperatorPubKeyHex proof)))
      | None \<Rightarrow>
          if allowlist_Allowed (sv_allow s) (dr_Role req) (pi_MRENCLAVE p)
          then (s, Inr (encodeMRENCLAVEHex (pi_MRENCLAVE p)))
          else (s, Inl (RspErr 403
                 ''delegation requires either current allowlist membership or break-glass proof'')))"

definition handleDelegate ::
    "platform \<Rightarrow> api \<Rightarrow> config \<Rightarrow> henv \<Rightarrow> peerInfo option \<Rightarrow> bytes \<Rightarrow> server \<Rightarrow> server \<times> ks_resp" where
  "handleDelegate P api cfg h peer body s =
     (case peer of
        None \<Rightarrow> (s, RspErr 401 ''no peer attestation'')
      | Some p \<Rightarrow>
        (case decDelegate api body of
           None \<Rightarrow> (s, RspErr 400 ''decode body'')
         | Some req \<Rightarrow>
           (case validateRole (dr_Role req) of
              Some err \<Rightarrow> (s, RspErr 400 (ks_error_text err))
            | None \<Rightarrow>
              (case delegate_auth P p req s of
                 (s1, Inl rsp) \<Rightarrow> (s1, rsp)
               | (s1, Inr authorizedBy) \<Rightarrow>
                 (let (d', a', res) = allowlist_Add P (h_main h) (sv_disk s1) (sv_allow s1)
                                        (dr_Role req) (NewMRENCLAVE req);
                      s2 = s1\<lparr>sv_disk := d', sv_allow := a'\<rparr>
                  in case res of
                       Inl _ \<Rightarrow> (s2, RspErr 500 ''internal error'')
                     | Inr newAllow \<Rightarrow>
                         (let (s3, _) = srv_audit P (h_audit h) s2 ''delegate'' (dr_Role req) authorizedBy
                                          (''added '' @ encodeMRENCLAVEHex (NewMRENCLAVE req));
                              s4 = snapshotAfterWrite cfg h s3 ''post-delegate''
                          in (s4, RspDelegate (dr_Role req) newAllow (h_now h))))))))"

definition handleProvision ::
    "platform \<Rightarrow> api \<Rightarrow> config \<Rightarrow> henv \<Rightarrow> bytes \<Rightarrow> server \<Rightarrow> server \<times> ks_resp" where
  "handleProvision P api cfg h body s =
     (case decProvision api body of
        None \<Rightarrow> (s, RspErr 400 ''decode body'')
      | Some req \<Rightarrow>
        (case validateRole (pr_Role req) of
           Some err \<Rightarrow> (s, RspErr 400 (ks_error_text err))
         | None \<Rightarrow>
           if pr_Key req = [] then (s, RspErr 400 ''key is required'')
           else
             (case breakGlass_Verify P (sv_bg s) (pr_BreakGlass req) ''provision'' (pr_Role req) (pr_Key req) of
                (bg', Some err) \<Rightarrow> (s\<lparr>sv_bg := bg'\<rparr>, RspErr 403 (ks_error_text err))
              | (bg', None) \<Rightarrow>
                (let s1 = s\<lparr>sv_bg := bg'\<rparr>;
                     (d', perr) = keyStore_Provision P (h_main h) (keys_dir cfg) (sv_disk s1)
                                    (pr_Role req) (pr_Key req) (pr_KeyType req);
                     s2 = s1\<lparr>sv_disk := d'\<rparr>
                 in case perr of
                      Some ErrAlreadyProvisioned \<Rightarrow> (s2, RspErr 409 (ks_error_text ErrAlreadyProvisioned))
                    | Some _ \<Rightarrow> (s2, RspErr 500 ''internal error'')
                    | None \<Rightarrow>
                        (let (s3, _) = srv_audit P (h_audit h) s2 ''provision'' (pr_Role req)
                                         (''operator-break-glass:'' @ OperatorPubKeyHex (pr_BreakGlass req))
                                         (''type='' @ pr_KeyType req);
                             s4 = snapshotAfterWrite cfg h s3 ''post-provision''
                         in (s4, RspProvision (pr_Role req) (h_now h)))))))"

definition handleRevoke ::
    "platform \<Rightarrow> api \<Rightarrow> config \<Rightarrow> henv \<Rightarrow> bytes \<Rightarrow> server \<Rightarrow> server \<times> ks_resp" where
  "handleRevoke P api cfg h body s =
     (case decRevoke api body of
        None \<Rightarrow> (s, RspErr 400 ''decode body'')
      | Some req \<Rightarrow>
        (case validateRole (rr_Role req) of
           Some err \<Rightarrow> (s, RspErr 400 (ks_error_text err))
         | None \<Rightarrow>
           (case breakGlass_Verify P (sv_bg s) (rr_BreakGlass req) ''revoke'' (rr_Role req) (OldMRENCLAVE req) of
              (bg', Some err) \<Rightarrow> (s\<lparr>sv_bg := bg'\<rparr>, RspErr 403 (ks_error_text err))
            | (bg', None) \<Rightarrow>
              (let s1 = s\<lparr>sv_bg := bg'\<rparr>;
                   (d', a', err) = allowlist_Remove P (h_main h) (sv_disk s1) (sv_allow s1)
                                     (rr_Role req) (OldMRENCLAVE req);
                   s2 = s1\<lparr>sv_disk := d', sv_allow := a'\<rparr>
               in case err of
                    Some _ \<Rightarrow> (s2, RspErr 500 ''internal error'')
                  | None \<Rightarrow>
                      (let (s3, _) = srv_audit P (h_audit h) s2 ''revoke'' (rr_Role req)
                                       (''operator-break-glass:'' @ OperatorPubKeyHex (rr_BreakGlass req))
                                       (''removed '' @ encodeMRENCLAVEHex (OldMRENCLAVE req));
                           s4 = snapshotAfterWrite cfg h s3 ''post-revoke''
                       in (s4, RspNoContent))))))"

text \<open>One row of the list response; a role whose entry cannot be read has empty metadata.\<close>

definition role_info :: "platform \<Rightarrow> io \<Rightarrow> config \<Rightarrow> server \<Rightarrow> role \<Rightarrow> RoleInfo" where
  "role_info P e cfg s r =
     (let allowed = (case map_of (allowlist_Snapshot (sv_allow s)) r of None \<Rightarrow> [] | Some l \<Rightarrow> l) in
      case keyStore_Get P e (keys_dir cfg) (sv_disk s) r of
        Inr entry \<Rightarrow> \<lparr>ri_Role = r, ri_KeyType = ke_KeyType entry, ri_CreatedAt = ke_CreatedAt entry,
                      AllowedMRENCLAVE = allowed\<rparr>
      | Inl _ \<Rightarrow> \<lparr>ri_Role = r, ri_KeyType = [], ri_CreatedAt = 0, AllowedMRENCLAVE = allowed\<rparr>)"

definition handleList ::
    "platform \<Rightarrow> api \<Rightarrow> config \<Rightarrow> henv \<Rightarrow> bytes \<Rightarrow> server \<Rightarrow> server \<times> ks_resp" where
  "handleList P api cfg h body s =
     (case decList api body of
        None \<Rightarrow> (s, RspErr 400 ''decode body'')
      | Some req \<Rightarrow>
        (case breakGlass_Verify P (sv_bg s) (lr_BreakGlass req) ''list'' [] [] of
           (bg', Some err) \<Rightarrow> (s\<lparr>sv_bg := bg'\<rparr>, RspErr 403 (ks_error_text err))
         | (bg', None) \<Rightarrow>
           (let s1 = s\<lparr>sv_bg := bg'\<rparr> in
            case keyStore_ListRoles P (h_main h) (keys_dir cfg) (sv_disk s1) of
              Inl _ \<Rightarrow> (s1, RspErr 500 ''internal error'')
            | Inr roles \<Rightarrow>
                (s1, RspList (map (role_info P (h_main h) cfg s1) roles)
                       (if AuditTailSize req > 0 then auditLog_Tail (sv_audit s1) (AuditTailSize req) else [])))))"

subsection \<open>Routing\<close>

record http_req =
  rq_method :: string
  rq_path :: string
  rq_body :: bytes
  rq_peer :: "peerInfo option"

definition ks_paths :: "string list" where
  "ks_paths = [''/keystore/get'', ''/keystore/delegate'', ''/keystore/provision'', ''/keystore/revoke'',
               ''/keystore/list'']"

definition keystore_serve ::
    "platform \<Rightarrow> api \<Rightarrow> config \<Rightarrow> henv \<Rightarrow> http_req \<Rightarrow> server \<Rightarrow> server \<times> ks_resp" where
  "keystore_serve P api cfg h rq s =
     (if rq_path rq \<notin> set ks_paths then (s, RspErr 404 ''404 page not found'')
      else if rq_method rq \<noteq> ''POST'' then (s, RspErr 405 ''Method Not Allowed'')
      else if rq_path rq = ''/keystore/get'' then handleGet P api cfg h (rq_peer rq) (rq_body rq) s
      else if rq_path rq = ''/keystore/delegate'' then handleDelegate P api cfg h (rq_peer rq) (rq_body rq) s
      else if rq_path rq = ''/keystore/provision'' then handleProvision P api cfg h (rq_body rq) s
      else if rq_path rq = ''/keystore/revoke'' then handleRevoke P api cfg h (rq_body rq) s
      else handleList P api cfg h (rq_body rq) s)"

end
