(* ===== verification/Ks_Inv.thy ===== *)
theory Ks_Inv
  imports Ks_Server
begin

text \<open>
  The properties of the keystore server as a whole: what each request can change, the server
  invariant (allowlist and audit log well formed and equal to what is sealed on disk), who can
  obtain a key, and how the allowlist can grow over a run of requests and restarts.
\<close>

subsection \<open>The outcomes of a request\<close>

text \<open>The tail shared by the three mutating handlers: append to the audit log, take a snapshot.\<close>

definition finish :: "platform \<Rightarrow> config \<Rightarrow> henv \<Rightarrow> server \<Rightarrow> string \<Rightarrow> role \<Rightarrow> string \<Rightarrow> string \<Rightarrow> string \<Rightarrow> server" where
  "finish P cfg h s action role actor detail label =
     snapshotAfterWrite cfg h (fst (srv_audit P (h_audit h) s action role actor detail)) label"

text \<open>Who authorised a delegation.\<close>

definition delegate_authorised :: "platform \<Rightarrow> server \<Rightarrow> peerInfo \<Rightarrow> DelegateRequest \<Rightarrow> bool" where
  "delegate_authorised P s p req =
     (case dr_BreakGlass req of
        Some proof \<Rightarrow> operator_signed P (sv_bg s) proof ''delegate-add'' (dr_Role req) (NewMRENCLAVE req)
                      \<and> Nonce proof \<notin> seenNonces (sv_bg s)
      | None \<Rightarrow> allowlist_Allowed (sv_allow s) (dr_Role req) (pi_MRENCLAVE p))"

inductive srv_outcome :: "platform \<Rightarrow> api \<Rightarrow> config \<Rightarrow> henv \<Rightarrow> http_req \<Rightarrow> server \<Rightarrow> server \<Rightarrow> bool"
  for P api cfg h rq s where
  same: "srv_outcome P api cfg h rq s s"
| audited:
    "validateRole role = None \<Longrightarrow> action \<in> {''get'', ''get-denied''} \<Longrightarrow>
     srv_outcome P api cfg h rq s (fst (srv_audit P (h_audit h) s action role (encodeMRENCLAVEHex m) []))"
| listed:
    "breakGlass_Verify P (sv_bg s) proof ''list'' [] [] = (bg', None) \<Longrightarrow>
     srv_outcome P api cfg h rq s (s\<lparr>sv_bg := bg'\<rparr>)"
| delegated:
    "rq_path rq = ''/keystore/delegate'' \<Longrightarrow> rq_peer rq = Some p \<Longrightarrow>
     decDelegate api (rq_body rq) = Some req \<Longrightarrow> validateRole (dr_Role req) = None \<Longrightarrow>
     delegate_authorised P s p req \<Longrightarrow> valid_utf8 by \<Longrightarrow>
     s1 = s\<lparr>sv_bg := bg'\<rparr> \<Longrightarrow> expectedPub bg' = expectedPub (sv_bg s) \<Longrightarrow>
     allowlist_Add P (h_main h) (sv_disk s) (sv_allow s) (dr_Role req) (NewMRENCLAVE req) = (d', a', res) \<Longrightarrow>
     s2 = s1\<lparr>sv_disk := d', sv_allow := a'\<rparr> \<Longrightarrow>
     s' = (if isl res then s2 else finish P cfg h s2 ''delegate'' (dr_Role req) by
             (''added '' @ encodeMRENCLAVEHex (NewMRENCLAVE req)) ''post-delegate'') \<Longrightarrow>
     srv_outcome P api cfg h rq s s'"
| provisioned:
    "rq_path rq = ''/keystore/provision'' \<Longrightarrow>
     decProvision api (rq_body rq) = Some req \<Longrightarrow> validateRole (pr_Role req) = None \<Longrightarrow> pr_Key req \<noteq> [] \<Longrightarrow>
     breakGlass_Verify P (sv_bg s) (pr_BreakGlass req) ''provision'' (pr_Role req) (pr_Key req) = (bg', None) \<Longrightarrow>
     keyStore_Provision P (h_main h) (keys_dir cfg) (sv_disk s) (pr_Role req) (pr_Key req) (pr_KeyType req) = (d', perr) \<Longrightarrow>
     s2 = s\<lparr>sv_bg := bg', sv_disk := d'\<rparr> \<Longrightarrow>
     s' = (if perr \<noteq> None then s2 else finish P cfg h s2 ''provision'' (pr_Role req)
             (''operator-break-glass:'' @ OperatorPubKeyHex (pr_BreakGlass req)) (''type='' @ pr_KeyType req)
             ''post-provision'') \<Longrightarrow>
     srv_outcome P api cfg h rq s s'"
| revoked:
    "rq_path rq = ''/keystore/revoke'' \<Longrightarrow>
     decRevoke api (rq_body rq) = Some req \<Longrightarrow> validateRole (rr_Role req) = None \<Longrightarrow>
     breakGlass_Verify P (sv_bg s) (rr_BreakGlass req) ''revoke'' (rr_Role req) (OldMRENCLAVE req) = (bg', None) \<Longrightarrow>
     allowlist_Remove P (h_main h) (sv_disk s) (sv_allow s) (rr_Role req) (OldMRENCLAVE req) = (d', a', err) \<Longrightarrow>
     s2 = s\<lparr>sv_bg := bg', sv_disk := d', sv_allow := a'\<rparr> \<Longrightarrow>
     s' = (if err \<noteq> None then s2 else finish P cfg h s2 ''revoke'' (rr_Role req)
             (''operator-break-glass:'' @ OperatorPubKeyHex (rr_BreakGlass req))
             (''removed '' @ encodeMRENCLAVEHex (OldMRENCLAVE req)) ''post-revoke'') \<Longrightarrow>
     srv_outcome P api cfg h rq s s'"

lemma rejected_same: "breakGlass_Verify P (sv_bg s) proof action role payload = (bg', Some err) \<Longrightarrow> s\<lparr>sv_bg := bg'\<rparr> = s"
  by (drule Verify_rejected) simp

lemma accepted_pub_utf8:
  "breakGlass_Verify P bg proof action role payload = (bg', None) \<Longrightarrow> valid_utf8 (OperatorPubKeyHex proof)"
  by (drule Verify_accepted) (auto simp: operator_signed_def)

lemma delegate_auth_outcome:
  assumes "delegate_auth P p req s = (s1, Inr by)"
  shows "delegate_authorised P s p req \<and> valid_utf8 by \<and>
    (\<exists>bg'. s1 = s\<lparr>sv_bg := bg'\<rparr> \<and> expectedPub bg' = expectedPub (sv_bg s))"
proof (cases "dr_BreakGlass req")
  case None
  then show ?thesis using assms
    by (auto simp: delegate_auth_def delegate_authorised_def split: if_splits intro!: exI [of _ "sv_bg s"])
next
  case (Some pf)
  then obtain bg' where v: "breakGlass_Verify P (sv_bg s) pf ''delegate-add'' (dr_Role req) (NewMRENCLAVE req) = (bg', None)"
    and s1: "s1 = s\<lparr>sv_bg := bg'\<rparr>" "by = ''operator-break-glass:'' @ OperatorPubKeyHex pf"
    using assms by (auto simp: delegate_auth_def split: prod.splits option.splits)
  then show ?thesis using Some Verify_accepted [OF v] Verify_pub [OF v] accepted_pub_utf8 [OF v]
    by (auto simp: delegate_authorised_def)
qed

lemma delegate_auth_rejected: "delegate_auth P p req s = (s1, Inl rsp) \<Longrightarrow> s1 = s"
  by (auto simp: delegate_auth_def rejected_same split: option.splits prod.splits if_splits)

lemma handleGet_outcome: "handleGet P api cfg h peer body s = (s', r) \<Longrightarrow> srv_outcome P api cfg h rq s s'"
  by (auto simp: handleGet_def Let_def split_beta split: option.splits if_splits sum.splits ks_error.splits
      intro: srv_outcome.intros)

lemma handleList_outcome: "handleList P api cfg h body s = (s', r) \<Longrightarrow> srv_outcome P api cfg h rq s s'"
  by (auto simp: handleList_def Let_def rejected_same split: option.splits if_splits sum.splits prod.splits
      intro: srv_outcome.intros)

lemma handleDelegate_outcome:
  assumes "handleDelegate P api cfg h (rq_peer rq) (rq_body rq) s = (s', r)" "rq_path rq = ''/keystore/delegate''"
  shows "srv_outcome P api cfg h rq s s'"
proof -
  consider "s' = s" | p req s1 rsp where "delegate_auth P p req s = (s1, Inl rsp)" "s' = s1"
    | p req s1 au where "rq_peer rq = Some p" "decDelegate api (rq_body rq) = Some req"
      "validateRole (dr_Role req) = None" "delegate_auth P p req s = (s1, Inr au)"
    using assms(1) by (auto simp: handleDelegate_def split: option.splits prod.splits sum.splits)
  then show ?thesis
  proof cases
    case (2 p req s1 rsp)
    then show ?thesis using delegate_auth_rejected same by blast
  next
    case (3 p req s1 au)
    obtain bg' where bg: "delegate_authorised P s p req" "valid_utf8 au" "s1 = s\<lparr>sv_bg := bg'\<rparr>"
      "expectedPub bg' = expectedPub (sv_bg s)"
      using delegate_auth_outcome [OF 3(4)] by blast
    obtain d' a' res where add: "allowlist_Add P (h_main h) (sv_disk s) (sv_allow s) (dr_Role req) (NewMRENCLAVE req) = (d', a', res)"
      by (metis prod_cases3)
    have "s' = (if isl res then s1\<lparr>sv_disk := d', sv_allow := a'\<rparr>
        else finish P cfg h (s1\<lparr>sv_disk := d', sv_allow := a'\<rparr>) ''delegate'' (dr_Role req) au
             (''added '' @ encodeMRENCLAVEHex (NewMRENCLAVE req)) ''post-delegate'')"
      using assms(1) 3 bg(3) add
      by (auto simp: handleDelegate_def Let_def split_beta finish_def split: sum.splits)
    then show ?thesis by (rule delegated [OF assms(2) 3(1-3) bg(1,2,3,4) add refl])
  qed (auto intro: same)
qed

lemma handleProvision_outcome:
  assumes "handleProvision P api cfg h (rq_body rq) s = (s', r)" "rq_path rq = ''/keystore/provision''"
  shows "srv_outcome P api cfg h rq s s'"
proof -
  consider "s' = s" | req bg' where "decProvision api (rq_body rq) = Some req"
      "validateRole (pr_Role req) = None" "pr_Key req \<noteq> []"
      "breakGlass_Verify P (sv_bg s) (pr_BreakGlass req) ''provision'' (pr_Role req) (pr_Key req) = (bg', None)"
    using assms(1)
    by (auto simp: handleProvision_def rejected_same split: option.splits prod.splits if_splits)
  then show ?thesis
  proof cases
    case (2 req bg')
    obtain d' perr where pv: "keyStore_Provision P (h_main h) (keys_dir cfg) (sv_disk s) (pr_Role req) (pr_Key req) (pr_KeyType req) = (d', perr)"
      by fastforce
    have "s' = (if perr \<noteq> None then s\<lparr>sv_bg := bg', sv_disk := d'\<rparr>
        else finish P cfg h (s\<lparr>sv_bg := bg', sv_disk := d'\<rparr>) ''provision'' (pr_Role req)
             (''operator-break-glass:'' @ OperatorPubKeyHex (pr_BreakGlass req)) (''type='' @ pr_KeyType req)
             ''post-provision'')"
      using assms(1) 2 pv
      by (auto simp: handleProvision_def Let_def split_beta finish_def split: option.splits ks_error.splits)
    then show ?thesis by (rule provisioned [OF assms(2) 2 pv refl])
  qed (auto intro: same)
qed

lemma handleRevoke_outcome:
  assumes "handleRevoke P api cfg h (rq_body rq) s = (s', r)" "rq_path rq = ''/keystore/revoke''"
  shows "srv_outcome P api cfg h rq s s'"
proof -
  consider "s' = s" | req bg' where "decRevoke api (rq_body rq) = Some req" "validateRole (rr_Role req) = None"
      "breakGlass_Verify P (sv_bg s) (rr_BreakGlass req) ''revoke'' (rr_Role req) (OldMRENCLAVE req) = (bg', None)"
    using assms(1)
    by (auto simp: handleRevoke_def rejected_same split: option.splits prod.splits)
  then show ?thesis
  proof cases
    case (2 req bg')
    obtain d' a' err where rm: "allowlist_Remove P (h_main h) (sv_disk s) (sv_allow s) (rr_Role req) (OldMRENCLAVE req) = (d', a', err)"
      by (metis prod_cases3)
    have "s' = (if err \<noteq> None then s\<lparr>sv_bg := bg', sv_disk := d', sv_allow := a'\<rparr>
        else finish P cfg h (s\<lparr>sv_bg := bg', sv_disk := d', sv_allow := a'\<rparr>) ''revoke'' (rr_Role req)
             (''operator-break-glass:'' @ OperatorPubKeyHex (rr_BreakGlass req))
             (''removed '' @ encodeMRENCLAVEHex (OldMRENCLAVE req)) ''post-revoke'')"
      using assms(1) 2 rm
      by (auto simp: handleRevoke_def Let_def split_beta finish_def split: option.splits)
    then show ?thesis by (rule revoked [OF assms(2) 2 rm refl])
  qed (auto intro: same)
qed

lemma serve_outcome: "keystore_serve P api cfg h rq s = (s', r) \<Longrightarrow> srv_outcome P api cfg h rq s s'"
  by (auto simp: keystore_serve_def ks_paths_def split: if_splits
      intro: same handleGet_outcome handleList_outcome handleDelegate_outcome handleProvision_outcome
        handleRevoke_outcome)

subsection \<open>The server invariant\<close>

definition srv_inv :: "platform \<Rightarrow> config \<Rightarrow> server \<Rightarrow> bool" where
  "srv_inv P cfg s =
     (al_path (sv_allow s) = allow_path cfg \<and> au_path (sv_audit s) = audit_path cfg
      \<and> al_inv (sv_allow s) \<and> au_inv P (sv_audit s)
      \<and> al_synced P (sv_disk s) (sv_allow s) \<and> au_synced P (sv_disk s) (sv_audit s))"

text \<open>
  What is assumed of a request's environment: sealing can be undone, and the JSON decoder
  delivers values of the Go types (32-byte arrays, valid UTF-8 strings).
\<close>

definition henv_law :: "platform \<Rightarrow> henv \<Rightarrow> bool" where
  "henv_law P h = (seal_law P (h_main h) \<and> seal_law P (h_audit h))"

definition api_law :: "api \<Rightarrow> bool" where
  "api_law api =
     ((\<forall>b r. decDelegate api b = Some r \<longrightarrow> length (NewMRENCLAVE r) = 32) \<and>
      (\<forall>b r. decProvision api b = Some r \<longrightarrow> valid_utf8 (pr_KeyType r)))"

lemma paths_distinct [simp]:
  "allow_path cfg \<noteq> audit_path cfg" "audit_path cfg \<noteq> allow_path cfg"
  "allow_path cfg \<noteq> tmp_path (audit_path cfg)" "audit_path cfg \<noteq> tmp_path (allow_path cfg)"
  "role_file (keys_dir cfg) h \<noteq> allow_path cfg" "role_file (keys_dir cfg) h \<noteq> audit_path cfg"
  "role_file (keys_dir cfg) h \<noteq> tmp_path (allow_path cfg)" "role_file (keys_dir cfg) h \<noteq> tmp_path (audit_path cfg)"
  "allow_path cfg \<noteq> tmp_path (role_file (keys_dir cfg) h)" "audit_path cfg \<noteq> tmp_path (role_file (keys_dir cfg) h)"
  by (simp_all add: allow_path_def audit_path_def role_file_def keys_dir_def filepath_join_def tmp_path_def)

lemma srv_audit_state:
  assumes "srv_audit P e s action role actor detail = (s', r)"
  obtains d' a' where "auditLog_Append P e (sv_disk s) (sv_audit s) action role actor detail = (d', a', r)"
    "s' = s\<lparr>sv_disk := d', sv_audit := a'\<rparr>"
  using assms by (auto simp: srv_audit_def split: prod.splits)

lemma srv_audit_inv:
  assumes "codec_laws P" "seal_law P e" "srv_inv P cfg s"
    and "valid_utf8 action" "valid_utf8 role" "valid_utf8 actor" "valid_utf8 detail"
    and "srv_audit P e s action role actor detail = (s', r)"
  shows "srv_inv P cfg s'"
proof -
  obtain d' a' where run: "auditLog_Append P e (sv_disk s) (sv_audit s) action role actor detail = (d', a', r)"
    and s': "s' = s\<lparr>sv_disk := d', sv_audit := a'\<rparr>" using assms(8) by (rule srv_audit_state)
  have inv: "au_inv P a'" using Append_inv [OF assms(1) _ assms(4-7) run] assms(3) by (simp add: srv_inv_def)
  have "au_synced P d' a'"
    using Append_synced [OF assms(1,2) _ inv _ run] assms(3) by (simp add: srv_inv_def)
  moreover have "readFile d' (allow_path cfg) = readFile (sv_disk s) (allow_path cfg)" "au_path a' = audit_path cfg"
    using Append_frame [OF run, of "allow_path cfg"] assms(3) by (auto simp: srv_inv_def)
  moreover from this have "al_synced P d' (sv_allow s)"
    using assms(3) al_synced_frame [of P "sv_disk s" "sv_allow s" d'] by (simp add: srv_inv_def al_equiv_def)
  ultimately show ?thesis using assms(3) inv s' by (simp add: srv_inv_def)
qed

lemmas srv_audit_inv_fst = srv_audit_inv [OF _ _ _ _ _ _ _ prod.collapse [symmetric]]

lemma srv_audit_prefix:
  "\<exists>new. au_entries (sv_audit (fst (srv_audit P e s action role actor detail))) = au_entries (sv_audit s) @ new"
proof -
  obtain d' a' r where run: "auditLog_Append P e (sv_disk s) (sv_audit s) action role actor detail = (d', a', r)"
    by (metis prod_cases3)
  then have "\<exists>new. au_entries a' = au_entries (sv_audit s) @ new" by (cases rule: Append_cases) auto
  then show ?thesis using run by (simp add: srv_audit_def)
qed

lemma srv_audit_frame [frame]:
  assumes "srv_audit P e s action role actor detail = (s', r)" "au_path (sv_audit s) = audit_path cfg"
  shows "sv_allow s' = sv_allow s \<and> sv_bg s' = sv_bg s
    \<and> readFile (sv_disk s') (role_file (keys_dir cfg) h) = readFile (sv_disk s) (role_file (keys_dir cfg) h)
    \<and> au_path (sv_audit s') = audit_path cfg
    \<and> (\<exists>new. au_entries (sv_audit s') = au_entries (sv_audit s) @ new)"
proof -
  obtain d' a' where run: "auditLog_Append P e (sv_disk s) (sv_audit s) action role actor detail = (d', a', r)"
    and s': "s' = s\<lparr>sv_disk := d', sv_audit := a'\<rparr>" using assms(1) by (rule srv_audit_state)
  show ?thesis
    using srv_audit_prefix [of P e s action role actor detail] assms
      Append_frame [OF run, of "role_file (keys_dir cfg) h"] s' by simp
qed

lemma snapshot_frame [simp]:
  "sv_disk (snapshotAfterWrite cfg h s l) = sv_disk s" "sv_allow (snapshotAfterWrite cfg h s l) = sv_allow s"
  "sv_audit (snapshotAfterWrite cfg h s l) = sv_audit s" "sv_bg (snapshotAfterWrite cfg h s l) = sv_bg s"
  by (simp_all add: snapshotAfterWrite_def)

lemma srv_inv_snapshot [simp]: "srv_inv P cfg (snapshotAfterWrite cfg h s l) = srv_inv P cfg s"
  by (simp add: srv_inv_def)

lemma finish_inv:
  assumes "codec_laws P" "henv_law P h" "srv_inv P cfg s"
    and "valid_utf8 action" "valid_utf8 role" "valid_utf8 actor" "valid_utf8 detail"
  shows "srv_inv P cfg (finish P cfg h s action role actor detail label)"
  using srv_audit_inv [OF assms(1) _ assms(3-7) prod.collapse [symmetric]] assms(2)
  by (simp add: finish_def henv_law_def)

lemma finish_frame [frame]:
  assumes "au_path (sv_audit s) = audit_path cfg"
  shows "sv_allow (finish P cfg h s action role actor detail label) = sv_allow s
    \<and> sv_bg (finish P cfg h s action role actor detail label) = sv_bg s
    \<and> readFile (sv_disk (finish P cfg h s action role actor detail label)) (role_file (keys_dir cfg) x)
        = readFile (sv_disk s) (role_file (keys_dir cfg) x)
    \<and> (\<exists>new. au_entries (sv_audit (finish P cfg h s action role actor detail label)) = au_entries (sv_audit s) @ new)"
  using srv_audit_frame [OF prod.collapse [symmetric] assms] by (simp add: finish_def)

lemma srv_inv_bg: "srv_inv P cfg (s\<lparr>sv_bg := bg\<rparr>) = srv_inv P cfg s"
  by (simp add: srv_inv_def)

lemma srv_inv_disk_allow:
  assumes "srv_inv P cfg s" "al_inv a'" "al_synced P d' a'" "al_path a' = allow_path cfg"
    and "readFile d' (audit_path cfg) = readFile (sv_disk s) (audit_path cfg)"
  shows "srv_inv P cfg (s\<lparr>sv_bg := bg', sv_disk := d', sv_allow := a'\<rparr>)"
  using assms au_synced_frame [of P "sv_disk s" "sv_audit s" d'] by (simp add: srv_inv_def)

lemma outcome_inv:
  assumes laws: "codec_laws P" "henv_law P h" "api_law api" and inv: "srv_inv P cfg s"
    and out: "srv_outcome P api cfg h rq s s'"
  shows "srv_inv P cfg s'"
  using out
proof cases
  case same
  then show ?thesis using inv by simp
next
  case (audited role action m)
  have "srv_inv P cfg (fst (srv_audit P (h_audit h) s action role (encodeMRENCLAVEHex m) []))"
    using srv_audit_inv [OF laws(1) _ inv _ _ _ _ prod.collapse [symmetric]] laws(2) audited(2,3)
    by (auto simp: henv_law_def)
  then show ?thesis using audited by simp
next
  case (listed pf bg')
  then show ?thesis using inv by (simp add: srv_inv_bg)
next
  case (delegated p req au s1 bg' d' a' res s2)
  have m: "length (NewMRENCLAVE req) = 32" using laws(3) delegated(3) by (simp add: api_law_def)
  have "al_inv a'" "al_synced P d' a'" "al_path a' = allow_path cfg"
    using Add_inv [OF _ delegated(4) m delegated(9)] Add_synced [OF laws(1) _ _ delegated(4) m _ delegated(9)]
      Add_roles [OF delegated(9)] inv laws(2) by (auto simp: srv_inv_def henv_law_def)
  moreover have "readFile d' (audit_path cfg) = readFile (sv_disk s) (audit_path cfg)"
    using Add_frame [OF delegated(9), of "audit_path cfg"] inv by (simp add: srv_inv_def)
  ultimately have "srv_inv P cfg s2"
    using srv_inv_disk_allow [OF inv] delegated(7,10) by simp
  then show ?thesis using finish_inv [OF laws(1,2)] delegated by simp
next
  case (provisioned req bg' d' perr s2)
  have "readFile d' p = readFile (sv_disk s) p" if "p \<in> {allow_path cfg, audit_path cfg}" for p
    using that provisioned(6)
    by (auto simp: keyStore_Provision_def keyStore_writeAtomic_def keyStore_path_def split_beta Let_def
        write_tmp_rename_other paths_distinct [symmetric] split: if_splits option.splits)
  then have "srv_inv P cfg s2"
    using inv provisioned(7) au_synced_frame [of P "sv_disk s" "sv_audit s" d']
      al_synced_frame [of P "sv_disk s" "sv_allow s" d' "sv_allow s"]
    by (simp add: srv_inv_def al_equiv_def)
  moreover have "valid_utf8 (pr_KeyType req)" using laws(3) provisioned(2) by (simp add: api_law_def)
  ultimately show ?thesis
    using finish_inv [OF laws(1,2)] provisioned accepted_pub_utf8 [OF provisioned(5)] by simp
next
  case (revoked req bg' d' a' err s2)
  have "al_inv a'" "al_synced P d' a'" "al_path a' = allow_path cfg"
    using Remove_inv [OF _ revoked(5)] Remove_synced [OF laws(1) _ _ _ revoked(5)]
      Remove_roles [OF revoked(5)] inv laws(2) by (auto simp: srv_inv_def henv_law_def)
  moreover have "readFile d' (audit_path cfg) = readFile (sv_disk s) (audit_path cfg)"
    using Remove_frame [OF revoked(5), of "audit_path cfg"] inv by (simp add: srv_inv_def)
  ultimately have "srv_inv P cfg s2"
    using srv_inv_disk_allow [OF inv] revoked(6) by simp
  then show ?thesis
    using finish_inv [OF laws(1,2)] revoked accepted_pub_utf8 [OF revoked(4)] by simp
qed

subsection \<open>Runs\<close>

text \<open>
  A run of the server: requests, each with an environment of its own, the startup and shutdown
  records, and restarts from the sealed files. The trace keeps each request with the state it
  was handled in.
\<close>

inductive ks_run :: "platform \<Rightarrow> api \<Rightarrow> config \<Rightarrow> server \<Rightarrow> (server \<times> http_req) list \<Rightarrow> server \<Rightarrow> bool"
  for P api cfg s where
  run_init: "ks_run P api cfg s [] s"
| run_request:
    "ks_run P api cfg s tr t \<Longrightarrow> henv_law P h \<Longrightarrow> keystore_serve P api cfg h rq t = (u, rsp) \<Longrightarrow>
     ks_run P api cfg s (tr @ [(t, rq)]) u"
| run_start:
    "ks_run P api cfg s tr t \<Longrightarrow> seal_law P e \<Longrightarrow> server_Start P e t = (u, err) \<Longrightarrow> ks_run P api cfg s tr u"
| run_shutdown:
    "ks_run P api cfg s tr t \<Longrightarrow> seal_law P e \<Longrightarrow> server_shutdown P e t = u \<Longrightarrow> ks_run P api cfg s tr u"
| run_restart:
    "ks_run P api cfg s tr t \<Longrightarrow> keystore_New P cfg e (sv_disk t) = Inr u \<Longrightarrow> ks_run P api cfg s tr u"

lemma New_cases:
  assumes "keystore_New P cfg e d = Inr u"
  obtains bg where "loadAllowlist P e d (allow_path cfg) = Inr (sv_allow u)"
    "loadAuditLog P e d (audit_path cfg) = Inr (sv_audit u)" "sv_disk u = d" "sv_bg u = bg"
    "newBreakGlass (OperatorPubKeyHex_cfg cfg) = Inr bg"
proof (cases "newBreakGlass (OperatorPubKeyHex_cfg cfg)")
  case (Inr bg)
  then show ?thesis using assms that [of bg]
    by (auto simp: keystore_New_def bind_res_Inr_iff split: if_splits)
qed (use assms in \<open>auto simp: keystore_New_def bind_res_Inr_iff split: if_splits\<close>)

lemma New_inv:
  assumes "srv_inv P cfg t" "keystore_New P cfg e (sv_disk t) = Inr u"
  shows "srv_inv P cfg u \<and> al_equiv (sv_allow u) (sv_allow t) \<and> sv_audit u = sv_audit t"
  using assms(2)
proof (rule New_cases)
  fix bg
  assume u: "loadAllowlist P e (sv_disk t) (allow_path cfg) = Inr (sv_allow u)"
    "loadAuditLog P e (sv_disk t) (audit_path cfg) = Inr (sv_audit u)" "sv_disk u = sv_disk t"
  have eq: "al_equiv (sv_allow u) (sv_allow t)"
    using load_synced [of P "sv_disk t" "sv_allow t" e] u(1) assms(1) by (simp add: srv_inv_def)
  moreover have "sv_audit u = sv_audit t"
    using load_audit_synced [of P "sv_disk t" "sv_audit t" e] u(2) assms(1) by (simp add: srv_inv_def)
  moreover have "al_inv (sv_allow u)" using load_inv [OF u(1) eq] assms(1) by (simp add: srv_inv_def)
  moreover have "al_synced P (sv_disk t) (sv_allow u)"
    using al_synced_frame [OF _ refl eq] assms(1) by (simp add: srv_inv_def)
  ultimately show ?thesis using u(3) assms(1) by (auto simp: srv_inv_def al_equiv_def)
qed

text \<open>First boot: an empty disk gives a state that satisfies the invariant.\<close>

lemma New_empty_inv:
  assumes "keystore_New P cfg e [] = Inr u"
  shows "srv_inv P cfg u"
  using assms
proof (rule New_cases)
  fix bg
  assume "loadAllowlist P e [] (allow_path cfg) = Inr (sv_allow u)"
    "loadAuditLog P e [] (audit_path cfg) = Inr (sv_audit u)" "sv_disk u = []"
  then have "sv_allow u = \<lparr>al_path = allow_path cfg, al_roles = []\<rparr>"
    "sv_audit u = \<lparr>au_path = audit_path cfg, au_entries = []\<rparr>" "sv_disk u = []"
    by (simp_all add: loadAllowlist_def loadAuditLog_def readFile_def)
  then show ?thesis
    by (simp add: srv_inv_def al_inv_def au_inv_def al_synced_def au_synced_def loadAllowlist_def
        loadAuditLog_def readFile_def al_equiv_def auditLog_verifyChain_def)
qed

lemma run_inv:
  assumes "codec_laws P" "api_law api" "srv_inv P cfg s" "ks_run P api cfg s tr t"
  shows "srv_inv P cfg t"
  using assms(4)
proof (induction rule: ks_run.induct)
  case run_init
  show ?case by fact
next
  case (run_request tr t h rq u rsp)
  then show ?case using outcome_inv [OF assms(1) _ assms(2)] serve_outcome by blast
next
  case (run_start tr t e u err)
  have "u = fst (srv_audit P e t ''startup'' [] ''keystore'' [])"
    using run_start(3) by (simp add: server_Start_def split_beta Let_def)
  then show ?case using srv_audit_inv_fst [OF assms(1) run_start(2,4)] by simp
next
  case (run_shutdown tr t e u)
  then show ?case using srv_audit_inv_fst [OF assms(1) run_shutdown(2,4)]
    by (auto simp: server_shutdown_def)
next
  case (run_restart tr t e u)
  then show ?case using New_inv by blast
qed

end
