(* ===== verification/Ks_Props.thy ===== *)
theory Ks_Props
  imports Ks_Inv
begin

text \<open>
  The security properties of the keystore server: who is served a key, how the allowlist and the
  key files can change, what survives a restart, and what the audit log records.
\<close>

subsection \<open>Chains of delegation\<close>

text \<open>
  A grant is rooted in a trace when it was there at the start, or the operator signed it, or a
  caller whose own grant for the same role is rooted delegated it.
\<close>

inductive rooted ::
    "platform \<Rightarrow> api \<Rightarrow> server \<Rightarrow> (server \<times> http_req) list \<Rightarrow> role \<Rightarrow> mrenclave \<Rightarrow> bool"
  for P api s tr where
  root_init: "allowlist_Allowed (sv_allow s) r m \<Longrightarrow> rooted P api s tr r m"
| root_operator:
    "(t, rq) \<in> set tr \<Longrightarrow> rq_path rq = ''/keystore/delegate'' \<Longrightarrow> decDelegate api (rq_body rq) = Some req \<Longrightarrow>
     dr_BreakGlass req = Some pf \<Longrightarrow>
     operator_signed P (sv_bg t) pf ''delegate-add'' (dr_Role req) (NewMRENCLAVE req) \<Longrightarrow>
     rooted P api s tr (dr_Role req) (NewMRENCLAVE req)"
| root_chained:
    "(t, rq) \<in> set tr \<Longrightarrow> rq_path rq = ''/keystore/delegate'' \<Longrightarrow> decDelegate api (rq_body rq) = Some req \<Longrightarrow>
     dr_BreakGlass req = None \<Longrightarrow> rq_peer rq = Some p \<Longrightarrow>
     rooted P api s tr (dr_Role req) (pi_MRENCLAVE p) \<Longrightarrow>
     rooted P api s tr (dr_Role req) (NewMRENCLAVE req)"

lemma rooted_mono:
  "rooted P api s tr r m \<Longrightarrow> set tr \<subseteq> set tr' \<Longrightarrow> rooted P api s tr' r m"
proof (induction rule: rooted.induct)
  case (root_init r m)
  then show ?case by (blast intro: rooted.root_init)
next
  case (root_operator t rq req pf)
  then show ?case by (blast intro: rooted.root_operator)
next
  case (root_chained t rq req p)
  then show ?case by (blast intro: rooted.root_chained)
qed

lemma rooted_snoc: "rooted P api s tr r m \<Longrightarrow> rooted P api s (tr @ [x]) r m"
  by (erule rooted_mono) auto

text \<open>How one request can change the allowlist.\<close>

lemma outcome_allowed:
  assumes "srv_outcome P api cfg h rq s s'" "srv_inv P cfg s"
    and "allowlist_Allowed (sv_allow s') r m" "\<not> allowlist_Allowed (sv_allow s) r m"
  shows "\<exists>p req. rq_path rq = ''/keystore/delegate'' \<and> rq_peer rq = Some p
    \<and> decDelegate api (rq_body rq) = Some req \<and> dr_Role req = r \<and> NewMRENCLAVE req = m
    \<and> delegate_authorised P s p req"
  using assms(1)
proof cases
  case (audited role action mre)
  then show ?thesis using srv_audit_frame [OF prod.collapse [symmetric], of s cfg] assms(2-) by (simp add: srv_inv_def)
next
  case (delegated p req au s1 bg' d' a' res s2)
  have "sv_allow s' = a'"
    using finish_frame [of s2 cfg] delegated(7,10,11) assms(2) by (simp add: srv_inv_def)
  then have "r = dr_Role req" "m = NewMRENCLAVE req"
    using Add_roles [OF delegated(9), of r] assms(3,4) by (auto simp: Allowed_iff split: if_splits)
  with delegated show ?thesis by blast
next
  case (provisioned req bg' d' perr s2)
  have "sv_allow s' = sv_allow s"
    using finish_frame [of s2 cfg] provisioned(7,8) assms(2) by (simp add: srv_inv_def)
  then show ?thesis using assms(3,4) by simp
next
  case (revoked req bg' d' a' err s2)
  have "sv_allow s' = a'"
    using finish_frame [of s2 cfg] revoked(6,7) assms(2) by (simp add: srv_inv_def)
  then show ?thesis
    using Remove_roles [OF revoked(5), of r] assms(3,4) by (auto simp: Allowed_iff split: if_splits dest: notin_set_remove1)
qed (use assms in simp_all)

lemma outcome_removed:
  assumes "srv_outcome P api cfg h rq s s'" "srv_inv P cfg s"
    and "allowlist_Allowed (sv_allow s) r m" "\<not> allowlist_Allowed (sv_allow s') r m"
  shows "\<exists>req. rq_path rq = ''/keystore/revoke'' \<and> decRevoke api (rq_body rq) = Some req
    \<and> rr_Role req = r \<and> OldMRENCLAVE req = m
    \<and> operator_signed P (sv_bg s) (rr_BreakGlass req) ''revoke'' r m"
  using assms(1)
proof cases
  case (audited role action mre)
  then show ?thesis using srv_audit_frame [OF prod.collapse [symmetric], of s cfg] assms(2-) by (simp add: srv_inv_def)
next
  case (delegated p req au s1 bg' d' a' res s2)
  have "sv_allow s' = a'"
    using finish_frame [of s2 cfg] delegated(7,10,11) assms(2) by (simp add: srv_inv_def)
  then show ?thesis
    using Add_roles [OF delegated(9), of r] assms(3,4) by (auto simp: Allowed_iff split: if_splits)
next
  case (provisioned req bg' d' perr s2)
  have "sv_allow s' = sv_allow s"
    using finish_frame [of s2 cfg] provisioned(7,8) assms(2) by (simp add: srv_inv_def)
  then show ?thesis using assms(3,4) by simp
next
  case (revoked req bg' d' a' err s2)
  have "sv_allow s' = a'"
    using finish_frame [of s2 cfg] revoked(6,7) assms(2) by (simp add: srv_inv_def)
  then have "r = rr_Role req" "m = OldMRENCLAVE req"
    using Remove_roles [OF revoked(5), of r] assms(3,4)
    by (auto simp: Allowed_iff split: if_splits) (metis in_set_remove1)
  with revoked Verify_accepted [OF revoked(4)] show ?thesis by blast
qed (use assms in simp_all)

lemma serve_revoked:
  assumes "keystore_serve P api cfg h rq s = (s', RspNoContent)" "srv_inv P cfg s"
  shows "\<exists>req. decRevoke api (rq_body rq) = Some req
    \<and> \<not> allowlist_Allowed (sv_allow s') (rr_Role req) (OldMRENCLAVE req)"
proof -
  have "handleRevoke P api cfg h (rq_body rq) s = (s', RspNoContent)"
    using assms(1)
    by (auto simp: keystore_serve_def ks_paths_def handleGet_def handleDelegate_def handleProvision_def
        handleList_def delegate_auth_def Let_def split_beta
        split: if_splits option.splits sum.splits prod.splits ks_error.splits)
  then obtain req bg' d' a' where v: "decRevoke api (rq_body rq) = Some req"
    "allowlist_Remove P (h_main h) (sv_disk s) (sv_allow s) (rr_Role req) (OldMRENCLAVE req) = (d', a', None)"
    and s': "sv_allow s' = a'"
    by (auto simp: handleRevoke_def Let_def split_beta srv_audit_def
        split: option.splits prod.splits) (metis prod.collapse snd_conv)
  have "distinct (roles_of (sv_allow s) (rr_Role req))"
    using assms(2) al_inv_roles_of by (auto simp: srv_inv_def)
  then show ?thesis
    using Remove_roles [OF v(2), of "rr_Role req"] v(1) s' by (auto simp: Allowed_iff set_remove1_eq)
qed

lemma equiv_Allowed: "al_equiv a b \<Longrightarrow> allowlist_Allowed a r m = allowlist_Allowed b r m"
  by (simp add: al_equiv_def allowlist_Allowed_def)

lemma srv_audit_allow [simp]: "sv_allow (fst (srv_audit P e s action role actor detail)) = sv_allow s"
  by (simp add: srv_audit_def split_beta Let_def)

subsection \<open>Properties\<close>


text \<open>
  C2: Chained delegation: over any run of requests, starts, shutdowns and restarts, with any
  I/O faults, every (role, MRENCLAVE) pair on the allowlist is rooted: it was there at the start,
  the operator signed exactly this addition, or a caller whose own MRENCLAVE is rooted for the
  same role delegated it.
\<close>

theorem allowlist_rooted:
  assumes "codec_laws P" "api_law api" "srv_inv P cfg s" "ks_run P api cfg s tr t"
    and "allowlist_Allowed (sv_allow t) r m"
  shows "rooted P api s tr r m"
  using assms(4,5)
proof (induction arbitrary: r m rule: ks_run.induct)
  case run_init
  then show ?case by (rule rooted.root_init)
next
  case (run_request tr t h rq u rsp)
  have inv: "srv_inv P cfg t" using run_inv [OF assms(1-3) run_request(1)] .
  show ?case
  proof (cases "allowlist_Allowed (sv_allow t) r m")
    case True
    then show ?thesis using run_request.IH rooted_snoc by blast
  next
    case False
    obtain p req where d: "rq_path rq = ''/keystore/delegate''" "rq_peer rq = Some p"
      "decDelegate api (rq_body rq) = Some req" "dr_Role req = r" "NewMRENCLAVE req = m" "delegate_authorised P t p req"
      using outcome_allowed [OF serve_outcome [OF run_request(3)] inv run_request.prems False] by blast
    have mem: "(t, rq) \<in> set (tr @ [(t, rq)])" by simp
    show ?thesis
    proof (cases "dr_BreakGlass req")
      case None
      then have "allowlist_Allowed (sv_allow t) (dr_Role req) (pi_MRENCLAVE p)"
        using d(6) by (simp add: delegate_authorised_def)
      then have "rooted P api s (tr @ [(t, rq)]) (dr_Role req) (pi_MRENCLAVE p)"
        using run_request.IH rooted_snoc by blast
      then show ?thesis using rooted.root_chained [OF mem d(1,3) None d(2)] d(4,5) by simp
    next
      case (Some pf)
      then have "operator_signed P (sv_bg t) pf ''delegate-add'' (dr_Role req) (NewMRENCLAVE req)"
        using d(6) by (simp add: delegate_authorised_def)
      then show ?thesis using rooted.root_operator [OF mem d(1,3) Some] d(4,5) by blast
    qed
  qed
next
  case (run_start tr t e u err)
  then show ?case by (auto simp: server_Start_def split_beta Let_def)
next
  case (run_shutdown tr t e u)
  then show ?case by (auto simp: server_shutdown_def)
next
  case (run_restart tr t e u)
  have "srv_inv P cfg t" using run_inv [OF assms(1-3) run_restart(1)] .
  then show ?case using New_inv run_restart equiv_Allowed by blast
qed

text \<open>How one request can change a key file, and the audit log.\<close>

lemma outcome_key_file:
  assumes "srv_outcome P api cfg h rq s s'" "srv_inv P cfg s" "io_stat_ok (h_main h)"
    and "readFile (sv_disk s') (role_file (keys_dir cfg) x) \<noteq> readFile (sv_disk s) (role_file (keys_dir cfg) x)"
  shows "\<exists>req. rq_path rq = ''/keystore/provision'' \<and> decProvision api (rq_body rq) = Some req
    \<and> sha256 P (str_bytes (pr_Role req)) = x \<and> readFile (sv_disk s) (role_file (keys_dir cfg) x) = None
    \<and> operator_signed P (sv_bg s) (pr_BreakGlass req) ''provision'' (pr_Role req) (pr_Key req)"
  using assms(1)
proof cases
  case (audited role action mre)
  then show ?thesis
    using srv_audit_frame [OF prod.collapse [symmetric], of s cfg] assms(2,4) by (simp add: srv_inv_def)
next
  case (delegated p req au s1 bg' d' a' res s2)
  have "readFile (sv_disk s') (role_file (keys_dir cfg) x) = readFile d' (role_file (keys_dir cfg) x)"
    using finish_frame [of s2 cfg] delegated(7,10,11) assms(2) by (simp add: srv_inv_def)
  then show ?thesis using Add_frame [OF delegated(9), of "role_file (keys_dir cfg) x"] assms(2,4) by (simp add: srv_inv_def)
next
  case (provisioned req bg' d' perr s2)
  define c where "c = \<lparr>pc_io = h_main h, pc_role = pr_Role req, pc_key = pr_Key req, pc_type = pr_KeyType req\<rparr>"
  have "readFile (sv_disk s') (role_file (keys_dir cfg) x) = readFile d' (role_file (keys_dir cfg) x)"
    using finish_frame [of s2 cfg] provisioned(7,8) assms(2) by (simp add: srv_inv_def)
  then have ne: "provision_find (keys_dir cfg) d' x \<noteq> provision_find (keys_dir cfg) (sv_disk s) x"
    using assms(4) by (simp add: provision_find_def)
  have inst: "provision_install P (keys_dir cfg) c (sv_disk s) = (d', perr = None)"
    using provisioned(6) by (simp add: provision_install_def c_def)
  have "x = sha256 P (str_bytes (pc_role c)) \<and> perr = None"
    using provision_install_frame [OF inst, of x] ne by (cases perr) (auto simp: c_def)
  moreover from this have "provision_find (keys_dir cfg) (sv_disk s) x = None"
    using role_keys.install_new [of c P "keys_dir cfg" "sv_disk s" d'] inst assms(3) by (auto simp: c_def)
  ultimately show ?thesis
    using provisioned Verify_accepted [OF provisioned(5)] by (auto simp: c_def provision_find_def)
next
  case (revoked req bg' d' a' err s2)
  have "readFile (sv_disk s') (role_file (keys_dir cfg) x) = readFile d' (role_file (keys_dir cfg) x)"
    using finish_frame [of s2 cfg] revoked(6,7) assms(2) by (simp add: srv_inv_def)
  then show ?thesis using Remove_frame [OF revoked(5), of "role_file (keys_dir cfg) x"] assms(2,4) by (simp add: srv_inv_def)
qed (use assms in simp_all)

lemma outcome_audit_prefix:
  assumes "srv_outcome P api cfg h rq s s'" "srv_inv P cfg s"
  shows "\<exists>new. au_entries (sv_audit s') = au_entries (sv_audit s) @ new"
  using assms(1)
proof cases
  case (audited role action mre)
  then show ?thesis
    using srv_audit_frame [OF prod.collapse [symmetric], of s cfg] assms(2) by (simp add: srv_inv_def)
next
  case (delegated p req au s1 bg' d' a' res s2)
  then show ?thesis using finish_frame [of s2 cfg] assms(2) by (simp add: srv_inv_def)
next
  case (provisioned req bg' d' perr s2)
  then show ?thesis using finish_frame [of s2 cfg] assms(2) by (simp add: srv_inv_def)
next
  case (revoked req bg' d' a' err s2)
  then show ?thesis using finish_frame [of s2 cfg] assms(2) by (simp add: srv_inv_def)
qed simp_all

text \<open>
  A key file changes only by an operator-signed Provision of that role, only if the role
  had no key, and in no other way: not by delegation, revocation, listing or fetching.
\<close>

theorem key_file_operator_only:
  assumes "srv_inv P cfg s" "io_stat_ok (h_main h)" "keystore_serve P api cfg h rq s = (s', rsp)"
    and "readFile (sv_disk s') (keyStore_path P (keys_dir cfg) role) \<noteq> readFile (sv_disk s) (keyStore_path P (keys_dir cfg) role)"
  shows "\<exists>req. rq_path rq = ''/keystore/provision'' \<and> decProvision api (rq_body rq) = Some req
    \<and> sha256 P (str_bytes (pr_Role req)) = sha256 P (str_bytes role)
    \<and> keyStore_Get P (h_main h) (keys_dir cfg) (sv_disk s) role = Inl ErrRoleNotFound
    \<and> operator_signed P (sv_bg s) (pr_BreakGlass req) ''provision'' (pr_Role req) (pr_Key req)"
  using outcome_key_file [OF serve_outcome [OF assms(3)] assms(1,2), of "sha256 P (str_bytes role)"] assms(4)
  by (auto simp: keyStore_path_def Get_not_found_iff)

text \<open>
  C6: The server invariant holds in every state of every run, with any I/O and sealing faults:
  the allowlist and the audit log are well formed and the hash chain verifies, the audit log of
  the start is a prefix of the current one, and a restart from the sealed files succeeds in
  rebuilding the same authorisation decisions and the same log.
\<close>

theorem server_run_invariant:
  assumes "codec_laws P" "api_law api" "srv_inv P cfg s" "ks_run P api cfg s tr t"
  shows "al_inv (sv_allow t) \<and> auditLog_verifyChain P (au_entries (sv_audit t)) = None
    \<and> (\<exists>new. au_entries (sv_audit t) = au_entries (sv_audit s) @ new)
    \<and> (\<forall>e u. keystore_New P cfg e (sv_disk t) = Inr u \<longrightarrow>
         sv_audit u = sv_audit t \<and> (\<forall>r m. allowlist_Allowed (sv_allow u) r m = allowlist_Allowed (sv_allow t) r m))
    \<and> (\<forall>e. io_read_ok e (allow_path cfg) \<and> io_read_ok e (audit_path cfg) \<longrightarrow>
         \<not> isl (loadAllowlist P e (sv_disk t) (allow_path cfg)) \<and> \<not> isl (loadAuditLog P e (sv_disk t) (audit_path cfg)))"
proof -
  have inv: "srv_inv P cfg t" by (rule run_inv [OF assms])
  have "\<exists>new. au_entries (sv_audit t) = au_entries (sv_audit s) @ new"
    using assms(4)
  proof (induction rule: ks_run.induct)
    case (run_request tr t h rq u rsp)
    have "srv_inv P cfg t" by (rule run_inv [OF assms(1-3) run_request(1)])
    then show ?case
      using outcome_audit_prefix [OF serve_outcome [OF run_request(3)]] run_request.IH by force
  next
    case (run_start tr t e u err)
    then show ?case using srv_audit_prefix [of P e t "''startup''" "[]" "''keystore''" "[]"]
      by (force simp: server_Start_def split_beta Let_def)
  next
    case (run_shutdown tr t e u)
    then show ?case using srv_audit_prefix [of P e t "''shutdown''" "[]" "''keystore''" "''graceful''"]
      by (force simp: server_shutdown_def)
  next
    case (run_restart tr t e u)
    have "srv_inv P cfg t" by (rule run_inv [OF assms(1-3) run_restart(1)])
    then show ?case using New_inv run_restart by metis
  qed simp
  moreover have "keystore_New P cfg e (sv_disk t) = Inr u \<Longrightarrow>
         sv_audit u = sv_audit t \<and> (\<forall>r m. allowlist_Allowed (sv_allow u) r m = allowlist_Allowed (sv_allow t) r m)" for e u
    using New_inv [OF inv] equiv_Allowed by blast
  moreover have "\<not> isl (loadAllowlist P e (sv_disk t) (allow_path cfg)) \<and> \<not> isl (loadAuditLog P e (sv_disk t) (audit_path cfg))"
    if "io_read_ok e (allow_path cfg)" "io_read_ok e (audit_path cfg)" for e
  proof -
    have "al_synced P (sv_disk t) (sv_allow t)" "al_path (sv_allow t) = allow_path cfg"
      "au_synced P (sv_disk t) (sv_audit t)" "au_path (sv_audit t) = audit_path cfg"
      using inv by (simp_all add: srv_inv_def)
    then show ?thesis using that unfolding al_synced_def au_synced_def by (metis isl_def old.sum.distinct(1))
  qed
  ultimately show ?thesis using inv by (simp add: srv_inv_def au_inv_def)
qed

text \<open>
  Revocation: an MRENCLAVE leaves a role's allowlist only by a request to
  \<open>/keystore/revoke\<close> that the operator signed for exactly this role and MRENCLAVE, and after a
  204 response it is denied.
\<close>

theorem revoke_operator_only:
  assumes "srv_inv P cfg s" "keystore_serve P api cfg h rq s = (s', rsp)"
  shows "(allowlist_Allowed (sv_allow s) r m \<and> \<not> allowlist_Allowed (sv_allow s') r m \<longrightarrow>
           (\<exists>req. rq_path rq = ''/keystore/revoke'' \<and> decRevoke api (rq_body rq) = Some req
              \<and> rr_Role req = r \<and> OldMRENCLAVE req = m
              \<and> operator_signed P (sv_bg s) (rr_BreakGlass req) ''revoke'' r m))
    \<and> (rsp = RspNoContent \<longrightarrow>
         (\<exists>req. decRevoke api (rq_body rq) = Some req
            \<and> \<not> allowlist_Allowed (sv_allow s') (rr_Role req) (OldMRENCLAVE req)))"
proof
  show "allowlist_Allowed (sv_allow s) r m \<and> \<not> allowlist_Allowed (sv_allow s') r m \<longrightarrow>
      (\<exists>req. rq_path rq = ''/keystore/revoke'' \<and> decRevoke api (rq_body rq) = Some req
              \<and> rr_Role req = r \<and> OldMRENCLAVE req = m
              \<and> operator_signed P (sv_bg s) (rr_BreakGlass req) ''revoke'' r m)"
    using outcome_removed [OF serve_outcome [OF assms(2)] assms(1)] by blast
  show "rsp = RspNoContent \<longrightarrow>
         (\<exists>req. decRevoke api (rq_body rq) = Some req
            \<and> \<not> allowlist_Allowed (sv_allow s') (rr_Role req) (OldMRENCLAVE req))"
    using serve_revoked [of P api cfg h rq s s'] assms by simp
qed

end
