(* ===== verification/Ks_Witness.thy ===== *)
theory Ks_Witness
  imports Ks_Props
begin

text \<open>
  Concrete runs of the keystore model on the simulated platform, which show that the hypotheses
  of its properties can be met together: a first boot, an operator-signed delegation and
  provisioning, a fetch, a revocation.
\<close>

subsection \<open>A configuration and signed requests\<close>

definition w_role :: role where
  "w_role = ''gateway-tls''"

definition w_mre :: mrenclave where
  "w_mre = replicate 32 5"

definition w_pub :: bytes where
  "w_pub = replicate 32 1"

definition w_cfg :: config where
  "w_cfg = \<lparr>SealedDir = ''/d'', Listen = '':1'', ServerTLS_set = True, ExpectedClientMRSIGNER = [],
            OperatorPubKeyHex_cfg = hexEncode w_pub, Snapshotter_set = True\<rparr>"

definition w_nonce :: "nat \<Rightarrow> string" where
  "w_nonce n = replicate (16 + n) CHR ''a''"

definition w_proof :: "string \<Rightarrow> role \<Rightarrow> bytes \<Rightarrow> string \<Rightarrow> BreakGlassProof" where
  "w_proof action role payload nonce =
     \<lparr>OperatorPubKeyHex = hexEncode w_pub, Nonce = nonce,
      SignatureHex = hexEncode (take 64 (canonicalBreakGlassSigningInput sim_platform action role payload nonce
                                         @ replicate 64 0))\<rparr>"

definition w_key :: bytes where
  "w_key = [1, 2, 3]"

definition w_api :: api where
  "w_api =
     \<lparr>decGet = (\<lambda>b. if b = [4] then Some \<lparr>gr_Role = w_role\<rparr> else None),
      decDelegate = (\<lambda>b. if b = [1] then Some \<lparr>dr_Role = w_role, NewMRENCLAVE = w_mre,
         dr_BreakGlass = Some (w_proof ''delegate-add'' w_role w_mre (w_nonce 1))\<rparr> else None),
      decProvision = (\<lambda>b. if b = [2] then Some \<lparr>pr_Role = w_role, pr_Key = w_key, pr_KeyType = ''raw'',
         pr_BreakGlass = w_proof ''provision'' w_role w_key (w_nonce 2)\<rparr> else None),
      decRevoke = (\<lambda>b. if b = [3] then Some \<lparr>rr_Role = w_role, OldMRENCLAVE = w_mre,
         rr_BreakGlass = w_proof ''revoke'' w_role w_mre (w_nonce 3)\<rparr> else None),
      decList = (\<lambda>b. if b = [5] then Some \<lparr>lr_BreakGlass = w_proof ''list'' [] [] (w_nonce 4), AuditTailSize = 1\<rparr> else None)\<rparr>"

definition w_h :: henv where
  "w_h = \<lparr>h_main = sim_io 1, h_audit = sim_io 2, h_now = 3, h_snap_ok = True\<rparr>"

definition w_peer :: peerInfo where
  "w_peer = \<lparr>pi_MRENCLAVE = w_mre, pi_MRSIGNER = w_pub, pi_CertHash = []\<rparr>"

definition w_rq :: "string \<Rightarrow> bytes \<Rightarrow> http_req" where
  "w_rq path body = \<lparr>rq_method = ''POST'', rq_path = path, rq_body = body, rq_peer = Some w_peer\<rparr>"

definition w_s0 :: server where
  "w_s0 = \<lparr>sv_disk = [], sv_allow = \<lparr>al_path = allow_path w_cfg, al_roles = []\<rparr>,
           sv_audit = \<lparr>au_path = audit_path w_cfg, au_entries = []\<rparr>,
           sv_bg = \<lparr>expectedPub = Some w_pub, seenNonces = {}\<rparr>, sv_snaps = []\<rparr>"

definition w_serve :: "string \<Rightarrow> bytes \<Rightarrow> server \<Rightarrow> server \<times> ks_resp" where
  "w_serve path body = keystore_serve sim_platform w_api w_cfg w_h (w_rq path body)"

definition w_s1 :: server where
  "w_s1 = fst (w_serve ''/keystore/delegate'' [1] w_s0)"

definition w_s2 :: server where
  "w_s2 = fst (w_serve ''/keystore/provision'' [2] w_s1)"

subsection \<open>Evaluating the model on the simulated platform\<close>

lemma sim_io_sel [simp]:
  "io_now (sim_io t) = t" "io_stat_ok (sim_io t)" "io_readdir_ok (sim_io t)" "io_read_ok (sim_io t) p"
  "io_wr (sim_io t) = all_ok" "SealUnique (sim_io t) b = Some (7 # b)"
  by (simp_all add: sim_io_def)

lemma sim_sel [simp]:
  "UnsealUnique sim_platform (7 # p) = Some p" "sha256 sim_platform b = b"
  "marshalEntry sim_platform k = Some (enc_entry k)" "marshalAllow sim_platform m = Some (enc_allow m)"
  "marshalLog sim_platform l = Some (enc_list enc_audit l)" "marshalAudit sim_platform a = Some (enc_audit a)"
  by (simp_all add: sim_platform_def)

lemma w_lengths [simp]: "length w_mre = 32" "length w_pub = 32" "length (w_nonce n) = 16 + n"
  by (simp_all add: w_mre_def w_pub_def w_nonce_def)

lemma w_neq [simp]: "w_nonce n \<noteq> []" "hexEncode w_pub \<noteq> []" "w_mre \<noteq> zero32"
proof -
  show "w_nonce n \<noteq> []" by (simp add: w_nonce_def)
  have "length (hexEncode w_pub) \<noteq> 0" by simp
  then show "hexEncode w_pub \<noteq> []" by blast
  have "w_mre ! 0 \<noteq> zero32 ! 0" by (simp add: w_mre_def zero32_def)
  then show "w_mre \<noteq> zero32" by metis
qed

lemma w_proof_sel [simp]:
  "OperatorPubKeyHex (w_proof a r p n) = hexEncode w_pub" "Nonce (w_proof a r p n) = n"
  by (simp_all add: w_proof_def)

lemma w_nonce_inject [simp]: "w_nonce n = w_nonce m \<longleftrightarrow> n = m"
  by (metis add_left_cancel w_lengths(3))

lemma w_role_ok [simp]: "validateRole w_role = None"
  by (simp add: w_role_def validateRole_def role_char_def is_lower_def is_digit_def)

lemma all_ok_sel [simp]: "mkdir_ok all_ok"
  by (simp add: all_ok_def)

lemma sim_Verify [simp]:
  assumes "expectedPub bg = Some w_pub" "nonce \<notin> seenNonces bg" "length nonce \<ge> 16"
  shows "breakGlass_Verify sim_platform bg (w_proof action role payload nonce) action role payload
    = (bg\<lparr>seenNonces := insert nonce (seenNonces bg)\<rparr>, None)"
proof -
  let ?sig = "take 64 (canonicalBreakGlassSigningInput sim_platform action role payload nonce @ replicate 64 0)"
  have len: "length ?sig = 64" by simp
  then have "hexEncode ?sig \<noteq> []" by (metis length_0_conv length_hexEncode mult_eq_0_iff numeral_eq_Suc nat.distinct(1))
  moreover have "nonce \<noteq> []" using assms(3) by auto
  ultimately have "verify_static bg (w_proof action role payload nonce) = Inr (w_pub, ?sig)"
    using assms len by (simp add: verify_static_def w_proof_def del: length_take)
  moreover have "ed25519_Verify sim_platform w_pub (canonicalBreakGlassSigningInput sim_platform action role payload nonce) ?sig"
    by (simp add: sim_platform_def)
  ultimately show ?thesis using assms(2) by (simp add: breakGlass_Verify_def w_proof_def)
qed

lemma sim_persist: "snd (allowlist_persistLocked sim_platform (sim_io t) d a) = None"
  by (simp add: allowlist_persistLocked_def split_beta Let_def write_tmp_rename_ok)

lemma sim_au_persist: "snd (auditLog_persistLocked sim_platform (sim_io t) d a) = None"
  by (simp add: auditLog_persistLocked_def split_beta Let_def write_tmp_rename_ok)

lemma sim_henv: "henv_law sim_platform w_h"
  by (simp add: henv_law_def w_h_def sim_seal_law)

lemma w_api_law: "api_law w_api"
  by (simp add: api_law_def w_api_def)

lemma w_boot: "keystore_New sim_platform w_cfg (sim_io 0) [] = Inr w_s0"
  by (simp add: keystore_New_def w_cfg_def loadAllowlist_def loadAuditLog_def readFile_def newBreakGlass_def
      w_s0_def allow_path_def audit_path_def)

lemma w_s0_inv: "srv_inv sim_platform w_cfg w_s0"
  by (rule New_empty_inv [OF w_boot])

lemma w_delegate:
  "snd (w_serve ''/keystore/delegate'' [1] w_s0) = RspDelegate w_role [w_mre] 3"
  "roles_of (sv_allow w_s1) w_role = [w_mre]"
  "sv_bg w_s1 = \<lparr>expectedPub = Some w_pub, seenNonces = {w_nonce 1}\<rparr>"
proof -
  have a: "roles_of (sv_allow w_s0) w_role = []" by (simp add: w_s0_def roles_of_def)
  have "expectedPub (sv_bg w_s0) = Some w_pub" "seenNonces (sv_bg w_s0) = {}" by (simp_all add: w_s0_def)
  then have auth: "delegate_auth sim_platform w_peer
        \<lparr>dr_Role = w_role, NewMRENCLAVE = w_mre, dr_BreakGlass = Some (w_proof ''delegate-add'' w_role w_mre (w_nonce 1))\<rparr> w_s0
      = (w_s0\<lparr>sv_bg := \<lparr>expectedPub = Some w_pub, seenNonces = {w_nonce 1}\<rparr>\<rparr>,
         Inr (''operator-break-glass:'' @ hexEncode w_pub))"
    by (simp add: delegate_auth_def w_s0_def)
  have "snd (w_serve ''/keystore/delegate'' [1] w_s0) = RspDelegate w_role [w_mre] 3
     \<and> roles_of (sv_allow (fst (w_serve ''/keystore/delegate'' [1] w_s0))) w_role = [w_mre]
     \<and> sv_bg (fst (w_serve ''/keystore/delegate'' [1] w_s0)) = \<lparr>expectedPub = Some w_pub, seenNonces = {w_nonce 1}\<rparr>"
    using a auth
    by (simp add: w_serve_def keystore_serve_def ks_paths_def w_rq_def handleDelegate_def w_api_def
        allowlist_Add_def Let_def split_beta sim_persist srv_audit_def w_h_def)
  then show "snd (w_serve ''/keystore/delegate'' [1] w_s0) = RspDelegate w_role [w_mre] 3"
    "roles_of (sv_allow w_s1) w_role = [w_mre]"
    "sv_bg w_s1 = \<lparr>expectedPub = Some w_pub, seenNonces = {w_nonce 1}\<rparr>"
    by (simp_all add: w_s1_def)
qed

lemma w_serve_inv: "srv_inv sim_platform w_cfg s \<Longrightarrow> srv_inv sim_platform w_cfg (fst (w_serve path body s))"
  unfolding w_serve_def
  by (rule outcome_inv [OF sim_codec_laws sim_henv w_api_law _ serve_outcome [OF prod.collapse [symmetric]]])

lemma w_s1_inv: "srv_inv sim_platform w_cfg w_s1"
  unfolding w_s1_def by (rule w_serve_inv [OF w_s0_inv])

lemma w_s2_inv: "srv_inv sim_platform w_cfg w_s2"
  unfolding w_s2_def by (rule w_serve_inv [OF w_s1_inv])

abbreviation w_path :: string where
  "w_path \<equiv> keyStore_path sim_platform (keys_dir w_cfg) w_role"

definition w_entry :: keyEntry where
  "w_entry = \<lparr>ke_Role = w_role, ke_Key = w_key, ke_KeyType = ''raw'', ke_CreatedAt = 1\<rparr>"

lemma w_utf8 [simp]: "valid_utf8 w_role" "utf8_keyEntry w_entry"
  by (simp_all add: utf8_keyEntry_def w_entry_def validateRole_utf8)

lemma w_s1_no_key: "readFile (sv_disk w_s1) w_path = None"
proof -
  have out: "srv_outcome sim_platform w_api w_cfg w_h (w_rq ''/keystore/delegate'' [1]) w_s0 w_s1"
    unfolding w_s1_def w_serve_def by (rule serve_outcome [OF prod.collapse [symmetric]])
  have "readFile (sv_disk w_s1) w_path = readFile (sv_disk w_s0) w_path"
  proof (rule ccontr)
    assume "readFile (sv_disk w_s1) w_path \<noteq> readFile (sv_disk w_s0) w_path"
    then have "rq_path (w_rq ''/keystore/delegate'' [1]) = ''/keystore/provision''"
      using outcome_key_file [OF out w_s0_inv, of "sha256 sim_platform (str_bytes w_role)"]
      by (auto simp: keyStore_path_def w_h_def)
    then show False by (simp add: w_rq_def)
  qed
  then show ?thesis by (simp add: w_s0_def readFile_def)
qed

lemma sim_Provision:
  "readFile d (keyStore_path sim_platform dir role) = None \<Longrightarrow>
     snd (keyStore_Provision sim_platform (sim_io t) dir d role key kt) = None"
  by (simp add: keyStore_Provision_def keyStore_Has_def keyStore_writeAtomic_def split_beta Let_def
      write_tmp_rename_ok)

lemma w_provision:
  "snd (w_serve ''/keystore/provision'' [2] w_s1) = RspProvision w_role 3"
  "keyStore_Get sim_platform (sim_io t) (keys_dir w_cfg) (sv_disk w_s2) w_role = Inr w_entry"
  "sv_allow w_s2 = sv_allow w_s1"
proof -
  let ?d = "fst (keyStore_Provision sim_platform (sim_io 1) (keys_dir w_cfg) (sv_disk w_s1) w_role w_key ''raw'')"
  let ?s = "w_s1\<lparr>sv_bg := \<lparr>expectedPub = Some w_pub, seenNonces = {w_nonce 2, w_nonce 1}\<rparr>, sv_disk := ?d\<rparr>"
  let ?f = "finish sim_platform w_cfg w_h ?s ''provision'' w_role (''operator-break-glass:'' @ hexEncode w_pub)
              (''type='' @ ''raw'') ''post-provision''"
  have ok: "snd (keyStore_Provision sim_platform (sim_io 1) (keys_dir w_cfg) (sv_disk w_s1) w_role w_key ''raw'') = None"
    by (rule sim_Provision [OF w_s1_no_key])
  have "w_serve ''/keystore/provision'' [2] w_s1 = (?f, RspProvision w_role 3)"
    using ok
    by (simp add: w_serve_def keystore_serve_def ks_paths_def w_rq_def handleProvision_def w_api_def
        Let_def split_beta w_delegate w_h_def finish_def w_key_def)
  then have s2: "w_s2 = ?f" and r: "snd (w_serve ''/keystore/provision'' [2] w_s1) = RspProvision w_role 3"
    by (simp_all add: w_s2_def)
  have "au_path (sv_audit ?s) = audit_path w_cfg" using w_s1_inv by (simp add: srv_inv_def)
  from finish_frame [OF this, of sim_platform w_h "''provision''" w_role]
  have fr: "readFile (sv_disk w_s2) w_path = readFile ?d w_path" and al: "sv_allow w_s2 = sv_allow w_s1"
    unfolding s2 by (simp_all add: keyStore_path_def)
  have "keyStore_Get sim_platform (sim_io t) (keys_dir w_cfg) ?d w_role = Inr w_entry"
    using Get_after_Provision [OF ok sim_seal_law sim_entry_codec_law, of "sim_io t"]
    by (simp add: w_entry_def)
  with Get_frame [OF fr] show "keyStore_Get sim_platform (sim_io t) (keys_dir w_cfg) (sv_disk w_s2) w_role = Inr w_entry"
    by simp
  show "snd (w_serve ''/keystore/provision'' [2] w_s1) = RspProvision w_role 3" by (rule r)
  show "sv_allow w_s2 = sv_allow w_s1" by (rule al)
qed

subsection \<open>Witnesses: store, allowlist, audit log\<close>

definition w_call :: provision_call where
  "w_call = \<lparr>pc_io = sim_io 1, pc_role = w_role, pc_key = w_key, pc_type = ''raw''\<rparr>"


theorem provision_get_roundtrip_witness:
  "keyStore_Get sim_platform (sim_io 2) ''k'' (fst (keyStore_Provision sim_platform (sim_io 1) ''k'' [] w_role w_key ''raw'')) w_role
     = Inr w_entry"
  using provision_get_roundtrip [OF sim_seal_law sim_entry_codec_law, of w_role "''raw''" 1 "''k''" "[]" w_key
      "fst (keyStore_Provision sim_platform (sim_io 1) ''k'' [] w_role w_key ''raw'')" None "sim_io 2" w_role]
    sim_Provision [of "[]" "''k''" w_role 1 w_key "''raw''"]
  by (simp add: w_entry_def readFile_def prod_eq_iff)

theorem writeAtomic_crash_atomic_witness:
  "keyStore_Get sim_platform (sim_io 2) ''k''
     (crash_disk BeforeRename [] (keyStore_path sim_platform ''k'' w_role) (7 # enc_entry w_entry)) w_role
   = Inl ErrRoleNotFound"
proof -
  have "keyStore_Get sim_platform (sim_io 2) ''k'' [] w_role = Inl ErrRoleNotFound"
    by (simp add: Get_not_found_iff readFile_def)
  moreover have "ke_Role w_entry = w_role" by (simp add: w_entry_def)
  ultimately show ?thesis
    using writeAtomic_crash_atomic [OF sim_seal_law sim_entry_codec_law w_utf8(2), of "enc_entry w_entry" 1
        "7 # enc_entry w_entry" "sim_io 2" "''k''" BeforeRename "[]" w_role] by simp
qed

theorem allowlist_refines_set_witness:
  "allowlist_Allowed (snd (fst (al_run sim_platform [OpAdd (sim_io 1) w_role w_mre] ([], sv_allow w_s0)))) w_role w_mre"
proof -
  let ?ops = "[OpAdd (sim_io 1) w_role w_mre]"
  obtain d' a' bs where run: "al_run sim_platform ?ops ([], sv_allow w_s0) = ((d', a'), bs)" by (metis surj_pair)
  have ok: "list_all (al_op_ok sim_platform) ?ops" by (simp add: sim_seal_law)
  have s0: "al_inv (sv_allow w_s0)" "al_synced sim_platform [] (sv_allow w_s0)"
    using w_s0_inv by (simp_all add: srv_inv_def w_s0_def)
  have "bs = [True]"
    using run by (auto simp: al_add_def allowlist_Add_def Let_def split_beta sim_persist split: if_splits)
  then have "(w_role, w_mre) \<in> {x. allowlist_Allowed a' (fst x) (snd x)}"
    using allowlist_refines_set [OF sim_codec_laws ok s0 run, of "sim_io 1"] by simp
  then show ?thesis using run by simp
qed

definition w_append :: append_call where
  "w_append = \<lparr>ac_io = sim_io 1, ac_action = ''get'', ac_role = w_role, ac_actor = ''x'', ac_detail = []\<rparr>"

theorem audit_append_only_witness:
  "auditLog_verifyChain sim_platform (au_entries (fst (snd (append_run sim_platform [w_append, w_append] [] (sv_audit w_s0))))) = None"
proof -
  obtain d' a' rs where run: "append_run sim_platform [w_append, w_append] [] (sv_audit w_s0) = (d', a', rs)"
    by (metis prod_cases3)
  have ok: "list_all (append_ok sim_platform) [w_append, w_append]"
    by (simp add: append_ok_def w_append_def sim_seal_law)
  have s0: "au_inv sim_platform (sv_audit w_s0)" "au_synced sim_platform [] (sv_audit w_s0)"
    using w_s0_inv by (simp_all add: srv_inv_def w_s0_def)
  show ?thesis using audit_append_only [OF sim_codec_laws ok s0 run] run by simp
qed

definition w_ae :: "u64 \<Rightarrow> string \<Rightarrow> string \<Rightarrow> AuditEntry" where
  "w_ae q act prev = \<lparr>ae_Sequence = q, ae_Timestamp = 0, ae_Action = act, ae_Role = [], ae_Actor = [],
                      ae_Detail = [], ae_PrevHash = prev\<rparr>"

theorem audit_tamper_evident_witness:
  "\<exists>k b b'. k < length [w_ae 1 ''get'' genesisHash, w_ae 2 ''get'' []] \<and> b \<noteq> b' \<and>
     marshalAudit (sim_platform\<lparr>sha256 := (\<lambda>_. [])\<rparr>) ([w_ae 1 ''get'' genesisHash, w_ae 2 ''get'' []] ! k) = Some b \<and>
     marshalAudit (sim_platform\<lparr>sha256 := (\<lambda>_. [])\<rparr>) ([w_ae 1 ''revoke'' genesisHash, w_ae 2 ''get'' []] ! k) = Some b'"
proof -
  let ?P = "sim_platform\<lparr>sha256 := (\<lambda>_. [])\<rparr>"
  let ?xs = "[w_ae 1 ''get'' genesisHash, w_ae 2 ''get'' []]"
  let ?ys = "[w_ae 1 ''revoke'' genesisHash, w_ae 2 ''get'' []]"
  have inj: "audit_inj_law ?P"
    using sim_codec_laws by (simp add: codec_laws_def audit_inj_law_def)
  have chains: "auditLog_verifyChain ?P ?xs = None" "auditLog_verifyChain ?P ?ys = None"
    by (simp_all add: auditLog_verifyChain_def w_ae_def canonicalHash_def)
  have utf8: "list_all utf8_entry ?xs" "list_all utf8_entry ?ys"
    by (simp_all add: utf8_entry_def w_ae_def)
  have ne: "?xs \<noteq> ?ys" by (simp add: w_ae_def)
  show ?thesis
    using audit_tamper_evident [OF inj chains utf8 _ _ _ ne] by fastforce
qed

subsection \<open>Witnesses: break-glass and attestation\<close>

theorem signing_input_binding_witness:
  "str_bytes (renderBreakGlass ''list'' [] [] (w_nonce 1)) \<noteq> str_bytes (renderBreakGlass ''revoke'' w_role w_mre (w_nonce 1))"
proof -
  let ?P = "sim_platform\<lparr>sha256 := (\<lambda>_. [])\<rparr>"
  have "canonicalBreakGlassSigningInput ?P ''list'' [] [] (w_nonce 1)
      = canonicalBreakGlassSigningInput ?P ''revoke'' w_role w_mre (w_nonce 1)"
    by (simp add: canonicalBreakGlassSigningInput_def)
  from signing_input_binding [OF _ _ _ _ this] show ?thesis by (simp add: Let_def)
qed

theorem break_glass_once_witness:
  "operator_signed sim_platform (sv_bg w_s0) (w_proof ''list'' [] [] (w_nonce 4)) ''list'' [] []"
proof -
  have "breakGlass_Verify sim_platform (sv_bg w_s0) (w_proof ''list'' [] [] (w_nonce 4)) ''list'' [] []
      = ((sv_bg w_s0)\<lparr>seenNonces := {w_nonce 4}\<rparr>, None)"
    by (subst sim_Verify) (simp_all add: w_s0_def)
  then show ?thesis
    using break_glass_once [of "w_nonce 4" "[]" sim_platform "sv_bg w_s0" "w_proof ''list'' [] [] (w_nonce 4)"
        "''list''" "[]" "[]"] by simp
qed

definition w_thread :: "nat \<Rightarrow> bg_phase \<Rightarrow> bg_thread" where
  "w_thread n ph = \<lparr>bt_call = \<lparr>bc_proof = w_proof ''revoke'' w_role w_mre (w_nonce n), bc_action = ''revoke'',
                     bc_role = w_role, bc_payload = w_mre\<rparr>, bt_locked = True, bt_phase = ph\<rparr>"

definition w_sig :: "nat \<Rightarrow> bytes" where
  "w_sig n = take 64 (canonicalBreakGlassSigningInput sim_platform ''revoke'' w_role w_mre (w_nonce n) @ replicate 64 0)"

definition w_bg :: "string set \<Rightarrow> breakGlass" where
  "w_bg ns = \<lparr>expectedPub = Some w_pub, seenNonces = ns\<rparr>"

lemma w_static: "verify_static (w_bg ns) (w_proof ''revoke'' w_role w_mre (w_nonce n)) = Inr (w_pub, w_sig n)"
proof -
  have len: "length (w_sig n) = 64" by (simp add: w_sig_def)
  then have "length (hexEncode (w_sig n)) \<noteq> 0" by simp
  then have "hexEncode (w_sig n) \<noteq> []" by blast
  then show ?thesis using len by (simp add: verify_static_def w_bg_def w_proof_def w_sig_def)
qed

lemma w_check_step:
  assumes "i < length ts" "ts ! i = w_thread n BgStart" "mu_free ts" "w_nonce n \<notin> ns"
  shows "bg_step sim_platform (w_bg ns, ts) (w_bg ns, ts[i := w_thread n (BgChecked w_pub (w_sig n))])"
  using bg_check [of i ts "w_bg ns" w_pub "w_sig n" sim_platform] assms w_static [of ns n]
  by (simp add: w_thread_def w_bg_def)

lemma w_accept_step:
  assumes "i < length ts" "ts ! i = w_thread n (BgChecked w_pub (w_sig n))"
  shows "bg_step sim_platform (w_bg ns, ts) (w_bg (insert (w_nonce n) ns), ts[i := w_thread n BgAccepted])"
  using bg_accept [OF assms(1), of w_pub "w_sig n" "bt_call (ts ! i)" sim_platform "w_bg ns"] assms
  by (simp add: w_thread_def w_bg_def w_sig_def sim_platform_def)

theorem break_glass_concurrent_once_witness:
  "bt_nonce ([w_thread 1 BgAccepted, w_thread 2 BgAccepted] ! 0) \<noteq> bt_nonce ([w_thread 1 BgAccepted, w_thread 2 BgAccepted] ! 1)"
proof -
  let ?c = "\<lambda>n. w_thread n (BgChecked w_pub (w_sig n))"
  have "bg_step sim_platform (w_bg {}, [w_thread 1 BgStart, w_thread 2 BgStart]) (w_bg {}, [?c 1, w_thread 2 BgStart])"
    using w_check_step [of 0 "[w_thread 1 BgStart, w_thread 2 BgStart]" 1 "{}"]
    by (simp add: mu_free_def) (simp add: w_thread_def)
  moreover have "bg_step sim_platform (w_bg {}, [?c 1, w_thread 2 BgStart])
      (w_bg {w_nonce 1}, [w_thread 1 BgAccepted, w_thread 2 BgStart])"
    using w_accept_step [of 0 "[?c 1, w_thread 2 BgStart]" 1 "{}"] by simp
  moreover have "bg_step sim_platform (w_bg {w_nonce 1}, [w_thread 1 BgAccepted, w_thread 2 BgStart])
      (w_bg {w_nonce 1}, [w_thread 1 BgAccepted, ?c 2])"
    using w_check_step [of 1 "[w_thread 1 BgAccepted, w_thread 2 BgStart]" 2 "{w_nonce 1}"]
    by (simp add: mu_free_def) (simp add: w_thread_def)
  moreover have "bg_step sim_platform (w_bg {w_nonce 1}, [w_thread 1 BgAccepted, ?c 2])
      (w_bg {w_nonce 2, w_nonce 1}, [w_thread 1 BgAccepted, w_thread 2 BgAccepted])"
    using w_accept_step [of 1 "[w_thread 1 BgAccepted, ?c 2]" 2 "{w_nonce 1}"] by simp
  ultimately have reach: "bg_reach sim_platform (w_bg {}, [w_thread 1 BgStart, w_thread 2 BgStart])
      (w_bg {w_nonce 2, w_nonce 1}, [w_thread 1 BgAccepted, w_thread 2 BgAccepted])"
    by (meson bg_refl bg_next)
  show ?thesis
    by (rule break_glass_concurrent_once [OF _ reach]) (simp_all add: w_thread_def)
qed

definition w_att :: attest where
  "w_att = \<lparr>parseCertificate = Some, extractQuote = (\<lambda>_. Some \<lparr>q_MREnclave = w_mre, q_MRSigner = w_pub\<rparr>),
            verifyQuote = (\<lambda>_ _. True)\<rparr>"

theorem peer_identity_attested_witness:
  "\<exists>raw' q. sha256 sim_platform raw' = [1] \<and> extractQuote w_att raw' = Some q \<and> verifyQuote w_att raw' q
     \<and> w_mre = q_MREnclave q"
proof -
  let ?peers = "handshakes sim_platform w_att (hexEncode w_pub) [[[1]]] newPeerStore"
  have c: "connContext sim_platform ?peers True True [[1]]
      = Some \<lparr>pi_MRENCLAVE = w_mre, pi_MRSIGNER = w_pub, pi_CertHash = [1]\<rparr>"
    by (simp add: verifyPeerCertificate_def w_att_def newPeerStore_def connContext_def peerStore_put_def
        peerStore_get_def peer_of_cert_def)
  show ?thesis using peer_identity_attested [OF c] by auto
qed

subsection \<open>Witnesses: the server\<close>


lemma w_run1: "ks_run sim_platform w_api w_cfg w_s0 [(w_s0, w_rq ''/keystore/delegate'' [1])] w_s1"
  using run_request [OF run_init sim_henv, of w_api w_cfg "w_rq ''/keystore/delegate'' [1]" w_s0 w_s1]
  by (simp add: w_s1_def w_serve_def prod_eq_iff)

theorem allowlist_rooted_witness:
  "rooted sim_platform w_api w_s0 [(w_s0, w_rq ''/keystore/delegate'' [1])] w_role w_mre"
  by (rule allowlist_rooted [OF sim_codec_laws w_api_law w_s0_inv w_run1]) (simp add: Allowed_iff w_delegate)

theorem key_file_operator_only_witness:
  "operator_signed sim_platform (sv_bg w_s1) (w_proof ''provision'' w_role w_key (w_nonce 2)) ''provision'' w_role w_key"
proof -
  have run: "keystore_serve sim_platform w_api w_cfg w_h (w_rq ''/keystore/provision'' [2]) w_s1
      = (w_s2, snd (w_serve ''/keystore/provision'' [2] w_s1))"
    by (simp add: w_s2_def w_serve_def)
  have "readFile (sv_disk w_s2) w_path \<noteq> None"
    using w_provision(2) [of 1] Get_not_found_iff [of sim_platform "sim_io 1" "keys_dir w_cfg" "sv_disk w_s2" w_role]
    by auto
  then have "readFile (sv_disk w_s2) w_path \<noteq> readFile (sv_disk w_s1) w_path" using w_s1_no_key by simp
  from key_file_operator_only [OF w_s1_inv _ run this] show ?thesis
    by (auto simp: w_h_def w_rq_def w_api_def)
qed

theorem server_run_invariant_witness:
  "auditLog_verifyChain sim_platform (au_entries (sv_audit w_s1)) = None
   \<and> \<not> isl (loadAllowlist sim_platform (sim_io 9) (sv_disk w_s1) (allow_path w_cfg))"
  using server_run_invariant [OF sim_codec_laws w_api_law w_s0_inv w_run1] by simp

theorem revoke_operator_only_witness:
  "\<not> allowlist_Allowed (sv_allow (fst (w_serve ''/keystore/revoke'' [3] w_s1))) w_role w_mre"
proof -
  have "find_idx w_mre [w_mre] = Some 0" by simp
  then have "snd (w_serve ''/keystore/revoke'' [3] w_s1) = RspNoContent"
    by (simp add: w_serve_def keystore_serve_def ks_paths_def w_rq_def handleRevoke_def w_api_def w_h_def
        Let_def split_beta w_delegate allowlist_Remove_def sim_persist)
  then have run: "keystore_serve sim_platform w_api w_cfg w_h (w_rq ''/keystore/revoke'' [3]) w_s1
      = (fst (w_serve ''/keystore/revoke'' [3] w_s1), RspNoContent)"
    by (simp add: w_serve_def prod_eq_iff)
  from revoke_operator_only [OF w_s1_inv run, of w_role w_mre] show ?thesis
    by (auto simp: w_rq_def w_api_def)
qed

end
