(* ===== verification/Fermat.thy ===== *)
theory Fermat
  imports Main
begin

text \<open>
  Fermat's little theorem and the Chinese remainder step of RSA, which the correctness of the
  blind signature's CRT computation rests on. The primality predicate is the elementary one.
\<close>

definition is_prime :: "nat \<Rightarrow> bool" where
  "is_prime p = (1 < p \<and> (\<forall>m. m dvd p \<longrightarrow> m = 1 \<or> m = p))"

lemma is_prime_coprime: "is_prime p \<Longrightarrow> \<not> p dvd a \<Longrightarrow> coprime p a"
proof -
  assume p: "is_prime p" and a: "\<not> p dvd a"
  have "gcd p a dvd p" by simp
  then have "gcd p a = 1 \<or> gcd p a = p" using p by (auto simp: is_prime_def)
  then show "coprime p a" using a by (metis coprime_iff_gcd_eq_1 gcd_dvd2)
qed

lemma prime_dvd_choose:
  assumes "is_prime p" "0 < k" "k < p"
  shows "p dvd (p choose k)"
proof -
  have "\<not> p dvd k" using assms(2,3) nat_dvd_not_less by blast
  then have "coprime p k" using assms(1) is_prime_coprime by blast
  moreover have "p dvd k * (p choose k)"
    using times_binomial_minus1_eq [OF assms(2), of p] by simp
  ultimately show ?thesis by (simp add: coprime_dvd_mult_right_iff)
qed

lemma binomial_prime_mod:
  assumes "is_prime p"
  shows "(a + 1) ^ p mod p = (a ^ p + 1) mod p"
proof -
  have p: "0 < p" using assms by (simp add: is_prime_def)
  have "(a + 1) ^ p = (\<Sum>k\<le>p. (p choose k) * a ^ k)" using binomial [of a 1 p] by simp
  also have "{..p} = insert 0 (insert p {0<..<p})" using p by auto
  also have "(\<Sum>k\<in>insert 0 (insert p {0<..<p}). (p choose k) * a ^ k)
      = 1 + (a ^ p + (\<Sum>k\<in>{0<..<p}. (p choose k) * a ^ k))" using p by simp
  finally have "(a + 1) ^ p = (a ^ p + 1) + (\<Sum>k\<in>{0<..<p}. (p choose k) * a ^ k)" by simp
  moreover have "p dvd (\<Sum>k\<in>{0<..<p}. (p choose k) * a ^ k)"
    by (rule dvd_sum) (simp add: prime_dvd_choose [OF assms])
  ultimately show ?thesis by (metis add.commute dvd_eq_mod_eq_0 mod_add_right_eq add_0_right)
qed

lemma fermat_power: "is_prime p \<Longrightarrow> a ^ p mod p = a mod (p::nat)"
proof (induction a)
  case 0
  then have "0 < p" by (simp add: is_prime_def)
  then show ?case by (simp add: zero_power)
next
  case (Suc a)
  have "(Suc a) ^ p mod p = (a ^ p + 1) mod p" using binomial_prime_mod [OF Suc.prems, of a] by simp
  also have "\<dots> = (a + 1) mod p" using Suc by (metis mod_add_left_eq)
  finally show ?case by simp
qed

lemma fermat_little:
  assumes "is_prime p" "\<not> p dvd a"
  shows "a ^ (p - 1) mod p = 1"
proof -
  have p: "1 < p" using assms(1) by (simp add: is_prime_def)
  have a: "0 < a" using assms(2) by (cases a) auto
  have "a * a ^ (p - 1) = a ^ p" using p by (simp add: power_eq_if)
  then have "a * a ^ (p - 1) mod p = a * 1 mod p" using fermat_power [OF assms(1), of a] by simp
  moreover have "a * 1 \<le> a * a ^ (p - 1)" using a by (intro mult_left_mono) (simp_all add: Suc_leI)
  ultimately have "p dvd a * a ^ (p - 1) - a * 1" by (simp only: mod_eq_dvd_iff_nat)
  then have "p dvd a * (a ^ (p - 1) - 1)" by (simp add: diff_mult_distrib2)
  then have "p dvd a ^ (p - 1) - 1"
    using is_prime_coprime [OF assms] by (simp add: coprime_dvd_mult_right_iff)
  then have "a ^ (p - 1) mod p = 1 mod p"
    using a by (subst mod_eq_dvd_iff_nat) (simp_all add: Suc_leI)
  then show ?thesis using p by simp
qed

text \<open>Raising to an exponent that is 1 modulo \<open>p - 1\<close> is the identity modulo \<open>p\<close>.\<close>

lemma fermat_exponent:
  assumes "is_prime p" "x mod (p - 1) = 1 mod (p - 1)" "0 < x"
  shows "a ^ x mod p = a mod p"
proof (cases "p dvd a")
  case True
  then have "p dvd a ^ x" using assms(3) by (meson dvd_power dvd_trans)
  then show ?thesis using True by simp
next
  case False
  have p: "1 < p" using assms(1) by (simp add: is_prime_def)
  have "(p - 1) dvd x - 1" using assms(2,3) by (subst (asm) mod_eq_dvd_iff_nat) auto
  then obtain t where "x - 1 = (p - 1) * t" by (auto elim: dvdE)
  then have "x = 1 + (p - 1) * t" using assms(3) by simp
  then have "a ^ x = a * (a ^ (p - 1)) ^ t" by (simp add: power_add power_mult)
  then have "a ^ x mod p = a * ((a ^ (p - 1) mod p) ^ t mod p) mod p"
    by (metis mod_mult_right_eq power_mod)
  then show ?thesis using fermat_little [OF assms(1) False] p by simp
qed

lemma int_fermat_exponent:
  fixes x :: int
  assumes "is_prime (nat p)" "e mod (nat p - 1) = 1 mod (nat p - 1)" "0 < e" "0 \<le> x"
  shows "x ^ e mod p = x mod p"
proof -
  have p: "0 < p" using assms(1) by (simp add: is_prime_def)
  have "int (nat x ^ e mod nat p) = int (nat x mod nat p)"
    using fermat_exponent [OF assms(1-3), of "nat x"] by simp
  then show ?thesis using assms(4) p by (simp add: zmod_int)
qed

text \<open>Two numbers that agree modulo coprime \<open>p\<close> and \<open>q\<close> agree modulo the product.\<close>

lemma crt_unique:
  fixes x y p q :: int
  assumes "coprime p q" "x mod p = y mod p" "x mod q = y mod q"
  shows "x mod (p * q) = y mod (p * q)"
  using assms by (simp add: mod_eq_dvd_iff divides_mult)

end
