(* ===== verification/Blind.thy ===== *)
theory Blind
  imports Go_Base Fermat
begin

text \<open>
  \<open>internal/crypto/blind.go\<close>: Chaum blind signatures with a full-domain hash. Big integers are
  \<open>int\<close>; SHA-256 and the random source are parameters (the numbers \<open>rand.Int\<close> returns, in order;
  a list that runs out is a failing reader). The properties are end-to-end correctness of
  blinding, signing, unblinding and verifying, what the fault check guarantees, and that the CRT
  computation of a well-formed key signs every blinded message below the modulus.
\<close>

subsection \<open>Big integers\<close>

text \<open>\<open>Int.Exp(x, y, m)\<close> for a non-negative exponent and a positive modulus.\<close>

definition bigExp :: "int \<Rightarrow> nat \<Rightarrow> int \<Rightarrow> int" where
  "bigExp x y m = x ^ y mod m"

text \<open>\<open>Int.ModInverse\<close>: nil when the numbers are not coprime.\<close>

definition modInverse :: "int \<Rightarrow> int \<Rightarrow> int option" where
  "modInverse a n = (if gcd a n = 1 then Some (fst (bezw (nat a) (nat n)) mod n) else None)"

definition setBytes :: "bytes \<Rightarrow> int" where
  "setBytes bs = foldl (\<lambda>acc b. acc * 256 + uint b) 0 bs"

fun bitLen :: "nat \<Rightarrow> nat" where
  "bitLen n = (if n = 0 then 0 else Suc (bitLen (n div 2)))"

declare bitLen.simps [simp del]

subsection \<open>Keys\<close>

record rsa_pub =
  rsaN :: int
  rsaE :: nat

record rsa_priv = rsa_pub +
  rsaD :: nat
  prime0 :: int
  prime1 :: int

text \<open>\<open>PrivateKey.Precompute\<close>.\<close>

definition Dp :: "rsa_priv \<Rightarrow> nat" where
  "Dp k = rsaD k mod nat (prime0 k - 1)"

definition Dq :: "rsa_priv \<Rightarrow> nat" where
  "Dq k = rsaD k mod nat (prime1 k - 1)"

definition Qinv :: "rsa_priv \<Rightarrow> int" where
  "Qinv k = (case modInverse (prime1 k) (prime0 k) of Some i \<Rightarrow> i | None \<Rightarrow> 0)"

definition public_of :: "rsa_priv \<Rightarrow> rsa_pub" where
  "public_of k = \<lparr>rsaN = rsaN k, rsaE = rsaE k\<rparr>"

subsection \<open>Operations\<close>

definition generateBlindSigningKey :: "int \<Rightarrow> rsa_priv option \<Rightarrow> string + rsa_priv" where
  "generateBlindSigningKey bits generated =
     (if bits < 3072 then Inl ''RSA key size must be >= 3072 bits''
      else (case generated of None \<Rightarrow> Inl ''rsa.GenerateKey'' | Some k \<Rightarrow> Inr k))"

function mgf1_loop :: "(bytes \<Rightarrow> bytes) \<Rightarrow> bytes \<Rightarrow> nat \<Rightarrow> nat \<Rightarrow> bytes \<Rightarrow> bytes" where
  "mgf1_loop sha seed len i acc =
     (if length acc < len then mgf1_loop sha seed len (i + 1) (acc @ digest32 sha (seed @ be32 i)) else acc)"
  by pat_completeness auto
termination by (relation "measure (\<lambda>(sha, seed, len, i, acc). len - length acc)") auto

declare mgf1_loop.simps [simp del]

definition mgf1SHA256 :: "(bytes \<Rightarrow> bytes) \<Rightarrow> bytes \<Rightarrow> nat \<Rightarrow> bytes" where
  "mgf1SHA256 sha seed len = take len (mgf1_loop sha seed len 0 [])"

definition blindDomainSeparator :: bytes where
  "blindDomainSeparator = str_bytes ''bmail-blind-signature-v1:''"

definition fdh :: "(bytes \<Rightarrow> bytes) \<Rightarrow> bytes \<Rightarrow> int \<Rightarrow> string + int" where
  "fdh sha message n =
     (let nLen = (bitLen (nat n) + 7) div 8;
          m = setBytes (mgf1SHA256 sha (blindDomainSeparator @ message) nLen) mod n
      in if m = 0 then Inl ''FDH produced zero output'' else Inr m)"

text \<open>The retry loop of \<open>BlindMessage\<close> over the random numbers drawn.\<close>

fun blind_loop :: "int \<Rightarrow> int \<Rightarrow> nat \<Rightarrow> int list \<Rightarrow> string + int \<times> int" where
  "blind_loop m n e [] = Inl ''rand.Int''"
| "blind_loop m n e (r # rs) =
     (if r = 0 then blind_loop m n e rs
      else if gcd r n \<noteq> 1 then blind_loop m n e rs
      else Inr (m * bigExp r e n mod n, r))"

definition blindMessage :: "(bytes \<Rightarrow> bytes) \<Rightarrow> bytes \<Rightarrow> rsa_pub \<Rightarrow> int list \<Rightarrow> string + int \<times> int" where
  "blindMessage sha message pub rs =
     (case fdh sha message (rsaN pub) of
        Inl err \<Rightarrow> Inl err
      | Inr m \<Rightarrow> blind_loop m (rsaN pub) (rsaE pub) rs)"

fun first_nonzero :: "int list \<Rightarrow> int option" where
  "first_nonzero [] = None"
| "first_nonzero (r # rs) = (if r = 0 then first_nonzero rs else Some r)"

definition crt_exp :: "rsa_priv \<Rightarrow> int \<Rightarrow> int" where
  "crt_exp k x =
     (let m1 = bigExp x (Dp k) (prime0 k); m2 = bigExp x (Dq k) (prime1 k);
          h = (m1 - m2) * Qinv k mod prime0 k
      in h * prime1 k + m2)"

definition signBlinded :: "int \<Rightarrow> rsa_priv \<Rightarrow> int list \<Rightarrow> string + int" where
  "signBlinded blinded k rs =
     (case first_nonzero rs of
        None \<Rightarrow> Inl ''generate timing blind''
      | Some r \<Rightarrow>
          (let n = rsaN k;
               blindedInput = blinded * bigExp r (rsaE k) n mod n;
               blindedResult = crt_exp k blindedInput
           in case modInverse r n of
                None \<Rightarrow> Inl ''timing blind has no inverse''
              | Some rInv \<Rightarrow>
                  (let result = blindedResult * rInv mod n in
                   if bigExp result (rsaE k) n \<noteq> blinded
                   then Inl ''CRT fault detected: signature verification failed''
                   else Inr result)))"

definition unblindSignature :: "int \<Rightarrow> int \<Rightarrow> rsa_pub \<Rightarrow> string + int" where
  "unblindSignature blindSig blindingFactor pub =
     (case modInverse blindingFactor (rsaN pub) of
        None \<Rightarrow> Inl ''blinding factor has no modular inverse''
      | Some rInv \<Rightarrow> Inr (blindSig * rInv mod rsaN pub))"

text \<open>A nil signature is \<open>None\<close>.\<close>

definition verifySignature :: "(bytes \<Rightarrow> bytes) \<Rightarrow> bytes \<Rightarrow> int option \<Rightarrow> rsa_pub \<Rightarrow> bool" where
  "verifySignature sha message sig pub =
     (case sig of
        None \<Rightarrow> False
      | Some s \<Rightarrow>
          if s \<le> 0 then False
          else (case fdh sha message (rsaN pub) of
                  Inl _ \<Rightarrow> False
                | Inr rhs \<Rightarrow> bigExp s (rsaE pub) (rsaN pub) = rhs))"

subsection \<open>Lemmas: modular arithmetic\<close>

lemma modInverse_Some:
  assumes "modInverse a n = Some i" "0 \<le> a" "0 < n"
  shows "a * i mod n = 1 mod n" "0 \<le> i" "i < n"
proof -
  have g: "gcd a n = 1" and i: "i = fst (bezw (nat a) (nat n)) mod n"
    using assms(1) by (auto simp: modInverse_def split: if_splits)
  have "int (gcd (nat a) (nat n)) = fst (bezw (nat a) (nat n)) * int (nat a) + snd (bezw (nat a) (nat n)) * int (nat n)"
    by (rule bezw_aux)
  moreover have "int (gcd (nat a) (nat n)) = gcd a n"
    using assms(2,3) by (simp add: gcd_int_def)
  ultimately have "1 = fst (bezw (nat a) (nat n)) * a + snd (bezw (nat a) (nat n)) * n"
    using g assms(2,3) by simp
  then have "fst (bezw (nat a) (nat n)) * a mod n = 1 mod n"
    by (metis mod_mult_self1)
  then show "a * i mod n = 1 mod n" using i by (metis mod_mult_right_eq mult.commute)
  show "0 \<le> i" "i < n" using i assms(3) by auto
qed

lemma modInverse_coprime: "gcd a n = 1 \<Longrightarrow> \<exists>i. modInverse a n = Some i"
  by (simp add: modInverse_def)

lemma power_inverse_mod:
  fixes r i n :: int
  assumes "r * i mod n = 1 mod n"
  shows "r ^ e * i ^ e mod n = 1 mod n"
  using assms by (metis power_mod power_mult_distrib power_one)

lemma blind_loop_result:
  "blind_loop m n e rs = Inr (B, r) \<Longrightarrow> gcd r n = 1 \<and> r \<noteq> 0 \<and> r \<in> set rs \<and> B = m * bigExp r e n mod n"
  by (induction rs) (auto split: if_splits)

lemma fdh_range: "fdh sha msg n = Inr m \<Longrightarrow> 0 < n \<Longrightarrow> 0 < m \<and> m < n"
  by (auto simp: fdh_def Let_def split: if_splits) (metis order_le_less pos_mod_sign)

text \<open>Multiplying by a blinding factor's power and by its inverse's power cancels.\<close>

lemma unblind_mod:
  fixes s r i B m n :: int
  assumes "r * i mod n = 1 mod n" "s ^ e mod n = B" "B = m * (r ^ e mod n) mod n"
  shows "(s * i mod n) ^ e mod n = m mod n"
proof -
  have "(s * i mod n) ^ e mod n = s ^ e * i ^ e mod n" by (simp add: power_mod power_mult_distrib)
  also have "\<dots> = (s ^ e mod n) * i ^ e mod n" by (simp add: mod_mult_left_eq)
  also have "\<dots> = (m * (r ^ e mod n) mod n) * i ^ e mod n" using assms(2,3) by simp
  also have "\<dots> = m * (r ^ e * i ^ e mod n) mod n"
    by (simp add: mod_mult_left_eq mod_mult_right_eq mult.assoc [symmetric])
  also have "\<dots> = m * (1 mod n) mod n" using power_inverse_mod [OF assms(1)] by simp
  also have "\<dots> = m mod n" by (simp add: mod_mult_right_eq)
  finally show ?thesis .
qed

subsection \<open>Well-formed keys\<close>

definition valid_key :: "rsa_priv \<Rightarrow> bool" where
  "valid_key k =
     (is_prime (nat (prime0 k)) \<and> is_prime (nat (prime1 k)) \<and> 2 < prime0 k \<and> 2 < prime1 k
      \<and> prime0 k \<noteq> prime1 k \<and> rsaN k = prime0 k * prime1 k \<and> 0 < rsaE k
      \<and> rsaD k * rsaE k mod nat (prime0 k - 1) = 1 \<and> rsaD k * rsaE k mod nat (prime1 k - 1) = 1)"

lemma valid_key_coprime:
  assumes "valid_key k"
  shows "coprime (prime0 k) (prime1 k)"
proof -
  have p: "is_prime (nat (prime0 k))" and q: "is_prime (nat (prime1 k))"
    and gt: "2 < prime0 k" "2 < prime1 k" and ne: "prime0 k \<noteq> prime1 k"
    using assms by (auto simp: valid_key_def)
  have "\<not> nat (prime0 k) dvd nat (prime1 k)"
    using p q ne gt by (auto simp: is_prime_def)
  then have "coprime (nat (prime0 k)) (nat (prime1 k))" by (rule is_prime_coprime [OF p])
  then have "coprime (int (nat (prime0 k))) (int (nat (prime1 k)))" by (simp only: coprime_int_iff)
  then show ?thesis using gt by simp
qed

text \<open>The reduced exponents are still inverses of the public one.\<close>

lemma reduced_exponent:
  assumes "(d * e) mod m = (1::nat)" "1 < m"
  shows "(d mod m) * e mod m = 1 mod m" "0 < (d mod m) * e"
proof -
  show 1: "(d mod m) * e mod m = 1 mod m" using assms by (simp add: mod_mult_left_eq)
  show "0 < (d mod m) * e" using 1 assms(2) by (cases "(d mod m) * e") auto
qed

lemma garner_mod:
  fixes a b i p q :: int
  assumes "q * i mod p = 1 mod p"
  shows "((a - b) * i mod p * q + b) mod p = a mod p"
proof -
  have "p dvd q * i - 1" using assms by (simp add: mod_eq_dvd_iff)
  then obtain t where "q * i = 1 + p * t" by (metis add.commute diff_add_cancel dvdE)
  then have "(a - b) * (q * i) + b = a + p * ((a - b) * t)" by (simp add: algebra_simps)
  then have "(a - b) * i * q + b = a + p * ((a - b) * t)" by (simp add: ac_simps)
  then have "((a - b) * i * q + b) mod p = a mod p" by simp
  moreover have "((a - b) * i mod p * q + b) mod p = ((a - b) * i * q + b) mod p"
    by (metis mod_add_left_eq mod_mult_left_eq)
  ultimately show ?thesis by simp
qed

lemma crt_exp_prime0:
  assumes "valid_key k"
  shows "crt_exp k x mod prime0 k = bigExp x (Dp k) (prime0 k)"
proof -
  let ?p = "prime0 k" and ?q = "prime1 k"
  have gt: "2 < ?p" "2 < ?q" using assms by (auto simp: valid_key_def)
  have "gcd ?q ?p = 1" using valid_key_coprime [OF assms] by (simp add: coprime_iff_gcd_eq_1 gcd.commute)
  from modInverse_coprime [OF this] obtain i where i: "modInverse ?q ?p = Some i" ..
  then have inv: "?q * i mod ?p = 1 mod ?p" using modInverse_Some gt by auto
  let ?m1 = "bigExp x (Dp k) ?p" and ?m2 = "bigExp x (Dq k) ?q"
  have "crt_exp k x mod ?p = ((?m1 - ?m2) * i mod ?p * ?q + ?m2) mod ?p"
    by (simp add: crt_exp_def Qinv_def i Let_def)
  also have "\<dots> = ?m1 mod ?p" by (rule garner_mod [OF inv])
  also have "\<dots> = ?m1" using gt by (simp add: bigExp_def)
  finally show ?thesis .
qed

lemma crt_exp_prime1: "valid_key k \<Longrightarrow> crt_exp k x mod prime1 k = bigExp x (Dq k) (prime1 k)"
  by (simp add: crt_exp_def bigExp_def Let_def)

lemma crt_exp_root:
  assumes k: "valid_key k" and x: "0 \<le> x" "x < rsaN k"
  shows "crt_exp k x ^ rsaE k mod rsaN k = x"
proof -
  let ?p = "prime0 k" and ?q = "prime1 k"
  have key: "is_prime (nat ?p)" "is_prime (nat ?q)" "2 < ?p" "2 < ?q" "rsaN k = ?p * ?q"
    "rsaD k * rsaE k mod nat (?p - 1) = 1" "rsaD k * rsaE k mod nat (?q - 1) = 1"
    using k by (auto simp: valid_key_def)
  have nat_pq: "nat (?p - 1) = nat ?p - 1" "nat (?q - 1) = nat ?q - 1" using key by auto
  have root: "(bigExp x dd m) ^ rsaE k mod m = x mod m"
    if "is_prime (nat m)" "2 < m" "rsaD k * rsaE k mod nat (m - 1) = 1" "dd = rsaD k mod nat (m - 1)" for m dd
  proof -
    have "1 < nat (m - 1)" using that(2) by auto
    then have e: "dd * rsaE k mod nat (m - 1) = 1 mod nat (m - 1)" "0 < dd * rsaE k"
      using reduced_exponent [OF that(3)] that(4) by auto
    have "nat (m - 1) = nat m - 1" using that(2) by auto
    with e have "x ^ (dd * rsaE k) mod m = x mod m"
      using int_fermat_exponent [OF that(1) _ e(2) x(1)] by simp
    then show ?thesis by (simp add: bigExp_def power_mod power_mult)
  qed
  have "crt_exp k x ^ rsaE k mod ?p = x mod ?p"
    using root [OF key(1,3,6)] crt_exp_prime0 [OF k, of x] by (metis Dp_def power_mod)
  moreover have "crt_exp k x ^ rsaE k mod ?q = x mod ?q"
    using root [OF key(2,4,7)] crt_exp_prime1 [OF k, of x] by (metis Dq_def power_mod)
  ultimately have "crt_exp k x ^ rsaE k mod rsaN k = x mod rsaN k"
    unfolding key(5) by (rule crt_unique [OF valid_key_coprime [OF k]])
  then show ?thesis using x by simp
qed

lemma valid_key_modulus: "valid_key k \<Longrightarrow> 1 < rsaN k"
proof -
  assume "valid_key k"
  then have "2 < prime0 k" "2 < prime1 k" "rsaN k = prime0 k * prime1 k" by (auto simp: valid_key_def)
  then show "1 < rsaN k" using mult_strict_mono [of 1 "prime0 k" 1 "prime1 k"] by simp
qed

lemma signBlinded_sound:
  assumes "signBlinded B k rs = Inr s" "0 < rsaN k"
  shows "bigExp s (rsaE k) (rsaN k) = B" "0 \<le> s" "s < rsaN k"
proof -
  obtain y where s: "s = y mod rsaN k" and v: "bigExp s (rsaE k) (rsaN k) = B"
    using assms(1) by (auto simp: signBlinded_def Let_def split: option.splits if_splits) metis
  show "bigExp s (rsaE k) (rsaN k) = B" by (rule v)
  show "0 \<le> s" "s < rsaN k" using s assms(2) by simp_all
qed

lemma signBlinded_complete:
  assumes k: "valid_key k" and B: "0 \<le> B" "B < rsaN k"
    and r: "first_nonzero rs = Some r" "0 \<le> r" "gcd r (rsaN k) = 1"
  shows "\<exists>s. signBlinded B k rs = Inr s"
proof -
  let ?n = "rsaN k" and ?e = "rsaE k"
  have n: "1 < ?n" by (rule valid_key_modulus [OF k])
  obtain i where i: "modInverse r ?n = Some i" using modInverse_coprime [OF r(3)] by blast
  have inv: "r * i mod ?n = 1 mod ?n" using modInverse_Some [OF i r(2)] n by simp
  let ?x = "B * bigExp r ?e ?n mod ?n"
  have "crt_exp k ?x ^ ?e mod ?n = ?x" using crt_exp_root [OF k, of ?x] n by simp
  then have "(crt_exp k ?x * i mod ?n) ^ ?e mod ?n = B mod ?n"
    using unblind_mod [OF inv, of "crt_exp k ?x" ?e ?x B] by (simp add: bigExp_def)
  then have "bigExp (crt_exp k ?x * i mod ?n) ?e ?n = B" using B by (simp add: bigExp_def)
  then show ?thesis using r(1) i by (simp add: signBlinded_def Let_def)
qed

subsection \<open>Blinding hides the message\<close>

lemma public_of_sel [simp]: "rsaN (public_of k) = rsaN k" "rsaE (public_of k) = rsaE k"
  by (simp_all add: public_of_def)

text \<open>Raising to the public exponent is injective on the residues of a well-formed key.\<close>

lemma power_mod_inject:
  assumes k: "valid_key k" and x: "0 \<le> x" "x < rsaN k" "0 \<le> y" "y < rsaN k"
    and eq: "x ^ rsaE k mod rsaN k = y ^ rsaE k mod rsaN k"
  shows "x = y"
proof -
  let ?p = "prime0 k" and ?q = "prime1 k"
  have key: "is_prime (nat ?p)" "is_prime (nat ?q)" "2 < ?p" "2 < ?q" "rsaN k = ?p * ?q"
    "rsaD k * rsaE k mod nat (?p - 1) = 1" "rsaD k * rsaE k mod nat (?q - 1) = 1"
    using k by (auto simp: valid_key_def)
  have pow: "z ^ (rsaE k * rsaD k) mod m = z mod m"
    if "is_prime (nat m)" "2 < m" "rsaD k * rsaE k mod nat (m - 1) = 1" "0 \<le> z" for m z
  proof -
    have m: "nat (m - 1) = nat m - 1" "1 < nat m - 1" using that(2) by auto
    have "0 < rsaE k * rsaD k" using that(3) m by (cases "rsaE k * rsaD k") (auto simp: mult.commute)
    then show ?thesis using int_fermat_exponent [OF that(1) _ _ that(4), of "rsaE k * rsaD k"] that(3) m
      by (simp add: mult.commute)
  qed
  have "x ^ (rsaE k * rsaD k) mod rsaN k = y ^ (rsaE k * rsaD k) mod rsaN k"
    using eq by (metis power_mod power_mult)
  from arg_cong [OF this, of "\<lambda>z. z mod ?p"] arg_cong [OF this, of "\<lambda>z. z mod ?q"]
  have "x ^ (rsaE k * rsaD k) mod ?p = y ^ (rsaE k * rsaD k) mod ?p"
    "x ^ (rsaE k * rsaD k) mod ?q = y ^ (rsaE k * rsaD k) mod ?q"
    by (simp_all add: key(5) mod_mod_cancel)
  then have "x mod ?p = y mod ?p" "x mod ?q = y mod ?q"
    using pow [OF key(1,3,6)] pow [OF key(2,4,7)] x by simp_all
  then have "x mod rsaN k = y mod rsaN k" unfolding key(5) by (rule crt_unique [OF valid_key_coprime [OF k]])
  then show ?thesis using x by simp
qed

lemma blind_protocol_run:
  assumes k: "valid_key k" and bl: "blindMessage sha msg (public_of k) rs = Inr (B, r)"
    and rs: "\<forall>x \<in> set rs. 0 \<le> x" and r': "first_nonzero rs' = Some r'" "0 \<le> r'" "gcd r' (rsaN k) = 1"
  shows "\<exists>s sig. signBlinded B k rs' = Inr s \<and> unblindSignature s r (public_of k) = Inr sig
    \<and> verifySignature sha msg (Some sig) (public_of k)"
proof -
  let ?n = "rsaN k" and ?e = "rsaE k"
  have n: "1 < ?n" by (rule valid_key_modulus [OF k])
  obtain m where m: "fdh sha msg ?n = Inr m" and lp: "blind_loop m ?n ?e rs = Inr (B, r)"
    using bl by (auto simp: blindMessage_def split: sum.splits)
  have r: "gcd r ?n = 1" "r \<in> set rs" "B = m * bigExp r ?e ?n mod ?n" using blind_loop_result [OF lp] by auto
  have B: "0 \<le> B" "B < ?n" using r(3) n by simp_all
  obtain s where s: "signBlinded B k rs' = Inr s" using signBlinded_complete [OF k B r'] by blast
  then have se: "s ^ ?e mod ?n = B" using signBlinded_sound [OF s] n by (simp add: bigExp_def)
  obtain i where i: "modInverse r ?n = Some i" using modInverse_coprime [OF r(1)] by blast
  have inv: "r * i mod ?n = 1 mod ?n" using modInverse_Some [OF i] rs r(2) n by simp
  let ?sig = "s * i mod ?n"
  have ver: "?sig ^ ?e mod ?n = m"
    using unblind_mod [OF inv se, of m] r(3) fdh_range [OF m] n by (simp add: bigExp_def)
  moreover have "?sig \<noteq> 0"
  proof
    assume "?sig = 0"
    then have "m = 0" using ver k by (simp add: valid_key_def zero_power)
    then show False using fdh_range [OF m] n by simp
  qed
  moreover have "0 \<le> ?sig" using n by simp
  ultimately have "0 < ?sig" "?sig ^ ?e mod ?n = m" by linarith+
  then have "verifySignature sha msg (Some ?sig) (public_of k)"
    using m by (simp add: verifySignature_def bigExp_def)
  then show ?thesis using s i by (auto simp: unblindSignature_def)
qed

subsection \<open>Properties\<close>

text \<open>
  C12: The blind-signature protocol is correct end to end: for a well-formed RSA key, whatever
  message is blinded with whatever random factor, the enclave signs it (the CRT computation
  passes the fault check), unblinding succeeds, and the unblinded signature verifies on the
  original message.
\<close>

theorem blind_protocol_correct:
  assumes k: "valid_key k" and bl: "blindMessage sha msg (public_of k) rs = Inr (B, r)"
    and rs: "\<forall>x \<in> set rs. 0 \<le> x" and r': "first_nonzero rs' = Some r'" "0 \<le> r'" "gcd r' (rsaN k) = 1"
  shows "\<exists>s sig. signBlinded B k rs' = Inr s \<and> unblindSignature s r (public_of k) = Inr sig
    \<and> verifySignature sha msg (Some sig) (public_of k)"
  by (rule blind_protocol_run [OF assms])

text \<open>
  Fault check: whatever the key material and the random numbers, a signature that
  \<open>SignBlinded\<close> returns is an e-th root of the blinded value modulo n and lies below n; a
  blinded value outside the residues is always refused.
\<close>

theorem sign_blinded_checked:
  assumes "0 < rsaN k"
  shows "(signBlinded B k rs = Inr s \<longrightarrow> bigExp s (rsaE k) (rsaN k) = B \<and> 0 \<le> s \<and> s < rsaN k)
    \<and> (B < 0 \<or> rsaN k \<le> B \<longrightarrow> isl (signBlinded B k rs))"
proof -
  have "isl (signBlinded B k rs)" if "B < 0 \<or> rsaN k \<le> B"
  proof (rule ccontr)
    assume "\<not> isl (signBlinded B k rs)"
    then obtain t where "signBlinded B k rs = Inr t" by (cases "signBlinded B k rs") auto
    from signBlinded_sound [OF this assms] that show False
      using pos_mod_bound [OF assms, of "t ^ rsaE k"] pos_mod_sign [OF assms, of "t ^ rsaE k"]
      by (simp add: bigExp_def)
  qed
  then show ?thesis using signBlinded_sound [OF _ assms] by auto
qed

text \<open>
  Unlinkability: for a well-formed key and any message hash m coprime to n, every residue B
  is the blinding of m under exactly one factor, and that factor is coprime to n exactly when B
  is. So a uniformly drawn factor gives a uniformly distributed blinded value for every message,
  and the value the enclave signs says nothing about the message.
\<close>

theorem blinding_is_bijective:
  assumes k: "valid_key k" and m: "gcd m (rsaN k) = 1" "0 \<le> m" and B: "0 \<le> B" "B < rsaN k"
  shows "\<exists>!r. 0 \<le> r \<and> r < rsaN k \<and> m * bigExp r (rsaE k) (rsaN k) mod rsaN k = B
    \<and> (gcd r (rsaN k) = 1 \<longleftrightarrow> gcd B (rsaN k) = 1)"
proof -
  let ?n = "rsaN k" and ?e = "rsaE k"
  have n: "1 < ?n" by (rule valid_key_modulus [OF k])
  obtain i where i: "modInverse m ?n = Some i" using modInverse_coprime [OF m(1)] by blast
  have inv: "m * i mod ?n = 1 mod ?n" using modInverse_Some [OF i m(2)] n by simp
  have cancel: "i * (m * x mod ?n) mod ?n = x mod ?n" for x
  proof -
    have "i * (m * x mod ?n) mod ?n = (m * i mod ?n) * x mod ?n"
      by (simp add: mod_mult_left_eq mod_mult_right_eq ac_simps)
    then show ?thesis using inv by (simp add: mod_mult_left_eq)
  qed
  let ?r = "crt_exp k (i * B mod ?n) mod ?n"
  have "bigExp ?r ?e ?n = i * B mod ?n"
    using crt_exp_root [OF k, of "i * B mod ?n"] n by (simp add: bigExp_def power_mod)
  then have "m * bigExp ?r ?e ?n mod ?n = (m * i mod ?n) * B mod ?n"
    by (simp add: mod_mult_left_eq mod_mult_right_eq ac_simps)
  then have root: "m * bigExp ?r ?e ?n mod ?n = B" using inv B by (simp add: mod_mult_left_eq)
  have unit: "gcd x ?n = 1 \<longleftrightarrow> gcd (m * bigExp x ?e ?n mod ?n) ?n = 1" for x
  proof -
    have "coprime (m * bigExp x ?e ?n mod ?n) ?n \<longleftrightarrow> coprime (m * x ^ ?e) ?n"
      using n by (simp add: bigExp_def mod_mult_right_eq coprime_mod_left_iff)
    also have "\<dots> \<longleftrightarrow> coprime x ?n"
      using m(1) k by (simp add: coprime_iff_gcd_eq_1 [symmetric] coprime_power_left_iff valid_key_def)
    finally show ?thesis by (simp add: coprime_iff_gcd_eq_1)
  qed
  show ?thesis
  proof (rule ex1I [of _ ?r])
    show "0 \<le> ?r \<and> ?r < ?n \<and> m * bigExp ?r ?e ?n mod ?n = B \<and> (gcd ?r ?n = 1 \<longleftrightarrow> gcd B ?n = 1)"
      using root unit [of ?r] n by simp
  next
    fix r assume r: "0 \<le> r \<and> r < ?n \<and> m * bigExp r ?e ?n mod ?n = B \<and> (gcd r ?n = 1 \<longleftrightarrow> gcd B ?n = 1)"
    then have "bigExp r ?e ?n mod ?n = bigExp ?r ?e ?n mod ?n" using root cancel by metis
    then show "r = ?r" using power_mod_inject [OF k, of r ?r] r n by (simp add: bigExp_def)
  qed
qed

end
