(* ===== verification/Pay_Service.thy ===== *)
theory Pay_Service
  imports Blind
begin

text \<open>
  \<open>internal/payment\<close>: the tiers and their keys, the payment processors, the signing batcher and
  the payment service (\<open>service.go\<close>, \<open>processor.go\<close>, \<open>processor_crypto.go\<close>, \<open>batcher.go\<close>). The
  JSON decoders and the answers of the Stripe and LND servers are parameters.
\<close>

subsection \<open>Processors\<close>

datatype http_out = ReqErr | DoErr | ReadErr | Resp int bytes

definition safe_id_char :: "char \<Rightarrow> bool" where
  "safe_id_char c = (is_lower c \<or> is_upper c \<or> is_digit c \<or> c = CHR ''_'' \<or> c = CHR ''-'')"

definition safeIDPattern :: "string \<Rightarrow> bool" where
  "safeIDPattern s = (s \<noteq> [] \<and> list_all safe_id_char s)"

definition hex_char :: "char \<Rightarrow> bool" where
  "hex_char c = (fromHexChar c \<noteq> None)"

definition safeHexPattern :: "string \<Rightarrow> bool" where
  "safeHexPattern s = (length s = 64 \<and> list_all hex_char s)"

definition test_VerifyPayment :: "bytes \<Rightarrow> string + string" where
  "test_VerifyPayment proof = Inr ''paid''"

definition stripeTierFromAmount :: "int \<Rightarrow> string" where
  "stripeTierFromAmount amount =
     (if amount \<ge> 1000 then ''business'' else if amount \<ge> 500 then ''pro'' else ''paid'')"

definition lightningTierFromSats :: "int \<Rightarrow> string" where
  "lightningTierFromSats sats =
     (if sats \<ge> 100000 then ''business'' else if sats \<ge> 50000 then ''pro'' else ''paid'')"

record stripePaymentIntent =
  pi_Status :: string
  pi_Amount :: int

record lndInvoice =
  Settled :: bool
  AmtPaidSat :: "int option"

definition stripe_url :: "string \<Rightarrow> string \<Rightarrow> string" where
  "stripe_url baseURL pid =
     (if baseURL = [] then ''https://api.stripe.com'' else baseURL) @ ''/v1/payment_intents/'' @ pid"

definition stripe_VerifyPayment ::
    "(bytes \<Rightarrow> string option) \<Rightarrow> (bytes \<Rightarrow> stripePaymentIntent option) \<Rightarrow> (string \<Rightarrow> http_out) \<Rightarrow> string
       \<Rightarrow> bytes \<Rightarrow> string + string" where
  "stripe_VerifyPayment decProof decIntent fetch baseURL paymentProof =
     (case decProof paymentProof of
        None \<Rightarrow> Inl ''invalid payment proof''
      | Some pid \<Rightarrow>
          if pid = [] then Inl ''missing payment_intent_id''
          else if \<not> safeIDPattern pid then Inl ''invalid payment_intent_id format''
          else (case fetch (stripe_url baseURL pid) of
             ReqErr \<Rightarrow> Inl ''create request''
           | DoErr \<Rightarrow> Inl ''stripe API request failed''
           | ReadErr \<Rightarrow> Inl ''read response''
           | Resp status body \<Rightarrow>
               if status \<noteq> 200 then Inl ''payment processing failed''
               else (case decIntent (take 1048576 body) of
                  None \<Rightarrow> Inl ''parse stripe response''
                | Some i \<Rightarrow>
                    if pi_Status i \<noteq> ''succeeded'' then Inl ''payment not succeeded''
                    else Inr (stripeTierFromAmount (pi_Amount i)))))"

definition lightning_VerifyPayment ::
    "(bytes \<Rightarrow> string option) \<Rightarrow> (bytes \<Rightarrow> lndInvoice option) \<Rightarrow> (string \<Rightarrow> http_out) \<Rightarrow> bool \<Rightarrow> string
       \<Rightarrow> bytes \<Rightarrow> string + string" where
  "lightning_VerifyPayment decProof decInvoice fetch cert_ok nodeURL paymentProof =
     (case decProof paymentProof of
        None \<Rightarrow> Inl ''invalid payment proof''
      | Some h \<Rightarrow>
          if h = [] then Inl ''missing payment_hash''
          else if \<not> safeHexPattern h then Inl ''invalid payment_hash format: must be 64 hex characters''
          else if fetch (nodeURL @ ''/v1/invoice/'' @ h) = ReqErr then Inl ''create request''
          else if \<not> cert_ok then Inl ''failed to parse LND TLS certificate''
          else (case fetch (nodeURL @ ''/v1/invoice/'' @ h) of
             ReqErr \<Rightarrow> Inl ''create request''
           | DoErr \<Rightarrow> Inl ''LND API request failed''
           | ReadErr \<Rightarrow> Inl ''read response''
           | Resp status body \<Rightarrow>
               if status \<noteq> 200 then Inl ''payment processing failed''
               else (case decInvoice (take 1048576 body) of
                  None \<Rightarrow> Inl ''parse LND response''
                | Some invoice \<Rightarrow>
                    if \<not> Settled invoice then Inl ''invoice not settled''
                    else (case AmtPaidSat invoice of
                            None \<Rightarrow> Inl ''parse amt_paid_sat''
                          | Some amt \<Rightarrow> Inr (lightningTierFromSats amt)))))"

text \<open>The stubs: each checks its proof and then reports that it is not implemented.\<close>

definition bitcoin_VerifyPayment :: "(bytes \<Rightarrow> string option) \<Rightarrow> bytes \<Rightarrow> string + string" where
  "bitcoin_VerifyPayment decProof proof =
     (case decProof proof of
        None \<Rightarrow> Inl ''invalid payment proof''
      | Some txid \<Rightarrow> if txid = [] then Inl ''missing txid'' else Inl ''bitcoin on-chain: payment processor not implemented'')"

definition monero_VerifyPayment :: "(bytes \<Rightarrow> (string \<times> string \<times> string) option) \<Rightarrow> bytes \<Rightarrow> string + string" where
  "monero_VerifyPayment decProof proof =
     (case decProof proof of
        None \<Rightarrow> Inl ''invalid payment proof''
      | Some (txHash, txKey, address) \<Rightarrow>
          if txHash = [] then Inl ''missing tx_hash''
          else if txKey = [] then Inl ''missing tx_key''
          else if address = [] then Inl ''missing address''
          else Inl ''monero: payment processor not implemented'')"

definition ethereum_VerifyPayment :: "(bytes \<Rightarrow> string option) \<Rightarrow> bytes \<Rightarrow> string + string" where
  "ethereum_VerifyPayment decProof proof =
     (case decProof proof of
        None \<Rightarrow> Inl ''invalid payment proof''
      | Some txHash \<Rightarrow> if txHash = [] then Inl ''missing tx_hash'' else Inl ''ethereum: payment processor not implemented'')"

subsection \<open>The signing batcher\<close>

text \<open>
  A job carries its identity, the blinded token, the tier, whether its caller's context is
  cancelled when the batch is processed, and the random numbers its signature would draw.
\<close>

record signJob =
  job_id :: nat
  blindedToken :: int
  job_tier :: string
  job_cancelled :: bool
  job_rand :: "int list"

record SigningBatcher =
  sb_keys :: "(string \<times> rsa_priv) list"
  maxBatch :: nat
  queue_cap :: nat
  sb_queue :: "signJob list"
  sb_done :: bool
  sb_running :: bool

definition newSigningBatcher :: "(string \<times> rsa_priv) list \<Rightarrow> int option \<Rightarrow> int option \<Rightarrow> SigningBatcher" where
  "newSigningBatcher keys withMaxBatch withQueueSize =
     \<lparr>sb_keys = keys,
      maxBatch = (case withMaxBatch of Some n \<Rightarrow> if n > 0 then nat n else 100 | None \<Rightarrow> 100),
      queue_cap = (case withQueueSize of Some n \<Rightarrow> if n > 0 then nat n else 1000 | None \<Rightarrow> 1000),
      sb_queue = [], sb_done = False, sb_running = True\<rparr>"

definition job_result :: "(string \<times> rsa_priv) list \<Rightarrow> signJob \<Rightarrow> string + int" where
  "job_result keys job =
     (if job_cancelled job then Inl ''context canceled''
      else (case map_of keys (job_tier job) of
              None \<Rightarrow> Inl ''no signing key for tier''
            | Some key \<Rightarrow> signBlinded (blindedToken job) key (job_rand job)))"

fun drain_loop :: "nat \<Rightarrow> signJob list \<Rightarrow> signJob list \<Rightarrow> signJob list \<times> signJob list" where
  "drain_loop mx batch [] = (batch, [])"
| "drain_loop mx batch (j # q) = (if length batch < mx then drain_loop mx (batch @ [j]) q else (batch, j # q))"

definition processBatch :: "SigningBatcher \<Rightarrow> SigningBatcher \<times> (nat \<times> (string + int)) list" where
  "processBatch b =
     (let (batch, rest) = drain_loop (maxBatch b) [] (sb_queue b)
      in (b\<lparr>sb_queue := rest\<rparr>, map (\<lambda>j. (job_id j, job_result (sb_keys b) j)) batch))"

text \<open>
  The operations on a batcher: a caller enqueues a job (it blocks while the channel is full, and
  gets an error once the batcher is stopped), the ticker fires, \<open>Stop\<close> closes the channel
  \<open>done\<close>, and the goroutine, seeing it, processes one last batch and ends.
\<close>

datatype batch_op = Submit signJob | Tick | Stop | FinalDrain

fun batch_step :: "batch_op \<Rightarrow> SigningBatcher \<Rightarrow> SigningBatcher \<times> (nat \<times> (string + int)) list" where
  "batch_step (Submit job) b =
     (if \<not> sb_done b \<and> length (sb_queue b) < queue_cap b then (b\<lparr>sb_queue := sb_queue b @ [job]\<rparr>, []) else (b, []))"
| "batch_step Tick b = (if sb_running b then processBatch b else (b, []))"
| "batch_step Stop b = (b\<lparr>sb_done := True\<rparr>, [])"
| "batch_step FinalDrain b =
     (if sb_running b \<and> sb_done b
      then (let (b', out) = processBatch b in (b'\<lparr>sb_running := False\<rparr>, out)) else (b, []))"

fun batch_run :: "batch_op list \<Rightarrow> SigningBatcher \<Rightarrow> SigningBatcher \<times> (nat \<times> (string + int)) list" where
  "batch_run [] b = (b, [])"
| "batch_run (op # ops) b =
     (let (b1, out1) = batch_step op b; (b2, out2) = batch_run ops b1 in (b2, out1 @ out2))"

text \<open>The jobs that entered the queue during a run.\<close>

fun accepted_jobs :: "batch_op list \<Rightarrow> SigningBatcher \<Rightarrow> signJob list" where
  "accepted_jobs [] b = []"
| "accepted_jobs (op # ops) b =
     (case op of Submit job \<Rightarrow> if \<not> sb_done b \<and> length (sb_queue b) < queue_cap b then [job] else [] | _ \<Rightarrow> [])
     @ accepted_jobs ops (fst (batch_step op b))"

subsection \<open>The service\<close>

definition TierFakeIDMint :: string where
  "TierFakeIDMint = ''fakeid_mint''"

definition TierFakeIDRatchet :: string where
  "TierFakeIDRatchet = ''fakeid_ratchet''"

definition Tiers :: "string list" where
  "Tiers = [''paid'', ''pro'', ''business'', TierFakeIDMint, TierFakeIDRatchet]"

record PaymentService =
  signingKeys :: "(string \<times> rsa_priv) list"
  publicKeys :: "(string \<times> rsa_pub) list"
  processors :: "(string \<times> (bytes \<Rightarrow> string + string)) list"
  batching :: bool

definition newPaymentService ::
    "(string \<times> rsa_priv) list \<Rightarrow> (string \<times> (bytes \<Rightarrow> string + string)) list \<Rightarrow> PaymentService" where
  "newPaymentService keys procs =
     \<lparr>signingKeys = keys, publicKeys = map (\<lambda>(tier, key). (tier, public_of key)) keys,
      processors = procs, batching = False\<rparr>"

definition newPaymentServiceWithBatcher ::
    "(string \<times> rsa_priv) list \<Rightarrow> (string \<times> (bytes \<Rightarrow> string + string)) list \<Rightarrow> PaymentService" where
  "newPaymentServiceWithBatcher keys procs = (newPaymentService keys procs)\<lparr>batching := True\<rparr>"

text \<open>
  How a \<open>Submit\<close> ends for its caller: with the result of its job, with its own context's error,
  or with "batcher stopped".
\<close>

datatype submit_out = SubProcessed | SubCancelled | SubStopped

definition submit_result ::
    "(string \<times> rsa_priv) list \<Rightarrow> submit_out \<Rightarrow> int list \<Rightarrow> int \<Rightarrow> string \<Rightarrow> string + int" where
  "submit_result keys out rs blinded tier =
     (case out of
        SubProcessed \<Rightarrow> job_result keys \<lparr>job_id = 0, blindedToken = blinded, job_tier = tier,
                                       job_cancelled = False, job_rand = rs\<rparr>
      | SubCancelled \<Rightarrow> Inl ''context canceled''
      | SubStopped \<Rightarrow> Inl ''batcher stopped'')"

definition signForTier ::
    "PaymentService \<Rightarrow> submit_out \<Rightarrow> int list \<Rightarrow> string \<Rightarrow> int \<Rightarrow> string + int" where
  "signForTier svc out rs tier blinded =
     (if batching svc then submit_result (signingKeys svc) out rs blinded tier
      else (case map_of (signingKeys svc) tier of
              None \<Rightarrow> Inl ''unknown signing tier''
            | Some key \<Rightarrow> signBlinded blinded key rs))"

definition processPayment ::
    "PaymentService \<Rightarrow> submit_out \<Rightarrow> int list \<Rightarrow> string \<Rightarrow> bytes \<Rightarrow> int \<Rightarrow> string + int \<times> string" where
  "processPayment svc out rs paymentMethod paymentProof blinded =
     (case map_of (processors svc) paymentMethod of
        None \<Rightarrow> Inl (''unsupported payment method: '' @ paymentMethod)
      | Some verifyPayment \<Rightarrow>
          (case verifyPayment paymentProof of
             Inl err \<Rightarrow> Inl err
           | Inr tier \<Rightarrow>
               if batching svc then
                 (case submit_result (signingKeys svc) out rs blinded tier of
                    Inl err \<Rightarrow> Inl (''batched blind sign: '' @ err)
                  | Inr sig \<Rightarrow> Inr (sig, tier))
               else (case map_of (signingKeys svc) tier of
                  None \<Rightarrow> Inl ''no signing key for tier''
                | Some key \<Rightarrow>
                    (case signBlinded blinded key rs of
                       Inl err \<Rightarrow> Inl (''blind sign: '' @ err)
                     | Inr sig \<Rightarrow> Inr (sig, tier)))))"

fun verify_tiers :: "(bytes \<Rightarrow> bytes) \<Rightarrow> (string \<times> rsa_pub) list \<Rightarrow> string list \<Rightarrow> bytes \<Rightarrow> int \<Rightarrow> string option" where
  "verify_tiers sha pubs [] token sig = None"
| "verify_tiers sha pubs (tier # tiers) token sig =
     (case map_of pubs tier of
        None \<Rightarrow> verify_tiers sha pubs tiers token sig
      | Some pub \<Rightarrow>
          if verifySignature sha token (Some sig) pub then Some tier
          else verify_tiers sha pubs tiers token sig)"

text \<open>\<open>("", false)\<close> is \<open>None\<close>.\<close>

definition verifyForTier :: "(bytes \<Rightarrow> bytes) \<Rightarrow> PaymentService \<Rightarrow> bytes \<Rightarrow> int \<Rightarrow> string option" where
  "verifyForTier sha svc token sig = verify_tiers sha (publicKeys svc) Tiers token sig"

definition getPublicKey :: "PaymentService \<Rightarrow> string \<Rightarrow> rsa_pub option" where
  "getPublicKey svc tier = map_of (publicKeys svc) tier"

subsection \<open>Lemmas\<close>

lemma drain_loop_eq: "drain_loop mx batch q = (batch @ take (mx - length batch) q, drop (mx - length batch) q)"
  by (induction mx batch q rule: drain_loop.induct) (auto simp: Suc_diff_Suc [symmetric])

lemma processBatch_eq:
  "processBatch b = (b\<lparr>sb_queue := drop (maxBatch b) (sb_queue b)\<rparr>,
     map (\<lambda>j. (job_id j, job_result (sb_keys b) j)) (take (maxBatch b) (sb_queue b)))"
  by (simp add: processBatch_def drain_loop_eq)

lemma batch_step_fields [simp]:
  "sb_keys (fst (batch_step op b)) = sb_keys b" "maxBatch (fst (batch_step op b)) = maxBatch b"
  by (cases op; simp add: processBatch_eq)+

lemma batch_step_conserves:
  "snd (batch_step op b) @ map (\<lambda>j. (job_id j, job_result (sb_keys b) j)) (sb_queue (fst (batch_step op b)))
   = map (\<lambda>j. (job_id j, job_result (sb_keys b) j))
       (sb_queue b @ (case op of Submit job \<Rightarrow> if \<not> sb_done b \<and> length (sb_queue b) < queue_cap b then [job] else [] | _ \<Rightarrow> []))"
  by (cases op) (simp_all add: processBatch_eq map_append [symmetric] del: map_append)

lemma batch_run_conserves:
  "batch_run ops b = (b', out) \<Longrightarrow>
     out @ map (\<lambda>j. (job_id j, job_result (sb_keys b) j)) (sb_queue b')
       = map (\<lambda>j. (job_id j, job_result (sb_keys b) j)) (sb_queue b @ accepted_jobs ops b)"
proof (induction ops arbitrary: b out)
  case (Cons op ops)
  obtain b1 out1 where s: "batch_step op b = (b1, out1)" by fastforce
  obtain out2 where r: "batch_run ops b1 = (b', out2)" and out: "out = out1 @ out2"
    using Cons.prems s by (auto simp: split_beta Let_def prod_eq_iff)
  have k: "sb_keys b1 = sb_keys b" using batch_step_fields(1) [of op b] s by simp
  have "out2 @ map (\<lambda>j. (job_id j, job_result (sb_keys b) j)) (sb_queue b')
      = map (\<lambda>j. (job_id j, job_result (sb_keys b) j)) (sb_queue b1 @ accepted_jobs ops b1)"
    using Cons.IH [OF r] k by simp
  then show ?case using batch_step_conserves [of op b] s out by simp
qed simp

lemma ticks_drain:
  "sb_running b \<Longrightarrow> sb_queue (fst (batch_run (replicate n Tick) b)) = drop (n * maxBatch b) (sb_queue b)"
proof (induction n arbitrary: b)
  case (Suc n)
  then show ?case
    using Suc.IH [of "fst (processBatch b)"] by (simp add: split_beta Let_def processBatch_eq add.commute)
qed simp

lemma job_result_signed:
  assumes "job_result keys j = Inr s"
  shows "\<exists>key. map_of keys (job_tier j) = Some key \<and> signBlinded (blindedToken j) key (job_rand j) = Inr s"
  using assms by (auto simp: job_result_def split: if_splits option.splits)

lemma verify_tiers_sound:
  "verify_tiers sha pubs tiers token sig = Some t \<Longrightarrow>
     t \<in> set tiers \<and> (\<exists>pub. map_of pubs t = Some pub \<and> verifySignature sha token (Some sig) pub)"
  by (induction tiers) (auto split: option.splits if_splits)

lemma verify_tiers_complete:
  "t \<in> set tiers \<Longrightarrow> map_of pubs t = Some pub \<Longrightarrow> verifySignature sha token (Some sig) pub \<Longrightarrow>
     verify_tiers sha pubs tiers token sig \<noteq> None"
  by (induction tiers) (auto split: option.splits)

subsection \<open>Properties\<close>

text \<open>
  The batcher neither loses, duplicates nor reorders jobs: over any run of submissions,
  ticks, stop and final drain, the answers sent followed by what is still queued are exactly
  the jobs that were queued and accepted, first in first out, each answered with the signature
  under its own tier's key; and a batch answers at most \<open>maxBatch\<close> jobs.
\<close>

theorem batcher_fifo:
  assumes "batch_run ops b = (b', out)"
  shows "out @ map (\<lambda>j. (job_id j, job_result (sb_keys b) j)) (sb_queue b')
           = map (\<lambda>j. (job_id j, job_result (sb_keys b) j)) (sb_queue b @ accepted_jobs ops b)
    \<and> length (snd (processBatch b)) \<le> maxBatch b"
  using batch_run_conserves [OF assms] by (simp add: processBatch_eq)

text \<open>
  Liveness of the batcher: while its goroutine runs, a job at position i of the queue has
  been answered after i div maxBatch + 1 ticks, with its own result.
\<close>

theorem batcher_answers:
  assumes "sb_running b" "0 < maxBatch b" "i < length (sb_queue b)"
  shows "(job_id (sb_queue b ! i), job_result (sb_keys b) (sb_queue b ! i))
    \<in> set (snd (batch_run (replicate (i div maxBatch b + 1) Tick) b))"
proof -
  let ?n = "i div maxBatch b + 1" and ?f = "\<lambda>j. (job_id j, job_result (sb_keys b) j)"
  obtain b' out where run: "batch_run (replicate ?n Tick) b = (b', out)" by fastforce
  have q: "sb_queue b' = drop (?n * maxBatch b) (sb_queue b)"
    using ticks_drain [OF assms(1), of ?n] run by simp
  have "accepted_jobs (replicate m Tick) c = []" for m c by (induction m arbitrary: c) auto
  then have "out @ map ?f (drop (?n * maxBatch b) (sb_queue b)) = map ?f (sb_queue b)"
    using batch_run_conserves [OF run] q by simp
  also have "\<dots> = map ?f (take (?n * maxBatch b) (sb_queue b)) @ map ?f (drop (?n * maxBatch b) (sb_queue b))"
    by (simp only: map_append [symmetric] append_take_drop_id)
  finally have "out = map ?f (take (?n * maxBatch b) (sb_queue b))" by simp
  moreover have "i < ?n * maxBatch b"
    using assms(2) by (metis add.commute dividend_less_times_div mult.commute mult_Suc plus_1_eq_Suc)
  then have "sb_queue b ! i \<in> set (take (?n * maxBatch b) (sb_queue b))"
    using assms(3) by (auto simp: in_set_conv_nth intro!: exI [of _ i])
  ultimately have "?f (sb_queue b ! i) \<in> set out" by (simp only: set_map image_eqI)
  then show ?thesis using run by simp
qed

text \<open>
  \<open>Stop\<close> does not drain the queue: the final drain answers at most \<open>maxBatch\<close> jobs and the
  goroutine ends, so any job beyond them stays in the channel without an answer, whatever
  happens later.
\<close>

theorem stop_leaves_jobs:
  assumes "sb_running b" "maxBatch b < length (sb_queue b)"
  shows "sb_queue (fst (batch_run ([Stop, FinalDrain] @ replicate n Tick) b)) = drop (maxBatch b) (sb_queue b)
    \<and> drop (maxBatch b) (sb_queue b) \<noteq> []"
proof -
  have "sb_queue (fst (batch_run (replicate n Tick) c)) = sb_queue c" if "\<not> sb_running c" for c
    using that by (induction n) (auto simp: split_beta Let_def)
  then show ?thesis using assms by (simp add: processBatch_eq split_beta Let_def)
qed

text \<open>
  A token is signed only for the tier its payment processor granted: a successful
  \<open>ProcessPayment\<close> means that the configured processor accepted the proof for this tier and that
  the returned number is an e-th root of the blinded token under exactly this tier's key, with
  or without batching.
\<close>

theorem process_payment_tier:
  assumes "processPayment svc out rs pmethod proof blinded = Inr (sig, tier)"
    and "\<forall>(t, key) \<in> set (signingKeys svc). 0 < rsaN key"
  shows "\<exists>verify key. map_of (processors svc) pmethod = Some verify \<and> verify proof = Inr tier
    \<and> map_of (signingKeys svc) tier = Some key
    \<and> bigExp sig (rsaE key) (rsaN key) = blinded \<and> 0 \<le> sig \<and> sig < rsaN key"
proof -
  obtain verify where v: "map_of (processors svc) pmethod = Some verify" "verify proof = Inr tier"
    using assms(1) by (auto simp: processPayment_def split: option.splits sum.splits if_splits)
  obtain key rs' where key: "map_of (signingKeys svc) tier = Some key" "signBlinded blinded key rs' = Inr sig"
    using assms(1) v
    by (auto simp: processPayment_def submit_result_def split: option.splits sum.splits if_splits submit_out.splits
        dest!: job_result_signed)
  have "0 < rsaN key" using assms(2) map_of_SomeD [OF key(1)] by auto
  then show ?thesis using v key signBlinded_sound [OF key(2)] by blast
qed

text \<open>
  Issue and redeem agree: for a service built from well-formed keys, a token blinded under a
  tier's public key, signed for that tier and unblinded is accepted by \<open>VerifyForTier\<close>, and the
  tier reported is one whose public key verifies the signature.
\<close>

theorem issue_then_redeem:
  assumes svc: "svc = newPaymentService keys procs" and key: "map_of keys tier = Some key" "valid_key key"
    and tier: "tier \<in> set Tiers"
    and bl: "blindMessage sha token (public_of key) rs = Inr (B, r)" "\<forall>x \<in> set rs. 0 \<le> x"
    and rnd: "first_nonzero rs' = Some r'" "0 \<le> r'" "gcd r' (rsaN key) = 1"
  shows "\<exists>s sig t pub. signForTier svc out rs' tier B = Inr s \<and> unblindSignature s r (public_of key) = Inr sig
    \<and> verifyForTier sha svc token sig = Some t \<and> getPublicKey svc t = Some pub \<and> verifySignature sha token (Some sig) pub"
proof -
  obtain s sig where s: "signBlinded B key rs' = Inr s" "unblindSignature s r (public_of key) = Inr sig"
    "verifySignature sha token (Some sig) (public_of key)"
    using blind_protocol_run [OF key(2) bl rnd] by blast
  have "map_of (publicKeys svc) tier = Some (public_of key)"
    using key(1) by (simp add: svc newPaymentService_def map_of_map_value)
  then obtain t where t: "verifyForTier sha svc token sig = Some t"
    using verify_tiers_complete [OF tier _ s(3)] by (auto simp: verifyForTier_def)
  then obtain pub where "getPublicKey svc t = Some pub" "verifySignature sha token (Some sig) pub"
    using verify_tiers_sound by (fastforce simp: verifyForTier_def getPublicKey_def)
  moreover have "signForTier svc out rs' tier B = Inr s"
    using s(1) key(1) by (simp add: signForTier_def svc newPaymentService_def)
  ultimately show ?thesis using s(2) t by blast
qed

end
