(* ===== verification/Pay_Store.thy ===== *)
theory Pay_Store
  imports Go_Base Interfaces
begin

text \<open>
  The database tables of the payment enclave: \<open>internal/storage/payment_store.go\<close>
  (\<open>spent_tokens\<close>, \<open>fakeid_mint_flags\<close>) and \<open>internal/storage/fakeid_slot_store.go\<close>
  (\<open>fakeid_consumed_slots\<close>). Each SQL statement is one atomic step; it may fail before it took
  effect or after (a lost reply), and the second kind of failure leaves its row behind.
\<close>

subsection \<open>State\<close>

text \<open>Times are nanoseconds, as in Go.\<close>

record pay_db =
  spent_tokens :: "(bytes \<times> string \<times> int) list"
  fakeid_mint_flags :: "(string \<times> int) list"
  fakeid_consumed_slots :: "(bytes \<times> int) list"

datatype db_out = DbOk | DbErrBefore | DbErrAfter

datatype pay_error = ErrTokenAlreadySpent | ErrFakeIDAlreadyMinted | ErrSlotAlreadyTaken | ErrDB string

text \<open>The reply of a statement that would affect rows iff \<open>won\<close>; \<open>db'\<close> is the table after it.\<close>

definition exec_reply :: "db_out \<Rightarrow> pay_db \<Rightarrow> pay_db \<Rightarrow> bool \<Rightarrow> pay_error \<Rightarrow> string \<Rightarrow> pay_db \<times> pay_error option" where
  "exec_reply out db db' won conflict msg =
     (case out of
        DbErrBefore \<Rightarrow> (db, Some (ErrDB msg))
      | DbErrAfter \<Rightarrow> (db', Some (ErrDB msg))
      | DbOk \<Rightarrow> (db', if won then None else Some conflict))"

subsection \<open>Operations\<close>

definition insertSpentToken ::
    "db_out \<Rightarrow> int \<Rightarrow> pay_db \<Rightarrow> bytes \<Rightarrow> string \<Rightarrow> pay_db \<times> pay_error option" where
  "insertSpentToken out now db tokenHash tier =
     (let won = (map_of (spent_tokens db) tokenHash = None);
          db' = (if won then db\<lparr>spent_tokens := (tokenHash, tier, now) # spent_tokens db\<rparr> else db)
      in exec_reply out db db' won ErrTokenAlreadySpent ''insert spent token'')"

definition isTokenSpent :: "bool \<Rightarrow> pay_db \<Rightarrow> bytes \<Rightarrow> pay_error + bool" where
  "isTokenSpent ok db tokenHash =
     (if ok then Inr (map_of (spent_tokens db) tokenHash \<noteq> None) else Inl (ErrDB ''check spent token''))"

text \<open>
  \<open>ON CONFLICT DO UPDATE ... WHERE minted_at < now() - INTERVAL '30 seconds'\<close>: \<open>dbnow\<close> is the
  database clock, \<open>now\<close> the value the enclave writes.
\<close>

definition markFakeIDMinted ::
    "db_out \<Rightarrow> int \<Rightarrow> int \<Rightarrow> pay_db \<Rightarrow> string \<Rightarrow> pay_db \<times> pay_error option" where
  "markFakeIDMinted out now dbnow db subscriptionID =
     (let won = (case map_of (fakeid_mint_flags db) subscriptionID of
                   None \<Rightarrow> True
                 | Some minted_at \<Rightarrow> minted_at < dbnow - 30 * second);
          db' = (if won then db\<lparr>fakeid_mint_flags := AList.update subscriptionID now (fakeid_mint_flags db)\<rparr> else db)
      in exec_reply out db db' won ErrFakeIDAlreadyMinted ''mark fakeid minted'')"

definition hasFakeIDMinted :: "bool \<Rightarrow> pay_db \<Rightarrow> string \<Rightarrow> pay_error + bool" where
  "hasFakeIDMinted ok db subscriptionID =
     (if ok then Inr (map_of (fakeid_mint_flags db) subscriptionID \<noteq> None) else Inl (ErrDB ''check fakeid minted''))"

datatype SlotState = SlotFree | SlotConsumed

definition statusForTag :: "bool \<Rightarrow> pay_db \<Rightarrow> bytes \<Rightarrow> pay_error + SlotState" where
  "statusForTag ok db primaryTag =
     (if \<not> ok then Inl (ErrDB ''check consumed'')
      else if map_of (fakeid_consumed_slots db) primaryTag \<noteq> None then Inr SlotConsumed
      else Inr SlotFree)"

definition insertConsumed :: "db_out \<Rightarrow> int \<Rightarrow> pay_db \<Rightarrow> bytes \<Rightarrow> pay_db \<times> pay_error option" where
  "insertConsumed out dbnow db primaryTag =
     (let won = (map_of (fakeid_consumed_slots db) primaryTag = None);
          db' = (if won then db\<lparr>fakeid_consumed_slots := (primaryTag, dbnow) # fakeid_consumed_slots db\<rparr> else db)
      in exec_reply out db db' won ErrSlotAlreadyTaken ''insert consumed slot'')"

text \<open>The idempotent backfill: a conflict is not an error.\<close>

definition seedConsumed :: "db_out \<Rightarrow> pay_db \<Rightarrow> bytes \<Rightarrow> int \<Rightarrow> pay_db \<times> pay_error option" where
  "seedConsumed out db primaryTag consumedAt =
     (let db' = (if map_of (fakeid_consumed_slots db) primaryTag = None
                 then db\<lparr>fakeid_consumed_slots := (primaryTag, consumedAt) # fakeid_consumed_slots db\<rparr> else db)
      in case out of
           DbErrBefore \<Rightarrow> (db, Some (ErrDB ''seed consumed slot''))
         | DbErrAfter \<Rightarrow> (db', Some (ErrDB ''seed consumed slot''))
         | DbOk \<Rightarrow> (db', None))"

subsection \<open>Write-once tables\<close>

record spend_call =
  sc_out :: db_out
  sc_now :: int
  sc_hash :: bytes
  sc_tier :: string

record slot_call =
  lc_out :: db_out
  lc_now :: int
  lc_tag :: bytes

interpretation spent: write_once
    "\<lambda>db h. map_of (spent_tokens db) h"
    "\<lambda>c db. (let (db', err) = insertSpentToken (sc_out c) (sc_now c) db (sc_hash c) (sc_tier c) in (db', err = None))"
    sc_hash "\<lambda>_. True"
  by unfold_locales
    (auto simp: insertSpentToken_def exec_reply_def Let_def split: db_out.splits if_splits prod.splits)

interpretation slots: write_once
    "\<lambda>db h. map_of (fakeid_consumed_slots db) h"
    "\<lambda>c db. (let (db', err) = insertConsumed (lc_out c) (lc_now c) db (lc_tag c) in (db', err = None))"
    lc_tag "\<lambda>_. True"
  by unfold_locales
    (auto simp: insertConsumed_def exec_reply_def Let_def split: db_out.splits if_splits prod.splits)

subsection \<open>What each statement keeps\<close>

lemma insertSpentToken_frame [frame]:
  "fakeid_consumed_slots (fst (insertSpentToken o1 t db h tier)) = fakeid_consumed_slots db"
  "fakeid_mint_flags (fst (insertSpentToken o1 t db h tier)) = fakeid_mint_flags db"
  by (auto simp: insertSpentToken_def exec_reply_def Let_def split: db_out.splits)

lemma insertConsumed_frame [frame]:
  "spent_tokens (fst (insertConsumed o1 t db tag)) = spent_tokens db"
  "fakeid_mint_flags (fst (insertConsumed o1 t db tag)) = fakeid_mint_flags db"
  by (auto simp: insertConsumed_def exec_reply_def Let_def split: db_out.splits)

lemma insertSpentToken_ok:
  "insertSpentToken o1 t db h tier = (db', None) \<Longrightarrow>
     map_of (spent_tokens db) h = None \<and> map_of (spent_tokens db') h = Some (tier, t)"
  by (auto simp: insertSpentToken_def exec_reply_def Let_def split: db_out.splits if_splits)

lemma insertSpentToken_keeps:
  "map_of (spent_tokens db) h = Some v \<Longrightarrow> map_of (spent_tokens (fst (insertSpentToken o1 t db h' tier))) h = Some v"
  by (auto simp: insertSpentToken_def exec_reply_def Let_def split: db_out.splits)

lemma insertConsumed_ok:
  "insertConsumed o1 t db tag = (db', None) \<Longrightarrow>
     map_of (fakeid_consumed_slots db) tag = None \<and> map_of (fakeid_consumed_slots db') tag = Some t"
  by (auto simp: insertConsumed_def exec_reply_def Let_def split: db_out.splits if_splits)

lemma insertConsumed_keeps:
  "map_of (fakeid_consumed_slots db) g = Some v \<Longrightarrow>
     map_of (fakeid_consumed_slots (fst (insertConsumed o1 t db tag))) g = Some v"
  by (auto simp: insertConsumed_def exec_reply_def Let_def split: db_out.splits)

end
