(* ===== verification/Pay_Http.thy ===== *)
theory Pay_Http
  imports Pay_Service Pay_Store
begin

text \<open>
  The HTTP side of the payment enclave (\<open>cmd/payment/main.go\<close>, \<open>cmd/payment/fakeid_slots.go\<close>,
  \<open>internal/payment/fakeid_tags.go\<close>): the per-IP rate limiter, the API-key check, every handler
  as one function on the database state, and routing. HMAC, Ed25519, JSON, DER and PEM encoding
  and the SGX runtime are parameters.
\<close>

subsection \<open>Rate limiter\<close>

type_synonym rl_clients = "(string \<times> nat \<times> int) list"

definition maxRateLimitEntries :: nat where
  "maxRateLimitEntries = 10000"

definition ipRateLimiter_allow :: "nat \<Rightarrow> int \<Rightarrow> int \<Rightarrow> string \<Rightarrow> rl_clients \<Rightarrow> rl_clients \<times> bool" where
  "ipRateLimiter_allow rate window now ip clients =
     (case map_of clients ip of
        None \<Rightarrow>
          if length clients \<ge> maxRateLimitEntries then (clients, False)
          else (AList.update ip (1, now) clients, True)
      | Some (count, windowAt) \<Rightarrow>
          if now - windowAt \<ge> window then (AList.update ip (1, now) clients, True)
          else (AList.update ip (count + 1, windowAt) clients, count + 1 \<le> rate))"

definition ipRateLimiter_evictStale :: "int \<Rightarrow> int \<Rightarrow> rl_clients \<Rightarrow> rl_clients" where
  "ipRateLimiter_evictStale window now clients = filter (\<lambda>(ip, b). \<not> (now - snd b \<ge> window)) clients"

text \<open>\<open>SplitHostPort\<close> and \<open>ParseIP\<close> are parameters: the host if there is one, its canonical form.\<close>

definition extractIP :: "(string \<Rightarrow> string option) \<Rightarrow> (string \<Rightarrow> string option) \<Rightarrow> string \<Rightarrow> string" where
  "extractIP splitHost canonIP remoteAddr =
     (case splitHost remoteAddr of
        None \<Rightarrow> remoteAddr
      | Some host \<Rightarrow> (case canonIP host of Some ip \<Rightarrow> ip | None \<Rightarrow> host))"

subsection \<open>Requests and responses\<close>

record fakeidMintV2Request =
  m2_PrimaryID :: string
  m2_BlindedToken :: string

record verifyCredRequest =
  vc_Token :: string
  vc_Signature :: string
  vc_PrimaryTag :: string
  vc_TagAttestation :: string

record fakeIDMintRequest =
  fm_SubscriptionID :: string
  fm_BlindedToken :: string

record signRequest =
  sr_PaymentMethod :: string
  sr_PaymentProof :: string
  sr_BlindedToken :: string

record redeemRequest =
  rd_Token :: string
  rd_Signature :: string

record seedConsumedRequest =
  sd_PrimaryID :: string
  sd_ConsumedAt :: string

datatype pay_resp =
    PErr nat string
  | PSigned string
  | PSign string string
  | PMintV2 string string string
  | PRedeemed string
  | PState string
  | PKeys "(string \<times> bytes) list"
  | PAttest string
  | POk

text \<open>Code outside the repository, and the decoders of the request bodies.\<close>

record pay_platform =
  pp_sha256 :: "bytes \<Rightarrow> bytes"
  pp_hmac :: "bytes \<Rightarrow> bytes \<Rightarrow> bytes"
  pp_attSign :: "bytes \<Rightarrow> bytes"
  pp_attVerify :: "bytes \<Rightarrow> bytes \<Rightarrow> bool"
  pp_der :: "rsa_pub \<Rightarrow> bytes"
  pp_pem :: "bytes \<Rightarrow> bytes"
  pp_attest :: "bytes \<Rightarrow> bytes option"
  pp_parseTime :: "string \<Rightarrow> int option"
  decMintV2 :: "bytes \<Rightarrow> fakeidMintV2Request option"
  decVerify :: "bytes \<Rightarrow> verifyCredRequest option"
  decMint :: "bytes \<Rightarrow> fakeIDMintRequest option"
  decRatchet :: "bytes \<Rightarrow> string option"
  decSign :: "bytes \<Rightarrow> signRequest option"
  decRedeem :: "bytes \<Rightarrow> redeemRequest option"
  decSeed :: "bytes \<Rightarrow> seedConsumedRequest option"

record penv =
  pe_now :: int
  pe_dbnow :: int
  pe_query_ok :: bool
  pe_out1 :: db_out
  pe_out2 :: db_out
  pe_rand :: "int list"
  pe_submit :: submit_out

record deps =
  dp_svc :: PaymentService
  dp_tagKey :: bytes

subsection \<open>Tags\<close>

definition derivePrimaryTag :: "pay_platform \<Rightarrow> bytes \<Rightarrow> string \<Rightarrow> bytes" where
  "derivePrimaryTag P tagKey primaryID = pp_hmac P tagKey (str_bytes primaryID)"

definition signTagAttestation :: "pay_platform \<Rightarrow> bytes \<Rightarrow> bytes" where
  "signTagAttestation P primaryTag = pp_attSign P primaryTag"

definition verifyTagAttestation :: "pay_platform \<Rightarrow> bytes \<Rightarrow> bytes \<Rightarrow> bool" where
  "verifyTagAttestation P primaryTag sig = (if length sig \<noteq> 64 then False else pp_attVerify P primaryTag sig)"

text \<open>\<open>Int.Bytes\<close>: big-endian, without leading zeros.\<close>

fun bigBytes_nat :: "nat \<Rightarrow> bytes" where
  "bigBytes_nat n = (if n = 0 then [] else bigBytes_nat (n div 256) @ [word_of_nat (n mod 256)])"

declare bigBytes_nat.simps [simp del]

definition bigBytes :: "int \<Rightarrow> bytes" where
  "bigBytes i = bigBytes_nat (nat i)"

subsection \<open>Fake ID slot handlers\<close>

definition handleFakeIDMintV2 :: "pay_platform \<Rightarrow> deps \<Rightarrow> penv \<Rightarrow> bytes \<Rightarrow> pay_db \<Rightarrow> pay_db \<times> pay_resp" where
  "handleFakeIDMintV2 P dp env body db =
     (case decMintV2 P body of
        None \<Rightarrow> (db, PErr 400 ''invalid request body'')
      | Some req \<Rightarrow>
        if m2_PrimaryID req = [] then (db, PErr 400 ''primary_id is required'')
        else (case hexDecode (m2_BlindedToken req) of
           None \<Rightarrow> (db, PErr 400 ''invalid hex in blinded_token'')
         | Some blindedBytes \<Rightarrow>
           if blindedBytes = [] then (db, PErr 400 ''invalid hex in blinded_token'')
           else
             (let primaryTag = derivePrimaryTag P (dp_tagKey dp) (m2_PrimaryID req) in
              case statusForTag (pe_query_ok env) db primaryTag of
                Inl _ \<Rightarrow> (db, PErr 500 ''internal error'')
              | Inr SlotConsumed \<Rightarrow> (db, PErr 409 ''fakeid already exists for this primary'')
              | Inr SlotFree \<Rightarrow>
                  (case signForTier (dp_svc dp) (pe_submit env) (pe_rand env) TierFakeIDMint (setBytes blindedBytes) of
                     Inl _ \<Rightarrow> (db, PErr 500 ''signing failed'')
                   | Inr blindSig \<Rightarrow>
                       (db, PMintV2 (hexEncode (bigBytes blindSig)) (hexEncode primaryTag)
                              (hexEncode (signTagAttestation P primaryTag)))))))"

text \<open>
  The checks of \<open>handleFakeIDVerifyCredential\<close> before the first insert: an error response, or the
  token hash and the tag.
\<close>

definition verifyCred_check :: "pay_platform \<Rightarrow> deps \<Rightarrow> bytes \<Rightarrow> pay_resp + bytes \<times> bytes" where
  "verifyCred_check P dp body =
     (case decVerify P body of
        None \<Rightarrow> Inl (PErr 400 ''invalid request body'')
      | Some req \<Rightarrow>
        (case hexDecode (vc_Token req) of
           None \<Rightarrow> Inl (PErr 400 ''invalid hex in token'')
         | Some tokenBytes \<Rightarrow>
           if tokenBytes = [] then Inl (PErr 400 ''invalid hex in token'')
           else (case hexDecode (vc_Signature req) of
              None \<Rightarrow> Inl (PErr 400 ''invalid hex in signature'')
            | Some sigBytes \<Rightarrow>
              if sigBytes = [] then Inl (PErr 400 ''invalid hex in signature'')
              else (case hexDecode (vc_PrimaryTag req) of
                 None \<Rightarrow> Inl (PErr 400 ''invalid primary_tag'')
               | Some primaryTag \<Rightarrow>
                 if length primaryTag \<noteq> 32 then Inl (PErr 400 ''invalid primary_tag'')
                 else (case hexDecode (vc_TagAttestation req) of
                    None \<Rightarrow> Inl (PErr 400 ''invalid hex in tag_attestation'')
                  | Some attSig \<Rightarrow>
                    if attSig = [] then Inl (PErr 400 ''invalid hex in tag_attestation'')
                    else (case getPublicKey (dp_svc dp) TierFakeIDMint of
                       None \<Rightarrow> Inl (PErr 500 ''pubkey unavailable'')
                     | Some pub \<Rightarrow>
                       if \<not> verifySignature (pp_sha256 P) tokenBytes (Some (setBytes sigBytes)) pub
                       then Inl (PErr 401 ''invalid blind signature'')
                       else if \<not> verifyTagAttestation P primaryTag attSig
                       then Inl (PErr 401 ''invalid tag attestation'')
                       else Inr (digest32 (pp_sha256 P) tokenBytes, primaryTag)))))))"

definition handleFakeIDVerifyCredential ::
    "pay_platform \<Rightarrow> deps \<Rightarrow> penv \<Rightarrow> bytes \<Rightarrow> pay_db \<Rightarrow> pay_db \<times> pay_resp" where
  "handleFakeIDVerifyCredential P dp env body db =
     (case verifyCred_check P dp body of
        Inl rsp \<Rightarrow> (db, rsp)
      | Inr (tokenHash, primaryTag) \<Rightarrow>
        (case insertSpentToken (pe_out1 env) (pe_now env) db tokenHash TierFakeIDMint of
           (db1, Some ErrTokenAlreadySpent) \<Rightarrow> (db1, PErr 409 ''credential already used'')
         | (db1, Some _) \<Rightarrow> (db1, PErr 500 ''spent-token check failed'')
         | (db1, None) \<Rightarrow>
             (case insertConsumed (pe_out2 env) (pe_dbnow env) db1 primaryTag of
                (db2, Some ErrSlotAlreadyTaken) \<Rightarrow> (db2, PErr 409 ''primary already has a fakeid'')
              | (db2, Some _) \<Rightarrow> (db2, PErr 500 ''slot insert failed'')
              | (db2, None) \<Rightarrow> (db2, POk))))"

definition handleFakeIDSlotStatus :: "pay_platform \<Rightarrow> deps \<Rightarrow> penv \<Rightarrow> string \<Rightarrow> pay_db \<Rightarrow> pay_db \<times> pay_resp" where
  "handleFakeIDSlotStatus P dp env primaryID db =
     (if primaryID = [] then (db, PErr 400 ''primary_id query param required'')
      else (case statusForTag (pe_query_ok env) db (derivePrimaryTag P (dp_tagKey dp) primaryID) of
              Inl _ \<Rightarrow> (db, PErr 500 ''status query failed'')
            | Inr SlotConsumed \<Rightarrow> (db, PState ''consumed'')
            | Inr SlotFree \<Rightarrow> (db, PState ''free'')))"

definition handleFakeIDSeedConsumed :: "pay_platform \<Rightarrow> deps \<Rightarrow> penv \<Rightarrow> bytes \<Rightarrow> pay_db \<Rightarrow> pay_db \<times> pay_resp" where
  "handleFakeIDSeedConsumed P dp env body db =
     (case decSeed P body of
        None \<Rightarrow> (db, PErr 400 ''invalid request body'')
      | Some req \<Rightarrow>
        if sd_PrimaryID req = [] then (db, PErr 400 ''primary_id required'')
        else (let at = (if sd_ConsumedAt req = [] then Some (pe_now env) else pp_parseTime P (sd_ConsumedAt req)) in
          case at of
            None \<Rightarrow> (db, PErr 400 ''invalid consumed_at'')
          | Some consumedAt \<Rightarrow>
              (case seedConsumed (pe_out1 env) db (derivePrimaryTag P (dp_tagKey dp) (sd_PrimaryID req)) consumedAt of
                 (db', Some _) \<Rightarrow> (db', PErr 500 ''seed failed'')
               | (db', None) \<Rightarrow> (db', POk))))"

subsection \<open>Legacy handlers\<close>

definition handleFakeIDMint :: "pay_platform \<Rightarrow> deps \<Rightarrow> penv \<Rightarrow> bytes \<Rightarrow> pay_db \<Rightarrow> pay_db \<times> pay_resp" where
  "handleFakeIDMint P dp env body db =
     (case decMint P body of
        None \<Rightarrow> (db, PErr 400 ''invalid request body'')
      | Some req \<Rightarrow>
        if fm_SubscriptionID req = [] then (db, PErr 400 ''subscription_id is required'')
        else (case hexDecode (fm_BlindedToken req) of
           None \<Rightarrow> (db, PErr 400 ''invalid hex in blinded_token'')
         | Some blindedBytes \<Rightarrow>
           if blindedBytes = [] then (db, PErr 400 ''invalid hex in blinded_token'')
           else
             (case markFakeIDMinted (pe_out1 env) (pe_now env) (pe_dbnow env) db (fm_SubscriptionID req) of
                (db1, Some ErrFakeIDAlreadyMinted) \<Rightarrow> (db1, PErr 409 ''fakeid already minted for this subscription'')
              | (db1, Some _) \<Rightarrow> (db1, PErr 500 ''internal error'')
              | (db1, None) \<Rightarrow>
                  (case signForTier (dp_svc dp) (pe_submit env) (pe_rand env) TierFakeIDMint (setBytes blindedBytes) of
                     Inl _ \<Rightarrow> (db1, PErr 500 ''signing failed'')
                   | Inr blindSig \<Rightarrow> (db1, PSigned (hexEncode (bigBytes blindSig)))))))"

definition handleFakeIDRatchet :: "pay_platform \<Rightarrow> deps \<Rightarrow> penv \<Rightarrow> bytes \<Rightarrow> pay_db \<Rightarrow> pay_db \<times> pay_resp" where
  "handleFakeIDRatchet P dp env body db =
     (case decRatchet P body of
        None \<Rightarrow> (db, PErr 400 ''invalid request body'')
      | Some token \<Rightarrow>
        (case hexDecode token of
           None \<Rightarrow> (db, PErr 400 ''invalid hex in blinded_token'')
         | Some blindedBytes \<Rightarrow>
           if blindedBytes = [] then (db, PErr 400 ''invalid hex in blinded_token'')
           else (case signForTier (dp_svc dp) (pe_submit env) (pe_rand env) TierFakeIDRatchet (setBytes blindedBytes) of
                   Inl _ \<Rightarrow> (db, PErr 500 ''signing failed'')
                 | Inr blindSig \<Rightarrow> (db, PSigned (hexEncode (bigBytes blindSig))))))"

text \<open>The payment proof is passed on as it is, without base64 decoding.\<close>

definition handleSign :: "pay_platform \<Rightarrow> deps \<Rightarrow> penv \<Rightarrow> bytes \<Rightarrow> pay_db \<Rightarrow> pay_db \<times> pay_resp" where
  "handleSign P dp env body db =
     (case decSign P body of
        None \<Rightarrow> (db, PErr 400 ''invalid request body'')
      | Some req \<Rightarrow>
        (case hexDecode (sr_BlindedToken req) of
           None \<Rightarrow> (db, PErr 400 ''invalid hex in blinded_token'')
         | Some blindedBytes \<Rightarrow>
           (case processPayment (dp_svc dp) (pe_submit env) (pe_rand env) (sr_PaymentMethod req)
                   (str_bytes (sr_PaymentProof req)) (setBytes blindedBytes) of
              Inl _ \<Rightarrow> (db, PErr 402 ''payment verification failed'')
            | Inr (blindSig, tier) \<Rightarrow> (db, PSign (hexEncode (bigBytes blindSig)) tier))))"

definition redeem_check :: "pay_platform \<Rightarrow> deps \<Rightarrow> bytes \<Rightarrow> pay_resp + bytes \<times> string" where
  "redeem_check P dp body =
     (case decRedeem P body of
        None \<Rightarrow> Inl (PErr 400 ''invalid request body'')
      | Some req \<Rightarrow>
        (case hexDecode (rd_Token req) of
           None \<Rightarrow> Inl (PErr 400 ''invalid hex in token'')
         | Some tokenBytes \<Rightarrow>
           (case hexDecode (rd_Signature req) of
              None \<Rightarrow> Inl (PErr 400 ''invalid hex in signature'')
            | Some sigBytes \<Rightarrow>
              (case verifyForTier (pp_sha256 P) (dp_svc dp) tokenBytes (setBytes sigBytes) of
                 None \<Rightarrow> Inl (PErr 401 ''invalid signature'')
               | Some tier \<Rightarrow> Inr (digest32 (pp_sha256 P) tokenBytes, tier)))))"

definition handleRedeem :: "pay_platform \<Rightarrow> deps \<Rightarrow> penv \<Rightarrow> bytes \<Rightarrow> pay_db \<Rightarrow> pay_db \<times> pay_resp" where
  "handleRedeem P dp env body db =
     (case redeem_check P dp body of
        Inl rsp \<Rightarrow> (db, rsp)
      | Inr (tokenHash, tier) \<Rightarrow>
        (case insertSpentToken (pe_out1 env) (pe_now env) db tokenHash tier of
           (db1, Some ErrTokenAlreadySpent) \<Rightarrow> (db1, PErr 409 ''token already redeemed'')
         | (db1, Some _) \<Rightarrow> (db1, PErr 500 ''internal error'')
         | (db1, None) \<Rightarrow> (db1, PRedeemed tier)))"

definition handlePubKey :: "pay_platform \<Rightarrow> deps \<Rightarrow> pay_db \<Rightarrow> pay_db \<times> pay_resp" where
  "handlePubKey P dp db =
     (db, PKeys (concat (map (\<lambda>tier. case map_of (publicKeys (dp_svc dp)) tier of
                                        None \<Rightarrow> []
                                      | Some pk \<Rightarrow> [(tier, pp_pem P (pp_der P pk))]) Tiers)))"

definition handleAttestation :: "pay_platform \<Rightarrow> deps \<Rightarrow> pay_db \<Rightarrow> pay_db \<times> pay_resp" where
  "handleAttestation P dp db =
     (let raw = concat (map (\<lambda>tier. case getPublicKey (dp_svc dp) tier of
                                        None \<Rightarrow> []
                                      | Some pk \<Rightarrow> pp_der P pk) Tiers);
          userData = (if raw \<noteq> [] then digest32 (pp_sha256 P) raw else [])
      in case pp_attest P userData of
           None \<Rightarrow> (db, PErr 500 ''attestation failed'')
         | Some report \<Rightarrow> (db, PAttest (hexEncode report)))"

subsection \<open>Middleware and routing\<close>

record pay_req =
  pq_method :: string
  pq_path :: string
  pq_primary_id :: string
  pq_auth :: string
  pq_ip :: string
  pq_body :: bytes

record pay_state =
  ps_db :: pay_db
  ps_sign_rl :: rl_clients
  ps_redeem_rl :: rl_clients

definition requireAPIKey :: "string \<Rightarrow> string \<Rightarrow> (pay_db \<Rightarrow> pay_db \<times> pay_resp) \<Rightarrow> pay_db \<Rightarrow> pay_db \<times> pay_resp" where
  "requireAPIKey apiKey auth handler db =
     (if auth = [] \<or> auth \<noteq> ''Bearer '' @ apiKey then (db, PErr 401 ''unauthorized'') else handler db)"

text \<open>Without an API key (development) the handlers are mounted bare.\<close>

definition with_key :: "string \<Rightarrow> string \<Rightarrow> (pay_db \<Rightarrow> pay_db \<times> pay_resp) \<Rightarrow> pay_db \<Rightarrow> pay_db \<times> pay_resp" where
  "with_key apiKey auth handler = (if apiKey \<noteq> [] then requireAPIKey apiKey auth handler else handler)"

definition sign_limited :: "int \<Rightarrow> string \<Rightarrow> (pay_db \<Rightarrow> pay_db \<times> pay_resp) \<Rightarrow> pay_state \<Rightarrow> pay_state \<times> pay_resp" where
  "sign_limited now ip handler s =
     (let (rl, ok) = ipRateLimiter_allow 10 minute now ip (ps_sign_rl s); s1 = s\<lparr>ps_sign_rl := rl\<rparr> in
      if \<not> ok then (s1, PErr 429 ''rate limit exceeded'')
      else (let (db', rsp) = handler (ps_db s1) in (s1\<lparr>ps_db := db'\<rparr>, rsp)))"

definition redeem_limited :: "int \<Rightarrow> string \<Rightarrow> (pay_db \<Rightarrow> pay_db \<times> pay_resp) \<Rightarrow> pay_state \<Rightarrow> pay_state \<times> pay_resp" where
  "redeem_limited now ip handler s =
     (let (rl, ok) = ipRateLimiter_allow 30 minute now ip (ps_redeem_rl s); s1 = s\<lparr>ps_redeem_rl := rl\<rparr> in
      if \<not> ok then (s1, PErr 429 ''rate limit exceeded'')
      else (let (db', rsp) = handler (ps_db s1) in (s1\<lparr>ps_db := db'\<rparr>, rsp)))"

definition pay_serve :: "pay_platform \<Rightarrow> deps \<Rightarrow> string \<Rightarrow> penv \<Rightarrow> pay_req \<Rightarrow> pay_state \<Rightarrow> pay_state \<times> pay_resp" where
  "pay_serve P dp apiKey env rq s =
     (let ip = pq_ip rq; body = pq_body rq; now = pe_now env; route = (pq_method rq, pq_path rq);
          key = with_key apiKey (pq_auth rq)
      in if route = (''POST'', ''/payment/sign'') then sign_limited now ip (key (handleSign P dp env body)) s
         else if route = (''POST'', ''/payment/redeem'') then redeem_limited now ip (key (handleRedeem P dp env body)) s
         else if route = (''POST'', ''/payment/fakeid-mint'') then sign_limited now ip (key (handleFakeIDMint P dp env body)) s
         else if route = (''POST'', ''/payment/fakeid-ratchet'') then sign_limited now ip (key (handleFakeIDRatchet P dp env body)) s
         else if route = (''GET'', ''/payment/pubkey'') then (s, snd (handlePubKey P dp (ps_db s)))
         else if route = (''GET'', ''/payment/attestation'') then (s, snd (handleAttestation P dp (ps_db s)))
         else if route = (''POST'', ''/payment/fakeid/mint'') then sign_limited now ip (key (handleFakeIDMintV2 P dp env body)) s
         else if route = (''POST'', ''/payment/fakeid/verify-credential'')
         then sign_limited now ip (key (handleFakeIDVerifyCredential P dp env body)) s
         else if route = (''GET'', ''/payment/fakeid/slot-status'')
         then sign_limited now ip (key (handleFakeIDSlotStatus P dp env (pq_primary_id rq))) s
         else if route = (''POST'', ''/payment/fakeid/admin/seed-consumed'')
         then sign_limited now ip (key (handleFakeIDSeedConsumed P dp env body)) s
         else (s, PErr 404 ''404 page not found''))"

subsection \<open>Overlapping requests\<close>

text \<open>
  Requests that spend a token, as threads: the checks, then one database statement per step.
  Other statements of the enclave (other handlers, other rows) interleave freely.
\<close>

datatype spend_thread =
    VerifyStart bytes
  | RedeemStart bytes
  | VerifySpent bytes bytes
  | Answered "(bytes \<times> bytes option) option" pay_resp

fun spend_step :: "pay_platform \<Rightarrow> deps \<Rightarrow> penv \<Rightarrow> pay_db \<Rightarrow> spend_thread \<Rightarrow> pay_db \<times> spend_thread" where
  "spend_step P dp env db (VerifyStart body) =
     (case verifyCred_check P dp body of
        Inl rsp \<Rightarrow> (db, Answered None rsp)
      | Inr (h, tag) \<Rightarrow>
          (case insertSpentToken (pe_out1 env) (pe_now env) db h TierFakeIDMint of
             (db1, Some ErrTokenAlreadySpent) \<Rightarrow> (db1, Answered None (PErr 409 ''credential already used''))
           | (db1, Some _) \<Rightarrow> (db1, Answered None (PErr 500 ''spent-token check failed''))
           | (db1, None) \<Rightarrow> (db1, VerifySpent h tag)))"
| "spend_step P dp env db (VerifySpent h tag) =
     (case insertConsumed (pe_out2 env) (pe_dbnow env) db tag of
        (db2, Some ErrSlotAlreadyTaken) \<Rightarrow> (db2, Answered None (PErr 409 ''primary already has a fakeid''))
      | (db2, Some _) \<Rightarrow> (db2, Answered None (PErr 500 ''slot insert failed''))
      | (db2, None) \<Rightarrow> (db2, Answered (Some (h, Some tag)) POk))"
| "spend_step P dp env db (RedeemStart body) =
     (case redeem_check P dp body of
        Inl rsp \<Rightarrow> (db, Answered None rsp)
      | Inr (h, tier) \<Rightarrow>
          (case insertSpentToken (pe_out1 env) (pe_now env) db h tier of
             (db1, Some ErrTokenAlreadySpent) \<Rightarrow> (db1, Answered None (PErr 409 ''token already redeemed''))
           | (db1, Some _) \<Rightarrow> (db1, Answered None (PErr 500 ''internal error''))
           | (db1, None) \<Rightarrow> (db1, Answered (Some (h, None)) (PRedeemed tier))))"
| "spend_step P dp env db (Answered x rsp) = (db, Answered x rsp)"

text \<open>The rows the tables hold only grow: what every other statement guarantees.\<close>

definition db_grows :: "pay_db \<Rightarrow> pay_db \<Rightarrow> bool" where
  "db_grows db db' =
     ((\<forall>h v. map_of (spent_tokens db) h = Some v \<longrightarrow> map_of (spent_tokens db') h = Some v) \<and>
      (\<forall>g v. map_of (fakeid_consumed_slots db) g = Some v \<longrightarrow> map_of (fakeid_consumed_slots db') g = Some v))"

inductive spend_reach ::
    "pay_platform \<Rightarrow> deps \<Rightarrow> pay_db \<times> spend_thread list \<Rightarrow> pay_db \<times> spend_thread list \<Rightarrow> bool"
  for P dp where
  sp_refl: "spend_reach P dp s s"
| sp_thread:
    "spend_reach P dp s (db, ts) \<Longrightarrow> i < length ts \<Longrightarrow> spend_step P dp env db (ts ! i) = (db', t) \<Longrightarrow>
     spend_reach P dp s (db', ts[i := t])"
| sp_other: "spend_reach P dp s (db, ts) \<Longrightarrow> db_grows db db' \<Longrightarrow> spend_reach P dp s (db', ts)"

text \<open>The token hash a thread has spent, and the tag it has consumed.\<close>

fun th_hash :: "spend_thread \<Rightarrow> bytes option" where
  "th_hash (VerifySpent h tag) = Some h"
| "th_hash (Answered (Some (h, x)) rsp) = Some h"
| "th_hash _ = None"

fun th_tag :: "spend_thread \<Rightarrow> bytes option" where
  "th_tag (Answered (Some (h, x)) rsp) = x"
| "th_tag _ = None"

end
