(* ===== verification/Pay_Props.thy ===== *)
theory Pay_Props
  imports Pay_Http
begin

text \<open>
  Correctness of the payment enclave's HTTP side: the rate limiter meets the window contract,
  a token and a slot are granted once under every interleaving of requests, routes that need the
  API key do nothing without it, and the Fake ID credential protocol (mint, unblind, verify)
  succeeds end to end.
\<close>

subsection \<open>Encoding of big numbers\<close>

lemma setBytes_append: "setBytes (bs @ [b]) = setBytes bs * 256 + int (unat b)"
  by (simp add: setBytes_def)

lemma setBytes_bigBytes_nat: "setBytes (bigBytes_nat n) = int n"
proof (induction n rule: bigBytes_nat.induct)
  case (1 n)
  show ?case
  proof (cases "n = 0")
    case True
    then show ?thesis by (simp add: bigBytes_nat.simps setBytes_def)
  next
    case False
    then have "setBytes (bigBytes_nat n) = int (n div 256) * 256 + int (unat (word_of_nat (n mod 256) :: byte))"
      using 1 by (subst bigBytes_nat.simps) (simp add: setBytes_append)
    then show ?thesis by (simp only: unat_byte_of_nat mod_less_divisor zero_less_numeral)
       (metis div_mult_mod_eq of_nat_add of_nat_mult of_nat_numeral)
  qed
qed

lemma setBytes_bigBytes [simp]: "0 \<le> i \<Longrightarrow> setBytes (bigBytes i) = i"
  by (simp add: bigBytes_def setBytes_bigBytes_nat)

lemma bigBytes_nonempty: "0 < i \<Longrightarrow> bigBytes i \<noteq> []"
  by (subst bigBytes_def, subst bigBytes_nat.simps) simp

subsection \<open>Rate limiter\<close>

lemma ipRateLimiter_limiter:
  assumes "0 < window" "1 \<le> rate"
  shows "window_limiter window rate keys_distinct map_of
    (ipRateLimiter_allow rate window) (ipRateLimiter_evictStale window)"
proof
  fix t :: int and s :: rl_clients and k :: string
  assume "keys_distinct s"
  then show "map_of (ipRateLimiter_evictStale window t s) k = map_of s k \<or>
      map_of (ipRateLimiter_evictStale window t s) k = None \<and> (\<exists>c w. map_of s k = Some (c, w) \<and> window \<le> t - w)"
    by (auto simp: ipRateLimiter_evictStale_def map_of_filter_distinct split: option.splits)
qed (use assms in \<open>auto simp: ipRateLimiter_allow_def ipRateLimiter_evictStale_def
    simp del: map_of_eq_Some_iff split: option.splits\<close>)

interpretation sign_rl: window_limiter minute 10 keys_distinct map_of
    "ipRateLimiter_allow 10 minute" "ipRateLimiter_evictStale minute"
  by (rule ipRateLimiter_limiter) (auto simp: minute_def second_def)

interpretation redeem_rl: window_limiter minute 30 keys_distinct map_of
    "ipRateLimiter_allow 30 minute" "ipRateLimiter_evictStale minute"
  by (rule ipRateLimiter_limiter) (auto simp: minute_def second_def)

lemma length_update_le: "length (AList.update k v m) \<le> Suc (length m)"
  by (induction m) auto

lemma length_update_present: "map_of m k = Some x \<Longrightarrow> length (AList.update k v m) = length m"
  by (induction m) (auto split: if_splits)

lemma rl_step_size:
  "length s \<le> maxRateLimitEntries \<Longrightarrow>
     length (fst (limiter_step (ipRateLimiter_allow rate window) (ipRateLimiter_evictStale window) op s)) \<le> maxRateLimitEntries"
proof (cases op)
  case (Hit t k)
  assume "length s \<le> maxRateLimitEntries"
  then show ?thesis
    using Hit length_update_le [of k "(1, t)" s]
    by (auto simp: ipRateLimiter_allow_def length_update_present split: option.splits)
next
  case (Sweep t)
  assume "length s \<le> maxRateLimitEntries"
  then show ?thesis
    using Sweep le_trans [OF length_filter_le] by (simp add: ipRateLimiter_evictStale_def)
qed

lemma rl_run_size:
  "length s \<le> maxRateLimitEntries \<Longrightarrow>
     length (limiter_run (ipRateLimiter_allow rate window) (ipRateLimiter_evictStale window) ops s) \<le> maxRateLimitEntries"
  by (induction ops arbitrary: s) (auto intro: rl_step_size)

subsection \<open>Spending under interleaving\<close>

text \<open>What a request spends when its checks pass: the token's hash and, for a credential, the tag.\<close>

fun spend_request :: "pay_platform \<Rightarrow> deps \<Rightarrow> spend_thread \<Rightarrow> (bytes \<times> bytes option) option" where
  "spend_request P dp (VerifyStart body) =
     (case verifyCred_check P dp body of Inl _ \<Rightarrow> None | Inr (h, tag) \<Rightarrow> Some (h, Some tag))"
| "spend_request P dp (RedeemStart body) =
     (case redeem_check P dp body of Inl _ \<Rightarrow> None | Inr (h, tier) \<Rightarrow> Some (h, None))"
| "spend_request P dp _ = None"

fun is_start :: "spend_thread \<Rightarrow> bool" where
  "is_start (VerifyStart _) = True"
| "is_start (RedeemStart _) = True"
| "is_start _ = False"

fun resp_err :: "pay_resp \<Rightarrow> bool" where
  "resp_err (PErr _ _) = True"
| "resp_err _ = False"

text \<open>How a thread's state relates to the request it started from.\<close>

fun thread_of :: "pay_platform \<Rightarrow> deps \<Rightarrow> spend_thread \<Rightarrow> spend_thread \<Rightarrow> bool" where
  "thread_of P dp t0 (VerifySpent h tag) = (spend_request P dp t0 = Some (h, Some tag))"
| "thread_of P dp t0 (Answered (Some x) rsp) = (spend_request P dp t0 = Some x)"
| "thread_of P dp t0 (Answered None rsp) = resp_err rsp"
| "thread_of P dp t0 t = (t = t0)"

text \<open>A set of claims on the keys of a table: each claimed key is present, and claimed once.\<close>

definition claims_ok :: "('t \<Rightarrow> 'k option) \<Rightarrow> ('k \<Rightarrow> bool) \<Rightarrow> 't list \<Rightarrow> bool" where
  "claims_ok f present ts =
     (\<forall>i < length ts. \<forall>k. f (ts ! i) = Some k \<longrightarrow>
        present k \<and> (\<forall>j < length ts. f (ts ! j) = Some k \<longrightarrow> j = i))"

lemma claims_ok_step:
  assumes ok: "claims_ok f present ts" and mono: "\<And>k. present k \<Longrightarrow> present' k"
    and new: "f t = f (ts ! i) \<or> f t = None \<or> (\<exists>k. f t = Some k \<and> \<not> present k \<and> present' k)"
  shows "claims_ok f present' (ts[i := t])"
proof -
  let ?g = "\<lambda>j. f (ts[i := t] ! j)"
  have old: "present k" "\<And>j'. j' < length ts \<Longrightarrow> f (ts ! j') = Some k \<Longrightarrow> j' = j"
    if "j < length ts" "f (ts ! j) = Some k" for j k
    using ok that unfolding claims_ok_def by blast+
  have g: "?g j = (if j = i then f t else f (ts ! j))" if "j < length ts" for j using that by simp
  have "present' k \<and> (\<forall>j' < length ts. ?g j' = Some k \<longrightarrow> j' = j)"
    if j: "j < length ts" "?g j = Some k" for j k
  proof (cases "j = i \<and> f t \<noteq> f (ts ! i)")
    case True
    then have k: "\<not> present k" "present' k" using new j g by auto
    then show ?thesis using True old(1) g by (metis option.inject)
  next
    case False
    then have same: "f (ts ! j) = Some k" using j g by (auto split: if_splits)
    have "j' = j" if j': "j' < length ts" "?g j' = Some k" for j'
    proof (cases "f (ts ! j') = Some k")
      case True
      then show ?thesis using old(2) [OF j(1) same j'(1)] by simp
    next
      case False
      then have "j' = i" "f t = Some k" using j' g by (auto split: if_splits)
      then have "\<not> present k" using new False by auto
      then show ?thesis using old(1) [OF j(1) same] by simp
    qed
    then show ?thesis using old(1) [OF j(1) same] mono by blast
  qed
  then show ?thesis unfolding claims_ok_def by simp
qed

lemma redeem_check_err: "redeem_check P dp body = Inl rsp \<Longrightarrow> resp_err rsp"
  by (auto simp: redeem_check_def split: option.splits if_splits)

lemma verifyCred_check_err: "verifyCred_check P dp body = Inl rsp \<Longrightarrow> resp_err rsp"
  by (auto simp: verifyCred_check_def split: option.splits if_splits)

lemma spend_step_thread:
  assumes "thread_of P dp t0 t" "spend_step P dp env db t = (db', t')"
  shows "thread_of P dp t0 t'"
proof (cases t)
  case (VerifyStart body)
  then show ?thesis using assms verifyCred_check_err [of P dp body]
    by (cases "verifyCred_check P dp body") (auto split: prod.splits option.splits pay_error.splits)
next
  case (RedeemStart body)
  then show ?thesis using assms redeem_check_err [of P dp body]
    by (cases "redeem_check P dp body") (auto split: prod.splits option.splits pay_error.splits)
next
  case (VerifySpent h tag)
  then show ?thesis using assms by (auto split: prod.splits option.splits pay_error.splits)
next
  case (Answered x rsp)
  then show ?thesis using assms by simp
qed

lemma insertSpentToken_grows: "insertSpentToken o1 t db h tier = (db', e) \<Longrightarrow> db_grows db db'"
  using insertSpentToken_keeps [of db _ _ o1 t h tier] insertSpentToken_frame(1) [of o1 t db h tier]
  by (auto simp: db_grows_def)

lemma insertConsumed_grows: "insertConsumed o1 t db tag = (db', e) \<Longrightarrow> db_grows db db'"
  using insertConsumed_keeps [of db _ _ o1 t tag] insertConsumed_frame(1) [of o1 t db tag]
  by (auto simp: db_grows_def)

lemma db_grows_refl [simp]: "db_grows db db"
  by (simp add: db_grows_def)

lemma spend_step_grows: "spend_step P dp env db t = (db', t') \<Longrightarrow> db_grows db db'"
  by (cases t) (auto dest: insertSpentToken_grows insertConsumed_grows
      split: sum.splits prod.splits option.splits pay_error.splits)

lemma spend_step_hash:
  "spend_step P dp env db t = (db', t') \<Longrightarrow> th_hash t' = th_hash t \<or> th_hash t' = None \<or>
     (\<exists>h. th_hash t' = Some h \<and> map_of (spent_tokens db) h = None \<and> map_of (spent_tokens db') h \<noteq> None)"
  by (cases t) (auto dest: insertSpentToken_ok split: sum.splits prod.splits option.splits pay_error.splits)

lemma spend_step_tag:
  "spend_step P dp env db t = (db', t') \<Longrightarrow> th_tag t' = th_tag t \<or> th_tag t' = None \<or>
     (\<exists>g. th_tag t' = Some g \<and> map_of (fakeid_consumed_slots db) g = None \<and> map_of (fakeid_consumed_slots db') g \<noteq> None)"
  by (cases t) (auto dest: insertConsumed_ok split: sum.splits prod.splits option.splits pay_error.splits)

text \<open>The invariant of every reachable state.\<close>

definition spend_inv :: "pay_platform \<Rightarrow> deps \<Rightarrow> spend_thread list \<Rightarrow> pay_db \<times> spend_thread list \<Rightarrow> bool" where
  "spend_inv P dp starts = (\<lambda>(db, ts).
     list_all2 (thread_of P dp) starts ts
     \<and> claims_ok th_hash (\<lambda>h. map_of (spent_tokens db) h \<noteq> None) ts
     \<and> claims_ok th_tag (\<lambda>g. map_of (fakeid_consumed_slots db) g \<noteq> None) ts)"

lemma spend_inv_start: "list_all is_start ts \<Longrightarrow> spend_inv P dp ts (db, ts)"
proof -
  assume start: "list_all is_start ts"
  have "is_start t \<Longrightarrow> thread_of P dp t t \<and> th_hash t = None \<and> th_tag t = None" for t
    by (cases t) auto
  then show ?thesis using start
    by (auto simp: spend_inv_def claims_ok_def list_all2_conv_all_nth list_all_length)
qed

lemma db_growsD:
  assumes "db_grows db db'"
  shows "map_of (spent_tokens db) h \<noteq> None \<Longrightarrow> map_of (spent_tokens db') h \<noteq> None"
    and "map_of (fakeid_consumed_slots db) g \<noteq> None \<Longrightarrow> map_of (fakeid_consumed_slots db') g \<noteq> None"
  using assms unfolding db_grows_def by blast+

lemma claims_ok_mono: "claims_ok f p ts \<Longrightarrow> (\<And>k. p k \<Longrightarrow> q k) \<Longrightarrow> claims_ok f q ts"
  unfolding claims_ok_def by blast

lemma spend_reach_inv:
  "spend_reach P dp s0 s \<Longrightarrow> spend_inv P dp starts s0 \<Longrightarrow> spend_inv P dp starts s"
proof (induction rule: spend_reach.induct)
  case (sp_thread s db ts i env db' t)
  then have IH: "spend_inv P dp starts (db, ts)" by blast
  have grows: "db_grows db db'" by (rule spend_step_grows [OF sp_thread.hyps(3)])
  have "list_all2 (thread_of P dp) starts (ts[i := t])"
    using IH spend_step_thread [OF _ sp_thread.hyps(3)] sp_thread.hyps(2)
    by (auto simp: spend_inv_def list_all2_conv_all_nth nth_list_update)
  moreover have "claims_ok th_hash (\<lambda>h. map_of (spent_tokens db') h \<noteq> None) (ts[i := t])"
    by (rule claims_ok_step [where present = "\<lambda>h. map_of (spent_tokens db) h \<noteq> None"])
      (use IH db_growsD(1) [OF grows] spend_step_hash [OF sp_thread.hyps(3)] in \<open>auto simp: spend_inv_def\<close>)
  moreover have "claims_ok th_tag (\<lambda>g. map_of (fakeid_consumed_slots db') g \<noteq> None) (ts[i := t])"
    by (rule claims_ok_step [where present = "\<lambda>g. map_of (fakeid_consumed_slots db) g \<noteq> None"])
      (use IH db_growsD(2) [OF grows] spend_step_tag [OF sp_thread.hyps(3)] in \<open>auto simp: spend_inv_def\<close>)
  ultimately show ?case by (simp add: spend_inv_def)
next
  case (sp_other s db ts db')
  then show ?case using db_growsD [OF sp_other.hyps(2)]
    by (auto simp: spend_inv_def intro: claims_ok_mono)
qed auto

text \<open>Without interleaving, the steps of a thread are the handler.\<close>

lemma verify_thread_is_handler:
  "\<exists>x. (let (db1, t1) = spend_step P dp env db (VerifyStart body) in spend_step P dp env db1 t1)
     = (fst (handleFakeIDVerifyCredential P dp env body db), Answered x (snd (handleFakeIDVerifyCredential P dp env body db)))"
proof (cases "verifyCred_check P dp body")
  case (Inr p)
  obtain h tag where p: "p = (h, tag)" by fastforce
  obtain db1 e1 where s1: "insertSpentToken (pe_out1 env) (pe_now env) db h TierFakeIDMint = (db1, e1)" by fastforce
  obtain db2 e2 where s2: "insertConsumed (pe_out2 env) (pe_dbnow env) db1 tag = (db2, e2)" by fastforce
  show ?thesis
    by (cases e1; cases e2) (use Inr p s1 s2 in \<open>simp_all add: handleFakeIDVerifyCredential_def split: pay_error.split\<close>)
qed (simp add: handleFakeIDVerifyCredential_def)

lemma redeem_thread_is_handler:
  "\<exists>x. spend_step P dp env db (RedeemStart body)
     = (fst (handleRedeem P dp env body db), Answered x (snd (handleRedeem P dp env body db)))"
proof (cases "redeem_check P dp body")
  case (Inr p)
  obtain h tier where p: "p = (h, tier)" by fastforce
  obtain db1 e1 where s1: "insertSpentToken (pe_out1 env) (pe_now env) db h tier = (db1, e1)" by fastforce
  show ?thesis
    by (cases e1) (use Inr p s1 in \<open>simp_all add: handleRedeem_def split: pay_error.split\<close>)
qed (simp add: handleRedeem_def)

lemma answered_request:
  assumes "spend_inv P dp starts (db, ts)" "i < length ts" "ts ! i = Answered x rsp" "\<not> resp_err rsp"
  obtains h g where "spend_request P dp (starts ! i) = Some (h, g)" "th_hash (ts ! i) = Some h" "th_tag (ts ! i) = g"
proof -
  have th: "thread_of P dp (starts ! i) (ts ! i)"
    using assms(1,2) by (simp add: spend_inv_def list_all2_conv_all_nth)
  with assms(3,4) obtain h g where "x = Some (h, g)" by (cases x) auto
  then show ?thesis using that th assms(3) by simp
qed

subsection \<open>Routing\<close>

lemma if_caseE: "(if b then x else y) = z \<Longrightarrow> (b \<Longrightarrow> x = z \<Longrightarrow> Q) \<Longrightarrow> (y = z \<Longrightarrow> Q) \<Longrightarrow> Q"
  by (auto split: if_splits)

lemma with_key_denied:
  "apiKey \<noteq> [] \<Longrightarrow> auth \<noteq> ''Bearer '' @ apiKey \<Longrightarrow> with_key apiKey auth h db = (db, PErr 401 ''unauthorized'')"
  by (simp add: with_key_def requireAPIKey_def)

lemma sign_limited_denied:
  assumes "\<And>db. fst (h db) = db \<and> resp_err (snd (h db))" "sign_limited now ip h s = (s', rsp)"
  shows "ps_db s' = ps_db s \<and> resp_err rsp"
  using assms by (auto simp: sign_limited_def Let_def split: prod.splits if_splits) (metis fst_conv snd_conv)+

lemma redeem_limited_denied:
  assumes "\<And>db. fst (h db) = db \<and> resp_err (snd (h db))" "redeem_limited now ip h s = (s', rsp)"
  shows "ps_db s' = ps_db s \<and> resp_err rsp"
  using assms by (auto simp: redeem_limited_def Let_def split: prod.splits if_splits) (metis fst_conv snd_conv)+

lemma blindMessage_range:
  assumes "blindMessage sha msg pub rs = Inr (B, r)" "1 < rsaN pub"
  shows "0 < B \<and> B < rsaN pub"
proof -
  obtain m where m: "fdh sha msg (rsaN pub) = Inr m" "blind_loop m (rsaN pub) (rsaE pub) rs = Inr (B, r)"
    using assms(1) by (auto simp: blindMessage_def split: sum.splits)
  have r: "coprime r (rsaN pub)" and B: "B = m * bigExp r (rsaE pub) (rsaN pub) mod rsaN pub"
    using blind_loop_result [OF m(2)] by (auto simp: coprime_iff_gcd_eq_1)
  have "B = m * r ^ rsaE pub mod rsaN pub" using B by (simp add: bigExp_def mod_mult_right_eq)
  moreover have "\<not> rsaN pub dvd m * r ^ rsaE pub"
  proof
    assume "rsaN pub dvd m * r ^ rsaE pub"
    then have "rsaN pub dvd m"
      using r by (metis coprime_commute coprime_dvd_mult_left_iff coprime_power_left_iff)
    then show False using fdh_range [OF m(1)] assms(2) zdvd_not_zless by fastforce
  qed
  ultimately show ?thesis using assms(2) pos_mod_sign [of "rsaN pub" "m * r ^ rsaE pub"]
    pos_mod_bound [of "rsaN pub" "m * r ^ rsaE pub"] by (auto simp: dvd_eq_mod_eq_0 order_less_le)
qed

subsection \<open>The credential protocol\<close>

text \<open>What the handlers rely on of HMAC-SHA256 and Ed25519.\<close>

definition tags_sound :: "pay_platform \<Rightarrow> bool" where
  "tags_sound P = ((\<forall>k m. length (pp_hmac P k m) = 32) \<and> (\<forall>t. length (pp_attSign P t) = 64)
     \<and> (\<forall>t. pp_attVerify P t (pp_attSign P t)))"

lemma mint_handler_signs:
  assumes dec: "decMintV2 P body = Some \<lparr>m2_PrimaryID = pid, m2_BlindedToken = hexEncode (bigBytes B)\<rparr>" "pid \<noteq> []" "0 < B"
    and free: "pe_query_ok env" "map_of (fakeid_consumed_slots db) (derivePrimaryTag P (dp_tagKey dp) pid) = None"
    and signed: "signForTier (dp_svc dp) (pe_submit env) (pe_rand env) TierFakeIDMint B = Inr s"
  shows "handleFakeIDMintV2 P dp env body db =
    (db, PMintV2 (hexEncode (bigBytes s)) (hexEncode (derivePrimaryTag P (dp_tagKey dp) pid))
           (hexEncode (signTagAttestation P (derivePrimaryTag P (dp_tagKey dp) pid))))"
  using assms by (simp add: handleFakeIDMintV2_def bigBytes_nonempty statusForTag_def Let_def)

lemma verify_check_passes:
  assumes dec: "decVerify P body = Some \<lparr>vc_Token = hexEncode token, vc_Signature = hexEncode (bigBytes sig),
      vc_PrimaryTag = hexEncode tag, vc_TagAttestation = hexEncode (signTagAttestation P tag)\<rparr>"
    and "token \<noteq> []" "length tag = 32" "tags_sound P" "getPublicKey (dp_svc dp) TierFakeIDMint = Some pub"
    and sig: "verifySignature (pp_sha256 P) token (Some sig) pub"
  shows "verifyCred_check P dp body = Inr (digest32 (pp_sha256 P) token, tag)"
proof -
  have pos: "0 < sig" using sig by (auto simp: verifySignature_def split: if_splits)
  have len: "length (pp_attSign P tag) = 64" using assms(4) by (auto simp: tags_sound_def)
  then have "pp_attSign P tag \<noteq> []" by auto
  then show ?thesis using assms pos len
    by (simp add: verifyCred_check_def bigBytes_nonempty verifyTagAttestation_def signTagAttestation_def tags_sound_def)
qed

lemma verify_handler_grants:
  assumes "verifyCred_check P dp body = Inr (h, tag)" "pe_out1 env = DbOk" "pe_out2 env = DbOk"
    and "map_of (spent_tokens db) h = None" "map_of (fakeid_consumed_slots db) tag = None"
  shows "snd (handleFakeIDVerifyCredential P dp env body db) = POk \<and>
    map_of (fakeid_consumed_slots (fst (handleFakeIDVerifyCredential P dp env body db))) tag \<noteq> None"
  using assms by (simp add: handleFakeIDVerifyCredential_def insertSpentToken_def insertConsumed_def exec_reply_def Let_def)

subsection \<open>Properties\<close>

text \<open>
  C3: No double spending: run any number of credential and redeem requests as threads that
  interleave at every database statement, with failed statements, lost replies and other
  statements in between. Two requests that both get a success answer presented different tokens,
  two credentials that both succeed also different primary tags, and what they spent is on record.
\<close>

theorem no_double_spend:
  assumes reach: "spend_reach P dp (db0, starts) (db, ts)" and start: "list_all is_start starts"
    and ij: "i < length ts" "j < length ts" "i \<noteq> j"
    and okay: "ts ! i = Answered xi ri" "\<not> resp_err ri" "ts ! j = Answered xj rj" "\<not> resp_err rj"
  shows "\<exists>hi gi hj gj. spend_request P dp (starts ! i) = Some (hi, gi) \<and> spend_request P dp (starts ! j) = Some (hj, gj)
    \<and> hi \<noteq> hj \<and> (gi = None \<or> gi \<noteq> gj)
    \<and> map_of (spent_tokens db) hi \<noteq> None \<and> (gi = None \<or> map_of (fakeid_consumed_slots db) (the gi) \<noteq> None)"
proof -
  have inv: "spend_inv P dp starts (db, ts)" by (rule spend_reach_inv [OF reach spend_inv_start [OF start]])
  obtain hi gi where i: "spend_request P dp (starts ! i) = Some (hi, gi)" "th_hash (ts ! i) = Some hi" "th_tag (ts ! i) = gi"
    using answered_request [OF inv ij(1) okay(1,2)] .
  obtain hj gj where j: "spend_request P dp (starts ! j) = Some (hj, gj)" "th_hash (ts ! j) = Some hj" "th_tag (ts ! j) = gj"
    using answered_request [OF inv ij(2) okay(3,4)] .
  have "map_of (spent_tokens db) hi \<noteq> None \<and> hi \<noteq> hj"
    using inv i(2) j(2) ij unfolding spend_inv_def claims_ok_def by blast
  moreover have "gi = None \<or> (map_of (fakeid_consumed_slots db) (the gi) \<noteq> None \<and> gi \<noteq> gj)"
    using inv i(3) j(3) ij unfolding spend_inv_def claims_ok_def by (cases gi) fastforce+
  ultimately show ?thesis using i(1) j(1) by blast
qed

text \<open>
  C11: The Fake ID credential protocol works end to end: a client blinds a token under the mint
  key, \<open>fakeid/mint\<close> answers for a primary whose slot is free, the client unblinds the signature
  and sends it with the tag and attestation it received to \<open>fakeid/verify-credential\<close>, later and
  in any database where the token is unspent and the slot still free: the answer is 200 and the
  slot is consumed.
\<close>

theorem mint_then_verify:
  assumes svc: "dp_svc dp = newPaymentService keys procs"
    and key: "map_of keys TierFakeIDMint = Some key" "valid_key key" and tags: "tags_sound P"
    and bl: "blindMessage (pp_sha256 P) token (public_of key) rs = Inr (B, r)" "\<forall>x \<in> set rs. 0 \<le> x" "token \<noteq> []"
    and rnd: "first_nonzero (pe_rand env1) = Some r'" "0 \<le> r'" "gcd r' (rsaN key) = 1"
    and req1: "decMintV2 P body1 = Some \<lparr>m2_PrimaryID = pid, m2_BlindedToken = hexEncode (bigBytes B)\<rparr>" "pid \<noteq> []"
    and free1: "pe_query_ok env1" "map_of (fakeid_consumed_slots db1) (derivePrimaryTag P (dp_tagKey dp) pid) = None"
    and env2: "pe_out1 env2 = DbOk" "pe_out2 env2 = DbOk"
    and free2: "map_of (spent_tokens db2) (digest32 (pp_sha256 P) token) = None"
      "map_of (fakeid_consumed_slots db2) (derivePrimaryTag P (dp_tagKey dp) pid) = None"
  shows "\<exists>blindSig tag att sig.
    handleFakeIDMintV2 P dp env1 body1 db1 = (db1, PMintV2 (hexEncode blindSig) (hexEncode tag) (hexEncode att))
    \<and> unblindSignature (setBytes blindSig) r (public_of key) = Inr sig
    \<and> (\<forall>body2. decVerify P body2 = Some \<lparr>vc_Token = hexEncode token, vc_Signature = hexEncode (bigBytes sig),
              vc_PrimaryTag = hexEncode tag, vc_TagAttestation = hexEncode att\<rparr> \<longrightarrow>
         snd (handleFakeIDVerifyCredential P dp env2 body2 db2) = POk
         \<and> map_of (fakeid_consumed_slots (fst (handleFakeIDVerifyCredential P dp env2 body2 db2))) tag \<noteq> None)"
proof -
  let ?tag = "derivePrimaryTag P (dp_tagKey dp) pid"
  obtain s sig where s: "signBlinded B key (pe_rand env1) = Inr s" "unblindSignature s r (public_of key) = Inr sig"
    "verifySignature (pp_sha256 P) token (Some sig) (public_of key)"
    using blind_protocol_run [OF key(2) bl(1,2) rnd] by blast
  have n: "1 < rsaN key" by (rule valid_key_modulus [OF key(2)])
  have "0 < B" using blindMessage_range [OF bl(1)] n by simp
  moreover have "signForTier (dp_svc dp) (pe_submit env1) (pe_rand env1) TierFakeIDMint B = Inr s"
    using s(1) key(1) by (simp add: signForTier_def svc newPaymentService_def)
  ultimately have mint: "handleFakeIDMintV2 P dp env1 body1 db1 =
      (db1, PMintV2 (hexEncode (bigBytes s)) (hexEncode ?tag) (hexEncode (signTagAttestation P ?tag)))"
    by (rule mint_handler_signs [OF req1 _ free1])
  have "0 \<le> s" using signBlinded_sound [OF s(1)] n by simp
  then have unblind: "unblindSignature (setBytes (bigBytes s)) r (public_of key) = Inr sig" using s(2) by simp
  have pub: "getPublicKey (dp_svc dp) TierFakeIDMint = Some (public_of key)"
    using key(1) by (simp add: svc getPublicKey_def newPaymentService_def map_of_map_value)
  have "length ?tag = 32" using tags by (simp add: tags_sound_def derivePrimaryTag_def)
  then show ?thesis
    using mint unblind verify_handler_grants [OF verify_check_passes [OF _ bl(3) _ tags pub s(3)] env2 free2] by blast
qed

text \<open>
  With an API key configured, a request without the exact bearer token never reaches a
  handler: the database is unchanged, and the answer is an error unless it is one of the two
  public routes (public keys, attestation), which change nothing at all.
\<close>

theorem api_key_required:
  assumes key: "apiKey \<noteq> []" "pq_auth rq \<noteq> ''Bearer '' @ apiKey" and run: "pay_serve P dp apiKey env rq s = (s', rsp)"
  shows "ps_db s' = ps_db s \<and>
    (resp_err rsp \<or> (s' = s \<and> pq_method rq = ''GET'' \<and> pq_path rq \<in> {''/payment/pubkey'', ''/payment/attestation''}))"
proof -
  have "fst (with_key apiKey (pq_auth rq) h db) = db \<and> resp_err (snd (with_key apiKey (pq_auth rq) h db))" for h db
    using with_key_denied [OF key] by simp
  note denied = sign_limited_denied [OF this] redeem_limited_denied [OF this]
  show ?thesis
    using run unfolding pay_serve_def Let_def
    by (elim if_caseE) ((drule denied, simp only: simp_thms) | (simp only: prod.inject insert_iff simp_thms)
        | (elim conjE, hypsubst, simp only: resp_err.simps simp_thms))+
qed

text \<open>
  Rate limits: whatever the order of requests and sweeps in time, in a span of one minute an
  IP gets at most 20 requests through the signing limiter and 60 through the redeem limiter
  (twice the configured rate, since windows are fixed), and neither table exceeds 10000 entries.
\<close>

theorem pay_rate_limits:
  assumes "keys_distinct clients" "length clients \<le> maxRateLimitEntries" "times_from t ops"
  shows "limiter_granted (ipRateLimiter_allow 10 minute) (ipRateLimiter_evictStale minute) ip (t + minute) ops clients \<le> 20
    \<and> limiter_granted (ipRateLimiter_allow 30 minute) (ipRateLimiter_evictStale minute) ip (t + minute) ops clients \<le> 60
    \<and> length (limiter_run (ipRateLimiter_allow rate minute) (ipRateLimiter_evictStale minute) ops clients) \<le> maxRateLimitEntries"
  using sign_rl.granted_twice [OF assms(1,3), of "t + minute" ip] redeem_rl.granted_twice [OF assms(1,3), of "t + minute" ip]
    rl_run_size [OF assms(2), of rate minute ops] by simp

text \<open>
  A credential whose primary already has a Fake ID is refused with 409, but its token is
  spent all the same: the same credential is answered "already used" from then on.
\<close>

theorem slot_conflict_burns_token:
  assumes "verifyCred_check P dp body = Inr (h, tag)" "pe_out1 env = DbOk" "pe_out2 env = DbOk"
    and "map_of (spent_tokens db) h = None" "map_of (fakeid_consumed_slots db) tag \<noteq> None"
  shows "snd (handleFakeIDVerifyCredential P dp env body db) = PErr 409 ''primary already has a fakeid''
    \<and> map_of (spent_tokens (fst (handleFakeIDVerifyCredential P dp env body db))) h \<noteq> None
    \<and> snd (handleFakeIDVerifyCredential P dp env body (fst (handleFakeIDVerifyCredential P dp env body db)))
        = PErr 409 ''credential already used''"
  using assms by (auto simp: handleFakeIDVerifyCredential_def insertSpentToken_def insertConsumed_def exec_reply_def Let_def)

text \<open>
  The legacy mint gate is a 30-second cooldown, not a limit of one: a subscription whose flag
  was set gets 409 for the next 30 seconds by the database clock, whatever it sends, and a second
  signature after that.
\<close>

theorem legacy_mint_cooldown:
  assumes req: "decMint P body = Some req" "fm_SubscriptionID req = sid" "sid \<noteq> []"
      "hexDecode (fm_BlindedToken req) = Some blinded" "blinded \<noteq> []"
    and flag: "map_of (fakeid_mint_flags db) sid = Some minted" and out: "pe_out1 env = DbOk"
    and sign: "signForTier (dp_svc dp) (pe_submit env) (pe_rand env) TierFakeIDMint (setBytes blinded) = Inr s"
  shows "snd (handleFakeIDMint P dp env body db) =
    (if pe_dbnow env - minted \<le> 30 * second then PErr 409 ''fakeid already minted for this subscription''
     else PSigned (hexEncode (bigBytes s)))"
  using assms by (auto simp: handleFakeIDMint_def markFakeIDMinted_def exec_reply_def Let_def)

end
