(* ===== verification/Pay_Witness.thy ===== *)
theory Pay_Witness
  imports Pay_Props
begin

text \<open>
  Concrete runs of the payment enclave's model with a toy RSA key (55 = 5 * 11): the hypotheses of
  its properties can be met together.
\<close>

subsection \<open>A key, a service and a platform\<close>

lemma is_prime_test: "1 < p \<and> list_all (\<lambda>m. \<not> m dvd p) [2..<p] \<Longrightarrow> is_prime p"
  by (auto simp: is_prime_def list_all_iff) (metis Suc_1 Suc_lessI atLeastLessThan_iff dvd_imp_le le_eq_less_or_eq less_one nat_dvd_not_less not_gr0 dvd_0_left_iff less_Suc_eq_le not_less_eq_eq)

definition k5 :: rsa_priv where
  "k5 = \<lparr>rsaN = 55, rsaE = 3, rsaD = 27, prime0 = 5, prime1 = 11\<rparr>"

definition sha1s :: "bytes \<Rightarrow> bytes" where
  "sha1s b = 1 # replicate 30 0 @ [if b = [] then 0 else last b]"

lemma k5_valid: "valid_key k5"
proof -
  have "is_prime 5" "is_prime 11" by (rule is_prime_test, code_simp)+
  then show ?thesis by (simp add: valid_key_def k5_def)
qed

lemma k5_fdh: "fdh sha1s msg 55 = Inr 1"
proof -
  have len: "(bitLen 55 + 7) div 8 = 1" by (simp add: bitLen.simps)
  have "mgf1_loop sha1s seed 1 0 [] = digest32 sha1s (seed @ be32 0)" for seed
    by (subst mgf1_loop.simps, subst mgf1_loop.simps) simp
  then have "mgf1SHA256 sha1s seed 1 = [1]" for seed
    by (simp add: mgf1SHA256_def digest32_def sha1s_def)
  then show ?thesis using len by (simp add: fdh_def setBytes_def)
qed

lemma k5_blind: "blindMessage sha1s [1] (public_of k5) [2] = Inr (8, 2)"
  by (simp add: blindMessage_def k5_fdh k5_def public_of_def bigExp_def)

definition w_keys :: "(string \<times> rsa_priv) list" where
  "w_keys = [(TierFakeIDMint, k5)]"

definition w_svc :: PaymentService where
  "w_svc = newPaymentService w_keys [(''test'', test_VerifyPayment)]"

subsection \<open>Blind signatures\<close>

theorem blind_protocol_correct_witness:
  "\<exists>s sig. signBlinded 8 k5 [2] = Inr s \<and> unblindSignature s 2 (public_of k5) = Inr sig
    \<and> verifySignature sha1s [1] (Some sig) (public_of k5)"
  by (rule blind_protocol_correct [OF k5_valid k5_blind, where r' = 2]) (simp_all add: k5_def)

theorem sign_blinded_checked_witness:
  "signBlinded 8 k5 [2] = Inr 2 \<and> bigExp 2 (rsaE k5) (rsaN k5) = 8 \<and> isl (signBlinded 63 k5 [2])"
proof -
  have n: "0 < rsaN k5" by (simp add: k5_def)
  have s: "signBlinded 8 k5 [2] = Inr 2" by code_simp
  show ?thesis
    using sign_blinded_checked [OF n, of 8 "[2]" 2] sign_blinded_checked [OF n, of 63 "[2]"] s by (simp add: k5_def)
qed

theorem blinding_is_bijective_witness:
  "\<exists>!r. 0 \<le> r \<and> r < rsaN k5 \<and> 1 * bigExp r (rsaE k5) (rsaN k5) mod rsaN k5 = 8
    \<and> (gcd r (rsaN k5) = 1 \<longleftrightarrow> gcd 8 (rsaN k5) = 1)"
  by (rule blinding_is_bijective [OF k5_valid]) (simp_all add: k5_def)

subsection \<open>Batcher and service\<close>

definition w_job :: "nat \<Rightarrow> signJob" where
  "w_job i = \<lparr>job_id = i, blindedToken = 8, job_tier = TierFakeIDMint, job_cancelled = False, job_rand = [2]\<rparr>"

definition w_batcher :: SigningBatcher where
  "w_batcher = (newSigningBatcher w_keys (Some 1) None)\<lparr>sb_queue := [w_job 0, w_job 1]\<rparr>"

theorem batcher_fifo_witness:
  "map fst (snd (batch_run [Submit (w_job 2), Tick, Tick] w_batcher)) = [0, 1]
    \<and> snd (batch_run [Submit (w_job 2), Tick, Tick] w_batcher)
        @ map (\<lambda>j. (job_id j, job_result w_keys j)) (sb_queue (fst (batch_run [Submit (w_job 2), Tick, Tick] w_batcher)))
      = map (\<lambda>j. (job_id j, job_result w_keys j)) [w_job 0, w_job 1, w_job 2]"
proof -
  have acc: "sb_queue w_batcher @ accepted_jobs [Submit (w_job 2), Tick, Tick] w_batcher = [w_job 0, w_job 1, w_job 2]"
    and keys: "sb_keys w_batcher = w_keys"
    by (simp_all add: w_batcher_def newSigningBatcher_def)
  have "map fst (snd (batch_run [Submit (w_job 2), Tick, Tick] w_batcher)) = [0, 1]"
    by (simp add: w_batcher_def newSigningBatcher_def processBatch_eq w_job_def split_beta Let_def)
  then show ?thesis
    using batcher_fifo [of "[Submit (w_job 2), Tick, Tick]" w_batcher, OF surjective_pairing] unfolding acc keys by blast
qed

theorem batcher_answers_witness:
  "(1, job_result w_keys (w_job 1)) \<in> set (snd (batch_run (replicate 2 Tick) w_batcher))"
proof -
  have b: "sb_running w_batcher" "maxBatch w_batcher = 1" "sb_queue w_batcher = [w_job 0, w_job 1]" "sb_keys w_batcher = w_keys"
    by (simp_all add: w_batcher_def newSigningBatcher_def)
  show ?thesis using batcher_answers [of w_batcher 1] b by (simp add: w_job_def numeral_2_eq_2)
qed

theorem stop_leaves_jobs_witness:
  "sb_queue (fst (batch_run ([Stop, FinalDrain] @ replicate 5 Tick) w_batcher)) = [w_job 1]"
  using stop_leaves_jobs [of w_batcher 5] by (simp add: w_batcher_def newSigningBatcher_def)

definition w_procs :: "(string \<times> (bytes \<Rightarrow> string + string)) list" where
  "w_procs = [(''gift'', \<lambda>_. Inr TierFakeIDMint)]"

theorem process_payment_tier_witness:
  "processPayment (newPaymentService w_keys w_procs) SubProcessed [2] ''gift'' [] 8 = Inr (2, TierFakeIDMint)
    \<and> (\<exists>verify key. map_of w_procs ''gift'' = Some verify \<and> verify [] = Inr TierFakeIDMint
         \<and> map_of w_keys TierFakeIDMint = Some key \<and> bigExp 2 (rsaE key) (rsaN key) = 8)"
proof -
  have s: "signBlinded 8 k5 [2] = Inr 2" by code_simp
  have run: "processPayment (newPaymentService w_keys w_procs) SubProcessed [2] ''gift'' [] 8 = Inr (2, TierFakeIDMint)"
    using s by (simp add: processPayment_def newPaymentService_def w_procs_def w_keys_def)
  have "\<forall>(t, key) \<in> set (signingKeys (newPaymentService w_keys w_procs)). 0 < rsaN key"
    by (simp add: newPaymentService_def w_keys_def k5_def)
  from process_payment_tier [OF run this] run show ?thesis by (auto simp: newPaymentService_def)
qed

theorem issue_then_redeem_witness:
  "\<exists>s sig t pub. signForTier w_svc SubProcessed [2] TierFakeIDMint 8 = Inr s \<and> unblindSignature s 2 (public_of k5) = Inr sig
    \<and> verifyForTier sha1s w_svc [1] sig = Some t \<and> getPublicKey w_svc t = Some pub
    \<and> verifySignature sha1s [1] (Some sig) pub"
  by (rule issue_then_redeem [OF w_svc_def _ k5_valid _ k5_blind, where r' = 2])
    (simp_all add: w_keys_def k5_def Tiers_def)

subsection \<open>Handlers\<close>

definition w_tag :: bytes where
  "w_tag = replicate 32 7"

definition w_att :: bytes where
  "w_att = replicate 64 9"

definition w_redeem :: "bytes \<Rightarrow> redeemRequest" where
  "w_redeem token = \<lparr>rd_Token = hexEncode token, rd_Signature = hexEncode (bigBytes 1)\<rparr>"

definition w_pp :: pay_platform where
  "w_pp =
     \<lparr>pp_sha256 = sha1s, pp_hmac = (\<lambda>_ _. w_tag), pp_attSign = (\<lambda>_. w_att), pp_attVerify = (\<lambda>_ sig. sig = w_att),
      pp_der = (\<lambda>_. [1]), pp_pem = id, pp_attest = Some, pp_parseTime = (\<lambda>_. None),
      decMintV2 = (\<lambda>b. if b = [1] then Some \<lparr>m2_PrimaryID = ''p'', m2_BlindedToken = hexEncode (bigBytes 8)\<rparr> else None),
      decVerify = (\<lambda>b. if b = [2] then Some \<lparr>vc_Token = hexEncode [1], vc_Signature = hexEncode (bigBytes 1),
         vc_PrimaryTag = hexEncode w_tag, vc_TagAttestation = hexEncode w_att\<rparr> else None),
      decMint = (\<lambda>b. if b = [3] then Some \<lparr>fm_SubscriptionID = ''s'', fm_BlindedToken = hexEncode [8]\<rparr> else None),
      decRatchet = (\<lambda>_. None), decSign = (\<lambda>_. None),
      decRedeem = (\<lambda>b. if b = [5] then Some (w_redeem [2]) else None), decSeed = (\<lambda>_. None)\<rparr>"

definition w_dp :: deps where
  "w_dp = \<lparr>dp_svc = w_svc, dp_tagKey = [0]\<rparr>"

definition w_env :: penv where
  "w_env = \<lparr>pe_now = 100 * second, pe_dbnow = 100 * second, pe_query_ok = True, pe_out1 = DbOk, pe_out2 = DbOk,
            pe_rand = [2], pe_submit = SubProcessed\<rparr>"

definition w_db :: pay_db where
  "w_db = \<lparr>spent_tokens = [], fakeid_mint_flags = [(''s'', 0)], fakeid_consumed_slots = []\<rparr>"

lemma w_tags_sound: "tags_sound w_pp"
  by (simp add: tags_sound_def w_pp_def w_tag_def w_att_def)

lemma w_pub: "getPublicKey w_svc TierFakeIDMint = Some (public_of k5)"
  by (simp add: w_svc_def w_keys_def newPaymentService_def getPublicKey_def)

lemma w_sig: "verifySignature sha1s msg (Some 1) (public_of k5)"
  using k5_fdh by (simp add: verifySignature_def k5_def public_of_def bigExp_def)

lemma w_verify: "verifyCred_check w_pp w_dp [2] = Inr (digest32 sha1s [1], w_tag)"
proof -
  have P: "pp_sha256 w_pp = sha1s" "signTagAttestation w_pp w_tag = w_att"
    by (simp_all add: w_pp_def signTagAttestation_def)
  have "decVerify w_pp [2] = Some \<lparr>vc_Token = hexEncode [1], vc_Signature = hexEncode (bigBytes 1),
      vc_PrimaryTag = hexEncode w_tag, vc_TagAttestation = hexEncode (signTagAttestation w_pp w_tag)\<rparr>"
    using P by (simp only: w_pp_def pay_platform.select_convs if_True simp_thms)
  from verify_check_passes [OF this _ _ w_tags_sound _ w_sig [of "[1]", folded P(1)]]
  show ?thesis using P w_pub by (simp add: w_tag_def w_dp_def)
qed

lemma w_redeemed: "redeem_check w_pp w_dp [5] = Inr (digest32 sha1s [2], TierFakeIDMint)"
proof -
  have "decRedeem w_pp [5] = Some (w_redeem [2])" "pp_sha256 w_pp = sha1s" by (simp_all add: w_pp_def)
  moreover have "verifyForTier sha1s w_svc [2] 1 = Some TierFakeIDMint"
    using w_sig [of "[2]"]
    by (simp add: verifyForTier_def Tiers_def w_svc_def newPaymentService_def w_keys_def TierFakeIDMint_def)
  ultimately show ?thesis
    by (simp add: redeem_check_def w_redeem_def w_dp_def del: hexEncode.simps)
qed

definition w_db1 :: pay_db where
  "w_db1 = w_db\<lparr>spent_tokens := [(digest32 sha1s [1], TierFakeIDMint, 100 * second)]\<rparr>"

definition w_db2 :: pay_db where
  "w_db2 = w_db1\<lparr>spent_tokens := (digest32 sha1s [2], TierFakeIDMint, 100 * second) # spent_tokens w_db1\<rparr>"

definition w_db3 :: pay_db where
  "w_db3 = w_db2\<lparr>fakeid_consumed_slots := [(w_tag, 100 * second)]\<rparr>"

lemma w_hash_neq: "digest32 sha1s [1] \<noteq> digest32 sha1s [2]"
  by (simp add: digest32_def sha1s_def)

text \<open>A redeem between the two statements of a credential check.\<close>

lemma w_run:
  "spend_reach w_pp w_dp (w_db, [VerifyStart [2], RedeemStart [5]])
     (w_db3, [Answered (Some (digest32 sha1s [1], Some w_tag)) POk, Answered (Some (digest32 sha1s [2], None)) (PRedeemed TierFakeIDMint)])"
proof -
  have 1: "spend_step w_pp w_dp w_env w_db (VerifyStart [2]) = (w_db1, VerifySpent (digest32 sha1s [1]) w_tag)"
    by (simp add: w_verify insertSpentToken_def exec_reply_def w_env_def w_db_def w_db1_def)
  have 2: "spend_step w_pp w_dp w_env w_db1 (RedeemStart [5]) = (w_db2, Answered (Some (digest32 sha1s [2], None)) (PRedeemed TierFakeIDMint))"
    using w_hash_neq by (simp add: w_redeemed insertSpentToken_def exec_reply_def w_env_def w_db_def w_db1_def w_db2_def)
  have 3: "spend_step w_pp w_dp w_env w_db2 (VerifySpent (digest32 sha1s [1]) w_tag) = (w_db3, Answered (Some (digest32 sha1s [1], Some w_tag)) POk)"
    by (simp add: insertConsumed_def exec_reply_def w_env_def w_db_def w_db1_def w_db2_def w_db3_def)
  let ?s = "(w_db, [VerifyStart [2], RedeemStart [5]])"
  have "spend_reach w_pp w_dp ?s (w_db1, [VerifySpent (digest32 sha1s [1]) w_tag, RedeemStart [5]])"
    using sp_thread [OF sp_refl, of 0 "[VerifyStart [2], RedeemStart [5]]"] 1 by fastforce
  from sp_thread [OF this, of 1] 2
  have "spend_reach w_pp w_dp ?s (w_db2, [VerifySpent (digest32 sha1s [1]) w_tag, Answered (Some (digest32 sha1s [2], None)) (PRedeemed TierFakeIDMint)])"
    by fastforce
  from sp_thread [OF this, of 0] 3 show ?thesis by fastforce
qed

theorem no_double_spend_witness:
  "\<exists>hi gi hj gj. spend_request w_pp w_dp (VerifyStart [2]) = Some (hi, gi) \<and> spend_request w_pp w_dp (RedeemStart [5]) = Some (hj, gj)
    \<and> hi \<noteq> hj \<and> (gi = None \<or> gi \<noteq> gj)
    \<and> map_of (spent_tokens w_db3) hi \<noteq> None \<and> (gi = None \<or> map_of (fakeid_consumed_slots w_db3) (the gi) \<noteq> None)"
  using no_double_spend [OF w_run, of 0 1] by simp

theorem mint_then_verify_witness:
  "\<exists>blindSig tag att sig.
    handleFakeIDMintV2 w_pp w_dp w_env [1] w_db = (w_db, PMintV2 (hexEncode blindSig) (hexEncode tag) (hexEncode att))
    \<and> unblindSignature (setBytes blindSig) 2 (public_of k5) = Inr sig
    \<and> (decVerify w_pp [2] = Some \<lparr>vc_Token = hexEncode [1], vc_Signature = hexEncode (bigBytes sig),
              vc_PrimaryTag = hexEncode tag, vc_TagAttestation = hexEncode att\<rparr> \<longrightarrow>
         snd (handleFakeIDVerifyCredential w_pp w_dp w_env [2] w_db) = POk)"
proof -
  have P: "pp_sha256 w_pp = sha1s" by (simp add: w_pp_def)
  have bl: "blindMessage (pp_sha256 w_pp) [1] (public_of k5) [2] = Inr (8, 2)" using k5_blind P by simp
  have svc: "dp_svc w_dp = newPaymentService w_keys [(''test'', test_VerifyPayment)]" by (simp add: w_dp_def w_svc_def)
  have key: "map_of w_keys TierFakeIDMint = Some k5" by (simp add: w_keys_def)
  have req: "decMintV2 w_pp [1] = Some \<lparr>m2_PrimaryID = ''p'', m2_BlindedToken = hexEncode (bigBytes 8)\<rparr>"
    by (simp only: w_pp_def pay_platform.select_convs if_True simp_thms)
  have rnd: "first_nonzero (pe_rand w_env) = Some 2" "gcd 2 (rsaN k5) = 1" by (simp_all add: w_env_def k5_def)
  have env: "pe_query_ok w_env" "pe_out1 w_env = DbOk" "pe_out2 w_env = DbOk" by (simp_all add: w_env_def)
  have db: "map_of (spent_tokens w_db) h = None" "map_of (fakeid_consumed_slots w_db) g = None" for h g
    by (simp_all add: w_db_def)
  have "(\<forall>x\<in>set [2]. 0 \<le> (x::int))" "[1] \<noteq> ([] :: bytes)" "0 \<le> (2::int)" "''p'' \<noteq> []" by simp_all
  note mint_then_verify [OF svc key k5_valid w_tags_sound bl this(1,2) rnd(1) this(3) rnd(2) req this(4)
      env(1) db(2) env(2,3) db]
  then show ?thesis by blast
qed

definition w_state :: pay_state where
  "w_state = \<lparr>ps_db = w_db, ps_sign_rl = [], ps_redeem_rl = []\<rparr>"

definition w_req :: "string \<Rightarrow> pay_req" where
  "w_req auth = \<lparr>pq_method = ''POST'', pq_path = ''/payment/redeem'', pq_primary_id = [], pq_auth = auth, pq_ip = ''1'', pq_body = [5]\<rparr>"

theorem api_key_required_witness:
  "ps_db (fst (pay_serve w_pp w_dp ''k'' w_env (w_req ''Bearer x'') w_state)) = w_db
    \<and> resp_err (snd (pay_serve w_pp w_dp ''k'' w_env (w_req ''Bearer x'') w_state))"
  using api_key_required [of "''k''" "w_req ''Bearer x''" w_pp w_dp w_env w_state, OF _ _ surjective_pairing]
  by (simp add: w_req_def w_state_def)

definition w_hits :: "string limiter_op list" where
  "w_hits = [Hit 0 ''1'', Hit 1 ''1'', Sweep 2, Hit 3 ''2'']"

theorem pay_rate_limits_witness:
  "limiter_granted (ipRateLimiter_allow 10 minute) (ipRateLimiter_evictStale minute) ''1'' (0 + minute) w_hits [] = 2
    \<and> limiter_granted (ipRateLimiter_allow 10 minute) (ipRateLimiter_evictStale minute) ''1'' (0 + minute) w_hits [] \<le> 20
    \<and> length (limiter_run (ipRateLimiter_allow 1 minute) (ipRateLimiter_evictStale minute) w_hits []) \<le> maxRateLimitEntries"
  using pay_rate_limits [of "[]" 0 w_hits "''1''" 1]
  by (simp add: w_hits_def ipRateLimiter_allow_def ipRateLimiter_evictStale_def minute_def second_def maxRateLimitEntries_def)

theorem slot_conflict_burns_token_witness:
  "snd (handleFakeIDVerifyCredential w_pp w_dp w_env [2] (w_db\<lparr>fakeid_consumed_slots := [(w_tag, 0)]\<rparr>))
      = PErr 409 ''primary already has a fakeid''
    \<and> map_of (spent_tokens (fst (handleFakeIDVerifyCredential w_pp w_dp w_env [2]
        (w_db\<lparr>fakeid_consumed_slots := [(w_tag, 0)]\<rparr>)))) (digest32 sha1s [1]) \<noteq> None"
  using slot_conflict_burns_token [OF w_verify, of w_env "w_db\<lparr>fakeid_consumed_slots := [(w_tag, 0)]\<rparr>"]
  by (simp add: w_env_def w_db_def)

theorem legacy_mint_cooldown_witness:
  "snd (handleFakeIDMint w_pp w_dp w_env [3] w_db) = PSigned (hexEncode (bigBytes 2))
    \<and> snd (handleFakeIDMint w_pp w_dp (w_env\<lparr>pe_dbnow := 30 * second\<rparr>) [3] w_db)
        = PErr 409 ''fakeid already minted for this subscription''"
proof -
  have req: "decMint w_pp [3] = Some \<lparr>fm_SubscriptionID = ''s'', fm_BlindedToken = hexEncode [8]\<rparr>"
    by (simp add: w_pp_def)
  have "signBlinded 8 k5 [2] = Inr 2" by code_simp
  then have sign: "signForTier (dp_svc w_dp) (pe_submit env) (pe_rand env) TierFakeIDMint (setBytes [8]) = Inr 2"
    if "pe_rand env = [2]" for env
    using that by (simp add: signForTier_def w_dp_def w_svc_def newPaymentService_def w_keys_def setBytes_def)
  show ?thesis
    using legacy_mint_cooldown [OF req refl, of "[8]" w_db 0 w_env w_dp 2]
      legacy_mint_cooldown [OF req refl, of "[8]" w_db 0 "w_env\<lparr>pe_dbnow := 30 * second\<rparr>" w_dp 2]
      sign [of w_env] sign [of "w_env\<lparr>pe_dbnow := 30 * second\<rparr>"]
    by (simp add: w_env_def w_db_def second_def del: hexEncode.simps)
qed

end
