(* ===== verification/Snapshot.thy ===== *)
theory Snapshot
  imports Ks_Store
begin

text \<open>
  Snapshots of sealed state: \<open>internal/keystore/snapshot.go\<close> (a directory tree) and
  \<open>internal/payment/snapshot.go\<close> (a list of files). Packing, extracting, the local and the S3
  store, and snapshot names. Tar with gzip and JSON are parameters: an archive is written from a
  list of named bodies, and read as a stream of them that may break off with an error.
\<close>

subsection \<open>Types\<close>

record SnapshotMeta =
  sm_CreatedAt :: int
  sm_Label :: string
  sm_Files :: "string list"
  sm_Hash :: string
  sm_Bytes :: int

record packEntry =
  pk_rel :: string
  pk_bytes :: bytes

type_synonym tar_stream = "(string \<times> bytes option) list \<times> bool"

record snap_platform =
  sn_sha :: "bytes \<Rightarrow> bytes"
  sn_marshal :: "SnapshotMeta \<Rightarrow> bytes option"
  sn_unmarshal :: "bytes \<Rightarrow> SnapshotMeta option"
  sn_tar :: "(string \<times> bytes) list \<Rightarrow> bytes option"
  sn_untar :: "bytes \<Rightarrow> tar_stream option"

text \<open>
  The environment of a call: the clock, the random suffix, the walk and the reads that fail, and
  what happens when a file is extracted (a failed write may leave a truncated file).
\<close>

datatype ex_out = ExOk | ExMkdirErr | ExWriteErr "bytes option"

record snap_env =
  se_now :: int
  se_stamp :: string
  se_rand :: bytes
  se_walk_ok :: bool
  se_read_ok :: "string \<Rightarrow> bool"
  se_mkdir_ok :: bool
  se_wr :: wr_env

subsection \<open>Sorting\<close>

fun sift_left :: "nat \<Rightarrow> packEntry list \<Rightarrow> packEntry list" where
  "sift_left 0 es = es"
| "sift_left (Suc j) es =
     (if pk_rel (es ! j) > pk_rel (es ! Suc j) then sift_left j (es[Suc j := es ! j, j := es ! Suc j]) else es)"

definition sortPackEntries :: "packEntry list \<Rightarrow> packEntry list" where
  "sortPackEntries es = fold sift_left [1..<length es] es"

subsection \<open>Packing\<close>

text \<open>The walk visits the files below the directory; the sort that follows makes its order irrelevant.\<close>

fun walk_loop :: "(string \<Rightarrow> bool) \<Rightarrow> disk \<Rightarrow> string \<Rightarrow> string list \<Rightarrow> packEntry list \<Rightarrow> string + packEntry list" where
  "walk_loop rd d dir [] files = Inr files"
| "walk_loop rd d dir (p # ps) files =
     (if hasSuffix p ''.tmp'' then walk_loop rd d dir ps files
      else (case readFile d p of
              None \<Rightarrow> Inl ''read''
            | Some buf \<Rightarrow>
                if \<not> rd p then Inl ''read''
                else walk_loop rd d dir ps (files @ [\<lparr>pk_rel = drop (length dir + 1) p, pk_bytes = buf\<rparr>])))"

definition hash_input :: "snap_platform \<Rightarrow> packEntry list \<Rightarrow> bytes" where
  "hash_input P files = concat (map (\<lambda>f. str_bytes (pk_rel f) @ digest32 (sn_sha P) (pk_bytes f)) files)"

definition pack_meta :: "snap_platform \<Rightarrow> int \<Rightarrow> string \<Rightarrow> packEntry list \<Rightarrow> SnapshotMeta" where
  "pack_meta P now label files =
     \<lparr>sm_CreatedAt = now, sm_Label = label, sm_Files = map pk_rel files,
      sm_Hash = hexEncode (digest32 (sn_sha P) (hash_input P files)),
      sm_Bytes = sum_list (map (\<lambda>f. int (length (pk_bytes f))) files)\<rparr>"

text \<open>The meta entry comes first.\<close>

definition pack_entries ::
    "snap_platform \<Rightarrow> string \<Rightarrow> int \<Rightarrow> string \<Rightarrow> packEntry list \<Rightarrow> string + bytes \<times> SnapshotMeta" where
  "pack_entries P metaFile now label files =
     (let meta = pack_meta P now label files in
      case sn_marshal P meta of
        None \<Rightarrow> Inl ''marshal snapshot meta''
      | Some metaJSON \<Rightarrow>
          (case sn_tar P ((metaFile, metaJSON) # map (\<lambda>f. (pk_rel f, pk_bytes f)) files) of
             None \<Rightarrow> Inl ''write archive''
           | Some archive \<Rightarrow> Inr (archive, meta)))"

definition ksMetaFile :: string where
  "ksMetaFile = ''_keystore_snapshot.json''"

definition PackSealedDir :: "snap_platform \<Rightarrow> snap_env \<Rightarrow> disk \<Rightarrow> string \<Rightarrow> string \<Rightarrow> string + bytes \<times> SnapshotMeta" where
  "PackSealedDir P e d sealedDir label =
     (if \<not> se_walk_ok e then Inl ''walk''
      else (case walk_loop (se_read_ok e) d sealedDir (filter (\<lambda>p. hasPrefix p (sealedDir @ ''/'')) (map fst d)) [] of
              Inl err \<Rightarrow> Inl err
            | Inr files \<Rightarrow> pack_entries P ksMetaFile (se_now e) label (sortPackEntries files)))"

definition snapshotMetaFile :: string where
  "snapshotMetaFile = ''_payment_snapshot.json''"

fun split_slash :: "string \<Rightarrow> string list" where
  "split_slash [] = [[]]"
| "split_slash (c # cs) =
     (if c = CHR ''/'' then [] # split_slash cs
      else (case split_slash cs of [] \<Rightarrow> [[c]] | e # es \<Rightarrow> (c # e) # es))"

text \<open>\<open>filepath.Base\<close> of a path that does not end in a slash.\<close>

definition fileBase :: "string \<Rightarrow> string" where
  "fileBase p = last (split_slash p)"

text \<open>A missing file is skipped; any other read error is fatal.\<close>

fun read_loop :: "(string \<Rightarrow> bool) \<Rightarrow> disk \<Rightarrow> string list \<Rightarrow> packEntry list \<Rightarrow> string + packEntry list" where
  "read_loop rd d [] entries = Inr entries"
| "read_loop rd d (p # ps) entries =
     (case readFile d p of
        None \<Rightarrow> if rd p then read_loop rd d ps entries else Inl ''read''
      | Some buf \<Rightarrow>
          if \<not> rd p then Inl ''read''
          else read_loop rd d ps (entries @ [\<lparr>pk_rel = fileBase p, pk_bytes = buf\<rparr>]))"

text \<open>\<open>sort.Slice\<close> is not stable, so the sort is a parameter: some sorted permutation.\<close>

definition PackFiles ::
    "snap_platform \<Rightarrow> (packEntry list \<Rightarrow> packEntry list) \<Rightarrow> snap_env \<Rightarrow> disk \<Rightarrow> string list \<Rightarrow> string
       \<Rightarrow> string + bytes \<times> SnapshotMeta" where
  "PackFiles P sortSlice e d files label =
     (case read_loop (se_read_ok e) d files [] of
        Inl err \<Rightarrow> Inl err
      | Inr entries \<Rightarrow> pack_entries P snapshotMetaFile (se_now e) label (sortSlice entries))"

subsection \<open>Extracting\<close>

text \<open>\<open>filepath.Join\<close> of a clean directory: empty and \<open>.\<close> elements vanish.\<close>

definition name_elems :: "string \<Rightarrow> string list" where
  "name_elems nm = filter (\<lambda>x. x \<noteq> [] \<and> x \<noteq> ''.'') (split_slash nm)"

definition join_elems :: "string \<Rightarrow> string list \<Rightarrow> string" where
  "join_elems dir es = dir @ concat (map (\<lambda>x. CHR ''/'' # x) es)"

text \<open>One \<open>os.WriteFile\<close>, after \<open>MkdirAll\<close> where there is one; a name with no elements is the directory itself.\<close>

definition extract_file :: "ex_out \<Rightarrow> disk \<Rightarrow> string \<Rightarrow> string \<Rightarrow> bytes \<Rightarrow> disk \<times> string option" where
  "extract_file out d destDir nm buf =
     (let full = join_elems destDir (name_elems nm) in
      if name_elems nm = [] then (d, Some ''write'')
      else (case out of
              ExOk \<Rightarrow> (AList.update full buf d, None)
            | ExMkdirErr \<Rightarrow> (d, Some ''mkdir'')
            | ExWriteErr None \<Rightarrow> (d, Some ''write'')
            | ExWriteErr (Some part) \<Rightarrow> (AList.update full part d, Some ''write'')))"

fun extract_loop ::
    "snap_platform \<Rightarrow> (string \<Rightarrow> bool) \<Rightarrow> string \<Rightarrow> (string \<Rightarrow> ex_out) \<Rightarrow> string \<Rightarrow> tar_stream
       \<Rightarrow> disk \<Rightarrow> SnapshotMeta option \<Rightarrow> bytes \<Rightarrow> disk \<times> (string + SnapshotMeta option \<times> bytes)" where
  "extract_loop P unsafe metaFile xe destDir ([], eof) d meta h =
     (if eof then (d, Inr (meta, h)) else (d, Inl ''read tar entry''))"
| "extract_loop P unsafe metaFile xe destDir ((nm, body) # es, eof) d meta h =
     (if unsafe nm then (d, Inl ''rejecting unsafe path in archive'')
      else (case body of
        None \<Rightarrow> (d, Inl ''read tar body'')
      | Some buf \<Rightarrow>
          if nm = metaFile then
            (case sn_unmarshal P buf of
               None \<Rightarrow> (d, Inl ''parse snapshot meta'')
             | Some m \<Rightarrow> extract_loop P unsafe metaFile xe destDir (es, eof) d (Some m) h)
          else (case extract_file (xe nm) d destDir nm buf of
             (d1, Some err) \<Rightarrow> (d1, Inl err)
           | (d1, None) \<Rightarrow>
               extract_loop P unsafe metaFile xe destDir (es, eof) d1 meta
                 (h @ str_bytes nm @ digest32 (sn_sha P) buf))))"

definition extract_archive ::
    "snap_platform \<Rightarrow> (string \<Rightarrow> bool) \<Rightarrow> string \<Rightarrow> (string \<Rightarrow> ex_out) \<Rightarrow> disk \<Rightarrow> bytes \<Rightarrow> string \<Rightarrow> disk \<times> (string + SnapshotMeta)" where
  "extract_archive P unsafe metaFile xe d archive destDir =
     (case sn_untar P archive of
        None \<Rightarrow> (d, Inl ''open gzip'')
      | Some stream \<Rightarrow>
          (case extract_loop P unsafe metaFile xe destDir stream d None [] of
             (d', Inl err) \<Rightarrow> (d', Inl err)
           | (d', Inr (None, h)) \<Rightarrow> (d', Inl ''archive missing header'')
           | (d', Inr (Some meta, h)) \<Rightarrow>
               if hexEncode (digest32 (sn_sha P) h) \<noteq> sm_Hash meta then (d', Inl ''integrity mismatch'')
               else (d', Inr meta)))"

definition ks_unsafe :: "string \<Rightarrow> bool" where
  "ks_unsafe nm = (containsStr nm ''..'' \<or> hasPrefix nm ''/'')"

definition ExtractSealedDir :: "snap_platform \<Rightarrow> (string \<Rightarrow> ex_out) \<Rightarrow> disk \<Rightarrow> bytes \<Rightarrow> string \<Rightarrow> disk \<times> (string + SnapshotMeta)" where
  "ExtractSealedDir P xe d archive destDir = extract_archive P ks_unsafe ksMetaFile xe d archive destDir"

definition pay_unsafe :: "string \<Rightarrow> bool" where
  "pay_unsafe nm = (containsStr nm ''/'' \<or> containsStr nm ''..'')"

definition ExtractFiles :: "snap_platform \<Rightarrow> (string \<Rightarrow> ex_out) \<Rightarrow> disk \<Rightarrow> bytes \<Rightarrow> string \<Rightarrow> disk \<times> (string + SnapshotMeta)" where
  "ExtractFiles P xe d archive destDir = extract_archive P pay_unsafe snapshotMetaFile xe d archive destDir"

subsection \<open>Snapshot names\<close>

definition label_char :: "char \<Rightarrow> bool" where
  "label_char c = (is_lower c \<or> is_upper c \<or> is_digit c \<or> c = CHR ''-'' \<or> c = CHR ''_'')"

definition sanitizeLabel :: "string \<Rightarrow> string" where
  "sanitizeLabel label =
     (if label = [] then ''snap'' else map (\<lambda>c. if label_char c then c else CHR ''-'') label)"

definition ks_snapshotID :: "snap_env \<Rightarrow> string \<Rightarrow> string" where
  "ks_snapshotID e label = se_stamp e @ ''-'' @ sanitizeLabel label @ ''-'' @ hexEncode (se_rand e)"

definition pay_snapshotID :: "snap_env \<Rightarrow> string \<Rightarrow> string" where
  "pay_snapshotID e label =
     (let clean = map (\<lambda>c. if c = CHR '' '' then CHR ''_'' else c)
                    (map (\<lambda>c. if c = CHR ''/'' then CHR ''_'' else c) label)
      in se_stamp e @ ''-'' @ clean @ ''-'' @ hexEncode (se_rand e))"

subsection \<open>Local store\<close>

text \<open>\<open>WriteFile\<close> of the temporary file, then \<open>Rename\<close>: a failed write leaves the temporary file behind.\<close>

definition save_local :: "snap_env \<Rightarrow> disk \<Rightarrow> string \<Rightarrow> string \<Rightarrow> bytes \<Rightarrow> disk \<times> (string + string)" where
  "save_local e d dir sid archive =
     (let w = se_wr e; full = filepath_join dir (sid @ ''.tgz''); tmp = tmp_path full in
      if \<not> open_ok w then (d, Inl ''write snapshot'')
      else (case write_short w of
              Some n \<Rightarrow> (AList.update tmp (take n archive) d, Inl ''write snapshot'')
            | None \<Rightarrow>
                (let d1 = AList.update tmp archive d in
                 if \<not> close_ok w then (d1, Inl ''write snapshot'')
                 else if \<not> rename_ok w then (osRemove w d1 tmp, Inl ''rename snapshot'')
                 else (osRename d1 tmp full, Inr sid))))"

definition ks_local_Save :: "snap_platform \<Rightarrow> snap_env \<Rightarrow> disk \<Rightarrow> string \<Rightarrow> string \<Rightarrow> string \<Rightarrow> disk \<times> (string + string)" where
  "ks_local_Save P e d dir sealedDir label =
     (if \<not> se_mkdir_ok e then (d, Inl ''mkdir snapshot dir'')
      else (case PackSealedDir P e d sealedDir label of
              Inl err \<Rightarrow> (d, Inl err)
            | Inr (archive, meta) \<Rightarrow> save_local e d dir (ks_snapshotID e label) archive))"

definition pay_local_Save ::
    "snap_platform \<Rightarrow> (packEntry list \<Rightarrow> packEntry list) \<Rightarrow> snap_env \<Rightarrow> disk \<Rightarrow> string \<Rightarrow> string list \<Rightarrow> string
       \<Rightarrow> disk \<times> (string + string)" where
  "pay_local_Save P sortSlice e d dir files label =
     (if \<not> se_mkdir_ok e then (d, Inl ''mkdir snapshot dir'')
      else (case PackFiles P sortSlice e d files label of
              Inl err \<Rightarrow> (d, Inl err)
            | Inr (archive, meta) \<Rightarrow> save_local e d dir (pay_snapshotID e label) archive))"

subsection \<open>S3 store\<close>

text \<open>The bucket is a map from object keys; \<open>S3LostReply\<close> is a put that took effect but reported an error.\<close>

type_synonym bucket = "(string \<times> bytes) list"

datatype s3_out = S3Ok | S3Err | S3LostReply

definition NewS3Snapshotter :: "string \<Rightarrow> string \<Rightarrow> string \<Rightarrow> bool \<Rightarrow> string + string" where
  "NewS3Snapshotter endpoint bucketName prefix clientOk =
     (if endpoint = [] then Inl ''s3 endpoint is required''
      else if bucketName = [] then Inl ''s3 bucket is required''
      else if \<not> clientOk then Inl ''create minio client''
      else Inr (if prefix \<noteq> [] \<and> \<not> hasSuffix prefix ''/'' then prefix @ ''/'' else prefix))"

definition s3_key :: "string \<Rightarrow> string \<Rightarrow> string" where
  "s3_key prefix sid = prefix @ sid @ ''.tgz''"

definition s3_put :: "s3_out \<Rightarrow> bucket \<Rightarrow> string \<Rightarrow> string \<Rightarrow> bytes \<Rightarrow> bucket \<times> (string + string)" where
  "s3_put out b prefix sid archive =
     (case out of
        S3Ok \<Rightarrow> (AList.update (s3_key prefix sid) archive b, Inr sid)
      | S3Err \<Rightarrow> (b, Inl ''s3 put'')
      | S3LostReply \<Rightarrow> (AList.update (s3_key prefix sid) archive b, Inl ''s3 put''))"

definition ks_s3_Save :: "snap_platform \<Rightarrow> snap_env \<Rightarrow> s3_out \<Rightarrow> disk \<Rightarrow> bucket \<Rightarrow> string \<Rightarrow> string \<Rightarrow> string \<Rightarrow> bucket \<times> (string + string)" where
  "ks_s3_Save P e out d b prefix sealedDir label =
     (case PackSealedDir P e d sealedDir label of
        Inl err \<Rightarrow> (b, Inl err)
      | Inr (archive, meta) \<Rightarrow> s3_put out b prefix (ks_snapshotID e label) archive)"

definition pay_s3_Save ::
    "snap_platform \<Rightarrow> (packEntry list \<Rightarrow> packEntry list) \<Rightarrow> snap_env \<Rightarrow> s3_out \<Rightarrow> disk \<Rightarrow> bucket \<Rightarrow> string \<Rightarrow> string list \<Rightarrow> string
       \<Rightarrow> bucket \<times> (string + string)" where
  "pay_s3_Save P sortSlice e out d b prefix files label =
     (case PackFiles P sortSlice e d files label of
        Inl err \<Rightarrow> (b, Inl err)
      | Inr (archive, meta) \<Rightarrow> s3_put out b prefix (pay_snapshotID e label) archive)"

definition s3_Get :: "bool \<Rightarrow> bucket \<Rightarrow> string \<Rightarrow> string \<Rightarrow> string + bytes" where
  "s3_Get ok b prefix sid =
     (case map_of b (s3_key prefix sid) of
        None \<Rightarrow> Inl ''s3 read''
      | Some buf \<Rightarrow> if ok then Inr buf else Inl ''s3 read'')"

text \<open>A listing is a stream of keys that may break off with an error; S3 lists in byte order of the keys.\<close>

definition trimPrefix :: "string \<Rightarrow> string \<Rightarrow> string" where
  "trimPrefix s p = (if hasPrefix s p then drop (length p) s else s)"

definition trimSuffix :: "string \<Rightarrow> string \<Rightarrow> string" where
  "trimSuffix s p = (if hasSuffix s p then take (length s - length p) s else s)"

fun list_ids :: "string \<Rightarrow> (string option) list \<Rightarrow> string list \<Rightarrow> string + string list" where
  "list_ids prefix [] ids = Inr ids"
| "list_ids prefix (None # objs) ids = Inl ''s3 list''"
| "list_ids prefix (Some key # objs) ids =
     (let nm = trimSuffix (trimPrefix key prefix) ''.tgz'' in
      list_ids prefix objs (if nm \<noteq> [] then ids @ [nm] else ids))"

function swap_ends :: "nat \<Rightarrow> nat \<Rightarrow> 'a list \<Rightarrow> 'a list" where
  "swap_ends i j ids = (if i < j then swap_ends (i + 1) (j - 1) (ids[i := ids ! j, j := ids ! i]) else ids)"
  by pat_completeness auto
termination by (relation "measure (\<lambda>(i, j, ids). j - i)") auto

declare swap_ends.simps [simp del]

definition ks_s3_List :: "string \<Rightarrow> (string option) list \<Rightarrow> string + string list" where
  "ks_s3_List prefix objs =
     (case list_ids prefix objs [] of
        Inl err \<Rightarrow> Inl err
      | Inr ids \<Rightarrow> Inr (swap_ends 0 (length ids - 1) ids))"

definition pay_s3_List :: "string \<Rightarrow> (string option) list \<Rightarrow> string + string list" where
  "pay_s3_List prefix objs =
     (case list_ids prefix objs [] of
        Inl err \<Rightarrow> Inl err
      | Inr ids \<Rightarrow> Inr (rev (sort ids)))"

text \<open>The labels the daily loop saves under, after a number of ticks.\<close>

definition runDailySnapshotter :: "nat \<Rightarrow> string list" where
  "runDailySnapshotter ticks = ''startup'' # replicate ticks ''daily-cron''"

end
