(* ===== verification/Snap_Props.thy ===== *)
theory Snap_Props
  imports Snapshot "HOL-Library.Multiset"
begin

text \<open>
  Correctness of the snapshots: the hand-written sort, confinement of extraction, the round trip
  of a sealed directory through an archive, the two stores, and restored role keys.
\<close>

subsection \<open>The insertion sort\<close>

lemma sift_left_insert:
  "sorted (map pk_rel xs) \<Longrightarrow>
     \<exists>r. sift_left (length xs) (xs @ x # ys) = r @ ys \<and> sorted (map pk_rel r) \<and> mset r = mset (x # xs)"
proof (induction xs arbitrary: ys rule: rev_induct)
  case (snoc z zs)
  show ?case
  proof (cases "pk_rel z > pk_rel x")
    case True
    have swap: "sift_left (length (zs @ [z])) ((zs @ [z]) @ x # ys) = sift_left (length zs) (zs @ x # z # ys)"
      using True by (simp add: nth_append list_update_append)
    have zs: "sorted (map pk_rel zs)" and le: "\<forall>y \<in> set zs. pk_rel y \<le> pk_rel z"
      using snoc.prems by (auto simp: sorted_append)
    obtain r where r: "sift_left (length zs) (zs @ x # z # ys) = r @ z # ys" "sorted (map pk_rel r)" "mset r = mset (x # zs)"
      using snoc.IH [OF zs, of "z # ys"] by blast
    have "set r = set (x # zs)" using r(3) by (metis set_mset_mset)
    then have "\<forall>y \<in> set r. pk_rel y \<le> pk_rel z" using le True by auto
    then have "sorted (map pk_rel (r @ [z]))" using r(2) by (auto simp: sorted_append)
    moreover have "mset (r @ [z]) = mset (x # zs @ [z])" using r(3) by simp
    ultimately show ?thesis using r(1) swap by (metis append.assoc append_Cons append_Nil)
  next
    case False
    then have "sift_left (length (zs @ [z])) ((zs @ [z]) @ x # ys) = (zs @ [z]) @ x # ys"
      by (simp add: nth_append)
    moreover have "sorted (map pk_rel ((zs @ [z]) @ [x]))"
      using snoc.prems False by (fastforce simp: sorted_append)
    ultimately show ?thesis by (intro exI [of _ "(zs @ [z]) @ [x]"]) auto
  qed
qed simp

lemma sort_prefix:
  "n \<le> length es \<Longrightarrow> 0 < n \<Longrightarrow>
     \<exists>r. fold sift_left [1..<n] es = r @ drop n es \<and> sorted (map pk_rel r) \<and> mset r = mset (take n es) \<and> length r = n"
proof (induction n)
  case (Suc n)
  show ?case
  proof (cases "n = 0")
    case True
    then show ?thesis using Suc.prems by (intro exI [of _ "take 1 es"]) (cases es; simp)
  next
    case False
    then obtain r where r: "fold sift_left [1..<n] es = r @ drop n es" "sorted (map pk_rel r)" "mset r = mset (take n es)" "length r = n"
      using Suc by auto
    have split: "drop n es = es ! n # drop (Suc n) es" using Suc.prems by (simp add: Cons_nth_drop_Suc)
    obtain r' where r': "sift_left (length r) (r @ es ! n # drop (Suc n) es) = r' @ drop (Suc n) es"
      "sorted (map pk_rel r')" "mset r' = mset (es ! n # r)"
      using sift_left_insert [OF r(2)] by blast
    have "fold sift_left [1..<Suc n] es = r' @ drop (Suc n) es"
      using r(1,4) r'(1) split False by simp
    moreover have "mset r' = mset (take (Suc n) es)"
      using r'(3) r(3) Suc.prems by (simp add: take_Suc_conv_app_nth)
    moreover have "length r' = Suc n" using r'(3) r(4) by (metis length_Cons size_mset)
    ultimately show ?thesis using r'(2) by blast
  qed
qed simp

lemma sortPackEntries_props:
  "sorted (map pk_rel (sortPackEntries es)) \<and> mset (sortPackEntries es) = mset es"
proof (cases "es = []")
  case False
  then show ?thesis using sort_prefix [of "length es" es] by (auto simp: sortPackEntries_def)
qed (simp add: sortPackEntries_def)

lemma set_sortPackEntries [simp]: "set (sortPackEntries es) = set es"
  using sortPackEntries_props by (metis set_mset_mset)

subsection \<open>Paths\<close>

lemma split_slash_neq [simp]: "split_slash s \<noteq> []"
  by (induction s) (auto split: list.splits)

lemma concat_split_slash: "concat (map (\<lambda>x. CHR ''/'' # x) (split_slash s)) = CHR ''/'' # s"
proof (induction s)
  case (Cons c cs)
  then show ?case by (cases "split_slash cs") auto
qed simp

lemma split_slash_part: "x \<in> set (split_slash s) \<Longrightarrow> CHR ''/'' \<notin> set x \<and> (\<exists>a b. s = a @ x @ b)"
proof (induction s arbitrary: x)
  case (Cons c cs)
  obtain y ys where y: "split_slash cs = y # ys" by (cases "split_slash cs") auto
  show ?case
  proof (cases "c = CHR ''/'' \<or> x \<noteq> c # y")
    case True
    then have "x = [] \<or> x \<in> set (split_slash cs)" using Cons.prems y by (auto split: if_splits)
    then show ?thesis using Cons.IH [of x] by (metis append_Cons append_Nil empty_iff empty_set)
  next
    case False
    have hd: "hasPrefix cs y \<and> CHR ''/'' \<notin> set y" using y
    proof (induction cs arbitrary: y ys)
      case (Cons b bs)
      then show ?case by (cases "split_slash bs") (auto simp: hasPrefix_iff split: if_splits)
    qed (auto simp: hasPrefix_iff)
    then obtain t where "cs = y @ t" by (auto simp: hasPrefix_iff)
    then have "c # cs = [] @ x @ t" using False by simp
    then show ?thesis using hd False by (metis set_ConsD)
  qed
qed auto

lemma split_slash_single: "CHR ''/'' \<notin> set s \<Longrightarrow> split_slash s = [s]"
  by (induction s) auto

text \<open>A path strictly inside a directory, every element a proper name.\<close>

definition inside :: "string \<Rightarrow> string \<Rightarrow> bool" where
  "inside dir p = (\<exists>es. es \<noteq> [] \<and> p = join_elems dir es
     \<and> list_all (\<lambda>x. x \<noteq> [] \<and> x \<noteq> ''.'' \<and> x \<noteq> ''..'' \<and> CHR ''/'' \<notin> set x) es)"

lemma safe_name_inside:
  assumes "\<not> containsStr nm ''..''" "name_elems nm \<noteq> []"
  shows "inside dir (join_elems dir (name_elems nm))"
proof -
  have "list_all (\<lambda>x. x \<noteq> [] \<and> x \<noteq> ''.'' \<and> x \<noteq> ''..'' \<and> CHR ''/'' \<notin> set x) (name_elems nm)"
    using assms(1) split_slash_part [of _ nm] by (fastforce simp: name_elems_def list_all_iff containsStr_iff)
  then show ?thesis using assms(2) unfolding inside_def by blast
qed

text \<open>A clean relative path: what the walk of a directory yields.\<close>

definition clean_rel :: "string \<Rightarrow> bool" where
  "clean_rel nm = list_all (\<lambda>x. x \<noteq> [] \<and> x \<noteq> ''.'') (split_slash nm)"

lemma clean_rel_path:
  "clean_rel nm \<Longrightarrow> name_elems nm \<noteq> [] \<and> join_elems dir (name_elems nm) = dir @ ''/'' @ nm"
proof -
  assume "clean_rel nm"
  then have "name_elems nm = split_slash nm"
    by (simp add: clean_rel_def name_elems_def list_all_iff filter_id_conv)
  then show ?thesis by (simp add: join_elems_def concat_split_slash)
qed

subsection \<open>Extraction stays inside\<close>

lemma extract_file_other:
  assumes "\<not> containsStr nm ''..''" "\<not> inside dest p" "extract_file out d dest nm buf = (d', err)"
  shows "readFile d' p = readFile d p"
proof -
  have "p \<noteq> join_elems dest (name_elems nm)" if "name_elems nm \<noteq> []"
    using safe_name_inside [OF assms(1) that, of dest] assms(2) by blast
  then show ?thesis using assms(3)
    by (auto simp: extract_file_def Let_def readFile_def split: if_splits ex_out.splits option.splits)
qed

lemma extract_loop_other:
  assumes "\<forall>nm. containsStr nm ''..'' \<longrightarrow> unsafe nm" "\<not> inside dest p"
  shows "readFile (fst (extract_loop P unsafe mf xe dest (es, eof) d meta h)) p = readFile d p"
proof (induction es arbitrary: d meta h)
  case (Cons entry es)
  obtain nm body where entry: "entry = (nm, body)" by fastforce
  show ?case
  proof (cases body)
    case (Some buf)
    obtain d1 err where d1: "extract_file (xe nm) d dest nm buf = (d1, err)" by fastforce
    have "readFile d1 p = readFile d p" if "\<not> unsafe nm"
      using extract_file_other [OF _ assms(2) d1] assms(1) that by blast
    then show ?thesis using Cons.IH entry Some d1 by (auto split: option.splits)
  qed (simp add: entry)
qed simp

lemma extract_archive_other:
  assumes "\<forall>nm. containsStr nm ''..'' \<longrightarrow> unsafe nm" "\<not> inside dest p"
  shows "readFile (fst (extract_archive P unsafe mf xe d archive dest)) p = readFile d p"
proof (cases "sn_untar P archive")
  case (Some stream)
  obtain es eof where stream: "stream = (es, eof)" by fastforce
  obtain d' r where run: "extract_loop P unsafe mf xe dest (es, eof) d None [] = (d', r)" by fastforce
  then have "readFile d' p = readFile d p"
    using extract_loop_other [OF assms, where P = P and mf = mf and xe = xe and es = es and eof = eof and d = d
        and meta = None and h = "[]"] by simp
  then show ?thesis using Some stream run
    by (simp add: extract_archive_def split: sum.split prod.split option.split)
qed (simp add: extract_archive_def)

subsection \<open>Pack, then extract\<close>

text \<open>What packing relies on of tar, gzip and JSON.\<close>

definition utf8_meta :: "SnapshotMeta \<Rightarrow> bool" where
  "utf8_meta m = (valid_utf8 (sm_Label m) \<and> list_all valid_utf8 (sm_Files m) \<and> valid_utf8 (sm_Hash m))"

definition snap_laws :: "snap_platform \<Rightarrow> bool" where
  "snap_laws P =
     ((\<forall>m b. utf8_meta m \<and> sn_marshal P m = Some b \<longrightarrow> sn_unmarshal P b = Some m)
      \<and> (\<forall>es b. list_all (\<lambda>(nm, _). nm \<noteq> [] \<and> \<not> hasSuffix nm ''/'') es \<and> sn_tar P es = Some b \<longrightarrow>
            sn_untar P b = Some (map (\<lambda>(nm, body). (nm, Some body)) es, True)))"

definition restore_all :: "string \<Rightarrow> packEntry list \<Rightarrow> disk \<Rightarrow> disk" where
  "restore_all dest es d = foldl (\<lambda>d f. AList.update (dest @ ''/'' @ pk_rel f) (pk_bytes f) d) d es"

lemma extract_loop_entries:
  assumes "list_all (\<lambda>f. clean_rel (pk_rel f) \<and> \<not> unsafe (pk_rel f) \<and> pk_rel f \<noteq> mf \<and> xe (pk_rel f) = ExOk) es"
  shows "extract_loop P unsafe mf xe dest (map (\<lambda>f. (pk_rel f, Some (pk_bytes f))) es, True) d meta h
    = (restore_all dest es d, Inr (meta, h @ hash_input P es))"
  using assms
proof (induction es arbitrary: d h)
  case (Cons f es)
  then have "extract_file (xe (pk_rel f)) d dest (pk_rel f) (pk_bytes f)
      = (AList.update (dest @ ''/'' @ pk_rel f) (pk_bytes f) d, None)"
    using clean_rel_path [of "pk_rel f" dest] by (simp add: extract_file_def Let_def)
  then show ?case using Cons by (simp add: restore_all_def hash_input_def)
qed (simp add: restore_all_def hash_input_def)

lemma clean_rel_tar: "clean_rel nm \<Longrightarrow> nm \<noteq> [] \<and> \<not> hasSuffix nm ''/''"
proof -
  assume clean: "clean_rel nm"
  have "split_slash (a @ ''/'') = split_slash a @ [[]]" for a
    by (induction a) (auto split: list.splits)
  then have "\<not> hasSuffix nm ''/''" using clean by (auto simp: clean_rel_def list_all_iff hasSuffix_iff)
  then show ?thesis using clean by (auto simp: clean_rel_def)
qed

lemma pack_extract:
  assumes laws: "snap_laws P" and pack: "pack_entries P mf now label es = Inr (archive, meta)"
    and es: "list_all (\<lambda>f. clean_rel (pk_rel f) \<and> \<not> unsafe (pk_rel f) \<and> pk_rel f \<noteq> mf \<and> xe (pk_rel f) = ExOk
               \<and> valid_utf8 (pk_rel f)) es"
    and mf: "mf \<noteq> []" "\<not> hasSuffix mf ''/''" "\<not> unsafe mf" and label: "valid_utf8 label"
  shows "extract_archive P unsafe mf xe d archive dest = (restore_all dest es d, Inr meta)"
proof -
  have meta: "meta = pack_meta P now label es" and "utf8_meta meta"
    using pack es label by (auto simp: pack_entries_def Let_def pack_meta_def utf8_meta_def list_all_iff
        split: option.splits)
  obtain mj where mj: "sn_marshal P meta = Some mj"
    "sn_tar P ((mf, mj) # map (\<lambda>f. (pk_rel f, pk_bytes f)) es) = Some archive"
    using pack by (auto simp: pack_entries_def Let_def split: option.splits)
  have "sn_unmarshal P mj = Some meta" using laws mj(1) \<open>utf8_meta meta\<close> by (auto simp: snap_laws_def)
  moreover have "list_all (\<lambda>(nm, _). nm \<noteq> [] \<and> \<not> hasSuffix nm ''/'') ((mf, mj) # map (\<lambda>f. (pk_rel f, pk_bytes f)) es)"
    using es mf clean_rel_tar by (auto simp: list_all_iff)
  then have "sn_untar P archive = Some ((mf, Some mj) # map (\<lambda>f. (pk_rel f, Some (pk_bytes f))) es, True)"
    using laws mj(2) unfolding snap_laws_def by (fastforce simp: comp_def)
  moreover have "extract_loop P unsafe mf xe dest (map (\<lambda>f. (pk_rel f, Some (pk_bytes f))) es, True) d (Some meta) []
      = (restore_all dest es d, Inr (Some meta, [] @ hash_input P es))"
    by (rule extract_loop_entries) (use es in \<open>auto simp: list_all_iff\<close>)
  ultimately show ?thesis using mf(3) by (simp add: extract_archive_def meta pack_meta_def)
qed

lemma restore_all_read:
  "readFile (restore_all dest es d) p =
     (case map_of (map (\<lambda>f. (dest @ ''/'' @ pk_rel f, pk_bytes f)) (rev es)) p of
        Some c \<Rightarrow> Some c | None \<Rightarrow> readFile d p)"
  by (induction es arbitrary: d) (auto simp: restore_all_def readFile_def map_add_def split: option.splits)

subsection \<open>The walk of a directory\<close>

lemma walk_loop_result:
  "walk_loop rd d dir ps acc = Inr files \<Longrightarrow>
     files = acc @ map (\<lambda>p. \<lparr>pk_rel = drop (length dir + 1) p, pk_bytes = the (readFile d p)\<rparr>)
                    (filter (\<lambda>p. \<not> hasSuffix p ''.tmp'') ps)
     \<and> (\<forall>p \<in> set ps. \<not> hasSuffix p ''.tmp'' \<longrightarrow> readFile d p \<noteq> None)"
  by (induction rd d dir ps acc rule: walk_loop.induct) (auto split: if_splits option.splits)

text \<open>The names a sealed directory may hold.\<close>

definition sealed_name :: "string \<Rightarrow> bool" where
  "sealed_name nm = (clean_rel nm \<and> \<not> ks_unsafe nm \<and> nm \<noteq> ksMetaFile \<and> valid_utf8 nm)"

definition sealed_dir :: "disk \<Rightarrow> string \<Rightarrow> bool" where
  "sealed_dir d dir = (\<forall>p \<in> set (map fst d). hasPrefix p (dir @ ''/'') \<longrightarrow> sealed_name (drop (length dir + 1) p))"

lemma readFile_in: "readFile d p = Some c \<Longrightarrow> p \<in> set (map fst d)"
  by (auto simp: readFile_def dest: map_of_SomeD intro: rev_image_eqI)

lemma map_of_consistent:
  assumes "\<And>k v. (k, v) \<in> set m \<Longrightarrow> g k = Some v"
  shows "map_of m k = (if k \<in> fst ` set m then g k else None)"
proof (cases "map_of m k")
  case None
  then show ?thesis by (simp add: map_of_eq_None_iff)
next
  case (Some v)
  then have "(k, v) \<in> set m" by (rule map_of_SomeD)
  then show ?thesis using Some assms by force
qed

lemma walked_files:
  assumes walk: "walk_loop rd d dir (filter (\<lambda>p. hasPrefix p (dir @ ''/'')) (map fst d)) [] = Inr files"
  shows "f \<in> set files \<longleftrightarrow> readFile d (dir @ ''/'' @ pk_rel f) = Some (pk_bytes f)
    \<and> \<not> hasSuffix (dir @ ''/'' @ pk_rel f) ''.tmp''"
proof
  assume "f \<in> set files"
  then obtain p where p: "p \<in> set (map fst d)" "hasPrefix p (dir @ ''/'')" "\<not> hasSuffix p ''.tmp''"
    and f: "f = \<lparr>pk_rel = drop (length dir + 1) p, pk_bytes = the (readFile d p)\<rparr>" "readFile d p \<noteq> None"
    using walk_loop_result [OF walk] by auto
  obtain nm where "p = dir @ ''/'' @ nm" using p(2) by (auto simp: hasPrefix_iff)
  then show "readFile d (dir @ ''/'' @ pk_rel f) = Some (pk_bytes f) \<and> \<not> hasSuffix (dir @ ''/'' @ pk_rel f) ''.tmp''"
    using p f by auto
next
  assume a: "readFile d (dir @ ''/'' @ pk_rel f) = Some (pk_bytes f) \<and> \<not> hasSuffix (dir @ ''/'' @ pk_rel f) ''.tmp''"
  have "f = \<lparr>pk_rel = drop (length dir + 1) (dir @ ''/'' @ pk_rel f), pk_bytes = the (readFile d (dir @ ''/'' @ pk_rel f))\<rparr>"
    using a by simp
  moreover have "dir @ ''/'' @ pk_rel f \<in> set (filter (\<lambda>p. \<not> hasSuffix p ''.tmp'') (filter (\<lambda>p. hasPrefix p (dir @ ''/'')) (map fst d)))"
    using a readFile_in [of d "dir @ ''/'' @ pk_rel f" "pk_bytes f"] by (auto simp: hasPrefix_iff)
  ultimately have "f \<in> set (map (\<lambda>p. \<lparr>pk_rel = drop (length dir + 1) p, pk_bytes = the (readFile d p)\<rparr>)
      (filter (\<lambda>p. \<not> hasSuffix p ''.tmp'') (filter (\<lambda>p. hasPrefix p (dir @ ''/'')) (map fst d))))"
    unfolding set_map by (rule image_eqI)
  then show "f \<in> set files" using walk_loop_result [OF walk] by (simp only: append_Nil)
qed

text \<open>What the restored directory holds.\<close>

lemma restored_files:
  assumes walk: "walk_loop rd d dir (filter (\<lambda>p. hasPrefix p (dir @ ''/'')) (map fst d)) [] = Inr files"
    and es: "set es = set files"
  shows "readFile (restore_all dest es d2) (dest @ ''/'' @ nm) =
    (if hasSuffix (dir @ ''/'' @ nm) ''.tmp'' \<or> readFile d (dir @ ''/'' @ nm) = None
     then readFile d2 (dest @ ''/'' @ nm) else readFile d (dir @ ''/'' @ nm))"
    and "\<not> hasPrefix q (dest @ ''/'') \<Longrightarrow> readFile (restore_all dest es d2) q = readFile d2 q"
proof -
  let ?m = "map (\<lambda>f. (dest @ ''/'' @ pk_rel f, pk_bytes f)) (rev es)"
  have cons: "map_of ?m k = (if k \<in> fst ` set ?m then readFile d (dir @ drop (length dest) k) else None)" for k
    by (rule map_of_consistent) (use es walked_files [OF walk] in auto)
  have dom: "k \<in> fst ` set ?m \<longleftrightarrow> (\<exists>nm. k = dest @ ''/'' @ nm \<and>
      \<not> hasSuffix (dir @ ''/'' @ nm) ''.tmp'' \<and> readFile d (dir @ ''/'' @ nm) \<noteq> None)" for k
  proof
    assume "k \<in> fst ` set ?m"
    then obtain f where "f \<in> set files" "k = dest @ ''/'' @ pk_rel f" using es by auto
    then show "\<exists>nm. k = dest @ ''/'' @ nm \<and> \<not> hasSuffix (dir @ ''/'' @ nm) ''.tmp'' \<and> readFile d (dir @ ''/'' @ nm) \<noteq> None"
      using walked_files [OF walk, of f] by blast
  next
    assume "\<exists>nm. k = dest @ ''/'' @ nm \<and> \<not> hasSuffix (dir @ ''/'' @ nm) ''.tmp'' \<and> readFile d (dir @ ''/'' @ nm) \<noteq> None"
    then obtain nm c where k: "k = dest @ ''/'' @ nm" "\<not> hasSuffix (dir @ ''/'' @ nm) ''.tmp''" "readFile d (dir @ ''/'' @ nm) = Some c"
      by blast
    then have "\<lparr>pk_rel = nm, pk_bytes = c\<rparr> \<in> set es" using walked_files [OF walk, of "\<lparr>pk_rel = nm, pk_bytes = c\<rparr>"] es by simp
    then show "k \<in> fst ` set ?m" using k(1) by force
  qed
  show "readFile (restore_all dest es d2) (dest @ ''/'' @ nm) =
    (if hasSuffix (dir @ ''/'' @ nm) ''.tmp'' \<or> readFile d (dir @ ''/'' @ nm) = None
     then readFile d2 (dest @ ''/'' @ nm) else readFile d (dir @ ''/'' @ nm))"
    unfolding restore_all_read cons dom by auto
  show "readFile (restore_all dest es d2) q = readFile d2 q" if "\<not> hasPrefix q (dest @ ''/'')"
    using that unfolding restore_all_read cons dom by (auto simp: hasPrefix_iff)
qed

lemma ksMetaFile_ok: "ksMetaFile \<noteq> []" "\<not> hasSuffix ksMetaFile ''/''" "\<not> ks_unsafe ksMetaFile"
  by (simp_all add: ksMetaFile_def hasSuffix_def ks_unsafe_def hasPrefix_def)

lemma sealed_dir_roundtrip:
  assumes laws: "snap_laws P" and pack: "PackSealedDir P e d dir label = Inr (archive, meta)"
    and names: "sealed_dir d dir" and label: "valid_utf8 label" and xe: "\<forall>nm. xe nm = ExOk"
  obtains d' where "ExtractSealedDir P xe d2 archive dest = (d', Inr meta)"
    and "\<And>nm. readFile d' (dest @ ''/'' @ nm) =
      (if hasSuffix (dir @ ''/'' @ nm) ''.tmp'' \<or> readFile d (dir @ ''/'' @ nm) = None
       then readFile d2 (dest @ ''/'' @ nm) else readFile d (dir @ ''/'' @ nm))"
    and "\<And>q. \<not> hasPrefix q (dest @ ''/'') \<Longrightarrow> readFile d' q = readFile d2 q"
proof -
  obtain files where walk: "walk_loop (se_read_ok e) d dir (filter (\<lambda>p. hasPrefix p (dir @ ''/'')) (map fst d)) [] = Inr files"
    and ent: "pack_entries P ksMetaFile (se_now e) label (sortPackEntries files) = Inr (archive, meta)"
    using pack by (auto simp: PackSealedDir_def split: if_splits sum.splits)
  have "sealed_name (pk_rel f)" if "f \<in> set files" for f
    using names readFile_in [of d "dir @ ''/'' @ pk_rel f"] walked_files [OF walk, of f] that
    unfolding sealed_dir_def by (fastforce simp: hasPrefix_iff)
  then have "list_all (\<lambda>f. clean_rel (pk_rel f) \<and> \<not> ks_unsafe (pk_rel f) \<and> pk_rel f \<noteq> ksMetaFile \<and> xe (pk_rel f) = ExOk
      \<and> valid_utf8 (pk_rel f)) (sortPackEntries files)"
    using xe by (simp add: list_all_iff sealed_name_def)
  then have "ExtractSealedDir P xe d2 archive dest = (restore_all dest (sortPackEntries files) d2, Inr meta)"
    unfolding ExtractSealedDir_def by (rule pack_extract [where unsafe = ks_unsafe, OF laws ent _ ksMetaFile_ok label])
  then show ?thesis using that restored_files [OF walk, of "sortPackEntries files"] by simp
qed

lemma Get_relocated:
  assumes "readFile d' (keyStore_path KP dest role) = readFile d (keyStore_path KP dir role)"
    and "\<forall>p. io_read_ok io p"
  shows "keyStore_Get KP io dest d' role = keyStore_Get KP io dir d role"
  using assms by (simp add: keyStore_Get_def Let_def split: option.split)

subsection \<open>Listings\<close>

lemma swap_ends_mid:
  "swap_ends (length a) (length a + length m - 1) (a @ m @ b) = a @ rev m @ b"
proof (induction "length m" arbitrary: a m b rule: less_induct)
  case less
  show ?case
  proof (cases "length m \<le> 1")
    case True
    then show ?thesis by (subst swap_ends.simps) (cases m; auto)
  next
    case False
    obtain x n' where "m = x # n'" using False by (cases m) auto
    moreover obtain n y where "n' = n @ [y]" using False calculation by (cases n' rule: rev_cases) auto
    ultimately have m: "m = x # n @ [y]" by simp
    have "swap_ends (length a) (length a + length m - 1) (a @ m @ b)
        = swap_ends (length (a @ [y])) (length (a @ [y]) + length n - 1) ((a @ [y]) @ n @ (x # b))"
      by (subst swap_ends.simps) (simp add: m nth_append list_update_append)
    also have "\<dots> = (a @ [y]) @ rev n @ (x # b)" using less [of n "a @ [y]" "x # b"] m by simp
    finally show ?thesis using m by simp
  qed
qed

lemma swap_ends_rev: "swap_ends 0 (length ids - 1) ids = rev ids"
  using swap_ends_mid [of "[]" ids "[]"] by simp

lemma trim_s3_key: "trimSuffix (trimPrefix (s3_key prefix sid) prefix) ''.tgz'' = sid"
  by (simp add: s3_key_def trimPrefix_def trimSuffix_def hasPrefix_def hasSuffix_def)

lemma list_ids_eq:
  "list_ids prefix (map Some keys) acc =
     Inr (acc @ filter (\<lambda>nm. nm \<noteq> []) (map (\<lambda>key. trimSuffix (trimPrefix key prefix) ''.tgz'') keys))"
  by (induction keys arbitrary: acc) (auto simp: Let_def)

subsection \<open>Payment files\<close>

lemma read_loop_result:
  "read_loop rd d ps acc = Inr es \<Longrightarrow>
     es = acc @ map (\<lambda>p. \<lparr>pk_rel = fileBase p, pk_bytes = the (readFile d p)\<rparr>) (filter (\<lambda>p. readFile d p \<noteq> None) ps)"
  by (induction rd d ps acc rule: read_loop.induct) (auto split: if_splits option.splits)

lemma fileBase_no_slash: "CHR ''/'' \<notin> set (fileBase p)"
  using split_slash_part [of "last (split_slash p)" p] by (simp add: fileBase_def)

lemma contains_slash: "containsStr s ''/'' \<longleftrightarrow> CHR ''/'' \<in> set s"
  by (auto simp: containsStr_iff in_set_conv_decomp)

definition payment_name :: "string \<Rightarrow> bool" where
  "payment_name nm = (nm \<noteq> [] \<and> nm \<noteq> ''.'' \<and> \<not> containsStr nm ''..'' \<and> nm \<noteq> snapshotMetaFile \<and> valid_utf8 nm)"

lemma payment_name_clean:
  "payment_name (fileBase p) \<Longrightarrow> clean_rel (fileBase p) \<and> \<not> pay_unsafe (fileBase p)"
  using fileBase_no_slash [of p]
  by (simp add: payment_name_def clean_rel_def split_slash_single pay_unsafe_def contains_slash)

lemma snapshotMetaFile_ok: "snapshotMetaFile \<noteq> []" "\<not> hasSuffix snapshotMetaFile ''/''" "\<not> pay_unsafe snapshotMetaFile"
  by (simp_all add: snapshotMetaFile_def hasSuffix_def pay_unsafe_def hasPrefix_def)

definition sort_law :: "(packEntry list \<Rightarrow> packEntry list) \<Rightarrow> bool" where
  "sort_law srt = (\<forall>es. mset (srt es) = mset es \<and> sorted (map pk_rel (srt es)))"

lemma payment_roundtrip:
  assumes laws: "snap_laws P" "sort_law srt" and pack: "PackFiles P srt e d files label = Inr (archive, meta)"
    and names: "list_all (\<lambda>p. payment_name (fileBase p)) files" and label: "valid_utf8 label" and xe: "\<forall>nm. xe nm = ExOk"
  obtains es where "ExtractFiles P xe d2 archive dest = (restore_all dest es d2, Inr meta)"
    and "set es = (\<lambda>p. \<lparr>pk_rel = fileBase p, pk_bytes = the (readFile d p)\<rparr>) ` {p \<in> set files. readFile d p \<noteq> None}"
proof -
  obtain entries where rd: "read_loop (se_read_ok e) d files [] = Inr entries"
    and ent: "pack_entries P snapshotMetaFile (se_now e) label (srt entries) = Inr (archive, meta)"
    using pack by (auto simp: PackFiles_def split: sum.splits)
  have es: "set (srt entries) = (\<lambda>p. \<lparr>pk_rel = fileBase p, pk_bytes = the (readFile d p)\<rparr>) ` {p \<in> set files. readFile d p \<noteq> None}"
    using laws(2) read_loop_result [OF rd] unfolding sort_law_def by (metis append_Nil set_filter set_map set_mset_mset)
  have "list_all (\<lambda>f. clean_rel (pk_rel f) \<and> \<not> pay_unsafe (pk_rel f) \<and> pk_rel f \<noteq> snapshotMetaFile \<and> xe (pk_rel f) = ExOk
      \<and> valid_utf8 (pk_rel f)) (srt entries)"
    using names xe payment_name_clean unfolding list_all_iff es by (auto simp: payment_name_def)
  then have "ExtractFiles P xe d2 archive dest = (restore_all dest (srt entries) d2, Inr meta)"
    unfolding ExtractFiles_def by (rule pack_extract [where unsafe = pay_unsafe, OF laws(1) ent _ snapshotMetaFile_ok label])
  then show ?thesis using that es by blast
qed

lemma payment_restored:
  assumes es: "set es = (\<lambda>p. \<lparr>pk_rel = fileBase p, pk_bytes = the (readFile d p)\<rparr>) ` {p \<in> set files. readFile d p \<noteq> None}"
    and inj: "inj_on fileBase (set files)" and p: "p \<in> set files" "readFile d p = Some c"
  shows "readFile (restore_all dest es d2) (dest @ ''/'' @ fileBase p) = Some c"
proof -
  let ?m = "map (\<lambda>f. (dest @ ''/'' @ pk_rel f, pk_bytes f)) (rev es)"
  have mem: "(dest @ ''/'' @ fileBase p, c) \<in> set ?m" using es p by force
  have same: "v = c" if v: "(dest @ ''/'' @ fileBase p, v) \<in> set ?m" for v
  proof -
    obtain f where f: "f \<in> set es" "pk_rel f = fileBase p" "v = pk_bytes f" using v by auto
    obtain q where q: "q \<in> set files" "fileBase q = fileBase p" "v = the (readFile d q)"
      using f unfolding es by auto
    then have "q = p" using inj p(1) by (auto dest: inj_onD)
    then show ?thesis using q p by simp
  qed
  obtain v where v: "map_of ?m (dest @ ''/'' @ fileBase p) = Some v" using mem weak_map_of_SomeI by fastforce
  then have "v = c" using same map_of_SomeD by fastforce
  then show ?thesis using v by (simp add: restore_all_read)
qed

subsection \<open>Properties\<close>

text \<open>
  C36: Extraction is confined: whatever bytes are given as an archive, whatever the parser makes of
  them and wherever it fails, both restore functions change no file outside the destination
  directory; every path they write is a chain of proper names below it.
\<close>

theorem extract_confined:
  assumes "\<not> inside dest p"
  shows "readFile (fst (ExtractSealedDir P xe d archive dest)) p = readFile d p
    \<and> readFile (fst (ExtractFiles P xe d archive dest)) p = readFile d p"
  using extract_archive_other [OF _ assms, of ks_unsafe] extract_archive_other [OF _ assms, of pay_unsafe]
  by (simp add: ExtractSealedDir_def ExtractFiles_def ks_unsafe_def pay_unsafe_def)

text \<open>
  Restore of the keystore: packing a sealed directory and extracting the archive into a fresh
  directory succeeds, passes the integrity check and returns the packed meta; the new directory
  holds exactly the files of the old one without temporary files, nothing else on the disk
  changes, and every role's key reads as before.
\<close>

theorem keystore_restore:
  assumes laws: "snap_laws P" and pack: "PackSealedDir P e d dir label = Inr (archive, meta)"
    and names: "sealed_dir d dir" and label: "valid_utf8 label" and xe: "\<forall>nm. xe nm = ExOk"
    and fresh: "\<forall>nm. readFile d2 (dest @ ''/'' @ nm) = None" and io: "\<forall>p. io_read_ok io p"
  shows "\<exists>d'. ExtractSealedDir P xe d2 archive dest = (d', Inr meta)
    \<and> (\<forall>nm. readFile d' (dest @ ''/'' @ nm) =
             (if hasSuffix (dir @ ''/'' @ nm) ''.tmp'' then None else readFile d (dir @ ''/'' @ nm)))
    \<and> (\<forall>q. hasPrefix q (dest @ ''/'') \<or> readFile d' q = readFile d2 q)
    \<and> (\<forall>role. keyStore_Get KP io dest d' role = keyStore_Get KP io dir d role)"
proof -
  obtain d' where d': "ExtractSealedDir P xe d2 archive dest = (d', Inr meta)"
    "\<And>nm. readFile d' (dest @ ''/'' @ nm) =
      (if hasSuffix (dir @ ''/'' @ nm) ''.tmp'' \<or> readFile d (dir @ ''/'' @ nm) = None
       then readFile d2 (dest @ ''/'' @ nm) else readFile d (dir @ ''/'' @ nm))"
    "\<And>q. \<not> hasPrefix q (dest @ ''/'') \<Longrightarrow> readFile d' q = readFile d2 q"
    using sealed_dir_roundtrip [OF laws pack names label xe, where ?d2.0 = d2 and dest = dest] by blast
  have files: "readFile d' (dest @ ''/'' @ nm) =
      (if hasSuffix (dir @ ''/'' @ nm) ''.tmp'' then None else readFile d (dir @ ''/'' @ nm))" for nm
    using d'(2) [of nm] fresh by auto
  have "\<not> hasSuffix (dir @ ''/'' @ hexEncode h @ ''.bin'') ''.tmp''" for h
    by (simp add: hasSuffix_def)
  then have "readFile d' (keyStore_path KP dest role) = readFile d (keyStore_path KP dir role)" for role
    using files by (simp add: keyStore_path_def role_file_def filepath_join_def)
  then show ?thesis using d'(1,3) files Get_relocated [OF _ io] by blast
qed

text \<open>
  Restore of the payment keys: for files with distinct and proper base names, packing and
  extracting succeeds whatever order the sort gives equal names, and every file that existed is
  restored under its base name with its contents.
\<close>

theorem payment_restore:
  assumes laws: "snap_laws P" "sort_law srt" and pack: "PackFiles P srt e d files label = Inr (archive, meta)"
    and names: "list_all (\<lambda>p. payment_name (fileBase p)) files" "inj_on fileBase (set files)"
    and label: "valid_utf8 label" and xe: "\<forall>nm. xe nm = ExOk"
  shows "\<exists>d'. ExtractFiles P xe d2 archive dest = (d', Inr meta)
    \<and> (\<forall>p \<in> set files. \<forall>c. readFile d p = Some c \<longrightarrow> readFile d' (dest @ ''/'' @ fileBase p) = Some c)"
proof -
  obtain es where es: "ExtractFiles P xe d2 archive dest = (restore_all dest es d2, Inr meta)"
    "set es = (\<lambda>p. \<lparr>pk_rel = fileBase p, pk_bytes = the (readFile d p)\<rparr>) ` {p \<in> set files. readFile d p \<noteq> None}"
    using payment_roundtrip [OF laws pack names(1) label xe, where ?d2.0 = d2 and dest = dest] by blast
  then show ?thesis using payment_restored [OF es(2) names(2)] by blast
qed

text \<open>
  The hand-written insertion sort of the archive entries returns a sorted permutation of them.
\<close>

theorem sort_pack_entries_correct:
  "sorted (map pk_rel (sortPackEntries es)) \<and> mset (sortPackEntries es) = mset es"
  by (rule sortPackEntries_props)

text \<open>
  The S3 store: after a successful save of the keystore, \<open>Get\<close> of the returned identifier gives
  the archive that was packed, objects under other keys are untouched, and \<open>List\<close> of the bucket,
  which reverses the listing, has the identifier.
\<close>

theorem s3_save_get_list:
  assumes save: "ks_s3_Save P e out d b prefix dir label = (b', Inr sid)"
    and listing: "\<forall>key \<in> set keys. hasPrefix key prefix" "\<forall>key. hasPrefix key prefix \<and> map_of b' key \<noteq> None \<longrightarrow> key \<in> set keys"
  shows "\<exists>archive meta ids. PackSealedDir P e d dir label = Inr (archive, meta) \<and> s3_Get True b' prefix sid = Inr archive
    \<and> (\<forall>k. k \<noteq> s3_key prefix sid \<longrightarrow> map_of b' k = map_of b k)
    \<and> ks_s3_List prefix (map Some keys) = Inr ids \<and> sid \<in> set ids
    \<and> rev ids = filter (\<lambda>nm. nm \<noteq> []) (map (\<lambda>key. trimSuffix (trimPrefix key prefix) ''.tgz'') keys)"
proof -
  obtain archive meta where pack: "PackSealedDir P e d dir label = Inr (archive, meta)"
    and sid: "sid = ks_snapshotID e label" and b': "b' = AList.update (s3_key prefix sid) archive b"
    using save by (auto simp: ks_s3_Save_def s3_put_def split: sum.splits s3_out.splits)
  have "s3_key prefix sid \<in> set keys" using listing(2) b' by (simp add: s3_key_def)
  then have "sid \<in> set (map (\<lambda>key. trimSuffix (trimPrefix key prefix) ''.tgz'') keys)"
    unfolding set_map by (rule image_eqI [where f = "\<lambda>key. trimSuffix (trimPrefix key prefix) ''.tgz''", OF trim_s3_key [symmetric]])
  moreover have "sid \<noteq> []" by (simp add: sid ks_snapshotID_def)
  moreover have "ks_s3_List prefix (map Some keys) =
      Inr (rev (filter (\<lambda>nm. nm \<noteq> []) (map (\<lambda>key. trimSuffix (trimPrefix key prefix) ''.tgz'') keys)))"
    by (simp only: ks_s3_List_def list_ids_eq swap_ends_rev append_Nil sum.case)
  moreover have "s3_Get True b' prefix sid = Inr archive" by (simp add: s3_Get_def b')
  moreover have "\<forall>k. k \<noteq> s3_key prefix sid \<longrightarrow> map_of b' k = map_of b k" by (simp add: b')
  ultimately show ?thesis using pack by (simp del: set_map)
qed

end
