(* ===== verification/Snap_Witness.thy ===== *)
theory Snap_Witness
  imports Snap_Props
begin

text \<open>Concrete runs of the snapshot model on a length-prefixed archive format.\<close>

subsection \<open>The instance\<close>

definition enc_meta :: "SnapshotMeta \<Rightarrow> bytes" where
  "enc_meta m = enc_int (sm_CreatedAt m) @ enc_str (sm_Label m) @ enc_list enc_str (sm_Files m)
     @ enc_str (sm_Hash m) @ enc_int (sm_Bytes m)"

definition dec_meta :: "SnapshotMeta dec" where
  "dec_meta = dec_pair dec_int (\<lambda>c. dec_pair dec_str (\<lambda>l. dec_pair (dec_list dec_str) (\<lambda>f.
     dec_pair dec_str (\<lambda>h. dec_pair dec_int (\<lambda>b.
     dec_ret \<lparr>sm_CreatedAt = c, sm_Label = l, sm_Files = f, sm_Hash = h, sm_Bytes = b\<rparr>)))))"

definition enc_tar :: "(string \<times> bytes) list \<Rightarrow> bytes" where
  "enc_tar = enc_list (\<lambda>(nm, body). enc_str nm @ enc_bytes body)"

definition dec_tar :: "(string \<times> bytes) list dec" where
  "dec_tar = dec_list (dec_pair dec_str (\<lambda>nm. dec_pair dec_bytes (\<lambda>body. dec_ret (nm, body))))"

definition sim_snap :: snap_platform where
  "sim_snap = \<lparr>sn_sha = (\<lambda>b. b), sn_marshal = (\<lambda>m. Some (enc_meta m)), sn_unmarshal = whole dec_meta,
     sn_tar = (\<lambda>es. Some (enc_tar es)),
     sn_untar = (\<lambda>b. map_option (\<lambda>es. (map (\<lambda>(nm, body). (nm, Some body)) es, True)) (whole dec_tar b))\<rparr>"

definition sim_env :: snap_env where
  "sim_env = \<lparr>se_now = 5, se_stamp = ''t'', se_rand = [1], se_walk_ok = True, se_read_ok = (\<lambda>_. True),
              se_mkdir_ok = True, se_wr = all_ok\<rparr>"

lemma dec_meta_enc: "dec_meta (enc_meta m @ r) = Some (m, r)"
  by (simp add: dec_meta_def enc_meta_def dec_pair_def dec_ret_def)

lemma dec_tar_enc: "dec_tar (enc_tar m @ r) = Some (m, r)"
  unfolding dec_tar_def enc_tar_def by (rule dec_list_enc) (auto simp: dec_pair_def dec_ret_def)

lemma sim_snap_laws: "snap_laws sim_snap"
  by (simp add: snap_laws_def sim_snap_def whole_enc [OF dec_meta_enc] whole_enc [OF dec_tar_enc])

definition s_disk :: disk where
  "s_disk = [(''/k/b.bin'', [2]), (''/k/a.bin'', [1]), (''/k/a.bin.tmp'', [9]), (''/o/x'', [3])]"

lemma s_sealed: "sealed_dir s_disk ''/k''"
  by (simp add: sealed_dir_def s_disk_def hasPrefix_def sealed_name_def clean_rel_def ks_unsafe_def ksMetaFile_def)

lemma s_pack: "\<exists>archive meta. PackSealedDir sim_snap sim_env s_disk ''/k'' ''l'' = Inr (archive, meta)"
  by (simp add: PackSealedDir_def sim_env_def s_disk_def hasPrefix_def hasSuffix_def readFile_def pack_entries_def sim_snap_def Let_def)

subsection \<open>Witnesses\<close>

theorem extract_confined_witness:
  "readFile (fst (ExtractSealedDir sim_snap (\<lambda>_. ExOk) s_disk (enc_tar [(''../x'', [1])]) ''/o'')) ''/k/a.bin'' = Some [1]"
proof -
  have "\<not> inside ''/o'' ''/k/a.bin''" by (auto simp: inside_def join_elems_def)
  from extract_confined [OF this, of sim_snap "\<lambda>_. ExOk" s_disk] show ?thesis
    by (simp add: s_disk_def readFile_def)
qed

theorem keystore_restore_witness:
  "\<exists>archive d' meta. ExtractSealedDir sim_snap (\<lambda>_. ExOk) [] archive ''/n'' = (d', Inr meta)
    \<and> readFile d' ''/n/a.bin'' = Some [1] \<and> readFile d' ''/n/a.bin.tmp'' = None
    \<and> keyStore_Get sim_platform (sim_io 0) ''/n'' d' ''r'' = keyStore_Get sim_platform (sim_io 0) ''/k'' s_disk ''r''"
proof -
  obtain archive meta where pack: "PackSealedDir sim_snap sim_env s_disk ''/k'' ''l'' = Inr (archive, meta)"
    using s_pack by blast
  have "valid_utf8 ''l''" "\<forall>nm. (\<lambda>_ :: string. ExOk) nm = ExOk" "\<forall>nm. readFile [] (''/n'' @ ''/'' @ nm) = None"
    "\<forall>p. io_read_ok (sim_io 0) p"
    by (simp_all add: readFile_def sim_io_def)
  from keystore_restore [OF sim_snap_laws pack s_sealed this, of sim_platform] obtain d' where
    d': "ExtractSealedDir sim_snap (\<lambda>_. ExOk) [] archive ''/n'' = (d', Inr meta)"
    and f: "\<And>nm. readFile d' (''/n'' @ ''/'' @ nm) =
       (if hasSuffix (''/k'' @ ''/'' @ nm) ''.tmp'' then None else readFile s_disk (''/k'' @ ''/'' @ nm))"
    and g: "keyStore_Get sim_platform (sim_io 0) ''/n'' d' ''r'' = keyStore_Get sim_platform (sim_io 0) ''/k'' s_disk ''r''"
    by blast
  have "readFile d' ''/n/a.bin'' = Some [1] \<and> readFile d' ''/n/a.bin.tmp'' = None"
    using f [of "''a.bin''"] f [of "''a.bin.tmp''"] by (simp add: s_disk_def readFile_def hasSuffix_def)
  then show ?thesis using d' g by blast
qed

definition s_sort :: "packEntry list \<Rightarrow> packEntry list" where
  "s_sort = sort_key pk_rel"

theorem payment_restore_witness:
  "\<exists>archive meta d'. PackFiles sim_snap s_sort sim_env s_disk [''/k/b.bin'', ''/k/c'', ''/o/x''] ''l'' = Inr (archive, meta)
    \<and> ExtractFiles sim_snap (\<lambda>_. ExOk) [] archive ''/n'' = (d', Inr meta)
    \<and> readFile d' ''/n/b.bin'' = Some [2] \<and> readFile d' ''/n/x'' = Some [3]"
proof -
  have srt: "sort_law s_sort" by (simp add: sort_law_def s_sort_def)
  obtain archive meta where pack:
    "PackFiles sim_snap s_sort sim_env s_disk [''/k/b.bin'', ''/k/c'', ''/o/x''] ''l'' = Inr (archive, meta)"
    by (simp add: PackFiles_def sim_env_def s_disk_def readFile_def pack_entries_def sim_snap_def Let_def)
  have "list_all (\<lambda>p. payment_name (fileBase p)) [''/k/b.bin'', ''/k/c'', ''/o/x'']"
    "inj_on fileBase (set [''/k/b.bin'', ''/k/c'', ''/o/x''])" "valid_utf8 ''l''" "\<forall>nm. (\<lambda>_ :: string. ExOk) nm = ExOk"
    by (simp_all add: payment_name_def fileBase_def hasPrefix_def snapshotMetaFile_def)
  from payment_restore [OF sim_snap_laws srt pack this, of "[]" "''/n''"] obtain d' where
    d': "ExtractFiles sim_snap (\<lambda>_. ExOk) [] archive ''/n'' = (d', Inr meta)"
    and f: "\<forall>p \<in> set [''/k/b.bin'', ''/k/c'', ''/o/x'']. \<forall>c. readFile s_disk p = Some c \<longrightarrow>
       readFile d' (''/n'' @ ''/'' @ fileBase p) = Some c"
    by blast
  have "readFile d' ''/n/b.bin'' = Some [2] \<and> readFile d' ''/n/x'' = Some [3]"
    using f by (simp add: s_disk_def readFile_def fileBase_def)
  then show ?thesis using pack d' by blast
qed

theorem s3_save_get_list_witness:
  "\<exists>archive meta. PackSealedDir sim_snap sim_env s_disk ''/k'' ''l'' = Inr (archive, meta)
    \<and> s3_Get True (fst (ks_s3_Save sim_snap sim_env S3Ok s_disk [] ''p/'' ''/k'' ''l'')) ''p/'' ''t-l-01'' = Inr archive
    \<and> (\<exists>ids. ks_s3_List ''p/'' [Some ''p/t-l-01.tgz''] = Inr ids \<and> ''t-l-01'' \<in> set ids)"
proof -
  obtain archive meta where pack: "PackSealedDir sim_snap sim_env s_disk ''/k'' ''l'' = Inr (archive, meta)"
    using s_pack by blast
  have sid: "ks_snapshotID sim_env ''l'' = ''t-l-01''"
    by code_simp
  have save: "ks_s3_Save sim_snap sim_env S3Ok s_disk [] ''p/'' ''/k'' ''l'' = ([(''p/t-l-01.tgz'', archive)], Inr ''t-l-01'')"
    using pack sid by (simp add: ks_s3_Save_def s3_put_def s3_key_def)
  have "\<forall>key \<in> set [''p/t-l-01.tgz'']. hasPrefix key ''p/''"
    "\<forall>key. hasPrefix key ''p/'' \<and> map_of [(''p/t-l-01.tgz'', archive)] key \<noteq> None \<longrightarrow> key \<in> set [''p/t-l-01.tgz'']"
    by (simp_all add: hasPrefix_def)
  from s3_save_get_list [OF save this] obtain ids where
    "s3_Get True [(''p/t-l-01.tgz'', archive)] ''p/'' ''t-l-01'' = Inr archive"
    "ks_s3_List ''p/'' (map Some [''p/t-l-01.tgz'']) = Inr ids" "''t-l-01'' \<in> set ids"
    using pack by (metis Inr_inject prod.inject)
  then show ?thesis using save pack by (simp only: list.map fst_conv) blast
qed

end
