(* ===== verification/Crypto_Prim.thy ===== *)
theory Crypto_Prim
  imports Go_Base
begin

text \<open>
  The primitives of \<open>internal/crypto\<close>: random nonces and keys, authenticated encryption with the
  nonce in front, key derivation (\<open>encrypt.go\<close>, \<open>keys.go\<close>, \<open>recovery.go\<close>). XChaCha20-Poly1305,
  HKDF, X25519 and ML-KEM-768 are parameters with their documented laws. Wiping keys from memory
  is not modelled.
\<close>

unbundle bit_operations_syntax

subsection \<open>Randomness and errors\<close>

text \<open>
  The process's source of random bytes, as the outcomes of its future reads (\<open>None\<close> is a read
  error), and the nonce counter. A computation draws from it and ends in an error or a value.
\<close>

record rnd =
  rn_draws :: "bytes option list"
  rn_ctr :: u64

type_synonym 'a cr = "rnd \<Rightarrow> (string + 'a) \<times> rnd"

definition retm :: "'a \<Rightarrow> 'a cr" where
  "retm x st = (Inr x, st)"

definition failm :: "string \<Rightarrow> 'a cr" where
  "failm err st = (Inl err, st)"

definition bindm :: "'a cr \<Rightarrow> ('a \<Rightarrow> 'b cr) \<Rightarrow> 'b cr" where
  "bindm m f st = (case m st of (Inl err, st') \<Rightarrow> (Inl err, st') | (Inr x, st') \<Rightarrow> f x st')"

definition liftm :: "string + 'a \<Rightarrow> 'a cr" where
  "liftm r st = (r, st)"

text \<open>\<open>fmt.Errorf("pre: %w", err)\<close>.\<close>

definition wrap_res :: "string \<Rightarrow> string + 'a \<Rightarrow> string + 'a" where
  "wrap_res pre r = (case r of Inl err \<Rightarrow> Inl (pre @ '': '' @ err) | Inr x \<Rightarrow> Inr x)"

definition wrapm :: "string \<Rightarrow> 'a cr \<Rightarrow> 'a cr" where
  "wrapm pre m st = (case m st of (r, st') \<Rightarrow> (wrap_res pre r, st'))"

text \<open>\<open>rand.Read\<close> into a buffer of \<open>n\<close> bytes.\<close>

definition rand_read :: "nat \<Rightarrow> bytes cr" where
  "rand_read n st =
     (case rn_draws st of
        [] \<Rightarrow> (Inl ''read crypto/rand'', st)
      | None # rest \<Rightarrow> (Inl ''read crypto/rand'', st\<lparr>rn_draws := rest\<rparr>)
      | Some bs # rest \<Rightarrow> (Inr (take n (bs @ replicate n 0)), st\<lparr>rn_draws := rest\<rparr>))"

subsection \<open>Parameters\<close>

record crypto_platform =
  cp_seal :: "bytes \<Rightarrow> bytes \<Rightarrow> bytes \<Rightarrow> bytes \<Rightarrow> bytes"
  cp_open :: "bytes \<Rightarrow> bytes \<Rightarrow> bytes \<Rightarrow> bytes \<Rightarrow> bytes option"
  cp_hkdf :: "bytes \<Rightarrow> bytes \<Rightarrow> bytes \<Rightarrow> nat \<Rightarrow> bytes option"
  cp_pub :: "bytes \<Rightarrow> bytes"
  cp_ecdh :: "bytes \<Rightarrow> bytes \<Rightarrow> bytes option"
  cp_ek :: "bytes \<Rightarrow> bytes"
  cp_ek_ok :: "bytes \<Rightarrow> bool"
  cp_dk_ok :: "bytes \<Rightarrow> bool"
  cp_encaps :: "bytes \<Rightarrow> bytes \<Rightarrow> bytes \<times> bytes"
  cp_decaps :: "bytes \<Rightarrow> bytes \<Rightarrow> bytes option"

text \<open>
  \<open>aead_laws\<close>: opening a sealed message gives it back, and a tag has 16 bytes. \<open>dh_laws\<close>: both
  sides of a key exchange agree, and public keys have 32 bytes. \<open>kem_laws\<close>: decapsulation inverts
  encapsulation, and a ciphertext has 1088 bytes. \<open>hkdf_laws\<close>: the output has the length asked for.
\<close>

definition aead_laws :: "crypto_platform \<Rightarrow> bool" where
  "aead_laws P =
     (\<forall>k n p a. length k = 32 \<and> length n = 24 \<longrightarrow>
        cp_open P k n (cp_seal P k n p a) a = Some p \<and> length (cp_seal P k n p a) = length p + 16)"

definition dh_laws :: "crypto_platform \<Rightarrow> bool" where
  "dh_laws P =
     ((\<forall>a b s. cp_ecdh P a (cp_pub P b) = Some s \<longrightarrow> cp_ecdh P b (cp_pub P a) = Some s)
      \<and> (\<forall>a. length (cp_pub P a) = 32))"

definition kem_laws :: "crypto_platform \<Rightarrow> bool" where
  "kem_laws P =
     (\<forall>dk r ss ct. cp_encaps P (cp_ek P dk) r = (ss, ct) \<longrightarrow> cp_decaps P dk ct = Some ss \<and> length ct = 1088)"

definition hkdf_laws :: "crypto_platform \<Rightarrow> bool" where
  "hkdf_laws P = (\<forall>s salt info n k. cp_hkdf P s salt info n = Some k \<longrightarrow> length k = n)"

definition crypto_laws :: "crypto_platform \<Rightarrow> bool" where
  "crypto_laws P = (aead_laws P \<and> dh_laws P \<and> kem_laws P \<and> hkdf_laws P)"

subsection \<open>Nonces and keys\<close>

text \<open>\<open>LittleEndian.Uint64\<close> and \<open>PutUint64\<close>.\<close>

fun le_word :: "bytes \<Rightarrow> u64" where
  "le_word [] = 0"
| "le_word (b # bs) = ucast b OR push_bit 8 (le_word bs)"

fun le_bytes :: "nat \<Rightarrow> u64 \<Rightarrow> bytes" where
  "le_bytes 0 w = []"
| "le_bytes (Suc n) w = ucast w # le_bytes n (drop_bit 8 w)"

definition all_zero :: "bytes \<Rightarrow> bool" where
  "all_zero bs = list_all (\<lambda>b. b = 0) bs"

definition secureNonce :: "nat \<Rightarrow> bytes cr" where
  "secureNonce sz = bindm (rand_read sz) (\<lambda>nonce st.
     if all_zero nonce then failm ''crypto/rand returned all-zero nonce'' st
     else if sz \<ge> 8 then
       (let ctr = rn_ctr st + 1; existing = le_word (take 8 nonce) in
        (Inr (le_bytes 8 (existing XOR ctr) @ drop 8 nonce), st\<lparr>rn_ctr := ctr\<rparr>))
     else (Inr nonce, st))"

definition secureKey :: "nat \<Rightarrow> bytes cr" where
  "secureKey sz = bindm (rand_read sz) (\<lambda>key.
     if all_zero key then failm ''crypto/rand returned all-zero key'' else retm key)"

subsection \<open>Sealing\<close>

definition NonceSizeX :: nat where
  "NonceSizeX = 24"

definition sealXChaCha20 :: "crypto_platform \<Rightarrow> bytes \<Rightarrow> bytes \<Rightarrow> bytes \<Rightarrow> bytes cr" where
  "sealXChaCha20 P key plaintext aad =
     (if length key \<noteq> 32 then failm ''create XChaCha20-Poly1305''
      else bindm (wrapm ''generate nonce'' (secureNonce NonceSizeX)) (\<lambda>nonce.
        retm (nonce @ cp_seal P key nonce plaintext aad)))"

definition openXChaCha20 :: "crypto_platform \<Rightarrow> bytes \<Rightarrow> bytes \<Rightarrow> bytes \<Rightarrow> string + bytes" where
  "openXChaCha20 P key encrypted aad =
     (if length encrypted < NonceSizeX then Inl ''encrypted data too short''
      else if length key \<noteq> 32 then Inl ''create XChaCha20-Poly1305''
      else (case cp_open P key (take NonceSizeX encrypted) (drop NonceSizeX encrypted) aad of
              None \<Rightarrow> Inl ''decrypt''
            | Some plaintext \<Rightarrow> Inr plaintext))"

definition deriveKey :: "crypto_platform \<Rightarrow> bytes \<Rightarrow> bytes \<Rightarrow> string \<Rightarrow> string + bytes" where
  "deriveKey P sharedSecret salt info =
     (case cp_hkdf P sharedSecret salt (str_bytes info) 32 of
        None \<Rightarrow> Inl ''HKDF derive key''
      | Some key \<Rightarrow> Inr key)"

definition EncryptPrivateKey :: "crypto_platform \<Rightarrow> bytes \<Rightarrow> bytes \<Rightarrow> bytes \<Rightarrow> bytes cr" where
  "EncryptPrivateKey P privateKeyBytes exportKey aad =
     (if length exportKey \<noteq> 32 then failm ''export key must be 32 bytes''
      else bindm (wrapm ''generate nonce'' (secureNonce NonceSizeX)) (\<lambda>nonce.
        retm (nonce @ cp_seal P exportKey nonce privateKeyBytes aad)))"

definition DecryptPrivateKey :: "crypto_platform \<Rightarrow> bytes \<Rightarrow> bytes \<Rightarrow> bytes \<Rightarrow> string + bytes" where
  "DecryptPrivateKey P encrypted exportKey aad =
     (if length exportKey \<noteq> 32 then Inl ''export key must be 32 bytes''
      else if length encrypted < NonceSizeX then Inl ''encrypted data too short''
      else (case cp_open P exportKey (take NonceSizeX encrypted) (drop NonceSizeX encrypted) aad of
              None \<Rightarrow> Inl ''decrypt private key''
            | Some plaintext \<Rightarrow> Inr plaintext))"

subsection \<open>Recovery keys\<close>

definition AADRecoveryKey :: bytes where
  "AADRecoveryKey = str_bytes ''bmail-recovery-key-v1''"

definition deriveRecoveryKeyV2 :: "crypto_platform \<Rightarrow> bytes \<Rightarrow> string + bytes" where
  "deriveRecoveryKeyV2 P entropy =
     (case cp_hkdf P entropy (str_bytes ''bmail-recovery-salt-v1'') (str_bytes ''bmail-recovery-key-v2'') 32 of
        None \<Rightarrow> Inl ''derive recovery key''
      | Some key \<Rightarrow> Inr key)"

text \<open>\<open>EntropyFromMnemonic\<close> of the BIP-39 library is a parameter.\<close>

definition DeriveRecoveryKey :: "crypto_platform \<Rightarrow> (string \<Rightarrow> bytes option) \<Rightarrow> string \<Rightarrow> string + bytes" where
  "DeriveRecoveryKey P bip39 mnemonic =
     (case bip39 mnemonic of
        None \<Rightarrow> Inl ''extract entropy from mnemonic''
      | Some entropy \<Rightarrow> deriveRecoveryKeyV2 P entropy)"

definition DeriveRecoveryKeyV3 :: "crypto_platform \<Rightarrow> (string \<Rightarrow> bytes option) \<Rightarrow> string \<Rightarrow> string \<Rightarrow> string + bytes" where
  "DeriveRecoveryKeyV3 P bip39 mnemonic userID =
     (if userID = [] then Inl ''userID required for V3 recovery key derivation''
      else (case bip39 mnemonic of
        None \<Rightarrow> Inl ''extract entropy from mnemonic''
      | Some entropy \<Rightarrow>
          (case cp_hkdf P entropy (str_bytes ''bmail-recovery-salt-v1'')
                  (str_bytes (''bmail-recovery-key-v3:'' @ userID)) 32 of
             None \<Rightarrow> Inl ''derive recovery key v3''
           | Some key \<Rightarrow> Inr key)))"

definition EncryptWithRecoveryKey :: "crypto_platform \<Rightarrow> bytes \<Rightarrow> bytes \<Rightarrow> bytes cr" where
  "EncryptWithRecoveryKey P plaintext recoveryKey = sealXChaCha20 P recoveryKey plaintext AADRecoveryKey"

definition DecryptWithRecoveryKey :: "crypto_platform \<Rightarrow> bytes \<Rightarrow> bytes \<Rightarrow> string + bytes" where
  "DecryptWithRecoveryKey P encrypted recoveryKey = openXChaCha20 P recoveryKey encrypted AADRecoveryKey"

subsection \<open>Running a computation\<close>

lemma bindm_InrE:
  assumes "bindm m f st = (Inr y, st')"
  obtains x st1 where "m st = (Inr x, st1)" "f x st1 = (Inr y, st')"
  using assms by (auto simp: bindm_def split: prod.splits sum.splits)

lemma wrapm_Inr [simp]: "wrapm pre m st = (Inr x, st') \<longleftrightarrow> m st = (Inr x, st')"
  by (auto simp: wrapm_def wrap_res_def split: prod.splits sum.splits)

lemma wrap_res_Inr [simp]: "wrap_res pre r = Inr x \<longleftrightarrow> r = Inr x"
  by (auto simp: wrap_res_def split: sum.splits)

lemma wrap_res_ok [simp]: "wrap_res pre (Inr x) = Inr x"
  by simp

lemma retm_Inr [simp]: "retm x st = (Inr y, st') \<longleftrightarrow> y = x \<and> st' = st"
  by (auto simp: retm_def)

lemma failm_Inr [simp]: "failm err st \<noteq> (Inr y, st')"
  by (simp add: failm_def)

lemma liftm_Inr [simp]: "liftm r st = (Inr y, st') \<longleftrightarrow> r = Inr y \<and> st' = st"
  by (auto simp: liftm_def)

lemma rand_read_length: "rand_read n st = (Inr bs, st') \<Longrightarrow> length bs = n"
  by (auto simp: rand_read_def split: list.splits option.splits)

lemma length_le_bytes [simp]: "length (le_bytes n w) = n"
  by (induction n arbitrary: w) auto

lemma secureNonce_length: "secureNonce sz st = (Inr nonce, st') \<Longrightarrow> length nonce = sz"
  by (auto simp: secureNonce_def Let_def split: if_splits elim!: bindm_InrE dest!: rand_read_length)

lemma secureKey_length: "secureKey sz st = (Inr key, st') \<Longrightarrow> length key = sz"
  by (auto simp: secureKey_def split: if_splits elim!: bindm_InrE dest!: rand_read_length)

lemma deriveKey_length: "hkdf_laws P \<Longrightarrow> deriveKey P ss salt info = Inr k \<Longrightarrow> length k = 32"
  by (auto simp: deriveKey_def hkdf_laws_def split: option.splits)

text \<open>What was sealed opens under the same key and data.\<close>

lemma seal_open:
  assumes "aead_laws P" "sealXChaCha20 P key p aad st = (Inr c, st')"
  shows "openXChaCha20 P key c aad = Inr p" "length key = 32" "length c = length p + 40"
proof -
  obtain nonce where c: "length key = 32" "length nonce = 24" "c = nonce @ cp_seal P key nonce p aad"
    using assms(2) by (auto simp: sealXChaCha20_def NonceSizeX_def split: if_splits elim!: bindm_InrE dest!: secureNonce_length)
  then show "openXChaCha20 P key c aad = Inr p" "length key = 32" "length c = length p + 40"
    using assms(1) by (auto simp: openXChaCha20_def NonceSizeX_def aead_laws_def)
qed

lemma private_key_roundtrip:
  assumes "aead_laws P" "EncryptPrivateKey P priv key aad st = (Inr c, st')"
  shows "DecryptPrivateKey P c key aad = Inr priv"
proof -
  obtain nonce where c: "length key = 32" "length nonce = 24" "c = nonce @ cp_seal P key nonce priv aad"
    using assms(2) by (auto simp: EncryptPrivateKey_def NonceSizeX_def split: if_splits elim!: bindm_InrE dest!: secureNonce_length)
  then show ?thesis using assms(1) by (auto simp: DecryptPrivateKey_def NonceSizeX_def aead_laws_def)
qed

end
