(* ===== verification/Envelope.thy ===== *)
theory Envelope
  imports Crypto_Prim
begin

text \<open>
  Message encryption: \<open>internal/crypto/encrypt.go\<close> (classical and hybrid-aware functions, chunked
  blobs), \<open>hybrid.go\<close> (envelopes) and \<open>group.go\<close> (group secrets). A private or public key is its
  bytes; a missing ML-KEM key (\<open>nil\<close>) is \<open>None\<close>. The code repeats the classical unwrap in each
  decryption function; the model calls the one definition with the function's own length check.
\<close>

subsection \<open>Envelopes\<close>

definition newPublicKey :: "bytes \<Rightarrow> string + bytes" where
  "newPublicKey b = (if length b \<noteq> 32 then Inl ''invalid public key size'' else Inr b)"

definition newPrivateKey :: "bytes \<Rightarrow> string + bytes" where
  "newPrivateKey b = (if length b \<noteq> 32 then Inl ''invalid private key size'' else Inr b)"

definition ecdh_res :: "crypto_platform \<Rightarrow> bytes \<Rightarrow> bytes \<Rightarrow> string + bytes" where
  "ecdh_res P priv pub = (case cp_ecdh P priv pub of None \<Rightarrow> Inl ''ECDH'' | Some s \<Rightarrow> Inr s)"

definition EnvelopeVersionHybrid :: byte where
  "EnvelopeVersionHybrid = 2"

definition HybridEnvelopeKeySize :: nat where
  "HybridEnvelopeKeySize = 1121"

definition classicalEphKeySize :: nat where
  "classicalEphKeySize = 32"

definition classicalWrap :: "crypto_platform \<Rightarrow> bytes \<Rightarrow> bytes \<Rightarrow> (bytes \<times> bytes) cr" where
  "classicalWrap P x25519Pub messageKey =
     bindm (wrapm ''generate ephemeral key'' (rand_read 32)) (\<lambda>ephemeral.
     bindm (liftm (ecdh_res P ephemeral x25519Pub)) (\<lambda>sharedSecret.
     let ephPubBytes = cp_pub P ephemeral in
     bindm (liftm (deriveKey P sharedSecret ephPubBytes ''message-key-wrap'')) (\<lambda>derivedKey.
     bindm (wrapm ''encrypt message key'' (sealXChaCha20 P derivedKey messageKey ephPubBytes)) (\<lambda>encryptedMessageKey.
     retm (ephPubBytes, encryptedMessageKey)))))"

definition classicalUnwrap :: "crypto_platform \<Rightarrow> bytes \<Rightarrow> bytes \<Rightarrow> bytes \<Rightarrow> string + bytes" where
  "classicalUnwrap P x25519Priv ephPubBytes encryptedMessageKey =
     bind_res (wrap_res ''parse ephemeral public key'' (newPublicKey ephPubBytes)) (\<lambda>ephPub.
     bind_res (ecdh_res P x25519Priv ephPub) (\<lambda>sharedSecret.
     bind_res (deriveKey P sharedSecret ephPubBytes ''message-key-wrap'') (\<lambda>derivedKey.
     wrap_res ''decrypt message key'' (openXChaCha20 P derivedKey encryptedMessageKey ephPubBytes))))"

text \<open>The envelope key is version, ephemeral key, ML-KEM ciphertext.\<close>

definition hybridWrap :: "crypto_platform \<Rightarrow> bytes \<Rightarrow> bytes \<Rightarrow> bytes \<Rightarrow> (bytes \<times> bytes) cr" where
  "hybridWrap P x25519Pub kemEK messageKey =
     bindm (wrapm ''generate ephemeral key'' (rand_read 32)) (\<lambda>ephemeral.
     bindm (liftm (ecdh_res P ephemeral x25519Pub)) (\<lambda>x25519SS.
     bindm (rand_read 32) (\<lambda>kemRand.
     let (kemSS, kemCT) = cp_encaps P kemEK kemRand;
         ephPubBytes = cp_pub P ephemeral;
         envelopeKey = EnvelopeVersionHybrid # ephPubBytes @ kemCT;
         combinedSS = x25519SS @ kemSS;
         salt = drop 1 envelopeKey
     in bindm (liftm (deriveKey P combinedSS salt ''message-key-wrap-v2'')) (\<lambda>wrapKey.
     bindm (wrapm ''encrypt message key'' (sealXChaCha20 P wrapKey messageKey envelopeKey)) (\<lambda>encryptedMessageKey.
     retm (envelopeKey, encryptedMessageKey))))))"

definition hybridUnwrap :: "crypto_platform \<Rightarrow> bytes \<Rightarrow> bytes \<Rightarrow> bytes \<Rightarrow> bytes \<Rightarrow> string + bytes" where
  "hybridUnwrap P x25519Priv kemDK envelopeKey encryptedMessageKey =
     (if length envelopeKey \<noteq> HybridEnvelopeKeySize then Inl ''invalid hybrid envelope key length''
      else if envelopeKey ! 0 \<noteq> EnvelopeVersionHybrid then Inl ''not a hybrid envelope''
      else
        (let ephPubBytes = take 32 (drop 1 envelopeKey); kemCT = drop 33 envelopeKey in
         bind_res (wrap_res ''parse ephemeral public key'' (newPublicKey ephPubBytes)) (\<lambda>ephPub.
         bind_res (ecdh_res P x25519Priv ephPub) (\<lambda>x25519SS.
         bind_res (case cp_decaps P kemDK kemCT of None \<Rightarrow> Inl ''ML-KEM decapsulate'' | Some ss \<Rightarrow> Inr ss) (\<lambda>kemSS.
         bind_res (deriveKey P (x25519SS @ kemSS) (drop 1 envelopeKey) ''message-key-wrap-v2'') (\<lambda>wrapKey.
         wrap_res ''decrypt message key'' (openXChaCha20 P wrapKey encryptedMessageKey envelopeKey)))))))"

definition wrapEnvelope :: "crypto_platform \<Rightarrow> bytes \<Rightarrow> bytes option \<Rightarrow> bytes \<Rightarrow> (bytes \<times> bytes) cr" where
  "wrapEnvelope P x25519Pub kemEK messageKey =
     (case kemEK of Some ek \<Rightarrow> hybridWrap P x25519Pub ek messageKey | None \<Rightarrow> classicalWrap P x25519Pub messageKey)"

definition unwrapEnvelope :: "crypto_platform \<Rightarrow> bytes \<Rightarrow> bytes option \<Rightarrow> bytes \<Rightarrow> bytes \<Rightarrow> string + bytes" where
  "unwrapEnvelope P x25519Priv kemDK envelopeKey encryptedMessageKey =
     (if length envelopeKey = classicalEphKeySize then classicalUnwrap P x25519Priv envelopeKey encryptedMessageKey
      else if length envelopeKey = HybridEnvelopeKeySize \<and> envelopeKey ! 0 = EnvelopeVersionHybrid then
        (case kemDK of
           None \<Rightarrow> Inl ''hybrid envelope requires ML-KEM decapsulation key''
         | Some dk \<Rightarrow> hybridUnwrap P x25519Priv dk envelopeKey encryptedMessageKey)
      else Inl ''unrecognized envelope key format'')"

subsection \<open>Chunked blobs\<close>

definition DefaultChunkSize :: int where
  "DefaultChunkSize = 65536"

definition ChunkTagSize :: nat where
  "ChunkTagSize = 16"

definition chunk_index :: "nat \<Rightarrow> bytes" where
  "chunk_index i = be64 (of_nat i)"

definition deriveChunkNonce :: "crypto_platform \<Rightarrow> bytes \<Rightarrow> nat \<Rightarrow> string + bytes" where
  "deriveChunkNonce P messageKey i =
     (case cp_hkdf P messageKey (str_bytes ''chunk-nonce'') (chunk_index i) 24 of
        None \<Rightarrow> Inl ''derive chunk nonce''
      | Some nonce \<Rightarrow> Inr nonce)"

definition chunkAAD :: "nat \<Rightarrow> bytes" where
  "chunkAAD i = str_bytes ''raw:chunk:'' @ chunk_index i"

definition effective_chunk :: "int \<Rightarrow> nat" where
  "effective_chunk chunkSize = nat (if chunkSize \<le> 0 then DefaultChunkSize else chunkSize)"

fun encrypt_chunks :: "crypto_platform \<Rightarrow> bytes \<Rightarrow> bytes \<Rightarrow> nat \<Rightarrow> nat \<Rightarrow> nat \<Rightarrow> bytes \<Rightarrow> string + bytes" where
  "encrypt_chunks P messageKey plaintext cs i 0 out = Inr out"
| "encrypt_chunks P messageKey plaintext cs i (Suc todo) out =
     (let start = i * cs; stop = min (start + cs) (length plaintext);
          chunk = take (stop - start) (drop start plaintext)
      in bind_res (deriveChunkNonce P messageKey i) (\<lambda>nonce.
           encrypt_chunks P messageKey plaintext cs (i + 1) todo
             (out @ cp_seal P messageKey nonce chunk (chunkAAD i))))"

definition EncryptChunked :: "crypto_platform \<Rightarrow> bytes \<Rightarrow> bytes \<Rightarrow> int \<Rightarrow> string + bytes" where
  "EncryptChunked P messageKey plaintext chunkSize =
     (let cs = effective_chunk chunkSize in
      if length messageKey \<noteq> 32 then Inl ''create AEAD''
      else (let numChunks = goDiv (goInt (goInt (int (length plaintext) + int cs) - 1)) (int cs) in
            encrypt_chunks P messageKey plaintext cs 0 (nat (if numChunks = 0 then 1 else numChunks)) []))"

text \<open>
  The loop over the stored chunks; it advances by the stored chunk size, at least 16 bytes. When the
  end of a chunk overflows an \<open>int\<close> it is negative and the slice expression panics.
\<close>

function decrypt_chunks :: "crypto_platform \<Rightarrow> bytes \<Rightarrow> bytes \<Rightarrow> nat \<Rightarrow> nat \<Rightarrow> bytes \<Rightarrow> string + bytes" where
  "decrypt_chunks P messageKey blob cs i plaintext =
     (let stored = cs + ChunkTagSize; offset = i * stored in
      if offset \<ge> length blob then Inr plaintext
      else if offset + stored \<ge> 2 ^ 63 then Inl ''panic: slice bounds out of range''
      else
        (let stop = min (offset + stored) (length blob); chunkData = take (stop - offset) (drop offset blob) in
         case deriveChunkNonce P messageKey i of
           Inl err \<Rightarrow> Inl err
         | Inr nonce \<Rightarrow>
             (case cp_open P messageKey nonce chunkData (chunkAAD i) of
                None \<Rightarrow> Inl ''decrypt chunk''
              | Some decrypted \<Rightarrow> decrypt_chunks P messageKey blob cs (i + 1) (plaintext @ decrypted))))"
  by pat_completeness auto
termination
proof (relation "measure (\<lambda>(P, k, blob, cs, i, pt). length blob - i * (cs + ChunkTagSize))")
qed (auto simp: ChunkTagSize_def)

declare decrypt_chunks.simps [simp del]

definition DecryptChunked :: "crypto_platform \<Rightarrow> bytes \<Rightarrow> bytes \<Rightarrow> int \<Rightarrow> string + bytes" where
  "DecryptChunked P messageKey blob chunkSize =
     (if length messageKey \<noteq> 32 then Inl ''create AEAD''
      else decrypt_chunks P messageKey blob (effective_chunk chunkSize) 0 [])"

definition DecryptChunk :: "crypto_platform \<Rightarrow> bytes \<Rightarrow> nat \<Rightarrow> bytes \<Rightarrow> string + bytes" where
  "DecryptChunk P messageKey chunkIndex chunkData =
     (if length messageKey \<noteq> 32 then Inl ''create AEAD''
      else bind_res (deriveChunkNonce P messageKey chunkIndex) (\<lambda>nonce.
        case cp_open P messageKey nonce chunkData (chunkAAD chunkIndex) of
          None \<Rightarrow> Inl ''decrypt'' | Some p \<Rightarrow> Inr p))"

subsection \<open>Blob format strings\<close>

definition RawBlobFormatSingle :: string where
  "RawBlobFormatSingle = ''XChaCha20-Poly1305''"

definition chunked_prefix :: string where
  "chunked_prefix = ''XChaCha20-Poly1305-Chunked(''"

definition RawBlobFormatChunked :: "int \<Rightarrow> string" where
  "RawBlobFormatChunked chunkSize = chunked_prefix @ showInt chunkSize @ '')''"

definition ParseRawBlobFormat :: "string \<Rightarrow> bool \<times> int" where
  "ParseRawBlobFormat format =
     (if hasPrefix format chunked_prefix then
        (case scan_int (drop (length chunked_prefix) format) of
           Some cs \<Rightarrow> if cs > 0 then (True, cs) else (False, 0)
         | None \<Rightarrow> (False, 0))
      else (False, 0))"

end
