(* ===== verification/Message_Crypto.thy ===== *)
theory Message_Crypto
  imports Envelope
begin

text \<open>
  The message-level functions of \<open>internal/crypto/encrypt.go\<close> and the group secrets of \<open>group.go\<close>.
  Their correctness is in \<open>Crypto_Props\<close>.
\<close>

subsection \<open>Operations\<close>

record EncryptedMessage =
  em_EphemeralPubkey :: bytes
  em_EncryptedMessageKey :: bytes
  em_EncryptedBody :: bytes
  em_EncryptedSubject :: bytes
  em_EncryptedHeaders :: bytes

record EncryptedRawMessage =
  er_Message :: EncryptedMessage
  er_EncryptedMeta :: bytes

definition DeriveWrapKey :: "crypto_platform \<Rightarrow> bytes \<Rightarrow> bytes \<Rightarrow> string + bytes" where
  "DeriveWrapKey P sharedSecret ephemeralPubkey = deriveKey P sharedSecret ephemeralPubkey ''message-key-wrap''"

definition SealWrappedKey :: "crypto_platform \<Rightarrow> bytes \<Rightarrow> bytes \<Rightarrow> bytes \<Rightarrow> bytes cr" where
  "SealWrappedKey P wrapKey messageKey ephemeralPubkey = sealXChaCha20 P wrapKey messageKey ephemeralPubkey"

definition OpenWrappedKey :: "crypto_platform \<Rightarrow> bytes \<Rightarrow> bytes \<Rightarrow> bytes \<Rightarrow> string + bytes" where
  "OpenWrappedKey P wrapKey encrypted ephemeralPubkey = openXChaCha20 P wrapKey encrypted ephemeralPubkey"

definition EncryptMessage :: "crypto_platform \<Rightarrow> bytes \<Rightarrow> bytes \<Rightarrow> bytes \<Rightarrow> EncryptedMessage cr" where
  "EncryptMessage P recipientPub subject body =
     bindm (wrapm ''generate message key'' (secureKey 32)) (\<lambda>messageKey.
     bindm (wrapm ''generate ephemeral key'' (rand_read 32)) (\<lambda>ephemeral.
     bindm (liftm (ecdh_res P ephemeral recipientPub)) (\<lambda>sharedSecret.
     let ephPubBytes = cp_pub P ephemeral in
     bindm (liftm (deriveKey P sharedSecret ephPubBytes ''message-key-wrap'')) (\<lambda>derivedKey.
     bindm (wrapm ''encrypt message key'' (sealXChaCha20 P derivedKey messageKey ephPubBytes)) (\<lambda>encryptedMessageKey.
     bindm (wrapm ''encrypt body'' (sealXChaCha20 P messageKey body (str_bytes ''body''))) (\<lambda>encryptedBody.
     bindm (wrapm ''encrypt subject'' (sealXChaCha20 P messageKey subject (str_bytes ''subject''))) (\<lambda>encryptedSubject.
     retm \<lparr>em_EphemeralPubkey = ephPubBytes, em_EncryptedMessageKey = encryptedMessageKey,
           em_EncryptedBody = encryptedBody, em_EncryptedSubject = encryptedSubject, em_EncryptedHeaders = []\<rparr>)))))))"

text \<open>The code of the classical decryption functions up to the message key.\<close>

definition unwrap32 :: "crypto_platform \<Rightarrow> bytes \<Rightarrow> bytes \<Rightarrow> bytes \<Rightarrow> string + bytes" where
  "unwrap32 P recipientPriv ephemeralPubkey encryptedMessageKey =
     (if length ephemeralPubkey \<noteq> 32 then Inl ''invalid ephemeral public key length''
      else classicalUnwrap P recipientPriv ephemeralPubkey encryptedMessageKey)"

text \<open>An absent subject (\<open>nil\<close>) is the empty list, as in Go.\<close>

definition open_subject :: "crypto_platform \<Rightarrow> bytes \<Rightarrow> EncryptedMessage \<Rightarrow> string + bytes" where
  "open_subject P messageKey msg =
     (if em_EncryptedSubject msg \<noteq> []
      then wrap_res ''decrypt subject'' (openXChaCha20 P messageKey (em_EncryptedSubject msg) (str_bytes ''subject''))
      else Inr [])"

definition DecryptMessage :: "crypto_platform \<Rightarrow> bytes \<Rightarrow> EncryptedMessage \<Rightarrow> string + bytes \<times> bytes" where
  "DecryptMessage P recipientPriv msg =
     bind_res (unwrap32 P recipientPriv (em_EphemeralPubkey msg) (em_EncryptedMessageKey msg)) (\<lambda>messageKey.
     bind_res (wrap_res ''decrypt body'' (openXChaCha20 P messageKey (em_EncryptedBody msg) (str_bytes ''body''))) (\<lambda>body.
     bind_res (open_subject P messageKey msg) (\<lambda>subject. Inr (subject, body))))"

definition DecryptSubjectOnly :: "crypto_platform \<Rightarrow> bytes \<Rightarrow> bytes \<Rightarrow> bytes \<Rightarrow> bytes \<Rightarrow> string + bytes" where
  "DecryptSubjectOnly P recipientPriv ephemeralPubkey encryptedMessageKey encryptedSubject =
     bind_res (unwrap32 P recipientPriv ephemeralPubkey encryptedMessageKey) (\<lambda>messageKey.
     wrap_res ''decrypt subject'' (openXChaCha20 P messageKey encryptedSubject (str_bytes ''subject'')))"

definition DecryptSubject :: "crypto_platform \<Rightarrow> bytes \<Rightarrow> bytes \<Rightarrow> bytes \<Rightarrow> bytes \<Rightarrow> string + bytes" where
  "DecryptSubject P recipientPriv ephemeralPubkey encryptedMessageKey encryptedSubject =
     bind_res (unwrap32 P recipientPriv ephemeralPubkey encryptedMessageKey) (\<lambda>messageKey.
     wrap_res ''decrypt subject'' (openXChaCha20 P messageKey encryptedSubject (str_bytes ''subject'')))"

definition DecryptHeaders :: "crypto_platform \<Rightarrow> bytes \<Rightarrow> bytes \<Rightarrow> bytes \<Rightarrow> bytes \<Rightarrow> string + bytes" where
  "DecryptHeaders P recipientPriv ephemeralPubkey encryptedMessageKey encryptedHeaders =
     (if encryptedHeaders = [] then Inl ''encrypted headers are empty''
      else bind_res (unwrap32 P recipientPriv ephemeralPubkey encryptedMessageKey) (\<lambda>messageKey.
        wrap_res ''decrypt headers'' (openXChaCha20 P messageKey encryptedHeaders (str_bytes ''headers''))))"

text \<open>The optional third slot; \<open>nil\<close> headers are \<open>None\<close>.\<close>

definition seal_headers :: "crypto_platform \<Rightarrow> bytes \<Rightarrow> bytes option \<Rightarrow> bytes cr" where
  "seal_headers P messageKey headers =
     (case headers of
        None \<Rightarrow> retm []
      | Some h \<Rightarrow> wrapm ''encrypt headers'' (sealXChaCha20 P messageKey h (str_bytes ''headers'')))"

definition EncryptMessageWithHeaders :: "crypto_platform \<Rightarrow> bytes \<Rightarrow> bytes \<Rightarrow> bytes \<Rightarrow> bytes option \<Rightarrow> EncryptedMessage cr" where
  "EncryptMessageWithHeaders P recipientPub subject body headers =
     bindm (wrapm ''generate message key'' (secureKey 32)) (\<lambda>messageKey.
     bindm (classicalWrap P recipientPub messageKey) (\<lambda>(ephPubBytes, encryptedMessageKey).
     bindm (wrapm ''encrypt body'' (sealXChaCha20 P messageKey body (str_bytes ''body''))) (\<lambda>encryptedBody.
     bindm (wrapm ''encrypt subject'' (sealXChaCha20 P messageKey subject (str_bytes ''subject''))) (\<lambda>encryptedSubject.
     bindm (seal_headers P messageKey headers) (\<lambda>encryptedHeaders.
     retm \<lparr>em_EphemeralPubkey = ephPubBytes, em_EncryptedMessageKey = encryptedMessageKey,
           em_EncryptedBody = encryptedBody, em_EncryptedSubject = encryptedSubject,
           em_EncryptedHeaders = encryptedHeaders\<rparr>)))))"

definition open_raw_body :: "crypto_platform \<Rightarrow> bytes \<Rightarrow> EncryptedMessage \<Rightarrow> string \<Rightarrow> string + bytes" where
  "open_raw_body P messageKey msg format =
     (let (chunked, chunkSize) = ParseRawBlobFormat format in
      wrap_res ''decrypt body''
        (if chunked then DecryptChunked P messageKey (em_EncryptedBody msg) chunkSize
         else openXChaCha20 P messageKey (em_EncryptedBody msg) (str_bytes ''body'')))"

text \<open>A metadata failure is not fatal; absent metadata is the empty list.\<close>

definition open_raw_meta :: "crypto_platform \<Rightarrow> bytes \<Rightarrow> bytes \<Rightarrow> bytes" where
  "open_raw_meta P messageKey encryptedMeta =
     (if encryptedMeta = [] then []
      else (case openXChaCha20 P messageKey encryptedMeta (str_bytes ''raw-meta'') of Inl _ \<Rightarrow> [] | Inr meta \<Rightarrow> meta))"

definition DecryptRawMessage ::
    "crypto_platform \<Rightarrow> bytes \<Rightarrow> EncryptedMessage \<Rightarrow> string \<Rightarrow> bytes \<Rightarrow> string + bytes \<times> bytes" where
  "DecryptRawMessage P recipientPriv msg format encryptedMeta =
     bind_res (unwrap32 P recipientPriv (em_EphemeralPubkey msg) (em_EncryptedMessageKey msg)) (\<lambda>messageKey.
     bind_res (open_raw_body P messageKey msg format) (\<lambda>body.
     Inr (body, open_raw_meta P messageKey encryptedMeta)))"

definition DecryptMetaOnly :: "crypto_platform \<Rightarrow> bytes \<Rightarrow> bytes \<Rightarrow> bytes \<Rightarrow> bytes \<Rightarrow> string + bytes" where
  "DecryptMetaOnly P recipientPriv ephemeralPubkey encryptedMessageKey encryptedMeta =
     bind_res (unwrap32 P recipientPriv ephemeralPubkey encryptedMessageKey) (\<lambda>messageKey.
     wrap_res ''decrypt meta'' (openXChaCha20 P messageKey encryptedMeta (str_bytes ''raw-meta'')))"

definition RewrapMessageKey :: "crypto_platform \<Rightarrow> bytes \<Rightarrow> bytes \<Rightarrow> bytes \<Rightarrow> bytes \<Rightarrow> (bytes \<times> bytes) cr" where
  "RewrapMessageKey P originalEphPubBytes originalEncMsgKey senderPriv recipientPub =
     bindm (liftm (unwrap32 P senderPriv originalEphPubBytes originalEncMsgKey)) (\<lambda>ak.
     classicalWrap P recipientPub ak)"

definition EncryptMessageHybrid :: "crypto_platform \<Rightarrow> bytes \<Rightarrow> bytes option \<Rightarrow> bytes \<Rightarrow> bytes \<Rightarrow> EncryptedMessage cr" where
  "EncryptMessageHybrid P recipientPub kemEK subject body =
     bindm (wrapm ''generate message key'' (secureKey 32)) (\<lambda>messageKey.
     bindm (wrapEnvelope P recipientPub kemEK messageKey) (\<lambda>(envelopeKey, encryptedMessageKey).
     bindm (wrapm ''encrypt body'' (sealXChaCha20 P messageKey body (str_bytes ''body''))) (\<lambda>encryptedBody.
     bindm (wrapm ''encrypt subject'' (sealXChaCha20 P messageKey subject (str_bytes ''subject''))) (\<lambda>encryptedSubject.
     retm \<lparr>em_EphemeralPubkey = envelopeKey, em_EncryptedMessageKey = encryptedMessageKey,
           em_EncryptedBody = encryptedBody, em_EncryptedSubject = encryptedSubject, em_EncryptedHeaders = []\<rparr>))))"

definition EncryptMessageWithHeadersHybrid ::
    "crypto_platform \<Rightarrow> bytes \<Rightarrow> bytes option \<Rightarrow> bytes \<Rightarrow> bytes \<Rightarrow> bytes option \<Rightarrow> EncryptedMessage cr" where
  "EncryptMessageWithHeadersHybrid P recipientPub kemEK subject body headers =
     bindm (wrapm ''generate message key'' (secureKey 32)) (\<lambda>messageKey.
     bindm (wrapEnvelope P recipientPub kemEK messageKey) (\<lambda>(envelopeKey, encryptedMessageKey).
     bindm (wrapm ''encrypt body'' (sealXChaCha20 P messageKey body (str_bytes ''body''))) (\<lambda>encryptedBody.
     bindm (wrapm ''encrypt subject'' (sealXChaCha20 P messageKey subject (str_bytes ''subject''))) (\<lambda>encryptedSubject.
     bindm (seal_headers P messageKey headers) (\<lambda>encryptedHeaders.
     retm \<lparr>em_EphemeralPubkey = envelopeKey, em_EncryptedMessageKey = encryptedMessageKey,
           em_EncryptedBody = encryptedBody, em_EncryptedSubject = encryptedSubject,
           em_EncryptedHeaders = encryptedHeaders\<rparr>)))))"

definition DecryptMessageAuto :: "crypto_platform \<Rightarrow> bytes \<Rightarrow> bytes option \<Rightarrow> EncryptedMessage \<Rightarrow> string + bytes \<times> bytes" where
  "DecryptMessageAuto P recipientPriv kemDK msg =
     bind_res (unwrapEnvelope P recipientPriv kemDK (em_EphemeralPubkey msg) (em_EncryptedMessageKey msg)) (\<lambda>messageKey.
     bind_res (wrap_res ''decrypt body'' (openXChaCha20 P messageKey (em_EncryptedBody msg) (str_bytes ''body''))) (\<lambda>body.
     bind_res (open_subject P messageKey msg) (\<lambda>subject. Inr (subject, body))))"

definition DecryptSubjectOnlyAuto :: "crypto_platform \<Rightarrow> bytes \<Rightarrow> bytes option \<Rightarrow> bytes \<Rightarrow> bytes \<Rightarrow> bytes \<Rightarrow> string + bytes" where
  "DecryptSubjectOnlyAuto P recipientPriv kemDK envelopeKey encryptedMessageKey encryptedSubject =
     bind_res (unwrapEnvelope P recipientPriv kemDK envelopeKey encryptedMessageKey) (\<lambda>messageKey.
     wrap_res ''decrypt subject'' (openXChaCha20 P messageKey encryptedSubject (str_bytes ''subject'')))"

definition DecryptHeadersAuto :: "crypto_platform \<Rightarrow> bytes \<Rightarrow> bytes option \<Rightarrow> bytes \<Rightarrow> bytes \<Rightarrow> bytes \<Rightarrow> string + bytes" where
  "DecryptHeadersAuto P recipientPriv kemDK envelopeKey encryptedMessageKey encryptedHeaders =
     (if encryptedHeaders = [] then Inl ''encrypted headers are empty''
      else bind_res (unwrapEnvelope P recipientPriv kemDK envelopeKey encryptedMessageKey) (\<lambda>messageKey.
        wrap_res ''decrypt headers'' (openXChaCha20 P messageKey encryptedHeaders (str_bytes ''headers''))))"

definition DecryptMetaOnlyAuto :: "crypto_platform \<Rightarrow> bytes \<Rightarrow> bytes option \<Rightarrow> bytes \<Rightarrow> bytes \<Rightarrow> bytes \<Rightarrow> string + bytes" where
  "DecryptMetaOnlyAuto P recipientPriv kemDK envelopeKey encryptedMessageKey encryptedMeta =
     bind_res (unwrapEnvelope P recipientPriv kemDK envelopeKey encryptedMessageKey) (\<lambda>messageKey.
     wrap_res ''decrypt meta'' (openXChaCha20 P messageKey encryptedMeta (str_bytes ''raw-meta'')))"

definition DecryptRawMessageAuto ::
    "crypto_platform \<Rightarrow> bytes \<Rightarrow> bytes option \<Rightarrow> EncryptedMessage \<Rightarrow> string \<Rightarrow> bytes \<Rightarrow> string + bytes \<times> bytes" where
  "DecryptRawMessageAuto P recipientPriv kemDK msg format encryptedMeta =
     bind_res (unwrapEnvelope P recipientPriv kemDK (em_EphemeralPubkey msg) (em_EncryptedMessageKey msg)) (\<lambda>messageKey.
     bind_res (open_raw_body P messageKey msg format) (\<lambda>body.
     Inr (body, open_raw_meta P messageKey encryptedMeta)))"

definition RewrapMessageKeyHybrid ::
    "crypto_platform \<Rightarrow> bytes \<Rightarrow> bytes \<Rightarrow> bytes \<Rightarrow> bytes option \<Rightarrow> bytes \<Rightarrow> bytes option \<Rightarrow> (bytes \<times> bytes) cr" where
  "RewrapMessageKeyHybrid P originalEnvelopeKey originalEncMsgKey senderPriv senderKEMDK recipientPub recipientKEMEK =
     bindm (liftm (wrap_res ''unwrap'' (unwrapEnvelope P senderPriv senderKEMDK originalEnvelopeKey originalEncMsgKey))) (\<lambda>ak.
     wrapm ''rewrap'' (wrapEnvelope P recipientPub recipientKEMEK ak))"

definition seal_raw_body :: "crypto_platform \<Rightarrow> bytes \<Rightarrow> bytes \<Rightarrow> int \<Rightarrow> bytes cr" where
  "seal_raw_body P messageKey rawMessage chunkSize =
     (if chunkSize > 0 then liftm (wrap_res ''encrypt body (chunked)'' (EncryptChunked P messageKey rawMessage chunkSize))
      else wrapm ''encrypt body'' (sealXChaCha20 P messageKey rawMessage (str_bytes ''body'')))"

definition EncryptRawMessageWithMetaHybrid ::
    "crypto_platform \<Rightarrow> bytes \<Rightarrow> bytes option \<Rightarrow> bytes \<Rightarrow> bytes \<Rightarrow> int \<Rightarrow> EncryptedRawMessage cr" where
  "EncryptRawMessageWithMetaHybrid P recipientPub kemEK rawMessage metadata chunkSize =
     bindm (wrapm ''generate message key'' (secureKey 32)) (\<lambda>messageKey.
     bindm (wrapEnvelope P recipientPub kemEK messageKey) (\<lambda>(envelopeKey, encryptedMessageKey).
     bindm (seal_raw_body P messageKey rawMessage chunkSize) (\<lambda>encryptedBody.
     bindm (wrapm ''encrypt metadata'' (sealXChaCha20 P messageKey metadata (str_bytes ''raw-meta''))) (\<lambda>encryptedMeta.
     retm \<lparr>er_Message = \<lparr>em_EphemeralPubkey = envelopeKey, em_EncryptedMessageKey = encryptedMessageKey,
                          em_EncryptedBody = encryptedBody, em_EncryptedSubject = [], em_EncryptedHeaders = []\<rparr>,
           er_EncryptedMeta = encryptedMeta\<rparr>))))"

definition EncryptRawMessageWithMeta :: "crypto_platform \<Rightarrow> bytes \<Rightarrow> bytes \<Rightarrow> bytes \<Rightarrow> int \<Rightarrow> EncryptedRawMessage cr" where
  "EncryptRawMessageWithMeta P recipientPub rawMessage metadata chunkSize =
     bindm (wrapm ''generate message key'' (secureKey 32)) (\<lambda>messageKey.
     bindm (classicalWrap P recipientPub messageKey) (\<lambda>(ephPubBytes, encryptedMessageKey).
     bindm (seal_raw_body P messageKey rawMessage chunkSize) (\<lambda>encryptedBody.
     bindm (wrapm ''encrypt metadata'' (sealXChaCha20 P messageKey metadata (str_bytes ''raw-meta''))) (\<lambda>encryptedMeta.
     retm \<lparr>er_Message = \<lparr>em_EphemeralPubkey = ephPubBytes, em_EncryptedMessageKey = encryptedMessageKey,
                          em_EncryptedBody = encryptedBody, em_EncryptedSubject = [], em_EncryptedHeaders = []\<rparr>,
           er_EncryptedMeta = encryptedMeta\<rparr>))))"

definition EncryptMessageChunkedBody :: "crypto_platform \<Rightarrow> bytes \<Rightarrow> bytes \<Rightarrow> bytes \<Rightarrow> int \<Rightarrow> EncryptedMessage cr" where
  "EncryptMessageChunkedBody P recipientPub subject body chunkSize =
     bindm (wrapm ''generate message key'' (secureKey 32)) (\<lambda>messageKey.
     bindm (classicalWrap P recipientPub messageKey) (\<lambda>(ephPubBytes, encryptedMessageKey).
     bindm (liftm (wrap_res ''encrypt body (chunked)'' (EncryptChunked P messageKey body chunkSize))) (\<lambda>encryptedBody.
     bindm (wrapm ''encrypt subject'' (sealXChaCha20 P messageKey subject (str_bytes ''subject''))) (\<lambda>encryptedSubject.
     retm \<lparr>em_EphemeralPubkey = ephPubBytes, em_EncryptedMessageKey = encryptedMessageKey,
           em_EncryptedBody = encryptedBody, em_EncryptedSubject = encryptedSubject, em_EncryptedHeaders = []\<rparr>))))"

subsection \<open>Group secrets\<close>

definition MLKEMDecapsulationKeySize :: nat where
  "MLKEMDecapsulationKeySize = 64"

definition MLKEMEncapsulationKeySize :: nat where
  "MLKEMEncapsulationKeySize = 1184"

definition GroupSecretBlobSize :: nat where
  "GroupSecretBlobSize = 32 + MLKEMDecapsulationKeySize"

definition MLKEMEncapsulationKeyFromBytes :: "crypto_platform \<Rightarrow> bytes \<Rightarrow> string + bytes" where
  "MLKEMEncapsulationKeyFromBytes P b =
     (if length b \<noteq> MLKEMEncapsulationKeySize then Inl ''ML-KEM encapsulation key must be 1184 bytes''
      else if \<not> cp_ek_ok P b then Inl ''parse ML-KEM encapsulation key'' else Inr b)"

definition MLKEMDecapsulationKeyFromBytes :: "crypto_platform \<Rightarrow> bytes \<Rightarrow> string + bytes" where
  "MLKEMDecapsulationKeyFromBytes P seed =
     (if length seed \<noteq> MLKEMDecapsulationKeySize then Inl ''ML-KEM decapsulation key seed must be 64 bytes''
      else if \<not> cp_dk_ok P seed then Inl ''parse ML-KEM decapsulation key'' else Inr seed)"

definition MarshalGroupSecret :: "bytes \<Rightarrow> bytes \<Rightarrow> string + bytes" where
  "MarshalGroupSecret x25519Priv kemSeed =
     (if length x25519Priv \<noteq> 32 then Inl ''group secret: x25519 private must be 32 bytes''
      else if length kemSeed \<noteq> MLKEMDecapsulationKeySize then Inl ''group secret: kem seed must be 64 bytes''
      else Inr (x25519Priv @ kemSeed))"

definition UnmarshalGroupSecret :: "bytes \<Rightarrow> string + bytes \<times> bytes" where
  "UnmarshalGroupSecret blob =
     (if length blob \<noteq> GroupSecretBlobSize then Inl ''group secret blob must be 96 bytes''
      else Inr (take 32 blob, drop 32 blob))"

definition WrapGroupSecret :: "crypto_platform \<Rightarrow> bytes \<Rightarrow> bytes \<Rightarrow> bytes \<Rightarrow> (bytes \<times> bytes) cr" where
  "WrapGroupSecret P memberX25519Pub memberKemEK secret =
     bindm (liftm (wrap_res ''parse member x25519 public key'' (newPublicKey memberX25519Pub))) (\<lambda>pub.
     bindm (if memberKemEK \<noteq> [] then liftm (map_sum id Some (MLKEMEncapsulationKeyFromBytes P memberKemEK)) else retm None) (\<lambda>ek.
     wrapEnvelope P pub ek secret))"

definition UnwrapGroupSecret :: "crypto_platform \<Rightarrow> bytes \<Rightarrow> bytes \<Rightarrow> bytes \<Rightarrow> bytes \<Rightarrow> string + bytes" where
  "UnwrapGroupSecret P myX25519Priv myKemSeed kemOutput wrapped =
     bind_res (wrap_res ''parse member x25519 private key'' (newPrivateKey myX25519Priv)) (\<lambda>priv.
     bind_res (if myKemSeed \<noteq> [] then map_sum id Some (MLKEMDecapsulationKeyFromBytes P myKemSeed) else Inr None) (\<lambda>dk.
     unwrapEnvelope P priv dk kemOutput wrapped))"

end
