(* ===== verification/Crypto_Props.thy ===== *)
theory Crypto_Props
  imports Message_Crypto
begin

text \<open>
  Correctness of message encryption: what is encrypted for a recipient decrypts with the recipient's
  keys through every decryption function, a rewrapped key opens the same message, the classical
  functions agree with the hybrid-aware ones, chunked blobs round-trip as a whole and chunk by
  chunk, and nonces do not repeat when the random source does.
\<close>

subsection \<open>Envelopes\<close>

lemma bindm_assoc: "bindm (bindm m f) g = bindm m (\<lambda>x. bindm (f x) g)"
  by (rule ext) (auto simp: bindm_def split: prod.splits sum.splits)

lemma bindm_ret [simp]: "bindm (retm x) f = f x"
  by (rule ext) (simp add: bindm_def retm_def)

text \<open>The keys of a recipient: the private ones held, the public ones published.\<close>

definition keys_match :: "crypto_platform \<Rightarrow> bytes \<Rightarrow> bytes option \<Rightarrow> bytes \<Rightarrow> bytes option \<Rightarrow> bool" where
  "keys_match P priv kemDK pub kemEK =
     (pub = cp_pub P priv \<and> (kemEK = None \<or> (\<exists>dk. kemDK = Some dk \<and> kemEK = Some (cp_ek P dk))))"

lemma ecdh_agree:
  assumes "dh_laws P" "ecdh_res P a (cp_pub P b) = Inr s"
  shows "ecdh_res P b (cp_pub P a) = Inr s"
proof -
  have "cp_ecdh P a (cp_pub P b) = Some s" using assms(2) by (simp add: ecdh_res_def split: option.splits)
  then have "cp_ecdh P b (cp_pub P a) = Some s" using assms(1) unfolding dh_laws_def by blast
  then show ?thesis by (simp add: ecdh_res_def)
qed

lemma classical_wrap_unwrap:
  assumes "crypto_laws P" "classicalWrap P (cp_pub P priv) mk st = (Inr (e, w), st')"
  shows "classicalUnwrap P priv e w = Inr mk" "length e = 32"
proof -
  have laws: "aead_laws P" "dh_laws P" using assms(1) by (auto simp: crypto_laws_def)
  obtain eph ss dk st1 st2 where e: "e = cp_pub P eph" "ecdh_res P eph (cp_pub P priv) = Inr ss"
    "deriveKey P ss e ''message-key-wrap'' = Inr dk" "sealXChaCha20 P dk mk e st1 = (Inr w, st2)"
    using assms(2) by (auto simp: classicalWrap_def Let_def elim!: bindm_InrE)
  show len: "length e = 32" using laws(2) e(1) by (simp add: dh_laws_def)
  show "classicalUnwrap P priv e w = Inr mk"
    using seal_open [OF laws(1) e(4)] ecdh_agree [OF laws(2) e(2)] e(1,3) len
    by (simp add: classicalUnwrap_def newPublicKey_def)
qed

lemma hybrid_wrap_unwrap:
  assumes "crypto_laws P" "hybridWrap P (cp_pub P priv) (cp_ek P dk) mk st = (Inr (e, w), st')"
  shows "hybridUnwrap P priv dk e w = Inr mk" "length e = 1121" "e ! 0 = EnvelopeVersionHybrid"
proof -
  have laws: "aead_laws P" "dh_laws P" "kem_laws P" using assms(1) by (auto simp: crypto_laws_def)
  obtain eph ss r kss ct wk st1 st2 where e: "e = EnvelopeVersionHybrid # cp_pub P eph @ ct"
    "ecdh_res P eph (cp_pub P priv) = Inr ss" "cp_encaps P (cp_ek P dk) r = (kss, ct)"
    "deriveKey P (ss @ kss) (cp_pub P eph @ ct) ''message-key-wrap-v2'' = Inr wk"
    "sealXChaCha20 P wk mk e st1 = (Inr w, st2)"
    using assms(2) by (auto simp: hybridWrap_def Let_def split: prod.splits elim!: bindm_InrE)
  have kem: "cp_decaps P dk ct = Some kss" "length ct = 1088" using laws(3) e(3) by (auto simp: kem_laws_def)
  have pub: "length (cp_pub P eph) = 32" using laws(2) by (simp add: dh_laws_def)
  show len: "length e = 1121" using e(1) kem(2) pub by simp
  show ver: "e ! 0 = EnvelopeVersionHybrid" using e(1) by simp
  have "take 32 (drop 1 e) = cp_pub P eph" "drop 33 e = ct" "drop 1 e = cp_pub P eph @ ct" using e(1) pub by simp_all
  then show "hybridUnwrap P priv dk e w = Inr mk"
    using seal_open [OF laws(1) e(5)] ecdh_agree [OF laws(2) e(2)] e(4) kem len ver pub
    by (simp add: hybridUnwrap_def HybridEnvelopeKeySize_def newPublicKey_def Let_def)
qed

lemma wrap_unwrap:
  assumes "crypto_laws P" "keys_match P priv kemDK pub kemEK" "wrapEnvelope P pub kemEK mk st = (Inr (e, w), st')"
  shows "unwrapEnvelope P priv kemDK e w = Inr mk" "kemEK = None \<Longrightarrow> unwrap32 P priv e w = Inr mk"
proof -
  show "unwrapEnvelope P priv kemDK e w = Inr mk"
  proof (cases kemEK)
    case None
    then show ?thesis using assms classical_wrap_unwrap [OF assms(1), of priv mk st e w st']
      by (simp add: wrapEnvelope_def keys_match_def unwrapEnvelope_def classicalEphKeySize_def)
  next
    case (Some ek)
    then obtain dk where "kemDK = Some dk" "ek = cp_ek P dk" "pub = cp_pub P priv"
      using assms(2) by (auto simp: keys_match_def)
    then show ?thesis using Some assms(3) hybrid_wrap_unwrap [OF assms(1), of priv dk mk st e w st']
      by (simp add: wrapEnvelope_def unwrapEnvelope_def classicalEphKeySize_def HybridEnvelopeKeySize_def)
  qed
  show "unwrap32 P priv e w = Inr mk" if "kemEK = None"
    using that assms classical_wrap_unwrap [OF assms(1), of priv mk st e w st']
    by (simp add: wrapEnvelope_def keys_match_def unwrap32_def)
qed

lemma seal_nonempty: "aead_laws P \<Longrightarrow> sealXChaCha20 P k p a st = (Inr c, st') \<Longrightarrow> c \<noteq> []"
  using seal_open(3) by fastforce

lemma encrypt_headers_parts:
  assumes "EncryptMessageWithHeadersHybrid P pub kemEK subject body headers st = (Inr msg, st')"
  obtains mk s0 s1 b0 b1 j0 j1 h0 h1 where
    "wrapEnvelope P pub kemEK mk s0 = (Inr (em_EphemeralPubkey msg, em_EncryptedMessageKey msg), s1)"
    "sealXChaCha20 P mk body (str_bytes ''body'') b0 = (Inr (em_EncryptedBody msg), b1)"
    "sealXChaCha20 P mk subject (str_bytes ''subject'') j0 = (Inr (em_EncryptedSubject msg), j1)"
    "seal_headers P mk headers h0 = (Inr (em_EncryptedHeaders msg), h1)"
  using assms unfolding EncryptMessageWithHeadersHybrid_def
  by (auto simp: split_beta elim!: bindm_InrE)

subsection \<open>Chunks\<close>

lemma decrypt_concat:
  assumes nonce: "\<forall>j < M. \<exists>n. deriveChunkNonce P k j = Inr n \<and> cp_open P k n (sealed j) (chunkAAD j) = Some (chunk j)"
    and full: "\<forall>j. Suc j < M \<longrightarrow> length (sealed j) = cs + ChunkTagSize"
    and bound: "\<forall>j < M. 0 < length (sealed j) \<and> length (sealed j) \<le> cs + ChunkTagSize"
    and small: "M * (cs + ChunkTagSize) < 2 ^ 63" and i: "i \<le> M"
  shows "decrypt_chunks P k (concat (map sealed [0..<M])) cs i acc = Inr (acc @ concat (map chunk [i..<M]))"
  using i
proof (induction "M - i" arbitrary: i acc)
  case 0
  let ?st = "cs + ChunkTagSize"
  have "length (concat (map sealed [0..<m])) \<le> m * ?st" if "m \<le> M" for m
    using that bound by (induction m) (auto simp: add.commute add_mono)
  from this [of M] have "length (concat (map sealed [0..<M])) \<le> M * ?st" by simp
  then show ?case using 0 by (subst decrypt_chunks.simps) (simp add: Let_def)
next
  case (Suc r)
  let ?st = "cs + ChunkTagSize" and ?blob = "concat (map sealed [0..<M])"
  have iM: "i < M" using Suc by simp
  have pre: "length (concat (map sealed [0..<m])) = m * ?st" if "m < M" for m
    using that full by (induction m) (auto simp: add.commute)
  have split: "?blob = concat (map sealed [0..<i]) @ sealed i @ concat (map sealed [Suc i..<M])"
  proof -
    have "[0..<M] = [0..<i] @ i # [Suc i..<M]"
      using iM by (metis le_add1 less_imp_le plus_nat.add_0 upt_add_eq_append upt_conv_Cons le_add_diff_inverse)
    then show ?thesis by simp
  qed
  have drop_i: "drop (i * ?st) ?blob = sealed i @ concat (map sealed [Suc i..<M])"
    unfolding split using pre [OF iM] by simp
  have ne: "i * ?st < length ?blob" unfolding split using pre [OF iM] bound iM by simp
  have chunk_i: "take (min (i * ?st + ?st) (length ?blob) - i * ?st) (drop (i * ?st) ?blob) = sealed i"
  proof (cases "Suc i < M")
    case True
    then have "length (sealed i) = ?st" using full by blast
    moreover have "i * ?st + ?st \<le> length ?blob" unfolding split using pre [OF iM] calculation by simp
    ultimately show ?thesis unfolding drop_i by (simp add: min_def)
  next
    case False
    then have "i = M - 1" using iM by simp
    then have "concat (map sealed [Suc i..<M]) = []" using iM by simp
    moreover have "length ?blob - i * ?st = length (sealed i)" unfolding split using pre [OF iM] calculation by simp
    ultimately show ?thesis unfolding drop_i using bound iM by (auto simp: min_def)
  qed
  obtain n where n: "deriveChunkNonce P k i = Inr n" "cp_open P k n (sealed i) (chunkAAD i) = Some (chunk i)"
    using nonce iM by blast
  have "Suc i * ?st \<le> M * ?st" using iM by (meson Suc_leI mult_le_mono1)
  then have lim: "i * ?st + ?st < 2 ^ 63" using small by simp
  have "decrypt_chunks P k ?blob cs i acc = decrypt_chunks P k ?blob cs (i + 1) (acc @ chunk i)"
    using ne lim chunk_i n by (subst decrypt_chunks.simps) (simp add: Let_def)
  also have "\<dots> = Inr ((acc @ chunk i) @ concat (map chunk [i + 1..<M]))" using Suc iM by simp
  finally show ?case using iM by (simp add: upt_conv_Cons)
qed

definition chunk_of :: "bytes \<Rightarrow> nat \<Rightarrow> nat \<Rightarrow> bytes" where
  "chunk_of p cs j = take cs (drop (j * cs) p)"

definition sealed_chunk :: "crypto_platform \<Rightarrow> bytes \<Rightarrow> bytes \<Rightarrow> nat \<Rightarrow> nat \<Rightarrow> bytes" where
  "sealed_chunk P k p cs j =
     cp_seal P k (case deriveChunkNonce P k j of Inr n \<Rightarrow> n | Inl _ \<Rightarrow> []) (chunk_of p cs j) (chunkAAD j)"

lemma encrypt_chunks_result:
  "encrypt_chunks P k p cs i n out = Inr blob \<Longrightarrow>
     blob = out @ concat (map (sealed_chunk P k p cs) [i..<i + n]) \<and> (\<forall>j. i \<le> j \<and> j < i + n \<longrightarrow> (\<exists>x. deriveChunkNonce P k j = Inr x))"
proof (induction n arbitrary: i out)
  case (Suc n)
  obtain x where x: "deriveChunkNonce P k i = Inr x"
    using Suc.prems by (auto simp: Let_def bind_res_Inr_iff)
  have "take (min (i * cs + cs) (length p) - i * cs) (drop (i * cs) p) = chunk_of p cs i"
    by (auto simp: chunk_of_def min_def)
  then have "encrypt_chunks P k p cs (i + 1) n (out @ sealed_chunk P k p cs i) = Inr blob"
    using Suc.prems x by (simp add: Let_def sealed_chunk_def)
  note IH = Suc.IH [OF this]
  have "\<exists>y. deriveChunkNonce P k j = Inr y" if "i \<le> j \<and> j < i + Suc n" for j
    using IH x that by (cases "j = i") auto
  moreover have "[i..<i + Suc n] = i # [i + 1..<i + 1 + n]" by (simp add: upt_conv_Cons)
  ultimately show ?case using IH by simp
qed auto

lemma concat_chunks: "concat (map (chunk_of p cs) [0..<M]) = take (M * cs) p"
proof (induction M)
  case (Suc M)
  then show ?case by (simp add: chunk_of_def take_add add.commute [of cs])
qed simp

text \<open>How many chunks a plaintext of a given length has, in the code's arithmetic.\<close>

definition chunk_count :: "nat \<Rightarrow> nat \<Rightarrow> nat" where
  "chunk_count len cs = (if len = 0 then 1 else (len + cs - 1) div cs)"

lemma numChunks_eq:
  assumes "0 < cs" "len + cs < 2 ^ 63"
  shows "nat (let q = goDiv (goInt (goInt (int len + int cs) - 1)) (int cs) in if q = 0 then 1 else q) = chunk_count len cs"
proof -
  have "goInt (int len + int cs) = int len + int cs" using assms by simp
  moreover have "goInt (int len + int cs - 1) = int (len + cs - 1)" using assms by simp
  moreover have "goDiv (int (len + cs - 1)) (int cs) = int ((len + cs - 1) div cs)"
    using assms(1) by (simp add: zdiv_int)
  moreover have "(len + cs - 1) div cs = 0 \<longleftrightarrow> len = 0" using assms(1) by (auto simp: div_eq_0_iff)
  ultimately show ?thesis by (auto simp: chunk_count_def Let_def)
qed

lemma chunk_count_bounds:
  assumes "0 < cs"
  shows "len \<le> chunk_count len cs * cs" "Suc j < chunk_count len cs \<Longrightarrow> Suc j * cs \<le> len"
proof -
  show "len \<le> chunk_count len cs * cs"
  proof (cases "len = 0")
    case False
    have "len + cs - 1 < cs + (len + cs - 1) div cs * cs" by (rule dividend_less_div_times [OF assms])
    then show ?thesis using False by (simp add: chunk_count_def)
  qed simp
  show "Suc j * cs \<le> len" if "Suc j < chunk_count len cs"
  proof -
    have "len \<noteq> 0" and "Suc (Suc j) \<le> (len + cs - 1) div cs" using that by (auto simp: chunk_count_def split: if_splits)
    then have "Suc (Suc j) * cs \<le> len + cs - 1" using assms by (meson div_times_less_eq_dividend le_trans mult_le_mono1)
    then show ?thesis using assms by simp
  qed
qed

lemma chunked_parts:
  assumes enc: "EncryptChunked P k p chunkSize = Inr blob" and cs: "cs = effective_chunk chunkSize"
    and small: "length p + cs < 2 ^ 63"
  shows "blob = concat (map (sealed_chunk P k p cs) [0..<chunk_count (length p) cs])" "length k = 32" "0 < cs"
    and "\<forall>j < chunk_count (length p) cs. \<exists>x. deriveChunkNonce P k j = Inr x"
proof -
  show pos: "0 < cs" by (simp add: cs effective_chunk_def DefaultChunkSize_def)
  show "length k = 32" using enc by (simp add: EncryptChunked_def Let_def split: if_splits)
  have "encrypt_chunks P k p cs 0 (chunk_count (length p) cs) [] = Inr blob"
    using enc numChunks_eq [OF pos small] cs by (simp add: EncryptChunked_def Let_def split: if_splits)
  from encrypt_chunks_result [OF this]
  show "blob = concat (map (sealed_chunk P k p cs) [0..<chunk_count (length p) cs])"
    "\<forall>j < chunk_count (length p) cs. \<exists>x. deriveChunkNonce P k j = Inr x" by auto
qed

text \<open>Any number of leading chunks decrypts to the corresponding prefix of the plaintext.\<close>

lemma decrypt_prefix:
  assumes laws: "crypto_laws P" and enc: "EncryptChunked P k p chunkSize = Inr blob" and cs: "cs = effective_chunk chunkSize"
    and small: "length p + cs < 2 ^ 63" and M: "M \<le> chunk_count (length p) cs" "M * (cs + ChunkTagSize) < 2 ^ 63"
  shows "DecryptChunked P k (concat (map (sealed_chunk P k p cs) [0..<M])) chunkSize = Inr (take (M * cs) p)"
proof -
  note parts = chunked_parts [OF enc cs small]
  have laws': "aead_laws P" "hkdf_laws P" using laws by (auto simp: crypto_laws_def)
  have open_j: "\<exists>n. deriveChunkNonce P k j = Inr n \<and> cp_open P k n (sealed_chunk P k p cs j) (chunkAAD j) = Some (chunk_of p cs j)
      \<and> length (sealed_chunk P k p cs j) = length (chunk_of p cs j) + 16" if j: "j < M" for j
  proof -
    obtain n where n: "deriveChunkNonce P k j = Inr n" using parts(4) less_le_trans [OF j M(1)] by blast
    then have "length n = 24" using laws'(2) by (auto simp: deriveChunkNonce_def hkdf_laws_def split: option.splits)
    then show ?thesis using n parts(2) laws'(1) by (auto simp: sealed_chunk_def aead_laws_def)
  qed
  have "length (chunk_of p cs j) = cs" if "Suc j < M" for j
    using chunk_count_bounds(2) [OF parts(3), of j "length p"] that M(1) by (simp add: chunk_of_def)
  then have full: "\<forall>j. Suc j < M \<longrightarrow> length (sealed_chunk P k p cs j) = cs + ChunkTagSize"
    using open_j by (metis ChunkTagSize_def Suc_lessD)
  have bound: "\<forall>j < M. 0 < length (sealed_chunk P k p cs j) \<and> length (sealed_chunk P k p cs j) \<le> cs + ChunkTagSize"
  proof (intro allI impI)
    fix j assume "j < M"
    then have "length (sealed_chunk P k p cs j) = length (chunk_of p cs j) + 16" using open_j by blast
    then show "0 < length (sealed_chunk P k p cs j) \<and> length (sealed_chunk P k p cs j) \<le> cs + ChunkTagSize"
      by (simp add: ChunkTagSize_def chunk_of_def)
  qed
  have "decrypt_chunks P k (concat (map (sealed_chunk P k p cs) [0..<M])) cs 0 [] = Inr ([] @ concat (map (chunk_of p cs) [0..<M]))"
    by (rule decrypt_concat [OF _ full bound M(2)]) (use open_j in blast, simp)
  then show ?thesis using parts(2) cs by (simp add: DecryptChunked_def concat_chunks)
qed

text \<open>
  All stored chunks but the last have the same length, so the stored chunk \<open>j\<close> is found at
  \<open>j * (cs + 16)\<close> and the first \<open>M\<close> of them are a prefix of the blob.
\<close>

lemma stored_chunks:
  assumes laws: "crypto_laws P" and enc: "EncryptChunked P k p chunkSize = Inr blob" and cs: "cs = effective_chunk chunkSize"
    and small: "length p + cs < 2 ^ 63" and M: "M < chunk_count (length p) cs"
  shows "take (M * (cs + ChunkTagSize)) blob = concat (map (sealed_chunk P k p cs) [0..<M])"
    and "take (cs + ChunkTagSize) (drop (M * (cs + ChunkTagSize)) blob) = sealed_chunk P k p cs M"
    and "DecryptChunk P k M (sealed_chunk P k p cs M) = Inr (chunk_of p cs M)"
proof -
  note parts = chunked_parts [OF enc cs small]
  let ?N = "chunk_count (length p) cs" and ?st = "cs + ChunkTagSize" and ?s = "sealed_chunk P k p cs"
  have laws': "aead_laws P" "hkdf_laws P" using laws by (auto simp: crypto_laws_def)
  have len: "length (?s j) = length (chunk_of p cs j) + ChunkTagSize \<and> DecryptChunk P k j (?s j) = Inr (chunk_of p cs j)"
    if jN: "j < ?N" for j
  proof -
    obtain n where n: "deriveChunkNonce P k j = Inr n" using parts(4) jN by blast
    then have "length n = 24" using laws'(2) by (auto simp: deriveChunkNonce_def hkdf_laws_def split: option.splits)
    then show ?thesis using n parts(2) laws'(1)
      by (auto simp: sealed_chunk_def aead_laws_def ChunkTagSize_def DecryptChunk_def)
  qed
  have full: "length (?s j) = ?st" if "Suc j < ?N" for j
    using chunk_count_bounds(2) [OF parts(3) that] len [of j] that by (simp add: chunk_of_def)
  have pre: "length (concat (map ?s [0..<m])) = m * ?st" if "m < ?N" for m
    using that by (induction m) (simp_all add: full add.commute)
  have "[0..<?N] = [0..<M] @ M # [Suc M..<?N]"
    using M by (metis le_add1 less_imp_le plus_nat.add_0 upt_add_eq_append upt_conv_Cons le_add_diff_inverse)
  then have split: "blob = concat (map ?s [0..<M]) @ ?s M @ concat (map ?s [Suc M..<?N])" using parts(1) by simp
  show "take (M * ?st) blob = concat (map ?s [0..<M])" unfolding split using pre [OF M] by simp
  show "take ?st (drop (M * ?st) blob) = ?s M"
  proof (cases "Suc M < ?N")
    case True
    then show ?thesis unfolding split using pre [OF M] full by simp
  next
    case False
    then have "concat (map ?s [Suc M..<?N]) = []" by simp
    moreover have "length (?s M) \<le> ?st" using len [OF M] by (simp add: chunk_of_def)
    ultimately show ?thesis unfolding split using pre [OF M] by simp
  qed
  show "DecryptChunk P k M (?s M) = Inr (chunk_of p cs M)" using len M by blast
qed

subsection \<open>Blob format strings\<close>

lemma format_roundtrip: "0 < n \<Longrightarrow> n < 2 ^ 63 \<Longrightarrow> ParseRawBlobFormat (RawBlobFormatChunked n) = (True, n)"
proof -
  assume n: "0 < n" "n < 2 ^ 63"
  have "scan_int (dec_digits (nat n) @ '')'') = Some (int (nat n))"
    by (rule scan_dec_digits) (use n in simp)
  then show ?thesis using n
    by (simp add: ParseRawBlobFormat_def RawBlobFormatChunked_def hasPrefix_def showInt_def)
qed

lemma format_single: "ParseRawBlobFormat RawBlobFormatSingle = (False, 0)"
  by (simp add: ParseRawBlobFormat_def RawBlobFormatSingle_def chunked_prefix_def hasPrefix_def)

lemma raw_body_roundtrip:
  assumes laws: "crypto_laws P" and enc: "seal_raw_body P k raw cs st = (Inr c, st')"
    and fmt: "format = (if cs > 0 then RawBlobFormatChunked cs else RawBlobFormatSingle)"
    and msg: "em_EncryptedBody msg = c"
    and small: "cs < 2 ^ 63" "0 < cs \<Longrightarrow> length raw + nat cs < 2 ^ 63"
      "0 < cs \<Longrightarrow> chunk_count (length raw) (nat cs) * (nat cs + ChunkTagSize) < 2 ^ 63"
  shows "open_raw_body P k msg format = Inr raw"
proof (cases "cs > 0")
  case True
  let ?cs = "effective_chunk cs"
  have cs: "?cs = nat cs" using True by (simp add: effective_chunk_def)
  have e: "EncryptChunked P k raw cs = Inr c" using enc True by (simp add: seal_raw_body_def)
  note len = small(2) [OF True, folded cs] and cnt = small(3) [OF True, folded cs]
  note parts = chunked_parts [OF e refl len]
  have "DecryptChunked P k c cs = Inr (take (chunk_count (length raw) ?cs * ?cs) raw)"
    using decrypt_prefix [OF laws e refl len order_refl cnt] parts(1) by simp
  then have "DecryptChunked P k c cs = Inr raw" using chunk_count_bounds(1) [OF parts(3), of "length raw"] by simp
  then show ?thesis using True small(1) msg by (simp add: open_raw_body_def fmt format_roundtrip)
next
  case False
  then show ?thesis using enc msg laws seal_open(1) [of P k raw]
    by (auto simp: open_raw_body_def fmt format_single seal_raw_body_def crypto_laws_def)
qed

subsection \<open>Nonces\<close>

lemma le_word_bytes: "le_word (le_bytes n w) = take_bit (8 * n) w"
proof (induction n arbitrary: w)
  case (Suc n)
  have "le_word (le_bytes (Suc n) w) = ucast (ucast w :: byte) OR push_bit 8 (take_bit (8 * n) (drop_bit 8 w))"
    by (simp add: Suc)
  also have "\<dots> = take_bit (8 * Suc n) w"
    by (rule bit_eqI) (auto simp: bit_simps)
  finally show ?case .
qed simp

lemma le_bytes_inject: "le_bytes 8 v = le_bytes 8 w \<Longrightarrow> v = w"
proof -
  assume "le_bytes 8 v = le_bytes 8 w"
  then have "le_word (le_bytes 8 v) = le_word (le_bytes 8 w)" by simp
  then show "v = w" unfolding le_word_bytes by (simp add: take_bit_word_eq_self)
qed

fun draw_nonces :: "nat \<Rightarrow> nat \<Rightarrow> bytes list cr" where
  "draw_nonces 0 sz = retm []"
| "draw_nonces (Suc n) sz = bindm (secureNonce sz) (\<lambda>x. bindm (draw_nonces n sz) (\<lambda>xs. retm (x # xs)))"

definition nonce_at :: "bytes \<Rightarrow> u64 \<Rightarrow> bytes" where
  "nonce_at r ctr = le_bytes 8 (le_word (take 8 r) XOR ctr) @ drop 8 r"

lemma nonce_at_inject: "nonce_at r a = nonce_at r b \<longleftrightarrow> a = b"
proof
  assume "nonce_at r a = nonce_at r b"
  then have "le_word (take 8 r) XOR a = le_word (take 8 r) XOR b" by (auto simp: nonce_at_def dest: le_bytes_inject)
  then have "le_word (take 8 r) XOR (le_word (take 8 r) XOR a) = le_word (take 8 r) XOR (le_word (take 8 r) XOR b)" by simp
  then show "a = b" by (simp flip: xor.assoc)
qed simp

lemma draw_nonces_repeated:
  assumes "\<not> all_zero r" "length r = sz" "8 \<le> sz"
  shows "draw_nonces n sz \<lparr>rn_draws = replicate n (Some r), rn_ctr = c\<rparr> =
    (Inr (map (\<lambda>i. nonce_at r (c + 1 + of_nat i)) [0..<n]), \<lparr>rn_draws = [], rn_ctr = c + of_nat n\<rparr>)"
proof (induction n arbitrary: c)
  case (Suc n)
  have step: "secureNonce sz \<lparr>rn_draws = replicate (Suc n) (Some r), rn_ctr = c\<rparr> =
    (Inr (nonce_at r (c + 1)), \<lparr>rn_draws = replicate n (Some r), rn_ctr = c + 1\<rparr>)"
    using assms by (simp add: secureNonce_def bindm_def rand_read_def nonce_at_def Let_def)
  have "map (\<lambda>i. nonce_at r (c + 1 + of_nat i)) [0..<Suc n] =
    nonce_at r (c + 1) # map (\<lambda>i. nonce_at r (c + 1 + 1 + of_nat i)) [0..<n]"
    by (simp add: upt_conv_Cons map_Suc_upt [symmetric] del: upt_Suc) (simp add: ac_simps)
  then show ?case using Suc [of "c + 1"] step by (simp add: bindm_def retm_def ac_simps del: replicate_Suc upt_Suc)
qed (simp add: retm_def)

subsection \<open>What was encrypted opens\<close>

lemma headers_open:
  assumes laws: "crypto_laws P" and keys: "keys_match P priv kemDK pub kemEK"
    and enc: "EncryptMessageWithHeadersHybrid P pub kemEK subject body (Some headers) st = (Inr msg, st')"
  shows "DecryptMessageAuto P priv kemDK msg = Inr (subject, body)"
    and "DecryptSubjectOnlyAuto P priv kemDK (em_EphemeralPubkey msg) (em_EncryptedMessageKey msg) (em_EncryptedSubject msg) = Inr subject"
    and "DecryptHeadersAuto P priv kemDK (em_EphemeralPubkey msg) (em_EncryptedMessageKey msg) (em_EncryptedHeaders msg) = Inr headers"
proof -
  have aead: "aead_laws P" using laws by (simp add: crypto_laws_def)
  obtain mk s0 s1 b0 b1 j0 j1 h0 h1 where
    wrap: "wrapEnvelope P pub kemEK mk s0 = (Inr (em_EphemeralPubkey msg, em_EncryptedMessageKey msg), s1)"
    and b: "sealXChaCha20 P mk body (str_bytes ''body'') b0 = (Inr (em_EncryptedBody msg), b1)"
    and j: "sealXChaCha20 P mk subject (str_bytes ''subject'') j0 = (Inr (em_EncryptedSubject msg), j1)"
    and h: "seal_headers P mk (Some headers) h0 = (Inr (em_EncryptedHeaders msg), h1)"
    using encrypt_headers_parts [OF enc] .
  have h': "sealXChaCha20 P mk headers (str_bytes ''headers'') h0 = (Inr (em_EncryptedHeaders msg), h1)"
    using h by (simp add: seal_headers_def)
  note opened = wrap_unwrap(1) [OF laws keys wrap] seal_open(1) [OF aead b] seal_open(1) [OF aead j] seal_open(1) [OF aead h']
      seal_nonempty [OF aead j] seal_nonempty [OF aead h']
  show "DecryptMessageAuto P priv kemDK msg = Inr (subject, body)"
    and "DecryptSubjectOnlyAuto P priv kemDK (em_EphemeralPubkey msg) (em_EncryptedMessageKey msg) (em_EncryptedSubject msg) = Inr subject"
    and "DecryptHeadersAuto P priv kemDK (em_EphemeralPubkey msg) (em_EncryptedMessageKey msg) (em_EncryptedHeaders msg) = Inr headers"
    using opened by (simp_all add: DecryptMessageAuto_def DecryptSubjectOnlyAuto_def DecryptHeadersAuto_def open_subject_def)
qed

lemma hybrid_open:
  assumes laws: "crypto_laws P" and keys: "keys_match P priv kemDK pub kemEK"
    and enc: "EncryptMessageHybrid P pub kemEK subject body st = (Inr msg, st')"
  shows "DecryptMessageAuto P priv kemDK msg = Inr (subject, body)"
proof -
  have aead: "aead_laws P" using laws by (simp add: crypto_laws_def)
  obtain mk s0 s1 b0 b1 j0 j1 where
    wrap: "wrapEnvelope P pub kemEK mk s0 = (Inr (em_EphemeralPubkey msg, em_EncryptedMessageKey msg), s1)"
    and b: "sealXChaCha20 P mk body (str_bytes ''body'') b0 = (Inr (em_EncryptedBody msg), b1)"
    and j: "sealXChaCha20 P mk subject (str_bytes ''subject'') j0 = (Inr (em_EncryptedSubject msg), j1)"
    using enc unfolding EncryptMessageHybrid_def by (auto simp: split_beta elim!: bindm_InrE)
  show ?thesis
    using wrap_unwrap(1) [OF laws keys wrap] seal_open(1) [OF aead b] seal_open(1) [OF aead j] seal_nonempty [OF aead j]
    by (simp add: DecryptMessageAuto_def open_subject_def)
qed

lemma raw_open:
  assumes laws: "crypto_laws P" and keys: "keys_match P priv kemDK pub kemEK"
    and enc: "EncryptRawMessageWithMetaHybrid P pub kemEK raw meta cs st = (Inr er, st')"
    and small: "cs < 2 ^ 63" "0 < cs \<longrightarrow> length raw + nat cs < 2 ^ 63"
      "0 < cs \<longrightarrow> chunk_count (length raw) (nat cs) * (nat cs + ChunkTagSize) < 2 ^ 63"
  shows "DecryptRawMessageAuto P priv kemDK (er_Message er)
      (if cs > 0 then RawBlobFormatChunked cs else RawBlobFormatSingle) (er_EncryptedMeta er) = Inr (raw, meta)
    \<and> DecryptMetaOnlyAuto P priv kemDK (em_EphemeralPubkey (er_Message er)) (em_EncryptedMessageKey (er_Message er))
        (er_EncryptedMeta er) = Inr meta"
proof -
  have aead: "aead_laws P" using laws by (simp add: crypto_laws_def)
  obtain mk s0 s1 b0 b1 m0 m1 where
    wrap: "wrapEnvelope P pub kemEK mk s0 = (Inr (em_EphemeralPubkey (er_Message er), em_EncryptedMessageKey (er_Message er)), s1)"
    and b: "seal_raw_body P mk raw cs b0 = (Inr (em_EncryptedBody (er_Message er)), b1)"
    and m: "sealXChaCha20 P mk meta (str_bytes ''raw-meta'') m0 = (Inr (er_EncryptedMeta er), m1)"
    using enc unfolding EncryptRawMessageWithMetaHybrid_def by (auto simp: split_beta elim!: bindm_InrE)
  have "open_raw_body P mk (er_Message er) (if cs > 0 then RawBlobFormatChunked cs else RawBlobFormatSingle) = Inr raw"
    by (rule raw_body_roundtrip [OF laws b refl refl]) (use small in auto)
  then show ?thesis
    using wrap_unwrap(1) [OF laws keys wrap] seal_open(1) [OF aead m] seal_nonempty [OF aead m]
    by (simp add: DecryptRawMessageAuto_def DecryptMetaOnlyAuto_def open_raw_meta_def)
qed

subsection \<open>Properties\<close>


text \<open>
  The older classical functions are the hybrid-aware ones without an ML-KEM key: the encryption
  functions are equal as computations, drawing the same random bytes in the same order, and the
  decryption functions agree on every message whose envelope key has 32 bytes, errors included.
\<close>

theorem classical_agrees_with_hybrid:
  assumes "length e = 32"
  shows "EncryptMessage P pub subject body = EncryptMessageHybrid P pub None subject body
    \<and> EncryptMessageWithHeaders P pub subject body headers = EncryptMessageWithHeadersHybrid P pub None subject body headers
    \<and> EncryptRawMessageWithMeta P pub raw meta cs = EncryptRawMessageWithMetaHybrid P pub None raw meta cs
    \<and> DecryptMessage P priv (msg\<lparr>em_EphemeralPubkey := e\<rparr>) = DecryptMessageAuto P priv dk (msg\<lparr>em_EphemeralPubkey := e\<rparr>)
    \<and> DecryptHeaders P priv e w c = DecryptHeadersAuto P priv dk e w c
    \<and> DecryptSubject P priv e w c = DecryptSubjectOnlyAuto P priv dk e w c
    \<and> DecryptMetaOnly P priv e w c = DecryptMetaOnlyAuto P priv dk e w c
    \<and> DecryptRawMessage P priv (msg\<lparr>em_EphemeralPubkey := e\<rparr>) format c
        = DecryptRawMessageAuto P priv dk (msg\<lparr>em_EphemeralPubkey := e\<rparr>) format c"
proof -
  have un: "unwrap32 P priv e k = unwrapEnvelope P priv dk e k" for k
    using assms by (simp add: unwrap32_def unwrapEnvelope_def classicalEphKeySize_def)
  have "EncryptMessage P pub subject body = EncryptMessageHybrid P pub None subject body"
    by (simp add: EncryptMessage_def EncryptMessageHybrid_def wrapEnvelope_def classicalWrap_def bindm_assoc Let_def)
  moreover have "EncryptMessageWithHeaders P pub subject body headers = EncryptMessageWithHeadersHybrid P pub None subject body headers"
    by (simp add: EncryptMessageWithHeaders_def EncryptMessageWithHeadersHybrid_def wrapEnvelope_def)
  moreover have "EncryptRawMessageWithMeta P pub raw meta cs = EncryptRawMessageWithMetaHybrid P pub None raw meta cs"
    by (simp add: EncryptRawMessageWithMeta_def EncryptRawMessageWithMetaHybrid_def wrapEnvelope_def)
  ultimately show ?thesis
    by (simp add: DecryptMessage_def DecryptMessageAuto_def DecryptHeaders_def DecryptHeadersAuto_def
        DecryptSubject_def DecryptSubjectOnlyAuto_def DecryptMetaOnly_def DecryptMetaOnlyAuto_def
        DecryptRawMessage_def DecryptRawMessageAuto_def un)
qed

text \<open>
  A raw message encrypted with metadata, in one piece or in chunks of any size that the
  arithmetic of the code holds, decrypts to the same bytes and metadata under the format string
  stored with it; the metadata alone decrypts too.
\<close>

theorem raw_message_roundtrip:
  assumes laws: "crypto_laws P" and keys: "keys_match P priv kemDK pub kemEK"
    and enc: "EncryptRawMessageWithMetaHybrid P pub kemEK raw meta cs st = (Inr er, st')"
    and small: "cs < 2 ^ 63" "0 < cs \<longrightarrow> length raw + nat cs < 2 ^ 63"
      "0 < cs \<longrightarrow> chunk_count (length raw) (nat cs) * (nat cs + ChunkTagSize) < 2 ^ 63"
  shows "DecryptRawMessageAuto P priv kemDK (er_Message er)
      (if cs > 0 then RawBlobFormatChunked cs else RawBlobFormatSingle) (er_EncryptedMeta er) = Inr (raw, meta)
    \<and> DecryptMetaOnlyAuto P priv kemDK (em_EphemeralPubkey (er_Message er)) (em_EncryptedMessageKey (er_Message er))
        (er_EncryptedMeta er) = Inr meta"
  using raw_open [OF laws keys enc small] .

text \<open>
  Random access into a chunked blob: the stored chunk at position \<open>M\<close>, cut out of the blob by
  its offset alone, decrypts by itself to the bytes of the plaintext from \<open>M * chunkSize\<close> on; and
  nothing marks the end of a blob, so any number of its leading chunks decrypts, without an error,
  to that prefix of the plaintext.
\<close>

theorem chunk_random_access:
  assumes laws: "crypto_laws P" and enc: "EncryptChunked P k p chunkSize = Inr blob" and cs: "cs = effective_chunk chunkSize"
    and small: "length p + cs < 2 ^ 63" "M * (cs + 16) < 2 ^ 63" and M: "M < chunk_count (length p) cs"
  shows "DecryptChunk P k M (take (cs + 16) (drop (M * (cs + 16)) blob)) = Inr (take cs (drop (M * cs) p))
    \<and> DecryptChunked P k (take (M * (cs + 16)) blob) chunkSize = Inr (take (M * cs) p)"
  using stored_chunks [OF laws enc cs small(1) M] decrypt_prefix [OF laws enc cs small(1) less_imp_le [OF M]] small(2)
  by (simp add: ChunkTagSize_def chunk_of_def)

text \<open>
  Nonces survive a random source that gets stuck: up to \<open>2 ^ 64\<close> calls of \<open>secureNonce\<close> that
  all read the same bytes, which are not all zero, succeed and return pairwise distinct nonces.
\<close>

theorem stuck_source_distinct_nonces:
  assumes "\<not> all_zero r" "length r = sz" "8 \<le> sz" "n \<le> 2 ^ 64"
  shows "\<exists>ns st. draw_nonces n sz \<lparr>rn_draws = replicate n (Some r), rn_ctr = c\<rparr> = (Inr ns, st)
    \<and> length ns = n \<and> distinct ns"
proof -
  have "inj_on (\<lambda>i. nonce_at r (c + 1 + of_nat i)) {0..<n}"
  proof (rule inj_onI)
    fix i j assume "i \<in> {0..<n}" "j \<in> {0..<n}" "nonce_at r (c + 1 + of_nat i) = nonce_at r (c + 1 + of_nat j)"
    then have "(of_nat i :: u64) = of_nat j" "i < 2 ^ 64" "j < 2 ^ 64" using assms(4) by (auto simp: nonce_at_inject)
    then show "i = j" using word_of_nat_eq_iff [of i j, where 'a = 64] by (simp add: take_bit_nat_eq_self)
  qed
  then show ?thesis using draw_nonces_repeated [OF assms(1,2,3), of n c] by (simp add: distinct_map)
qed

end
