(* ===== verification/Receipt.thy ===== *)
theory Receipt
  imports Envelope
begin

text \<open>
  \<open>internal/crypto/receipt.go\<close>: the receipt an enclave signs for each message it processed, its
  canonical encoding, and the salted hash that stands for the sender in it.
\<close>

subsection \<open>The sender hash\<close>

text \<open>The package variables; \<open>None\<close> is \<open>nil\<close>, and \<open>ss_once\<close> says that \<open>senderSecretOnce\<close> has run.\<close>

record sender_state =
  ss_salt :: "bytes option"
  ss_day :: int
  ss_secret :: "bytes option"
  ss_once :: bool

definition sender_state0 :: sender_state where
  "sender_state0 = \<lparr>ss_salt = None, ss_day = 0, ss_secret = None, ss_once = False\<rparr>"

text \<open>A date in UTC: its year and its day of the year.\<close>

type_synonym date = "int \<times> int"

definition InitSenderSecret :: "bytes \<Rightarrow> sender_state \<Rightarrow> sender_state" where
  "InitSenderSecret secret s = s\<lparr>ss_secret := Some secret, ss_once := True, ss_salt := None\<rparr>"

text \<open>The \<open>Once\<close> counts as run also when its function panics, which is the \<open>Inl\<close> case.\<close>

definition sender_once :: "bool \<Rightarrow> sender_state \<Rightarrow> string option \<times> sender_state" where
  "sender_once production s =
     (if ss_once s then (None, s)
      else case ss_secret s of
          Some _ \<Rightarrow> (None, s\<lparr>ss_once := True\<rparr>)
        | None \<Rightarrow>
            if production
            then (Some ''SECURITY: InitSenderSecret must be called before HashSender in production'', s\<lparr>ss_once := True\<rparr>)
            else (None, s\<lparr>ss_once := True, ss_secret := Some (replicate 32 0)\<rparr>))"

definition sender_salt :: "(bytes \<Rightarrow> bytes) \<Rightarrow> bytes option \<Rightarrow> date \<Rightarrow> bytes" where
  "sender_salt sha secret now =
     digest32 sha ((case secret of None \<Rightarrow> [] | Some k \<Rightarrow> k)
       @ str_bytes (''sender-hash-salt:'' @ showInt (fst now) @ '':'' @ showInt (snd now)))"

definition HashSender ::
    "(bytes \<Rightarrow> bytes) \<Rightarrow> bool \<Rightarrow> date \<Rightarrow> string \<Rightarrow> sender_state \<Rightarrow> (string + bytes) \<times> sender_state" where
  "HashSender sha production now addr s =
     (case sender_once production s of
        (Some panic, s1) \<Rightarrow> (Inl panic, s1)
      | (None, s1) \<Rightarrow>
          let today = snd now;
              s2 = (if ss_salt s1 = None \<or> today \<noteq> ss_day s1
                    then s1\<lparr>ss_salt := Some (sender_salt sha (ss_secret s1) now), ss_day := today\<rparr>
                    else s1);
              salt = the (ss_salt s2)
          in (Inr (digest32 sha (salt @ str_bytes addr)), s2))"

fun hash_senders ::
    "(bytes \<Rightarrow> bytes) \<Rightarrow> bool \<Rightarrow> (date \<times> string) list \<Rightarrow> sender_state \<Rightarrow> (string + bytes) list" where
  "hash_senders sha production [] s = []"
| "hash_senders sha production ((now, addr) # calls) s =
     (case HashSender sha production now addr s of
        (r, s') \<Rightarrow> r # hash_senders sha production calls s')"

subsection \<open>Receipts\<close>

text \<open>\<open>rc_Timestamp\<close> is the Unix time as an unsigned word and \<open>rc_SpamScore\<close> the bits of the float.\<close>

record EnclaveReceipt =
  rc_MessageHash :: bytes
  rc_CiphertextHash :: bytes
  rc_SenderHash :: bytes
  rc_SigningPublicKey :: bytes
  rc_Timestamp :: u64
  rc_EnclaveID :: string
  rc_TLSVerified :: bool
  rc_SPFResult :: string
  rc_DKIMResult :: string
  rc_DMARCResult :: string
  rc_SpamScore :: u64
  rc_FolderAssignment :: string
  rc_Signature :: bytes

text \<open>What the Go types fix (\<open>[32]byte\<close>), and string lengths that fit their 32-bit prefix.\<close>

definition receipt_typed :: "EnclaveReceipt \<Rightarrow> bool" where
  "receipt_typed r =
     (list_all (\<lambda>h. length h = 32) [rc_MessageHash r, rc_CiphertextHash r, rc_SenderHash r, rc_SigningPublicKey r]
      \<and> list_all (\<lambda>s. length s < 2 ^ 32)
          [rc_EnclaveID r, rc_SPFResult r, rc_DKIMResult r, rc_DMARCResult r, rc_FolderAssignment r])"

definition appendLengthPrefixed :: "bytes \<Rightarrow> bytes \<Rightarrow> bytes" where
  "appendLengthPrefixed buf data = buf @ be32 (length data) @ data"

definition receiptSigningPayload :: "EnclaveReceipt \<Rightarrow> bytes" where
  "receiptSigningPayload r =
     (let buf = [1];
          buf = buf @ rc_MessageHash r;
          buf = buf @ rc_CiphertextHash r;
          buf = buf @ rc_SenderHash r;
          buf = buf @ rc_SigningPublicKey r;
          buf = buf @ be64 (rc_Timestamp r);
          buf = appendLengthPrefixed buf (str_bytes (rc_EnclaveID r));
          buf = buf @ [if rc_TLSVerified r then 1 else 0];
          buf = appendLengthPrefixed buf (str_bytes (rc_SPFResult r));
          buf = appendLengthPrefixed buf (str_bytes (rc_DKIMResult r));
          buf = appendLengthPrefixed buf (str_bytes (rc_DMARCResult r));
          buf = buf @ be64 (rc_SpamScore r)
      in appendLengthPrefixed buf (str_bytes (rc_FolderAssignment r)))"

text \<open>Ed25519 is a parameter: signing and verification.\<close>

record ed25519 =
  ed_public :: "bytes \<Rightarrow> bytes"
  ed_sign :: "bytes \<Rightarrow> bytes \<Rightarrow> bytes"
  ed_verify :: "bytes \<Rightarrow> bytes \<Rightarrow> bytes \<Rightarrow> bool"

definition ed25519_laws :: "ed25519 \<Rightarrow> bool" where
  "ed25519_laws E =
     (\<forall>k m. length k = 64 \<longrightarrow>
        ed_verify E (ed_public E k) m (ed_sign E k m) \<and> length (ed_sign E k m) = 64 \<and> length (ed_public E k) = 32)"

definition SignReceipt :: "ed25519 \<Rightarrow> EnclaveReceipt \<Rightarrow> bytes \<Rightarrow> string + EnclaveReceipt \<times> bytes" where
  "SignReceipt E receipt privKey =
     (if length privKey \<noteq> 64 then Inl ''invalid Ed25519 private key size''
      else let payload = receiptSigningPayload receipt;
               sig = ed_sign E privKey payload
           in Inr (receipt\<lparr>rc_Signature := sig\<rparr>, sig))"

definition VerifyReceipt :: "ed25519 \<Rightarrow> EnclaveReceipt \<Rightarrow> bytes \<Rightarrow> string + bool" where
  "VerifyReceipt E receipt pubKey =
     (if length pubKey \<noteq> 32 then Inl ''invalid Ed25519 public key size''
      else if all_zero pubKey then Inl ''rejected all-zero Ed25519 public key (identity point)''
      else if length (rc_Signature receipt) \<noteq> 64 then Inl ''invalid signature size''
      else Inr (ed_verify E pubKey (receiptSigningPayload receipt) (rc_Signature receipt)))"

subsection \<open>Lemmas\<close>

lemma prefixed_inject:
  assumes "be32 (length a) @ a @ r = be32 (length b) @ b @ t" "length a < 2 ^ 32" "length b < 2 ^ 32"
  shows "a = b \<and> r = t"
proof -
  have "be32 (length a) = be32 (length b)" and rest: "a @ r = b @ t" using assms(1) by simp_all
  then have "length a = length b" using assms(2,3) by (auto intro: be32_inject)
  then show ?thesis using rest by simp
qed

lemma fixed_inject: "a @ r = b @ t \<Longrightarrow> length a = n \<Longrightarrow> length b = n \<Longrightarrow> a = b \<and> r = t"
  by simp

lemmas payload_flat = receiptSigningPayload_def appendLengthPrefixed_def Let_def append_assoc append_Cons append_Nil

lemma prefixed_string_inject:
  assumes "be32 (length (str_bytes a)) @ str_bytes a @ r = be32 (length (str_bytes b)) @ str_bytes b @ t"
    "length a < 2 ^ 32" "length b < 2 ^ 32"
  shows "a = b \<and> r = t"
  using prefixed_inject [OF assms(1)] assms(2,3) by simp

text \<open>The encoding determines every field of a receipt but the signature.\<close>

lemma receipt_payload_inject:
  assumes eq: "receiptSigningPayload r = receiptSigningPayload t" and typed: "receipt_typed r" "receipt_typed t"
  shows "r\<lparr>rc_Signature := []\<rparr> = t\<lparr>rc_Signature := []\<rparr>"
proof -
  note ty = typed [unfolded receipt_typed_def list.pred_inject]
  from eq have "rc_MessageHash r @ rc_CiphertextHash r @ rc_SenderHash r @ rc_SigningPublicKey r @ be64 (rc_Timestamp r) @
      be32 (length (str_bytes (rc_EnclaveID r))) @ str_bytes (rc_EnclaveID r) @ (if rc_TLSVerified r then 1 else 0) #
      be32 (length (str_bytes (rc_SPFResult r))) @ str_bytes (rc_SPFResult r) @
      be32 (length (str_bytes (rc_DKIMResult r))) @ str_bytes (rc_DKIMResult r) @
      be32 (length (str_bytes (rc_DMARCResult r))) @ str_bytes (rc_DMARCResult r) @ be64 (rc_SpamScore r) @
      be32 (length (str_bytes (rc_FolderAssignment r))) @ str_bytes (rc_FolderAssignment r) @ [] =
    rc_MessageHash t @ rc_CiphertextHash t @ rc_SenderHash t @ rc_SigningPublicKey t @ be64 (rc_Timestamp t) @
      be32 (length (str_bytes (rc_EnclaveID t))) @ str_bytes (rc_EnclaveID t) @ (if rc_TLSVerified t then 1 else 0) #
      be32 (length (str_bytes (rc_SPFResult t))) @ str_bytes (rc_SPFResult t) @
      be32 (length (str_bytes (rc_DKIMResult t))) @ str_bytes (rc_DKIMResult t) @
      be32 (length (str_bytes (rc_DMARCResult t))) @ str_bytes (rc_DMARCResult t) @ be64 (rc_SpamScore t) @
      be32 (length (str_bytes (rc_FolderAssignment t))) @ str_bytes (rc_FolderAssignment t) @ []"
    (is "_ @ _ @ _ @ _ @ _ @ ?r = _ @ _ @ _ @ _ @ _ @ ?t")
    unfolding payload_flat by simp
  then have h: "rc_MessageHash r = rc_MessageHash t" "rc_CiphertextHash r = rc_CiphertextHash t"
    "rc_SenderHash r = rc_SenderHash t" "rc_SigningPublicKey r = rc_SigningPublicKey t" "rc_Timestamp r = rc_Timestamp t"
    and 1: "?r = ?t"
    using ty by (simp_all del: length_str_bytes)
  note 2 = prefixed_string_inject [OF 1]
  have 3: "rc_EnclaveID r = rc_EnclaveID t" "rc_TLSVerified r = rc_TLSVerified t"
    using 2 ty by (simp_all split: if_splits)
  note 4 = prefixed_string_inject [OF list.inject [THEN iffD1, THEN conjunct2, OF conjunct2 [OF 2]]]
  note 5 = prefixed_string_inject [OF conjunct2 [OF 4]]
  note 6 = prefixed_string_inject [OF conjunct2 [OF 5]]
  have 7: "rc_SPFResult r = rc_SPFResult t" "rc_DKIMResult r = rc_DKIMResult t" "rc_DMARCResult r = rc_DMARCResult t"
    using 4 5 6 ty by simp_all
  have 8: "rc_SpamScore r = rc_SpamScore t \<and> rc_FolderAssignment r = rc_FolderAssignment t"
    using conjunct2 [OF 6] ty by simp
  show ?thesis using h 3 7 8 by (cases r, cases t) simp
qed

lemma HashSender_once:
  assumes "ss_once s" "ss_secret s = Some k"
    and "ss_salt s \<noteq> None \<Longrightarrow> ss_day s = snd now \<Longrightarrow> ss_salt s = Some (sender_salt sha (Some k) now)"
  shows "HashSender sha production now addr s =
    (Inr (digest32 sha (sender_salt sha (Some k) now @ str_bytes addr)),
     s\<lparr>ss_salt := Some (sender_salt sha (Some k) now), ss_day := snd now\<rparr>)"
  using assms by (cases s) (auto simp: HashSender_def sender_once_def Let_def)

text \<open>Consecutive calls that fall on the same day of the year fall in the same year.\<close>

fun dates_fresh :: "date \<Rightarrow> (date \<times> string) list \<Rightarrow> bool" where
  "dates_fresh d [] = True"
| "dates_fresh d ((now, addr) # calls) = ((snd d = snd now \<longrightarrow> fst d = fst now) \<and> dates_fresh now calls)"

lemma hash_senders_from:
  "ss_once s \<Longrightarrow> ss_secret s = Some k \<Longrightarrow> ss_salt s = Some (sender_salt sha (Some k) d) \<Longrightarrow> ss_day s = snd d \<Longrightarrow>
   dates_fresh d calls \<Longrightarrow>
   hash_senders sha production calls s =
     map (\<lambda>(now, addr). Inr (digest32 sha (sender_salt sha (Some k) now @ str_bytes addr))) calls"
proof (induction calls arbitrary: s d)
  case (Cons call calls)
  obtain now addr where call: "call = (now, addr)" by fastforce
  have same: "ss_day s = snd now \<Longrightarrow> d = now" using Cons.prems call by (simp add: prod_eq_iff)
  have step: "HashSender sha production now addr s =
    (Inr (digest32 sha (sender_salt sha (Some k) now @ str_bytes addr)),
     s\<lparr>ss_salt := Some (sender_salt sha (Some k) now), ss_day := snd now\<rparr>)"
    by (rule HashSender_once) (use Cons.prems same in auto)
  show ?case using Cons.IH [of "s\<lparr>ss_salt := Some (sender_salt sha (Some k) now), ss_day := snd now\<rparr>" now]
      Cons.prems call step by simp
qed simp

text \<open>
  The cached salt is kept by day of the year alone: a call on the same day of a later year still
  uses the salt, and gives the hash, of the year before.
\<close>

lemma stale_salt_next_year:
  "hash_senders sha production [((2025, 60), addr), ((2026, 60), addr)] (InitSenderSecret k s) =
     replicate 2 (Inr (digest32 sha (sender_salt sha (Some k) (2025, 60) @ str_bytes addr)))"
  by (simp add: InitSenderSecret_def HashSender_def sender_once_def numeral_2_eq_2)

subsection \<open>Properties\<close>


text \<open>
  The sender hash is a function of the secret, the date and the address: after the secret is
  set, as long as consecutive calls on the same day of the year are in the same year, every call
  returns the hash of the address under the salt of its own day; without a secret, production
  panics instead of hashing.
\<close>

theorem sender_hash_daily:
  assumes "dates_fresh d calls"
  shows "hash_senders sha production ((d, a) # calls) (InitSenderSecret k s) =
      map (\<lambda>(now, addr). Inr (digest32 sha (sender_salt sha (Some k) now @ str_bytes addr))) ((d, a) # calls)
    \<and> isl (fst (HashSender sha True d a sender_state0))"
proof -
  have "HashSender sha production d a (InitSenderSecret k s) =
    (Inr (digest32 sha (sender_salt sha (Some k) d @ str_bytes a)),
     (InitSenderSecret k s)\<lparr>ss_salt := Some (sender_salt sha (Some k) d), ss_day := snd d\<rparr>)"
    by (rule HashSender_once) (simp_all add: InitSenderSecret_def)
  then show ?thesis using assms
    by (simp add: hash_senders_from [where d = d and k = k] InitSenderSecret_def HashSender_def sender_once_def sender_state0_def)
qed

end
