(* ===== verification/Mailparse.thy ===== *)
theory Mailparse
  imports Go_Base
begin

text \<open>
  \<open>internal/mailparse\<close>: the MIME parser, which records headers and byte offsets of the parts of a
  message. The message is in memory, so the only read error is the end of the input. Of the library,
  \<open>mime.ParseMediaType\<close>, the RFC 2047 decoder, \<open>strings.TrimSpace\<close> and \<open>strings.ToLower\<close> are
  parameters without any law. The recursive functions take fuel, since the code does not always
  return; \<open>None\<close> is running out of it.
\<close>

subsection \<open>Lines\<close>

record lineReader =
  lr_rest :: string
  lr_pos :: int

definition lf_char :: char where "lf_char = CHR 0x0A"
definition cr_char :: char where "cr_char = CHR 0x0D"
definition tab_char :: char where "tab_char = CHR 0x09"

text \<open>\<open>ReadBytes('\n')\<close>: the line with its ending; the flag is \<open>io.EOF\<close>.\<close>

definition readLine :: "lineReader \<Rightarrow> string \<times> bool \<times> lineReader" where
  "readLine lr =
     (let rest = lr_rest lr; body = takeWhile (\<lambda>c. c \<noteq> lf_char) rest in
      if lf_char \<in> set rest
      then (body @ [lf_char], False, \<lparr>lr_rest = drop (length body + 1) rest, lr_pos = lr_pos lr + int (length body + 1)\<rparr>)
      else (rest, True, \<lparr>lr_rest = [], lr_pos = lr_pos lr + int (length rest)\<rparr>))"

definition trimRight :: "string \<Rightarrow> string \<Rightarrow> string" where
  "trimRight cutset s = rev (dropWhile (\<lambda>c. c \<in> set cutset) (rev s))"

definition checkBoundary :: "string \<Rightarrow> string \<Rightarrow> bool \<times> bool" where
  "checkBoundary line boundary =
     (let trimmed = trimRight [CHR '' '', tab_char, cr_char, lf_char] line in
      if length trimmed < 2 + length boundary \<or> trimmed ! 0 \<noteq> CHR ''-'' \<or> trimmed ! 1 \<noteq> CHR ''-'' then (False, False)
      else if take (length boundary) (drop 2 trimmed) \<noteq> boundary then (False, False)
      else (let rest = drop (2 + length boundary) trimmed in
            if rest = [] then (True, False)
            else if rest = ''--'' then (True, True)
            else (False, False)))"

definition lineEndingLen :: "string \<Rightarrow> int" where
  "lineEndingLen line =
     (let n = length line in
      if n \<ge> 1 \<and> line ! (n - 1) = lf_char then (if n \<ge> 2 \<and> line ! (n - 2) = cr_char then 2 else 1) else 0)"

subsection \<open>Headers\<close>

type_synonym mime_header = "(string \<times> string list) list"

record mime_lib =
  ml_parseMediaType :: "string \<Rightarrow> (string \<times> (string \<times> string) list) option"
  ml_decodeWords :: "string \<Rightarrow> string option"
  ml_trimSpace :: "string \<Rightarrow> string"
  ml_toLower :: "string \<Rightarrow> string"

definition header_add :: "string \<Rightarrow> string \<Rightarrow> mime_header \<Rightarrow> mime_header" where
  "header_add key val h = AList.update key ((case map_of h key of Some vs \<Rightarrow> vs | None \<Rightarrow> []) @ [val]) h"

definition header_get :: "string \<Rightarrow> mime_header \<Rightarrow> string" where
  "header_get key h = (case map_of h key of Some (v # _) \<Rightarrow> v | _ \<Rightarrow> [])"

definition header_field_byte :: "char \<Rightarrow> bool" where
  "header_field_byte c = (is_lower c \<or> is_upper c \<or> is_digit c \<or> c \<in> set (CHR 0x60 # CHR 0x27 # ''!#$%&*+-.^_|~''))"

definition ascii_upper :: "char \<Rightarrow> char" where
  "ascii_upper c = (if is_lower c then char_of (of_char c - 32 :: nat) else c)"

definition ascii_lower :: "char \<Rightarrow> char" where
  "ascii_lower c = (if is_upper c then char_of (of_char c + 32 :: nat) else c)"

fun canonical_from :: "bool \<Rightarrow> string \<Rightarrow> string" where
  "canonical_from upper [] = []"
| "canonical_from upper (c # cs) = (if upper then ascii_upper c else ascii_lower c) # canonical_from (c = CHR ''-'') cs"

definition canonicalMIMEHeaderKey :: "string \<Rightarrow> string" where
  "canonicalMIMEHeaderKey s = (if list_all header_field_byte s then canonical_from True s else s)"

text \<open>The local function \<open>flush\<close>: header, current key and current value.\<close>

definition flush_header :: "string \<Rightarrow> string \<Rightarrow> mime_header \<Rightarrow> mime_header \<times> string \<times> string" where
  "flush_header key val h = (if key \<noteq> [] then (header_add key val h, [], []) else (h, key, val))"

lemma readLine_shorter:
  "readLine lr = (line, eof, lr') \<Longrightarrow> line \<noteq> [] \<Longrightarrow> length (lr_rest lr') < length (lr_rest lr)"
  by (cases "lr_rest lr") (auto simp: readLine_def Let_def split: if_splits)

lemma readLine_progress: "readLine lr = (line, False, lr') \<Longrightarrow> length (lr_rest lr') < length (lr_rest lr)"
  by (cases "lr_rest lr") (auto simp: readLine_def Let_def split: if_splits)

function parseHeaders ::
    "mime_lib \<Rightarrow> lineReader \<Rightarrow> string \<Rightarrow> string \<Rightarrow> mime_header \<Rightarrow> mime_header \<times> bool \<times> lineReader" where
  "parseHeaders L lr key val h =
     (case readLine lr of (line, eof, lr') \<Rightarrow>
        if line = [] then (fst (flush_header key val h), True, lr')
        else
          (let trimmed = trimRight [cr_char, lf_char] line in
           if trimmed = [] then (fst (flush_header key val h), False, lr')
           else if hd trimmed = CHR '' '' \<or> hd trimmed = tab_char then
             (let val' = (if key \<noteq> [] then val @ '' '' @ ml_trimSpace L trimmed else val) in
              if eof then (fst (flush_header key val' h), True, lr') else parseHeaders L lr' key val' h)
           else
             (let (h1, key1, val1) = flush_header key val h in
              if CHR '':'' \<notin> set trimmed then (if eof then (h1, True, lr') else parseHeaders L lr' key1 val1 h1)
              else
                (let name = takeWhile (\<lambda>c. c \<noteq> CHR '':'') trimmed;
                     key2 = canonicalMIMEHeaderKey name;
                     val2 = val1 @ ml_trimSpace L (drop (length name + 1) trimmed)
                 in if eof then (fst (flush_header key2 val2 h1), True, lr') else parseHeaders L lr' key2 val2 h1))))"
  by pat_completeness auto
termination
proof (relation "measure (\<lambda>(L, lr, key, val, h). length (lr_rest lr))")
qed (auto dest!: sym [of "(_, _, _)"] readLine_shorter)

declare parseHeaders.simps [simp del]

subsection \<open>Parts\<close>

record part_info =
  pt_StartPos :: int
  pt_BodyPos :: int
  pt_EndPos :: int
  pt_Header :: mime_header
  pt_ContentType :: string
  pt_Boundary :: string
  pt_Charset :: string
  pt_TransferEncoding :: string
  pt_ContentDisposition :: string
  pt_Name :: string
  pt_Filename :: string

datatype Part = Part (pt_info: part_info) (pt_Children: "Part list")

definition DecodeHeader :: "mime_lib \<Rightarrow> string \<Rightarrow> string" where
  "DecodeHeader L s = (if s = [] then s else case ml_decodeWords L s of None \<Rightarrow> s | Some decoded \<Rightarrow> decoded)"

definition param :: "(string \<times> string) list \<Rightarrow> string \<Rightarrow> string" where
  "param ps k = (case map_of ps k of Some v \<Rightarrow> v | None \<Rightarrow> [])"

definition content_type_info :: "mime_lib \<Rightarrow> part_info \<Rightarrow> part_info" where
  "content_type_info L p =
     (let ct = header_get ''Content-Type'' (pt_Header p) in
      if ct \<noteq> [] then
        (case ml_parseMediaType L ct of
           Some (mediaType, params) \<Rightarrow>
             p\<lparr>pt_ContentType := mediaType, pt_Boundary := param params ''boundary'',
               pt_Charset := (if param params ''charset'' \<noteq> [] then param params ''charset'' else pt_Charset p),
               pt_Name := DecodeHeader L (param params ''name'')\<rparr>
         | None \<Rightarrow> p\<lparr>pt_ContentType := ml_toLower L (ml_trimSpace L ct)\<rparr>)
      else p\<lparr>pt_ContentType := ''text/plain''\<rparr>)"

definition transfer_encoding_info :: "mime_lib \<Rightarrow> part_info \<Rightarrow> part_info" where
  "transfer_encoding_info L p =
     (let te = header_get ''Content-Transfer-Encoding'' (pt_Header p) in
      p\<lparr>pt_TransferEncoding :=
          (if te \<noteq> [] then ml_toLower L (ml_trimSpace L te)
           else if hasPrefix (pt_ContentType p) ''multipart/'' then ''8bit'' else ''7bit'')\<rparr>)"

definition disposition_info :: "mime_lib \<Rightarrow> part_info \<Rightarrow> part_info" where
  "disposition_info L p =
     (let cd = header_get ''Content-Disposition'' (pt_Header p) in
      if cd \<noteq> [] then
        (case ml_parseMediaType L cd of
           Some (disposition, params) \<Rightarrow>
             p\<lparr>pt_ContentDisposition := disposition, pt_Filename := DecodeHeader L (param params ''filename'')\<rparr>
         | None \<Rightarrow>
             p\<lparr>pt_ContentDisposition := ml_toLower L (ml_trimSpace L (takeWhile (\<lambda>c. c \<noteq> CHR '';'') cd))\<rparr>)
      else p)"

definition extractContentInfo :: "mime_lib \<Rightarrow> part_info \<Rightarrow> part_info" where
  "extractContentInfo L p = disposition_info L (transfer_encoding_info L (content_type_info L p))"

subsection \<open>Bodies\<close>

text \<open>The loop over the lines of a body; the result is the closing flag and \<open>EndPos\<close>.\<close>

function until_boundary :: "string \<Rightarrow> int \<Rightarrow> bool \<Rightarrow> lineReader \<Rightarrow> bool \<times> int \<times> lineReader" where
  "until_boundary boundary prevLineEndLen first lr =
     (let lineStart = lr_pos lr in
      case readLine lr of (line, eof, lr') \<Rightarrow>
        if line = [] then (False, lr_pos lr', lr')
        else
          (let (isBound, isClose) = checkBoundary line boundary in
           if isBound then (isClose, if first then lineStart else lineStart - prevLineEndLen, lr')
           else if eof then (False, lr_pos lr', lr')
           else until_boundary boundary (lineEndingLen line) False lr'))"
  by pat_completeness auto
termination
proof (relation "measure (\<lambda>(b, n, f, lr). length (lr_rest lr))")
qed (auto dest!: sym [of "(_, _, _)"] readLine_shorter)

declare until_boundary.simps [simp del]

definition readUntilBoundary :: "string \<Rightarrow> lineReader \<Rightarrow> bool \<times> int \<times> lineReader" where
  "readUntilBoundary boundary lr =
     (if boundary = [] then
        (let pos = lr_pos lr + int (length (lr_rest lr)) in (False, pos, \<lparr>lr_rest = [], lr_pos = pos\<rparr>))
      else until_boundary boundary 0 True lr)"

datatype preamble = PreOpen | PreClose | PreEOF

function skip_preamble :: "string \<Rightarrow> lineReader \<Rightarrow> preamble \<times> lineReader" where
  "skip_preamble boundary lr =
     (case readLine lr of (line, eof, lr') \<Rightarrow>
        let (isBound, isClose) = (if line \<noteq> [] then checkBoundary line boundary else (False, False)) in
        if isBound then (if isClose then PreClose else PreOpen, lr')
        else if eof then (PreEOF, lr')
        else skip_preamble boundary lr')"
  by pat_completeness auto
termination
proof (relation "measure (\<lambda>(b, lr). length (lr_rest lr))")
qed (auto dest!: sym [of "(_, _, _)"] readLine_progress)

declare skip_preamble.simps [simp del]

subsection \<open>The recursion\<close>

definition new_part :: "int \<Rightarrow> part_info" where
  "new_part pos =
     \<lparr>pt_StartPos = pos, pt_BodyPos = 0, pt_EndPos = 0, pt_Header = [], pt_ContentType = [], pt_Boundary = [],
      pt_Charset = ''us-ascii'', pt_TransferEncoding = [], pt_ContentDisposition = [], pt_Name = [], pt_Filename = []\<rparr>"

definition part_headers :: "mime_lib \<Rightarrow> lineReader \<Rightarrow> part_info \<times> lineReader" where
  "part_headers L lr =
     (let (h, _, lr1) = parseHeaders L lr [] [] []
      in (extractContentInfo L ((new_part (lr_pos lr))\<lparr>pt_Header := h, pt_BodyPos := lr_pos lr1\<rparr>), lr1))"

fun parsePart :: "mime_lib \<Rightarrow> nat \<Rightarrow> lineReader \<Rightarrow> string \<Rightarrow> (Part \<times> bool \<times> lineReader) option"
  and parseMultipartBody :: "mime_lib \<Rightarrow> nat \<Rightarrow> lineReader \<Rightarrow> string \<Rightarrow> (Part list \<times> lineReader) option"
  and parse_children :: "mime_lib \<Rightarrow> nat \<Rightarrow> lineReader \<Rightarrow> string \<Rightarrow> (Part list \<times> lineReader) option" where
  "parsePart L 0 lr terminatingBoundary = None"
| "parsePart L (Suc n) lr terminatingBoundary =
     (let (info, lr1) = part_headers L lr in
      case (if pt_Boundary info \<noteq> [] then parseMultipartBody L n lr1 (pt_Boundary info) else Some ([], lr1)) of
        None \<Rightarrow> None
      | Some (children, lr2) \<Rightarrow>
          let (closing, endPos, lr3) = readUntilBoundary terminatingBoundary lr2
          in Some (Part (info\<lparr>pt_EndPos := endPos\<rparr>) children, closing, lr3))"
| "parseMultipartBody L 0 lr boundary = None"
| "parseMultipartBody L (Suc n) lr boundary =
     (case skip_preamble boundary lr of
        (PreOpen, lr') \<Rightarrow> parse_children L n lr' boundary
      | (_, lr') \<Rightarrow> Some ([], lr'))"
| "parse_children L 0 lr boundary = None"
| "parse_children L (Suc n) lr boundary =
     (case parsePart L n lr boundary of
        None \<Rightarrow> None
      | Some (child, closing, lr') \<Rightarrow>
          if closing then Some ([child], lr')
          else map_option (\<lambda>(cs, lr''). (child # cs, lr'')) (parse_children L n lr' boundary))"

definition Parse :: "mime_lib \<Rightarrow> nat \<Rightarrow> string \<Rightarrow> Part option" where
  "Parse L fuel input = map_option fst (parsePart L fuel \<lparr>lr_rest = input, lr_pos = 0\<rparr> [])"

subsection \<open>\<open>part.go\<close>\<close>

text \<open>\<open>Walk\<close>, with the state its function works on; the flag says that it ran to the end.\<close>

fun walk :: "('s \<Rightarrow> Part \<Rightarrow> 's \<times> bool) \<Rightarrow> Part \<Rightarrow> 's \<Rightarrow> 's \<times> bool"
  and walk_all :: "('s \<Rightarrow> Part \<Rightarrow> 's \<times> bool) \<Rightarrow> Part list \<Rightarrow> 's \<Rightarrow> 's \<times> bool" where
  "walk fn (Part info children) st =
     (case fn st (Part info children) of (st', go) \<Rightarrow> if \<not> go then (st', False) else walk_all fn children st')"
| "walk_all fn [] st = (st, True)"
| "walk_all fn (child # children) st =
     (case walk fn child st of (st', go) \<Rightarrow> if \<not> go then (st', False) else walk_all fn children st')"

definition Parts :: "Part \<Rightarrow> Part list" where
  "Parts p = fst (walk (\<lambda>result part. (result @ [part], True)) p [])"

definition BodySize :: "Part \<Rightarrow> int" where
  "BodySize p = pt_EndPos (pt_info p) - pt_BodyPos (pt_info p)"

text \<open>The section of the source a \<open>BodyReader\<close> reads.\<close>

definition BodyReader :: "string \<Rightarrow> Part \<Rightarrow> string" where
  "BodyReader src p = take (nat (BodySize p)) (drop (nat (pt_BodyPos (pt_info p))) src)"

end
