(* ===== verification/Post_Receive.thy ===== *)
theory Post_Receive
  imports Go_Base
begin

text \<open>
  The part of \<open>internal/smtp/pipeline.go\<close> that decides what happens to a message for one recipient:
  block list, contacts, the user's rules and the auto-reply. The stores are parameters, as the
  answers they give; what the code does outside is a trace of effects.
\<close>

subsection \<open>Data\<close>

record ruleCondition =
  rc_Field :: string
  rc_Operator :: string
  rc_Value :: string

record ruleAction =
  ra_Type :: string
  ra_Value :: string

record stored_rule =
  ru_Enabled :: bool
  ru_Conditions :: bytes
  ru_Actions :: bytes

record inboundDecisions =
  de_Drop :: bool
  de_FolderAssignment :: string
  de_MoveFolderID :: string
  de_LabelIDs :: "string list"
  de_MarkRead :: bool
  de_MarkStarred :: bool

definition new_decisions :: "string \<Rightarrow> inboundDecisions" where
  "new_decisions folder =
     \<lparr>de_Drop = False, de_FolderAssignment = folder, de_MoveFolderID = [], de_LabelIDs = [],
      de_MarkRead = False, de_MarkStarred = False\<rparr>"

text \<open>\<open>encoding/json\<close> on the two types, base64 and \<open>strings.ToLower\<close>.\<close>

record rule_lib =
  rl_conditions :: "bytes \<Rightarrow> ruleCondition list option"
  rl_actions :: "bytes \<Rightarrow> ruleAction list option"
  rl_base64 :: "bytes \<Rightarrow> bytes option"
  rl_lower :: "string \<Rightarrow> string"

definition decodeRuleJSON :: "(bytes \<Rightarrow> 'a list option) \<Rightarrow> (bytes \<Rightarrow> bytes option) \<Rightarrow> bytes \<Rightarrow> 'a list" where
  "decodeRuleJSON unmarshal base64 raw =
     (case unmarshal raw of
        Some out \<Rightarrow> out
      | None \<Rightarrow>
          (case base64 raw of
             None \<Rightarrow> []
           | Some decoded \<Rightarrow> (case unmarshal decoded of Some out \<Rightarrow> out | None \<Rightarrow> [])))"

text \<open>
  \<open>ParseInt(s, 10, 64)\<close> with the error dropped: 0 for bad syntax, the nearest bound for a number out
  of range.
\<close>

definition parse_int64 :: "string \<Rightarrow> int" where
  "parse_int64 s =
     (let neg = (s \<noteq> [] \<and> hd s = CHR ''-'');
          ds = (if s \<noteq> [] \<and> (hd s = CHR ''-'' \<or> hd s = CHR ''+'') then tl s else s)
      in if ds = [] \<or> \<not> list_all is_digit ds then 0
         else if neg then max (- (2 ^ 63)) (- digits_val ds) else min (2 ^ 63 - 1) (digits_val ds))"

subsection \<open>Rules\<close>

record msg_facts =
  mf_from :: string
  mf_hasAttachments :: bool
  mf_sizeBytes :: int

text \<open>One condition: \<open>None\<close> for a field the server does not evaluate.\<close>

definition condition_holds :: "rule_lib \<Rightarrow> msg_facts \<Rightarrow> ruleCondition \<Rightarrow> bool option" where
  "condition_holds L m c =
     (if rc_Field c = ''from'' then
        (let val = rl_lower L (rc_Value c); sender = rl_lower L (mf_from m) in
         if rc_Operator c = ''contains'' then Some (containsStr sender val)
         else if rc_Operator c = ''equals'' then Some (sender = val)
         else Some False)
      else if rc_Field c = ''has_attachment'' then Some (mf_hasAttachments m)
      else if rc_Field c = ''size_gt'' then Some (\<not> mf_sizeBytes m \<le> goInt (parse_int64 (rc_Value c) * 1024))
      else if rc_Field c = ''size_lt'' then Some (\<not> mf_sizeBytes m \<ge> goInt (parse_int64 (rc_Value c) * 1024))
      else None)"

text \<open>The loop over the conditions with its two flags.\<close>

fun eval_conditions :: "rule_lib \<Rightarrow> msg_facts \<Rightarrow> ruleCondition list \<Rightarrow> bool \<Rightarrow> bool \<Rightarrow> bool \<times> bool" where
  "eval_conditions L m [] allMatch hasServerCondition = (allMatch, hasServerCondition)"
| "eval_conditions L m (c # cs) allMatch hasServerCondition =
     (case condition_holds L m c of
        None \<Rightarrow> eval_conditions L m cs allMatch hasServerCondition
      | Some b \<Rightarrow> eval_conditions L m cs (if b then allMatch else False) True)"

text \<open>The actions; \<open>archive\<close> is the identifier of the archive folder when the folder store finds it.\<close>

fun apply_actions :: "string option \<Rightarrow> ruleAction list \<Rightarrow> inboundDecisions \<Rightarrow> inboundDecisions" where
  "apply_actions archive [] d = d"
| "apply_actions archive (a # as) d =
     apply_actions archive as
       (if ra_Type a = ''move'' then d\<lparr>de_MoveFolderID := ra_Value a\<rparr>
        else if ra_Type a = ''label'' then d\<lparr>de_LabelIDs := de_LabelIDs d @ [ra_Value a]\<rparr>
        else if ra_Type a = ''mark_read'' then d\<lparr>de_MarkRead := True\<rparr>
        else if ra_Type a = ''star'' then d\<lparr>de_MarkStarred := True\<rparr>
        else if ra_Type a = ''delete'' then d\<lparr>de_Drop := True\<rparr>
        else if ra_Type a = ''archive'' then
          (case archive of Some f \<Rightarrow> d\<lparr>de_MoveFolderID := f\<rparr> | None \<Rightarrow> d)
        else d)"

fun evalRules :: "rule_lib \<Rightarrow> string option \<Rightarrow> msg_facts \<Rightarrow> stored_rule list \<Rightarrow> inboundDecisions \<Rightarrow> inboundDecisions" where
  "evalRules L archive m [] d = d"
| "evalRules L archive m (rule # rules) d =
     (if \<not> ru_Enabled rule then evalRules L archive m rules d
      else let conditions = decodeRuleJSON (rl_conditions L) (rl_base64 L) (ru_Conditions rule) in
        if conditions = [] then evalRules L archive m rules d
        else let (allMatch, hasServerCondition) = eval_conditions L m conditions True False in
          if \<not> hasServerCondition \<or> \<not> allMatch then evalRules L archive m rules d
          else apply_actions archive (decodeRuleJSON (rl_actions L) (rl_base64 L) (ru_Actions rule)) d)"

subsection \<open>Auto-replies\<close>

record autoReply =
  ar_Enabled :: bool
  ar_Subject :: string
  ar_Body :: string
  ar_StartDate :: "int option"
  ar_EndDate :: "int option"

datatype effect =
    AutoAddContact string
  | RecordAutoReply string
  | PublishAutoReply string string string
  | StoreSentCopy string

text \<open>
  What the stores and the queue answer: the block list, the rules, the archive folder, the
  settings, the dedup table (\<open>None\<close> when a store is absent, \<open>Some None\<close> when it fails), whether
  publishing works and whether the mail and folder stores are there for the sent copy.
\<close>

record post_env =
  pe_blocked :: "bool option option"
  pe_contacts :: bool
  pe_rules :: "stored_rule list option option"
  pe_archive :: "string option"
  pe_autoReply :: "autoReply option option"
  pe_dedup :: "bool option option"
  pe_publish_ok :: bool
  pe_sent_copy :: bool
  pe_clock :: int

definition reply_due :: "int \<Rightarrow> autoReply \<Rightarrow> bool" where
  "reply_due now ar =
     (ar_Enabled ar \<and> ar_Body ar \<noteq> []
      \<and> (case ar_StartDate ar of Some t \<Rightarrow> \<not> now < t | None \<Rightarrow> True)
      \<and> (case ar_EndDate ar of Some t \<Rightarrow> \<not> now > t + 24 * hour | None \<Rightarrow> True))"

definition maybeSendAutoReply :: "post_env \<Rightarrow> string \<Rightarrow> effect list" where
  "maybeSendAutoReply e sender =
     (case pe_autoReply e of
        Some (Some ar) \<Rightarrow>
          if \<not> reply_due (pe_clock e) ar then []
          else (let record_it = (if pe_dedup e = None then [] else [RecordAutoReply sender]);
                    subject = (if ar_Subject ar = [] then ''Auto-reply'' else ar_Subject ar)
                in if pe_dedup e = Some None \<or> pe_dedup e = Some (Some False) then record_it
                   else if \<not> pe_publish_ok e then record_it
                   else record_it @ [PublishAutoReply sender subject (ar_Body ar)]
                        @ (if pe_sent_copy e then [StoreSentCopy sender] else []))
      | _ \<Rightarrow> [])"

definition applyPostReceive ::
    "rule_lib \<Rightarrow> post_env \<Rightarrow> msg_facts \<Rightarrow> inboundDecisions \<Rightarrow> inboundDecisions \<times> effect list" where
  "applyPostReceive L e m d0 =
     (let d1 = (if pe_blocked e = Some (Some True) then d0\<lparr>de_FolderAssignment := ''junk''\<rparr> else d0);
          added = (if pe_contacts e then [AutoAddContact (mf_from m)] else []);
          d2 = (case pe_rules e of Some (Some rules) \<Rightarrow> evalRules L (pe_archive e) m rules d1 | _ \<Rightarrow> d1)
      in if de_Drop d2 then (d2, added) else (d2, added @ maybeSendAutoReply e (mf_from m)))"

subsection \<open>What a rule does\<close>

text \<open>
  The reference: a rule applies if it is enabled, has a condition the server evaluates, and all
  conditions the server evaluates hold; the first such rule decides.
\<close>

definition server_conditions :: "rule_lib \<Rightarrow> msg_facts \<Rightarrow> ruleCondition list \<Rightarrow> bool list" where
  "server_conditions L m cs = List.map_filter (condition_holds L m) cs"

definition rule_applies :: "rule_lib \<Rightarrow> msg_facts \<Rightarrow> stored_rule \<Rightarrow> bool" where
  "rule_applies L m rule =
     (let bs = server_conditions L m (decodeRuleJSON (rl_conditions L) (rl_base64 L) (ru_Conditions rule))
      in ru_Enabled rule \<and> bs \<noteq> [] \<and> list_all (\<lambda>b. b) bs)"

lemma eval_conditions_eq:
  "eval_conditions L m cs a h = (a \<and> list_all (\<lambda>b. b) (server_conditions L m cs), h \<or> server_conditions L m cs \<noteq> [])"
  by (induction cs arbitrary: a h) (auto simp: server_conditions_def map_filter_simps split: option.splits)

lemma evalRules_first:
  "evalRules L archive m rules d =
     (case find (rule_applies L m) rules of
        None \<Rightarrow> d
      | Some rule \<Rightarrow> apply_actions archive (decodeRuleJSON (rl_actions L) (rl_base64 L) (ru_Actions rule)) d)"
proof (induction rules)
  case (Cons rule rules)
  let ?cs = "decodeRuleJSON (rl_conditions L) (rl_base64 L) (ru_Conditions rule)"
  have "?cs = [] \<Longrightarrow> server_conditions L m ?cs = []" by (simp add: server_conditions_def map_filter_simps)
  then show ?case using Cons by (auto simp: rule_applies_def eval_conditions_eq Let_def)
qed simp

lemma apply_actions_flags:
  "de_FolderAssignment (apply_actions archive as d) = de_FolderAssignment d"
  "de_Drop (apply_actions archive as d) \<longleftrightarrow> de_Drop d \<or> (\<exists>a \<in> set as. ra_Type a = ''delete'')"
  by (induction as arbitrary: d) (auto split: option.splits)

text \<open>
  A condition on the content is not evaluated by the server but does not stop the rule either:
  a rule that asks for a sender and a subject is applied, deletion included, to every message of
  that sender.
\<close>

lemma content_condition_ignored:
  assumes "rl_conditions L cs = Some [\<lparr>rc_Field = ''from'', rc_Operator = ''equals'', rc_Value = ''a@b''\<rparr>,
      \<lparr>rc_Field = ''subject'', rc_Operator = ''contains'', rc_Value = ''promo''\<rparr>]"
    and "rl_actions L as = Some [\<lparr>ra_Type = ''delete'', ra_Value = []\<rparr>]"
  shows "de_Drop (evalRules L archive \<lparr>mf_from = ''a@b'', mf_hasAttachments = h, mf_sizeBytes = s\<rparr>
    [\<lparr>ru_Enabled = True, ru_Conditions = cs, ru_Actions = as\<rparr>] (new_decisions ''inbox''))"
  using assms by (simp add: decodeRuleJSON_def condition_holds_def new_decisions_def)

text \<open>A blocked sender, and the empty sender of a bounce, get an auto-reply like any other.\<close>

lemma auto_reply_to_blocked:
  assumes "pe_blocked e = Some (Some True)" "pe_contacts e = False" "pe_rules e = None" "pe_autoReply e = Some (Some ar)"
    and "reply_due (pe_clock e) ar" "pe_dedup e = None" "pe_publish_ok e" "\<not> pe_sent_copy e"
  shows "\<exists>subj. snd (applyPostReceive L e \<lparr>mf_from = [], mf_hasAttachments = h, mf_sizeBytes = s\<rparr> (new_decisions f)) =
    [PublishAutoReply [] subj (ar_Body ar)]"
  using assms by (simp add: applyPostReceive_def maybeSendAutoReply_def new_decisions_def Let_def)

subsection \<open>Properties\<close>

text \<open>
  The rule engine is "the first matching rule decides": its loop with flags equals applying
  the actions of the first enabled rule that has a server-side condition and whose server-side
  conditions all hold. So a message is dropped exactly when that rule deletes, it goes to junk
  exactly when it was assigned there before or its sender is blocked, and a dropped message
  triggers no auto-reply.
\<close>

theorem first_rule_decides:
  assumes "pe_rules e = Some (Some rules)"
  shows "let (d, effs) = applyPostReceive L e m (new_decisions folder);
           acts = (case find (rule_applies L m) rules of None \<Rightarrow> []
                   | Some rule \<Rightarrow> decodeRuleJSON (rl_actions L) (rl_base64 L) (ru_Actions rule))
    in d = apply_actions (pe_archive e) acts (new_decisions (if pe_blocked e = Some (Some True) then ''junk'' else folder))
       \<and> (de_Drop d \<longleftrightarrow> (\<exists>a \<in> set acts. ra_Type a = ''delete''))
       \<and> de_FolderAssignment d = (if pe_blocked e = Some (Some True) then ''junk'' else folder)
       \<and> (de_Drop d \<longrightarrow> effs = (if pe_contacts e then [AutoAddContact (mf_from m)] else []))"
proof -
  let ?d1 = "new_decisions (if pe_blocked e = Some (Some True) then ''junk'' else folder)"
  have d1: "(if pe_blocked e = Some (Some True) then (new_decisions folder)\<lparr>de_FolderAssignment := ''junk''\<rparr> else new_decisions folder) = ?d1"
    by (simp add: new_decisions_def)
  show ?thesis
    using assms by (cases "find (rule_applies L m) rules")
      (auto simp: applyPostReceive_def d1 evalRules_first apply_actions_flags Let_def, simp_all add: new_decisions_def)
qed

end
