(* ===== verification/Auth_Checks.thy ===== *)
theory Auth_Checks
  imports Go_Base "HOL-Library.AList"
begin

text \<open>
  \<open>internal/smtp/auth_checks.go\<close>: SPF with its counter of DNS lookups, DKIM and DMARC. The resolver,
  the verifier of DKIM signatures, the public suffix list, the parsers of IP addresses and the case
  mapping of Unicode are parameters.
\<close>

subsection \<open>Parameters\<close>

text \<open>The resolver: \<open>None\<close> is an error. The names it is asked for are recorded by the model.\<close>

record resolver =
  dn_LookupTXT :: "string \<Rightarrow> string list option"
  dn_LookupHost :: "string \<Rightarrow> string list option"
  dn_LookupMX :: "string \<Rightarrow> string list option"

text \<open>
  An address of \<open>net/netip\<close> is its 4 or 16 bytes and its zone; \<open>net.IP\<close> is a slice of bytes.
\<close>

type_synonym netip_addr = "bytes \<times> string"

record auth_lib =
  al_dns :: resolver
  al_ipString :: "bytes \<Rightarrow> string"
  al_ParseIP :: "string \<Rightarrow> bytes option"
  al_ParseAddr :: "string \<Rightarrow> netip_addr option"
  al_ParsePrefix :: "string \<Rightarrow> (netip_addr \<times> nat) option"
  al_toLower :: "string \<Rightarrow> string"
  al_etld1 :: "string \<Rightarrow> string option"
  al_dkimVerify :: "bytes \<Rightarrow> (string \<times> bool) list option"

subsection \<open>Addresses and prefixes\<close>

definition addrFromSlice :: "bytes \<Rightarrow> netip_addr option" where
  "addrFromSlice b = (if length b = 4 \<or> length b = 16 then Some (b, []) else None)"

definition v4_in_6 :: bytes where
  "v4_in_6 = replicate 10 0 @ [255, 255]"

definition unmap :: "netip_addr \<Rightarrow> netip_addr" where
  "unmap a = (if length (fst a) = 16 \<and> take 12 (fst a) = v4_in_6 then (drop 12 (fst a), []) else a)"

definition byte_bits :: "byte \<Rightarrow> bool list" where
  "byte_bits b = map (\<lambda>i. odd (unat b div 2 ^ i)) [7, 6, 5, 4, 3, 2, 1, 0]"

text \<open>\<open>Prefix.Contains\<close>: no zone, the same family, the same leading bits.\<close>

definition prefix_contains :: "netip_addr \<Rightarrow> nat \<Rightarrow> netip_addr \<Rightarrow> bool" where
  "prefix_contains p bits a =
     (snd a = [] \<and> fst a \<noteq> [] \<and> length (fst p) = length (fst a)
      \<and> take bits (concat (map byte_bits (fst p))) = take bits (concat (map byte_bits (fst a))))"

text \<open>\<open>PrefixFrom(...).Masked()\<close> is the invalid prefix, which contains nothing, if the bits exceed the address.\<close>

definition matchIPWithPrefix :: "bytes \<Rightarrow> bytes option \<Rightarrow> int \<Rightarrow> bool" where
  "matchIPWithPrefix clientIP resolvedIP prefix =
     (case resolvedIP of
        None \<Rightarrow> False
      | Some r \<Rightarrow>
          (case (addrFromSlice clientIP, addrFromSlice r) of
             (Some c, Some r) \<Rightarrow>
               (let cAddr = unmap c; rAddr = unmap r;
                    maxBits = int (8 * length (fst cAddr));
                    prefix = (if prefix > maxBits then maxBits else prefix);
                    prefix = (if prefix < 0 then 0 else prefix)
                in nat prefix \<le> 8 * length (fst rAddr) \<and> prefix_contains rAddr (nat prefix) cAddr)
           | _ \<Rightarrow> False))"

definition matchIPCIDR :: "auth_lib \<Rightarrow> bytes \<Rightarrow> string \<Rightarrow> bool" where
  "matchIPCIDR A ip cidr =
     (case addrFromSlice ip of
        None \<Rightarrow> False
      | Some a \<Rightarrow>
          (let addr = unmap a in
           if CHR ''/'' \<notin> set cidr then
             (case al_ParseAddr A cidr of None \<Rightarrow> False | Some target \<Rightarrow> addr = unmap target)
           else (case al_ParsePrefix A cidr of None \<Rightarrow> False | Some (p, bits) \<Rightarrow> prefix_contains p bits addr)))"

definition scan_prefix :: "string \<Rightarrow> int" where
  "scan_prefix s = (case scan_int s of Some n \<Rightarrow> n | None \<Rightarrow> 0)"

definition parseMechanismDomainCIDR :: "string \<Rightarrow> string \<Rightarrow> string \<Rightarrow> string \<times> int" where
  "parseMechanismDomainCIDR mechanism name defaultDomain =
     (case drop (length name) mechanism of
        [] \<Rightarrow> (defaultDomain, 0)
      | c # rest \<Rightarrow>
          if c = CHR '':'' then
            (case cut_at (CHR ''/'') rest of
               Some (target, bits) \<Rightarrow> (target, scan_prefix bits)
             | None \<Rightarrow> (rest, 0))
          else if c = CHR ''/'' then (defaultDomain, scan_prefix rest)
          else (defaultDomain, 0))"

subsection \<open>SPF\<close>

text \<open>The counter, with the queries made so far; a result is a word and whether there is an error.\<close>

datatype dns_query = QueryTXT string | QueryHost string | QueryMX string

record spf_state =
  sp_count :: nat
  sp_queries :: "dns_query list"

type_synonym spf_result = "string \<times> bool"

definition spf_limit :: nat where
  "spf_limit = 10"

definition newSPFDNSCounter :: spf_state where
  "newSPFDNSCounter = \<lparr>sp_count = 0, sp_queries = []\<rparr>"

definition spf_inc :: "spf_state \<Rightarrow> bool \<times> spf_state" where
  "spf_inc s = (sp_count s + 1 > spf_limit, s\<lparr>sp_count := sp_count s + 1\<rparr>)"

definition ask :: "dns_query \<Rightarrow> spf_state \<Rightarrow> spf_state" where
  "ask q s = s\<lparr>sp_queries := sp_queries s @ [q]\<rparr>"

text \<open>The loop over the addresses of one host.\<close>

definition host_matches :: "auth_lib \<Rightarrow> bytes \<Rightarrow> int \<Rightarrow> string \<Rightarrow> bool" where
  "host_matches A ip prefix host =
     (case dn_LookupHost (al_dns A) host of
        None \<Rightarrow> False
      | Some ips \<Rightarrow>
          list_ex (\<lambda>r. if prefix > 0 then matchIPWithPrefix ip (al_ParseIP A r) prefix else r = al_ipString A ip) ips)"

text \<open>One term of a record either ends the evaluation or matches or does not.\<close>

datatype spf_step = SpfReturn string bool | SpfMatched bool

definition spf_exceeded :: spf_step where
  "spf_exceeded = SpfReturn ''permerror'' True"

fun mx_hosts :: "auth_lib \<Rightarrow> bytes \<Rightarrow> int \<Rightarrow> string list \<Rightarrow> spf_state \<Rightarrow> spf_step \<times> spf_state" where
  "mx_hosts A ip prefix [] s = (SpfMatched False, s)"
| "mx_hosts A ip prefix (h # hs) s =
     (let (over, s1) = spf_inc s in
      if over then (spf_exceeded, s1)
      else let s2 = ask (QueryHost h) s1 in
        if host_matches A ip prefix h then (SpfMatched True, s2) else mx_hosts A ip prefix hs s2)"

text \<open>
  \<open>check\<close> is the recursive call; it gives nothing only where the recursion of the model is cut off.
\<close>

definition spf_mechanism ::
    "auth_lib \<Rightarrow> bytes \<Rightarrow> string \<Rightarrow> (string \<Rightarrow> spf_state \<Rightarrow> (spf_result \<times> spf_state) option) \<Rightarrow> string \<Rightarrow> spf_state
      \<Rightarrow> (spf_step \<times> spf_state) option" where
  "spf_mechanism A ip domain check mechanism s =
     (if mechanism = ''all'' then Some (SpfMatched True, s)
      else if hasPrefix mechanism ''ip4:'' then Some (SpfMatched (matchIPCIDR A ip (drop 4 mechanism)), s)
      else if hasPrefix mechanism ''ip6:'' then Some (SpfMatched (matchIPCIDR A ip (drop 4 mechanism)), s)
      else if mechanism = ''a'' \<or> hasPrefix mechanism ''a:'' \<or> hasPrefix mechanism ''a/'' then
        (let (over, s1) = spf_inc s in
         if over then Some (spf_exceeded, s1)
         else let (aDomain, prefix) = parseMechanismDomainCIDR mechanism ''a'' domain in
           Some (SpfMatched (host_matches A ip prefix aDomain), ask (QueryHost aDomain) s1))
      else if mechanism = ''mx'' \<or> hasPrefix mechanism ''mx:'' \<or> hasPrefix mechanism ''mx/'' then
        (let (over, s1) = spf_inc s in
         if over then Some (spf_exceeded, s1)
         else let (mxDomain, prefix) = parseMechanismDomainCIDR mechanism ''mx'' domain;
                  s2 = ask (QueryMX mxDomain) s1
              in case dn_LookupMX (al_dns A) mxDomain of
                   None \<Rightarrow> Some (SpfMatched False, s2)
                 | Some hosts \<Rightarrow> Some (mx_hosts A ip prefix hosts s2))
      else if hasPrefix mechanism ''include:'' then
        (let (over, s1) = spf_inc s in
         if over then Some (spf_exceeded, s1)
         else case check (drop 8 mechanism) s1 of
           None \<Rightarrow> None
         | Some ((includeResult, _), s2) \<Rightarrow>
             if includeResult = ''permerror'' then Some (spf_exceeded, s2)
             else Some (SpfMatched (includeResult = ''pass''), s2))
      else if hasPrefix mechanism ''redirect='' then
        (let (over, s1) = spf_inc s in
         if over then Some (spf_exceeded, s1)
         else case check (drop 9 mechanism) s1 of
           None \<Rightarrow> None
         | Some ((result, err), s2) \<Rightarrow> Some (SpfReturn result err, s2))
      else if mechanism = ''ptr'' \<or> hasPrefix mechanism ''ptr:'' then Some (SpfReturn ''neutral'' False, s)
      else if hasPrefix mechanism ''exists:'' then
        (let (over, s1) = spf_inc s in
         if over then Some (spf_exceeded, s1)
         else let existsDomain = drop 7 mechanism in
           Some (SpfMatched (case dn_LookupHost (al_dns A) existsDomain of None \<Rightarrow> False | Some ips \<Rightarrow> ips \<noteq> []),
                 ask (QueryHost existsDomain) s1))
      else Some (SpfMatched False, s))"

definition split_qualifier :: "string \<Rightarrow> char \<times> string" where
  "split_qualifier part =
     (case part of
        c # rest \<Rightarrow> if c \<in> set ''+-~?'' then (c, rest) else (CHR ''+'', part)
      | [] \<Rightarrow> (CHR ''+'', part))"

definition qualifier_result :: "char \<Rightarrow> string" where
  "qualifier_result q =
     (if q = CHR ''+'' then ''pass'' else if q = CHR ''-'' then ''fail''
      else if q = CHR ''~'' then ''softfail'' else ''neutral'')"

fun spf_terms ::
    "auth_lib \<Rightarrow> bytes \<Rightarrow> string \<Rightarrow> (string \<Rightarrow> spf_state \<Rightarrow> (spf_result \<times> spf_state) option) \<Rightarrow> string list \<Rightarrow> spf_state
      \<Rightarrow> (spf_result \<times> spf_state) option" where
  "spf_terms A ip domain check [] s = Some ((''neutral'', False), s)"
| "spf_terms A ip domain check (part # parts) s =
     (let (qualifier, mechanism) = split_qualifier part in
      case spf_mechanism A ip domain check mechanism s of
        None \<Rightarrow> None
      | Some (SpfReturn r err, s1) \<Rightarrow> Some ((r, err), s1)
      | Some (SpfMatched m, s1) \<Rightarrow>
          if m then Some ((qualifier_result qualifier, False), s1) else spf_terms A ip domain check parts s1)"

definition is_spf_record :: "string \<Rightarrow> bool" where
  "is_spf_record txt = (hasPrefix txt ''v=spf1 '' \<or> txt = ''v=spf1'')"

text \<open>The number is how deep includes and redirects may nest.\<close>

fun checkSPFWithCounter ::
    "auth_lib \<Rightarrow> bytes \<Rightarrow> nat \<Rightarrow> string \<Rightarrow> spf_state \<Rightarrow> (spf_result \<times> spf_state) option" where
  "checkSPFWithCounter A ip 0 domain s = None"
| "checkSPFWithCounter A ip (Suc fuel) domain s =
     (let s1 = ask (QueryTXT domain) s in
      case dn_LookupTXT (al_dns A) domain of
        None \<Rightarrow> Some ((''temperror'', True), s1)
      | Some txtRecords \<Rightarrow>
          (case filter is_spf_record txtRecords of
             [] \<Rightarrow> Some ((''none'', False), s1)
           | [spfRecord] \<Rightarrow> spf_terms A ip domain (checkSPFWithCounter A ip fuel) (tl (strFields spfRecord)) s1
           | _ \<Rightarrow> Some ((''permerror'', True), s1)))"

definition CheckSPF :: "auth_lib \<Rightarrow> nat \<Rightarrow> bytes \<Rightarrow> string \<Rightarrow> string \<Rightarrow> (spf_result \<times> spf_state) option" where
  "CheckSPF A fuel ip helo sender =
     (let domain = (case after_last (CHR ''@'') sender of Some d \<Rightarrow> d | None \<Rightarrow> sender);
          domain = (if domain = [] then helo else domain)
      in if domain = [] then Some ((''none'', False), newSPFDNSCounter)
         else checkSPFWithCounter A ip fuel domain newSPFDNSCounter)"

subsection \<open>DKIM and DMARC\<close>

definition CheckDKIM :: "auth_lib \<Rightarrow> bytes \<Rightarrow> (string \<times> string) \<times> bool" where
  "CheckDKIM A message =
     (case al_dkimVerify A message of
        None \<Rightarrow> ((''none'', []), True)
      | Some [] \<Rightarrow> ((''none'', []), False)
      | Some (v # vs) \<Rightarrow>
          (case List.find snd (v # vs) of
             Some (domain, _) \<Rightarrow> ((''pass'', domain), False)
           | None \<Rightarrow> ((''fail'', fst v), False)))"

definition trim_suffix_dot :: "string \<Rightarrow> string" where
  "trim_suffix_dot s = (if hasSuffix s ''.'' then butlast s else s)"

definition orgDomain :: "auth_lib \<Rightarrow> string \<Rightarrow> string" where
  "orgDomain A domain =
     (let domain = al_toLower A (trim_suffix_dot domain) in
      case al_etld1 A domain of
        Some d \<Rightarrow> d
      | None \<Rightarrow>
          (let parts = splitStr (CHR ''.'') domain in
           if length parts \<le> 2 then domain
           else parts ! (length parts - 2) @ ''.'' @ parts ! (length parts - 1)))"

definition domainsAlign :: "auth_lib \<Rightarrow> string \<Rightarrow> string \<Rightarrow> string \<Rightarrow> bool" where
  "domainsAlign A fromDomain authDomain mode =
     (if fromDomain = [] \<or> authDomain = [] then False
      else let fromDomain = al_toLower A fromDomain; authDomain = al_toLower A authDomain in
        if mode = ''s'' then fromDomain = authDomain
        else orgDomain A fromDomain = orgDomain A authDomain)"

definition CheckDKIMAlignment :: "auth_lib \<Rightarrow> string \<Rightarrow> string \<Rightarrow> string \<Rightarrow> bool" where
  "CheckDKIMAlignment A fromDomain dkimDomain mode = domainsAlign A fromDomain dkimDomain mode"

type_synonym policy = "(string \<times> string) list"

definition tag :: "policy \<Rightarrow> string \<Rightarrow> string" where
  "tag p k = (case map_of p k of Some v \<Rightarrow> v | None \<Rightarrow> [])"

definition tag_name_ok :: "string \<Rightarrow> bool" where
  "tag_name_ok key = list_all (\<lambda>c. is_lower c \<or> is_upper c \<or> is_digit c) key"

fun strict_tags :: "string list \<Rightarrow> policy \<Rightarrow> policy option" where
  "strict_tags [] p = Some p"
| "strict_tags (part # parts) p =
     (let part = trimSpace part in
      if part = [] then strict_tags parts p
      else case cut_at (CHR ''='') part of
        None \<Rightarrow> None
      | Some (k, v) \<Rightarrow>
          (let key = trimSpace k; val = trimSpace v in
           if key = [] \<or> \<not> tag_name_ok key \<or> map_of p key \<noteq> None then None
           else strict_tags parts (AList.update key val p)))"

definition parseDMARCPolicyStrict :: "string \<Rightarrow> policy option" where
  "parseDMARCPolicyStrict rec =
     (case strict_tags (splitStr (CHR '';'') rec) [] of
        None \<Rightarrow> None
      | Some p \<Rightarrow> if tag p ''v'' \<noteq> ''DMARC1'' then None else Some p)"

definition parseDMARCPolicy :: "string \<Rightarrow> policy" where
  "parseDMARCPolicy rec =
     fold (\<lambda>part p. case cut_at (CHR ''='') (trimSpace part) of
                      Some (k, v) \<Rightarrow> AList.update (trimSpace k) (trimSpace v) p
                    | None \<Rightarrow> p)
       (splitStr (CHR '';'') rec) []"

definition CheckDMARC :: "auth_lib \<Rightarrow> string \<Rightarrow> string \<Rightarrow> string \<Rightarrow> string \<Rightarrow> string \<Rightarrow> string \<times> bool" where
  "CheckDMARC A fromDomain spfResult spfDomain dkimResult dkimDomain =
     (if fromDomain = [] then (''none'', False)
      else case dn_LookupTXT (al_dns A) (''_dmarc.'' @ fromDomain) of
        None \<Rightarrow> (''none'', False)
      | Some txtRecords \<Rightarrow>
          (case List.find (\<lambda>txt. hasPrefix txt ''v=DMARC1'') txtRecords of
             None \<Rightarrow> (''none'', False)
           | Some dmarcRecord \<Rightarrow>
               (case parseDMARCPolicyStrict dmarcRecord of
                  None \<Rightarrow> (''permerror'', True)
                | Some policy \<Rightarrow>
                    (let spfAligned = (spfResult = ''pass'' \<and> domainsAlign A fromDomain spfDomain (tag policy ''aspf''));
                         dkimAligned = (dkimResult = ''pass'' \<and> domainsAlign A fromDomain dkimDomain (tag policy ''adkim''))
                     in if spfAligned \<or> dkimAligned then (''pass'', False)
                        else if tag policy ''p'' = ''reject'' then (''reject'', False)
                        else if tag policy ''p'' = ''quarantine'' then (''quarantine'', False)
                        else (''fail'', False)))))"

text \<open>
  \<open>runSecurityChecks\<close> of the pipeline. It passes the domain of the envelope sender where \<open>CheckSPF\<close>
  expects the name of HELO, and as the domain of the header to \<open>CheckDMARC\<close>.
\<close>

record security =
  sc_spf :: string
  sc_dkim :: string
  sc_dmarc :: string

definition runSecurityChecks :: "auth_lib \<Rightarrow> nat \<Rightarrow> string \<Rightarrow> bytes \<Rightarrow> bytes \<Rightarrow> security option" where
  "runSecurityChecks A fuel sender clientIP rawMessage =
     (let fromDomain = (case after_last (CHR ''@'') sender of Some d \<Rightarrow> d | None \<Rightarrow> []) in
      case CheckSPF A fuel clientIP fromDomain sender of
        None \<Rightarrow> None
      | Some ((spf, spfErr), _) \<Rightarrow>
          (let spfResult = (if spfErr then ''temperror'' else spf);
               ((dkim, dkimDomain), dkimErr) = CheckDKIM A rawMessage;
               dkimResult = (if dkimErr then ''none'' else dkim);
               spfDomain = (case after_last (CHR ''@'') sender of Some d \<Rightarrow> d | None \<Rightarrow> []);
               (dmarcResult, _) = CheckDMARC A fromDomain spfResult spfDomain dkimResult dkimDomain
           in Some \<lparr>sc_spf = spfResult, sc_dkim = dkimResult, sc_dmarc = dmarcResult\<rparr>))"

end
