(* ===== verification/Pgp.thy ===== *)
theory Pgp
  imports Go_Base
begin

text \<open>
  The parts of \<open>internal/crypto/pgp.go\<close> that the mail path runs on the server: detection of
  messages that arrive encrypted, and the Autocrypt header. The functions around the OpenPGP library
  are not modelled.
\<close>

subsection \<open>Detection\<close>

definition bytes_str :: "bytes \<Rightarrow> string" where
  "bytes_str bs = map (\<lambda>b. char_of (unat b)) bs"

text \<open>\<open>bytes.Index\<close>.\<close>

fun index_of :: "'a list \<Rightarrow> 'a list \<Rightarrow> nat option" where
  "index_of [] sub = (if sub = [] then Some 0 else None)"
| "index_of (b # bs) sub =
     (if take (length sub) (b # bs) = sub then Some 0 else map_option Suc (index_of bs sub))"

definition crlf2 :: bytes where "crlf2 = [13, 10, 13, 10]"
definition lf2 :: bytes where "lf2 = [10, 10]"

definition header_end :: "bytes \<Rightarrow> nat" where
  "header_end raw =
     (case index_of raw crlf2 of
        Some i \<Rightarrow> i
      | None \<Rightarrow>
          (case index_of raw lf2 of
             Some i \<Rightarrow> i
           | None \<Rightarrow> if length raw > 4096 then 4096 else length raw))"

definition DetectPGPMIME :: "(string \<Rightarrow> string) \<Rightarrow> bytes \<Rightarrow> bool" where
  "DetectPGPMIME lower rawMessage =
     (let headers = lower (bytes_str (take (header_end rawMessage) rawMessage)) in
      containsStr headers ''multipart/encrypted'' \<and> containsStr headers ''application/pgp-encrypted'')"

definition DetectPGPInline :: "bytes \<Rightarrow> bool" where
  "DetectPGPInline messageBody = (index_of messageBody (str_bytes ''-----BEGIN PGP MESSAGE-----'') \<noteq> None)"

definition DetectSMIME :: "(string \<Rightarrow> string) \<Rightarrow> bytes \<Rightarrow> bool" where
  "DetectSMIME lower rawMessage =
     (let headers = lower (bytes_str (take (header_end rawMessage) rawMessage)) in
      containsStr headers ''application/pkcs7-mime'' \<or> containsStr headers ''application/x-pkcs7-mime'')"

subsection \<open>Autocrypt\<close>

definition trimPrefix :: "string \<Rightarrow> string \<Rightarrow> string" where
  "trimPrefix s p = (if hasPrefix s p then drop (length p) s else s)"

record autocrypt_acc =
  ac_email :: string
  ac_prefer :: string
  ac_key :: bytes

fun autocrypt_parts :: "(string \<Rightarrow> bytes option) \<Rightarrow> string list \<Rightarrow> autocrypt_acc \<Rightarrow> string + autocrypt_acc" where
  "autocrypt_parts base64 [] acc = Inr acc"
| "autocrypt_parts base64 (p # parts) acc =
     (let part = trimSpace p in
      if hasPrefix part ''addr='' then autocrypt_parts base64 parts (acc\<lparr>ac_email := trimPrefix part ''addr=''\<rparr>)
      else if hasPrefix part ''prefer-encrypt='' then
        autocrypt_parts base64 parts (acc\<lparr>ac_prefer := trimPrefix part ''prefer-encrypt=''\<rparr>)
      else if hasPrefix part ''keydata='' then
        (let raw = filter (\<lambda>c. c \<noteq> CHR '' '' \<and> c \<noteq> CHR 0x0A \<and> c \<noteq> CHR 0x0D) (trimPrefix part ''keydata='') in
         case base64 raw of
           None \<Rightarrow> Inl ''invalid base64 in keydata''
         | Some decoded \<Rightarrow> autocrypt_parts base64 parts (acc\<lparr>ac_key := decoded\<rparr>))
      else autocrypt_parts base64 parts acc)"

definition ParseAutocryptHeader :: "(string \<Rightarrow> bytes option) \<Rightarrow> string \<Rightarrow> string + string \<times> bytes \<times> string" where
  "ParseAutocryptHeader base64 headerValue =
     (case autocrypt_parts base64 (splitStr (CHR '';'') headerValue) \<lparr>ac_email = [], ac_prefer = ''nopreference'', ac_key = []\<rparr> of
        Inl e \<Rightarrow> Inl e
      | Inr acc \<Rightarrow>
          if ac_email acc = [] then Inl ''missing addr= in Autocrypt header''
          else if ac_key acc = [] then Inl ''missing keydata= in Autocrypt header''
          else Inr (ac_email acc, ac_key acc, ac_prefer acc))"

text \<open>The replacer deletes line ends and NUL bytes.\<close>

definition FormatAutocryptHeader :: "string \<Rightarrow> string \<Rightarrow> string" where
  "FormatAutocryptHeader email minimalKeyBase64 =
     (let safe = filter (\<lambda>c. c \<noteq> CHR 0x0D \<and> c \<noteq> CHR 0x0A \<and> c \<noteq> CHR 0x00) in
      ''addr='' @ safe email @ ''; prefer-encrypt=mutual; keydata='' @ safe minimalKeyBase64)"

end
