(* ===== verification/Pipeline.thy ===== *)
theory Pipeline
  imports Crypto_Props Receipt Mailparse Post_Receive Auth_Checks Pgp
begin

text \<open>
  \<open>internal/smtp/pipeline.go\<close>: an inbound message is parsed, authenticated, filtered, encrypted to
  the recipient or to a group, decided on, receipted and published. The mail library (which splits
  a message into parts), the spam filter, JSON, base64 and the stores are parameters; encryption,
  receipts, SPF, DKIM and DMARC, rules and the MIME index are the models of their sources.
\<close>

subsection \<open>Data\<close>

record InboundAttachment =
  at_Filename :: string
  at_ContentType :: string
  at_ContentID :: string
  at_Data :: bytes

record EncryptedInboundAttachment =
  ea_EphemeralPubkey :: bytes
  ea_EncryptedKey :: bytes
  ea_EncryptedData :: bytes
  ea_EncryptedMetadata :: bytes
  ea_SizeBytes :: int

type_synonym msg_headers = "(string \<times> string list) list"

text \<open>
  The calendar text is the body of an inline part, or shares the array of the attachment with this
  index.
\<close>

datatype ics_source = InlineICS bytes | AttachedICS nat

record parsedMessage =
  pm_Subject :: bytes
  pm_Body :: bytes
  pm_InReplyTo :: string
  pm_References :: string
  pm_MessageID :: string
  pm_Headers :: msg_headers
  pm_Attachments :: "InboundAttachment list"
  pm_CalendarICS :: "ics_source option"

record InboundMessage =
  im_SenderBlindIndex :: string
  im_EncryptedHeaders :: bytes
  im_RuleMoveFolderID :: string
  im_RuleLabelIDs :: "string list"
  im_RuleMarkRead :: bool
  im_RuleMarkStarred :: bool
  im_TenantID :: string
  im_UserID :: string
  im_GroupID :: string
  im_GroupKeyEpoch :: int
  im_EphemeralPubkey :: bytes
  im_EncryptedMessageKey :: bytes
  im_EncryptedBody :: bytes
  im_EncryptedSubject :: bytes
  im_SPFResult :: string
  im_DKIMResult :: string
  im_DMARCResult :: string
  im_Receipt :: bytes
  im_FolderAssignment :: string
  im_ReceivedAt :: u64
  im_InReplyTo :: string
  im_References :: string
  im_MessageID :: string
  im_EncryptionType :: string
  im_Autocrypt :: "string \<times> string \<times> string"
  im_EncryptedAttachments :: "EncryptedInboundAttachment list"
  im_EncryptedRawBody :: bytes
  im_EncryptedRawKey :: bytes
  im_RawEphemeralPubkey :: bytes
  im_RawBlobFormat :: string
  im_EncryptedRawMeta :: bytes

text \<open>The columns of a user and of a group that the pipeline reads; identifiers are UUIDs (16 bytes).\<close>

record mail_user =
  us_UserID :: bytes
  us_TenantID :: bytes
  us_PublicKeyEncryption :: bytes
  us_PublicKeyKEM :: bytes

record mail_group =
  gr_GroupID :: bytes
  gr_TenantID :: bytes
  gr_Address :: string
  gr_PublicKeyX25519 :: bytes
  gr_PublicKeyKEM :: bytes
  gr_KeyEpoch :: int
  gr_PostingPolicy :: string

record group_member =
  gm_MemberUserID :: bytes
  gm_JoinedAtEpoch :: int

text \<open>\<open>uuid.UUID.String\<close>.\<close>

definition uuid_String :: "bytes \<Rightarrow> string" where
  "uuid_String u =
     (let h = hexEncode u in take 8 h @ ''-'' @ take 4 (drop 8 h) @ ''-'' @ take 4 (drop 12 h) @ ''-'' @ take 4 (drop 16 h) @ ''-'' @ drop 20 h)"

subsection \<open>Parameters\<close>

text \<open>A part as the mail library delivers it: content type, content id, and the body unless reading it failed.\<close>

datatype mail_part =
    InlinePart string string "bytes option"
  | AttachmentPart string string string "bytes option"

text \<open>The MIME index of a message.\<close>

record rawMetaPart =
  rm_ContentType :: string
  rm_Charset :: string
  rm_TransferEncoding :: string
  rm_Disposition :: string
  rm_Filename :: string
  rm_Start :: int
  rm_Body :: int
  rm_End :: int
  rm_Children :: "nat list"

record mail_lib =
  pl_crypto :: crypto_platform
  pl_ed :: ed25519
  pl_sha :: "bytes \<Rightarrow> bytes"
  pl_hmac :: "bytes \<Rightarrow> bytes \<Rightarrow> bytes"
  pl_mime :: mime_lib
  pl_auth :: auth_lib
  pl_rules :: rule_lib
  pl_reader :: "bytes \<Rightarrow> (bytes \<times> mail_part list \<times> (string \<times> string) list) option"
  pl_quote :: "string \<Rightarrow> string"
  pl_base64 :: "bytes \<Rightarrow> string"
  pl_unbase64 :: "string \<Rightarrow> bytes option"
  pl_headersJSON :: "msg_headers \<Rightarrow> bytes option"
  pl_receiptJSON :: "EnclaveReceipt \<Rightarrow> bytes option"
  pl_messageJSON :: "InboundMessage \<Rightarrow> bytes option"
  pl_metaJSON :: "rawMetaPart list \<Rightarrow> msg_headers \<Rightarrow> bytes"

text \<open>The configured pipeline: the receipt key, TLS, whether groups are set up, the spam filter if there is one.\<close>

record pipeline =
  pp_signingKey :: bytes
  pp_signingPub :: bytes
  pp_enclaveID :: string
  pp_tlsActive :: bool
  pp_groupStore :: bool
  pp_blindSecret :: "bytes option"
  pp_spamFilter :: "(bytes \<Rightarrow> string \<Rightarrow> string \<Rightarrow> msg_headers \<Rightarrow> bytes \<Rightarrow> string \<Rightarrow> string \<Rightarrow> string \<Rightarrow> u64 \<times> string) option"

text \<open>What one run reads from the world.\<close>

record pipe_env =
  en_resolve :: "string \<Rightarrow> mail_user option"
  en_user_by_address :: "string \<Rightarrow> mail_user option"
  en_members :: "group_member list option"
  en_post :: "mail_user \<Rightarrow> post_env"
  en_calendar :: bool
  en_publish_ok :: "InboundMessage \<Rightarrow> bool"
  en_date :: date
  en_unix :: u64
  en_production :: bool

datatype pipe_effect = Post effect | ProcessICS bytes | PublishInbound string InboundMessage

record pipe_state =
  ps_rnd :: rnd
  ps_sender :: sender_state

subsection \<open>Parsing\<close>

definition trim_angle :: "string \<Rightarrow> string" where
  "trim_angle s =
     rev (dropWhile (\<lambda>c. c = CHR ''<'' \<or> c = CHR ''>'') (rev (dropWhile (\<lambda>c. c = CHR ''<'' \<or> c = CHR ''>'') s)))"

definition maxInlineSize :: int where "maxInlineSize = 10 * 1024 * 1024"
definition maxAttachmentSize :: int where "maxAttachmentSize = 25 * 1024 * 1024"

record parts_acc =
  pa_text :: "bytes option"
  pa_html :: "bytes option"
  pa_atts :: "InboundAttachment list"
  pa_ics :: "ics_source option"

fun parse_part :: "mime_lib \<Rightarrow> mail_part \<Rightarrow> parts_acc \<Rightarrow> parts_acc" where
  "parse_part M (InlinePart ct contentID body) acc =
     (case body of
        None \<Rightarrow> acc
      | Some b \<Rightarrow>
          (let partBody = limitReader maxInlineSize b in
           if ct = ''text/html'' then acc\<lparr>pa_html := Some partBody\<rparr>
           else if ct = ''text/plain'' then acc\<lparr>pa_text := Some partBody\<rparr>
           else if hasPrefix ct ''text/calendar'' then acc\<lparr>pa_ics := Some (InlineICS partBody)\<rparr>
           else if hasPrefix ct ''image/'' then
             (let cid = trim_angle contentID in
              acc\<lparr>pa_atts := pa_atts acc @ [\<lparr>at_Filename = (if cid \<noteq> [] then cid else ''inline-image''), at_ContentType = ct,
                                             at_ContentID = cid, at_Data = partBody\<rparr>]\<rparr>)
           else acc))"
| "parse_part M (AttachmentPart filename ct0 contentID body) acc =
     (let cid = trim_angle contentID;
          filename = (if filename = [] then if cid \<noteq> [] \<and> hasPrefix ct0 ''image/'' then cid else ''attachment'' else filename);
          ct = (if ct0 = [] then ''application/octet-stream'' else ct0)
      in case body of
           None \<Rightarrow> acc
         | Some b \<Rightarrow>
             (let data = limitReader maxAttachmentSize b;
                  ics = (if pa_ics acc = None \<and> (hasPrefix ct ''text/calendar'' \<or> hasSuffix (ml_toLower M filename) ''.ics'')
                         then Some (AttachedICS (length (pa_atts acc))) else pa_ics acc)
              in acc\<lparr>pa_ics := ics, pa_atts := pa_atts acc @ [\<lparr>at_Filename = filename, at_ContentType = ct, at_ContentID = cid, at_Data = data\<rparr>]\<rparr>))"

definition extractRawBody :: "bytes \<Rightarrow> bytes" where
  "extractRawBody raw =
     (case index_of raw crlf2 of
        Some i \<Rightarrow> drop (i + 4) raw
      | None \<Rightarrow> (case index_of raw lf2 of Some i \<Rightarrow> drop (i + 2) raw | None \<Rightarrow> raw))"

definition display_header :: "string \<Rightarrow> bool" where
  "display_header k = (k \<in> set [''From'', ''To'', ''Cc'', ''Bcc'', ''Reply-To'', ''Sender''])"

fun collect_headers :: "mime_lib \<Rightarrow> (string \<times> string) list \<Rightarrow> msg_headers \<Rightarrow> msg_headers" where
  "collect_headers M [] h = h"
| "collect_headers M ((k, v) # flds) h =
     collect_headers M flds (header_add k (if display_header k then DecodeHeader M v else v) h)"

definition first_field :: "string \<Rightarrow> (string \<times> string) list \<Rightarrow> string" where
  "first_field k flds = (case map_of flds k of Some v \<Rightarrow> v | None \<Rightarrow> [])"

text \<open>\<open>parseMessage\<close> and \<open>parseMessageFull\<close>; both read the same message with the mail library.\<close>

definition parseMessageFull :: "mail_lib \<Rightarrow> bytes \<Rightarrow> string + parsedMessage" where
  "parseMessageFull L raw =
     (case pl_reader L raw of
        None \<Rightarrow> Inl ''create mail reader''
      | Some (subject, parts, flds) \<Rightarrow>
          (let acc = fold (parse_part (pl_mime L)) parts \<lparr>pa_text = None, pa_html = None, pa_atts = [], pa_ics = None\<rparr>;
               body = (case pa_html acc of Some b \<Rightarrow> b | None \<Rightarrow> (case pa_text acc of Some b \<Rightarrow> b | None \<Rightarrow> extractRawBody raw))
           in Inr \<lparr>pm_Subject = subject, pm_Body = body, pm_InReplyTo = first_field ''In-Reply-To'' flds,
                   pm_References = first_field ''References'' flds, pm_MessageID = first_field ''Message-Id'' flds,
                   pm_Headers = collect_headers (pl_mime L) flds [], pm_Attachments = pa_atts acc, pm_CalendarICS = pa_ics acc\<rparr>))"

text \<open>\<open>buildRawMeta\<close>: the MIME tree in preorder, serialised; the parser cannot fail on bytes in memory.\<close>

definition meta_of :: "part_info \<Rightarrow> rawMetaPart" where
  "meta_of i =
     \<lparr>rm_ContentType = pt_ContentType i, rm_Charset = pt_Charset i, rm_TransferEncoding = pt_TransferEncoding i,
      rm_Disposition = pt_ContentDisposition i, rm_Filename = pt_Filename i,
      rm_Start = pt_StartPos i, rm_Body = pt_BodyPos i, rm_End = pt_EndPos i, rm_Children = []\<rparr>"

fun flattenParts :: "Part \<Rightarrow> rawMetaPart list \<Rightarrow> rawMetaPart list \<times> nat"
  and flatten_children :: "Part list \<Rightarrow> rawMetaPart list \<Rightarrow> rawMetaPart list \<times> nat list" where
  "flattenParts (Part info children) parts =
     (let idx = length parts;
          (parts', childIndices) = flatten_children children (parts @ [meta_of info])
      in (if childIndices \<noteq> [] then parts'[idx := (parts' ! idx)\<lparr>rm_Children := childIndices\<rparr>] else parts', idx))"
| "flatten_children [] parts = (parts, [])"
| "flatten_children (child # children) parts =
     (let (parts1, childIdx) = flattenParts child parts;
          (parts2, childIndices) = flatten_children children parts1
      in (parts2, childIdx # childIndices))"

definition buildRawMeta :: "mail_lib \<Rightarrow> nat \<Rightarrow> bytes \<Rightarrow> bytes option" where
  "buildRawMeta L fuel raw =
     (case Parse (pl_mime L) fuel (bytes_str raw) of
        None \<Rightarrow> None
      | Some root \<Rightarrow> Some (pl_metaJSON L (fst (flattenParts root [])) (pt_Header (pt_info root))))"

subsection \<open>Checks\<close>

definition extractAutocrypt :: "mail_lib \<Rightarrow> msg_headers \<Rightarrow> string \<times> string \<times> string" where
  "extractAutocrypt L headers =
     (case map_of headers ''Autocrypt'' of
        Some (h # _) \<Rightarrow>
          (case ParseAutocryptHeader (pl_unbase64 L) h of
             Inl _ \<Rightarrow> ([], [], [])
           | Inr (addr, rawKeyData, prefer) \<Rightarrow> (addr, pl_base64 L rawKeyData, prefer))
      | _ \<Rightarrow> ([], [], []))"

definition spam_check ::
    "pipeline \<Rightarrow> bytes \<Rightarrow> string \<Rightarrow> string \<Rightarrow> parsedMessage \<Rightarrow> security \<Rightarrow> u64 \<times> string" where
  "spam_check p clientIP helo sender parsed sec =
     (let (score, folder) = (case pp_spamFilter p of
            None \<Rightarrow> (0, ''inbox'')
          | Some check \<Rightarrow> check clientIP helo sender (pm_Headers parsed) (pm_Body parsed) (sc_spf sec) (sc_dkim sec) (sc_dmarc sec))
      in (score, if sc_dmarc sec = ''reject'' then ''junk'' else folder))"

subsection \<open>Encryption\<close>

definition attachment_metadata :: "mail_lib \<Rightarrow> InboundAttachment \<Rightarrow> bytes" where
  "attachment_metadata L att =
     str_bytes (''{\"filename\":'' @ pl_quote L (at_Filename att) @ '',\"content_type\":'' @ pl_quote L (at_ContentType att)
       @ '',\"content_id\":'' @ pl_quote L (at_ContentID att) @ ''}'')"

fun encrypt_attachments :: "mail_lib \<Rightarrow> bytes \<Rightarrow> bytes option \<Rightarrow> InboundAttachment list \<Rightarrow> EncryptedInboundAttachment list cr" where
  "encrypt_attachments L pub kemEK [] = retm []"
| "encrypt_attachments L pub kemEK (att # atts) =
     bindm (wrapm ''encrypt attachment'' (EncryptMessageHybrid (pl_crypto L) pub kemEK (attachment_metadata L att) (at_Data att))) (\<lambda>enc.
     bindm (encrypt_attachments L pub kemEK atts) (\<lambda>rest.
     retm (\<lparr>ea_EphemeralPubkey = em_EphemeralPubkey enc, ea_EncryptedKey = em_EncryptedMessageKey enc,
            ea_EncryptedData = em_EncryptedBody enc, ea_EncryptedMetadata = em_EncryptedSubject enc,
            ea_SizeBytes = int (length (at_Data att))\<rparr> # rest)))"

definition parse_kem :: "crypto_platform \<Rightarrow> bytes \<Rightarrow> bytes option" where
  "parse_kem P kem =
     (if kem \<noteq> [] then (case MLKEMEncapsulationKeyFromBytes P kem of Inl _ \<Rightarrow> None | Inr ek \<Rightarrow> Some ek) else None)"

definition encrypt_payload ::
    "mail_lib \<Rightarrow> bytes \<Rightarrow> bytes option \<Rightarrow> bytes \<Rightarrow> bytes \<Rightarrow> bytes \<Rightarrow> bytes \<Rightarrow> msg_headers \<Rightarrow> InboundAttachment list
      \<Rightarrow> (EncryptedRawMessage \<times> EncryptedMessage \<times> EncryptedInboundAttachment list) cr" where
  "encrypt_payload L pub kemEK raw rawMeta subject messageBody headers atts =
     bindm (wrapm ''encrypt raw message'' (EncryptRawMessageWithMetaHybrid (pl_crypto L) pub kemEK raw rawMeta DefaultChunkSize)) (\<lambda>encryptedRaw.
     bindm (case pl_headersJSON L headers of None \<Rightarrow> failm ''marshal headers'' | Some j \<Rightarrow> retm j) (\<lambda>headersJSON.
     bindm (wrapm ''encrypt message'' (EncryptMessageWithHeadersHybrid (pl_crypto L) pub kemEK subject messageBody (Some headersJSON))) (\<lambda>encrypted.
     bindm (encrypt_attachments L pub kemEK atts) (\<lambda>encAtts.
     retm (encryptedRaw, encrypted, encAtts)))))"

subsection \<open>Receipt and blind index\<close>

text \<open>\<open>ComputeAddressBlindIndex\<close>; without the secret it panics.\<close>

definition computeAddressBlindIndex :: "mail_lib \<Rightarrow> bytes option \<Rightarrow> string \<Rightarrow> bytes \<Rightarrow> string \<Rightarrow> string + string" where
  "computeAddressBlindIndex L secret scope userID address =
     (case secret of
        None \<Rightarrow> Inl ''panic: blind index secret not initialized''
      | Some k \<Rightarrow>
          (let normalized = ml_toLower (pl_mime L) (trimSpace address)
           in Inr (hexEncode (pl_hmac L k (str_bytes scope @ str_bytes '':'' @ userID @ str_bytes '':'' @ str_bytes normalized)))))"

text \<open>A failed run returns an error or panics.\<close>

datatype pipe_result = PipeOk | PipeErr string | PipePanic string

definition buildEnclaveReceipt ::
    "mail_lib \<Rightarrow> pipeline \<Rightarrow> pipe_env \<Rightarrow> bytes \<Rightarrow> EncryptedMessage \<Rightarrow> string \<Rightarrow> security \<Rightarrow> u64 \<Rightarrow> string \<Rightarrow> sender_state
      \<Rightarrow> (pipe_result + bytes) \<times> sender_state" where
  "buildEnclaveReceipt L p env raw encrypted sender sec score folder s =
     (case HashSender (pl_sha L) (en_production env) (en_date env) sender s of
        (Inl panic, s') \<Rightarrow> (Inl (PipePanic panic), s')
      | (Inr senderHash, s') \<Rightarrow>
          (let receipt = \<lparr>rc_MessageHash = digest32 (pl_sha L) raw, rc_CiphertextHash = digest32 (pl_sha L) (em_EncryptedBody encrypted),
                 rc_SenderHash = senderHash, rc_SigningPublicKey = take 32 (pp_signingPub p @ replicate 32 0),
                 rc_Timestamp = en_unix env, rc_EnclaveID = pp_enclaveID p, rc_TLSVerified = pp_tlsActive p,
                 rc_SPFResult = sc_spf sec, rc_DKIMResult = sc_dkim sec, rc_DMARCResult = sc_dmarc sec, rc_SpamScore = score,
                 rc_FolderAssignment = folder, rc_Signature = []\<rparr>
           in case SignReceipt (pl_ed L) receipt (pp_signingKey p) of
                Inl err \<Rightarrow> (Inl (PipeErr (''sign receipt: '' @ err)), s')
              | Inr (receipt', _) \<Rightarrow>
                  (case pl_receiptJSON L receipt' of
                     None \<Rightarrow> (Inl (PipeErr ''marshal receipt''), s')
                   | Some j \<Rightarrow> (Inr j, s'))))"

subsection \<open>Delivery to one recipient\<close>

definition spf_depth :: nat where "spf_depth = 11"

text \<open>The type the client is told, and what is encrypted as the body.\<close>

definition encryption_type :: "mail_lib \<Rightarrow> bytes \<Rightarrow> parsedMessage \<Rightarrow> string" where
  "encryption_type L raw parsed =
     (let lower = ml_toLower (pl_mime L) in
      if DetectPGPMIME lower raw \<or> DetectPGPInline (pm_Body parsed) then ''pgp''
      else if DetectSMIME lower raw then ''smime'' else ''received'')"

definition message_body :: "mail_lib \<Rightarrow> bytes \<Rightarrow> parsedMessage \<Rightarrow> bytes" where
  "message_body L raw parsed = (if encryption_type L raw parsed \<noteq> ''received'' then raw else pm_Body parsed)"

text \<open>
  The calendar text when it is read: the loop over the attachments has overwritten their arrays
  with zeros by then.
\<close>

definition zero_attachments :: "InboundAttachment list \<Rightarrow> InboundAttachment list" where
  "zero_attachments atts = map (\<lambda>a. a\<lparr>at_Data := replicate (length (at_Data a)) 0\<rparr>) atts"

fun calendar_text :: "InboundAttachment list \<Rightarrow> ics_source \<Rightarrow> bytes" where
  "calendar_text atts (InlineICS b) = b"
| "calendar_text atts (AttachedICS i) = at_Data (zero_attachments atts ! i)"

definition inbound_message ::
    "pipe_env \<Rightarrow> parsedMessage \<Rightarrow> security \<Rightarrow> EncryptedRawMessage \<Rightarrow> EncryptedMessage \<Rightarrow> EncryptedInboundAttachment list
      \<Rightarrow> bytes \<Rightarrow> string \<Rightarrow> InboundMessage" where
  "inbound_message env parsed sec eraw encrypted eatts receiptJSON folder =
     \<lparr>im_SenderBlindIndex = [], im_EncryptedHeaders = em_EncryptedHeaders encrypted,
      im_RuleMoveFolderID = [], im_RuleLabelIDs = [], im_RuleMarkRead = False, im_RuleMarkStarred = False,
      im_TenantID = [], im_UserID = [], im_GroupID = [], im_GroupKeyEpoch = 0,
      im_EphemeralPubkey = em_EphemeralPubkey encrypted, im_EncryptedMessageKey = em_EncryptedMessageKey encrypted,
      im_EncryptedBody = em_EncryptedBody encrypted, im_EncryptedSubject = em_EncryptedSubject encrypted,
      im_SPFResult = sc_spf sec, im_DKIMResult = sc_dkim sec, im_DMARCResult = sc_dmarc sec,
      im_Receipt = receiptJSON, im_FolderAssignment = folder, im_ReceivedAt = en_unix env,
      im_InReplyTo = pm_InReplyTo parsed, im_References = pm_References parsed, im_MessageID = pm_MessageID parsed,
      im_EncryptionType = ''received'', im_Autocrypt = ([], [], []), im_EncryptedAttachments = eatts,
      im_EncryptedRawBody = em_EncryptedBody (er_Message eraw), im_EncryptedRawKey = em_EncryptedMessageKey (er_Message eraw),
      im_RawEphemeralPubkey = em_EphemeralPubkey (er_Message eraw), im_RawBlobFormat = RawBlobFormatChunked DefaultChunkSize,
      im_EncryptedRawMeta = er_EncryptedMeta eraw\<rparr>"

definition inbound_subject :: "string \<Rightarrow> string" where
  "inbound_subject tenant = ''mail.inbound.'' @ tenant"

text \<open>The end of \<open>ProcessMessage\<close>, once everything is encrypted.\<close>

definition finish_message ::
    "mail_lib \<Rightarrow> pipeline \<Rightarrow> pipe_env \<Rightarrow> mail_user \<Rightarrow> string \<Rightarrow> bytes \<Rightarrow> parsedMessage \<Rightarrow> security \<Rightarrow> u64 \<Rightarrow> string
      \<Rightarrow> EncryptedRawMessage \<times> EncryptedMessage \<times> EncryptedInboundAttachment list \<Rightarrow> pipe_state
      \<Rightarrow> pipe_result \<times> pipe_effect list \<times> pipe_state" where
  "finish_message L p env user sender raw parsed sec score folder enc s = (case enc of (eraw, encrypted, eatts) \<Rightarrow>
     case computeAddressBlindIndex L (pp_blindSecret p) ''message-sender-v1'' (us_UserID user) sender of
       Inl panic \<Rightarrow> (PipePanic panic, [], s)
     | Inr senderBlindIndex \<Rightarrow>
         (case applyPostReceive (pl_rules L) (en_post env user)
                 \<lparr>mf_from = sender, mf_hasAttachments = (eatts \<noteq> []), mf_sizeBytes = int (length raw)\<rparr> (new_decisions folder) of
            (d, effs) \<Rightarrow>
             if de_Drop d then (PipeOk, map Post effs, s)
             else
               (let acts = map Post effs @ (case pm_CalendarICS parsed of
                      Some ics \<Rightarrow> if en_calendar env then [ProcessICS (calendar_text (pm_Attachments parsed) ics)] else []
                    | None \<Rightarrow> [])
                in case buildEnclaveReceipt L p env raw encrypted sender sec score (de_FolderAssignment d) (ps_sender s) of
                     (Inl err, t) \<Rightarrow> (err, acts, s\<lparr>ps_sender := t\<rparr>)
                   | (Inr receiptJSON, t) \<Rightarrow>
                       (let msg = (inbound_message env parsed sec eraw encrypted eatts receiptJSON (de_FolderAssignment d))
                              \<lparr>im_TenantID := uuid_String (us_TenantID user), im_UserID := uuid_String (us_UserID user),
                               im_SenderBlindIndex := senderBlindIndex, im_RuleMoveFolderID := de_MoveFolderID d,
                               im_RuleLabelIDs := de_LabelIDs d, im_RuleMarkRead := de_MarkRead d,
                               im_RuleMarkStarred := de_MarkStarred d, im_EncryptionType := encryption_type L raw parsed,
                               im_Autocrypt := extractAutocrypt L (pm_Headers parsed)\<rparr>
                        in if pl_messageJSON L msg = None then (PipeErr ''marshal inbound message'', acts, s\<lparr>ps_sender := t\<rparr>)
                           else if \<not> en_publish_ok env msg then (PipeErr ''publish to queue'', acts, s\<lparr>ps_sender := t\<rparr>)
                           else (PipeOk, acts @ [PublishInbound (inbound_subject (uuid_String (us_TenantID user))) msg],
                                 s\<lparr>ps_sender := t\<rparr>)))))"

text \<open>\<open>None\<close>: the MIME parser does not return within the fuel.\<close>

definition ProcessMessage ::
    "mail_lib \<Rightarrow> pipeline \<Rightarrow> pipe_env \<Rightarrow> nat \<Rightarrow> string \<Rightarrow> string \<Rightarrow> bytes \<Rightarrow> bytes \<Rightarrow> string \<Rightarrow> pipe_state
      \<Rightarrow> (pipe_result \<times> pipe_effect list \<times> pipe_state) option" where
  "ProcessMessage L p env fuel sender recipient raw clientIP helo s =
     (case parseMessageFull L raw of
        Inl e \<Rightarrow> Some (PipeErr (''parse message: '' @ e), [], s)
      | Inr parsed \<Rightarrow>
          (case runSecurityChecks (pl_auth L) spf_depth sender clientIP raw of
             None \<Rightarrow> None
           | Some sec \<Rightarrow>
               (case spam_check p clientIP helo sender parsed sec of (score, folder) \<Rightarrow>
                case en_resolve env recipient of
                  None \<Rightarrow> Some (PipeErr ''lookup recipient'', [], s)
                | Some user \<Rightarrow>
                    (case newPublicKey (us_PublicKeyEncryption user) of
                       Inl e \<Rightarrow> Some (PipeErr (''parse recipient public key: '' @ e), [], s)
                     | Inr recipientPub \<Rightarrow>
                         (let kemEK = parse_kem (pl_crypto L) (us_PublicKeyKEM user) in
                          case buildRawMeta L fuel raw of
                            None \<Rightarrow> None
                          | Some rawMeta \<Rightarrow>
                              (case encrypt_payload L recipientPub kemEK raw rawMeta (pm_Subject parsed) (message_body L raw parsed)
                                      (pm_Headers parsed) (pm_Attachments parsed) (ps_rnd s) of
                                 (Inl e, r) \<Rightarrow> Some (PipeErr e, [], s\<lparr>ps_rnd := r\<rparr>)
                               | (Inr enc, r) \<Rightarrow>
                                   Some (finish_message L p env user sender raw parsed sec score folder enc (s\<lparr>ps_rnd := r\<rparr>))))))))"

subsection \<open>Delivery to a group\<close>

definition replace_at :: "string \<Rightarrow> string" where
  "replace_at s = (case cut_at (CHR ''@'') s of Some (a, b) \<Rightarrow> a @ ''.'' @ b | None \<Rightarrow> s)"

definition stampGroupListHeaders :: "msg_headers \<Rightarrow> bytes \<Rightarrow> string \<Rightarrow> msg_headers \<times> bytes" where
  "stampGroupListHeaders headers raw groupAddress =
     (let replying = (case map_of headers ''Reply-To'' of Some (_ # _) \<Rightarrow> True | _ \<Rightarrow> False);
          headers1 = (if replying then headers else AList.update ''Reply-To'' [groupAddress] headers);
          added1 = (if replying then [] else [''Reply-To: '' @ groupAddress]);
          listID = ''<'' @ replace_at groupAddress @ ''>'';
          headers2 = AList.update ''List-Id'' [listID] headers1;
          listPost = ''<mailto:'' @ groupAddress @ ''>'';
          headers3 = AList.update ''List-Post'' [listPost] headers2;
          added = added1 @ [''List-Id: '' @ listID, ''List-Post: '' @ listPost]
      in (headers3, concat (map (\<lambda>h. str_bytes h @ [13, 10]) added) @ raw))"

definition skip_members :: "pipe_env \<Rightarrow> string list \<Rightarrow> bytes list" where
  "skip_members env addrs =
     map us_UserID (List.map_filter (\<lambda>a. if trimSpace a = [] then None else en_user_by_address env a) addrs)"

text \<open>The loop over the members: what is published, how many were delivered and skipped.\<close>

fun fan_out ::
    "mail_lib \<Rightarrow> pipe_env \<Rightarrow> mail_group \<Rightarrow> bytes list \<Rightarrow> InboundMessage \<Rightarrow> group_member list \<Rightarrow> pipe_effect list \<times> nat \<times> nat" where
  "fan_out L env g skipMember base [] = ([], 0, 0)"
| "fan_out L env g skipMember base (m # ms) =
     (let (effs, delivered, skipped) = fan_out L env g skipMember base ms in
      if gm_JoinedAtEpoch m > gr_KeyEpoch g then (effs, delivered, skipped)
      else if gm_MemberUserID m \<in> set skipMember then (effs, delivered, Suc skipped)
      else
        (let tenant = uuid_String (gr_TenantID g);
             msg = base\<lparr>im_TenantID := tenant, im_UserID := uuid_String (gm_MemberUserID m)\<rparr>
         in if pl_messageJSON L msg = None \<or> \<not> en_publish_ok env msg then (effs, delivered, skipped)
            else (PublishInbound (inbound_subject tenant) msg # effs, Suc delivered, skipped)))"

definition finish_group ::
    "mail_lib \<Rightarrow> pipeline \<Rightarrow> pipe_env \<Rightarrow> mail_group \<Rightarrow> string \<Rightarrow> string list \<Rightarrow> bytes \<Rightarrow> parsedMessage \<Rightarrow> security \<Rightarrow> u64 \<Rightarrow> string
      \<Rightarrow> EncryptedRawMessage \<times> EncryptedMessage \<times> EncryptedInboundAttachment list \<Rightarrow> pipe_state
      \<Rightarrow> pipe_result \<times> pipe_effect list \<times> pipe_state" where
  "finish_group L p env g sender direct raw parsed sec score folder enc s = (case enc of (eraw, encrypted, eatts) \<Rightarrow>
     case buildEnclaveReceipt L p env raw encrypted sender sec score folder (ps_sender s) of
       (Inl err, t) \<Rightarrow> (err, [], s\<lparr>ps_sender := t\<rparr>)
     | (Inr receiptJSON, t) \<Rightarrow>
         (case en_members env of
            None \<Rightarrow> (PipeErr ''list group members'', [], s\<lparr>ps_sender := t\<rparr>)
          | Some members \<Rightarrow>
              (let base = (inbound_message env parsed sec eraw encrypted eatts receiptJSON folder)
                     \<lparr>im_GroupID := uuid_String (gr_GroupID g), im_GroupKeyEpoch := gr_KeyEpoch g\<rparr>
               in case fan_out L env g (skip_members env (sender # direct)) base members of
                    (effs, delivered, skipped) \<Rightarrow>
                      (if delivered = 0 \<and> skipped = 0 then PipeErr ''no members received the message'' else PipeOk,
                       effs, s\<lparr>ps_sender := t\<rparr>))))"

text \<open>The receipt and the raw blob are over the stamped message; the body is the parsed one.\<close>

definition ProcessGroupMessage ::
    "mail_lib \<Rightarrow> pipeline \<Rightarrow> pipe_env \<Rightarrow> nat \<Rightarrow> string \<Rightarrow> mail_group \<Rightarrow> bytes \<Rightarrow> bytes \<Rightarrow> string \<Rightarrow> string list \<Rightarrow> pipe_state
      \<Rightarrow> (pipe_result \<times> pipe_effect list \<times> pipe_state) option" where
  "ProcessGroupMessage L p env fuel sender g raw0 clientIP helo direct s =
     (if \<not> pp_groupStore p then Some (PipeErr ''group delivery not configured'', [], s)
      else case parseMessageFull L raw0 of
        Inl e \<Rightarrow> Some (PipeErr (''parse message: '' @ e), [], s)
      | Inr parsed0 \<Rightarrow>
          (case runSecurityChecks (pl_auth L) spf_depth sender clientIP raw0 of
             None \<Rightarrow> None
           | Some sec \<Rightarrow>
               (case spam_check p clientIP helo sender parsed0 sec of (score, folder) \<Rightarrow>
                case stampGroupListHeaders (pm_Headers parsed0) raw0 (gr_Address g) of (headers, raw) \<Rightarrow>
                let parsed = parsed0\<lparr>pm_Headers := headers\<rparr>
                in case newPublicKey (gr_PublicKeyX25519 g) of
                     Inl e \<Rightarrow> Some (PipeErr (''parse group public key: '' @ e), [], s)
                   | Inr groupPub \<Rightarrow>
                       (let kemEK = parse_kem (pl_crypto L) (gr_PublicKeyKEM g) in
                        case buildRawMeta L fuel raw of
                          None \<Rightarrow> None
                        | Some rawMeta \<Rightarrow>
                            (case encrypt_payload L groupPub kemEK raw rawMeta (pm_Subject parsed) (pm_Body parsed)
                                    (pm_Headers parsed) (pm_Attachments parsed) (ps_rnd s) of
                               (Inl e, r) \<Rightarrow> Some (PipeErr e, [], s\<lparr>ps_rnd := r\<rparr>)
                             | (Inr enc, r) \<Rightarrow>
                                 Some (finish_group L p env g sender direct raw parsed sec score folder enc (s\<lparr>ps_rnd := r\<rparr>)))))))"

end
