(* ===== verification/Pipe_Props.thy ===== *)
theory Pipe_Props
  imports Pipeline
begin

text \<open>
  What the inbound pipeline guarantees: a message that is published opens for its recipient and
  carries a receipt that verifies, errors publish nothing, groups reach the members they should, and
  the MIME index is the preorder of the parts.
\<close>

subsection \<open>The payload opens\<close>

text \<open>An encrypted attachment opens to the metadata and the data of the original.\<close>

definition attachment_opens :: "mail_lib \<Rightarrow> bytes \<Rightarrow> bytes option \<Rightarrow> InboundAttachment \<Rightarrow> EncryptedInboundAttachment \<Rightarrow> bool" where
  "attachment_opens L priv kemDK att e =
     (DecryptMessageAuto (pl_crypto L) priv kemDK
        \<lparr>em_EphemeralPubkey = ea_EphemeralPubkey e, em_EncryptedMessageKey = ea_EncryptedKey e,
         em_EncryptedBody = ea_EncryptedData e, em_EncryptedSubject = ea_EncryptedMetadata e, em_EncryptedHeaders = []\<rparr>
      = Inr (attachment_metadata L att, at_Data att)
      \<and> ea_SizeBytes e = int (length (at_Data att)))"

lemma no_headers: "EncryptMessageHybrid P pub kemEK subject body st = (Inr msg, st') \<Longrightarrow> em_EncryptedHeaders msg = []"
  unfolding EncryptMessageHybrid_def by (auto simp: split_beta elim!: bindm_InrE)

lemma attachments_open:
  assumes "crypto_laws (pl_crypto L)" "keys_match (pl_crypto L) priv kemDK pub kemEK"
  shows "encrypt_attachments L pub kemEK atts st = (Inr es, st') \<Longrightarrow> list_all2 (attachment_opens L priv kemDK) atts es"
proof (induction atts arbitrary: st es st')
  case Nil
  then show ?case by simp
next
  case (Cons att atts)
  obtain enc s1 rest s2 where
    e: "EncryptMessageHybrid (pl_crypto L) pub kemEK (attachment_metadata L att) (at_Data att) st = (Inr enc, s1)"
    and r: "encrypt_attachments L pub kemEK atts s1 = (Inr rest, s2)"
    and es: "es = \<lparr>ea_EphemeralPubkey = em_EphemeralPubkey enc, ea_EncryptedKey = em_EncryptedMessageKey enc,
            ea_EncryptedData = em_EncryptedBody enc, ea_EncryptedMetadata = em_EncryptedSubject enc,
            ea_SizeBytes = int (length (at_Data att))\<rparr> # rest"
    using Cons.prems by (auto elim!: bindm_InrE)
  have "enc = \<lparr>em_EphemeralPubkey = em_EphemeralPubkey enc, em_EncryptedMessageKey = em_EncryptedMessageKey enc,
     em_EncryptedBody = em_EncryptedBody enc, em_EncryptedSubject = em_EncryptedSubject enc, em_EncryptedHeaders = []\<rparr>"
    using no_headers[OF e] by (cases enc) simp
  then show ?case
    using Cons.IH[OF r] hybrid_open[OF assms e] by (simp add: es attachment_opens_def)
qed

lemma payload_parts:
  assumes "encrypt_payload L pub kemEK raw rawMeta subject body headers atts st = (Inr (eraw, enc, eatts), st')"
  obtains s1 j s2 s3 where
    "EncryptRawMessageWithMetaHybrid (pl_crypto L) pub kemEK raw rawMeta DefaultChunkSize st = (Inr eraw, s1)"
    "pl_headersJSON L headers = Some j"
    "EncryptMessageWithHeadersHybrid (pl_crypto L) pub kemEK subject body (Some j) s2 = (Inr enc, s3)"
    "encrypt_attachments L pub kemEK atts s3 = (Inr eatts, st')"
  using assms unfolding encrypt_payload_def by (auto elim!: bindm_InrE split: option.splits)

lemma default_chunks_small:
  assumes "length raw < 2 ^ 40"
  shows "chunk_count (length raw) (nat DefaultChunkSize) * (nat DefaultChunkSize + ChunkTagSize) < 2 ^ 63"
    and "length raw + nat DefaultChunkSize < 2 ^ 63" "DefaultChunkSize < 2 ^ 63" "0 < DefaultChunkSize"
proof -
  have "chunk_count (length raw) 65536 \<le> 2 ^ 40" using assms by (auto simp: chunk_count_def)
  then have "chunk_count (length raw) 65536 * 65552 \<le> 2 ^ 40 * 65552" by (rule mult_le_mono1)
  then show "chunk_count (length raw) (nat DefaultChunkSize) * (nat DefaultChunkSize + ChunkTagSize) < 2 ^ 63"
    by (simp add: DefaultChunkSize_def ChunkTagSize_def)
qed (use assms in \<open>simp_all add: DefaultChunkSize_def\<close>)

text \<open>What the reader of a published message finds in it.\<close>

definition message_of :: "InboundMessage \<Rightarrow> EncryptedMessage" where
  "message_of m =
     \<lparr>em_EphemeralPubkey = im_EphemeralPubkey m, em_EncryptedMessageKey = im_EncryptedMessageKey m,
      em_EncryptedBody = im_EncryptedBody m, em_EncryptedSubject = im_EncryptedSubject m,
      em_EncryptedHeaders = im_EncryptedHeaders m\<rparr>"

definition raw_of :: "InboundMessage \<Rightarrow> EncryptedMessage" where
  "raw_of m =
     \<lparr>em_EphemeralPubkey = im_RawEphemeralPubkey m, em_EncryptedMessageKey = im_EncryptedRawKey m,
      em_EncryptedBody = im_EncryptedRawBody m, em_EncryptedSubject = [], em_EncryptedHeaders = []\<rparr>"

definition opens_to ::
    "mail_lib \<Rightarrow> bytes \<Rightarrow> bytes option \<Rightarrow> bytes \<Rightarrow> parsedMessage \<Rightarrow> bytes \<Rightarrow> bytes \<Rightarrow> InboundMessage \<Rightarrow> bool" where
  "opens_to L priv kemDK body parsed raw rawMeta m =
     (let P = pl_crypto L in
      DecryptMessageAuto P priv kemDK (message_of m) = Inr (pm_Subject parsed, body)
      \<and> (\<exists>j. pl_headersJSON L (pm_Headers parsed) = Some j
            \<and> DecryptHeadersAuto P priv kemDK (im_EphemeralPubkey m) (im_EncryptedMessageKey m) (im_EncryptedHeaders m) = Inr j)
      \<and> DecryptRawMessageAuto P priv kemDK (raw_of m) (im_RawBlobFormat m) (im_EncryptedRawMeta m) = Inr (raw, rawMeta)
      \<and> list_all2 (attachment_opens L priv kemDK) (pm_Attachments parsed) (im_EncryptedAttachments m))"

lemma raw_no_headers:
  "EncryptRawMessageWithMetaHybrid P pub kemEK raw meta cs st = (Inr er, st') \<Longrightarrow>
   em_EncryptedSubject (er_Message er) = [] \<and> em_EncryptedHeaders (er_Message er) = []"
  unfolding EncryptRawMessageWithMetaHybrid_def by (auto simp: split_beta elim!: bindm_InrE)

lemma payload_opens:
  assumes laws: "crypto_laws (pl_crypto L)" and keys: "keys_match (pl_crypto L) priv kemDK pub kemEK"
    and small: "length raw < 2 ^ 40"
    and enc: "encrypt_payload L pub kemEK raw rawMeta (pm_Subject parsed) body (pm_Headers parsed) (pm_Attachments parsed) st
      = (Inr (eraw, encrypted, eatts), st')"
  shows "opens_to L priv kemDK body parsed raw rawMeta (inbound_message env parsed' sec eraw encrypted eatts r folder)"
proof -
  obtain s1 j s2 s3 where
    e1: "EncryptRawMessageWithMetaHybrid (pl_crypto L) pub kemEK raw rawMeta DefaultChunkSize st = (Inr eraw, s1)"
    and j: "pl_headersJSON L (pm_Headers parsed) = Some j"
    and e2: "EncryptMessageWithHeadersHybrid (pl_crypto L) pub kemEK (pm_Subject parsed) body (Some j) s2 = (Inr encrypted, s3)"
    and e3: "encrypt_attachments L pub kemEK (pm_Attachments parsed) s3 = (Inr eatts, st')"
    using payload_parts[OF enc] .
  let ?m = "inbound_message env parsed' sec eraw encrypted eatts r folder"
  have "message_of ?m = encrypted" by (cases encrypted) (simp add: message_of_def inbound_message_def)
  moreover have "raw_of ?m = er_Message eraw"
    using raw_no_headers[OF e1] by (cases "er_Message eraw") (simp add: raw_of_def inbound_message_def)
  moreover note headers_open[OF laws keys e2] attachments_open[OF laws keys e3]
    raw_open[OF laws keys e1] default_chunks_small[OF small]
  ultimately show ?thesis
    using j by (simp add: opens_to_def Let_def inbound_message_def)
qed

subsection \<open>Receipts\<close>

definition receipt_of :: "mail_lib \<Rightarrow> pipeline \<Rightarrow> bytes \<Rightarrow> InboundMessage \<Rightarrow> bool" where
  "receipt_of L p raw m =
     (\<exists>receipt. pl_receiptJSON L receipt = Some (im_Receipt m)
        \<and> VerifyReceipt (pl_ed L) receipt (ed_public (pl_ed L) (pp_signingKey p)) = Inr True
        \<and> rc_MessageHash receipt = digest32 (pl_sha L) raw
        \<and> rc_CiphertextHash receipt = digest32 (pl_sha L) (im_EncryptedBody m)
        \<and> rc_FolderAssignment receipt = im_FolderAssignment m
        \<and> rc_SPFResult receipt = im_SPFResult m \<and> rc_DKIMResult receipt = im_DKIMResult m
        \<and> rc_DMARCResult receipt = im_DMARCResult m)"

lemma signed_receipt_verifies:
  "ed25519_laws E \<Longrightarrow> SignReceipt E r priv = Inr (r', sig) \<Longrightarrow> \<not> all_zero (ed_public E priv) \<Longrightarrow>
   VerifyReceipt E r' (ed_public E priv) = Inr True \<and> r' = r\<lparr>rc_Signature := sig\<rparr>"
  by (auto simp: SignReceipt_def VerifyReceipt_def ed25519_laws_def receiptSigningPayload_def Let_def split: if_splits)

lemma receipt_built:
  assumes "buildEnclaveReceipt L p env raw encrypted sender sec score folder s = (Inr j, s')"
    and "ed25519_laws (pl_ed L)" "\<not> all_zero (ed_public (pl_ed L) (pp_signingKey p))"
  shows "receipt_of L p raw (inbound_message env parsed sec eraw encrypted eatts j folder)"
proof -
  from assms(1) obtain receipt receipt' sig where
    sign: "SignReceipt (pl_ed L) receipt (pp_signingKey p) = Inr (receipt', sig)" and json: "pl_receiptJSON L receipt' = Some j"
    and flds: "rc_MessageHash receipt = digest32 (pl_sha L) raw" "rc_CiphertextHash receipt = digest32 (pl_sha L) (em_EncryptedBody encrypted)"
      "rc_FolderAssignment receipt = folder" "rc_SPFResult receipt = sc_spf sec" "rc_DKIMResult receipt = sc_dkim sec"
      "rc_DMARCResult receipt = sc_dmarc sec"
    by (auto simp: buildEnclaveReceipt_def Let_def split: prod.splits sum.splits option.splits)
  show ?thesis
    using signed_receipt_verifies[OF assms(2) sign assms(3)] json flds
    unfolding receipt_of_def inbound_message_def by (intro exI[of _ receipt']) auto
qed

subsection \<open>The run to one recipient\<close>

definition is_publish :: "pipe_effect \<Rightarrow> bool" where
  "is_publish e = (case e of PublishInbound _ _ \<Rightarrow> True | _ \<Rightarrow> False)"

lemma is_publish_simps [simp]:
  "is_publish (PublishInbound t m)" "\<not> is_publish (Post x)" "\<not> is_publish (ProcessICS b)"
  by (simp_all add: is_publish_def)

text \<open>The message of a successful run, up to the fields that do not concern its contents.\<close>

definition same_payload :: "InboundMessage \<Rightarrow> InboundMessage \<Rightarrow> bool" where
  "same_payload a b =
     (message_of a = message_of b \<and> raw_of a = raw_of b \<and> im_RawBlobFormat a = im_RawBlobFormat b
      \<and> im_EncryptedRawMeta a = im_EncryptedRawMeta b \<and> im_EncryptedAttachments a = im_EncryptedAttachments b
      \<and> im_Receipt a = im_Receipt b \<and> im_FolderAssignment a = im_FolderAssignment b
      \<and> im_SPFResult a = im_SPFResult b \<and> im_DKIMResult a = im_DKIMResult b \<and> im_DMARCResult a = im_DMARCResult b)"

lemma same_payload_opens:
  "same_payload a b \<Longrightarrow> opens_to L priv kemDK body parsed raw rawMeta a \<Longrightarrow> opens_to L priv kemDK body parsed raw rawMeta b"
  "same_payload a b \<Longrightarrow> receipt_of L p raw a \<Longrightarrow> receipt_of L p raw b"
  by (auto simp: same_payload_def opens_to_def receipt_of_def message_of_def Let_def)

lemma receipt_error: "buildEnclaveReceipt L p env raw encrypted sender sec score folder s = (r, t) \<Longrightarrow> r \<noteq> Inl PipeOk"
  by (auto simp: buildEnclaveReceipt_def Let_def split: prod.splits sum.splits option.splits)

text \<open>The four ways a run ends after encryption: panic, drop, error, published message.\<close>

lemma finish_message_ends:
  assumes "finish_message L p env user sender raw parsed sec score folder (eraw, encrypted, eatts) s = (res, effs, s')"
  obtains (quiet) "\<not> list_ex is_publish effs"
      "res = PipeOk \<longrightarrow> de_Drop (fst (applyPostReceive (pl_rules L) (en_post env user)
         \<lparr>mf_from = sender, mf_hasAttachments = (eatts \<noteq> []), mf_sizeBytes = int (length raw)\<rparr> (new_decisions folder)))"
  | (published) acts m j f t where "res = PipeOk" "effs = acts @ [PublishInbound (inbound_subject (uuid_String (us_TenantID user))) m]"
      "\<not> list_ex is_publish acts" "buildEnclaveReceipt L p env raw encrypted sender sec score f (ps_sender s) = (Inr j, t)"
      "same_payload (inbound_message env parsed sec eraw encrypted eatts j f) m"
      "im_UserID m = uuid_String (us_UserID user)" "im_TenantID m = uuid_String (us_TenantID user)"
proof (cases "computeAddressBlindIndex L (pp_blindSecret p) ''message-sender-v1'' (us_UserID user) sender")
  case (Inl panic)
  then show ?thesis using assms by (intro quiet) (auto simp: finish_message_def)
next
  case (Inr blind)
  let ?facts = "\<lparr>mf_from = sender, mf_hasAttachments = (eatts \<noteq> []), mf_sizeBytes = int (length raw)\<rparr>"
  obtain d posted where d: "applyPostReceive (pl_rules L) (en_post env user) ?facts (new_decisions folder) = (d, posted)"
    by (cases "applyPostReceive (pl_rules L) (en_post env user) ?facts (new_decisions folder)")
  define acts where "acts = map Post posted @ (case pm_CalendarICS parsed of
      Some ics \<Rightarrow> if en_calendar env then [ProcessICS (calendar_text (pm_Attachments parsed) ics)] else [] | None \<Rightarrow> [])"
  have np: "\<not> list_ex is_publish (map Post posted)" by (induction posted) auto
  then have na: "\<not> list_ex is_publish acts" by (auto simp: acts_def split: option.split)
  obtain r t where r: "buildEnclaveReceipt L p env raw encrypted sender sec score (de_FolderAssignment d) (ps_sender s) = (r, t)"
    by (cases "buildEnclaveReceipt L p env raw encrypted sender sec score (de_FolderAssignment d) (ps_sender s)")
  define m where "m j = (inbound_message env parsed sec eraw encrypted eatts j (de_FolderAssignment d))
     \<lparr>im_TenantID := uuid_String (us_TenantID user), im_UserID := uuid_String (us_UserID user),
      im_SenderBlindIndex := blind, im_RuleMoveFolderID := de_MoveFolderID d,
      im_RuleLabelIDs := de_LabelIDs d, im_RuleMarkRead := de_MarkRead d,
      im_RuleMarkStarred := de_MarkStarred d, im_EncryptionType := encryption_type L raw parsed,
      im_Autocrypt := extractAutocrypt L (pm_Headers parsed)\<rparr>" for j
  have m: "same_payload (inbound_message env parsed sec eraw encrypted eatts j (de_FolderAssignment d)) (m j)" for j
    by (simp add: m_def same_payload_def message_of_def raw_of_def)
  have run: "(res, effs, s') =
    (if de_Drop d then (PipeOk, map Post posted, s)
     else case r of Inl err \<Rightarrow> (err, acts, s\<lparr>ps_sender := t\<rparr>)
       | Inr j \<Rightarrow> if pl_messageJSON L (m j) = None then (PipeErr ''marshal inbound message'', acts, s\<lparr>ps_sender := t\<rparr>)
           else if \<not> en_publish_ok env (m j) then (PipeErr ''publish to queue'', acts, s\<lparr>ps_sender := t\<rparr>)
           else (PipeOk, acts @ [PublishInbound (inbound_subject (uuid_String (us_TenantID user))) (m j)], s\<lparr>ps_sender := t\<rparr>))"
    unfolding assms[symmetric] finish_message_def prod.case Inr sum.case d Let_def r acts_def[symmetric] m_def[symmetric] ..
  show ?thesis
  proof (cases "de_Drop d \<or> isl r \<or> pl_messageJSON L (m (projr r)) = None \<or> \<not> en_publish_ok env (m (projr r))")
    case True
    then show ?thesis
      using run np na d receipt_error[OF r]
      by (intro quiet) (auto split: if_splits sum.splits)
  next
    case False
    then obtain j where j: "r = Inr j" by (cases r) auto
    show ?thesis
      by (rule published[OF _ _ na r[unfolded j] m]) (use False j run in \<open>auto simp: m_def\<close>)
  qed
qed

lemma process_ends:
  assumes "ProcessMessage L p env fuel sender recipient raw clientIP helo s = Some (res, effs, s')"
  obtains (early) "effs = []" "res \<noteq> PipeOk"
  | (finished) parsed sec score folder user rawMeta eraw encrypted eatts r where
      "parseMessageFull L raw = Inr parsed" "runSecurityChecks (pl_auth L) spf_depth sender clientIP raw = Some sec"
      "en_resolve env recipient = Some user" "buildRawMeta L fuel raw = Some rawMeta"
      "encrypt_payload L (us_PublicKeyEncryption user) (parse_kem (pl_crypto L) (us_PublicKeyKEM user)) raw rawMeta
         (pm_Subject parsed) (message_body L raw parsed) (pm_Headers parsed) (pm_Attachments parsed) (ps_rnd s)
         = (Inr (eraw, encrypted, eatts), r)"
      "finish_message L p env user sender raw parsed sec score folder (eraw, encrypted, eatts) (s\<lparr>ps_rnd := r\<rparr>) = (res, effs, s')"
  using assms
  by (fastforce simp: ProcessMessage_def newPublicKey_def Let_def split: sum.splits option.splits prod.splits if_splits)

text \<open>If no step fails and no rule deletes the message, it is published.\<close>

lemma process_publishes:
  assumes "parseMessageFull L raw = Inr parsed" "runSecurityChecks (pl_auth L) spf_depth sender clientIP raw = Some sec"
    and "spam_check p clientIP helo sender parsed sec = (score, folder)" "en_resolve env recipient = Some user"
    and "length (us_PublicKeyEncryption user) = 32" "buildRawMeta L fuel raw = Some rawMeta"
    and "encrypt_payload L (us_PublicKeyEncryption user) (parse_kem (pl_crypto L) (us_PublicKeyKEM user)) raw rawMeta
         (pm_Subject parsed) (message_body L raw parsed) (pm_Headers parsed) (pm_Attachments parsed) (ps_rnd s)
         = (Inr (eraw, encrypted, eatts), r)"
    and "computeAddressBlindIndex L (pp_blindSecret p) ''message-sender-v1'' (us_UserID user) sender = Inr blind"
    and "applyPostReceive (pl_rules L) (en_post env user)
         \<lparr>mf_from = sender, mf_hasAttachments = (eatts \<noteq> []), mf_sizeBytes = int (length raw)\<rparr> (new_decisions folder) = (d, effs)"
    and "\<not> de_Drop d"
    and "buildEnclaveReceipt L p env raw encrypted sender sec score (de_FolderAssignment d) (ps_sender s) = (Inr j, t)"
    and "\<And>m. pl_messageJSON L m \<noteq> None" "\<And>m. en_publish_ok env m"
  shows "\<exists>acts m. ProcessMessage L p env fuel sender recipient raw clientIP helo s =
    Some (PipeOk, acts @ [PublishInbound (inbound_subject (uuid_String (us_TenantID user))) m], s\<lparr>ps_rnd := r, ps_sender := t\<rparr>)"
  using assms by (auto simp: ProcessMessage_def finish_message_def newPublicKey_def Let_def)

subsection \<open>Groups\<close>

definition receives :: "mail_group \<Rightarrow> bytes list \<Rightarrow> group_member \<Rightarrow> bool" where
  "receives g skipped m = (gm_JoinedAtEpoch m \<le> gr_KeyEpoch g \<and> gm_MemberUserID m \<notin> set skipped)"

definition member_copy :: "mail_group \<Rightarrow> InboundMessage \<Rightarrow> group_member \<Rightarrow> InboundMessage" where
  "member_copy g base m = base\<lparr>im_TenantID := uuid_String (gr_TenantID g), im_UserID := uuid_String (gm_MemberUserID m)\<rparr>"

definition copy_accepted :: "mail_lib \<Rightarrow> pipe_env \<Rightarrow> InboundMessage \<Rightarrow> bool" where
  "copy_accepted L env m = (pl_messageJSON L m \<noteq> None \<and> en_publish_ok env m)"

lemma fan_out_reference:
  "fan_out L env g skipped base ms =
     (let copies = filter (copy_accepted L env) (map (member_copy g base) (filter (receives g skipped) ms)) in
      (map (PublishInbound (inbound_subject (uuid_String (gr_TenantID g)))) copies, length copies,
       length (filter (\<lambda>m. gm_JoinedAtEpoch m \<le> gr_KeyEpoch g \<and> gm_MemberUserID m \<in> set skipped) ms)))"
  by (induction ms) (auto simp: receives_def member_copy_def copy_accepted_def Let_def split: prod.splits)

lemma finish_group_ends:
  assumes "finish_group L p env g sender direct raw parsed sec score folder (eraw, encrypted, eatts) s = (PipeOk, effs, s')"
    and m: "en_members env = Some members"
  obtains j t where
    "buildEnclaveReceipt L p env raw encrypted sender sec score folder (ps_sender s) = (Inr j, t)"
    "effs = fst (fan_out L env g (skip_members env (sender # direct))
       ((inbound_message env parsed sec eraw encrypted eatts j folder)\<lparr>im_GroupID := uuid_String (gr_GroupID g), im_GroupKeyEpoch := gr_KeyEpoch g\<rparr>)
       members)"
proof -
  obtain r t where r: "buildEnclaveReceipt L p env raw encrypted sender sec score folder (ps_sender s) = (r, t)"
    by (cases "buildEnclaveReceipt L p env raw encrypted sender sec score folder (ps_sender s)")
  then obtain j where j: "r = Inr j"
    using assms receipt_error[OF r] by (cases r) (auto simp: finish_group_def)
  show ?thesis
    by (rule that[OF r[unfolded j]])
      (use assms r j in \<open>auto simp: finish_group_def Let_def split: prod.splits if_splits\<close>)
qed

lemma group_started:
  assumes "ProcessGroupMessage L p env fuel sender g raw0 clientIP helo direct s = Some (PipeOk, effs, s')"
    and "parseMessageFull L raw0 = Inr parsed0"
    and "stampGroupListHeaders (pm_Headers parsed0) raw0 (gr_Address g) = (headers, raw)"
  obtains sec score folder rawMeta eraw encrypted eatts r where
      "buildRawMeta L fuel raw = Some rawMeta"
      "encrypt_payload L (gr_PublicKeyX25519 g) (parse_kem (pl_crypto L) (gr_PublicKeyKEM g)) raw rawMeta
         (pm_Subject parsed0) (pm_Body parsed0) headers (pm_Attachments parsed0) (ps_rnd s) = (Inr (eraw, encrypted, eatts), r)"
      "finish_group L p env g sender direct raw (parsed0\<lparr>pm_Headers := headers\<rparr>) sec score folder (eraw, encrypted, eatts) (s\<lparr>ps_rnd := r\<rparr>)
         = (PipeOk, effs, s')"
  using assms
  by (auto simp: ProcessGroupMessage_def newPublicKey_def Let_def split: sum.splits option.splits prod.splits if_splits)

lemma group_publishes:
  assumes "pp_groupStore p" "parseMessageFull L raw0 = Inr parsed0" "runSecurityChecks (pl_auth L) spf_depth sender clientIP raw0 = Some sec"
    and "spam_check p clientIP helo sender parsed0 sec = (score, folder)"
    and "stampGroupListHeaders (pm_Headers parsed0) raw0 (gr_Address g) = (headers, raw)"
    and "length (gr_PublicKeyX25519 g) = 32" "buildRawMeta L fuel raw = Some rawMeta"
    and "encrypt_payload L (gr_PublicKeyX25519 g) (parse_kem (pl_crypto L) (gr_PublicKeyKEM g)) raw rawMeta
         (pm_Subject parsed0) (pm_Body parsed0) headers (pm_Attachments parsed0) (ps_rnd s) = (Inr (eraw, encrypted, eatts), r)"
    and "buildEnclaveReceipt L p env raw encrypted sender sec score folder (ps_sender s) = (Inr j, t)"
    and "en_members env = Some members" "\<exists>m \<in> set members. receives g (skip_members env (sender # direct)) m"
    and "\<And>m. pl_messageJSON L m \<noteq> None" "\<And>m. en_publish_ok env m"
  shows "\<exists>effs s'. ProcessGroupMessage L p env fuel sender g raw0 clientIP helo direct s = Some (PipeOk, effs, s')"
proof -
  have acc: "filter (copy_accepted L env) xs = xs" for xs using assms(12, 13) by (simp add: copy_accepted_def)
  have "filter (receives g (skip_members env (sender # direct))) members \<noteq> []"
    using assms(11) by (auto simp: filter_empty_conv)
  then show ?thesis
    using assms by (simp add: ProcessGroupMessage_def finish_group_def newPublicKey_def fan_out_reference acc Let_def)
qed

subsection \<open>The MIME index\<close>

primrec preorder :: "Part \<Rightarrow> Part list" where
  "preorder (Part info children) = Part info children # concat (map preorder children)"

lemma walk_collects:
  "f = (\<lambda>result part. (result @ [part], True)) \<Longrightarrow> walk f p st = (st @ preorder p, True)"
  "f = (\<lambda>result part. (result @ [part], True)) \<Longrightarrow> walk_all f ps st = (st @ concat (map preorder ps), True)"
  by (induction f p st and f ps st rule: walk_walk_all.induct) auto

lemma Parts_preorder: "Parts p = preorder p"
  by (simp add: Parts_def walk_collects)

text \<open>The index \<open>c\<close> of an array whose entries from \<open>off\<close> on stand for \<open>ps\<close> is that of \<open>child\<close>.\<close>

definition points_to :: "nat \<Rightarrow> Part list \<Rightarrow> nat \<Rightarrow> Part \<Rightarrow> bool" where
  "points_to off ps c child = (off \<le> c \<and> c - off < length ps \<and> ps ! (c - off) = child)"

definition entry_ok :: "nat \<Rightarrow> Part list \<Rightarrow> rawMetaPart \<Rightarrow> Part \<Rightarrow> bool" where
  "entry_ok off ps m q =
     (m\<lparr>rm_Children := []\<rparr> = meta_of (pt_info q) \<and> list_all2 (points_to off ps) (rm_Children m) (pt_Children q))"

lemma points_to_append:
  "points_to off ps c q \<Longrightarrow> points_to off (ps @ qs) c q"
  "points_to (off + length ps) qs c q \<Longrightarrow> points_to off (ps @ qs) c q"
  by (auto simp: points_to_def nth_append less_diff_conv2)

lemma entry_ok_append:
  "entry_ok off ps m q \<Longrightarrow> entry_ok off (ps @ qs) m q"
  "entry_ok (off + length ps) qs m q \<Longrightarrow> entry_ok off (ps @ qs) m q"
  by (auto simp: entry_ok_def intro: list_all2_mono points_to_append)

lemma entries_append:
  assumes "list_all2 (entry_ok off ps) xs ps" "list_all2 (entry_ok (off + length ps) qs) ys qs"
  shows "list_all2 (entry_ok off (ps @ qs)) (xs @ ys) (ps @ qs)"
  using list_all2_mono[OF assms(1), of "entry_ok off (ps @ qs)"] list_all2_mono[OF assms(2), of "entry_ok off (ps @ qs)"]
  by (auto intro: list_all2_appendI entry_ok_append)

lemma flatten_preorder:
  "\<exists>new. flattenParts p parts = (parts @ new, length parts) \<and> list_all2 (entry_ok (length parts) (preorder p)) new (preorder p)"
  "\<exists>new idxs. flatten_children cs parts = (parts @ new, idxs)
     \<and> list_all2 (entry_ok (length parts) (concat (map preorder cs))) new (concat (map preorder cs))
     \<and> list_all2 (points_to (length parts) (concat (map preorder cs))) idxs cs"
proof (induction p parts and cs parts rule: flattenParts_flatten_children.induct)
  case (1 info children parts)
  let ?ps = "concat (map preorder children)" and ?root = "Part info children"
  obtain new idxs where c: "flatten_children children (parts @ [meta_of info]) = (parts @ meta_of info # new, idxs)"
    and e: "list_all2 (entry_ok (length parts + 1) ?ps) new ?ps" and i: "list_all2 (points_to (length parts + 1) ?ps) idxs children"
    using 1[OF refl] by auto
  let ?m = "(meta_of info)\<lparr>rm_Children := idxs\<rparr>"
  have "list_all2 (points_to (length parts) ([?root] @ ?ps)) idxs children"
    by (rule list_all2_mono[OF i]) (rule points_to_append(2), simp)
  then have root: "entry_ok (length parts) ([?root] @ ?ps) ?m ?root" by (simp add: entry_ok_def meta_of_def)
  have "list_all2 (entry_ok (length parts) ([?root] @ ?ps)) new ?ps"
    by (rule list_all2_mono[OF e]) (rule entry_ok_append(2), simp)
  moreover have "flattenParts ?root parts = (parts @ ?m # new, length parts)"
    using c by (cases "idxs = []") (simp_all add: Let_def meta_of_def)
  ultimately show ?case using root by simp
next
  case (2 parts)
  then show ?case by simp
next
  case (3 child children parts)
  obtain new where c: "flattenParts child parts = (parts @ new, length parts)"
    and e: "list_all2 (entry_ok (length parts) (preorder child)) new (preorder child)"
    using "3.IH"(1) by blast
  have len: "length new = length (preorder child)" using e by (rule list_all2_lengthD)
  obtain rest idxs where r: "flatten_children children (parts @ new) = (parts @ new @ rest, idxs)"
    and e2: "list_all2 (entry_ok (length parts + length (preorder child)) (concat (map preorder children))) rest (concat (map preorder children))"
    and i2: "list_all2 (points_to (length parts + length (preorder child)) (concat (map preorder children))) idxs children"
    using "3.IH"(2)[OF c[symmetric] refl] len by auto
  have "points_to (length parts) (preorder child @ concat (map preorder children)) (length parts) child"
    by (cases child) (simp add: points_to_def)
  moreover have "list_all2 (points_to (length parts) (preorder child @ concat (map preorder children))) idxs children"
    by (rule list_all2_mono[OF i2]) (rule points_to_append(2))
  ultimately show ?case
    using c r entries_append[OF e e2] by (simp add: Let_def)
qed

subsection \<open>Calendar attachments\<close>

text \<open>
  A calendar text that came as an attachment has been overwritten when it is handed to the calendar:
  \<open>calendarICS\<close> and \<open>att.Data\<close> are the same slice.
\<close>

lemma attached_calendar_is_zeroed:
  assumes "i < length atts"
  shows "calendar_text atts (AttachedICS i) = replicate (length (at_Data (atts ! i))) 0"
  using assms by (simp add: zero_attachments_def)

subsection \<open>What was published opens\<close>

lemma published_opens:
  assumes run: "ProcessMessage L p env fuel sender recipient raw clientIP helo s = Some (res, effs, s')"
    and pub: "PublishInbound subj m \<in> set effs"
    and laws: "crypto_laws (pl_crypto L)" "ed25519_laws (pl_ed L)" "\<not> all_zero (ed_public (pl_ed L) (pp_signingKey p))"
    and user: "en_resolve env recipient = Some user"
    and keys: "keys_match (pl_crypto L) priv kemDK (us_PublicKeyEncryption user) (parse_kem (pl_crypto L) (us_PublicKeyKEM user))"
    and small: "length raw < 2 ^ 40"
  shows "\<exists>parsed rawMeta. parseMessageFull L raw = Inr parsed \<and> buildRawMeta L fuel raw = Some rawMeta
    \<and> im_UserID m = uuid_String (us_UserID user) \<and> subj = ''mail.inbound.'' @ uuid_String (us_TenantID user)
    \<and> opens_to L priv kemDK (message_body L raw parsed) parsed raw rawMeta m
    \<and> receipt_of L p raw m"
  using run
proof (cases rule: process_ends)
  case early
  then show ?thesis using pub by simp
next
  case (finished parsed sec score folder user' rawMeta eraw encrypted eatts r)
  have u: "user' = user" using finished(3) user by simp
  from finished(6) show ?thesis
  proof (cases rule: finish_message_ends)
    case quiet
    then show ?thesis using pub by (auto simp: list_ex_iff)
  next
    case (published acts m' j f t)
    have m: "m' = m" "subj = inbound_subject (uuid_String (us_TenantID user))"
      using published(2, 3) pub u by (auto simp: list_ex_iff)
    show ?thesis
      using published finished(1, 4) u m
        same_payload_opens(1)[OF published(5) payload_opens[OF laws(1) keys small finished(5)[unfolded u]]]
        same_payload_opens(2)[OF published(5) receipt_built[OF published(4) laws(2, 3)]]
      by (auto simp: inbound_subject_def)
  qed
qed

subsection \<open>Properties\<close>

text \<open>
  C5: A published message is readable and receipted: whatever the run did otherwise, the message it
  publishes is addressed to the resolved recipient, opens with the recipient's keys to the parsed
  subject, the body (the raw message if it arrived encrypted), the headers, the raw message with its
  MIME index and every attachment, and carries a receipt that verifies under the enclave's key and
  binds the raw message, the ciphertext, the folder and the results of the checks.
\<close>

theorem inbound_end_to_end:
  assumes run: "ProcessMessage L p env fuel sender recipient raw clientIP helo s = Some (res, effs, s')"
    and pub: "PublishInbound subj m \<in> set effs"
    and laws: "crypto_laws (pl_crypto L)" "ed25519_laws (pl_ed L)" "\<not> all_zero (ed_public (pl_ed L) (pp_signingKey p))"
    and user: "en_resolve env recipient = Some user"
    and keys: "keys_match (pl_crypto L) priv kemDK (us_PublicKeyEncryption user) (parse_kem (pl_crypto L) (us_PublicKeyKEM user))"
    and small: "length raw < 2 ^ 40"
  shows "\<exists>parsed rawMeta. parseMessageFull L raw = Inr parsed \<and> buildRawMeta L fuel raw = Some rawMeta
    \<and> im_UserID m = uuid_String (us_UserID user) \<and> subj = ''mail.inbound.'' @ uuid_String (us_TenantID user)
    \<and> opens_to L priv kemDK (message_body L raw parsed) parsed raw rawMeta m
    \<and> receipt_of L p raw m"
  using published_opens [OF run pub laws user keys small] .

text \<open>
  C32: A run publishes at most one message, as its last effect, and only if it succeeds; a success
  that publishes nothing was a deletion by a rule of the user.
\<close>

theorem publish_only_on_success:
  assumes "ProcessMessage L p env fuel sender recipient raw clientIP helo s = Some (res, effs, s')"
  shows "length (filter is_publish effs) \<le> 1 \<and> (list_ex is_publish effs \<longrightarrow> res = PipeOk \<and> is_publish (last effs))
    \<and> (res = PipeOk \<and> \<not> list_ex is_publish effs \<longrightarrow>
         (\<exists>user facts folder. en_resolve env recipient = Some user \<and> mf_from facts = sender
            \<and> de_Drop (fst (applyPostReceive (pl_rules L) (en_post env user) facts (new_decisions folder)))))"
  using assms
proof (cases rule: process_ends)
  case early
  then show ?thesis by simp
next
  case (finished parsed sec score folder user rawMeta eraw encrypted eatts r)
  from finished(6) show ?thesis
  proof (cases rule: finish_message_ends)
    case quiet
    have "filter is_publish effs = []" using quiet(1) by (auto simp: list_ex_iff filter_empty_conv)
    moreover have "\<exists>user facts folder. en_resolve env recipient = Some user \<and> mf_from facts = sender
        \<and> de_Drop (fst (applyPostReceive (pl_rules L) (en_post env user) facts (new_decisions folder)))" if "res = PipeOk"
      by (rule exI[of _ user], rule exI[of _ "\<lparr>mf_from = sender, mf_hasAttachments = (eatts \<noteq> []), mf_sizeBytes = int (length raw)\<rparr>"],
          rule exI[of _ folder]) (use quiet(2) that finished(3) in simp)
    ultimately show ?thesis using quiet(1) by simp
  next
    case (published acts m j f t)
    have "filter is_publish acts = []" using published(3) by (auto simp: list_ex_iff filter_empty_conv)
    then show ?thesis using published by simp
  qed
qed

text \<open>
  A group message is encrypted once and copied to the members: what is published are the copies
  of one message for exactly the members who had joined by the current key epoch and are neither the
  sender nor direct recipients (as far as the queue accepts them), in the order of the member list;
  every copy opens with the group's keys to the subject, the body and the stamped headers and raw
  message, and carries a receipt that verifies.
\<close>

theorem group_fan_out:
  assumes run: "ProcessGroupMessage L p env fuel sender g raw0 clientIP helo direct s = Some (PipeOk, effs, s')"
    and members: "en_members env = Some members" and parsed: "parseMessageFull L raw0 = Inr parsed"
    and stamp: "stampGroupListHeaders (pm_Headers parsed) raw0 (gr_Address g) = (headers, raw)"
    and laws: "crypto_laws (pl_crypto L)" "ed25519_laws (pl_ed L)" "\<not> all_zero (ed_public (pl_ed L) (pp_signingKey p))"
    and keys: "keys_match (pl_crypto L) priv kemDK (gr_PublicKeyX25519 g) (parse_kem (pl_crypto L) (gr_PublicKeyKEM g))"
    and small: "length raw < 2 ^ 40"
  shows "\<exists>base rawMeta. effs = map (PublishInbound (''mail.inbound.'' @ uuid_String (gr_TenantID g)))
        (filter (copy_accepted L env) (map (member_copy g base) (filter (receives g (skip_members env (sender # direct))) members)))
    \<and> im_GroupID base = uuid_String (gr_GroupID g) \<and> im_GroupKeyEpoch base = gr_KeyEpoch g
    \<and> (\<forall>m. opens_to L priv kemDK (pm_Body parsed) (parsed\<lparr>pm_Headers := headers\<rparr>) raw rawMeta (member_copy g base m)
          \<and> receipt_of L p raw (member_copy g base m))"
proof -
  obtain sec score folder rawMeta eraw encrypted eatts r where
    enc: "encrypt_payload L (gr_PublicKeyX25519 g) (parse_kem (pl_crypto L) (gr_PublicKeyKEM g)) raw rawMeta
         (pm_Subject parsed) (pm_Body parsed) headers (pm_Attachments parsed) (ps_rnd s) = (Inr (eraw, encrypted, eatts), r)"
    and fin: "finish_group L p env g sender direct raw (parsed\<lparr>pm_Headers := headers\<rparr>) sec score folder (eraw, encrypted, eatts) (s\<lparr>ps_rnd := r\<rparr>)
         = (PipeOk, effs, s')"
    using group_started[OF run parsed stamp] .
  let ?parsed = "parsed\<lparr>pm_Headers := headers\<rparr>"
  obtain j t where rec: "buildEnclaveReceipt L p env raw encrypted sender sec score folder (ps_sender (s\<lparr>ps_rnd := r\<rparr>)) = (Inr j, t)"
    and effs: "effs = fst (fan_out L env g (skip_members env (sender # direct))
       ((inbound_message env ?parsed sec eraw encrypted eatts j folder)\<lparr>im_GroupID := uuid_String (gr_GroupID g), im_GroupKeyEpoch := gr_KeyEpoch g\<rparr>)
       members)"
    using finish_group_ends[OF fin members] .
  let ?in = "inbound_message env ?parsed sec eraw encrypted eatts j folder"
  let ?base = "?in\<lparr>im_GroupID := uuid_String (gr_GroupID g), im_GroupKeyEpoch := gr_KeyEpoch g\<rparr>"
  have same: "same_payload ?in (member_copy g ?base m)" for m
    by (simp add: same_payload_def member_copy_def message_of_def raw_of_def)
  have open_in: "opens_to L priv kemDK (pm_Body parsed) ?parsed raw rawMeta ?in"
    by (rule payload_opens[OF laws(1) keys small]) (use enc in simp)
  show ?thesis
    by (rule exI[of _ ?base], rule exI[of _ rawMeta])
      (use effs same_payload_opens(1)[OF same open_in] same_payload_opens(2)[OF same receipt_built[OF rec laws(2, 3)]]
       in \<open>simp add: fan_out_reference Let_def inbound_subject_def\<close>)
qed

text \<open>
  The MIME index lists the parts in the order in which \<open>Part.Parts\<close> visits them: entry \<open>i\<close> has the
  type, the names and the offsets of the \<open>i\<close>-th part, and its child indices are, in order, those of
  the part's children.
\<close>

theorem raw_meta_index:
  assumes "fst (flattenParts root []) = ms"
  shows "length ms = length (Parts root)
    \<and> (\<forall>i < length ms. (ms ! i)\<lparr>rm_Children := []\<rparr> = meta_of (pt_info (Parts root ! i))
        \<and> length (rm_Children (ms ! i)) = length (pt_Children (Parts root ! i))
        \<and> (\<forall>k < length (rm_Children (ms ! i)).
              rm_Children (ms ! i) ! k < length ms
              \<and> Parts root ! (rm_Children (ms ! i) ! k) = pt_Children (Parts root ! i) ! k))"
proof -
  obtain new where "flattenParts root [] = (new, 0)" and l: "list_all2 (entry_ok 0 (preorder root)) new (preorder root)"
    using flatten_preorder(1)[of root "[]"] by auto
  then have ms: "ms = new" "length new = length (preorder root)" using assms list_all2_lengthD[OF l] by simp_all
  have "entry_ok 0 (preorder root) (ms ! i) (preorder root ! i)" if "i < length ms" for i
    using list_all2_nthD[OF l] that ms by simp
  then show ?thesis
    using ms by (auto simp: Parts_preorder entry_ok_def points_to_def list_all2_conv_all_nth)
qed

end
