(* ===== verification/Receiver.thy ===== *)
theory Receiver
  imports Pipe_Props
begin

text \<open>
  \<open>internal/smtp/receiver.go\<close> and \<open>internal/reserved/reserved.go\<close>: the SMTP session that decides which
  recipients it takes and hands a message to the pipeline. The stores and the SMTP library are
  parameters; the padding of response times and the server's start and stop are not modelled, and
  the connection limiter that \<open>NewSession\<close> asks is the one of the limiters.
\<close>

subsection \<open>Reserved addresses\<close>

definition reservedLocalParts :: "string list" where
  "reservedLocalParts =
     [''postmaster'', ''abuse'', ''security'', ''hostmaster'', ''webmaster'', ''noc'', ''dmarc-reports'',
      ''admin'', ''root'', ''mailer-daemon'']"

definition IsLocalPart :: "(string \<Rightarrow> string) \<Rightarrow> string \<Rightarrow> bool" where
  "IsLocalPart lower localPart =
     (let lp = lower (trimSpace localPart);
          lp = (case cut_at (CHR ''+'') lp of Some (a, _) \<Rightarrow> a | None \<Rightarrow> lp)
      in lp \<in> set reservedLocalParts)"

definition IsAddress :: "(string \<Rightarrow> string) \<Rightarrow> string \<Rightarrow> bool" where
  "IsAddress lower address =
     (case cut_at (CHR ''@'') address of
        Some (local, _) \<Rightarrow> local \<noteq> [] \<and> IsLocalPart lower local
      | None \<Rightarrow> False)"

subsection \<open>Sessions\<close>

record rcpt_user =
  rx_UserID :: bytes
  rx_AccountStatus :: string

text \<open>
  What the stores answer; an absent store is \<open>None\<close>, an error is the inner \<open>None\<close>. The quota check
  gets the user, the limit and, given the drive usage, the storage used.
\<close>

record rcpt_env =
  rv_lower :: "string \<Rightarrow> string"
  rv_roles :: bool
  rv_isDefault :: "string \<Rightarrow> bool option"
  rv_resolve :: "string \<Rightarrow> rcpt_user option"
  rv_groups :: "(string \<Rightarrow> mail_group option) option"
  rv_userByAddress :: "string \<Rightarrow> bytes option"
  rv_isMember :: "bytes \<Rightarrow> bytes \<Rightarrow> bool"
  rv_limit :: "(rcpt_user \<Rightarrow> int option) option"
  rv_driveUsed :: "(rcpt_user \<Rightarrow> int option) option"
  rv_used :: "rcpt_user \<Rightarrow> int \<Rightarrow> int option"

record session =
  se_from :: string
  se_recipients :: "string list"
  se_roleRecipients :: "string list"
  se_groupRecipients :: "string list"
  se_clientIP :: "bytes option"
  se_helo :: string

definition new_session :: session where
  "new_session =
     \<lparr>se_from = [], se_recipients = [], se_roleRecipients = [], se_groupRecipients = [], se_clientIP = None, se_helo = []\<rparr>"

text \<open>An SMTP reply with its enhanced code, or another error.\<close>

datatype smtp_error = SMTPError nat "nat list" string | ReadError

definition containsControlChars :: "string \<Rightarrow> bool" where
  "containsControlChars s = list_ex (\<lambda>c. (of_char c :: nat) \<le> 0x1F \<or> (of_char c :: nat) = 0x7F) s"

definition stripAngleBrackets :: "string \<Rightarrow> string" where
  "stripAngleBrackets a =
     (let addr = trimSpace a in
      if hasPrefix addr ''<'' \<and> hasSuffix addr ''>'' then butlast (tl addr) else addr)"

definition Auth :: "string \<Rightarrow> smtp_error option" where
  "Auth mech = Some ReadError"

text \<open>The connection gives the IP of a TCP peer, and the name of HELO.\<close>

definition Mail :: "(bytes option \<times> string) option \<Rightarrow> string \<Rightarrow> session \<Rightarrow> smtp_error option \<times> session" where
  "Mail conn sender0 s =
     (let sender1 = trimSpace sender0 in
      if sender1 = [] then (None, s\<lparr>se_from := []\<rparr>)
      else
        (let sender = stripAngleBrackets sender1 in
         if sender \<noteq> [] \<and> containsControlChars sender then (Some (SMTPError 553 [5, 1, 7] ''invalid sender address''), s)
         else if sender \<noteq> [] \<and> CHR ''@'' \<notin> set sender then (Some (SMTPError 553 [5, 1, 7] ''invalid sender address format''), s)
         else
           (None, case conn of
              None \<Rightarrow> s\<lparr>se_from := sender\<rparr>
            | Some (ip, hostname) \<Rightarrow>
                s\<lparr>se_from := sender, se_clientIP := (case ip of Some a \<Rightarrow> Some a | None \<Rightarrow> se_clientIP s), se_helo := hostname\<rparr>)))"

definition senderIsGroupMember :: "rcpt_env \<Rightarrow> session \<Rightarrow> bytes \<Rightarrow> bool" where
  "senderIsGroupMember e s groupID =
     (if se_from s = [] \<or> rv_groups e = None then False
      else case rv_userByAddress e (se_from s) of None \<Rightarrow> False | Some u \<Rightarrow> rv_isMember e groupID u)"

definition receivingStatuses :: "string list" where
  "receivingStatuses = [''active'', ''payment_failed'', ''lapsed_to_free'', ''prune_warned'', ''pruning'']"

definition account_status :: "rcpt_user \<Rightarrow> string" where
  "account_status user = (if rx_AccountStatus user = [] then ''active'' else rx_AccountStatus user)"

definition status_error :: "string \<Rightarrow> smtp_error" where
  "status_error status =
     (if status \<in> set [''tombstone'', ''deleted_tombstone'', ''purge_pending'', ''deletion_pending'']
      then SMTPError 550 [5, 1, 6] ''the email account that you tried to reach has been deleted''
      else SMTPError 550 [5, 2, 1] ''the email account that you tried to reach is disabled and not accepting messages'')"

definition over_quota :: "rcpt_env \<Rightarrow> rcpt_user \<Rightarrow> bool" where
  "over_quota e user =
     (case rv_limit e of
        None \<Rightarrow> False
      | Some limitOf \<Rightarrow>
          (case limitOf user of
             None \<Rightarrow> False
           | Some limit \<Rightarrow>
               limit > 0 \<and>
               (let driveUsed = (case rv_driveUsed e of None \<Rightarrow> 0 | Some f \<Rightarrow> (case f user of None \<Rightarrow> 0 | Some u \<Rightarrow> u)) in
                case rv_used e user driveUsed of None \<Rightarrow> False | Some used \<Rightarrow> used \<ge> limit)))"

definition is_role_address :: "rcpt_env \<Rightarrow> string \<Rightarrow> bool" where
  "is_role_address e recipient =
     (rv_roles e \<and>
      (case cut_at (CHR ''@'') recipient of
         Some (local, domain) \<Rightarrow> local \<noteq> [] \<and> IsLocalPart (rv_lower e) local \<and> rv_isDefault e domain = Some True
       | None \<Rightarrow> False))"

definition no_such_account :: smtp_error where
  "no_such_account = SMTPError 550 [5, 1, 1] ''the email account that you tried to reach does not exist''"

definition rcpt_group :: "rcpt_env \<Rightarrow> string \<Rightarrow> session \<Rightarrow> smtp_error option \<times> session" where
  "rcpt_group e recipient s =
     (case rv_groups e of
        None \<Rightarrow> (Some no_such_account, s)
      | Some byAddress \<Rightarrow>
          (case byAddress (rv_lower e recipient) of
             None \<Rightarrow> (Some no_such_account, s)
           | Some g \<Rightarrow>
               if gr_PostingPolicy g = ''members'' \<and> \<not> senderIsGroupMember e s (gr_GroupID g)
               then (Some (SMTPError 550 [5, 7, 1] ''only members may post to this group''), s)
               else (None, s\<lparr>se_groupRecipients := se_groupRecipients s @ [rv_lower e recipient]\<rparr>)))"

definition Rcpt :: "rcpt_env \<Rightarrow> string \<Rightarrow> session \<Rightarrow> smtp_error option \<times> session" where
  "Rcpt e to0 s =
     (let recipient = stripAngleBrackets (trimSpace to0) in
      if recipient = [] \<or> containsControlChars recipient then (Some (SMTPError 553 [5, 1, 3] ''bad recipient address syntax''), s)
      else if is_role_address e recipient then (None, s\<lparr>se_roleRecipients := se_roleRecipients s @ [rv_lower e recipient]\<rparr>)
      else case rv_resolve e recipient of
        None \<Rightarrow> rcpt_group e recipient s
      | Some user \<Rightarrow>
          if account_status user \<notin> set receivingStatuses then (Some (status_error (account_status user)), s)
          else if over_quota e user then (Some (SMTPError 552 [5, 2, 2] ''mailbox over quota''), s)
          else (None, s\<lparr>se_recipients := se_recipients s @ [recipient]\<rparr>))"

definition Reset :: "session \<Rightarrow> session" where
  "Reset s = s\<lparr>se_from := [], se_recipients := [], se_roleRecipients := [], se_groupRecipients := []\<rparr>"

subsection \<open>Data\<close>

definition maxMessageBytes :: int where
  "maxMessageBytes = 37 * 1024 * 1024"

text \<open>
  The world at each call of the pipeline, the targets of a recipient, the role-message store and the
  subject that \<open>net/mail\<close> reads.
\<close>

record data_env =
  da_lib :: mail_lib
  da_pipeline :: pipeline
  da_world :: "nat \<Rightarrow> pipe_env"
  da_fuel :: nat
  da_targets :: "string \<Rightarrow> string list option"
  da_group :: "string \<Rightarrow> mail_group option"
  da_insertRole :: "string \<Rightarrow> bool"
  da_subject :: "bytes \<Rightarrow> string option"

datatype data_effect = RoleMessage string string string bytes | Deliver string "pipe_effect list"

text \<open>
  The loops of \<open>Data\<close>: \<open>dt_raw\<close> is the buffer that all deliveries share and that each of them
  overwrites with zeros when it returns; \<open>dt_panic\<close> is set when one panics, which ends the loops.
\<close>

record data_state =
  dt_raw :: bytes
  dt_delivered :: "string list"
  dt_succeeded :: nat
  dt_effects :: "data_effect list"
  dt_pipe :: pipe_state
  dt_calls :: nat
  dt_panic :: "string option"

definition zero_bytes :: "bytes \<Rightarrow> bytes" where
  "zero_bytes b = replicate (length b) 0"

definition after_call :: "string \<Rightarrow> pipe_result \<times> pipe_effect list \<times> pipe_state \<Rightarrow> data_state \<Rightarrow> data_state" where
  "after_call target out d = (case out of (res, effs, s') \<Rightarrow>
     d\<lparr>dt_raw := zero_bytes (dt_raw d), dt_effects := dt_effects d @ [Deliver target effs], dt_pipe := s',
       dt_calls := Suc (dt_calls d),
       dt_succeeded := (if res = PipeOk then Suc (dt_succeeded d) else dt_succeeded d),
       dt_panic := (case res of PipePanic msg \<Rightarrow> Some msg | _ \<Rightarrow> None)\<rparr>)"

definition client_ip :: "session \<Rightarrow> bytes" where
  "client_ip s = (case se_clientIP s of Some a \<Rightarrow> a | None \<Rightarrow> v4_in_6 @ [127, 0, 0, 1])"

fun deliver_targets :: "data_env \<Rightarrow> session \<Rightarrow> string list \<Rightarrow> data_state \<Rightarrow> data_state option" where
  "deliver_targets e s [] d = Some d"
| "deliver_targets e s (target # targets) d =
     (if target \<in> set (dt_delivered d) then deliver_targets e s targets d
      else
        case ProcessMessage (da_lib e) (da_pipeline e) (da_world e (dt_calls d)) (da_fuel e) (se_from s) target
               (dt_raw d) (client_ip s) (se_helo s) (dt_pipe d) of
          None \<Rightarrow> None
        | Some out \<Rightarrow>
            (let d' = after_call target out (d\<lparr>dt_delivered := target # dt_delivered d\<rparr>) in
             if dt_panic d' \<noteq> None then Some d' else deliver_targets e s targets d'))"

fun deliver_recipients :: "data_env \<Rightarrow> session \<Rightarrow> string list \<Rightarrow> data_state \<Rightarrow> data_state option" where
  "deliver_recipients e s [] d = Some d"
| "deliver_recipients e s (rcpt # rcpts) d =
     (let targets = (case da_targets e rcpt of Some (t # ts) \<Rightarrow> t # ts | _ \<Rightarrow> [rcpt]) in
      case deliver_targets e s targets d of
        None \<Rightarrow> None
      | Some d' \<Rightarrow> if dt_panic d' \<noteq> None then Some d' else deliver_recipients e s rcpts d')"

fun deliver_groups :: "data_env \<Rightarrow> session \<Rightarrow> string list \<Rightarrow> data_state \<Rightarrow> data_state option" where
  "deliver_groups e s [] d = Some d"
| "deliver_groups e s (rcpt # rcpts) d =
     (case da_group e rcpt of
        None \<Rightarrow> deliver_groups e s rcpts d
      | Some g \<Rightarrow>
          (case ProcessGroupMessage (da_lib e) (da_pipeline e) (da_world e (dt_calls d)) (da_fuel e) (se_from s) g
                  (dt_raw d) (client_ip s) (se_helo s) (se_recipients s) (dt_pipe d) of
             None \<Rightarrow> None
           | Some out \<Rightarrow>
               (let d' = after_call rcpt out d in
                if dt_panic d' \<noteq> None then Some d' else deliver_groups e s rcpts d')))"

definition role_messages :: "data_env \<Rightarrow> session \<Rightarrow> bytes \<Rightarrow> data_effect list" where
  "role_messages e s raw =
     (let subject = (case da_subject e raw of Some t \<Rightarrow> t | None \<Rightarrow> []) in
      map (\<lambda>rcpt. RoleMessage rcpt (se_from s) subject raw) (filter (da_insertRole e) (se_roleRecipients s)))"

datatype data_result = DataOk | DataErr smtp_error | DataPanic string

text \<open>The message is what the client sends, or nothing if reading fails.\<close>

definition Data :: "data_env \<Rightarrow> session \<Rightarrow> pipe_state \<Rightarrow> bytes option \<Rightarrow> (data_result \<times> data_effect list \<times> pipe_state) option" where
  "Data e s st input =
     (case input of
        None \<Rightarrow> Some (DataErr ReadError, [], st)
      | Some stream \<Rightarrow>
          (let raw = limitReader (maxMessageBytes + 1) stream in
           if int (length raw) > maxMessageBytes then Some (DataErr (SMTPError 552 [] ''message exceeds maximum size''), [], st)
           else if se_recipients s = [] \<and> se_roleRecipients s = [] \<and> se_groupRecipients s = []
           then Some (DataErr (SMTPError 503 [] ''no recipients specified''), [], st)
           else
             (let roles = role_messages e s raw;
                  d0 = \<lparr>dt_raw = raw, dt_delivered = [], dt_succeeded = 0, dt_effects = roles, dt_pipe = st, dt_calls = 0, dt_panic = None\<rparr>
              in case deliver_recipients e s (se_recipients s) d0 of
                   None \<Rightarrow> None
                 | Some d1 \<Rightarrow>
                     (case (if dt_panic d1 \<noteq> None then Some d1 else deliver_groups e s (se_groupRecipients s) d1) of
                        None \<Rightarrow> None
                      | Some d2 \<Rightarrow>
                          Some (case dt_panic d2 of
                                  Some msg \<Rightarrow> DataPanic msg
                                | None \<Rightarrow> if dt_succeeded d2 = 0 \<and> roles = []
                                          then DataErr (SMTPError 451 [] ''temporary processing error'') else DataOk,
                                dt_effects d2, dt_pipe d2)))))"

end
