(* ===== verification/Recv_Props.thy ===== *)
theory Recv_Props
  imports Receiver
begin

text \<open>
  The recipients of a session have passed the checks of RCPT, and what the deliveries of one message
  after the first find in the shared buffer.
\<close>

subsection \<open>Admission\<close>

text \<open>What an address must satisfy, in the state of the stores at the time, to get into each list.\<close>

definition well_formed :: "string \<Rightarrow> bool" where
  "well_formed r = (r \<noteq> [] \<and> \<not> containsControlChars r)"

definition mailbox_admitted :: "rcpt_env \<Rightarrow> string \<Rightarrow> bool" where
  "mailbox_admitted e r =
     (well_formed r \<and> \<not> is_role_address e r
      \<and> (\<exists>user. rv_resolve e r = Some user \<and> account_status user \<in> set receivingStatuses \<and> \<not> over_quota e user))"

definition role_admitted :: "rcpt_env \<Rightarrow> string \<Rightarrow> bool" where
  "role_admitted e r =
     (\<exists>a local domain. r = rv_lower e a \<and> well_formed a \<and> cut_at (CHR ''@'') a = Some (local, domain)
        \<and> IsLocalPart (rv_lower e) local \<and> rv_isDefault e domain = Some True)"

text \<open>\<open>sender\<close> is the sender of the session when the address was given.\<close>

definition group_admitted :: "rcpt_env \<Rightarrow> string \<Rightarrow> string \<Rightarrow> bool" where
  "group_admitted e sender r =
     (\<exists>a g lookup. r = rv_lower e a \<and> well_formed a \<and> rv_resolve e a = None \<and> rv_groups e = Some lookup
        \<and> lookup r = Some g
        \<and> (gr_PostingPolicy g = ''members'' \<longrightarrow>
             (\<exists>u. sender \<noteq> [] \<and> rv_userByAddress e sender = Some u \<and> rv_isMember e (gr_GroupID g) u)))"

text \<open>The calls that the SMTP library makes; the stores may answer differently at each.\<close>

inductive session_reach :: "rcpt_env set \<Rightarrow> session \<Rightarrow> bool" for E where
  start: "session_reach E new_session"
| mail: "session_reach E s \<Longrightarrow> session_reach E (snd (Mail conn sender s))"
| rcpt: "session_reach E s \<Longrightarrow> e \<in> E \<Longrightarrow> session_reach E (snd (Rcpt e to0 s))"
| reset: "session_reach E s \<Longrightarrow> session_reach E (Reset s)"

definition session_ok :: "rcpt_env set \<Rightarrow> session \<Rightarrow> bool" where
  "session_ok E s =
     ((se_from s = [] \<or> CHR ''@'' \<in> set (se_from s) \<and> \<not> containsControlChars (se_from s))
      \<and> (\<forall>r \<in> set (se_recipients s). \<exists>e \<in> E. mailbox_admitted e r)
      \<and> (\<forall>r \<in> set (se_roleRecipients s). \<exists>e \<in> E. role_admitted e r)
      \<and> (\<forall>r \<in> set (se_groupRecipients s). \<exists>e \<in> E. \<exists>sender. group_admitted e sender r))"

lemma Mail_ok: "session_ok E s \<Longrightarrow> session_ok E (snd (Mail conn sender s))"
  by (auto simp: session_ok_def Mail_def Let_def split: option.split prod.split)

lemma rcpt_group_ok:
  assumes "session_ok E s" "e \<in> E" "well_formed r" "rv_resolve e r = None"
  shows "session_ok E (snd (rcpt_group e r s))"
proof (cases "fst (rcpt_group e r s)")
  case None
  then obtain lookup g where g: "rv_groups e = Some lookup" "lookup (rv_lower e r) = Some g"
      "snd (rcpt_group e r s) = s\<lparr>se_groupRecipients := se_groupRecipients s @ [rv_lower e r]\<rparr>"
      "gr_PostingPolicy g = ''members'' \<longrightarrow> senderIsGroupMember e s (gr_GroupID g)"
    by (auto simp: rcpt_group_def split: option.splits if_splits)
  have "group_admitted e (se_from s) (rv_lower e r)"
    unfolding group_admitted_def using g assms(3, 4)
    by (intro exI[of _ r] exI[of _ g] exI[of _ lookup])
      (auto simp: senderIsGroupMember_def split: if_splits option.splits)
  then show ?thesis using assms(1, 2) g(3) by (auto simp: session_ok_def)
next
  case (Some err)
  then have "snd (rcpt_group e r s) = s" by (auto simp: rcpt_group_def split: option.splits if_splits)
  then show ?thesis using assms(1) by simp
qed

lemma Rcpt_ok:
  assumes "session_ok E s" "e \<in> E"
  shows "session_ok E (snd (Rcpt e to0 s))"
proof -
  let ?r = "stripAngleBrackets (trimSpace to0)"
  consider (bad) "\<not> well_formed ?r" | (role) "well_formed ?r" "is_role_address e ?r"
    | (grp) "well_formed ?r" "\<not> is_role_address e ?r" "rv_resolve e ?r = None"
    | (user) u where "well_formed ?r" "\<not> is_role_address e ?r" "rv_resolve e ?r = Some u"
    by blast
  then show ?thesis
  proof cases
    case bad
    then show ?thesis using assms by (simp add: Rcpt_def well_formed_def Let_def)
  next
    case role
    then have "role_admitted e (rv_lower e ?r)"
      by (auto simp: role_admitted_def is_role_address_def split: option.splits)
    then show ?thesis using role assms by (auto simp: Rcpt_def well_formed_def Let_def session_ok_def)
  next
    case grp
    then show ?thesis using rcpt_group_ok[OF assms grp(1) grp(3)] by (simp add: Rcpt_def well_formed_def Let_def)
  next
    case user
    then show ?thesis using assms
      by (auto simp: Rcpt_def well_formed_def Let_def session_ok_def mailbox_admitted_def)
  qed
qed

subsection \<open>The shared buffer\<close>

definition buffer_at :: "bytes \<Rightarrow> nat \<Rightarrow> bytes" where
  "buffer_at raw n = (if n = 0 then raw else zero_bytes raw)"

lemma zero_buffer [simp]: "zero_bytes (buffer_at raw n) = buffer_at raw (Suc n)"
  by (simp add: buffer_at_def zero_bytes_def)

text \<open>An effect is the trace of the \<open>n\<close>-th call of the pipeline, on the buffer as it was then.\<close>

definition nth_call :: "data_env \<Rightarrow> session \<Rightarrow> bytes \<Rightarrow> nat \<Rightarrow> data_effect \<Rightarrow> bool" where
  "nth_call e s raw n eff =
     (\<exists>target res effs st st'. eff = Deliver target effs
        \<and> ProcessMessage (da_lib e) (da_pipeline e) (da_world e n) (da_fuel e) (se_from s) target
            (buffer_at raw n) (client_ip s) (se_helo s) st = Some (res, effs, st'))"

definition calls_from :: "data_env \<Rightarrow> session \<Rightarrow> bytes \<Rightarrow> data_state \<Rightarrow> data_state \<Rightarrow> bool" where
  "calls_from e s raw d d' =
     (\<exists>new. dt_effects d' = dt_effects d @ new \<and> dt_calls d' = dt_calls d + length new
        \<and> dt_raw d' = buffer_at raw (dt_calls d')
        \<and> (\<forall>i < length new. nth_call e s raw (dt_calls d + i) (new ! i)))"

lemma calls_refl: "dt_raw d = buffer_at raw (dt_calls d) \<Longrightarrow> calls_from e s raw d d"
  by (auto simp: calls_from_def)

lemma calls_trans:
  assumes "calls_from e s raw a b" "calls_from e s raw b c"
  shows "calls_from e s raw a c"
proof -
  obtain xs ys where x: "dt_effects b = dt_effects a @ xs" "dt_calls b = dt_calls a + length xs"
      "\<forall>i < length xs. nth_call e s raw (dt_calls a + i) (xs ! i)"
    and y: "dt_effects c = dt_effects b @ ys" "dt_calls c = dt_calls b + length ys" "dt_raw c = buffer_at raw (dt_calls c)"
      "\<forall>i < length ys. nth_call e s raw (dt_calls b + i) (ys ! i)"
    using assms by (auto simp: calls_from_def)
  have "nth_call e s raw (dt_calls a + i) ((xs @ ys) ! i)" if i: "i < length (xs @ ys)" for i
  proof (cases "i < length xs")
    case False
    then show ?thesis using i x(2) y(4)[rule_format, of "i - length xs"] by (simp add: nth_append)
  qed (use x(3) in \<open>simp add: nth_append\<close>)
  then show ?thesis unfolding calls_from_def using x y by (intro exI[of _ "xs @ ys"]) auto
qed

lemma targets_calls:
  "dt_raw d = buffer_at raw (dt_calls d) \<Longrightarrow> deliver_targets e s ts d = Some d' \<Longrightarrow> calls_from e s raw d d'"
proof (induction ts arbitrary: d)
  case Nil
  then show ?case by (simp add: calls_refl)
next
  case (Cons t ts)
  show ?case
  proof (cases "t \<in> set (dt_delivered d)")
    case True
    then show ?thesis using Cons by simp
  next
    case False
    then obtain res effs st' where out: "ProcessMessage (da_lib e) (da_pipeline e) (da_world e (dt_calls d)) (da_fuel e)
        (se_from s) t (dt_raw d) (client_ip s) (se_helo s) (dt_pipe d) = Some (res, effs, st')"
      using Cons.prems(2) by (auto split: option.splits)
    define d1 where "d1 = after_call t (res, effs, st') (d\<lparr>dt_delivered := t # dt_delivered d\<rparr>)"
    have "nth_call e s raw (dt_calls d) (Deliver t effs)"
      using out Cons.prems(1) by (auto simp: nth_call_def)
    then have c: "calls_from e s raw d d1"
      using Cons.prems(1) by (auto simp: calls_from_def d1_def after_call_def)
    have "dt_raw d1 = buffer_at raw (dt_calls d1)" using c by (auto simp: calls_from_def)
    then show ?thesis
      using Cons.prems(2) False out Cons.IH[of d1] calls_trans[OF c] c
      by (auto simp: d1_def Let_def split: if_splits)
  qed
qed

lemma recipients_calls:
  "dt_raw d = buffer_at raw (dt_calls d) \<Longrightarrow> deliver_recipients e s rs d = Some d' \<Longrightarrow> calls_from e s raw d d'"
proof (induction rs arbitrary: d)
  case Nil
  then show ?case by (simp add: calls_refl)
next
  case (Cons r rs)
  let ?ts = "case da_targets e r of Some (t # ts) \<Rightarrow> t # ts | _ \<Rightarrow> [r]"
  obtain d1 where d1: "deliver_targets e s ?ts d = Some d1"
    using Cons.prems(2) by (cases "deliver_targets e s ?ts d") (simp_all add: Let_def)
  have c: "calls_from e s raw d d1" by (rule targets_calls[OF Cons.prems(1) d1])
  then have "dt_raw d1 = buffer_at raw (dt_calls d1)" by (auto simp: calls_from_def)
  then show ?case
    using Cons.prems(2) d1 Cons.IH[of d1] calls_trans[OF c] c by (auto simp: Let_def split: if_splits)
qed

lemma data_calls:
  assumes "Data e s st (Some raw) = Some (res, role_messages e s raw @ effs, st')" "se_groupRecipients s = []" "effs \<noteq> []"
  shows "\<forall>i < length effs. nth_call e s raw i (effs ! i)" "int (length raw) \<le> maxMessageBytes"
proof -
  have len: "int (length raw) \<le> maxMessageBytes"
    using assms(1, 3) by (auto simp: Data_def Let_def limitReader_def maxMessageBytes_def split: if_splits)
  then show "int (length raw) \<le> maxMessageBytes" .
  have cut: "limitReader (maxMessageBytes + 1) raw = raw" using len by (simp add: limitReader_def)
  let ?d = "\<lparr>dt_raw = raw, dt_delivered = [], dt_succeeded = 0, dt_effects = role_messages e s raw, dt_pipe = st, dt_calls = 0, dt_panic = None\<rparr>"
  show "\<forall>i < length effs. nth_call e s raw i (effs ! i)"
  proof (cases "se_recipients s = [] \<and> se_roleRecipients s = []")
    case True
    then show ?thesis using assms len by (simp add: Data_def cut)
  next
    case False
    obtain d where d: "deliver_recipients e s (se_recipients s) ?d = Some d" "dt_effects d = role_messages e s raw @ effs"
      using assms len False by (cases "deliver_recipients e s (se_recipients s) ?d") (auto simp: Data_def cut Let_def split: if_splits)
    have "calls_from e s raw ?d d" by (rule recipients_calls[OF _ d(1)]) (simp add: buffer_at_def)
    then show ?thesis using d(2) by (auto simp: calls_from_def)
  qed
qed

lemma publish_resolves:
  assumes "ProcessMessage L p env fuel sender recipient raw clientIP helo s = Some (res, effs, s')" "effs \<noteq> []"
  obtains user where "en_resolve env recipient = Some user"
  using assms by (cases rule: process_ends) auto

subsection \<open>Properties\<close>

text \<open>
  C31: In every state of a session, the sender is empty or an address without control characters,
  and every recipient was admitted when it was given: a mailbox that receives mail and is not over
  its quota, a reserved name on a domain of the service (never a user's mailbox), or a group, whose
  members-only policy the sender passed.
\<close>

theorem session_recipients_admitted:
  assumes "session_reach E s"
  shows "session_ok E s"
  using assms
proof induction
  case start
  then show ?case by (simp add: session_ok_def new_session_def)
next
  case (mail s conn sender)
  then show ?case by (simp add: Mail_ok)
next
  case (rcpt s e to0)
  then show ?case by (simp add: Rcpt_ok)
next
  case (reset s)
  then show ?case by (simp add: session_ok_def Reset_def)
qed


end
