(* ===== verification/Auth_Props.thy ===== *)
theory Auth_Props
  imports Auth_Checks
begin

text \<open>
  SPF returns after at most eleven queries whatever the records say, address terms decide by the
  first match, and DMARC is decided by the envelope alone.
\<close>

subsection \<open>The lookup counter bounds the recursion\<close>

definition spf_words :: "string set" where
  "spf_words = {''pass'', ''fail'', ''softfail'', ''neutral'', ''none'', ''temperror'', ''permerror''}"

text \<open>
  What a run from \<open>s\<close> to \<open>s'\<close> with result \<open>r\<close> keeps: every query but \<open>k\<close> is paid for by the counter, and
  a counter over its limit has ended the evaluation.
\<close>

definition spf_paid :: "nat \<Rightarrow> string \<Rightarrow> spf_state \<Rightarrow> spf_state \<Rightarrow> bool" where
  "spf_paid k r s s' =
     (sp_count s \<le> sp_count s' \<and> sp_count s' \<le> Suc spf_limit
      \<and> length (sp_queries s') + min (sp_count s) spf_limit \<le> length (sp_queries s) + k + min (sp_count s') spf_limit
      \<and> (spf_limit < sp_count s' \<longrightarrow> r = ''permerror''))"

definition step_word :: "spf_step \<Rightarrow> string" where
  "step_word st = (case st of SpfReturn r _ \<Rightarrow> r | SpfMatched _ \<Rightarrow> ''neutral'')"

text \<open>What is asked of the recursive call when its counter is below the limit by less than \<open>n\<close>.\<close>

definition spf_returns :: "nat \<Rightarrow> (string \<Rightarrow> spf_state \<Rightarrow> (spf_result \<times> spf_state) option) \<Rightarrow> bool" where
  "spf_returns n check =
     (\<forall>d s. sp_count s \<le> spf_limit \<and> spf_limit - sp_count s < n \<longrightarrow>
        (\<exists>r err s'. check d s = Some ((r, err), s') \<and> spf_paid 1 r s s' \<and> r \<in> spf_words))"

lemma mx_hosts_paid:
  "sp_count s \<le> spf_limit \<Longrightarrow>
   case mx_hosts A ip prefix hs s of (st, s') \<Rightarrow> spf_paid 0 (step_word st) s s' \<and> step_word st \<in> spf_words"
proof (induction hs arbitrary: s)
  case Nil
  then show ?case by (simp add: spf_paid_def step_word_def spf_words_def)
next
  case (Cons h hs)
  let ?s = "ask (QueryHost h) (s\<lparr>sp_count := sp_count s + 1\<rparr>)"
  have step: "spf_paid 0 ''neutral'' s ?s" if "sp_count s + 1 \<le> spf_limit"
    using that by (simp add: spf_paid_def ask_def)
  have IH: "case mx_hosts A ip prefix hs ?s of (st, s') \<Rightarrow> spf_paid 0 (step_word st) ?s s' \<and> step_word st \<in> spf_words"
    if "sp_count s + 1 \<le> spf_limit"
    using Cons.IH[of ?s] that by (simp add: ask_def)
  show ?case
  proof (cases "sp_count s + 1 \<le> spf_limit")
    case False
    then show ?thesis
      using Cons.prems by (simp add: spf_inc_def spf_exceeded_def step_word_def spf_words_def spf_paid_def)
  next
    case True
    have "mx_hosts A ip prefix (h # hs) s = (if host_matches A ip prefix h then (SpfMatched True, ?s) else mx_hosts A ip prefix hs ?s)"
      using True by (simp add: spf_inc_def)
    moreover have "spf_paid 0 r s s'" if "spf_paid 0 r ?s s'" for r s'
      using that step[OF True] by (auto simp: spf_paid_def)
    ultimately show ?thesis
      using step[OF True] IH[OF True] by (auto simp: step_word_def spf_words_def split: prod.splits)
  qed
qed

lemmas spf_run = spf_inc_def spf_exceeded_def step_word_def spf_paid_def ask_def spf_words_def

lemma recursive_call:
  assumes "spf_returns n check" "sp_count s < spf_limit" "spf_limit - sp_count s < Suc n"
  shows "\<exists>r err s'. check d (s\<lparr>sp_count := Suc (sp_count s)\<rparr>) = Some ((r, err), s') \<and> spf_paid 0 r s s' \<and> r \<in> spf_words"
proof -
  let ?s = "s\<lparr>sp_count := Suc (sp_count s)\<rparr>"
  have "sp_count ?s \<le> spf_limit" "spf_limit - sp_count ?s < n" using assms(2, 3) by auto
  with assms(1) obtain r err s' where c: "check d ?s = Some ((r, err), s')" and p: "spf_paid 1 r ?s s'" and "r \<in> spf_words"
    unfolding spf_returns_def by blast
  moreover have "spf_paid 0 r s s'" using p assms(2) by (auto simp: spf_paid_def)
  ultimately show ?thesis by blast
qed

definition step_ok :: "spf_state \<Rightarrow> (spf_step \<times> spf_state) option \<Rightarrow> bool" where
  "step_ok s x = (\<exists>st s'. x = Some (st, s') \<and> spf_paid 0 (step_word st) s s' \<and> step_word st \<in> spf_words)"

lemma if_step_ok: "(c \<Longrightarrow> step_ok s x) \<Longrightarrow> (\<not> c \<Longrightarrow> step_ok s y) \<Longrightarrow> step_ok s (if c then x else y)"
  by simp

lemma counted_step_ok:
  assumes "sp_count s \<le> spf_limit"
    and "sp_count s < spf_limit \<Longrightarrow> step_ok s (f (s\<lparr>sp_count := Suc (sp_count s)\<rparr>))"
  shows "step_ok s (let (over, s1) = spf_inc s in if over then Some (spf_exceeded, s1) else f s1)"
  using assms by (auto simp: step_ok_def spf_run)

lemma matched_ok:
  "sp_count s \<le> spf_limit \<Longrightarrow> step_ok s (Some (SpfMatched m, s))"
  "sp_count s \<le> spf_limit \<Longrightarrow> step_ok s (Some (SpfReturn ''neutral'' False, s))"
  "sp_count s < spf_limit \<Longrightarrow> step_ok s (Some (SpfMatched m, ask q (s\<lparr>sp_count := Suc (sp_count s)\<rparr>)))"
  by (auto simp: step_ok_def spf_run)

lemma mx_ok:
  assumes "sp_count s < spf_limit"
  shows "step_ok s (let s2 = ask q (s\<lparr>sp_count := Suc (sp_count s)\<rparr>) in
           case hosts of None \<Rightarrow> Some (SpfMatched False, s2) | Some hs \<Rightarrow> Some (mx_hosts A ip prefix hs s2))"
proof (cases hosts)
  case None
  then show ?thesis using matched_ok(3)[OF assms] by simp
next
  case (Some hs)
  then show ?thesis
    using mx_hosts_paid[of "ask q (s\<lparr>sp_count := Suc (sp_count s)\<rparr>)" A ip prefix hs] assms
    by (auto simp: step_ok_def spf_paid_def ask_def split: prod.splits)
qed

lemma case_prod_ok: "(\<And>a b. step_ok s (f a b)) \<Longrightarrow> step_ok s (case p of (a, b) \<Rightarrow> f a b)"
  by (cases p) simp

lemma let_ok: "step_ok s (f x) \<Longrightarrow> step_ok s (let y = x in f y)"
  by simp

lemma call_ok:
  assumes "spf_returns n check" "sp_count s < spf_limit" "spf_limit - sp_count s < Suc n"
  shows "step_ok s (case check d (s\<lparr>sp_count := Suc (sp_count s)\<rparr>) of None \<Rightarrow> None
           | Some ((r, e), s2) \<Rightarrow> if r = ''permerror'' then Some (spf_exceeded, s2) else Some (SpfMatched (r = ''pass''), s2))"
    and "step_ok s (case check d (s\<lparr>sp_count := Suc (sp_count s)\<rparr>) of None \<Rightarrow> None
           | Some ((r, e), s2) \<Rightarrow> Some (SpfReturn r e, s2))"
proof -
  obtain r e s' where "check d (s\<lparr>sp_count := Suc (sp_count s)\<rparr>) = Some ((r, e), s')" "spf_paid 0 r s s'" "r \<in> spf_words"
    using recursive_call[OF assms] by blast
  then show "step_ok s (case check d (s\<lparr>sp_count := Suc (sp_count s)\<rparr>) of None \<Rightarrow> None
           | Some ((r, e), s2) \<Rightarrow> if r = ''permerror'' then Some (spf_exceeded, s2) else Some (SpfMatched (r = ''pass''), s2))"
    and "step_ok s (case check d (s\<lparr>sp_count := Suc (sp_count s)\<rparr>) of None \<Rightarrow> None
           | Some ((r, e), s2) \<Rightarrow> Some (SpfReturn r e, s2))"
    by (auto simp: step_ok_def step_word_def spf_exceeded_def spf_paid_def spf_words_def)
qed

lemma mechanism_paid:
  assumes "spf_returns n check" "sp_count s \<le> spf_limit" "spf_limit - sp_count s < Suc n"
  shows "step_ok s (spf_mechanism A ip domain check mechanism s)"
  unfolding spf_mechanism_def
  by (intro if_step_ok counted_step_ok matched_ok mx_ok call_ok[OF assms(1) _ assms(3)] case_prod_ok assms(2) let_ok)

lemma qualifier_word: "qualifier_result q \<in> spf_words"
  by (simp add: qualifier_result_def spf_words_def)

lemma paid_trans:
  "spf_paid 0 w s s1 \<Longrightarrow> spf_paid k r s1 s2 \<Longrightarrow> sp_count s1 \<le> spf_limit \<Longrightarrow> spf_paid k r s s2"
  by (auto simp: spf_paid_def)

lemma terms_paid:
  assumes "spf_returns n check"
  shows "sp_count s \<le> spf_limit \<Longrightarrow> spf_limit - sp_count s < Suc n \<Longrightarrow>
    \<exists>r err s'. spf_terms A ip domain check parts s = Some ((r, err), s') \<and> spf_paid 0 r s s' \<and> r \<in> spf_words"
proof (induction parts arbitrary: s)
  case Nil
  then show ?case by (auto simp: spf_paid_def spf_words_def)
next
  case (Cons part parts)
  obtain q m where q: "split_qualifier part = (q, m)" by (cases "split_qualifier part")
  obtain st s1 where st: "spf_mechanism A ip domain check m s = Some (st, s1)" and
    paid: "spf_paid 0 (step_word st) s s1" and w: "step_word st \<in> spf_words"
    using mechanism_paid[OF assms Cons.prems, of A ip domain m] by (auto simp: step_ok_def)
  show ?case
  proof (cases st)
    case (SpfReturn r err)
    then show ?thesis using q st paid w by (simp add: step_word_def)
  next
    case (SpfMatched b)
    have c: "sp_count s1 \<le> spf_limit" and le: "spf_limit - sp_count s1 < Suc n"
      using paid Cons.prems SpfMatched by (auto simp: spf_paid_def step_word_def)
    obtain r err s' where r: "spf_terms A ip domain check parts s1 = Some ((r, err), s')" "spf_paid 0 r s1 s'" "r \<in> spf_words"
      using Cons.IH[OF c le] by blast
    have "spf_paid 0 (qualifier_result q) s s1" using paid c by (auto simp: spf_paid_def)
    then show ?thesis using q st SpfMatched r paid_trans[OF paid r(2) c] qualifier_word by (cases b) auto
  qed
qed

lemma check_returns: "spf_returns n (checkSPFWithCounter A ip n)"
proof (induction n)
  case 0
  then show ?case by (simp add: spf_returns_def)
next
  case (Suc n)
  have "\<exists>r err s'. checkSPFWithCounter A ip (Suc n) d s = Some ((r, err), s') \<and> spf_paid 1 r s s' \<and> r \<in> spf_words"
    if c: "sp_count s \<le> spf_limit" "spf_limit - sp_count s < Suc n" for d s
  proof -
    let ?s = "ask (QueryTXT d) s"
    have asked: "spf_paid 1 r s ?s" "spf_paid 0 r ?s s' \<Longrightarrow> spf_paid 1 r s s'" for r s'
      using c by (auto simp: spf_paid_def ask_def)
    have terms: "\<exists>r err s'. spf_terms A ip d (checkSPFWithCounter A ip n) parts ?s = Some ((r, err), s') \<and> spf_paid 1 r s s' \<and> r \<in> spf_words" for parts
      using terms_paid[OF Suc.IH, of ?s A ip d parts] c asked(2) by (auto simp: ask_def)
    show ?thesis
      using asked(1) terms by (auto simp: Let_def spf_words_def split: option.split list.split)
  qed
  then show ?case by (auto simp: spf_returns_def)
qed

subsection \<open>More depth changes nothing\<close>

definition ext :: "'a option \<Rightarrow> 'a option \<Rightarrow> bool" where
  "ext x y = (x = None \<or> x = y)"

lemma ext_intros:
  "ext x x"
  "(c \<Longrightarrow> ext a a') \<Longrightarrow> (\<not> c \<Longrightarrow> ext b b') \<Longrightarrow> ext (if c then a else b) (if c then a' else b')"
  "(\<And>u v. ext (f u v) (g u v)) \<Longrightarrow> ext (case p of (u, v) \<Rightarrow> f u v) (case p of (u, v) \<Rightarrow> g u v)"
  "(\<And>u v. ext (f u v) (g u v)) \<Longrightarrow> ext (let (u, v) = p in f u v) (let (u, v) = p in g u v)"
  "ext o1 o2 \<Longrightarrow> ext (case o1 of None \<Rightarrow> None | Some z \<Rightarrow> h z) (case o2 of None \<Rightarrow> None | Some z \<Rightarrow> h z)"
  by (auto simp: ext_def split: prod.split)

lemma mechanism_extends:
  assumes "\<And>d s. ext (check d s) (check' d s)"
  shows "ext (spf_mechanism A ip domain check mechanism s) (spf_mechanism A ip domain check' mechanism s)"
  unfolding spf_mechanism_def
  by (rule ext_intros(2); (rule ext_intros(1))?; intro ext_intros(2-5) assms ext_intros(1))

lemma terms_extend:
  assumes "\<And>d s. ext (check d s) (check' d s)"
  shows "ext (spf_terms A ip domain check parts s) (spf_terms A ip domain check' parts s)"
proof (induction parts arbitrary: s)
  case Nil
  then show ?case by (simp add: ext_def)
next
  case (Cons part parts)
  obtain q m where q: "split_qualifier part = (q, m)" by (cases "split_qualifier part")
  have "ext (spf_mechanism A ip domain check m s) (spf_mechanism A ip domain check' m s)"
    by (rule mechanism_extends) (rule assms)
  then consider (none) "spf_mechanism A ip domain check m s = None"
    | (same) st s1 where "spf_mechanism A ip domain check m s = Some (st, s1)" "spf_mechanism A ip domain check' m s = Some (st, s1)"
    by (cases "spf_mechanism A ip domain check m s") (auto simp: ext_def)
  then show ?case
  proof cases
    case none
    then show ?thesis using q by (simp add: ext_def)
  next
    case same
    then show ?thesis using q Cons.IH[of s1] by (cases st) (auto simp: ext_def)
  qed
qed

lemma check_extends: "ext (checkSPFWithCounter A ip n d s) (checkSPFWithCounter A ip (n + k) d s)"
proof (induction n arbitrary: d s)
  case 0
  then show ?case by (simp add: ext_def)
next
  case (Suc n)
  have "ext (spf_terms A ip d (checkSPFWithCounter A ip n) ps t) (spf_terms A ip d (checkSPFWithCounter A ip (n + k)) ps t)" for ps t
    by (rule terms_extend) (rule Suc.IH)
  then show ?case by (auto simp: ext_def Let_def split: option.split list.split)
qed

subsection \<open>Address terms\<close>

definition address_term :: "string \<Rightarrow> bool" where
  "address_term part =
     (let m = snd (split_qualifier part) in m = ''all'' \<or> hasPrefix m ''ip4:'' \<or> hasPrefix m ''ip6:'')"

definition term_matches :: "auth_lib \<Rightarrow> bytes \<Rightarrow> string \<Rightarrow> bool" where
  "term_matches A ip part =
     (let m = snd (split_qualifier part) in m = ''all'' \<or> matchIPCIDR A ip (drop 4 m))"

text \<open>A record of address terms gives the qualifier of the first that matches, without a query.\<close>

lemma address_term_step:
  "address_term part \<Longrightarrow>
   spf_mechanism A ip domain check (snd (split_qualifier part)) s = Some (SpfMatched (term_matches A ip part), s)"
  unfolding spf_mechanism_def address_term_def term_matches_def Let_def
  by (cases "snd (split_qualifier part) = ''all''"; cases "hasPrefix (snd (split_qualifier part)) ''ip4:''")
    (simp_all only: if_True if_False simp_thms)

lemma address_terms_first_match:
  assumes "list_all address_term parts"
  shows "spf_terms A ip domain check parts s =
    (case List.find (term_matches A ip) parts of
       None \<Rightarrow> Some ((''neutral'', False), s)
     | Some part \<Rightarrow> Some ((qualifier_result (fst (split_qualifier part)), False), s))"
  using assms
proof (induction parts)
  case (Cons part parts)
  then show ?case using address_term_step[of part A ip domain check s] by (auto split: prod.split)
qed simp

subsection \<open>Properties\<close>

text \<open>
  C26: Whatever records the resolver returns, an SPF check ends with one of the seven words, after
  at most eleven queries (the ten that the counter allows and the first record), and eleven levels
  of includes and redirects are enough: more give the same result.
\<close>

theorem spf_returns_bounded:
  "\<exists>r err s. CheckSPF A (11 + k) ip helo sender = Some ((r, err), s)
     \<and> CheckSPF A 11 ip helo sender = Some ((r, err), s)
     \<and> r \<in> spf_words \<and> length (sp_queries s) \<le> 11"
proof -
  let ?d = "(case after_last (CHR ''@'') sender of Some d \<Rightarrow> d | None \<Rightarrow> sender)"
  let ?domain = "(if ?d = [] then helo else ?d)"
  obtain r err s where c: "checkSPFWithCounter A ip 11 ?domain newSPFDNSCounter = Some ((r, err), s)"
    and p: "spf_paid 1 r newSPFDNSCounter s" and w: "r \<in> spf_words"
    using check_returns[of 11 A ip, unfolded spf_returns_def, rule_format, of newSPFDNSCounter ?domain]
    by (auto simp: newSPFDNSCounter_def spf_limit_def)
  have "length (sp_queries s) \<le> 11"
    using p by (auto simp: spf_paid_def newSPFDNSCounter_def spf_limit_def)
  moreover have "checkSPFWithCounter A ip (11 + k) ?domain newSPFDNSCounter = Some ((r, err), s)"
    using c check_extends[of A ip 11 ?domain newSPFDNSCounter k] by (simp add: ext_def)
  ultimately show ?thesis
    using c w by (cases "?domain = []") (auto simp: CheckSPF_def Let_def newSPFDNSCounter_def spf_words_def)
qed

text \<open>
  DMARC is judged by the envelope alone: if SPF passes for the envelope sender, the DMARC result
  is never a failure, whatever the message says in its From header.
\<close>

theorem dmarc_by_envelope:
  assumes "runSecurityChecks A fuel sender clientIP rawMessage = Some r" and "sc_spf r = ''pass''"
  shows "sc_dmarc r \<in> {''pass'', ''none'', ''permerror''}"
  using assms
  by (auto simp: runSecurityChecks_def CheckDMARC_def domainsAlign_def Let_def split: option.splits prod.splits if_splits)

end
