(* ===== verification/Epoch.thy ===== *)
theory Epoch
  imports Crypto_Props
begin

text \<open>
  \<open>internal/crypto/epoch.go\<close>: the key of each epoch is stored encrypted under the next epoch's
  key, bound to its epoch number and user, and a holder of the current key walks the chain back.
\<close>

subsection \<open>Operations\<close>

record EncryptedEpochKey =
  ek_Epoch :: u64
  ek_EphemeralPubkey :: bytes
  ek_EncryptedPrivKey :: bytes

definition MaxEpochChainDepth :: nat where
  "MaxEpochChainDepth = 100"

definition LegacyAADMaxEpoch :: u64 where
  "LegacyAADMaxEpoch = 1000"

text \<open>No user (or an empty one) is the empty list.\<close>

definition epochAAD :: "u64 \<Rightarrow> bytes \<Rightarrow> bytes" where
  "epochAAD epoch userID = be64 epoch @ (if userID \<noteq> [] then be32 (length userID) @ userID else [])"

definition EncryptPreviousEpochKey :: "crypto_platform \<Rightarrow> bytes \<Rightarrow> u64 \<Rightarrow> bytes \<Rightarrow> bytes \<Rightarrow> EncryptedEpochKey cr" where
  "EncryptPreviousEpochKey P prevPrivKey prevEpoch newPubKey userID =
     bindm (wrapm ''generate ephemeral key'' (rand_read 32)) (\<lambda>ephemeral.
     bindm (liftm (ecdh_res P ephemeral newPubKey)) (\<lambda>sharedSecret.
     let ephPubBytes = cp_pub P ephemeral in
     bindm (liftm (deriveKey P sharedSecret ephPubBytes ''epoch-key-wrap'')) (\<lambda>derivedKey.
     bindm (wrapm ''encrypt epoch key'' (sealXChaCha20 P derivedKey prevPrivKey (epochAAD prevEpoch userID))) (\<lambda>encrypted.
     retm \<lparr>ek_Epoch = prevEpoch, ek_EphemeralPubkey = ephPubBytes, ek_EncryptedPrivKey = encrypted\<rparr>))))"

text \<open>The AAD formats tried in order: length-prefixed, then, up to the cutoff, the two older ones.\<close>

definition open_epoch_key :: "crypto_platform \<Rightarrow> bytes \<Rightarrow> EncryptedEpochKey \<Rightarrow> bytes \<Rightarrow> string + bytes" where
  "open_epoch_key P derivedKey enc userID =
     (if userID \<noteq> [] then
        (case openXChaCha20 P derivedKey (ek_EncryptedPrivKey enc) (epochAAD (ek_Epoch enc) userID) of
           Inr k \<Rightarrow> Inr k
         | Inl err \<Rightarrow>
             if ek_Epoch enc > LegacyAADMaxEpoch then Inl (''decrypt epoch key (legacy AAD rejected): '' @ err)
             else (case openXChaCha20 P derivedKey (ek_EncryptedPrivKey enc) (be64 (ek_Epoch enc) @ userID) of
                     Inr k \<Rightarrow> Inr k
                   | Inl _ \<Rightarrow> wrap_res ''decrypt epoch key''
                       (openXChaCha20 P derivedKey (ek_EncryptedPrivKey enc) (be64 (ek_Epoch enc)))))
      else wrap_res ''decrypt epoch key'' (openXChaCha20 P derivedKey (ek_EncryptedPrivKey enc) (be64 (ek_Epoch enc))))"

definition DecryptEpochKey :: "crypto_platform \<Rightarrow> EncryptedEpochKey \<Rightarrow> bytes \<Rightarrow> bytes \<Rightarrow> string + bytes" where
  "DecryptEpochKey P enc currentPrivKey userID =
     (if length (ek_EphemeralPubkey enc) \<noteq> 32 then Inl ''invalid ephemeral public key length''
      else
        bind_res (wrap_res ''parse ephemeral public key'' (newPublicKey (ek_EphemeralPubkey enc))) (\<lambda>ephemeralPub.
        bind_res (ecdh_res P currentPrivKey ephemeralPub) (\<lambda>sharedSecret.
        bind_res (deriveKey P sharedSecret (ek_EphemeralPubkey enc) ''epoch-key-wrap'') (\<lambda>derivedKey.
        bind_res (open_epoch_key P derivedKey enc userID) (\<lambda>privKeyBytes.
        wrap_res ''parse decrypted private key'' (newPrivateKey privKeyBytes))))))"

fun epochs_decreasing :: "EncryptedEpochKey list \<Rightarrow> bool" where
  "epochs_decreasing (a # b # chain) = (\<not> ek_Epoch b \<ge> ek_Epoch a \<and> epochs_decreasing (b # chain))"
| "epochs_decreasing _ = True"

fun traverse_loop ::
    "crypto_platform \<Rightarrow> bytes \<Rightarrow> EncryptedEpochKey list \<Rightarrow> bytes \<Rightarrow> (u64 \<times> bytes) list \<Rightarrow> string + (u64 \<times> bytes) list" where
  "traverse_loop P userID [] privKey keys = Inr keys"
| "traverse_loop P userID (enc # chain) privKey keys =
     (case DecryptEpochKey P enc privKey userID of
        Inl err \<Rightarrow> Inl (''decrypt epoch chain link: '' @ err)
      | Inr decrypted \<Rightarrow> traverse_loop P userID chain decrypted (AList.update (ek_Epoch enc) decrypted keys))"

definition TraverseEpochChain ::
    "crypto_platform \<Rightarrow> EncryptedEpochKey list \<Rightarrow> bytes \<Rightarrow> bytes \<Rightarrow> string + (u64 \<times> bytes) list" where
  "TraverseEpochChain P chain currentPrivKey userID =
     (if length chain > MaxEpochChainDepth then Inl ''epoch chain too deep''
      else if \<not> epochs_decreasing chain then Inl ''epoch chain not monotonically decreasing''
      else traverse_loop P userID chain currentPrivKey [])"

text \<open>Successive rotations: each previous key, newest first, is encrypted under the key after it.\<close>

fun build_chain :: "crypto_platform \<Rightarrow> bytes \<Rightarrow> bytes \<Rightarrow> (u64 \<times> bytes) list \<Rightarrow> EncryptedEpochKey list cr" where
  "build_chain P userID cur [] = retm []"
| "build_chain P userID cur ((epoch, priv) # older) =
     bindm (EncryptPreviousEpochKey P priv epoch (cp_pub P cur) userID) (\<lambda>enc.
     bindm (build_chain P userID priv older) (\<lambda>chain. retm (enc # chain)))"

subsection \<open>Lemmas\<close>

lemma epochAAD_inject:
  assumes "epochAAD e u = epochAAD e' u'" "length u < 2 ^ 32" "length u' < 2 ^ 32"
  shows "e = e' \<and> u = u'"
proof -
  have e: "e = e'" and r: "(if u \<noteq> [] then be32 (length u) @ u else []) = (if u' \<noteq> [] then be32 (length u') @ u' else [])"
    using assms(1) by (auto simp: epochAAD_def)
  then have "u = u'" by (auto split: if_splits)
  then show ?thesis using e by simp
qed

lemma epoch_key_roundtrip:
  assumes laws: "crypto_laws P" and enc: "EncryptPreviousEpochKey P prev epoch (cp_pub P cur) uid st = (Inr enc, st')"
    and prev: "length prev = 32"
  shows "DecryptEpochKey P enc cur uid = Inr prev" "ek_Epoch enc = epoch"
proof -
  have l: "aead_laws P" "dh_laws P" using laws by (auto simp: crypto_laws_def)
  obtain eph ss dk st1 st2 where e: "ek_EphemeralPubkey enc = cp_pub P eph" "ecdh_res P eph (cp_pub P cur) = Inr ss"
    "deriveKey P ss (cp_pub P eph) ''epoch-key-wrap'' = Inr dk"
    "sealXChaCha20 P dk prev (epochAAD epoch uid) st1 = (Inr (ek_EncryptedPrivKey enc), st2)" and ep: "ek_Epoch enc = epoch"
    using enc by (auto simp: EncryptPreviousEpochKey_def Let_def elim!: bindm_InrE)
  show "ek_Epoch enc = epoch" by (rule ep)
  have "open_epoch_key P dk enc uid = Inr prev"
    using seal_open(1) [OF l(1) e(4)] ep by (cases "uid = []") (simp_all add: open_epoch_key_def epochAAD_def wrap_res_def)
  moreover have "length (cp_pub P eph) = 32" using l(2) by (simp add: dh_laws_def)
  ultimately show "DecryptEpochKey P enc cur uid = Inr prev"
    using ecdh_agree [OF l(2) e(2)] e(1,3) prev
    by (simp add: DecryptEpochKey_def newPublicKey_def newPrivateKey_def)
qed

lemma build_chain_traverse:
  assumes laws: "crypto_laws P"
  shows "build_chain P uid cur links st = (Inr chain, st') \<Longrightarrow> list_all (\<lambda>(e, k). length k = 32) links \<Longrightarrow>
    traverse_loop P uid chain cur keys = Inr (fold (\<lambda>(e, k). AList.update e k) links keys) \<and> map ek_Epoch chain = map fst links"
proof (induction links arbitrary: cur st chain keys)
  case (Cons link links)
  obtain e k where link: "link = (e, k)" by fastforce
  obtain enc rest st1 where b: "EncryptPreviousEpochKey P k e (cp_pub P cur) uid st = (Inr enc, st1)"
    "build_chain P uid k links st1 = (Inr rest, st')" "chain = enc # rest"
    using Cons.prems(1) link by (auto elim!: bindm_InrE)
  have k: "length k = 32" using Cons.prems(2) link by simp
  then show ?case
    using epoch_key_roundtrip [OF laws b(1) k] Cons.IH [OF b(2), of "AList.update e k keys"] Cons.prems(2) link b(3) by simp
qed (simp add: retm_def)

lemma epochs_decreasing_iff: "epochs_decreasing chain \<longleftrightarrow> sorted_wrt (>) (map ek_Epoch chain)"
proof (induction chain rule: epochs_decreasing.induct)
  case (1 a b chain)
  then show ?case by (fastforce simp: not_le)
qed auto

lemma strict_decreasing_distinct: "sorted_wrt (>) xs \<Longrightarrow> distinct (xs :: u64 list)"
  by (induction xs) auto

lemma map_of_fold_update:
  "distinct (map fst links) \<Longrightarrow> map_of (fold (\<lambda>(e, k). AList.update e k) links keys) = map_of keys ++ map_of links"
proof (induction links arbitrary: keys)
  case (Cons link links)
  obtain e k where link: "link = (e, k)" by fastforce
  have "map_of links e = None" using Cons.prems link by (simp add: map_of_eq_None_iff)
  then show ?case using Cons link by (auto simp: map_add_def split: option.splits)
qed simp

subsection \<open>Properties\<close>

text \<open>
  C10: The epoch chain: whatever keys a user rotated through, encrypting each under the next one
  and walking the chain from the current key recovers exactly these keys, each under its epoch,
  for any chain of at most 100 links with falling epoch numbers; a longer chain, or one whose
  epochs do not fall strictly, is refused before any key is touched.
\<close>

theorem epoch_chain_recovers:
  assumes laws: "crypto_laws P" and chain: "build_chain P uid cur links st = (Inr chain, st')"
    and keys: "list_all (\<lambda>(e, k). length k = 32) links" "sorted_wrt (>) (map fst links)" "length links \<le> 100"
  shows "\<exists>m. TraverseEpochChain P chain cur uid = Inr m \<and> map_of m = map_of links
    \<and> (\<forall>bad. length bad > 100 \<or> \<not> sorted_wrt (>) (map ek_Epoch bad) \<longrightarrow> isl (TraverseEpochChain P bad cur uid))"
proof -
  note t = build_chain_traverse [OF laws chain keys(1), of "[]"]
  have len: "length chain \<le> 100" using t keys(3) by (metis length_map)
  have "epochs_decreasing chain" using t keys(2) by (simp add: epochs_decreasing_iff)
  then have "TraverseEpochChain P chain cur uid = Inr (fold (\<lambda>(e, k). AList.update e k) links [])"
    using t len by (simp add: TraverseEpochChain_def MaxEpochChainDepth_def)
  moreover have "distinct (map fst links)" using keys(2) by (rule strict_decreasing_distinct)
  ultimately show ?thesis
    by (auto simp: map_of_fold_update TraverseEpochChain_def MaxEpochChainDepth_def epochs_decreasing_iff)
qed

end
