(* ===== verification/Crypto_Witness.thy ===== *)
theory Crypto_Witness
  imports Epoch Receipt
begin

text \<open>
  Concrete runs of the message, epoch and receipt functions: an instance of the primitives for
  which the laws hold, and the properties applied to it.
\<close>

definition toy_P :: crypto_platform where
  "toy_P = \<lparr>cp_seal = (\<lambda>k n p a. p @ take 16 k),
            cp_open = (\<lambda>k n c a. if drop (length c - 16) c = take 16 k then Some (take (length c - 16) c) else None),
            cp_hkdf = (\<lambda>s salt info n. Some (replicate n 3)),
            cp_pub = (\<lambda>k. take 32 (k @ replicate 32 0)),
            cp_ecdh = (\<lambda>k p. Some (replicate 32 5)),
            cp_ek = (\<lambda>k. k), cp_ek_ok = (\<lambda>k. True), cp_dk_ok = (\<lambda>k. True),
            cp_encaps = (\<lambda>k r. (replicate 32 6, replicate 1088 7)),
            cp_decaps = (\<lambda>k c. Some (replicate 32 6))\<rparr>"

lemma toy_laws: "crypto_laws toy_P"
  by (auto simp: crypto_laws_def aead_laws_def dh_laws_def kem_laws_def hkdf_laws_def toy_P_def)

definition toy_rnd :: rnd where
  "toy_rnd = \<lparr>rn_draws = replicate 9 (Some [1, 2, 3]), rn_ctr = 0\<rparr>"

lemma run_ok: "\<not> isl (fst (m st)) \<Longrightarrow> m st = (Inr (projr (fst (m st))), snd (m st))"
  by (metis prod.collapse sum.collapse(2))

definition run_value :: "'a cr \<Rightarrow> 'a" where
  "run_value m = projr (fst (m toy_rnd))"

lemma run_value: "\<not> isl (fst (m toy_rnd)) \<Longrightarrow> m toy_rnd = (Inr (run_value m), snd (m toy_rnd))" for m :: "'a cr"
  unfolding run_value_def by (rule run_ok)

subsection \<open>Messages\<close>

definition toy_priv :: bytes where "toy_priv = [1]"
definition toy_pub :: bytes where "toy_pub = cp_pub toy_P toy_priv"

lemma toy_keys: "keys_match toy_P toy_priv None toy_pub None"
  by (simp add: keys_match_def toy_pub_def)

definition toy_msg :: EncryptedMessage where
  "toy_msg = run_value (EncryptMessageWithHeadersHybrid toy_P toy_pub None [10] [20, 21] (Some [30]))"

definition toy_rewrap :: "(bytes \<times> bytes) cr" where
  "toy_rewrap = RewrapMessageKeyHybrid toy_P (em_EphemeralPubkey toy_msg) (em_EncryptedMessageKey toy_msg) toy_priv None toy_pub None"

lemma toy_msg_runs: "\<not> isl (fst (EncryptMessageWithHeadersHybrid toy_P toy_pub None [10] [20, 21] (Some [30]) toy_rnd))"
  by code_simp

lemma toy_rewrap_runs: "\<not> isl (fst (toy_rewrap toy_rnd))"
  by code_simp


theorem classical_agrees_with_hybrid_witness:
  "DecryptHeaders toy_P [1] (replicate 32 0) [2] [3] = DecryptHeadersAuto toy_P [1] None (replicate 32 0) [2] [3]"
  using classical_agrees_with_hybrid [where e = "replicate 32 0"]
  by simp

definition toy_raw :: EncryptedRawMessage where
  "toy_raw = run_value (EncryptRawMessageWithMetaHybrid toy_P toy_pub None [10, 20, 30, 40, 50] [60] 2)"

lemma toy_raw_runs: "\<not> isl (fst (EncryptRawMessageWithMetaHybrid toy_P toy_pub None [10, 20, 30, 40, 50] [60] 2 toy_rnd))"
  by code_simp

theorem raw_message_roundtrip_witness:
  "DecryptRawMessageAuto toy_P toy_priv None (er_Message toy_raw) (RawBlobFormatChunked 2) (er_EncryptedMeta toy_raw)
     = Inr ([10, 20, 30, 40, 50], [60])"
  using raw_message_roundtrip [OF toy_laws toy_keys run_value [where m = "EncryptRawMessageWithMetaHybrid toy_P toy_pub None [10, 20, 30, 40, 50] [60] 2", folded toy_raw_def, OF toy_raw_runs]]
  by (simp add: chunk_count_def ChunkTagSize_def)

definition toy_key :: bytes where "toy_key = replicate 32 9"
definition toy_blob :: bytes where "toy_blob = projr (EncryptChunked toy_P toy_key [10, 20, 30, 40, 50] 2)"

lemma toy_blob_runs: "EncryptChunked toy_P toy_key [10, 20, 30, 40, 50] 2 = Inr toy_blob"
proof -
  have "\<not> isl (EncryptChunked toy_P toy_key [10, 20, 30, 40, 50] 2)" by code_simp
  then show ?thesis unfolding toy_blob_def by simp
qed

theorem chunk_random_access_witness:
  "DecryptChunk toy_P toy_key 1 (take 18 (drop 18 toy_blob)) = Inr [30, 40]
   \<and> DecryptChunked toy_P toy_key (take 18 toy_blob) 2 = Inr [10, 20]"
  using chunk_random_access [OF toy_laws toy_blob_runs refl, of 1]
  by (simp add: effective_chunk_def chunk_count_def)

theorem stuck_source_distinct_nonces_witness:
  "\<exists>ns st. draw_nonces 5 24 \<lparr>rn_draws = replicate 5 (Some (replicate 24 1)), rn_ctr = - 2\<rparr> = (Inr ns, st)
     \<and> length ns = 5 \<and> distinct ns"
  using stuck_source_distinct_nonces [of "replicate 24 1" 24 5 "- 2"] by (simp add: all_zero_def list_all_iff)

subsection \<open>Epochs and receipts\<close>

definition toy_links :: "(u64 \<times> bytes) list" where
  "toy_links = [(2, replicate 32 22), (1, replicate 32 11)]"

lemma toy_chain_runs: "\<not> isl (fst (build_chain toy_P [7] toy_priv toy_links toy_rnd))"
  by code_simp

theorem epoch_chain_recovers_witness:
  "\<exists>m. TraverseEpochChain toy_P (run_value (build_chain toy_P [7] toy_priv toy_links)) toy_priv [7] = Inr m
     \<and> map_of m 1 = Some (replicate 32 11) \<and> map_of m 2 = Some (replicate 32 22)"
  using epoch_chain_recovers [OF toy_laws run_value [where m = "build_chain toy_P [7] toy_priv toy_links", OF toy_chain_runs]] by (force simp: toy_links_def)

definition toy_ed :: ed25519 where
  "toy_ed = \<lparr>ed_public = (\<lambda>k. replicate 32 1), ed_sign = (\<lambda>k m. replicate 64 2), ed_verify = (\<lambda>k m s. s = replicate 64 2)\<rparr>"

definition toy_receipt :: EnclaveReceipt where
  "toy_receipt = \<lparr>rc_MessageHash = replicate 32 1, rc_CiphertextHash = replicate 32 2, rc_SenderHash = replicate 32 3,
     rc_SigningPublicKey = replicate 32 4, rc_Timestamp = 1700000000, rc_EnclaveID = ''mre'', rc_TLSVerified = True,
     rc_SPFResult = ''pass'', rc_DKIMResult = ''pass'', rc_DMARCResult = ''none'', rc_SpamScore = 0,
     rc_FolderAssignment = ''Inbox'', rc_Signature = []\<rparr>"


theorem sender_hash_daily_witness:
  "hash_senders (\<lambda>b. b) True [((2025, 60), ''a''), ((2025, 60), ''b''), ((2025, 61), ''a'')] (InitSenderSecret [9] sender_state0)
   = map (\<lambda>(now, addr). Inr (digest32 (\<lambda>b. b) (sender_salt (\<lambda>b. b) (Some [9]) now @ str_bytes addr)))
       [((2025, 60), ''a''), ((2025, 60), ''b''), ((2025, 61), ''a'')]"
  using sender_hash_daily [of "(2025, 60)" "[((2025, 60), ''b''), ((2025, 61), ''a'')]" "\<lambda>b. b" True "''a''" "[9]" sender_state0]
  by simp

end
