(* ===== verification/Mail_Props.thy ===== *)
theory Mail_Props
  imports Mailparse
begin

text \<open>
  The MIME parser: the offsets it records are well-formed, its fuel decides whether it returns, and
  it does not return on a multipart message without a closing boundary.
\<close>

subsection \<open>Reading on\<close>

text \<open>Reader states reached by reading whole lines, and the lines still to be read.\<close>

inductive later :: "lineReader \<Rightarrow> lineReader \<Rightarrow> bool" where
  later_here: "later lr lr"
| later_line: "readLine lr = (line, eof, lr1) \<Longrightarrow> later lr1 lr2 \<Longrightarrow> later lr lr2"

function all_lines :: "lineReader \<Rightarrow> string list" where
  "all_lines lr = (case readLine lr of (line, eof, lr') \<Rightarrow> if line = [] then [] else line # all_lines lr')"
  by pat_completeness auto
termination
  by (relation "measure (\<lambda>lr. length (lr_rest lr))") (auto dest!: sym [of "(_, _, _)"] readLine_shorter)

declare all_lines.simps [simp del]

lemma later_trans: "later a b \<Longrightarrow> later b c \<Longrightarrow> later a c"
  by (induction rule: later.induct) (auto intro: later.intros)

lemma later_one: "readLine lr = (line, eof, lr') \<Longrightarrow> later lr lr'"
  by (blast intro: later.intros)

lemma readLine_split:
  "readLine lr = (line, eof, lr') \<Longrightarrow> lr_rest lr = line @ lr_rest lr' \<and> lr_pos lr' = lr_pos lr + int (length line)"
proof -
  assume r: "readLine lr = (line, eof, lr')"
  let ?b = "takeWhile (\<lambda>c. c \<noteq> lf_char) (lr_rest lr)" and ?d = "dropWhile (\<lambda>c. c \<noteq> lf_char) (lr_rest lr)"
  show ?thesis
  proof (cases "lf_char \<in> set (lr_rest lr)")
    case True
    then have "?d \<noteq> []" by (simp add: dropWhile_eq_Nil_conv)
    then have "hd ?d = lf_char" using hd_dropWhile by blast
    then have "?d = lf_char # tl ?d" using \<open>?d \<noteq> []\<close> by (metis list.collapse)
    moreover have "lr_rest lr = ?b @ ?d" by simp
    ultimately have "lr_rest lr = ?b @ [lf_char] @ tl ?d" by simp
    then have "drop (length ?b + 1) (lr_rest lr) = tl ?d" by (metis append_assoc append_eq_conv_conj length_append_singleton Suc_eq_plus1)
    then show ?thesis using r True \<open>lr_rest lr = ?b @ [lf_char] @ tl ?d\<close> by (auto simp: readLine_def Let_def)
  next
    case False
    then show ?thesis using r by (auto simp: readLine_def Let_def)
  qed
qed

lemma readLine_empty: "readLine lr = ([], eof, lr') \<Longrightarrow> eof \<and> lr' = lr \<and> lr_rest lr = []"
  by (cases lr) (auto simp: readLine_def Let_def split: if_splits)

lemma readLine_at_end: "lr_rest lr = [] \<Longrightarrow> readLine lr = ([], True, lr)"
  by (cases lr) (simp add: readLine_def)

lemma readLine_nonempty: "lr_rest lr \<noteq> [] \<Longrightarrow> readLine lr = (line, eof, lr') \<Longrightarrow> line \<noteq> []"
  by (auto simp: readLine_def Let_def split: if_splits)

lemma later_pos:
  "later lr lr' \<Longrightarrow> lr_pos lr \<le> lr_pos lr' \<and> length (lr_rest lr') \<le> length (lr_rest lr)
     \<and> lr_pos lr' + int (length (lr_rest lr')) = lr_pos lr + int (length (lr_rest lr))"
  by (induction rule: later.induct) (auto dest!: readLine_split)

lemma later_lines: "later lr lr' \<Longrightarrow> set (all_lines lr') \<subseteq> set (all_lines lr)"
proof (induction rule: later.induct)
  case (later_line lr line eof lr1 lr2)
  show ?case
  proof (cases "line = []")
    case True
    then show ?thesis using later_line readLine_empty by fastforce
  next
    case False
    then have "all_lines lr = line # all_lines lr1" using later_line by (subst all_lines.simps) simp
    then show ?thesis using later_line by auto
  qed
qed simp

lemma later_end: "later lr \<lparr>lr_rest = [], lr_pos = lr_pos lr + int (length (lr_rest lr))\<rparr>"
proof (induction "length (lr_rest lr)" arbitrary: lr rule: less_induct)
  case less
  show ?case
  proof (cases "lr_rest lr = []")
    case True
    then show ?thesis by (cases lr) (simp add: later_here)
  next
    case False
    obtain line eof lr' where r: "readLine lr = (line, eof, lr')" by (cases "readLine lr")
    note s = readLine_split [OF r] and sh = readLine_shorter [OF r readLine_nonempty [OF False r]]
    have "lr_pos lr' + int (length (lr_rest lr')) = lr_pos lr + int (length (lr_rest lr))" using s by simp
    then show ?thesis using later_line [OF r less.hyps [OF sh]] by simp
  qed
qed

subsection \<open>Headers and bodies\<close>

lemma parseHeaders_step:
  assumes "parseHeaders L lr key val h = (h', eof, lr')" "readLine lr = (line, e, lr1)"
  shows "lr' = lr1 \<or> (line \<noteq> [] \<and> (\<exists>k v hh. parseHeaders L lr1 k v hh = (h', eof, lr')))"
  using assms by (subst (asm) parseHeaders.simps) (auto simp: Let_def split: if_splits prod.splits)

lemma parseHeaders_later: "parseHeaders L lr key val h = (h', eof, lr') \<Longrightarrow> later lr lr'"
proof (induction "length (lr_rest lr)" arbitrary: lr key val h rule: less_induct)
  case less
  obtain line e lr1 where r: "readLine lr = (line, e, lr1)" by (cases "readLine lr")
  have "later lr1 lr'"
    using parseHeaders_step [OF less.prems r] less.hyps [OF readLine_shorter [OF r]] by (auto intro: later_here)
  then show ?case by (rule later_line [OF r])
qed

lemma parseHeaders_shorter:
  assumes "parseHeaders L lr key val h = (h', eof, lr')" "lr_rest lr \<noteq> []"
  shows "length (lr_rest lr') < length (lr_rest lr)"
proof -
  obtain line e lr1 where r: "readLine lr = (line, e, lr1)" by (cases "readLine lr")
  have "later lr1 lr'"
    using parseHeaders_step [OF assms(1) r] parseHeaders_later by (blast intro: later_here)
  then show ?thesis using later_pos readLine_shorter [OF r readLine_nonempty [OF assms(2) r]] by fastforce
qed

lemma parseHeaders_end: "lr_rest lr = [] \<Longrightarrow> parseHeaders L lr [] [] [] = ([], True, lr)"
  by (subst parseHeaders.simps) (simp add: readLine_at_end flush_header_def)

lemma content_info_keeps [simp]:
  "pt_StartPos (extractContentInfo L p) = pt_StartPos p" "pt_BodyPos (extractContentInfo L p) = pt_BodyPos p"
  by (auto simp: extractContentInfo_def disposition_info_def transfer_encoding_info_def content_type_info_def Let_def
      split: option.splits prod.splits)

lemma part_headers_facts:
  assumes "part_headers L lr = (info, lr1)"
  shows "later lr lr1" "pt_StartPos info = lr_pos lr" "pt_BodyPos info = lr_pos lr1"
    and "lr_rest lr \<noteq> [] \<Longrightarrow> length (lr_rest lr1) < length (lr_rest lr)"
    and "lr_rest lr = [] \<Longrightarrow> pt_Boundary info = [] \<and> lr1 = lr"
proof -
  obtain h eof where p: "parseHeaders L lr [] [] [] = (h, eof, lr1)"
    and info: "info = extractContentInfo L ((new_part (lr_pos lr))\<lparr>pt_Header := h, pt_BodyPos := lr_pos lr1\<rparr>)"
    using assms by (auto simp: part_headers_def Let_def split: prod.splits)
  show "later lr lr1" using p by (rule parseHeaders_later)
  show "pt_StartPos info = lr_pos lr" "pt_BodyPos info = lr_pos lr1" by (simp_all add: info new_part_def)
  show "lr_rest lr \<noteq> [] \<Longrightarrow> length (lr_rest lr1) < length (lr_rest lr)" using parseHeaders_shorter [OF p] by simp
  show "lr_rest lr = [] \<Longrightarrow> pt_Boundary info = [] \<and> lr1 = lr"
    using p parseHeaders_end [of lr L] info
    by (simp add: extractContentInfo_def disposition_info_def transfer_encoding_info_def content_type_info_def header_get_def new_part_def Let_def)
qed

lemma lineEndingLen_bound: "0 \<le> lineEndingLen line" "lineEndingLen line \<le> int (length line)"
  by (auto simp: lineEndingLen_def Let_def)

lemma until_boundary_facts:
  "until_boundary b prev first lr = (closing, e, lr') \<Longrightarrow> 0 \<le> prev \<Longrightarrow>
     later lr lr' \<and> (if first then lr_pos lr else lr_pos lr - prev) \<le> e \<and> e \<le> lr_pos lr'
     \<and> (closing \<longrightarrow> (\<exists>line \<in> set (all_lines lr). snd (checkBoundary line b)))"
proof (induction b prev first lr rule: until_boundary.induct)
  case (1 b prev first lr)
  obtain line eof lr1 where r: "readLine lr = (line, eof, lr1)" by (cases "readLine lr")
  note s = readLine_split [OF r]
  show ?case
  proof (cases "line = []")
    case True
    then show ?thesis using 1(2,3) r s by (subst (asm) until_boundary.simps) (auto simp: Let_def intro: later_one split: if_splits)
  next
    case False
    have lines: "all_lines lr = line # all_lines lr1" using False r by (subst all_lines.simps) simp
    obtain isB isC where cb: "checkBoundary line b = (isB, isC)" by fastforce
    show ?thesis
    proof (cases "isB \<or> eof")
      case True
      then show ?thesis using 1(2,3) r s False cb lines
        by (subst (asm) until_boundary.simps) (auto simp: Let_def intro: later_one split: if_splits)
    next
      case more: False
      have "until_boundary b (lineEndingLen line) False lr1 = (closing, e, lr')"
        using 1(2) r False cb more by (subst (asm) until_boundary.simps) (auto simp: Let_def)
      note IH = 1(1) [OF refl r [symmetric] refl False refl cb [symmetric] _ _ this lineEndingLen_bound(1)]
      have "later lr1 lr' \<and> lr_pos lr1 - lineEndingLen line \<le> e \<and> e \<le> lr_pos lr' \<and>
          (closing \<longrightarrow> (\<exists>line \<in> set (all_lines lr1). snd (checkBoundary line b)))"
        using IH more by simp
      then show ?thesis using r s lines lineEndingLen_bound(2) [of line] 1(3)
        by (auto intro: later_line)
    qed
  qed
qed

lemma readUntilBoundary_facts:
  assumes "readUntilBoundary b lr = (closing, e, lr')"
  shows "later lr lr'" "lr_pos lr \<le> e" "e \<le> lr_pos lr'"
    and "closing \<Longrightarrow> \<exists>line \<in> set (all_lines lr). snd (checkBoundary line b)"
  using assms until_boundary_facts [of b 0 True lr closing e lr'] later_end [of lr]
  by (auto simp: readUntilBoundary_def Let_def split: if_splits)

lemma skip_preamble_facts:
  "skip_preamble b lr = (r, lr') \<Longrightarrow>
     later lr lr' \<and> (r \<noteq> PreEOF \<longrightarrow> length (lr_rest lr') < length (lr_rest lr))
     \<and> (r = PreClose \<longrightarrow> (\<exists>line \<in> set (all_lines lr). snd (checkBoundary line b)))
     \<and> (r = PreEOF \<longrightarrow> (\<forall>line \<in> set (all_lines lr). \<not> fst (checkBoundary line b)))"
proof (induction b lr rule: skip_preamble.induct)
  case (1 b lr)
  obtain line eof lr1 where rl: "readLine lr = (line, eof, lr1)" by (cases "readLine lr")
  obtain isB isC where cb: "(if line \<noteq> [] then checkBoundary line b else (False, False)) = (isB, isC)" by fastforce
  have lines: "all_lines lr = (if line = [] then [] else line # all_lines lr1)" using rl by (subst all_lines.simps) simp
  show ?case
  proof (cases "isB")
    case True
    then have "line \<noteq> []" using cb by (auto split: if_splits)
    then show ?thesis using 1(2) rl cb True lines readLine_shorter [OF rl]
      by (subst (asm) skip_preamble.simps) (auto intro: later_one split: if_splits)
  next
    case nb: False
    show ?thesis
    proof (cases eof)
      case True
      have "lr_rest lr1 = []" using rl True by (auto simp: readLine_def Let_def split: if_splits)
      then have "all_lines lr1 = []" by (subst all_lines.simps) (simp add: readLine_at_end)
      then show ?thesis using 1(2) rl cb nb True lines
        by (subst (asm) skip_preamble.simps) (auto intro: later_one split: if_splits)
    next
      case False
      have "skip_preamble b lr1 = (r, lr')" using 1(2) rl cb nb False by (subst (asm) skip_preamble.simps) simp
      note IH = 1(1) [OF rl [symmetric] refl cb [symmetric] refl nb False this]
      moreover have "length (lr_rest lr1) < length (lr_rest lr)" using readLine_progress [of lr line lr1] rl False by simp
      moreover have "line \<noteq> []" using readLine_empty [of lr eof lr1] rl False by auto
      ultimately show ?thesis using lines rl cb nb by (auto intro: later_line split: if_splits)
    qed
  qed
qed

declare parsePart.simps(2) [simp del] parseMultipartBody.simps(2) [simp del] parse_children.simps(2) [simp del]

lemmas parse_steps = parsePart.simps(2) parseMultipartBody.simps(2) parse_children.simps(2)

subsection \<open>Offsets\<close>

text \<open>
  A part's headers come before its body, the body lies in the range, and its children lie inside
  the body, one after the other.
\<close>

fun part_wf :: "Part \<Rightarrow> bool"
  and children_in :: "int \<Rightarrow> int \<Rightarrow> Part list \<Rightarrow> bool" where
  "part_wf (Part i cs) =
     (pt_StartPos i \<le> pt_BodyPos i \<and> pt_BodyPos i \<le> pt_EndPos i \<and> children_in (pt_BodyPos i) (pt_EndPos i) cs)"
| "children_in lo hi [] = (lo \<le> hi)"
| "children_in lo hi (c # cs) =
     (lo \<le> pt_StartPos (pt_info c) \<and> part_wf c \<and> children_in (pt_EndPos (pt_info c)) hi cs)"

lemma children_in_widen: "children_in lo hi cs \<Longrightarrow> lo' \<le> lo \<Longrightarrow> hi \<le> hi' \<Longrightarrow> children_in lo' hi' cs"
proof (induction cs arbitrary: lo lo')
  case (Cons c cs)
  then show ?case using Cons.IH [of "pt_EndPos (pt_info c)" "pt_EndPos (pt_info c)"] by auto
qed auto

definition part_ok :: "lineReader \<Rightarrow> Part \<Rightarrow> bool \<Rightarrow> lineReader \<Rightarrow> string \<Rightarrow> bool" where
  "part_ok lr p closing lr' b =
     (later lr lr' \<and> pt_StartPos (pt_info p) = lr_pos lr \<and> part_wf p \<and> pt_EndPos (pt_info p) \<le> lr_pos lr'
      \<and> (closing \<longrightarrow> (\<exists>line \<in> set (all_lines lr). snd (checkBoundary line b)))
      \<and> (lr_rest lr \<noteq> [] \<longrightarrow> length (lr_rest lr') < length (lr_rest lr)))"

definition children_ok :: "lineReader \<Rightarrow> Part list \<Rightarrow> lineReader \<Rightarrow> bool" where
  "children_ok lr cs lr' = (later lr lr' \<and> children_in (lr_pos lr) (lr_pos lr') cs)"

lemma parsePart_cases:
  assumes "parsePart L (Suc n) lr b = Some (p, closing, lr')"
  obtains info lr1 children lr2 e where "part_headers L lr = (info, lr1)"
    "(if pt_Boundary info \<noteq> [] then parseMultipartBody L n lr1 (pt_Boundary info) else Some ([], lr1)) = Some (children, lr2)"
    "readUntilBoundary b lr2 = (closing, e, lr')" "p = Part (info\<lparr>pt_EndPos := e\<rparr>) children"
  using assms by (auto simp: parse_steps Let_def split: prod.splits option.splits)

lemma part_ok_step:
  assumes h: "part_headers L lr = (info, lr1)" and c: "children_ok lr1 children lr2"
    and u: "readUntilBoundary b lr2 = (closing, e, lr')"
  shows "part_ok lr (Part (info\<lparr>pt_EndPos := e\<rparr>) children) closing lr' b"
proof -
  note hf = part_headers_facts [OF h] and uf = readUntilBoundary_facts [OF u]
  have l2: "later lr lr2" using c hf(1) by (auto simp: children_ok_def intro: later_trans)
  have "children_in (lr_pos lr1) e children" using c uf(2) by (auto simp: children_ok_def intro: children_in_widen)
  moreover have "lr_pos lr1 \<le> e" using c uf(2) later_pos [of lr1 lr2] by (auto simp: children_ok_def)
  moreover have "later lr lr'" using l2 uf(1) by (rule later_trans)
  moreover have "closing \<Longrightarrow> \<exists>line \<in> set (all_lines lr). snd (checkBoundary line b)"
    using uf(4) later_lines [OF l2] by blast
  moreover have "length (lr_rest lr') \<le> length (lr_rest lr1)"
    using c uf(1) later_pos [of lr1 lr2] later_pos [of lr2 lr'] by (auto simp: children_ok_def)
  ultimately show ?thesis using hf uf(3) later_pos [OF hf(1)] by (auto simp: part_ok_def)
qed

lemma parse_ok:
  "parsePart L n lr b = Some (p, closing, lr') \<Longrightarrow> part_ok lr p closing lr' b"
  "parseMultipartBody L n lr b = Some (cs, lr') \<Longrightarrow> children_ok lr cs lr'"
  "parse_children L n lr b = Some (cs, lr') \<Longrightarrow>
     children_ok lr cs lr' \<and> (\<exists>line \<in> set (all_lines lr). snd (checkBoundary line b))"
proof (induction n arbitrary: lr b p closing cs lr')
  case (Suc n)
  { case 1
    then obtain info lr1 children lr2 e where h: "part_headers L lr = (info, lr1)"
      and c: "(if pt_Boundary info \<noteq> [] then parseMultipartBody L n lr1 (pt_Boundary info) else Some ([], lr1)) = Some (children, lr2)"
      and u: "readUntilBoundary b lr2 = (closing, e, lr')" and p: "p = Part (info\<lparr>pt_EndPos := e\<rparr>) children"
      by (rule parsePart_cases)
    have "children_ok lr1 children lr2"
      using c Suc(2) [of lr1 "pt_Boundary info"] by (auto simp: children_ok_def later_here split: if_splits)
    then show ?case using part_ok_step [OF h _ u] p by simp
  next
    case 2
    obtain r lr1 where sp: "skip_preamble b lr = (r, lr1)" by fastforce
    then have l: "later lr lr1" using skip_preamble_facts by blast
    show ?case
    proof (cases "r = PreOpen")
      case True
      then have "children_ok lr1 cs lr'" using 2 sp Suc(3) [of lr1 b] by (simp add: parse_steps)
      then show ?thesis using l later_pos [OF l] by (auto simp: children_ok_def intro: later_trans children_in_widen)
    next
      case False
      then have "cs = [] \<and> lr' = lr1" using 2 sp by (cases r) (auto simp: parse_steps)
      then show ?thesis using l later_pos [OF l] by (simp add: children_ok_def)
    qed
  next
    case 3
    obtain child cl lr1 where c: "parsePart L n lr b = Some (child, cl, lr1)"
      using 3 by (auto simp: parse_steps split: option.splits)
    note ok = Suc(1) [OF c]
    show ?case
    proof (cases cl)
      case True
      then show ?thesis using 3 c ok by (auto simp: parse_steps part_ok_def children_ok_def)
    next
      case False
      then obtain cs' where cs': "parse_children L n lr1 b = Some (cs', lr')" "cs = child # cs'"
        using 3 c by (auto simp: parse_steps)
      note IH = Suc(3) [OF cs'(1)]
      have "children_in (pt_EndPos (pt_info child)) (lr_pos lr') cs'"
        using IH ok by (auto simp: part_ok_def children_ok_def intro: children_in_widen)
      then show ?thesis using IH ok cs'(2) later_lines [of lr lr1]
        by (auto simp: part_ok_def children_ok_def intro: later_trans)
    qed
  }
qed auto

subsection \<open>Fuel\<close>

lemma fuel_more:
  "parsePart L n lr b = Some x \<Longrightarrow> parsePart L (Suc n) lr b = Some x"
  "parseMultipartBody L n lr b = Some y \<Longrightarrow> parseMultipartBody L (Suc n) lr b = Some y"
  "parse_children L n lr b = Some y \<Longrightarrow> parse_children L (Suc n) lr b = Some y"
proof (induction n arbitrary: lr b x y)
  case (Suc n)
  { case 1
    obtain p closing lr' where x: "x = (p, closing, lr')" by (cases x)
    from 1 [unfolded x] obtain info lr1 children lr2 e where h: "part_headers L lr = (info, lr1)"
      and c: "(if pt_Boundary info \<noteq> [] then parseMultipartBody L n lr1 (pt_Boundary info) else Some ([], lr1)) = Some (children, lr2)"
      and u: "readUntilBoundary b lr2 = (closing, e, lr')" and p: "p = Part (info\<lparr>pt_EndPos := e\<rparr>) children"
      by (rule parsePart_cases)
    have "(if pt_Boundary info \<noteq> [] then parseMultipartBody L (Suc n) lr1 (pt_Boundary info) else Some ([], lr1)) = Some (children, lr2)"
      using c Suc(2) [of lr1 "pt_Boundary info"] by (simp split: if_splits)
    then show ?case using h u p x by (simp add: parse_steps)
  next
    case 2
    then show ?case using Suc(3) by (auto simp: parse_steps(2) split: prod.splits preamble.splits)
  next
    case 3
    obtain child cl lr1 where c: "parsePart L n lr b = Some (child, cl, lr1)"
      using 3 by (auto simp: parse_steps split: option.splits)
    show ?case
    proof (cases cl)
      case True
      then show ?thesis using 3 c Suc(1) [OF c] by (simp add: parse_steps(3))
    next
      case False
      then obtain cs lr2 where "parse_children L n lr1 b = Some (cs, lr2)" "y = (child # cs, lr2)"
        using 3 c by (auto simp: parse_steps(3))
      then show ?thesis using False Suc(1) [OF c] Suc(3) by (simp add: parse_steps(3))
    qed
  }
qed auto

lemma fuel_mono:
  assumes "n \<le> m"
  shows "parsePart L n lr b = Some x \<Longrightarrow> parsePart L m lr b = Some x"
  using assms by (induction rule: dec_induct) (auto intro: fuel_more)

lemma fuel_agree:
  assumes "parsePart L n lr b = Some x" "parsePart L m lr b = Some y"
  shows "y = x"
proof (cases "n \<le> m")
  case True
  then show ?thesis using fuel_mono [OF True assms(1)] assms(2) by simp
next
  case False
  then show ?thesis using fuel_mono [OF _ assms(2), of n] assms(1) by simp
qed

lemma part_at_end: "lr_rest lr = [] \<Longrightarrow> b \<noteq> [] \<Longrightarrow> \<exists>p. parsePart L (Suc n) lr b = Some (p, False, lr)"
proof -
  assume e: "lr_rest lr = []" "b \<noteq> []"
  obtain info lr1 where h: "part_headers L lr = (info, lr1)" by fastforce
  then have "pt_Boundary info = []" "lr1 = lr" using part_headers_facts(5) [OF h e(1)] by auto
  moreover have "readUntilBoundary b lr = (False, lr_pos lr, lr)"
    using e by (simp add: readUntilBoundary_def) (subst until_boundary.simps, simp add: readLine_at_end)
  ultimately show ?thesis using h by (simp add: parse_steps)
qed

text \<open>At the end of the input the loop over the children never returns.\<close>

lemma children_at_end: "lr_rest lr = [] \<Longrightarrow> b \<noteq> [] \<Longrightarrow> parse_children L n lr b = None"
proof (induction n)
  case (Suc n)
  then show ?case using part_at_end [of lr b L "n - 1"] by (cases n) (auto simp: parse_steps)
qed simp

text \<open>
  A fuel that grows with the length of the input decides: running out of it means that no fuel is
  enough.
\<close>

lemma fuel_decides:
  "(3 * length (lr_rest lr) + 1 \<le> n \<longrightarrow> parsePart L n lr b = None \<longrightarrow> (\<forall>m. parsePart L m lr b = None))
   \<and> (3 * length (lr_rest lr) + 1 \<le> n \<longrightarrow> c \<noteq> [] \<longrightarrow> parseMultipartBody L n lr c = None \<longrightarrow> (\<forall>m. parseMultipartBody L m lr c = None))
   \<and> (3 * length (lr_rest lr) + 2 \<le> n \<longrightarrow> c \<noteq> [] \<longrightarrow> parse_children L n lr c = None \<longrightarrow> (\<forall>m. parse_children L m lr c = None))"
proof (induction "length (lr_rest lr)" arbitrary: lr n b c rule: less_induct)
  case less
  have A: "parsePart L m lr d = None" if n: "3 * length (lr_rest lr) + 1 \<le> n" and none: "parsePart L n lr d = None" for n m d
  proof (cases m)
    case (Suc k)
    obtain i where i: "n = Suc i" using n by (cases n) auto
    obtain info lr1 where h: "part_headers L lr = (info, lr1)" by fastforce
    note hf = part_headers_facts [OF h]
    have mp: "pt_Boundary info \<noteq> []" and none': "parseMultipartBody L i lr1 (pt_Boundary info) = None"
      using none i h by (auto simp: parse_steps(1) Let_def split: if_splits option.splits prod.splits)
    have shorter: "length (lr_rest lr1) < length (lr_rest lr)" using hf(4,5) mp by blast
    have "parseMultipartBody L k lr1 (pt_Boundary info) = None"
      using less [OF shorter, of i b "pt_Boundary info"] none' mp n i shorter by auto
    then show ?thesis using Suc h mp by (simp add: parse_steps(1))
  qed simp
  have M: "parseMultipartBody L m lr c = None"
    if n: "3 * length (lr_rest lr) + 1 \<le> n" and c: "c \<noteq> []" and none: "parseMultipartBody L n lr c = None" for n m
  proof (cases m)
    case (Suc k)
    obtain i where i: "n = Suc i" using n by (cases n) auto
    obtain r lr1 where sp: "skip_preamble c lr = (r, lr1)" by fastforce
    have r: "r = PreOpen" and none': "parse_children L i lr1 c = None"
      using none i sp by (cases r; simp add: parse_steps(2))+
    have shorter: "length (lr_rest lr1) < length (lr_rest lr)" using skip_preamble_facts [OF sp] r by simp
    have "parse_children L k lr1 c = None" using less [OF shorter, of i b c] none' c n i shorter by auto
    then show ?thesis using Suc sp r by (simp add: parse_steps(2))
  qed simp
  have B: "parse_children L m lr c = None"
    if n: "3 * length (lr_rest lr) + 2 \<le> n" and c: "c \<noteq> []" and none: "parse_children L n lr c = None" for n m
  proof (cases "lr_rest lr = []")
    case True
    then show ?thesis using c by (rule children_at_end)
  next
    case ne: False
    show ?thesis
    proof (cases m)
      case (Suc k)
      obtain i where i: "n = Suc i" using n by (cases n) auto
      show ?thesis
      proof (cases "parsePart L i lr c")
        case None
        then have "parsePart L k lr c = None" using A [of i c k] n i by simp
        then show ?thesis using Suc by (simp add: parse_steps(3))
      next
        case (Some x)
        obtain child cl lr1 where x: "x = (child, cl, lr1)" by (cases x)
        have "\<not> cl" and none': "parse_children L i lr1 c = None" using none i Some x by (auto simp: parse_steps(3) split: if_splits)
        have "part_ok lr child cl lr1 c" using Some x parse_ok(1) by blast
        then have shorter: "length (lr_rest lr1) < length (lr_rest lr)" using ne by (simp add: part_ok_def)
        then have rest: "parse_children L k lr1 c = None" using less [OF shorter, of i b c] none' c n i by auto
        have "parsePart L k lr c = None \<or> parsePart L k lr c = Some x"
          using fuel_agree [OF Some] by (cases "parsePart L k lr c") blast+
        then show ?thesis using Suc x rest \<open>\<not> cl\<close> by (auto simp: parse_steps(3))
      qed
    qed simp
  qed
  show ?case using A [of n b] M [of n] B [of n] by simp
qed

subsection \<open>Properties\<close>

text \<open>
  C29: The offsets of every parsed message are well-formed: the root starts at 0 and ends within the
  input, in every part the headers precede the body and the body does not end before it begins,
  and the children of a part lie inside its body, in order and without overlap.
\<close>

theorem parsed_offsets_wf:
  assumes "Parse L fuel input = Some p"
  shows "part_wf p \<and> pt_StartPos (pt_info p) = 0 \<and> pt_EndPos (pt_info p) \<le> int (length input)"
proof -
  obtain closing lr' where "parsePart L fuel \<lparr>lr_rest = input, lr_pos = 0\<rparr> [] = Some (p, closing, lr')"
    using assms by (auto simp: Parse_def)
  from parse_ok(1) [OF this] show ?thesis using later_pos [of "\<lparr>lr_rest = input, lr_pos = 0\<rparr>" lr']
    by (auto simp: part_ok_def)
qed


text \<open>
  C28: A multipart message whose boundary opens but nowhere closes is never parsed: once the end of
  the input is reached, empty children are appended forever, for every fuel.
\<close>

theorem unclosed_multipart_diverges:
  assumes "part_headers L \<lparr>lr_rest = input, lr_pos = 0\<rparr> = (info, body)" "pt_Boundary info \<noteq> []"
    and "\<exists>line \<in> set (all_lines body). fst (checkBoundary line (pt_Boundary info))"
    and "\<forall>line \<in> set (all_lines body). \<not> snd (checkBoundary line (pt_Boundary info))"
  shows "Parse L fuel input = None"
proof (cases fuel)
  case (Suc n)
  let ?b = "pt_Boundary info"
  obtain r lr1 where sp: "skip_preamble ?b body = (r, lr1)" by fastforce
  note f = skip_preamble_facts [OF sp]
  have r: "r = PreOpen" using f assms(3,4) by (cases r) auto
  have "parse_children L m lr1 ?b = None" for m
  proof (rule ccontr)
    assume "parse_children L m lr1 ?b \<noteq> None"
    then obtain cs lr2 where "parse_children L m lr1 ?b = Some (cs, lr2)" by auto
    then obtain line where "line \<in> set (all_lines lr1)" "snd (checkBoundary line ?b)" using parse_ok(3) by blast
    then show False using assms(4) later_lines [of body lr1] f by blast
  qed
  then have "parseMultipartBody L n body ?b = None" using sp r by (cases n) (simp_all add: parse_steps(2))
  then show ?thesis using Suc assms(1,2) by (simp add: Parse_def parse_steps(1))
qed (simp add: Parse_def)

text \<open>
  A line that starts with a colon has the empty key, which \<open>flush\<close> takes for no header: its value
  stays in the buffer and ends up in front of the next header's value.
\<close>

lemma empty_key_leaks_value:
  "fst (parseHeaders L \<lparr>lr_rest = '':x'' @ [lf_char] @ ''A:y'' @ [lf_char], lr_pos = 0\<rparr> [] [] []) =
     [(''A'', [ml_trimSpace L ''x'' @ ml_trimSpace L ''y''])]"
proof -
  have "readLine \<lparr>lr_rest = '':x'' @ [lf_char] @ ''A:y'' @ [lf_char], lr_pos = 0\<rparr> = ('':x'' @ [lf_char], False, \<lparr>lr_rest = ''A:y'' @ [lf_char], lr_pos = 3\<rparr>)"
    "readLine \<lparr>lr_rest = ''A:y'' @ [lf_char], lr_pos = 3\<rparr> = (''A:y'' @ [lf_char], False, \<lparr>lr_rest = [], lr_pos = 7\<rparr>)"
    by (simp_all add: readLine_def lf_char_def)
  moreover have "trimRight [cr_char, lf_char] ('':x'' @ [lf_char]) = '':x''" "trimRight [cr_char, lf_char] (''A:y'' @ [lf_char]) = ''A:y''"
    by (simp_all add: trimRight_def cr_char_def lf_char_def)
  moreover have "canonicalMIMEHeaderKey [] = []" "canonicalMIMEHeaderKey ''A'' = ''A''"
    by (simp_all add: canonicalMIMEHeaderKey_def header_field_byte_def is_upper_def is_lower_def ascii_upper_def)
  moreover have "CHR 0x3A \<noteq> tab_char" "CHR 0x41 \<noteq> tab_char" by (simp_all add: tab_char_def)
  ultimately show ?thesis
    by (subst parseHeaders.simps) (simp add: flush_header_def Let_def, subst parseHeaders.simps,
        simp add: flush_header_def Let_def, subst parseHeaders.simps, simp add: readLine_at_end flush_header_def header_add_def)
qed

end
