(* ===== verification/Limiters.thy ===== *)
theory Limiters
  imports Interfaces Go_Base
begin

text \<open>
  The rate limiters of the mail path: \<open>internal/ratelimit/redis.go\<close> (Redis with an in-memory
  fallback), \<open>internal/smtp/conn_ratelimit.go\<close> (connections per address), the limiter of
  \<open>internal/smtp/bounce.go\<close> and the daily send caps of \<open>internal/smtp/ratelimit.go\<close>. Redis is a
  parameter of each call: what the script run there returned, or that it failed. Time does not run
  backwards. A method that locks its mutex is one step.
\<close>

subsection \<open>\<open>RedisRateLimiter\<close>\<close>

text \<open>Per key the count and the end of the window.\<close>

type_synonym buckets = "(string \<times> nat \<times> int) list"

type_synonym redis_script = "string \<Rightarrow> int \<Rightarrow> int option"

definition maxInMemBuckets :: nat where
  "maxInMemBuckets = 10000"

record RedisRateLimiter =
  rr_redis :: bool
  rr_prefix :: string
  rr_counters :: buckets

definition newRedisRateLimiter :: "bool \<Rightarrow> string \<Rightarrow> RedisRateLimiter" where
  "newRedisRateLimiter redis prefix = \<lparr>rr_redis = redis, rr_prefix = prefix, rr_counters = []\<rparr>"

definition cleanStale :: "int \<Rightarrow> buckets \<Rightarrow> buckets" where
  "cleanStale now counters = filter (\<lambda>(k, b). \<not> now > snd b) counters"

definition allowInMemory :: "int \<Rightarrow> int \<Rightarrow> int \<Rightarrow> string \<Rightarrow> buckets \<Rightarrow> buckets \<times> bool" where
  "allowInMemory limit window now key counters =
     (let fresh = (let c = AList.update key (1, now + window) counters in
                   (if length c > maxInMemBuckets then cleanStale now c else c, True))
      in case map_of counters key of
           None \<Rightarrow> fresh
         | Some (count, windowEnd) \<Rightarrow>
             if now > windowEnd then fresh
             else (AList.update key (count + 1, windowEnd) counters, int (count + 1) \<le> limit))"

definition allowRedis :: "redis_script \<Rightarrow> string \<Rightarrow> int \<Rightarrow> int \<Rightarrow> bool option" where
  "allowRedis script key limit window =
     (let windowSec = goDiv window second;
          windowSec = (if windowSec < 1 then 1 else windowSec)
      in map_option (\<lambda>count. count \<le> limit) (script key windowSec))"

definition redis_Allow ::
    "redis_script \<Rightarrow> int \<Rightarrow> string \<Rightarrow> int \<Rightarrow> int \<Rightarrow> RedisRateLimiter \<Rightarrow> RedisRateLimiter \<times> bool" where
  "redis_Allow script now key limit window rl =
     (let fullKey = rr_prefix rl @ key;
          fallback = (let (c, ok) = allowInMemory limit window now fullKey (rr_counters rl) in (rl\<lparr>rr_counters := c\<rparr>, ok))
      in if rr_redis rl then
           (case allowRedis script fullKey limit window of Some allowed \<Rightarrow> (rl, allowed) | None \<Rightarrow> fallback)
         else fallback)"

definition redis_Count :: "(string \<Rightarrow> int option) \<Rightarrow> string \<Rightarrow> RedisRateLimiter \<Rightarrow> int" where
  "redis_Count get key rl =
     (let fullKey = rr_prefix rl @ key;
          mem = (case map_of (rr_counters rl) fullKey of Some (count, _) \<Rightarrow> int count | None \<Rightarrow> 0)
      in if rr_redis rl then (case get fullKey of Some val \<Rightarrow> val | None \<Rightarrow> mem) else mem)"

subsection \<open>Connections\<close>

definition defaultConnRateLimit :: int where
  "defaultConnRateLimit = 30"

definition defaultConnRateWindow :: int where
  "defaultConnRateWindow = minute"

record ConnRateLimiter =
  cn_redis :: bool
  cn_limit :: int
  cn_window :: int
  cn_counters :: buckets

definition newConnRateLimiter :: "bool \<Rightarrow> int option \<Rightarrow> int option \<Rightarrow> ConnRateLimiter" where
  "newConnRateLimiter redis limit window =
     \<lparr>cn_redis = redis,
      cn_limit = (case limit of Some n \<Rightarrow> n | None \<Rightarrow> defaultConnRateLimit),
      cn_window = (case window of Some d \<Rightarrow> d | None \<Rightarrow> defaultConnRateWindow),
      cn_counters = []\<rparr>"

definition conn_cleanStale :: "int \<Rightarrow> buckets \<Rightarrow> buckets" where
  "conn_cleanStale now counters = filter (\<lambda>(k, b). \<not> now > snd b) counters"

definition conn_allowInMemory :: "int \<Rightarrow> string \<Rightarrow> ConnRateLimiter \<Rightarrow> ConnRateLimiter \<times> bool" where
  "conn_allowInMemory now ip rl =
     (let fresh = (let c = AList.update ip (1, now + cn_window rl) (cn_counters rl) in
                   (rl\<lparr>cn_counters := if length c > 10000 then conn_cleanStale now c else c\<rparr>, True))
      in case map_of (cn_counters rl) ip of
           None \<Rightarrow> fresh
         | Some (count, windowEnd) \<Rightarrow>
             if now > windowEnd then fresh
             else (rl\<lparr>cn_counters := AList.update ip (count + 1, windowEnd) (cn_counters rl)\<rparr>, int (count + 1) \<le> cn_limit rl))"

definition conn_allowRedis :: "redis_script \<Rightarrow> string \<Rightarrow> ConnRateLimiter \<Rightarrow> bool option" where
  "conn_allowRedis script ip rl =
     map_option (\<lambda>count. count \<le> cn_limit rl) (script (''smtp:rate:'' @ ip) (goDiv (cn_window rl) second))"

text \<open>The package variables of \<open>hashIP\<close>: the process's random salt and the salt of the day.\<close>

record ip_salts =
  ips_conn :: "bytes option"
  ips_salt :: "bytes option"
  ips_day :: int

text \<open>What a call reads from outside: random bytes, the day of the year, the year, the limiter's clock, Redis.\<close>

record conn_env =
  ce_rand :: "bytes option"
  ce_yearDay :: int
  ce_year :: int
  ce_now :: int
  ce_script :: redis_script

definition initConnSalt :: "conn_env \<Rightarrow> ip_salts \<Rightarrow> ip_salts option" where
  "initConnSalt env st =
     (case ips_conn st of
        Some _ \<Rightarrow> Some st
      | None \<Rightarrow> (case ce_rand env of None \<Rightarrow> None | Some bs \<Rightarrow> Some (st\<lparr>ips_conn := Some (take 32 (bs @ replicate 32 0))\<rparr>)))"

definition hashIP :: "(bytes \<Rightarrow> bytes) \<Rightarrow> conn_env \<Rightarrow> string \<Rightarrow> ip_salts \<Rightarrow> (string \<times> ip_salts) option" where
  "hashIP sha env ip st0 =
     (case initConnSalt env st0 of
        None \<Rightarrow> None
      | Some st \<Rightarrow>
          let today = ce_yearDay env;
              st1 = (if ips_salt st = None \<or> today \<noteq> ips_day st
                     then st\<lparr>ips_salt := Some (digest32 sha (the (ips_conn st) @ str_bytes
                              (''smtp-conn-salt:'' @ showInt (ce_year env) @ '':'' @ showInt today))),
                            ips_day := today\<rparr>
                     else st)
          in Some (hexEncode (take 16 (digest32 sha (the (ips_salt st1) @ str_bytes ip))), st1))"

datatype netaddr = NilAddr | TCPAddr string | OtherAddr string

definition conn_extractIP :: "(string \<Rightarrow> string option) \<Rightarrow> netaddr \<Rightarrow> string" where
  "conn_extractIP splitHost addr =
     (case addr of
        NilAddr \<Rightarrow> []
      | TCPAddr ip \<Rightarrow> ip
      | OtherAddr s \<Rightarrow> (case splitHost s of None \<Rightarrow> s | Some host \<Rightarrow> host))"

text \<open>\<open>None\<close> is the panic when no random salt can be read.\<close>

definition conn_Allow ::
    "(bytes \<Rightarrow> bytes) \<Rightarrow> (string \<Rightarrow> string option) \<Rightarrow> conn_env \<Rightarrow> netaddr \<Rightarrow> ip_salts \<times> ConnRateLimiter
      \<Rightarrow> ((ip_salts \<times> ConnRateLimiter) \<times> bool) option" where
  "conn_Allow sha splitHost env addr s =
     (let (st, rl) = s; ip = conn_extractIP splitHost addr in
      if ip = [] then Some (s, True)
      else case hashIP sha env ip st of
          None \<Rightarrow> None
        | Some (hashedIP, st1) \<Rightarrow>
            let memory = (let (rl', ok) = conn_allowInMemory (ce_now env) hashedIP rl in Some ((st1, rl'), ok)) in
            if cn_redis rl then
              (case conn_allowRedis (ce_script env) hashedIP rl of
                 Some allowed \<Rightarrow> Some ((st1, rl), allowed)
               | None \<Rightarrow> memory)
            else memory)"

subsection \<open>Bounces\<close>

text \<open>Here a bucket has the start of its window.\<close>

definition bounce_limit :: nat where
  "bounce_limit = 10"

definition bounce_window :: int where
  "bounce_window = minute"

definition bounce_evict :: "int \<Rightarrow> buckets \<Rightarrow> buckets" where
  "bounce_evict now counts = filter (\<lambda>(k, b). \<not> now - snd b > bounce_window) counts"

definition allowBounce :: "int \<Rightarrow> string \<Rightarrow> buckets \<Rightarrow> buckets \<times> bool" where
  "allowBounce now domain counts0 =
     (let counts = (if length counts0 > 10000 then bounce_evict now counts0 else counts0);
          fresh = (AList.update domain (1, now) counts, True)
      in case map_of counts domain of
           None \<Rightarrow> fresh
         | Some (count, windowStart) \<Rightarrow>
             if now - windowStart > bounce_window then fresh
             else if count \<ge> bounce_limit then (counts, False)
             else (AList.update domain (count + 1, windowStart) counts, True))"

subsection \<open>Daily send caps\<close>

definition tierLimit :: "string \<Rightarrow> int" where
  "tierLimit tier =
     (if tier = ''mail'' \<or> tier = ''unlimited'' \<or> tier = ''paid'' then 1000
      else if tier = ''business'' \<or> tier = ''enterprise'' then 5000
      else 15)"

definition MaxRecipientsPerMessage :: "string \<Rightarrow> int" where
  "MaxRecipientsPerMessage tier = (if tier = ''free'' then 5 else 0)"

definition newFreeAccountWindow :: int where
  "newFreeAccountWindow = 72 * hour"

definition newFreeAccountDailyLimit :: int where
  "newFreeAccountDailyLimit = 5"

definition day :: int where
  "day = 24 * hour"

record accountCounter =
  ac_count :: nat
  ac_windowEnd :: int
  ac_createdAt :: int

text \<open>Accounts and tenants are identified by the text of their UUID.\<close>

record RateLimiter =
  rl_counters :: "(string \<times> accountCounter) list"
  rl_tenantCounters :: "(string \<times> accountCounter) list"
  rl_tenantDailyCap :: int
  rl_redis :: "RedisRateLimiter option"

definition newRateLimiter :: "RedisRateLimiter option \<Rightarrow> int option \<Rightarrow> RateLimiter" where
  "newRateLimiter redis cap =
     \<lparr>rl_counters = [], rl_tenantCounters = [], rl_tenantDailyCap = (case cap of Some n \<Rightarrow> n | None \<Rightarrow> 10000), rl_redis = redis\<rparr>"

definition new_counter :: "int \<Rightarrow> accountCounter" where
  "new_counter now = \<lparr>ac_count = 0, ac_windowEnd = truncate_time now day + day, ac_createdAt = now\<rparr>"

definition roll_window :: "int \<Rightarrow> accountCounter \<Rightarrow> accountCounter" where
  "roll_window now ac =
     (if now > ac_windowEnd ac then ac\<lparr>ac_count := 0, ac_windowEnd := truncate_time now day + day\<rparr> else ac)"

definition take_slot :: "int \<Rightarrow> int \<Rightarrow> accountCounter \<Rightarrow> accountCounter \<times> bool" where
  "take_slot limit now ac =
     (let ac = roll_window now ac in
      if int (ac_count ac) \<ge> limit then (ac, False) else (ac\<lparr>ac_count := ac_count ac + 1\<rparr>, True))"

definition RegisterAccount :: "int \<Rightarrow> string \<Rightarrow> RateLimiter \<Rightarrow> RateLimiter" where
  "RegisterAccount now userID rl = rl\<lparr>rl_counters := AList.update userID (new_counter now) (rl_counters rl)\<rparr>"

definition via_redis ::
    "redis_script \<Rightarrow> int \<Rightarrow> string \<Rightarrow> int \<Rightarrow> RedisRateLimiter \<Rightarrow> RateLimiter \<Rightarrow> RateLimiter \<times> bool" where
  "via_redis script now key limit r rl =
     (let (r', ok) = redis_Allow script now key limit day r in (rl\<lparr>rl_redis := Some r'\<rparr>, ok))"

definition AllowTenant :: "redis_script \<Rightarrow> int \<Rightarrow> string \<Rightarrow> RateLimiter \<Rightarrow> RateLimiter \<times> bool" where
  "AllowTenant script now tenantID rl =
     (let limit = rl_tenantDailyCap rl in
      if limit \<le> 0 then (rl, True)
      else case rl_redis rl of
          Some r \<Rightarrow> via_redis script now (''smtp:send:tenant:'' @ tenantID) limit r rl
        | None \<Rightarrow>
            let ac = (case map_of (rl_tenantCounters rl) tenantID of Some ac \<Rightarrow> ac | None \<Rightarrow> new_counter now);
                (ac', ok) = take_slot limit now ac
            in (rl\<lparr>rl_tenantCounters := AList.update tenantID ac' (rl_tenantCounters rl)\<rparr>, ok))"

definition in_ramp :: "int \<Rightarrow> string \<Rightarrow> accountCounter option \<Rightarrow> bool" where
  "in_ramp now tier entry =
     (case entry of None \<Rightarrow> False | Some ac \<Rightarrow> tier = ''free'' \<and> now < ac_createdAt ac + newFreeAccountWindow)"

definition smtp_Allow :: "redis_script \<Rightarrow> int \<Rightarrow> string \<Rightarrow> string \<Rightarrow> RateLimiter \<Rightarrow> RateLimiter \<times> bool" where
  "smtp_Allow script now userID tier rl =
     (let limit = tierLimit tier; entry = map_of (rl_counters rl) userID;
          store = (\<lambda>ac. rl\<lparr>rl_counters := AList.update userID ac (rl_counters rl)\<rparr>)
      in if in_ramp now tier entry then
           (let (ac', ok) = take_slot newFreeAccountDailyLimit now (the entry); rl1 = store ac' in
            if \<not> ok then (rl1, False)
            else case rl_redis rl of
                None \<Rightarrow> (rl1, True)
              | Some r \<Rightarrow> via_redis script now (''smtp:send:'' @ userID) limit r rl1)
         else case rl_redis rl of
             Some r \<Rightarrow> via_redis script now (''smtp:send:'' @ userID) limit r rl
           | None \<Rightarrow>
               let ac = (case entry of Some ac \<Rightarrow> ac | None \<Rightarrow> new_counter now);
                   (ac', ok) = take_slot limit now ac
               in (store ac', ok))"

subsection \<open>The window limiters\<close>

text \<open>
  The in-memory limiters provide the contract of a fixed-window limiter. A window that ends with
  \<open>now.After(end)\<close> is one nanosecond longer than its duration.
\<close>

definition window_start :: "int \<Rightarrow> buckets \<Rightarrow> string \<Rightarrow> (nat \<times> int) option" where
  "window_start window s k = map_option (\<lambda>(c, e). (c, e - window)) (map_of s k)"

lemma map_of_cleanStale:
  "keys_distinct s \<Longrightarrow> map_of (cleanStale now s) k =
     (case map_of s k of None \<Rightarrow> None | Some b \<Rightarrow> if now > snd b then None else Some b)"
  unfolding cleanStale_def by (simp add: map_of_filter_distinct split: option.splits)

lemma keys_distinct_cleanStale [simp]: "keys_distinct s \<Longrightarrow> keys_distinct (cleanStale now s)"
  by (simp add: cleanStale_def)

lemmas limiter_defs = allowInMemory_def window_start_def Let_def

lemma in_memory_limiter:
  assumes "0 < window" "1 \<le> limit"
  shows "window_limiter (window + 1) (nat limit) keys_distinct (window_start window)
    (allowInMemory limit window) cleanStale"
proof
  fix t s k
  assume s: "keys_distinct (s :: buckets)"
  show "keys_distinct (fst (allowInMemory limit window t k s))"
    using s by (auto simp: limiter_defs split: option.splits)
  show "keys_distinct (cleanStale t s)" using s by simp
  show "window_start window (cleanStale t s) k = window_start window s k \<or>
      window_start window (cleanStale t s) k = None \<and> (\<exists>c w. window_start window s k = Some (c, w) \<and> window + 1 \<le> t - w)"
    using s by (auto simp: window_start_def map_of_cleanStale simp del: map_of_eq_Some_iff split: option.splits)
  show "window_start window (fst (allowInMemory limit window t k s)) k =
      (if snd (allowInMemory limit window t k s) then Some (1, t) else None)" if "window_start window s k = None"
    using s that assms by (auto simp: limiter_defs map_of_cleanStale simp del: map_of_eq_Some_iff split: option.splits)
  fix k'
  show "window_start window (fst (allowInMemory limit window t k s)) k' = window_start window s k' \<or>
      window_start window (fst (allowInMemory limit window t k s)) k' = None \<and>
      (\<exists>c w. window_start window s k' = Some (c, w) \<and> window + 1 \<le> t - w)" if "k' \<noteq> k"
    using s that by (auto simp: limiter_defs map_of_cleanStale simp del: map_of_eq_Some_iff split: option.splits)
next
  fix t s k c w
  assume s: "keys_distinct (s :: buckets)" "window_start window s k = Some (c, w)"
  then have e: "map_of s k = Some (c, w + window)" by (auto simp: window_start_def)
  show "window_start window (fst (allowInMemory limit window t k s)) k =
      (if snd (allowInMemory limit window t k s) then Some (1, t) else Some (c, w))" if "window + 1 \<le> t - w"
    using s(1) e that assms by (auto simp: limiter_defs map_of_cleanStale simp del: map_of_eq_Some_iff split: option.splits)
  show "\<exists>c'. window_start window (fst (allowInMemory limit window t k s)) k = Some (c', w) \<and> c \<le> c' \<and>
      (snd (allowInMemory limit window t k s) \<longrightarrow> c < c' \<and> c' \<le> nat limit)" if "t - w < window + 1"
    using s(1) e that assms by (auto simp: limiter_defs simp del: map_of_eq_Some_iff)
qed (use assms in auto)

lemma conn_is_in_memory:
  "conn_allowInMemory now ip rl =
     (let (c, ok) = allowInMemory (cn_limit rl) (cn_window rl) now ip (cn_counters rl) in (rl\<lparr>cn_counters := c\<rparr>, ok))"
  by (auto simp: conn_allowInMemory_def allowInMemory_def conn_cleanStale_def cleanStale_def maxInMemBuckets_def Let_def split: option.splits)

interpretation conn_rl: window_limiter "minute + 1" 30 keys_distinct "window_start minute"
    "allowInMemory 30 minute" cleanStale
  using in_memory_limiter [of minute 30] by (simp add: minute_def second_def)

lemma map_of_bounce_evict:
  "keys_distinct s \<Longrightarrow> map_of (bounce_evict now s) k =
     (case map_of s k of None \<Rightarrow> None | Some b \<Rightarrow> if now - snd b > bounce_window then None else Some b)"
  unfolding bounce_evict_def by (simp add: map_of_filter_distinct split: option.splits)

lemma keys_distinct_bounce_evict [simp]: "keys_distinct s \<Longrightarrow> keys_distinct (bounce_evict now s)"
  by (simp add: bounce_evict_def)

interpretation bounce_rl: window_limiter "minute + 1" 10 keys_distinct map_of allowBounce bounce_evict
proof
  fix t s k
  assume s: "keys_distinct (s :: buckets)"
  show "keys_distinct (fst (allowBounce t k s))"
    using s by (auto simp: allowBounce_def Let_def split: option.splits)
  show "keys_distinct (bounce_evict t s)" using s by simp
  show "map_of (bounce_evict t s) k = map_of s k \<or>
      map_of (bounce_evict t s) k = None \<and> (\<exists>c w. map_of s k = Some (c, w) \<and> minute + 1 \<le> t - w)"
    using s by (auto simp: map_of_bounce_evict bounce_window_def simp del: map_of_eq_Some_iff split: option.splits)
  show "map_of (fst (allowBounce t k s)) k = (if snd (allowBounce t k s) then Some (1, t) else None)" if "map_of s k = None"
    using s that by (auto simp: allowBounce_def map_of_bounce_evict Let_def simp del: map_of_eq_Some_iff split: option.splits)
  fix k'
  show "map_of (fst (allowBounce t k s)) k' = map_of s k' \<or>
      map_of (fst (allowBounce t k s)) k' = None \<and> (\<exists>c w. map_of s k' = Some (c, w) \<and> minute + 1 \<le> t - w)" if "k' \<noteq> k"
    using s that
    by (auto simp: allowBounce_def map_of_bounce_evict bounce_window_def Let_def simp del: map_of_eq_Some_iff split: option.splits)
next
  fix t s k c w
  assume s: "keys_distinct (s :: buckets)" "map_of s k = Some (c, w)"
  show "map_of (fst (allowBounce t k s)) k = (if snd (allowBounce t k s) then Some (1, t) else Some (c, w))" if "minute + 1 \<le> t - w"
    using s that by (auto simp: allowBounce_def map_of_bounce_evict bounce_window_def Let_def simp del: map_of_eq_Some_iff split: option.splits)
  show "\<exists>c'. map_of (fst (allowBounce t k s)) k = Some (c', w) \<and> c \<le> c' \<and> (snd (allowBounce t k s) \<longrightarrow> c < c' \<and> c' \<le> 10)"
    if "t - w < minute + 1"
    using s that
    by (auto simp: allowBounce_def map_of_bounce_evict bounce_window_def bounce_limit_def Let_def simp del: map_of_eq_Some_iff split: option.splits)
qed (auto simp: minute_def second_def)

subsection \<open>Daily caps\<close>

lemma day_pos: "0 < day"
  by (simp add: day_def hour_def minute_def second_def)

lemma next_midnight:
  assumes "d mod day = 0" "d < now"
  shows "d + day \<le> truncate_time now day + day" "(truncate_time now day + day) mod day = 0"
proof -
  have "d = day * (d div day)" using assms(1) by (metis add.right_neutral mult_div_mod_eq)
  moreover have "d div day \<le> now div day" using assms(2) day_pos by (simp add: zdiv_mono1)
  then have "day * (d div day) \<le> day * (now div day)" using day_pos by simp
  ultimately show "d + day \<le> truncate_time now day + day" by (simp add: truncate_time_def minus_mod_eq_mult_div)
  show "(truncate_time now day + day) mod day = 0" by (simp add: truncate_time_def minus_mod_eq_mult_div)
qed

text \<open>What a call does to its own account when there is no Redis.\<close>

definition slot_limit :: "int \<Rightarrow> string \<Rightarrow> accountCounter option \<Rightarrow> int" where
  "slot_limit now tier entry = (if in_ramp now tier entry then newFreeAccountDailyLimit else tierLimit tier)"

definition entry_or_new :: "int \<Rightarrow> accountCounter option \<Rightarrow> accountCounter" where
  "entry_or_new now entry = (case entry of Some ac \<Rightarrow> ac | None \<Rightarrow> new_counter now)"

lemma smtp_Allow_local:
  assumes "rl_redis rl = None"
  shows "smtp_Allow script now user tier rl =
    (let entry = map_of (rl_counters rl) user; (ac', ok) = take_slot (slot_limit now tier entry) now (entry_or_new now entry)
     in (rl\<lparr>rl_counters := AList.update user ac' (rl_counters rl)\<rparr>, ok))"
  using assms by (auto simp: smtp_Allow_def slot_limit_def entry_or_new_def in_ramp_def Let_def split: option.splits prod.splits if_splits)

type_synonym send_call = "int \<times> string \<times> string"

fun sends_allowed :: "redis_script \<Rightarrow> string \<Rightarrow> send_call list \<Rightarrow> RateLimiter \<Rightarrow> nat" where
  "sends_allowed script u [] rl = 0"
| "sends_allowed script u ((now, user, tier) # calls) rl =
     (let (rl', ok) = smtp_Allow script now user tier rl
      in (if user = u \<and> ok then 1 else 0) + sends_allowed script u calls rl')"

definition call_capped :: "int \<Rightarrow> int \<Rightarrow> string \<Rightarrow> send_call \<Rightarrow> bool" where
  "call_capped C L u call =
     (case call of (now, user, tier) \<Rightarrow>
        user = u \<longrightarrow> tierLimit tier \<le> L \<or> (tier = ''free'' \<and> now < C + newFreeAccountWindow))"

lemma slot_limit_capped:
  assumes "call_capped C L u (now, u, tier)" "5 \<le> L" "case entry of None \<Rightarrow> tierLimit tier \<le> L | Some ac \<Rightarrow> ac_createdAt ac = C"
  shows "slot_limit now tier entry \<le> L"
  using assms by (auto simp: slot_limit_def in_ramp_def call_capped_def newFreeAccountDailyLimit_def split: option.splits)

lemma slot_limit_pos: "0 < slot_limit now tier entry"
  by (simp add: slot_limit_def newFreeAccountDailyLimit_def tierLimit_def)

lemma take_slot_facts:
  assumes "take_slot limit now ac = (ac', ok)"
  shows "ac_createdAt ac' = ac_createdAt ac"
    and "now \<le> ac_windowEnd ac \<Longrightarrow> ac_windowEnd ac' = ac_windowEnd ac \<and> ac_count ac' = (if ok then ac_count ac + 1 else ac_count ac)
          \<and> (ok \<longrightarrow> int (ac_count ac') \<le> limit)"
    and "ac_windowEnd ac < now \<Longrightarrow> 0 < limit \<Longrightarrow> ac_windowEnd ac' = truncate_time now day + day \<and> ac_count ac' = 1 \<and> ok"
  using assms by (auto simp: take_slot_def roll_window_def Let_def split: if_splits)

lemma smtp_Allow_other:
  assumes "rl_redis rl = None" "smtp_Allow script now user tier rl = (rl', ok)"
  shows "rl_redis rl' = None" "u \<noteq> user \<Longrightarrow> map_of (rl_counters rl') u = map_of (rl_counters rl) u"
  using assms(2) unfolding smtp_Allow_local [OF assms(1)] by (auto simp: Let_def assms(1) split: prod.splits)

lemma sends_in_window:
  assumes "5 \<le> L"
  shows "rl_redis rl = None \<Longrightarrow> map_of (rl_counters rl) u = Some ac \<Longrightarrow> ac_createdAt ac = C \<Longrightarrow>
    list_all (call_capped C L u) calls \<Longrightarrow> list_all (\<lambda>(now, _). now \<le> ac_windowEnd ac) calls \<Longrightarrow>
    sends_allowed script u calls rl \<le> nat L - ac_count ac"
proof (induction calls arbitrary: rl ac)
  case (Cons call calls)
  obtain now user tier where call: "call = (now, user, tier)" by (cases call)
  obtain rl' ok where step: "smtp_Allow script now user tier rl = (rl', ok)" by fastforce
  note keep = smtp_Allow_other [OF Cons.prems(1) step]
  show ?case
  proof (cases "user = u")
    case False
    then show ?thesis using Cons.IH [of rl' ac] Cons.prems keep step call by simp
  next
    case True
    obtain ac' where ac': "take_slot (slot_limit now tier (Some ac)) now ac = (ac', ok)"
      "map_of (rl_counters rl') u = Some ac'"
      using step True Cons.prems(1,2) by (auto simp: smtp_Allow_local entry_or_new_def Let_def split: prod.splits)
    have "slot_limit now tier (Some ac) \<le> L"
      using slot_limit_capped [of C L u now tier "Some ac"] Cons.prems(3,4) assms call True by simp
    moreover have "now \<le> ac_windowEnd ac" using Cons.prems(5) call by simp
    ultimately have f: "ac_createdAt ac' = C" "ac_windowEnd ac' = ac_windowEnd ac"
      "ac_count ac' = (if ok then ac_count ac + 1 else ac_count ac)" "ok \<longrightarrow> int (ac_count ac') \<le> L"
      using take_slot_facts(1,2) [OF ac'(1)] Cons.prems(3) by auto
    then have "sends_allowed script u calls rl' \<le> nat L - ac_count ac'"
      using Cons.IH [OF keep(1) ac'(2)] Cons.prems(4,5) by simp
    then show ?thesis using f step call True by (auto split: if_splits)
  qed
qed simp

lemma sends_in_day:
  assumes L: "5 \<le> L" and d: "d mod day = 0"
  shows "rl_redis rl = None \<Longrightarrow>
    (case map_of (rl_counters rl) u of None \<Rightarrow> list_all (\<lambda>(now, user, tier). user = u \<longrightarrow> tierLimit tier \<le> L) calls
      | Some ac \<Rightarrow> ac_createdAt ac = C \<and> ac_windowEnd ac mod day = 0 \<and> list_all (call_capped C L u) calls) \<Longrightarrow>
    list_all (\<lambda>(now, _). d < now \<and> now \<le> d + day) calls \<Longrightarrow>
    sends_allowed script u calls rl \<le> nat L"
proof (induction calls arbitrary: rl)
  case (Cons call calls)
  obtain now user tier where call: "call = (now, user, tier)" by (cases call)
  obtain rl' ok where step: "smtp_Allow script now user tier rl = (rl', ok)" by fastforce
  note keep = smtp_Allow_other [OF Cons.prems(1) step]
  have now: "d < now" "now \<le> d + day" using Cons.prems(3) call by auto
  show ?case
  proof (cases "user = u")
    case False
    then show ?thesis using Cons.IH [of rl'] Cons.prems keep step call by (auto split: option.splits)
  next
    case True
    let ?e = "map_of (rl_counters rl) u" and ?ac = "entry_or_new now (map_of (rl_counters rl) u)"
    obtain ac' where ac': "take_slot (slot_limit now tier ?e) now ?ac = (ac', ok)" "map_of (rl_counters rl') u = Some ac'"
      using step True Cons.prems(1) by (auto simp: smtp_Allow_local Let_def split: prod.splits)
    have lim: "slot_limit now tier ?e \<le> L"
      using slot_limit_capped [of C L u now tier ?e] Cons.prems(2) L call True
      by (auto simp: call_capped_def split: option.splits)
    have capped: "list_all (call_capped (ac_createdAt ?ac) L u) calls"
      using Cons.prems(2) by (auto simp: entry_or_new_def call_capped_def list_all_iff split: option.splits)
    have live: "d + day \<le> ac_windowEnd ac'"
    proof (cases "ac_windowEnd ?ac < now")
      case True
      then show ?thesis using take_slot_facts(3) [OF ac'(1)] slot_limit_pos next_midnight(1) [OF d now(1)] by auto
    next
      case False
      have "d + day \<le> ac_windowEnd ?ac"
      proof (cases ?e)
        case None
        then show ?thesis using next_midnight(1) [OF d now(1)] by (simp add: entry_or_new_def new_counter_def)
      next
        case (Some a)
        then have e: "ac_windowEnd ?ac mod day = 0" "d < ac_windowEnd ?ac"
          using Cons.prems(2) False now by (auto simp: entry_or_new_def)
        have "d div day < ac_windowEnd ?ac div day"
        proof (rule ccontr)
          assume "\<not> d div day < ac_windowEnd ?ac div day"
          then have "day * (ac_windowEnd ?ac div day) \<le> day * (d div day)" using day_pos by simp
          then show False using e d by (simp add: minus_mod_eq_mult_div [symmetric])
        qed
        then have "day * (d div day + 1) \<le> day * (ac_windowEnd ?ac div day)" using day_pos by (intro mult_left_mono) auto
        then show ?thesis using e(1) d by (simp add: minus_mod_eq_mult_div [symmetric] distrib_left)
      qed
      then show ?thesis using take_slot_facts(2) [OF ac'(1)] False by auto
    qed
    have cnt: "ok \<longrightarrow> 1 \<le> ac_count ac' \<and> int (ac_count ac') \<le> L"
      using take_slot_facts(2,3) [OF ac'(1)] slot_limit_pos lim L by (cases "now \<le> ac_windowEnd ?ac") (auto split: if_splits)
    have "list_all (\<lambda>(now, _). now \<le> ac_windowEnd ac') calls"
      using Cons.prems(3) live by (auto simp: list_all_iff)
    then have "sends_allowed script u calls rl' \<le> nat L - ac_count ac'"
      using sends_in_window [OF L keep(1) ac'(2) _ _] capped take_slot_facts(1) [OF ac'(1)] by simp
    then show ?thesis using cnt step call True by auto
  qed
qed simp

text \<open>
  Without Redis, an account the process has not seen gets its first call as its creation time: an
  established free account is throttled like a new one, at 5 instead of 15 a day, for 72 hours
  after each restart.
\<close>

lemma restart_throttles_free_account:
  "sends_allowed script ''u'' (replicate 15 (1, ''u'', ''free'')) (newRateLimiter None None) = 5"
  by (simp add: numeral_eq_Suc newRateLimiter_def smtp_Allow_def in_ramp_def take_slot_def roll_window_def new_counter_def
      newFreeAccountWindow_def newFreeAccountDailyLimit_def tierLimit_def truncate_time_def day_def hour_def minute_def second_def Let_def)

subsection \<open>Properties\<close>


text \<open>
  The per-address limiters: in any span of one window the in-memory connection limiter allows
  an address at most 60 connections (twice its 30 a minute) and the bounce limiter a sender at
  most 20 bounces (twice its 10), from any state of the tables and with any other traffic.
\<close>

theorem mail_window_limits:
  assumes "keys_distinct s" "times_from t ops" "b \<le> t + minute + 1"
  shows "limiter_granted (allowInMemory defaultConnRateLimit defaultConnRateWindow) cleanStale k b ops s \<le> 60
    \<and> limiter_granted allowBounce bounce_evict k b ops s \<le> 20
    \<and> (\<forall>rl now. cn_limit rl = defaultConnRateLimit \<and> cn_window rl = defaultConnRateWindow \<longrightarrow>
        conn_allowInMemory now k rl =
          (let (c, ok) = allowInMemory defaultConnRateLimit defaultConnRateWindow now k (cn_counters rl) in (rl\<lparr>cn_counters := c\<rparr>, ok)))"
  using conn_rl.granted_twice [OF assms(1,2), of b k] bounce_rl.granted_twice [OF assms(1,2), of b k] assms(3)
  by (simp add: conn_is_in_memory defaultConnRateLimit_def defaultConnRateWindow_def)

end
