(* ===== verification/Gateway_Limit.thy ===== *)
theory Gateway_Limit
  imports Limiters
begin

text \<open>
  \<open>internal/gateway/ratelimit.go\<close>: the count-min sketch and the limiter that counts users in a map
  and addresses, salted and hashed, in the sketch. SHA-256, \<open>SplitHostPort\<close> and \<open>ParseIP\<close> are
  parameters; a method that locks its mutex is one step.
\<close>

subsection \<open>The count-min sketch\<close>

record CountMinSketch =
  cms_width :: nat
  cms_depth :: nat
  cms_matrix :: "u64 list list"

definition newCountMinSketch :: "nat \<Rightarrow> nat \<Rightarrow> CountMinSketch" where
  "newCountMinSketch width depth =
     \<lparr>cms_width = width, cms_depth = depth, cms_matrix = replicate depth (replicate width 0)\<rparr>"

definition be_nat :: "bytes \<Rightarrow> nat" where
  "be_nat bs = foldl (\<lambda>n b. 256 * n + unat b) 0 bs"

definition cms_hash :: "(bytes \<Rightarrow> bytes) \<Rightarrow> nat \<Rightarrow> nat \<Rightarrow> bytes \<Rightarrow> nat" where
  "cms_hash sha width row key = be_nat (take 8 (digest32 sha (be32 row @ key))) mod width"

definition bump_row :: "(bytes \<Rightarrow> bytes) \<Rightarrow> nat \<Rightarrow> bytes \<Rightarrow> u64 list list \<Rightarrow> nat \<Rightarrow> u64 list list" where
  "bump_row sha width key m i =
     (let idx = cms_hash sha width i key in m[i := (m ! i)[idx := m ! i ! idx + 1]])"

definition cms_Increment :: "(bytes \<Rightarrow> bytes) \<Rightarrow> bytes \<Rightarrow> CountMinSketch \<Rightarrow> CountMinSketch" where
  "cms_Increment sha key cms =
     cms\<lparr>cms_matrix := foldl (bump_row sha (cms_width cms) key) (cms_matrix cms) [0..<cms_depth cms]\<rparr>"

definition cms_Estimate :: "(bytes \<Rightarrow> bytes) \<Rightarrow> bytes \<Rightarrow> CountMinSketch \<Rightarrow> int" where
  "cms_Estimate sha key cms =
     sint (foldl (\<lambda>least i. let v = cms_matrix cms ! i ! cms_hash sha (cms_width cms) i key in if v < least then v else least)
             (- 1 :: u64) [0..<cms_depth cms])"

definition cms_Reset :: "CountMinSketch \<Rightarrow> CountMinSketch" where
  "cms_Reset cms = cms\<lparr>cms_matrix := map (map (\<lambda>_. 0)) (cms_matrix cms)\<rparr>"

subsection \<open>The limiter\<close>

record GatewayRateLimiter =
  gw_authLimit :: int
  gw_unauthLimit :: int
  gw_redisRL :: "RedisRateLimiter option"
  gw_authCounts :: "(string \<times> nat \<times> int) list"
  gw_unauthSketch :: CountMinSketch
  gw_dailySalt :: bytes
  gw_saltRotated :: int
  gw_windowStart :: int

text \<open>What a request brings from outside: the time, random bytes, Redis's answer.\<close>

record gw_env =
  ge_now :: int
  ge_rand :: bytes
  ge_script :: redis_script

definition newGatewayRateLimiter :: "int \<Rightarrow> int \<Rightarrow> RedisRateLimiter option \<Rightarrow> gw_env \<Rightarrow> GatewayRateLimiter" where
  "newGatewayRateLimiter authLimit unauthLimit redisRL env =
     \<lparr>gw_authLimit = authLimit, gw_unauthLimit = unauthLimit, gw_redisRL = redisRL, gw_authCounts = [],
      gw_unauthSketch = newCountMinSketch 4096 4, gw_dailySalt = ge_rand env,
      gw_saltRotated = ge_now env, gw_windowStart = ge_now env\<rparr>"

definition rotateSaltIfNeeded :: "gw_env \<Rightarrow> GatewayRateLimiter \<Rightarrow> GatewayRateLimiter" where
  "rotateSaltIfNeeded env rl =
     (if ge_now env - gw_saltRotated rl \<ge> 24 * hour
      then rl\<lparr>gw_dailySalt := ge_rand env, gw_saltRotated := ge_now env, gw_unauthSketch := cms_Reset (gw_unauthSketch rl)\<rparr>
      else rl)"

definition drop_stale :: "int \<Rightarrow> (string \<times> nat \<times> int) list \<Rightarrow> (string \<times> nat \<times> int) list" where
  "drop_stale now counts = filter (\<lambda>(k, b). \<not> now - snd b \<ge> minute) counts"

definition resetWindowIfNeeded :: "gw_env \<Rightarrow> GatewayRateLimiter \<Rightarrow> GatewayRateLimiter" where
  "resetWindowIfNeeded env rl =
     (if ge_now env - gw_windowStart rl \<ge> minute
      then rl\<lparr>gw_unauthSketch := cms_Reset (gw_unauthSketch rl), gw_windowStart := ge_now env,
             gw_authCounts := drop_stale (ge_now env) (gw_authCounts rl)\<rparr>
      else rl)"

text \<open>The in-memory branch for a user.\<close>

definition auth_allow :: "int \<Rightarrow> int \<Rightarrow> string \<Rightarrow> (string \<times> nat \<times> int) list \<Rightarrow> (string \<times> nat \<times> int) list \<times> bool" where
  "auth_allow authLimit now userID counts =
     (let fresh = (AList.update userID (1, now) counts, True) in
      case map_of counts userID of
        None \<Rightarrow> fresh
      | Some (count, windowStart) \<Rightarrow>
          if now - windowStart \<ge> minute then fresh
          else (AList.update userID (count + 1, windowStart) counts, int (count + 1) \<le> authLimit))"

definition hashIPWithSalt ::
    "(bytes \<Rightarrow> bytes) \<Rightarrow> (string \<Rightarrow> string option) \<Rightarrow> (string \<Rightarrow> string option) \<Rightarrow> string \<Rightarrow> bytes \<Rightarrow> bytes" where
  "hashIPWithSalt sha splitHost canonIP remoteAddr salt =
     (let host = (case splitHost remoteAddr of Some h \<Rightarrow> h | None \<Rightarrow> remoteAddr);
          host = (case canonIP host of Some ip \<Rightarrow> ip | None \<Rightarrow> host)
      in digest32 sha (str_bytes host @ salt))"

definition gw_via_redis ::
    "gw_env \<Rightarrow> string \<Rightarrow> int \<Rightarrow> RedisRateLimiter \<Rightarrow> GatewayRateLimiter \<Rightarrow> GatewayRateLimiter \<times> bool" where
  "gw_via_redis env key limit r rl =
     (let (r', ok) = redis_Allow (ge_script env) (ge_now env) key limit minute r in (rl\<lparr>gw_redisRL := Some r'\<rparr>, ok))"

definition gw_Allow ::
    "(bytes \<Rightarrow> bytes) \<Rightarrow> (string \<Rightarrow> string option) \<Rightarrow> (string \<Rightarrow> string option) \<Rightarrow> gw_env \<Rightarrow> string \<Rightarrow> string \<Rightarrow> GatewayRateLimiter
      \<Rightarrow> GatewayRateLimiter \<times> bool" where
  "gw_Allow sha splitHost canonIP env userID remoteAddr rl0 =
     (let rl = resetWindowIfNeeded env (rotateSaltIfNeeded env rl0) in
      if userID \<noteq> [] then
        (case gw_redisRL rl of
           Some r \<Rightarrow> gw_via_redis env (''gateway:auth:'' @ userID) (gw_authLimit rl) r rl
         | None \<Rightarrow>
             let (counts, ok) = auth_allow (gw_authLimit rl) (ge_now env) userID (gw_authCounts rl)
             in (rl\<lparr>gw_authCounts := counts\<rparr>, ok))
      else if gw_unauthLimit rl \<le> 0 then (rl, True)
      else
        (let key = hashIPWithSalt sha splitHost canonIP remoteAddr (gw_dailySalt rl) in
         case gw_redisRL rl of
           Some r \<Rightarrow> gw_via_redis env (''gateway:unauth:'' @ hexEncode key) (gw_unauthLimit rl) r rl
         | None \<Rightarrow>
             let sketch = cms_Increment sha key (gw_unauthSketch rl)
             in (rl\<lparr>gw_unauthSketch := sketch\<rparr>, cms_Estimate sha key sketch \<le> gw_unauthLimit rl)))"

subsection \<open>Lemmas: the sketch\<close>

definition hits :: "(bytes \<Rightarrow> bytes) \<Rightarrow> nat \<Rightarrow> bytes list \<Rightarrow> nat \<Rightarrow> nat \<Rightarrow> nat" where
  "hits sha width ks i j = length (filter (\<lambda>k. cms_hash sha width i k = j) ks)"

text \<open>The sketch holds, cell by cell, how many of the keys fell there.\<close>

definition sketch_of :: "(bytes \<Rightarrow> bytes) \<Rightarrow> bytes list \<Rightarrow> CountMinSketch \<Rightarrow> bool" where
  "sketch_of sha ks cms =
     (0 < cms_width cms \<and> 0 < cms_depth cms \<and> length (cms_matrix cms) = cms_depth cms
      \<and> (\<forall>i < cms_depth cms. length (cms_matrix cms ! i) = cms_width cms
          \<and> (\<forall>j < cms_width cms. cms_matrix cms ! i ! j = of_nat (hits sha (cms_width cms) ks i j))))"

lemma length_bump [simp]: "length (bump_row sha w key m i) = length m"
  by (simp add: bump_row_def Let_def)

lemma foldl_bump:
  "n \<le> length m \<Longrightarrow> length (foldl (bump_row sha w key) m [0..<n]) = length m \<and>
     (\<forall>i < length m. foldl (bump_row sha w key) m [0..<n] ! i =
        (if i < n then (m ! i)[cms_hash sha w i key := m ! i ! cms_hash sha w i key + 1] else m ! i))"
proof (induction n)
  case (Suc n)
  then show ?case by (auto simp: bump_row_def Let_def nth_list_update)
qed simp

lemma cms_hash_less [simp]: "0 < w \<Longrightarrow> cms_hash sha w i k < w"
  by (simp add: cms_hash_def)

lemma sketch_increment:
  assumes "sketch_of sha ks cms"
  shows "sketch_of sha (key # ks) (cms_Increment sha key cms)"
proof -
  let ?m = "foldl (bump_row sha (cms_width cms) key) (cms_matrix cms) [0..<cms_depth cms]"
  have "length (cms_matrix cms) = cms_depth cms" using assms by (simp add: sketch_of_def)
  then have "length ?m = cms_depth cms" "\<forall>i < cms_depth cms. ?m ! i =
      (cms_matrix cms ! i)[cms_hash sha (cms_width cms) i key := cms_matrix cms ! i ! cms_hash sha (cms_width cms) i key + 1]"
    using foldl_bump [of "cms_depth cms" "cms_matrix cms" sha "cms_width cms" key] by auto
  then show ?thesis using assms
    by (auto simp: sketch_of_def cms_Increment_def hits_def nth_list_update)
qed

lemma sketch_reset:
  assumes "sketch_of sha ks cms"
  shows "sketch_of sha [] (cms_Reset cms)"
  using assms by (auto simp: sketch_of_def cms_Reset_def hits_def)

lemma sketch_new: "0 < w \<Longrightarrow> 0 < d \<Longrightarrow> sketch_of sha [] (newCountMinSketch w d)"
  by (simp add: sketch_of_def newCountMinSketch_def hits_def)

lemma foldl_least:
  "let r = foldl (\<lambda>least i. let v = f i in if v < least then v else least) a xs in
     r \<in> insert a (f ` set xs) \<and> (\<forall>i \<in> set xs. r \<le> f i) \<and> r \<le> a" for f :: "nat \<Rightarrow> u64"
proof (induction xs arbitrary: a)
  case (Cons x xs)
  show ?case
  proof (cases "f x < a")
    case True
    then show ?thesis using Cons.IH [of "f x"] by (auto simp: Let_def)
  next
    case False
    then show ?thesis using Cons.IH [of a] by (auto simp: Let_def)
  qed
qed simp

lemma filter_count: "P key \<Longrightarrow> count_list ks key \<le> length (filter P ks)"
  by (induction ks) auto

lemma sint_small: "uint w < 2 ^ 63 \<Longrightarrow> sint w = uint w" for w :: u64
proof -
  assume w: "uint w < 2 ^ 63"
  then have "\<not> bit (uint w) 63" by (simp add: bit_iff_odd)
  then have "signed_take_bit 63 (uint w) = take_bit 63 (uint w)" by (simp add: signed_take_bit_eq_if_positive)
  also have "\<dots> = uint w" using w by (simp add: take_bit_int_eq_self)
  finally show ?thesis by (simp add: sint_uint)
qed

text \<open>While the counters have not wrapped, an estimate is between the true count and the total.\<close>

lemma estimate_bounds:
  assumes sk: "sketch_of sha ks cms" and small: "length ks < 2 ^ 63"
  shows "int (count_list ks key) \<le> cms_Estimate sha key cms \<and> cms_Estimate sha key cms \<le> int (length ks)"
proof -
  let ?cell = "\<lambda>i. cms_matrix cms ! i ! cms_hash sha (cms_width cms) i key"
  let ?n = "\<lambda>i. hits sha (cms_width cms) ks i (cms_hash sha (cms_width cms) i key)"
  let ?r = "foldl (\<lambda>least i. let v = ?cell i in if v < least then v else least) (- 1) [0..<cms_depth cms]"
  have cell: "?cell i = of_nat (?n i)" if "i < cms_depth cms" for i
    using sk that by (simp add: sketch_of_def)
  have n: "count_list ks key \<le> ?n i" "?n i \<le> length ks" for i
    using filter_count [of "\<lambda>k. cms_hash sha (cms_width cms) i k = cms_hash sha (cms_width cms) i key" key ks]
    by (auto simp: hits_def)
  have val: "uint (?cell i) = int (?n i)" if "i < cms_depth cms" for i
    using cell [OF that] n(2) [of i] small by (simp add: uint_nat unat_of_nat)
  note least = foldl_least [of ?cell "- 1" "[0..<cms_depth cms]", unfolded Let_def]
  have d: "0 < cms_depth cms" using sk by (simp add: sketch_of_def)
  then have "?r \<le> ?cell 0" using least by (simp add: Let_def)
  then have le: "uint ?r \<le> int (length ks)" using val [OF d] n(2) [of 0] by (simp add: word_le_def)
  have "uint (- 1 :: u64) = 2 ^ 64 - 1" by (simp add: unsigned_minus_1_eq_mask mask_eq_exp_minus_1)
  then have "?r \<noteq> - 1" using le small by auto
  then obtain i where "i < cms_depth cms" "?r = ?cell i" using least by (auto simp: Let_def)
  then have "int (count_list ks key) \<le> uint ?r" using val n(1) by simp
  moreover have "sint ?r = uint ?r" using le small by (intro sint_small) simp
  ultimately show ?thesis using le by (simp add: cms_Estimate_def)
qed

subsection \<open>Lemmas: the limiter\<close>

lemma map_of_drop_stale:
  "keys_distinct s \<Longrightarrow> map_of (drop_stale now s) k =
     (case map_of s k of None \<Rightarrow> None | Some b \<Rightarrow> if now - snd b \<ge> minute then None else Some b)"
  unfolding drop_stale_def by (simp add: map_of_filter_distinct split: option.splits)

text \<open>The users' counters provide the contract of a fixed-window limiter.\<close>

lemma auth_limiter:
  assumes "1 \<le> limit"
  shows "window_limiter minute (nat limit) keys_distinct map_of (auth_allow limit) drop_stale"
proof
  fix t s k
  assume s: "keys_distinct (s :: (string \<times> nat \<times> int) list)"
  show "keys_distinct (drop_stale t s)" using s by (simp add: drop_stale_def)
  show "map_of (drop_stale t s) k = map_of s k \<or>
      map_of (drop_stale t s) k = None \<and> (\<exists>c w. map_of s k = Some (c, w) \<and> minute \<le> t - w)"
    using s by (auto simp: map_of_drop_stale simp del: map_of_eq_Some_iff split: option.splits)
qed (use assms in \<open>auto simp: auth_allow_def Let_def minute_def second_def simp del: map_of_eq_Some_iff split: option.splits\<close>)

type_synonym gw_request = "gw_env \<times> string \<times> string"

text \<open>How many unauthenticated requests under one hashed address are allowed.\<close>

fun unauth_granted ::
    "(bytes \<Rightarrow> bytes) \<Rightarrow> (string \<Rightarrow> string option) \<Rightarrow> (string \<Rightarrow> string option) \<Rightarrow> bytes \<Rightarrow> gw_request list \<Rightarrow> GatewayRateLimiter \<Rightarrow> nat" where
  "unauth_granted sha sh ci key [] rl = 0"
| "unauth_granted sha sh ci key ((env, user, addr) # rqs) rl =
     (let (rl', ok) = gw_Allow sha sh ci env user addr rl
      in (if user = [] \<and> hashIPWithSalt sha sh ci addr (gw_dailySalt rl) = key \<and> ok then 1 else 0)
         + unauth_granted sha sh ci key rqs rl')"

definition in_window :: "GatewayRateLimiter \<Rightarrow> gw_request \<Rightarrow> bool" where
  "in_window rl rq = (ge_now (fst rq) - gw_windowStart rl < minute \<and> ge_now (fst rq) - gw_saltRotated rl < 24 * hour)"

lemma gw_Allow_in_window:
  assumes "in_window rl (env, user, addr)" "gw_redisRL rl = None" "0 < gw_unauthLimit rl"
  shows "gw_Allow sha sh ci env user addr rl =
    (if user \<noteq> [] then
       (let (counts, ok) = auth_allow (gw_authLimit rl) (ge_now env) user (gw_authCounts rl) in (rl\<lparr>gw_authCounts := counts\<rparr>, ok))
     else (let key = hashIPWithSalt sha sh ci addr (gw_dailySalt rl); sketch = cms_Increment sha key (gw_unauthSketch rl)
           in (rl\<lparr>gw_unauthSketch := sketch\<rparr>, cms_Estimate sha key sketch \<le> gw_unauthLimit rl)))"
  using assms by (simp add: gw_Allow_def in_window_def rotateSaltIfNeeded_def resetWindowIfNeeded_def)

lemma unauth_granted_le:
  "gw_redisRL rl = None \<Longrightarrow> 0 < gw_unauthLimit rl \<Longrightarrow> list_all (in_window rl) rqs \<Longrightarrow>
   sketch_of sha ks (gw_unauthSketch rl) \<Longrightarrow> length ks + length rqs < 2 ^ 63 \<Longrightarrow>
   unauth_granted sha sh ci key rqs rl \<le> nat (gw_unauthLimit rl) - count_list ks key"
proof (induction rqs arbitrary: rl ks)
  case (Cons rq rqs)
  obtain env user addr where rq: "rq = (env, user, addr)" by (cases rq)
  have win: "in_window rl (env, user, addr)" using Cons.prems(3) rq by simp
  note step = gw_Allow_in_window [OF win Cons.prems(1,2), of sha sh ci]
  have frame: "list_all (in_window (rl\<lparr>gw_authCounts := c\<rparr>)) rqs" "list_all (in_window (rl\<lparr>gw_unauthSketch := sk\<rparr>)) rqs" for c sk
    using Cons.prems(3) by (auto simp: in_window_def list_all_iff)
  show ?case
  proof (cases "user = []")
    case False
    then show ?thesis
      using step Cons.IH [of "rl\<lparr>gw_authCounts := _\<rparr>" ks, OF _ _ frame(1)] Cons.prems rq
      by (auto simp: Let_def split: prod.splits)
  next
    case True
    let ?k = "hashIPWithSalt sha sh ci addr (gw_dailySalt rl)"
    let ?sk = "cms_Increment sha ?k (gw_unauthSketch rl)"
    have sk: "sketch_of sha (?k # ks) ?sk" using Cons.prems(4) by (rule sketch_increment)
    have IH: "unauth_granted sha sh ci key rqs (rl\<lparr>gw_unauthSketch := ?sk\<rparr>) \<le> nat (gw_unauthLimit rl) - count_list (?k # ks) key"
      using Cons.IH [of "rl\<lparr>gw_unauthSketch := ?sk\<rparr>" "?k # ks", OF _ _ frame(2)] sk Cons.prems by simp
    have "int (count_list (?k # ks) ?k) \<le> cms_Estimate sha ?k ?sk"
      using estimate_bounds [OF sk, of ?k] Cons.prems(5) by simp
    then show ?thesis using IH step True rq by (cases "?k = key") (auto simp: Let_def)
  qed
qed simp

subsection \<open>Properties\<close>

fun increment_all :: "(bytes \<Rightarrow> bytes) \<Rightarrow> bytes list \<Rightarrow> CountMinSketch \<Rightarrow> CountMinSketch" where
  "increment_all sha [] cms = cms"
| "increment_all sha (k # ks) cms = increment_all sha ks (cms_Increment sha k cms)"

lemma increment_all_sketch:
  "sketch_of sha acc cms \<Longrightarrow> sketch_of sha (rev ks @ acc) (increment_all sha ks cms)"
  by (induction ks arbitrary: acc cms) (auto dest: sketch_increment)

text \<open>
  The count-min sketch never underestimates: after any sequence of increments (fewer than
  \<open>2 ^ 63\<close>) on a new sketch, or after a reset, the estimate of a key is at least how often it was
  incremented and at most the number of all increments, for any hash function.
\<close>

theorem sketch_never_underestimates:
  assumes "0 < width" "0 < depth" "length ks < 2 ^ 63"
  shows "int (count_list ks k) \<le> cms_Estimate sha k (increment_all sha ks (newCountMinSketch width depth))
    \<and> cms_Estimate sha k (increment_all sha ks (newCountMinSketch width depth)) \<le> int (length ks)
    \<and> int (count_list ks k) \<le> cms_Estimate sha k (increment_all sha ks (cms_Reset (increment_all sha old (newCountMinSketch width depth))))"
proof -
  note new = sketch_new [OF assms(1,2), of sha]
  have a: "sketch_of sha (rev ks) (increment_all sha ks (newCountMinSketch width depth))"
    using increment_all_sketch [OF new, of ks] by simp
  have b: "sketch_of sha (rev ks) (increment_all sha ks (cms_Reset (increment_all sha old (newCountMinSketch width depth))))"
    using increment_all_sketch [OF sketch_reset [OF increment_all_sketch [OF new]], of ks] by simp
  have c: "length (rev ks) < 2 ^ 63" using assms(3) by simp
  show ?thesis using estimate_bounds [OF a c, of k] estimate_bounds [OF b c, of k] by simp
qed

text \<open>
  Rate limits of the gateway without Redis: between two resets of its sketch, an address has
  at most the unauthenticated limit of requests allowed, counted exactly, whatever other addresses
  and users do; a user has at most twice the authenticated limit in any minute.
\<close>

theorem gateway_limits:
  assumes "gw_redisRL rl = None" "0 < gw_unauthLimit rl" "sketch_of sha [] (gw_unauthSketch rl)"
    and "list_all (in_window rl) rqs" "length rqs < 2 ^ 63"
    and "1 \<le> limit" "keys_distinct s" "times_from t ops" "b \<le> t + minute"
  shows "unauth_granted sha sh ci key rqs rl \<le> nat (gw_unauthLimit rl)
    \<and> limiter_granted (auth_allow limit) drop_stale u b ops s \<le> 2 * nat limit"
  using unauth_granted_le [OF assms(1,2,4,3), of sh ci key] assms(5)
    window_limiter.granted_twice [OF auth_limiter [OF assms(6)] assms(7-9)]
  by simp

end
