(* ===== verification/Bounce.thy ===== *)
theory Bounce
  imports Limiters
begin

text \<open>
  \<open>internal/smtp/bounce.go\<close>: delivery status notifications. The formatted date is a parameter. The
  addresses and the reason come from outside, so the text they can put into a notification matters.
\<close>

definition cr :: char where "cr = CHR 0x0D"
definition lf :: char where "lf = CHR 0x0A"
definition nul :: char where "nul = CHR 0x00"

text \<open>
  \<open>strings.NewReplacer\<close>: at each position the first pattern, in the order given, that matches there
  is replaced.
\<close>

fun sanitizeHeader :: "string \<Rightarrow> string" where
  "sanitizeHeader [] = []"
| "sanitizeHeader (c # s) =
     (if c = cr \<and> s \<noteq> [] \<and> hd s = lf then CHR '' '' # sanitizeHeader (tl s)
      else if c = cr then CHR '' '' # sanitizeHeader s
      else if c = lf then CHR '' '' # sanitizeHeader s
      else if c = nul then sanitizeHeader s
      else c # sanitizeHeader s)"

definition crlf :: string where "crlf = [cr, lf]"

text \<open>\<open>originalFrom[LastIndex(originalFrom, "@")+1:]\<close>, or the default without an \<open>@\<close>.\<close>

definition bounce_domain :: "string \<Rightarrow> string" where
  "bounce_domain originalFrom =
     (if CHR ''@'' \<in> set originalFrom then rev (takeWhile (\<lambda>c. c \<noteq> CHR ''@'') (rev originalFrom)) else ''bmail.ag'')"

definition bounce_header :: "string \<Rightarrow> int \<Rightarrow> string \<Rightarrow> bool \<Rightarrow> string list" where
  "bounce_header date nano originalFrom permanent =
     (let bounceDomain = bounce_domain originalFrom;
          msgID = ''<'' @ showInt nano @ ''.bounce@'' @ bounceDomain @ ''>'';
          subject = (if permanent then ''Delivery Status Notification (Failure)'' else ''Delivery Status Notification (Delayed)'');
          boundary = ''=_bmail_dsn_'' @ showInt nano
      in [''From: mailer-daemon@'' @ bounceDomain,
          ''To: '' @ originalFrom,
          ''Subject: '' @ subject,
          ''Date: '' @ date,
          ''Message-ID: '' @ msgID,
          ''MIME-Version: 1.0'',
          ''Content-Type: multipart/report; report-type=delivery-status;'',
          CHR 0x09 # ''boundary='' @ [CHR 0x22] @ boundary @ [CHR 0x22],
          ''''])"

definition bounce_body :: "string \<Rightarrow> int \<Rightarrow> string \<Rightarrow> string \<Rightarrow> bool \<Rightarrow> string list" where
  "bounce_body date nano originalTo sanitizedReason permanent =
     (let boundary = ''=_bmail_dsn_'' @ showInt nano;
          statusCode = (if permanent then ''5.0.0'' else ''4.0.0'');
          action = (if permanent then ''failed'' else ''delayed'')
      in [''--'' @ boundary,
          ''Content-Type: text/plain; charset=utf-8'',
          '''']
         @ (if permanent
            then [''Your message to '' @ originalTo @ '' could not be delivered.'', '''',
                  ''This is a permanent error. The message will not be retried.'']
            else [''Delivery of your message to '' @ originalTo @ '' has been delayed.'', '''',
                  ''The server has exhausted all retry attempts.''])
         @ ['''',
            ''Diagnostic information:'',
            sanitizedReason,
            '''',
            ''--'' @ boundary,
            ''Content-Type: message/delivery-status'',
            '''',
            ''Reporting-MTA: dns; bmail.ag'',
            ''Arrival-Date: '' @ date,
            '''',
            ''Final-Recipient: rfc822; '' @ originalTo,
            ''Action: '' @ action,
            ''Status: '' @ statusCode,
            ''Diagnostic-Code: smtp; '' @ sanitizedReason,
            '''',
            ''--'' @ boundary @ ''--''])"

definition GenerateBounce :: "string \<Rightarrow> int \<Rightarrow> string \<Rightarrow> string \<Rightarrow> string \<Rightarrow> bool \<Rightarrow> string" where
  "GenerateBounce date nano originalFrom originalTo reason permanent =
     (let originalFrom = sanitizeHeader originalFrom;
          originalTo = sanitizeHeader originalTo;
          sanitizedReason = sanitizeHeader reason
      in concat (map (\<lambda>line. line @ crlf)
           (bounce_header date nano originalFrom permanent @ bounce_body date nano originalTo sanitizedReason permanent)))"

subsection \<open>Lemmas\<close>

definition one_line :: "string \<Rightarrow> bool" where
  "one_line s = (cr \<notin> set s \<and> lf \<notin> set s)"

lemma one_line_simps [simp]:
  "one_line []" "one_line (s @ t) \<longleftrightarrow> one_line s \<and> one_line t" "one_line (c # s) \<longleftrightarrow> c \<noteq> cr \<and> c \<noteq> lf \<and> one_line s"
  by (auto simp: one_line_def)

lemma sanitizeHeader_clean: "one_line (sanitizeHeader s) \<and> nul \<notin> set (sanitizeHeader s)"
  by (induction s rule: sanitizeHeader.induct) (auto simp: cr_def lf_def nul_def)

lemma sanitizeHeader_id: "one_line s \<Longrightarrow> nul \<notin> set s \<Longrightarrow> sanitizeHeader s = s"
  by (induction s rule: sanitizeHeader.induct) auto

lemma digits_one_line: "list_all is_digit s \<Longrightarrow> one_line s"
  by (auto simp: one_line_def list_all_iff is_digit_def cr_def lf_def)

lemma showInt_one_line [simp]: "one_line (showInt n)"
  using dec_digits_props by (auto simp: showInt_def digits_one_line) (auto simp: cr_def lf_def)

lemma bounce_domain_one_line [simp]: "one_line s \<Longrightarrow> one_line (bounce_domain s)"
  by (auto simp: bounce_domain_def one_line_def cr_def lf_def dest: set_takeWhileD)

text \<open>The lines of a text: split after each CR LF.\<close>

fun text_lines :: "string \<Rightarrow> string \<Rightarrow> string list" where
  "text_lines acc [] = (if acc = [] then [] else [rev acc])"
| "text_lines acc [c] = [rev (c # acc)]"
| "text_lines acc (c # e # s) =
     (if c = cr \<and> e = lf then rev acc # text_lines [] s else text_lines (c # acc) (e # s))"

lemma text_lines_line: "one_line s \<Longrightarrow> text_lines acc (s @ crlf @ rest) = (rev acc @ s) # text_lines [] rest"
proof (induction s arbitrary: acc)
  case (Cons c s)
  then show ?case by (cases s) (auto simp: crlf_def)
qed (simp add: crlf_def)

lemma text_lines_concat: "list_all one_line ls \<Longrightarrow> text_lines [] (concat (map (\<lambda>l. l @ crlf) ls)) = ls"
  by (induction ls) (auto simp: text_lines_line)

lemma header_lines: "one_line date \<Longrightarrow> one_line sender \<Longrightarrow> list_all one_line (bounce_header date nano sender permanent)"
  by (simp add: bounce_header_def Let_def) (simp add: cr_def lf_def)

lemma body_lines:
  "one_line date \<Longrightarrow> one_line to \<Longrightarrow> one_line reason \<Longrightarrow> list_all one_line (bounce_body date nano to reason permanent)"
  by (simp add: bounce_body_def Let_def) (simp add: cr_def lf_def)

subsection \<open>Properties\<close>

text \<open>
  No header injection: whatever bytes the addresses and the reason contain, the lines of a
  generated notification are exactly those of its template, nine header lines up to the empty one
  and twenty-two lines of body, with the sanitised values inside them.
\<close>

theorem bounce_no_injection:
  assumes "cr \<notin> set date" "lf \<notin> set date"
  shows "text_lines [] (GenerateBounce date nano originalFrom originalTo reason permanent) =
      bounce_header date nano (sanitizeHeader originalFrom) permanent
      @ bounce_body date nano (sanitizeHeader originalTo) (sanitizeHeader reason) permanent
    \<and> length (text_lines [] (GenerateBounce date nano originalFrom originalTo reason permanent)) = 31"
proof -
  have "one_line date" using assms by (simp add: one_line_def)
  then have "list_all one_line (bounce_header date nano (sanitizeHeader originalFrom) permanent
      @ bounce_body date nano (sanitizeHeader originalTo) (sanitizeHeader reason) permanent)"
    using header_lines body_lines sanitizeHeader_clean by simp
  from text_lines_concat [OF this] show ?thesis
    by (simp add: GenerateBounce_def Let_def) (simp add: bounce_header_def bounce_body_def Let_def)
qed

end
