(* ===== verification/Mail_Witness.thy ===== *)
theory Mail_Witness
  imports Mail_Props Gateway_Limit Bounce
begin

text \<open>Concrete runs of the MIME parser, the limiters and the notifications.\<close>

subsection \<open>Parsing\<close>

definition demo_lib :: mime_lib where
  "demo_lib = \<lparr>ml_parseMediaType = (\<lambda>s. Some (''multipart/mixed'', [(''boundary'', ''B'')])),
               ml_decodeWords = (\<lambda>s. None), ml_trimSpace = (\<lambda>s. s), ml_toLower = (\<lambda>s. s)\<rparr>"

definition demo_head :: string where
  "demo_head = ''Content-Type:m'' @ [lf_char, lf_char] @ ''--B'' @ [lf_char, lf_char] @ ''hi'' @ [lf_char]"

definition demo_closed :: string where
  "demo_closed = demo_head @ ''--B--'' @ [lf_char]"

lemma demo_parses: "Parse demo_lib 91 demo_closed \<noteq> None"
  by code_simp

theorem parsed_offsets_wf_witness:
  "part_wf (the (Parse demo_lib 91 demo_closed)) \<and> pt_EndPos (pt_info (the (Parse demo_lib 91 demo_closed))) \<le> 30"
proof -
  have "Parse demo_lib 91 demo_closed = Some (the (Parse demo_lib 91 demo_closed))" using demo_parses by simp
  note wf = parsed_offsets_wf [OF this]
  moreover have "length demo_closed = 30" by code_simp
  ultimately show ?thesis by simp
qed


definition demo_lr :: lineReader where
  "demo_lr = \<lparr>lr_rest = demo_head, lr_pos = 0\<rparr>"

theorem unclosed_multipart_diverges_witness: "Parse demo_lib 1000 demo_head = None"
proof -
  have a: "pt_Boundary (fst (part_headers demo_lib demo_lr)) \<noteq> []" by code_simp
  have b: "\<exists>line \<in> set (all_lines (snd (part_headers demo_lib demo_lr))).
      fst (checkBoundary line (pt_Boundary (fst (part_headers demo_lib demo_lr))))" by code_simp
  have c: "\<forall>line \<in> set (all_lines (snd (part_headers demo_lib demo_lr))).
      \<not> snd (checkBoundary line (pt_Boundary (fst (part_headers demo_lib demo_lr))))" by code_simp
  have "part_headers demo_lib \<lparr>lr_rest = demo_head, lr_pos = 0\<rparr> =
      (fst (part_headers demo_lib demo_lr), snd (part_headers demo_lib demo_lr))" by (simp add: demo_lr_def)
  from unclosed_multipart_diverges [OF this a b c] show ?thesis .
qed

subsection \<open>Limits\<close>

definition demo_limiter :: RateLimiter where
  "demo_limiter = RegisterAccount 5 ''u'' (newRateLimiter None None)"


theorem mail_window_limits_witness:
  "limiter_granted (allowInMemory defaultConnRateLimit defaultConnRateWindow) cleanStale ''ip'' minute (replicate 100 (Hit 1 ''ip'')) [] \<le> 60"
proof -
  have "times_from 1 (replicate n (Hit 1 ''ip''))" for n by (induction n) auto
  then show ?thesis
    using mail_window_limits [of "[]" 1 "replicate 100 (Hit 1 ''ip'')" minute "''ip''"] by simp
qed

theorem sketch_never_underestimates_witness:
  "2 \<le> cms_Estimate (\<lambda>b. b) [7] (increment_all (\<lambda>b. b) [[7], [8], [7]] (newCountMinSketch 16 2))"
  using sketch_never_underestimates [of 16 2 "[[7], [8], [7]]" "[7]" "\<lambda>b. b" "[]"] by simp

definition demo_env :: gw_env where
  "demo_env = \<lparr>ge_now = 5, ge_rand = [1], ge_script = (\<lambda>k w. None)\<rparr>"

definition demo_gw :: GatewayRateLimiter where
  "demo_gw = newGatewayRateLimiter 60 2 None demo_env"

theorem gateway_limits_witness:
  "unauth_granted (\<lambda>b. b) (\<lambda>s. None) (\<lambda>s. None) [9] (replicate 5 (demo_env, [], ''a'')) demo_gw \<le> 2
   \<and> limiter_granted (auth_allow 60) drop_stale ''u'' minute [Hit 1 ''u''] [] \<le> 120"
proof -
  have gw: "gw_redisRL demo_gw = None" "gw_unauthLimit demo_gw = 2" "sketch_of (\<lambda>b. b) [] (gw_unauthSketch demo_gw)"
    "list_all (in_window demo_gw) (replicate 5 (demo_env, [], ''a''))"
    using sketch_new [of 4096 4 "\<lambda>b. b"]
    by (auto simp: demo_gw_def newGatewayRateLimiter_def demo_env_def in_window_def list_all_iff hour_def minute_def second_def)
  show ?thesis
    using gateway_limits [OF gw(1) _ gw(3,4), of 60 "[]" 1 "[Hit 1 ''u'']" minute "\<lambda>s. None" "\<lambda>s. None" "[9]" "''u''"] gw(2) by simp
qed

theorem bounce_no_injection_witness:
  "length (text_lines [] (GenerateBounce ''now'' 7 (''a@b'' @ [cr, lf] @ ''Bcc: x'') ''c@d'' ''full'' True)) = 31"
proof -
  have "cr \<notin> set ''now''" "lf \<notin> set ''now''" by (simp_all add: cr_def lf_def)
  then show ?thesis by (rule bounce_no_injection [THEN conjunct2])
qed

end
