(* ===== verification/Pipe_Witness.thy ===== *)
theory Pipe_Witness
  imports Recv_Props Auth_Props Crypto_Witness Mail_Witness
begin

text \<open>Concrete runs of the checks, the rules, the pipeline and the receiver.\<close>

subsection \<open>SPF and DMARC\<close>

definition demo_dns :: resolver where
  "demo_dns = \<lparr>dn_LookupTXT = (\<lambda>d. if d = ''x.y'' then Some [''v=spf1 +all''] else Some [''v=DMARC1; p=reject'']),
               dn_LookupHost = (\<lambda>d. None), dn_LookupMX = (\<lambda>d. None)\<rparr>"

definition demo_auth :: auth_lib where
  "demo_auth = \<lparr>al_dns = demo_dns, al_ipString = (\<lambda>b. []), al_ParseIP = (\<lambda>s. None), al_ParseAddr = (\<lambda>s. None),
     al_ParsePrefix = (\<lambda>s. None), al_toLower = (\<lambda>s. s), al_etld1 = (\<lambda>s. None), al_dkimVerify = (\<lambda>m. None)\<rparr>"

lemma demo_checks:
  "runSecurityChecks demo_auth 11 ''a@x.y'' [1, 2, 3, 4] [] = Some \<lparr>sc_spf = ''pass'', sc_dkim = ''none'', sc_dmarc = ''pass''\<rparr>"
  by code_simp

theorem dmarc_by_envelope_witness:
  "\<exists>r. runSecurityChecks demo_auth 11 ''a@x.y'' [1, 2, 3, 4] [] = Some r \<and> sc_dmarc r \<in> {''pass'', ''none'', ''permerror''}"
  using dmarc_by_envelope [OF demo_checks] demo_checks by simp

subsection \<open>Rules\<close>

definition demo_rules :: rule_lib where
  "demo_rules = \<lparr>rl_conditions = (\<lambda>b. if b = [1] then Some [\<lparr>rc_Field = ''has_attachment'', rc_Operator = [], rc_Value = []\<rparr>] else None),
     rl_actions = (\<lambda>b. if b = [2] then Some [\<lparr>ra_Type = ''delete'', ra_Value = []\<rparr>] else None),
     rl_base64 = (\<lambda>b. None), rl_lower = (\<lambda>s. s)\<rparr>"

definition demo_post :: post_env where
  "demo_post = \<lparr>pe_blocked = None, pe_contacts = True,
     pe_rules = Some (Some [\<lparr>ru_Enabled = True, ru_Conditions = [1], ru_Actions = [2]\<rparr>]),
     pe_archive = None, pe_autoReply = None, pe_dedup = None, pe_publish_ok = True, pe_sent_copy = False, pe_clock = 0\<rparr>"

definition demo_facts :: msg_facts where
  "demo_facts = \<lparr>mf_from = ''a@x.y'', mf_hasAttachments = True, mf_sizeBytes = 6\<rparr>"

theorem first_rule_decides_witness:
  "de_Drop (fst (applyPostReceive demo_rules demo_post demo_facts (new_decisions ''inbox'')))
   \<and> snd (applyPostReceive demo_rules demo_post demo_facts (new_decisions ''inbox'')) = [AutoAddContact ''a@x.y'']"
proof -
  have "pe_rules demo_post = Some (Some [\<lparr>ru_Enabled = True, ru_Conditions = [1], ru_Actions = [2]\<rparr>])"
    by (simp add: demo_post_def)
  moreover have "rule_applies demo_rules demo_facts \<lparr>ru_Enabled = True, ru_Conditions = [1], ru_Actions = [2]\<rparr>"
    by code_simp
  moreover have "decodeRuleJSON (rl_actions demo_rules) (rl_base64 demo_rules) [2] = [\<lparr>ra_Type = ''delete'', ra_Value = []\<rparr>]"
    by code_simp
  moreover have "pe_contacts demo_post" "mf_from demo_facts = ''a@x.y''" by (simp_all add: demo_post_def demo_facts_def)
  ultimately show ?thesis
    using first_rule_decides [where e = demo_post and L = demo_rules and m = demo_facts and folder = "''inbox''"]
    by (simp add: Let_def case_prod_beta)
qed

subsection \<open>The pipeline\<close>

text \<open>A plaintext that fits into one chunk, for evaluation with the default chunk size.\<close>

definition encrypt_chunked_loop :: "crypto_platform \<Rightarrow> bytes \<Rightarrow> bytes \<Rightarrow> int \<Rightarrow> string + bytes" where
  "encrypt_chunked_loop P k p chunkSize =
     (let cs = effective_chunk chunkSize in
      if length k \<noteq> 32 then Inl ''create AEAD''
      else (let numChunks = goDiv (goInt (goInt (int (length p) + int cs) - 1)) (int cs) in
            encrypt_chunks P k p cs 0 (nat (if numChunks = 0 then 1 else numChunks)) []))"

lemma EncryptChunked_code [code]:
  "EncryptChunked P k p cs =
     (if length k = 32 \<and> 0 < cs \<and> cs < 2 ^ 40 \<and> int (length p) \<le> cs
      then bind_res (deriveChunkNonce P k 0) (\<lambda>n. Inr (cp_seal P k n p (chunkAAD 0)))
      else encrypt_chunked_loop P k p cs)"
proof (cases "length k = 32 \<and> 0 < cs \<and> cs < 2 ^ 40 \<and> int (length p) \<le> cs")
  case True
  then obtain c where c: "cs = int c" "0 < c" "c < 2 ^ 40" "length p \<le> c"
    by (cases cs) auto
  have small: "goInt (int (length p) + int c) = int (length p) + int c" "goInt (int (length p) + int c - 1) = int (length p) + int c - 1"
    using c by (auto simp: goInt_def)
  have dv: "(int (length p) + int c - 1) div int c = (if p = [] then 0 else 1)"
    using c by (cases p) (auto simp: div_pos_pos_trivial div_pos_geq)
  then have num: "goDiv (goInt (goInt (int (length p) + int c) - 1)) (int c) = (if p = [] then 0 else 1)"
    using c dv by (auto simp: goDiv_def sgn_if small)
  show ?thesis
    using True c by (cases "p = []") (simp_all add: EncryptChunked_def effective_chunk_def num dv bind_res_def Let_def split: sum.split)
qed (simp only: EncryptChunked_def encrypt_chunked_loop_def if_False)

definition pipe_lib :: mail_lib where
  "pipe_lib = \<lparr>pl_crypto = toy_P, pl_ed = toy_ed, pl_sha = (\<lambda>b. [7]), pl_hmac = (\<lambda>k b. [9]), pl_mime = demo_lib,
     pl_auth = demo_auth, pl_rules = demo_rules,
     pl_reader = (\<lambda>b. Some ([83], [InlinePart ''text/plain'' [] (Some [67])], [(''Subject'', ''S'')])),
     pl_quote = (\<lambda>s. s), pl_base64 = (\<lambda>b. []), pl_unbase64 = (\<lambda>s. None), pl_headersJSON = (\<lambda>h. Some [1]),
     pl_receiptJSON = (\<lambda>r. Some [2]), pl_messageJSON = (\<lambda>m. Some [3]), pl_metaJSON = (\<lambda>ps h. [4])\<rparr>"

definition pipe_cfg :: pipeline where
  "pipe_cfg = \<lparr>pp_signingKey = replicate 64 0, pp_signingPub = replicate 32 1, pp_enclaveID = ''m'', pp_tlsActive = True,
     pp_groupStore = True, pp_blindSecret = Some [5], pp_spamFilter = None\<rparr>"

definition pipe_user :: mail_user where
  "pipe_user = \<lparr>us_UserID = replicate 16 1, us_TenantID = replicate 16 2, us_PublicKeyEncryption = toy_pub, us_PublicKeyKEM = []\<rparr>"

definition pipe_members :: "group_member list" where
  "pipe_members = [\<lparr>gm_MemberUserID = replicate 16 1, gm_JoinedAtEpoch = 1\<rparr>, \<lparr>gm_MemberUserID = replicate 16 3, gm_JoinedAtEpoch = 4\<rparr>]"

definition pipe_world :: pipe_env where
  "pipe_world = \<lparr>en_resolve = (\<lambda>a. Some pipe_user), en_user_by_address = (\<lambda>a. None), en_members = Some pipe_members,
     en_post = (\<lambda>u. demo_post\<lparr>pe_rules := None\<rparr>), en_calendar = False, en_publish_ok = (\<lambda>m. True), en_date = (2025, 3), en_unix = 9,
     en_production = False\<rparr>"

definition pipe_start :: pipe_state where
  "pipe_start = \<lparr>ps_rnd = \<lparr>rn_draws = replicate 40 (Some [1, 2, 3]), rn_ctr = 0\<rparr>, ps_sender = sender_state0\<rparr>"

definition pipe_raw :: bytes where
  "pipe_raw = [65, 10, 10, 67]"

definition pipe_run :: "(pipe_result \<times> pipe_effect list \<times> pipe_state) option" where
  "pipe_run = ProcessMessage pipe_lib pipe_cfg pipe_world 20 ''a@x.y'' ''b@c'' pipe_raw [1, 2, 3, 4] [] pipe_start"

definition pipe_effs :: "pipe_effect list" where
  "pipe_effs = fst (snd (the pipe_run))"

lemma pipe_parsed: "parseMessageFull pipe_lib b = Inr \<lparr>pm_Subject = [83], pm_Body = [67], pm_InReplyTo = [], pm_References = [],
    pm_MessageID = [], pm_Headers = [(''Subject'', [''S''])], pm_Attachments = [], pm_CalendarICS = None\<rparr>"
  by (simp add: parseMessageFull_def pipe_lib_def limitReader_def maxInlineSize_def first_field_def header_add_def display_header_def Let_def)

lemma pipe_receipt: "\<exists>t. buildEnclaveReceipt pipe_lib pipe_cfg pipe_world raw encrypted sender sec score folder s = (Inr [2], t)"
proof -
  obtain h t where "HashSender (pl_sha pipe_lib) (en_production pipe_world) (en_date pipe_world) sender s = (Inr h, t)"
  proof -
    have "fst (sender_once False s) = None" by (auto simp: sender_once_def split: option.split)
    then show thesis using that by (cases "sender_once False s") (simp add: HashSender_def pipe_world_def Let_def)
  qed
  then show ?thesis
    by (simp add: buildEnclaveReceipt_def SignReceipt_def Let_def) (simp add: pipe_lib_def pipe_cfg_def)
qed

definition pipe_parse :: parsedMessage where
  "pipe_parse = \<lparr>pm_Subject = [83], pm_Body = [67], pm_InReplyTo = [], pm_References = [],
    pm_MessageID = [], pm_Headers = [(''Subject'', [''S''])], pm_Attachments = [], pm_CalendarICS = None\<rparr>"

definition pipe_payload :: "bytes \<Rightarrow> (EncryptedRawMessage \<times> EncryptedMessage \<times> EncryptedInboundAttachment list) cr" where
  "pipe_payload raw = encrypt_payload pipe_lib toy_pub None raw [4] [83] [67] [(''Subject'', [''S''])] []"

definition pipe_rnd2 :: rnd where
  "pipe_rnd2 = snd (pipe_payload pipe_raw (ps_rnd pipe_start))"

lemma pipe_payload_runs:
  "\<not> isl (fst (pipe_payload pipe_raw (ps_rnd pipe_start)))" "\<not> isl (fst (pipe_payload (zero_bytes pipe_raw) pipe_rnd2))"
  by code_simp+

lemma pipe_meta: "buildRawMeta pipe_lib 20 pipe_raw = Some [4]" "buildRawMeta pipe_lib 20 (zero_bytes pipe_raw) = Some [4]"
  by code_simp+

lemma pipe_type: "encryption_type pipe_lib pipe_raw pipe_parse = ''received''" "encryption_type pipe_lib (zero_bytes pipe_raw) pipe_parse = ''received''"
  by code_simp+

lemma pipe_checks: "runSecurityChecks (pl_auth pipe_lib) spf_depth ''a@x.y'' [1, 2, 3, 4] b
    = Some \<lparr>sc_spf = ''pass'', sc_dkim = ''none'', sc_dmarc = ''pass''\<rparr>"
proof -
  have dkim: "CheckDKIM demo_auth c = ((''none'', []), True)" for c by (simp add: CheckDKIM_def demo_auth_def)
  have "runSecurityChecks demo_auth 11 ''a@x.y'' [1, 2, 3, 4] b = runSecurityChecks demo_auth 11 ''a@x.y'' [1, 2, 3, 4] []"
    by (simp only: runSecurityChecks_def dkim)
  then show ?thesis using demo_checks by (simp add: spf_depth_def pipe_lib_def)
qed

lemma pipe_user_facts:
  "en_resolve pipe_world a = Some pipe_user" "us_PublicKeyEncryption pipe_user = toy_pub" "us_PublicKeyKEM pipe_user = []"
  "length toy_pub = 32" "parse_kem P [] = None"
  by (simp_all add: pipe_world_def pipe_user_def parse_kem_def toy_pub_def toy_P_def)

text \<open>Any of the two buffers is delivered, from any state whose random source serves the payload.\<close>

lemma pipe_delivers:
  assumes payload: "pipe_payload raw (ps_rnd s) = (Inr (eraw, encrypted, eatts), r)"
    and meta: "buildRawMeta pipe_lib 20 raw = Some [4]" and type: "encryption_type pipe_lib raw pipe_parse = ''received''"
  shows "\<exists>acts m t. ProcessMessage pipe_lib pipe_cfg pipe_world 20 ''a@x.y'' a raw [1, 2, 3, 4] [] s =
     Some (PipeOk, acts @ [PublishInbound (inbound_subject (uuid_String (us_TenantID pipe_user))) m], s\<lparr>ps_rnd := r, ps_sender := t\<rparr>)"
proof -
  let ?sec = "\<lparr>sc_spf = ''pass'', sc_dkim = ''none'', sc_dmarc = ''pass''\<rparr>"
  have parsed: "parseMessageFull pipe_lib raw = Inr pipe_parse" using pipe_parsed by (simp add: pipe_parse_def)
  have spam: "spam_check pipe_cfg [1, 2, 3, 4] [] ''a@x.y'' pipe_parse ?sec = (0, ''inbox'')"
    by (simp add: spam_check_def pipe_cfg_def)
  have enc: "encrypt_payload pipe_lib (us_PublicKeyEncryption pipe_user) (parse_kem (pl_crypto pipe_lib) (us_PublicKeyKEM pipe_user)) raw [4]
      (pm_Subject pipe_parse) (message_body pipe_lib raw pipe_parse) (pm_Headers pipe_parse) (pm_Attachments pipe_parse) (ps_rnd s)
      = (Inr (eraw, encrypted, eatts), r)"
    using payload type by (simp add: pipe_user_facts pipe_payload_def message_body_def pipe_parse_def)
  have blind: "computeAddressBlindIndex pipe_lib (pp_blindSecret pipe_cfg) ''message-sender-v1'' (us_UserID pipe_user) ''a@x.y'' = Inr (hexEncode [9])"
    by (simp add: computeAddressBlindIndex_def pipe_cfg_def pipe_lib_def Let_def)
  have post: "applyPostReceive (pl_rules pipe_lib) (en_post pipe_world pipe_user) \<lparr>mf_from = ''a@x.y'', mf_hasAttachments = (eatts \<noteq> []),
      mf_sizeBytes = int (length raw)\<rparr> (new_decisions ''inbox'') = (new_decisions ''inbox'', [AutoAddContact ''a@x.y''])"
    by (simp add: applyPostReceive_def pipe_world_def demo_post_def maybeSendAutoReply_def new_decisions_def Let_def)
  obtain t where rec: "buildEnclaveReceipt pipe_lib pipe_cfg pipe_world raw encrypted ''a@x.y'' ?sec 0
      (de_FolderAssignment (new_decisions ''inbox'')) (ps_sender s) = (Inr [2], t)"
    using pipe_receipt by blast
  have "\<exists>acts m. ProcessMessage pipe_lib pipe_cfg pipe_world 20 ''a@x.y'' a raw [1, 2, 3, 4] [] s =
     Some (PipeOk, acts @ [PublishInbound (inbound_subject (uuid_String (us_TenantID pipe_user))) m], s\<lparr>ps_rnd := r, ps_sender := t\<rparr>)"
    by (rule process_publishes [OF parsed pipe_checks spam pipe_user_facts(1) _ meta enc blind post _ rec])
      (simp_all add: pipe_user_facts new_decisions_def pipe_lib_def pipe_world_def)
  then show ?thesis by blast
qed

lemma pipe_payload_ok: "\<not> isl (fst (pipe_payload raw r)) \<Longrightarrow> \<exists>a b c. pipe_payload raw r = (Inr (a, b, c), snd (pipe_payload raw r))"
  using run_ok [where m = "pipe_payload raw" and st = r] by (metis prod_cases3)

lemma pipe_runs:
  "\<exists>acts m t. ProcessMessage pipe_lib pipe_cfg pipe_world 20 ''a@x.y'' a pipe_raw [1, 2, 3, 4] [] pipe_start =
     Some (PipeOk, acts @ [PublishInbound (inbound_subject (uuid_String (us_TenantID pipe_user))) m], \<lparr>ps_rnd = pipe_rnd2, ps_sender = t\<rparr>)"
proof -
  obtain eraw encrypted eatts where p: "pipe_payload pipe_raw (ps_rnd pipe_start) = (Inr (eraw, encrypted, eatts), pipe_rnd2)"
    using pipe_payload_ok [OF pipe_payload_runs(1)] by (auto simp: pipe_rnd2_def)
  show ?thesis
    using pipe_delivers [OF p pipe_meta(1) pipe_type(1)] by (simp add: pipe_start_def)
qed

lemma pipe_runs_again:
  "\<exists>acts m s'. ProcessMessage pipe_lib pipe_cfg pipe_world 20 ''a@x.y'' a (zero_bytes pipe_raw) [1, 2, 3, 4] [] \<lparr>ps_rnd = pipe_rnd2, ps_sender = t\<rparr> =
     Some (PipeOk, acts @ [PublishInbound (inbound_subject (uuid_String (us_TenantID pipe_user))) m], s')"
proof -
  obtain eraw encrypted eatts where p: "pipe_payload (zero_bytes pipe_raw) pipe_rnd2
      = (Inr (eraw, encrypted, eatts), snd (pipe_payload (zero_bytes pipe_raw) pipe_rnd2))"
    using pipe_payload_ok [OF pipe_payload_runs(2)] by auto
  show ?thesis
    using pipe_delivers [where s = "\<lparr>ps_rnd = pipe_rnd2, ps_sender = t\<rparr>", OF _ pipe_meta(2) pipe_type(2)] p by fastforce
qed

lemma pipe_laws:
  "crypto_laws (pl_crypto pipe_lib)" "ed25519_laws (pl_ed pipe_lib)"
  "\<not> all_zero (ed_public (pl_ed pipe_lib) (pp_signingKey pipe_cfg))"
  "keys_match (pl_crypto pipe_lib) toy_priv None (us_PublicKeyEncryption pipe_user) (parse_kem (pl_crypto pipe_lib) (us_PublicKeyKEM pipe_user))"
  using toy_laws toy_keys pipe_user_facts
  by (simp_all add: pipe_lib_def pipe_cfg_def ed25519_laws_def toy_ed_def all_zero_def list_all_iff)

theorem inbound_end_to_end_witness:
  "\<exists>effs s' m. ProcessMessage pipe_lib pipe_cfg pipe_world 20 ''a@x.y'' ''b@c'' pipe_raw [1, 2, 3, 4] [] pipe_start = Some (PipeOk, effs, s')
     \<and> DecryptMessageAuto toy_P toy_priv None (message_of m) = Inr ([83], [67])"
proof -
  obtain acts m t where run: "ProcessMessage pipe_lib pipe_cfg pipe_world 20 ''a@x.y'' ''b@c'' pipe_raw [1, 2, 3, 4] [] pipe_start =
     Some (PipeOk, acts @ [PublishInbound (inbound_subject (uuid_String (us_TenantID pipe_user))) m], \<lparr>ps_rnd = pipe_rnd2, ps_sender = t\<rparr>)"
    using pipe_runs by blast
  have "\<exists>parsed rawMeta. parseMessageFull pipe_lib pipe_raw = Inr parsed \<and> buildRawMeta pipe_lib 20 pipe_raw = Some rawMeta
      \<and> im_UserID m = uuid_String (us_UserID pipe_user)
      \<and> inbound_subject (uuid_String (us_TenantID pipe_user)) = ''mail.inbound.'' @ uuid_String (us_TenantID pipe_user)
      \<and> opens_to pipe_lib toy_priv None (message_body pipe_lib pipe_raw parsed) parsed pipe_raw rawMeta m \<and> receipt_of pipe_lib pipe_cfg pipe_raw m"
    by (rule inbound_end_to_end [OF run _ pipe_laws(1-3) pipe_user_facts(1) pipe_laws(4)]) (simp_all add: pipe_raw_def)
  then have "opens_to pipe_lib toy_priv None (message_body pipe_lib pipe_raw pipe_parse) pipe_parse pipe_raw [4] m"
    using pipe_parsed pipe_meta(1) by (auto simp: pipe_parse_def)
  then have "DecryptMessageAuto toy_P toy_priv None (message_of m) = Inr ([83], [67])"
    using pipe_type(1) by (simp add: opens_to_def Let_def message_body_def pipe_parse_def pipe_lib_def)
  then show ?thesis using run by blast
qed

theorem publish_only_on_success_witness:
  "\<exists>effs s'. ProcessMessage pipe_lib pipe_cfg pipe_world 20 ''a@x.y'' ''b@c'' pipe_raw [1, 2, 3, 4] [] pipe_start = Some (PipeOk, effs, s')
     \<and> length (filter is_publish effs) = 1"
proof -
  obtain acts m t where run: "ProcessMessage pipe_lib pipe_cfg pipe_world 20 ''a@x.y'' ''b@c'' pipe_raw [1, 2, 3, 4] [] pipe_start =
     Some (PipeOk, acts @ [PublishInbound (inbound_subject (uuid_String (us_TenantID pipe_user))) m], \<lparr>ps_rnd = pipe_rnd2, ps_sender = t\<rparr>)"
    using pipe_runs by blast
  show ?thesis using publish_only_on_success [OF run] run by auto
qed

subsection \<open>Two recipients\<close>

definition recv_env :: data_env where
  "recv_env = \<lparr>da_lib = pipe_lib, da_pipeline = pipe_cfg, da_world = (\<lambda>n. pipe_world), da_fuel = 20, da_targets = (\<lambda>r. None),
     da_group = (\<lambda>r. None), da_insertRole = (\<lambda>r. True), da_subject = (\<lambda>b. None)\<rparr>"

definition recv_session :: session where
  "recv_session = \<lparr>se_from = ''a@x.y'', se_recipients = [''b@c'', ''d@c''], se_roleRecipients = [], se_groupRecipients = [],
     se_clientIP = Some [1, 2, 3, 4], se_helo = []\<rparr>"


subsection \<open>Groups, the MIME index, sessions\<close>

definition demo_group :: mail_group where
  "demo_group = \<lparr>gr_GroupID = replicate 16 4, gr_TenantID = replicate 16 2, gr_Address = ''g@c'', gr_PublicKeyX25519 = toy_pub,
     gr_PublicKeyKEM = [], gr_KeyEpoch = 2, gr_PostingPolicy = ''anyone''\<rparr>"

definition group_headers :: msg_headers where
  "group_headers = fst (stampGroupListHeaders [(''Subject'', [''S''])] pipe_raw ''g@c'')"

definition group_raw :: bytes where
  "group_raw = snd (stampGroupListHeaders [(''Subject'', [''S''])] pipe_raw ''g@c'')"

lemma group_runs:
  "\<not> isl (fst (encrypt_payload pipe_lib toy_pub None group_raw [4] [83] [67] group_headers [] (ps_rnd pipe_start)))"
  "buildRawMeta pipe_lib 200 group_raw = Some [4]" "length group_raw < 100"
  by code_simp+

lemma demo_group_delivers:
  "\<exists>effs s'. ProcessGroupMessage pipe_lib pipe_cfg pipe_world 200 ''a@x.y'' demo_group pipe_raw [1, 2, 3, 4] [] [] pipe_start = Some (PipeOk, effs, s')"
proof -
  let ?sec = "\<lparr>sc_spf = ''pass'', sc_dkim = ''none'', sc_dmarc = ''pass''\<rparr>"
  let ?payload = "encrypt_payload pipe_lib toy_pub None group_raw [4] [83] [67] group_headers []"
  obtain eraw encrypted eatts r where enc: "?payload (ps_rnd pipe_start) = (Inr (eraw, encrypted, eatts), r)"
    using run_ok [where m = ?payload, OF group_runs(1)] by (metis prod_cases3)
  obtain t where rec: "buildEnclaveReceipt pipe_lib pipe_cfg pipe_world group_raw encrypted ''a@x.y'' ?sec 0 ''inbox'' (ps_sender pipe_start) = (Inr [2], t)"
    using pipe_receipt by blast
  have parsed: "parseMessageFull pipe_lib pipe_raw = Inr pipe_parse" using pipe_parsed by (simp add: pipe_parse_def)
  have spam: "spam_check pipe_cfg [1, 2, 3, 4] [] ''a@x.y'' pipe_parse ?sec = (0, ''inbox'')"
    by (simp add: spam_check_def pipe_cfg_def)
  have stamp: "stampGroupListHeaders (pm_Headers pipe_parse) pipe_raw (gr_Address demo_group) = (group_headers, group_raw)"
    by (simp add: group_headers_def group_raw_def pipe_parse_def demo_group_def)
  have members: "en_members pipe_world = Some pipe_members" "skip_members pipe_world [''a@x.y''] = []"
    by (simp_all add: pipe_world_def skip_members_def map_filter_simps)
  have grp: "gr_PublicKeyX25519 demo_group = toy_pub" "gr_PublicKeyKEM demo_group = []" by (simp_all add: demo_group_def)
  show ?thesis
    by (rule group_publishes [OF _ parsed pipe_checks spam stamp _ group_runs(2) _ rec members(1)])
      (use enc grp members(2) pipe_user_facts in \<open>simp_all add: pipe_parse_def receives_def pipe_members_def demo_group_def\<close>,
       simp_all add: pipe_cfg_def pipe_lib_def pipe_world_def)
qed

theorem group_fan_out_witness:
  "\<exists>effs s' base. ProcessGroupMessage pipe_lib pipe_cfg pipe_world 200 ''a@x.y'' demo_group pipe_raw [1, 2, 3, 4] [] [] pipe_start = Some (PipeOk, effs, s')
     \<and> effs = [PublishInbound (''mail.inbound.'' @ uuid_String (replicate 16 2)) (member_copy demo_group base (hd pipe_members))]"
proof -
  obtain effs s' where run: "ProcessGroupMessage pipe_lib pipe_cfg pipe_world 200 ''a@x.y'' demo_group pipe_raw [1, 2, 3, 4] [] [] pipe_start = Some (PipeOk, effs, s')"
    using demo_group_delivers by blast
  have members: "en_members pipe_world = Some pipe_members" "skip_members pipe_world [''a@x.y''] = []"
    by (simp_all add: pipe_world_def skip_members_def map_filter_simps)
  have parsed: "parseMessageFull pipe_lib pipe_raw = Inr pipe_parse" using pipe_parsed by (simp add: pipe_parse_def)
  have stamp: "stampGroupListHeaders (pm_Headers pipe_parse) pipe_raw (gr_Address demo_group) = (group_headers, group_raw)"
    by (simp add: group_headers_def group_raw_def pipe_parse_def demo_group_def)
  have keys: "keys_match (pl_crypto pipe_lib) toy_priv None (gr_PublicKeyX25519 demo_group) (parse_kem (pl_crypto pipe_lib) (gr_PublicKeyKEM demo_group))"
    using pipe_laws(4) pipe_user_facts by (simp add: demo_group_def)
  have small: "length group_raw < 2 ^ 40" using group_runs(3) by simp
  have fil: "filter (receives demo_group []) pipe_members = [hd pipe_members]" by (simp add: receives_def pipe_members_def demo_group_def)
  have acc: "copy_accepted pipe_lib pipe_world m" for m by (simp add: copy_accepted_def pipe_lib_def pipe_world_def)
  obtain base rawMeta where "effs = map (PublishInbound (''mail.inbound.'' @ uuid_String (gr_TenantID demo_group)))
        (filter (copy_accepted pipe_lib pipe_world) (map (member_copy demo_group base) (filter (receives demo_group (skip_members pipe_world [''a@x.y''])) pipe_members)))"
    using group_fan_out [OF run members(1) parsed stamp pipe_laws(1-3) keys small] by blast
  then have "effs = [PublishInbound (''mail.inbound.'' @ uuid_String (replicate 16 2)) (member_copy demo_group base (hd pipe_members))]"
    by (simp only: members(2) fil acc list.map filter.simps if_True) (simp add: demo_group_def)
  then show ?thesis using run by blast
qed

definition demo_tree :: Part where
  "demo_tree = (let i = new_part 0 in Part i [Part (i\<lparr>pt_StartPos := 5\<rparr>) [], Part (i\<lparr>pt_StartPos := 9\<rparr>) []])"

theorem raw_meta_index_witness:
  "rm_Children (fst (flattenParts demo_tree []) ! 0) ! 1 = 2
   \<and> Parts demo_tree ! (rm_Children (fst (flattenParts demo_tree []) ! 0) ! 1) = pt_Children (Parts demo_tree ! 0) ! 1"
proof -
  have h: "0 < length (fst (flattenParts demo_tree []))" "1 < length (rm_Children (fst (flattenParts demo_tree []) ! 0))"
    "rm_Children (fst (flattenParts demo_tree []) ! 0) ! 1 = 2"
    by code_simp+
  from raw_meta_index [of demo_tree, OF refl] h(1)
  have "\<forall>k < length (rm_Children (fst (flattenParts demo_tree []) ! 0)).
      Parts demo_tree ! (rm_Children (fst (flattenParts demo_tree []) ! 0) ! k) = pt_Children (Parts demo_tree ! 0) ! k"
    by blast
  with h(2, 3) show ?thesis by blast
qed

definition demo_rcpt_env :: rcpt_env where
  "demo_rcpt_env = \<lparr>rv_lower = (\<lambda>s. s), rv_roles = False, rv_isDefault = (\<lambda>d. None), rv_resolve = (\<lambda>a. Some \<lparr>rx_UserID = [1], rx_AccountStatus = []\<rparr>),
     rv_groups = None, rv_userByAddress = (\<lambda>a. None), rv_isMember = (\<lambda>g u. False), rv_limit = None, rv_driveUsed = None, rv_used = (\<lambda>u d. None)\<rparr>"

theorem session_recipients_admitted_witness:
  "\<exists>s. se_recipients s = [''b@c''] \<and> se_from s = ''a@b'' \<and> session_ok {demo_rcpt_env} s"
proof -
  let ?s = "snd (Rcpt demo_rcpt_env ''<b@c>'' (snd (Mail None ''a@b'' new_session)))"
  have "session_reach {demo_rcpt_env} ?s" by (intro session_reach.intros) simp
  note ok = session_recipients_admitted [OF this]
  have "se_recipients ?s = [''b@c'']" "se_from ?s = ''a@b''" by code_simp+
  then show ?thesis using ok by blast
qed

end
