(* ===== verification/Watchdog.thy ===== *)
theory Watchdog
  imports Go_Base
begin

text \<open>
  \<open>internal/queue/watchdog.go\<close>: a service publishes heartbeats and counts those that do not come
  back. The goroutine and the subscription callback are steps of one machine, driven by the events
  of the ticker, the grace timer, the broker and the context.
\<close>

subsection \<open>The machine\<close>

record WatchdogConfig =
  wd_Label :: string
  wd_Interval :: int
  wd_GracePeriod :: int
  wd_MaxConsecutiveMisses :: int
  wd_OnFail :: bool

text \<open>The checks and defaults at the start of \<open>StartWatchdog\<close>; \<open>wd_OnFail\<close> says that it is set.\<close>

definition watchdog_config :: "WatchdogConfig \<Rightarrow> string + WatchdogConfig" where
  "watchdog_config cfg =
     (if wd_Label cfg = [] then Inl ''watchdog label required''
      else if \<not> wd_OnFail cfg then Inl ''watchdog OnFail required''
      else Inr (cfg\<lparr>wd_Interval := (if wd_Interval cfg = 0 then 30 * second else wd_Interval cfg),
                    wd_GracePeriod := (if wd_GracePeriod cfg = 0 then 10 * second else wd_GracePeriod cfg),
                    wd_MaxConsecutiveMisses := (if wd_MaxConsecutiveMisses cfg = 0 then 3 else wd_MaxConsecutiveMisses cfg)\<rparr>))"

text \<open>Where the goroutine is: waiting for the ticker or for the grace period of a ping, or finished.\<close>

datatype wd_phase = WdIdle | WdGrace string | WdFailed | WdStopped

record watchdog =
  wd_seen :: "string list"
  wd_misses :: int
  wd_phase :: wd_phase

definition watchdog0 :: watchdog where
  "watchdog0 = \<lparr>wd_seen = [], wd_misses = 0, wd_phase = WdIdle\<rparr>"

definition pending_expect :: "string \<Rightarrow> string list \<Rightarrow> string list" where
  "pending_expect i seen = removeAll i seen"

definition pending_markSeen :: "string \<Rightarrow> string list \<Rightarrow> string list" where
  "pending_markSeen i seen = List.insert i seen"

text \<open>The flag says that the ping was missed.\<close>

definition pending_consume :: "string \<Rightarrow> string list \<Rightarrow> string list \<times> bool" where
  "pending_consume i seen = (if i \<in> set seen then (removeAll i seen, False) else (seen, True))"

definition lastSubjectToken :: "string \<Rightarrow> string" where
  "lastSubjectToken s = (if CHR ''.'' \<in> set s then rev (takeWhile (\<lambda>c. c \<noteq> CHR ''.'') (rev s)) else [])"

text \<open>
  A tick brings the identifier of the new ping, unless no payload could be generated, and whether
  it could be published. \<open>WdMessage\<close> is a message on the subscribed subjects.
\<close>

datatype wd_event = WdTick "(string \<times> bool) option" | WdMessage string | WdGraceOver | WdCancel

definition after_ping :: "int \<Rightarrow> watchdog \<Rightarrow> watchdog" where
  "after_ping maxMisses w = w\<lparr>wd_phase := (if wd_misses w \<ge> maxMisses then WdFailed else WdIdle)\<rparr>"

fun wd_step :: "int \<Rightarrow> wd_event \<Rightarrow> watchdog \<Rightarrow> watchdog" where
  "wd_step maxMisses (WdTick tick) w =
     (case (wd_phase w, tick) of
        (WdIdle, Some (i, published)) \<Rightarrow>
          (let w1 = w\<lparr>wd_seen := pending_expect i (wd_seen w)\<rparr> in
           if published then w1\<lparr>wd_phase := WdGrace i\<rparr>
           else after_ping maxMisses (w1\<lparr>wd_misses := wd_misses w1 + 1\<rparr>))
      | _ \<Rightarrow> w)"
| "wd_step maxMisses WdGraceOver w =
     (case wd_phase w of
        WdGrace i \<Rightarrow>
          (let (seen, missed) = pending_consume i (wd_seen w) in
           after_ping maxMisses (w\<lparr>wd_seen := seen, wd_misses := (if missed then wd_misses w + 1 else 0)\<rparr>))
      | _ \<Rightarrow> w)"
| "wd_step maxMisses (WdMessage subject) w =
     (if wd_phase w = WdFailed \<or> wd_phase w = WdStopped then w
      else let i = lastSubjectToken subject in
        if i \<noteq> [] then w\<lparr>wd_seen := pending_markSeen i (wd_seen w)\<rparr> else w)"
| "wd_step maxMisses WdCancel w = (if wd_phase w = WdFailed then w else w\<lparr>wd_phase := WdStopped\<rparr>)"

fun wd_run :: "int \<Rightarrow> wd_event list \<Rightarrow> watchdog \<Rightarrow> watchdog" where
  "wd_run maxMisses [] w = w"
| "wd_run maxMisses (e # es) w = wd_run maxMisses es (wd_step maxMisses e w)"

subsection \<open>Lemmas\<close>

text \<open>The outcome of a step, if it settles a ping: it came back or it was missed.\<close>

definition wd_outcome :: "wd_event \<Rightarrow> watchdog \<Rightarrow> bool list" where
  "wd_outcome e w =
     (case (e, wd_phase w) of
        (WdTick (Some (i, False)), WdIdle) \<Rightarrow> [False]
      | (WdGraceOver, WdGrace i) \<Rightarrow> [i \<in> set (wd_seen w)]
      | _ \<Rightarrow> [])"

fun wd_outcomes :: "int \<Rightarrow> wd_event list \<Rightarrow> watchdog \<Rightarrow> bool list" where
  "wd_outcomes maxMisses [] w = []"
| "wd_outcomes maxMisses (e # es) w = wd_outcome e w @ wd_outcomes maxMisses es (wd_step maxMisses e w)"

definition trailing_misses :: "bool list \<Rightarrow> int" where
  "trailing_misses os = int (length (takeWhile Not (rev os)))"

lemma trailing_snoc: "trailing_misses (os @ [r]) = (if r then 0 else trailing_misses os + 1)"
  by (simp add: trailing_misses_def)

definition wd_inv :: "int \<Rightarrow> bool list \<Rightarrow> watchdog \<Rightarrow> bool" where
  "wd_inv maxMisses os w =
     (wd_misses w = trailing_misses os \<and>
      (wd_phase w = WdFailed \<longrightarrow> os \<noteq> [] \<and> trailing_misses os \<ge> maxMisses) \<and>
      (wd_phase w = WdIdle \<or> (\<exists>i. wd_phase w = WdGrace i) \<longrightarrow> os = [] \<or> trailing_misses os < maxMisses))"

lemma wd_inv_step: "wd_inv maxMisses os w \<Longrightarrow> wd_inv maxMisses (os @ wd_outcome e w) (wd_step maxMisses e w)"
proof (cases e)
  case (WdTick tick)
  then show "wd_inv maxMisses os w \<Longrightarrow> ?thesis"
    by (auto simp: wd_inv_def wd_outcome_def after_ping_def trailing_snoc Let_def
        split: wd_phase.splits option.splits prod.splits bool.splits)
next
  case WdGraceOver
  then show "wd_inv maxMisses os w \<Longrightarrow> ?thesis"
    by (auto simp: wd_inv_def wd_outcome_def after_ping_def pending_consume_def trailing_snoc Let_def split: wd_phase.splits)
qed (auto simp: wd_inv_def wd_outcome_def Let_def split: wd_phase.splits)

lemma wd_inv_run: "wd_inv maxMisses os w \<Longrightarrow> wd_inv maxMisses (os @ wd_outcomes maxMisses es w) (wd_run maxMisses es w)"
proof (induction es arbitrary: os w)
  case (Cons e es)
  show ?case using Cons.IH [OF wd_inv_step [OF Cons.prems]] by simp
qed simp

lemma finished_stays: "wd_phase w = WdFailed \<or> wd_phase w = WdStopped \<Longrightarrow> wd_outcomes maxMisses es w = []"
proof (induction es arbitrary: w)
  case (Cons e es)
  have "wd_phase (wd_step maxMisses e w) = WdFailed \<or> wd_phase (wd_step maxMisses e w) = WdStopped"
    using Cons.prems by (cases e) (auto simp: Let_def split: option.splits)
  then show ?case using Cons by (auto simp: wd_outcome_def split: wd_event.splits option.splits bool.splits)
qed simp

lemma lastSubjectToken_append: "CHR ''.'' \<notin> set i \<Longrightarrow> lastSubjectToken (p @ ''.'' @ i) = i"
proof -
  assume "CHR ''.'' \<notin> set i"
  then have "takeWhile (\<lambda>c. c \<noteq> CHR ''.'') (rev i @ CHR ''.'' # rev p) = rev i @ takeWhile (\<lambda>c. c \<noteq> CHR ''.'') (CHR ''.'' # rev p)"
    by (intro takeWhile_append2) auto
  then show ?thesis by (simp add: lastSubjectToken_def)
qed

text \<open>
  Messages of other publishers on the same subjects are kept in the map and never removed: after
  \<open>n\<close> of them it has \<open>n\<close> entries, however many pings were settled in between.
\<close>

lemma foreign_messages_accumulate:
  "wd_phase w = WdIdle \<Longrightarrow> distinct is \<Longrightarrow> list_all (\<lambda>i. i \<noteq> [] \<and> CHR ''.'' \<notin> set i) is \<Longrightarrow> set is \<inter> set (wd_seen w) = {} \<Longrightarrow>
   length (wd_seen (wd_run maxMisses (map (\<lambda>i. WdMessage (''_bmail.health.l.'' @ i)) is) w)) = length (wd_seen w) + length is"
proof (induction "is" arbitrary: w)
  case (Cons i "is")
  have "lastSubjectToken (''_bmail.health.l.'' @ i) = i"
    using lastSubjectToken_append [of i "''_bmail.health.l''"] Cons.prems(3) by simp
  then have step: "wd_step maxMisses (WdMessage (''_bmail.health.l.'' @ i)) w = w\<lparr>wd_seen := i # wd_seen w\<rparr>"
    using Cons.prems by (simp add: pending_markSeen_def)
  have "length (wd_seen (wd_run maxMisses (map (\<lambda>i. WdMessage (''_bmail.health.l.'' @ i)) is) (w\<lparr>wd_seen := i # wd_seen w\<rparr>)))
      = length (i # wd_seen w) + length is"
    using Cons.IH [of "w\<lparr>wd_seen := i # wd_seen w\<rparr>"] Cons.prems by simp
  then show ?case using step by (simp del: wd_step.simps)
qed simp

subsection \<open>Properties\<close>

text \<open>
  C38: The watchdog fires exactly after the configured number of consecutive misses: in any run of
  events, \<open>OnFail\<close> has been called if and only if the settled pings end in at least that many
  misses, unless the context was cancelled first; while it runs there are fewer, and once it has
  fired or stopped no ping is settled any more.
\<close>

theorem watchdog_fires:
  assumes "0 < maxMisses"
  shows "let w = wd_run maxMisses es watchdog0; os = wd_outcomes maxMisses es watchdog0 in
    wd_misses w = trailing_misses os
    \<and> (wd_phase w \<noteq> WdStopped \<longrightarrow> (wd_phase w = WdFailed \<longleftrightarrow> trailing_misses os \<ge> maxMisses))
    \<and> (wd_phase w = WdFailed \<or> wd_phase w = WdStopped \<longrightarrow> wd_outcomes maxMisses later_events w = [])"
proof -
  have "wd_inv maxMisses [] watchdog0" by (simp add: wd_inv_def watchdog0_def trailing_misses_def)
  from wd_inv_run [OF this, of es] have inv: "wd_inv maxMisses (wd_outcomes maxMisses es watchdog0) (wd_run maxMisses es watchdog0)"
    by simp
  show ?thesis
    using inv assms finished_stays [of "wd_run maxMisses es watchdog0" maxMisses later_events]
    by (cases "wd_phase (wd_run maxMisses es watchdog0)") (auto simp: wd_inv_def Let_def trailing_misses_def)
qed

theorem watchdog_fires_witness:
  "wd_phase (wd_run 2 [WdTick (Some (''a'', True)), WdGraceOver, WdTick (Some (''b'', False))] watchdog0) = WdFailed"
proof -
  have "trailing_misses (wd_outcomes 2 [WdTick (Some (''a'', True)), WdGraceOver, WdTick (Some (''b'', False))] watchdog0) = 2"
    "wd_phase (wd_run 2 [WdTick (Some (''a'', True)), WdGraceOver, WdTick (Some (''b'', False))] watchdog0) \<noteq> WdStopped"
    by code_simp+
  then show ?thesis
    using watchdog_fires [of 2 "[WdTick (Some (''a'', True)), WdGraceOver, WdTick (Some (''b'', False))]"] by (simp add: Let_def)
qed

end
