(* ===== verification/Go_Text.thy ===== *)
theory Go_Text
  imports Bounce
begin

text \<open>
  What the outbound sources use of the packages \<open>strings\<close>, \<open>unicode/utf8\<close>, \<open>html\<close>, \<open>net/url\<close>,
  \<open>strconv\<close> and \<open>regexp\<close>. Regular expressions are matched as Go matches them: of all the matches at
  the leftmost position the one a backtracking search finds first.
\<close>

subsection \<open>Replacing\<close>

text \<open>\<open>strings.ReplaceAll\<close> with a nonempty old string.\<close>

function replaceAll :: "string \<Rightarrow> string \<Rightarrow> string \<Rightarrow> string" where
  "replaceAll s old new =
     (if s = [] then []
      else if old \<noteq> [] \<and> hasPrefix s old then new @ replaceAll (drop (length old) s) old new
      else hd s # replaceAll (tl s) old new)"
  by pat_completeness auto
termination
  by (relation "measure (\<lambda>(s, old, new). length s)") auto

declare replaceAll.simps [simp del]

subsection \<open>Runes\<close>

text \<open>The bytes of the rune at the head; none if they are not UTF-8, and then one byte stands for U+FFFD.\<close>

definition rune_len :: "string \<Rightarrow> nat" where
  "rune_len s = (case List.find (\<lambda>n. n \<le> length s \<and> valid_utf8 (take n s)) [1, 2, 3, 4] of None \<Rightarrow> 0 | Some n \<Rightarrow> n)"

definition rune_error :: string where
  "rune_error = [CHR 0xEF, CHR 0xBF, CHR 0xBD]"

function runes :: "string \<Rightarrow> string list" where
  "runes s =
     (if s = [] then []
      else if rune_len s = 0 then rune_error # runes (tl s)
      else take (rune_len s) s # runes (drop (rune_len s) s))"
  by pat_completeness auto
termination
  by (relation "measure length") auto

declare runes.simps [simp del]

subsection \<open>Escaping\<close>

definition html_escape_char :: "char \<Rightarrow> string" where
  "html_escape_char c =
     (if c = CHR ''&'' then ''&amp;''
      else if c = CHR 0x27 then ''&#39;''
      else if c = CHR ''<'' then ''&lt;''
      else if c = CHR ''>'' then ''&gt;''
      else if c = CHR 0x22 then ''&#34;''
      else [c])"

definition EscapeString :: "string \<Rightarrow> string" where
  "EscapeString s = concat (map html_escape_char s)"

definition upperhex :: "nat \<Rightarrow> char" where
  "upperhex n = (if n < 10 then char_of (48 + n) else char_of (55 + n))"

text \<open>\<open>%%%02X\<close> of a byte.\<close>

definition percent_byte :: "char \<Rightarrow> string" where
  "percent_byte c = [CHR ''%'', upperhex (of_char c div 16), upperhex (of_char c mod 16)]"

definition url_unreserved :: "char \<Rightarrow> bool" where
  "url_unreserved c =
     (is_upper c \<or> is_lower c \<or> is_digit c \<or> c = CHR ''.'' \<or> c = CHR ''-'' \<or> c = CHR ''_'' \<or> c = CHR ''~'')"

definition QueryEscape :: "string \<Rightarrow> string" where
  "QueryEscape s = concat (map (\<lambda>c. if url_unreserved c then [c] else if c = CHR '' '' then ''+'' else percent_byte c) s)"

subsection \<open>Numbers\<close>

text \<open>\<open>strconv.Atoi\<close>: an optional sign and digits, in the range of an \<open>int\<close>.\<close>

definition Atoi :: "string \<Rightarrow> int option" where
  "Atoi s =
     (let neg = (s \<noteq> [] \<and> hd s = CHR ''-'');
          ds = (if s \<noteq> [] \<and> (hd s = CHR ''-'' \<or> hd s = CHR ''+'') then tl s else s);
          v = (if neg then - digits_val ds else digits_val ds)
      in if ds = [] \<or> \<not> list_all is_digit ds then None
         else if v < - (2 ^ 63) \<or> v \<ge> 2 ^ 63 then None else Some v)"

text \<open>\<open>%03d\<close> of a number that is not negative.\<close>

definition pad3 :: "nat \<Rightarrow> string" where
  "pad3 n = replicate (3 - length (dec_digits n)) (CHR ''0'') @ dec_digits n"

subsection \<open>Regular expressions\<close>

datatype rx =
    Lit string
  | OneOf "char \<Rightarrow> bool"
  | Many "char \<Rightarrow> bool"
  | WordB
  | TextEnd
  | Group rx
  | Then rx rx
  | Or rx rx
  | Maybe rx

definition word_char :: "char \<Rightarrow> bool" where
  "word_char c = (is_upper c \<or> is_lower c \<or> is_digit c \<or> c = CHR ''_'')"

definition rx_space :: "char \<Rightarrow> bool" where
  "rx_space c = (c \<in> {CHR 0x09, CHR 0x0A, CHR 0x0C, CHR 0x0D, CHR '' ''})"

text \<open>A position is the character before it, if there is one, and the text after it.\<close>

type_synonym rx_pos = "char option \<times> string"

definition advance :: "nat \<Rightarrow> rx_pos \<Rightarrow> rx_pos" where
  "advance n p = (if n = 0 then p else (Some (snd p ! (n - 1)), drop n (snd p)))"

definition at_word_boundary :: "rx_pos \<Rightarrow> bool" where
  "at_word_boundary p =
     ((case fst p of None \<Rightarrow> False | Some c \<Rightarrow> word_char c) \<noteq> (case snd p of [] \<Rightarrow> False | c # _ \<Rightarrow> word_char c))"

text \<open>The matches from a position, in the order of a backtracking search, with their submatches.\<close>

fun rx_run :: "rx \<Rightarrow> rx_pos \<Rightarrow> (string list \<times> rx_pos) list" where
  "rx_run (Lit w) p = (if hasPrefix (snd p) w then [([], advance (length w) p)] else [])"
| "rx_run (OneOf f) p = (case snd p of [] \<Rightarrow> [] | c # _ \<Rightarrow> if f c then [([], advance 1 p)] else [])"
| "rx_run (Many f) p = map (\<lambda>n. ([], advance n p)) (rev [0..<Suc (length (takeWhile f (snd p)))])"
| "rx_run WordB p = (if at_word_boundary p then [([], p)] else [])"
| "rx_run TextEnd p = (if snd p = [] then [([], p)] else [])"
| "rx_run (Group r) p =
     map (\<lambda>m. (take (length (snd p) - length (snd (snd m))) (snd p) # fst m, snd m)) (rx_run r p)"
| "rx_run (Then a b) p =
     concat (map (\<lambda>m. map (\<lambda>k. (fst m @ fst k, snd k)) (rx_run b (snd m))) (rx_run a p))"
| "rx_run (Or a b) p = rx_run a p @ rx_run b p"
| "rx_run (Maybe r) p = rx_run r p @ [([], p)]"

text \<open>\<open>FindStringSubmatch\<close>: the submatches of the first match at the leftmost position that has one.\<close>

fun rx_find :: "rx \<Rightarrow> char option \<Rightarrow> string \<Rightarrow> string list option" where
  "rx_find r prev s =
     (case rx_run r (prev, s) of
        m # _ \<Rightarrow> Some (fst m)
      | [] \<Rightarrow> (case s of [] \<Rightarrow> None | c # cs \<Rightarrow> rx_find r (Some c) cs))"

declare rx_find.simps [simp del]

subsection \<open>Lemmas\<close>

lemma replaceAll_Nil [simp]: "replaceAll [] old new = []"
  by (simp add: replaceAll.simps)

lemma replaceAll_set: "set (replaceAll s old new) \<subseteq> set s \<union> set new"
proof (induction s old new rule: replaceAll.induct)
  case (1 s old new)
  show ?case
  proof (cases "s = []")
    case False
    then have "hd s \<in> set s" "set (tl s) \<subseteq> set s" "set (drop (length old) s) \<subseteq> set s"
      by (auto dest: in_set_dropD list.set_sel(2))
    then show ?thesis using 1 False by (subst replaceAll.simps) auto
  qed simp
qed

lemma one_line_replaceAll: "one_line s \<Longrightarrow> one_line new \<Longrightarrow> one_line (replaceAll s old new)"
  using replaceAll_set [of s old new] by (auto simp: one_line_def)

text \<open>Replacing a single character acts on each character.\<close>

lemma replaceAll_char: "replaceAll s [c] new = concat (map (\<lambda>x. if x = c then new else [x]) s)"
proof (induction s)
  case (Cons x s)
  then show ?case by (subst replaceAll.simps) (auto simp: hasPrefix_def)
qed simp

lemma upperhex_one_line: "n < 16 \<Longrightarrow> upperhex n \<noteq> cr \<and> upperhex n \<noteq> lf"
proof -
  assume n: "n < 16"
  have "(of_char (upperhex n) :: nat) \<noteq> 13 \<and> (of_char (upperhex n) :: nat) \<noteq> 10"
    using n by (simp add: upperhex_def of_char_char_of_small)
  then show ?thesis by (auto simp: cr_def lf_def)
qed

lemma of_char_nibbles: "(of_char (c :: char) :: nat) div 16 < 16" "(of_char c :: nat) mod 16 < 16"
  by (rule less_mult_imp_div_less) simp_all

end
