(* ===== verification/Compose.thy ===== *)
theory Compose
  imports Go_Text
begin

text \<open>
  \<open>composeRFC5322\<close> of \<open>cmd/smtp-outbound/main.go\<close> and the functions it calls: the message a client
  asked for becomes the text that is signed and sent. Base64, \<open>html.UnescapeString\<close>, changes of case
  and the parsing and printing of dates are parameters.
\<close>

subsection \<open>Data\<close>

record plaintextAttachment =
  px_AttachmentID :: string
  px_Filename :: string
  px_ContentType :: string
  px_Data :: string

record OutboundMessage =
  om_ToAddress :: string
  om_SenderAddress :: string
  om_EncryptedBody :: string
  om_EncryptedSubject :: string
  om_EncryptedMessageKey :: string
  om_EphemeralPubkey :: string
  om_TenantID :: string
  om_EncryptionType :: string
  om_RFCMessageID :: string
  om_SenderDisplayName :: string
  om_AttachmentIDs :: "string list"
  om_SenderUserID :: string
  om_SenderTier :: string
  om_SenderAffiliateCode :: string
  om_PlaintextAttachments :: "plaintextAttachment list"
  om_CcAddresses :: "string list"
  om_InReplyTo :: string
  om_BodyFormat :: string
  om_Attempt :: int

record mimeAttachment =
  ma_Filename :: string
  ma_ContentType :: string
  ma_Data :: bytes

record cidImage =
  ci_CID :: string
  ci_ContentType :: string
  ci_Data :: bytes

record text_lib =
  tl_encode :: "bytes \<Rightarrow> string"
  tl_decode :: "string \<Rightarrow> bytes option"
  tl_decode_url :: "string \<Rightarrow> bytes option"
  tl_unescape :: "string \<Rightarrow> string"
  tl_upper :: "string \<Rightarrow> string"
  tl_lower :: "string \<Rightarrow> string"
  tl_date :: "string \<Rightarrow> string option"
  tl_datetime :: "string \<Rightarrow> string option"

text \<open>What one call reads from the clock and from \<open>uuid.New\<close>.\<close>

record compose_env =
  ce_uuid :: string
  ce_date :: string
  ce_alt_nano :: int
  ce_rel_nano :: int
  ce_mixed_nano :: int
  ce_cal_nano :: int

definition quot :: string where "quot = [CHR 0x22]"

subsection \<open>Small functions\<close>

definition normalizeEditorHTML :: "string \<Rightarrow> string" where
  "normalizeEditorHTML s = replaceAll (replaceAll s ''<div><br></div>'' ''<br>'') ''<div><br/></div>'' ''<br>''"

text \<open>The same replacer as \<open>sanitizeHeader\<close> of the bounce messages.\<close>

definition sanitizeHeaderValue :: "string \<Rightarrow> string" where
  "sanitizeHeaderValue s = sanitizeHeader s"

definition encodeRFC2231Filename :: "string \<Rightarrow> string" where
  "encodeRFC2231Filename filename = concat (map (\<lambda>c. if url_unreserved c then [c] else percent_byte c) filename)"

definition chars_of :: "bytes \<Rightarrow> string" where
  "chars_of bs = map (\<lambda>b. char_of (unat b)) bs"

definition base64Decode :: "text_lib \<Rightarrow> string \<Rightarrow> string option" where
  "base64Decode T s =
     (case tl_decode T s of
        Some b \<Rightarrow> Some (chars_of b)
      | None \<Rightarrow> map_option chars_of (tl_decode_url T s))"

fun strip_tags :: "bool \<Rightarrow> string list \<Rightarrow> string" where
  "strip_tags inTag [] = []"
| "strip_tags inTag (r # rs) =
     (if r = ''<'' then strip_tags True rs
      else if r = ''>'' then strip_tags False rs
      else (if inTag then [] else r) @ strip_tags inTag rs)"

definition stripHTMLTags :: "string \<Rightarrow> string" where
  "stripHTMLTags s = strip_tags False (runes s)"

subsection \<open>Inline images\<close>

definition safeImageMIMEs :: "string list" where
  "safeImageMIMEs = [''png'', ''jpeg'', ''jpg'', ''gif'', ''webp'', ''bmp'', ''ico'', ''avif'']"

definition is_quote :: "char \<Rightarrow> bool" where
  "is_quote c = (c = CHR 0x22 \<or> c = CHR 0x27)"

definition not_gt :: "char \<Rightarrow> bool" where
  "not_gt c = (c \<noteq> CHR ''>'')"

definition subtype_char :: "char \<Rightarrow> bool" where
  "subtype_char c = (is_upper c \<or> is_lower c \<or> is_digit c \<or> c = CHR ''+'' \<or> c = CHR ''.'' \<or> c = CHR ''-'')"

definition b64_char :: "char \<Rightarrow> bool" where
  "b64_char c = (is_upper c \<or> is_lower c \<or> is_digit c \<or> c = CHR ''+'' \<or> c = CHR ''/'' \<or> c = CHR ''='' \<or> rx_space c)"

fun rx_seq :: "rx list \<Rightarrow> rx" where
  "rx_seq [] = Lit []"
| "rx_seq [r] = r"
| "rx_seq (r # rs) = Then r (rx_seq rs)"

definition dataURIRegexp :: rx where
  "dataURIRegexp = rx_seq
     [Group (rx_seq [Lit ''<img'', WordB, Many not_gt, WordB, Lit ''src'', Many rx_space, Lit ''='', Many rx_space, OneOf is_quote]),
      Lit ''data:image/'',
      Group (rx_seq [OneOf subtype_char, Many subtype_char]),
      Lit '';base64,'',
      Group (rx_seq [OneOf b64_char, Many b64_char]),
      Group (rx_seq [OneOf is_quote, Many not_gt, Lit ''>''])]"

definition bounceReasonRegexp :: rx where
  "bounceReasonRegexp = rx_seq
     [Many rx_space,
      Group (Or (rx_seq [Maybe (rx_seq [OneOf is_digit, OneOf is_digit, OneOf is_digit, OneOf rx_space, Many rx_space]),
                         OneOf is_digit, Many is_digit, Lit ''.'', OneOf is_digit, Many is_digit, Lit ''.'', OneOf is_digit, Many is_digit])
                (rx_seq [OneOf is_digit, OneOf is_digit, OneOf is_digit])),
      WordB, Many rx_space, Group (Many (\<lambda>c. c \<noteq> lf)), TextEnd]"

text \<open>The expression is anchored, so that it is tried at the start only.\<close>

definition splitBounceReason :: "string \<Rightarrow> string \<times> string" where
  "splitBounceReason reason =
     (case rx_run bounceReasonRegexp (None, reason) of
        [] \<Rightarrow> ([], reason)
      | m # _ \<Rightarrow> (fst m ! 0, fst m ! 1))"

text \<open>The function called on one match; \<open>counter\<close> images were taken before it.\<close>

definition replace_image :: "text_lib \<Rightarrow> nat \<Rightarrow> string \<Rightarrow> string \<times> cidImage list" where
  "replace_image T counter m =
     (case rx_find dataURIRegexp None m of
        Some [prefix, imgType, b64Data, suffix] \<Rightarrow>
          if tl_lower T imgType \<notin> set safeImageMIMEs then (m, [])
          else (case tl_decode T (concat (strFields b64Data)) of
                  None \<Rightarrow> (m, [])
                | Some raw \<Rightarrow>
                    (let cid = ''img'' @ pad3 (counter + 1) @ ''@bmail.ag'' in
                     (prefix @ ''cid:'' @ cid @ suffix,
                      [\<lparr>ci_CID = cid, ci_ContentType = ''image/'' @ imgType, ci_Data = raw\<rparr>])))
      | _ \<Rightarrow> (m, []))"

text \<open>\<open>ReplaceAllStringFunc\<close>, from left to right.\<close>

function replace_images :: "text_lib \<Rightarrow> nat \<Rightarrow> char option \<Rightarrow> string \<Rightarrow> string \<times> cidImage list" where
  "replace_images T counter prev s =
     (case s of
        [] \<Rightarrow> ([], [])
      | c # cs \<Rightarrow>
          (case rx_run dataURIRegexp (prev, s) of
             m # _ \<Rightarrow>
               if length (snd (snd m)) < length s then
                 (let r = replace_image T counter (take (length s - length (snd (snd m))) s);
                      rest = replace_images T (counter + length (snd r)) (fst (snd m)) (snd (snd m))
                  in (fst r @ fst rest, snd r @ snd rest))
               else (s, [])
           | [] \<Rightarrow>
               (let rest = replace_images T counter (Some c) cs in (c # fst rest, snd rest))))"
  by pat_completeness auto
termination
  by (relation "measure (\<lambda>(T, n, p, s). length s)") auto

declare replace_images.simps [simp del]

definition extractInlineImages :: "text_lib \<Rightarrow> string \<Rightarrow> string \<times> cidImage list" where
  "extractInlineImages T htm = replace_images T 0 None htm"

text \<open>Base64 in lines of 76 characters.\<close>

function base64_lines :: "string \<Rightarrow> string" where
  "base64_lines s = (if s = [] then [] else take 76 s @ crlf @ base64_lines (drop 76 s))"
  by pat_completeness auto
termination
  by (relation "measure length") auto

declare base64_lines.simps [simp del]

definition writeBase64Lines :: "text_lib \<Rightarrow> bytes \<Rightarrow> string" where
  "writeBase64Lines T data = base64_lines (tl_encode T data)"

subsection \<open>Calendar messages\<close>

definition appendFreeTierFooter :: "string \<Rightarrow> string \<Rightarrow> string \<Rightarrow> string \<Rightarrow> string" where
  "appendFreeTierFooter body format senderDomain affiliateCode =
     (let senderDomain = (if senderDomain = [] then ''bmail.ag'' else senderDomain);
          signupURL = (if affiliateCode \<noteq> [] then ''https://bmail.ag/?_a='' @ QueryEscape affiliateCode else ''https://bmail.ag/'');
          dash = [CHR 0xE2, CHR 0x80, CHR 0x94];
          arrow = [CHR 0xE2, CHR 0x86, CHR 0x92]
      in if format = ''plain''
         then body @ crlf @ crlf @ ''-- '' @ crlf @ ''Sent with bmail '' @ dash @ '' private encrypted email. Get your @'' @ senderDomain
                @ '' email free at '' @ signupURL @ crlf
         else body @ ''<div style='' @ quot @ ''margin-top:24px;padding-top:8px;border-top:1px solid #eee;color:#888;font:12px -apple-system,BlinkMacSystemFont,Segoe UI,sans-serif''
                @ quot @ ''><a href='' @ quot @ signupURL @ quot @ '' style='' @ quot @ ''color:#888;text-decoration:none'' @ quot
                @ ''>Sent with bmail '' @ dash @ '' private encrypted email. Get your @'' @ senderDomain @ '' email free '' @ arrow @ ''</a></div>'')"

definition normalize_newlines :: "string \<Rightarrow> string" where
  "normalize_newlines body = replaceAll (replaceAll body crlf [lf]) [cr] [lf]"

fun ics_method :: "text_lib \<Rightarrow> string list \<Rightarrow> string" where
  "ics_method T [] = []"
| "ics_method T (line # ls) =
     (let trimmed = trimSpace line in
      if hasPrefix (tl_upper T trimmed) ''METHOD:'' then trimSpace (drop (length ''METHOD:'') trimmed)
      else ics_method T ls)"

definition extractICSMethod :: "text_lib \<Rightarrow> string \<Rightarrow> string" where
  "extractICSMethod T body = ics_method T (splitStr lf (normalize_newlines body))"

text \<open>The expression \<open>icsFoldRe\<close> is a line end followed by a space or a tab.\<close>

fun unfold_ics :: "string \<Rightarrow> string" where
  "unfold_ics [] = []"
| "unfold_ics [c] = [c]"
| "unfold_ics (c # e # s) =
     (if c = lf \<and> (e = CHR '' '' \<or> e = CHR 0x09) then unfold_ics s else c # unfold_ics (e # s))"

definition icsUnfoldLines :: "string \<Rightarrow> string list" where
  "icsUnfoldLines body =
     filter (\<lambda>l. trimSpace l \<noteq> []) (splitStr lf (unfold_ics (normalize_newlines body)))"

fun icsProp :: "text_lib \<Rightarrow> string list \<Rightarrow> string \<Rightarrow> string \<times> string" where
  "icsProp T [] nm = ([], [])"
| "icsProp T (l # ls) nm =
     (case cut_at (CHR '':'') l of
        None \<Rightarrow> icsProp T ls nm
      | Some (key, val) \<Rightarrow>
          (let kn = (case cut_at (CHR '';'') key of None \<Rightarrow> key | Some (k, _) \<Rightarrow> k) in
           if tl_upper T (trimSpace kn) = tl_upper T nm
           then (case cut_at (CHR '';'') key of None \<Rightarrow> [] | Some (_, p) \<Rightarrow> p, val)
           else icsProp T ls nm))"

definition backslash :: char where "backslash = CHR 0x5C"

definition icsUnescapeText :: "string \<Rightarrow> string" where
  "icsUnescapeText s =
     (let s1 = replaceAll s [backslash, CHR ''n''] [lf];
          s2 = replaceAll s1 [backslash, CHR ''N''] [lf];
          s3 = replaceAll s2 [backslash, CHR '',''] '','';
          s4 = replaceAll s3 [backslash, CHR '';''] '';'';
          s5 = replaceAll s4 [backslash, backslash] [backslash]
      in trimSpace s5)"

text \<open>The two parameters parse a date, or a date and time, and print it.\<close>

definition icsHumanWhen :: "text_lib \<Rightarrow> string list \<Rightarrow> string" where
  "icsHumanWhen T ls =
     (case icsProp T ls ''DTSTART'' of (params, v0) \<Rightarrow>
      let val = trimSpace v0;
          all_day = containsStr (tl_upper T params) ''VALUE=DATE'' \<or> length val = 8;
          v = (if hasSuffix val ''Z'' then butlast val else val);
          suffix = (if hasSuffix val ''Z'' then '' UTC'' else []);
          timed = (case tl_datetime T v of Some t \<Rightarrow> t @ suffix | None \<Rightarrow> val)
      in if val = [] then []
         else if all_day then (case tl_date T val of Some t \<Rightarrow> t @ '' (all day)'' | None \<Rightarrow> timed)
         else timed)"

text \<open>\<open>strings.LastIndex\<close>.\<close>

fun last_index :: "string \<Rightarrow> string \<Rightarrow> nat option" where
  "last_index [] sub = (if sub = [] then Some 0 else None)"
| "last_index (c # cs) sub =
     (case last_index cs sub of
        Some i \<Rightarrow> Some (Suc i)
      | None \<Rightarrow> if hasPrefix (c # cs) sub then Some 0 else None)"

record ics_summary =
  ic_verb :: string
  ic_summary :: string
  ic_when :: string
  ic_loc :: string
  ic_desc :: string
  ic_org :: string

text \<open>
  The index of \<open>mailto:\<close> comes from the lowered text, which may be longer than the text itself that
  is then sliced; slicing past its end panics, the value None.
\<close>

definition ics_organizer :: "text_lib \<Rightarrow> string \<Rightarrow> string option" where
  "ics_organizer T org =
     (case last_index (tl_lower T org) ''mailto:'' of
        None \<Rightarrow> Some []
      | Some i \<Rightarrow> if i + 7 \<le> length org then Some (trimSpace (drop (i + 7) org)) else None)"

definition ics_read :: "text_lib \<Rightarrow> string \<Rightarrow> ics_summary option" where
  "ics_read T body =
     (let ls = icsUnfoldLines body;
          summary = icsUnescapeText (snd (icsProp T ls ''SUMMARY''));
          m = tl_upper T (extractICSMethod T body)
      in case ics_organizer T (snd (icsProp T ls ''ORGANIZER'')) of
           None \<Rightarrow> None
         | Some orgEmail \<Rightarrow>
             Some \<lparr>ic_verb = (if m = ''CANCEL'' then ''This event was cancelled''
                              else if m = ''REPLY'' then ''RSVP update for''
                              else ''You'' @ [CHR 0x27] @ ''ve been invited to''),
                   ic_summary = (if summary = [] then ''(untitled event)'' else summary),
                   ic_when = icsHumanWhen T ls,
                   ic_loc = icsUnescapeText (snd (icsProp T ls ''LOCATION'')),
                   ic_desc = icsUnescapeText (snd (icsProp T ls ''DESCRIPTION'')),
                   ic_org = orgEmail\<rparr>)"

definition pin :: string where "pin = [CHR 0xF0, CHR 0x9F, CHR 0x93, CHR 0x8D]"

definition ics_html :: "ics_summary \<Rightarrow> string" where
  "ics_html e =
     ''<p>'' @ EscapeString (ic_verb e) @ '':</p><p><strong>'' @ EscapeString (ic_summary e) @ ''</strong>''
     @ (if ic_when e \<noteq> [] then ''<br>'' @ EscapeString (ic_when e) else [])
     @ ''</p>''
     @ (if ic_loc e = [] then []
        else if hasPrefix (ic_loc e) ''http://'' \<or> hasPrefix (ic_loc e) ''https://''
        then ''<p>'' @ pin @ '' <a href='' @ quot @ EscapeString (ic_loc e) @ quot @ ''>'' @ EscapeString (ic_loc e) @ ''</a></p>''
        else ''<p>'' @ pin @ '' '' @ EscapeString (ic_loc e) @ ''</p>'')
     @ (if ic_desc e \<noteq> [] then ''<p>'' @ replaceAll (EscapeString (ic_desc e)) [lf] ''<br>'' @ ''</p>'' else [])
     @ (if ic_org e \<noteq> [] then ''<p style='' @ quot @ ''color:#888;font-size:13px'' @ quot @ ''>Organizer: '' @ EscapeString (ic_org e) @ ''</p>'' else [])"

definition ics_plain :: "ics_summary \<Rightarrow> string" where
  "ics_plain e =
     ic_verb e @ '':'' @ [lf] @ ic_summary e @ [lf]
     @ (if ic_when e \<noteq> [] then ic_when e @ [lf] else [])
     @ (if ic_loc e \<noteq> [] then ic_loc e @ [lf] else [])
     @ (if ic_desc e \<noteq> [] then [lf] @ ic_desc e @ [lf] else [])
     @ (if ic_org e \<noteq> [] then [lf] @ ''Organizer: '' @ ic_org e @ [lf] else [])"

definition icsFriendlyBody :: "text_lib \<Rightarrow> string \<Rightarrow> (string \<times> string) option" where
  "icsFriendlyBody T body = map_option (\<lambda>e. (ics_plain e, ics_html e)) (ics_read T body)"

subsection \<open>The message\<close>

definition emit_line :: "string \<Rightarrow> string" where
  "emit_line s = s @ crlf"

definition message_id :: "compose_env \<Rightarrow> OutboundMessage \<Rightarrow> string" where
  "message_id C om =
     (if om_RFCMessageID om \<noteq> [] then om_RFCMessageID om
      else ''<'' @ ce_uuid C @ ''@''
             @ (case after_last (CHR ''@'') (om_SenderAddress om) of None \<Rightarrow> ''bmail.ag'' | Some d \<Rightarrow> d) @ ''>'')"

definition or_itself :: "string option \<Rightarrow> string \<Rightarrow> string" where
  "or_itself x s = (case x of None \<Rightarrow> s | Some v \<Rightarrow> v)"

definition compose_subject :: "text_lib \<Rightarrow> OutboundMessage \<Rightarrow> string" where
  "compose_subject T om =
     (let subject = (if om_EncryptedSubject om = [] then ''(no subject)'' else om_EncryptedSubject om) in
      if om_EncryptionType om = ''plaintext'' then sanitizeHeaderValue (or_itself (base64Decode T subject) subject) else subject)"

definition compose_body :: "text_lib \<Rightarrow> OutboundMessage \<Rightarrow> string" where
  "compose_body T om =
     (let body = om_EncryptedBody om in
      if om_EncryptionType om = ''plaintext'' then
        (let body1 = replaceAll (or_itself (base64Decode T body) body) [nul] [];
             senderDomain = (case after_last (CHR ''@'') (om_SenderAddress om) of None \<Rightarrow> [] | Some d \<Rightarrow> d)
         in if om_SenderTier om = ''free''
            then appendFreeTierFooter body1 (om_BodyFormat om) senderDomain (om_SenderAffiliateCode om)
            else body1)
      else body)"

definition from_line :: "OutboundMessage \<Rightarrow> string" where
  "from_line om =
     (if om_SenderDisplayName om \<noteq> [] then
        (let n1 = sanitizeHeaderValue (om_SenderDisplayName om);
             n2 = replaceAll n1 [backslash] [backslash, backslash];
             n3 = replaceAll n2 quot ([backslash] @ quot)
         in ''From: '' @ quot @ n3 @ quot @ '' <'' @ sanitizeHeaderValue (om_SenderAddress om) @ ''>'')
      else ''From: '' @ sanitizeHeaderValue (om_SenderAddress om))"

fun join_comma :: "string list \<Rightarrow> string" where
  "join_comma [] = []"
| "join_comma [x] = x"
| "join_comma (x # xs) = x @ '', '' @ join_comma xs"

text \<open>The header lines up to \<open>MIME-Version\<close>, without their line ends.\<close>

definition header_lines :: "text_lib \<Rightarrow> compose_env \<Rightarrow> OutboundMessage \<Rightarrow> string list" where
  "header_lines T C om =
     [from_line om, ''To: '' @ sanitizeHeaderValue (om_ToAddress om)]
     @ (if om_CcAddresses om \<noteq> [] then [''Cc: '' @ join_comma (map sanitizeHeaderValue (om_CcAddresses om))] else [])
     @ [''Subject: '' @ sanitizeHeaderValue (compose_subject T om),
        ''Date: '' @ ce_date C,
        ''Message-Id: '' @ message_id C om]
     @ (if om_InReplyTo om \<noteq> []
        then [''In-Reply-To: '' @ sanitizeHeaderValue (om_InReplyTo om), ''References: '' @ sanitizeHeaderValue (om_InReplyTo om)] else [])
     @ [''MIME-Version: 1.0'']"

definition plain_alternative :: "text_lib \<Rightarrow> string \<Rightarrow> string" where
  "plain_alternative T body =
     (let p1 = replaceAll body ''<br>'' [lf];
          p2 = replaceAll p1 ''<br/>'' [lf];
          p3 = replaceAll p2 ''<br />'' [lf];
          p4 = replaceAll p3 ''</p>'' [lf];
          p5 = replaceAll p4 ''</div>'' [lf]
      in tl_unescape T (stripHTMLTags p5))"

definition boundary_param :: "string \<Rightarrow> string" where
  "boundary_param b = ''; boundary='' @ quot @ b @ quot"

definition html_page :: "string \<Rightarrow> string" where
  "html_page body = ''<!DOCTYPE html><html><body>'' @ body @ ''</body></html>''"

definition writeAltParts :: "text_lib \<Rightarrow> compose_env \<Rightarrow> bool \<Rightarrow> string \<Rightarrow> string" where
  "writeAltParts T C isHTML body =
     (if \<not> isHTML then emit_line ''Content-Type: text/plain; charset=utf-8'' @ emit_line [] @ emit_line (tl_unescape T body)
      else
        (let altBoundary = ''=_bmail_alt_'' @ showInt (ce_alt_nano C) in
         emit_line (''Content-Type: multipart/alternative'' @ boundary_param altBoundary) @ emit_line []
         @ emit_line (''--'' @ altBoundary) @ emit_line ''Content-Type: text/plain; charset=utf-8'' @ emit_line [] @ emit_line (trimSpace (plain_alternative T body))
         @ emit_line (''--'' @ altBoundary) @ emit_line ''Content-Type: text/html; charset=utf-8'' @ emit_line [] @ emit_line (html_page body)
         @ emit_line (''--'' @ altBoundary @ ''--'')))"

definition image_part :: "text_lib \<Rightarrow> string \<Rightarrow> cidImage \<Rightarrow> string" where
  "image_part T b im =
     emit_line (''--'' @ b) @ emit_line (''Content-Type: '' @ ci_ContentType im) @ emit_line ''Content-Transfer-Encoding: base64''
     @ emit_line (''Content-ID: <'' @ ci_CID im @ ''>'') @ emit_line ''Content-Disposition: inline'' @ emit_line [] @ writeBase64Lines T (ci_Data im)"

definition writeRelatedParts :: "text_lib \<Rightarrow> compose_env \<Rightarrow> bool \<Rightarrow> string \<Rightarrow> cidImage list \<Rightarrow> string" where
  "writeRelatedParts T C isHTML body inlineImages =
     (let relBoundary = ''=_bmail_rel_'' @ showInt (ce_rel_nano C) in
      emit_line (''Content-Type: multipart/related'' @ boundary_param relBoundary) @ emit_line []
      @ emit_line (''--'' @ relBoundary) @ writeAltParts T C isHTML body
      @ concat (map (image_part T relBoundary) inlineImages)
      @ emit_line (''--'' @ relBoundary @ ''--''))"

definition file_part :: "text_lib \<Rightarrow> string \<Rightarrow> mimeAttachment \<Rightarrow> string" where
  "file_part T b att =
     (let ct = (if ma_ContentType att = [] then ''application/octet-stream'' else ma_ContentType att);
          encoded = encodeRFC2231Filename (ma_Filename att);
          name_param = (\<lambda>p. emit_line '';'' @ [CHR 0x09] @ p @ ''*=UTF-8'' @ [CHR 0x27, CHR 0x27] @ encoded)
      in emit_line (''--'' @ b)
         @ emit_line (''Content-Type: '' @ ct @ name_param ''name'')
         @ emit_line (''Content-Disposition: attachment'' @ name_param ''filename'')
         @ emit_line ''Content-Transfer-Encoding: base64'' @ emit_line [] @ writeBase64Lines T (ma_Data att))"

definition writeFileAttachments :: "text_lib \<Rightarrow> string \<Rightarrow> mimeAttachment list \<Rightarrow> string" where
  "writeFileAttachments T b attachments = concat (map (file_part T b) attachments)"

definition calendar_parts :: "text_lib \<Rightarrow> compose_env \<Rightarrow> string \<Rightarrow> string option" where
  "calendar_parts T C body =
     (let m = extractICSMethod T body;
          meth = (if m = [] then ''REQUEST'' else m);
          cb = ''=_bmail_cal_'' @ showInt (ce_cal_nano C)
      in case icsFriendlyBody T body of
           None \<Rightarrow> None
         | Some (plain, htmlBody) \<Rightarrow> Some
             (emit_line (''Content-Type: multipart/alternative'' @ boundary_param cb) @ emit_line []
              @ emit_line (''--'' @ cb) @ emit_line ''Content-Type: text/plain; charset=utf-8'' @ emit_line [] @ emit_line (trimSpace plain)
              @ emit_line (''--'' @ cb) @ emit_line ''Content-Type: text/html; charset=utf-8'' @ emit_line [] @ emit_line (html_page htmlBody)
              @ emit_line (''--'' @ cb) @ emit_line (''Content-Type: text/calendar; charset=utf-8; method='' @ meth) @ emit_line [] @ emit_line body
              @ emit_line (''--'' @ cb @ ''--'')))"

definition mime_parts :: "text_lib \<Rightarrow> compose_env \<Rightarrow> OutboundMessage \<Rightarrow> mimeAttachment list \<Rightarrow> string option" where
  "mime_parts T C om attachments =
     (case extractInlineImages T (normalizeEditorHTML (compose_body T om)) of (body, inlineImages) \<Rightarrow>
      let isCalendar = (om_BodyFormat om = ''calendar'');
          isHTML = (om_BodyFormat om \<noteq> ''plain'' \<and> \<not> isCalendar);
          mixedBoundary = ''=_bmail_mixed_'' @ showInt (ce_mixed_nano C);
          mixed = (\<lambda>inner. emit_line (''Content-Type: multipart/mixed'' @ boundary_param mixedBoundary) @ emit_line [] @ emit_line (''--'' @ mixedBoundary)
                     @ inner @ writeFileAttachments T mixedBoundary attachments @ emit_line (''--'' @ mixedBoundary @ ''--''));
          inner = (if inlineImages = [] then writeAltParts T C isHTML body else writeRelatedParts T C isHTML body inlineImages)
      in if isCalendar then calendar_parts T C body
         else if attachments = [] then Some inner
         else Some (mixed inner))"

definition composeRFC5322 :: "text_lib \<Rightarrow> compose_env \<Rightarrow> OutboundMessage \<Rightarrow> mimeAttachment list \<Rightarrow> bytes option" where
  "composeRFC5322 T C om attachments =
     (case mime_parts T C om attachments of
        None \<Rightarrow> None
      | Some parts \<Rightarrow> Some (str_bytes (concat (map emit_line (header_lines T C om)) @ parts)))"

end
