(* ===== verification/Domain.thy ===== *)
theory Domain
  imports Go_Text
begin

text \<open>
  \<open>internal/domain\<close>: MTA-STS policies, DANE records, the DNS records a domain publishes, their
  verification, and DKIM signing. The DKIM library, key generation, the DNS resolver and the case
  functions of \<open>strings\<close> are parameters.
\<close>

subsection \<open>MTA-STS\<close>

definition GenerateMTASTSPolicy :: "string list \<Rightarrow> string" where
  "GenerateMTASTSPolicy mxHosts =
     ''version: STSv1'' @ [lf] @ ''mode: enforce'' @ [lf]
     @ concat (map (\<lambda>mx. ''mx: '' @ mx @ [lf]) mxHosts)
     @ ''max_age: 604800'' @ [lf]"

definition GenerateMTASTSRecord :: "string \<Rightarrow> string" where
  "GenerateMTASTSRecord d = ''_mta-sts.'' @ d @ ''. IN TXT '' @ [CHR 0x22] @ ''v=STSv1; id=20260307'' @ [CHR 0x22]"

record MTASTSPolicy =
  sts_Version :: string
  sts_Mode :: string
  sts_MX :: "string list"
  sts_MaxAge :: int

text \<open>
  \<open>bufio.Scanner\<close>: lines without their end; the empty rest after the last line is no line, and a
  line that does not fit the buffer of 64 KiB ends the scan.
\<close>

definition scan_lines :: "string \<Rightarrow> string list" where
  "scan_lines body =
     (let ls = splitStr lf body;
          whole = (if last ls = [] then butlast ls else ls)
      in map (\<lambda>l. if l \<noteq> [] \<and> last l = cr then butlast l else l) (takeWhile (\<lambda>l. int (length l) < 65536) whole))"

fun sts_lines :: "string list \<Rightarrow> MTASTSPolicy \<Rightarrow> string + MTASTSPolicy" where
  "sts_lines [] p = Inr p"
| "sts_lines (l # ls) p =
     (let line = trimSpace l in
      case cut_at (CHR '':'') line of
        None \<Rightarrow> sts_lines ls p
      | Some (k, v) \<Rightarrow>
          (let key = trimSpace k; val = trimSpace v in
           if key = ''version'' then sts_lines ls (p\<lparr>sts_Version := val\<rparr>)
           else if key = ''mode'' then sts_lines ls (p\<lparr>sts_Mode := val\<rparr>)
           else if key = ''mx'' then sts_lines ls (p\<lparr>sts_MX := sts_MX p @ [val]\<rparr>)
           else if key = ''max_age'' then
             (case Atoi val of None \<Rightarrow> Inl (''invalid max_age: '' @ val) | Some n \<Rightarrow> sts_lines ls (p\<lparr>sts_MaxAge := n\<rparr>))
           else sts_lines ls p))"

definition maxAllowedAge :: int where
  "maxAllowedAge = 7 * 24 * 3600"

definition ParseMTASTSPolicy :: "string \<Rightarrow> string + MTASTSPolicy" where
  "ParseMTASTSPolicy body =
     (case sts_lines (scan_lines body) \<lparr>sts_Version = [], sts_Mode = [], sts_MX = [], sts_MaxAge = 0\<rparr> of
        Inl e \<Rightarrow> Inl e
      | Inr p \<Rightarrow>
          if sts_Version p \<noteq> ''STSv1'' then Inl ''unsupported MTA-STS version''
          else if sts_Mode p \<noteq> ''enforce'' \<and> sts_Mode p \<noteq> ''testing'' \<and> sts_Mode p \<noteq> ''none'' then Inl ''invalid MTA-STS mode''
          else Inr (if sts_MaxAge p > maxAllowedAge then p\<lparr>sts_MaxAge := maxAllowedAge\<rparr> else p))"

definition trim_dot :: "string \<Rightarrow> string" where
  "trim_dot h = (if hasSuffix h ''.'' then butlast h else h)"

definition mx_pattern_matches :: "string \<Rightarrow> string \<Rightarrow> bool" where
  "mx_pattern_matches pattern host =
     (pattern = host
      \<or> (hasPrefix pattern ''*.''
          \<and> (let suffix = tl pattern in
             hasSuffix host suffix \<and> CHR ''.'' \<notin> set (take (length host - length suffix) host))))"

definition MatchesMX :: "(string \<Rightarrow> string) \<Rightarrow> MTASTSPolicy \<Rightarrow> string \<Rightarrow> bool" where
  "MatchesMX lower p h =
     (let host = lower (trim_dot h) in
      list_ex (\<lambda>pattern. mx_pattern_matches (lower (trimSpace pattern)) host) (sts_MX p))"

subsection \<open>DANE\<close>

definition GenerateTLSARecord :: "(bytes \<Rightarrow> bytes) \<Rightarrow> string \<Rightarrow> bytes \<Rightarrow> string" where
  "GenerateTLSARecord sha d spkiDER = ''_25._tcp.mx.'' @ d @ ''. IN TLSA 3 1 1 '' @ hexEncode (digest32 sha spkiDER)"

definition GenerateHTTPSTLSARecord :: "(bytes \<Rightarrow> bytes) \<Rightarrow> string \<Rightarrow> bytes \<Rightarrow> string" where
  "GenerateHTTPSTLSARecord sha d spkiDER = ''_443._tcp.api.'' @ d @ ''. IN TLSA 3 1 1 '' @ hexEncode (digest32 sha spkiDER)"

datatype tlsa_parse = TlsaPanic | TlsaError string | TlsaFields int int int bytes

definition index_where :: "('a \<Rightarrow> bool) \<Rightarrow> 'a list \<Rightarrow> nat option" where
  "index_where P xs = List.find (\<lambda>i. P (xs ! i)) [0..<length xs]"

text \<open>The length check lets through a record that ends after its third number; indexing it panics.\<close>

definition ParseTLSARecord :: "(string \<Rightarrow> string \<Rightarrow> bool) \<Rightarrow> string \<Rightarrow> tlsa_parse" where
  "ParseTLSARecord equalFold rec =
     (let parts = strFields rec in
      case index_where (\<lambda>p. equalFold p ''TLSA'') parts of
        None \<Rightarrow> TlsaError ''invalid TLSA record format''
      | Some i \<Rightarrow>
          if i + 4 > length parts then TlsaError ''invalid TLSA record format''
          else
            (case (Atoi (parts ! (i + 1)), Atoi (parts ! (i + 2)), Atoi (parts ! (i + 3))) of
               (None, _, _) \<Rightarrow> TlsaError ''parse usage''
             | (Some _, None, _) \<Rightarrow> TlsaError ''parse selector''
             | (Some _, Some _, None) \<Rightarrow> TlsaError ''parse match type''
             | (Some usage, Some selector, Some matchType) \<Rightarrow>
                 if usage < 0 \<or> usage > 3 then TlsaError ''invalid TLSA usage''
                 else if selector < 0 \<or> selector > 1 then TlsaError ''invalid TLSA selector''
                 else if matchType < 0 \<or> matchType > 2 then TlsaError ''invalid TLSA match type''
                 else if i + 4 \<ge> length parts then TlsaPanic
                 else (case hexDecode (parts ! (i + 4)) of
                         None \<Rightarrow> TlsaError ''parse hash''
                       | Some hash \<Rightarrow> TlsaFields usage selector matchType hash)))"

subsection \<open>DNS records\<close>

record DNSRecord =
  dr_Type :: string
  dr_Name :: string
  dr_Value :: string
  dr_Priority :: string

definition dns_record :: "string \<Rightarrow> string \<Rightarrow> string \<Rightarrow> DNSRecord" where
  "dns_record ty nm v = \<lparr>dr_Type = ty, dr_Name = nm, dr_Value = v, dr_Priority = []\<rparr>"

definition spfRecord :: "string \<Rightarrow> string" where
  "spfRecord outbound_ip = (if outbound_ip \<noteq> [] then ''v=spf1 mx ip4:'' @ outbound_ip @ '' -all'' else ''v=spf1 mx -all'')"

definition GenerateDNSRecords :: "string \<Rightarrow> string \<Rightarrow> string \<Rightarrow> string \<Rightarrow> string \<Rightarrow> DNSRecord list" where
  "GenerateDNSRecords outbound_ip d dkimPubKey dkimSelector mxHost =
     [\<lparr>dr_Type = ''MX'', dr_Name = d, dr_Value = mxHost, dr_Priority = ''10''\<rparr>,
      dns_record ''TXT'' d (spfRecord outbound_ip),
      dns_record ''TXT'' (dkimSelector @ ''._domainkey.'' @ d) (''v=DKIM1; k=ed25519; p='' @ dkimPubKey),
      dns_record ''TXT'' (''_dmarc.'' @ d) (''v=DMARC1; p=reject; rua=mailto:dmarc@'' @ d),
      dns_record ''TXT'' (''_mta-sts.'' @ d) ''v=STSv1; id=20260101'']"

definition GenerateDNSRecordsPool :: "string \<Rightarrow> string \<Rightarrow> string \<Rightarrow> string \<Rightarrow> string \<Rightarrow> DNSRecord list" where
  "GenerateDNSRecordsPool d poolSelector poolZone mxHost spfInclude =
     [\<lparr>dr_Type = ''MX'', dr_Name = d, dr_Value = mxHost, dr_Priority = ''10''\<rparr>,
      dns_record ''TXT'' d (''v=spf1 include:'' @ spfInclude @ '' -all''),
      dns_record ''CNAME'' (poolSelector @ ''._domainkey.'' @ d) (poolSelector @ ''._domainkey.'' @ poolZone),
      dns_record ''TXT'' (''_dmarc.'' @ d) (''v=DMARC1; p=none; rua=mailto:dmarc@'' @ d)]"

subsection \<open>Verification\<close>

text \<open>A lookup gives the records, or the text of an error.\<close>

record dns_resolver =
  rs_MX :: "string \<Rightarrow> string + string list"
  rs_TXT :: "string \<Rightarrow> string + string list"

record VerificationResult =
  vr_MX :: bool
  vr_SPF :: bool
  vr_DKIM :: bool
  vr_DMARC :: bool
  vr_MTASTS :: bool
  vr_Ownership :: bool
  vr_Errors :: "string list"

text \<open>One check: whether it passed, and the errors it adds.\<close>

definition txt_check :: "string + string list \<Rightarrow> (string \<Rightarrow> bool) \<Rightarrow> (string \<Rightarrow> string) \<Rightarrow> string \<Rightarrow> bool \<times> string list" where
  "txt_check reply P failed missing =
     (case reply of
        Inl e \<Rightarrow> (False, [failed e])
      | Inr txts \<Rightarrow> if list_ex P txts then (True, []) else (False, [missing]))"

definition VerifyDNS :: "dns_resolver \<Rightarrow> string \<Rightarrow> VerificationResult" where
  "VerifyDNS R d =
     (let mx = (case rs_MX R d of
                  Inl e \<Rightarrow> (False, [''MX lookup failed: '' @ e])
                | Inr ms \<Rightarrow> if ms \<noteq> [] then (True, []) else (False, [''no MX records found'']));
          spf = txt_check (rs_TXT R d) (\<lambda>t. hasPrefix t ''v=spf1'') (\<lambda>e. ''SPF TXT lookup failed: '' @ e) ''no SPF record found'';
          dkim = txt_check (rs_TXT R (''_domainkey.'' @ d)) (\<lambda>t. containsStr t ''v=DKIM1'')
                   (\<lambda>e. ''DKIM: no _domainkey base record (may still have selector-specific records)'')
                   ''DKIM: _domainkey record found but missing v=DKIM1'';
          dmarc = txt_check (rs_TXT R (''_dmarc.'' @ d)) (\<lambda>t. hasPrefix t ''v=DMARC1'') (\<lambda>e. ''DMARC lookup failed: '' @ e) ''no DMARC record found'';
          sts = txt_check (rs_TXT R (''_mta-sts.'' @ d)) (\<lambda>t. hasPrefix t ''v=STSv1'') (\<lambda>e. ''MTA-STS lookup failed: '' @ e) ''no MTA-STS record found''
      in \<lparr>vr_MX = fst mx, vr_SPF = fst spf, vr_DKIM = fst dkim, vr_DMARC = fst dmarc, vr_MTASTS = fst sts, vr_Ownership = False,
          vr_Errors = snd mx @ snd spf @ snd dkim @ snd dmarc @ snd sts\<rparr>)"

definition VerifyOwnershipTXT :: "dns_resolver \<Rightarrow> string \<Rightarrow> string \<Rightarrow> bool" where
  "VerifyOwnershipTXT R d expectedToken =
     (case rs_TXT R (''_bmail-verify.'' @ d) of
        Inl _ \<Rightarrow> False
      | Inr txts \<Rightarrow> list_ex (\<lambda>t. trimSpace t = ''bmail-verify='' @ expectedToken) txts)"

definition VerifyDKIMSelector :: "dns_resolver \<Rightarrow> string \<Rightarrow> string \<Rightarrow> string + bool" where
  "VerifyDKIMSelector R d selector =
     (let fqdn = selector @ ''._domainkey.'' @ d in
      case rs_TXT R fqdn of
        Inl e \<Rightarrow> Inl (''DKIM selector lookup for '' @ fqdn @ '': '' @ e)
      | Inr txts \<Rightarrow> Inr (list_ex (\<lambda>t. containsStr t ''v=DKIM1'') txts))"

subsection \<open>DKIM\<close>

datatype dkim_signer = RSASigner bytes | Ed25519Signer bytes

record sign_options =
  so_Domain :: string
  so_Selector :: string
  so_Signer :: dkim_signer
  so_HeaderKeys :: "string list"
  so_Expiration :: int

text \<open>The library returns the signed message, or an error.\<close>

type_synonym dkim_sign = "sign_options \<Rightarrow> bytes \<Rightarrow> string + bytes"

definition signed_headers :: "string list" where
  "signed_headers = [''From'', ''To'', ''Cc'', ''Reply-To'', ''Subject'', ''Date'', ''Message-Id'',
     ''In-Reply-To'', ''References'', ''MIME-Version'', ''Content-Type'']"

definition sign_opts :: "int \<Rightarrow> dkim_signer \<Rightarrow> string \<Rightarrow> string \<Rightarrow> sign_options" where
  "sign_opts now signer d selector =
     \<lparr>so_Domain = d, so_Selector = selector, so_Signer = signer, so_HeaderKeys = signed_headers,
      so_Expiration = now + 7 * 24 * hour\<rparr>"

definition signMessageWithKey :: "dkim_sign \<Rightarrow> int \<Rightarrow> dkim_signer \<Rightarrow> string \<Rightarrow> string \<Rightarrow> bytes \<Rightarrow> string + bytes" where
  "signMessageWithKey sign now signer d selector message =
     (case sign (sign_opts now signer d selector) message of
        Inl e \<Rightarrow> Inl (''dkim sign: '' @ e)
      | Inr b \<Rightarrow> Inr b)"

definition SignMessage :: "dkim_sign \<Rightarrow> int \<Rightarrow> bytes \<Rightarrow> string \<Rightarrow> string \<Rightarrow> bytes \<Rightarrow> string + bytes" where
  "SignMessage sign now privateKey d selector message = signMessageWithKey sign now (Ed25519Signer privateKey) d selector message"

definition SignMessageRSA :: "dkim_sign \<Rightarrow> int \<Rightarrow> bytes \<Rightarrow> string \<Rightarrow> string \<Rightarrow> bytes \<Rightarrow> string + bytes" where
  "SignMessageRSA sign now privateKey d selector message = signMessageWithKey sign now (RSASigner privateKey) d selector message"

end
