(* ===== verification/Sender.thy ===== *)
theory Sender
  imports Domain Pgp
begin

text \<open>
  \<open>internal/smtp/sender.go\<close>: a message is signed, the recipient's mail servers and their TLS policies
  are looked up, and the servers are tried in turn. DNS, HTTP, Redis, the key formats and the reply
  of each server are parameters; what the sender writes to a server is recorded as a list of events.
\<close>

subsection \<open>Data\<close>

datatype send_error = ErrPermanent int string | ErrTemporary int string | ErrOther string

fun error_text :: "send_error \<Rightarrow> string" where
  "error_text (ErrPermanent code m) = ''permanent failure '' @ showInt code @ '': '' @ m"
| "error_text (ErrTemporary code m) = ''temporary failure '' @ showInt code @ '': '' @ m"
| "error_text (ErrOther m) = m"

record DKIMPoolKeys =
  pk_Selector :: string
  pk_Ed25519Seed :: bytes
  pk_RSAPKCS8 :: bytes

record tenant =
  tn_TenantID :: bytes
  tn_Domain :: string
  tn_DKIMPrivateKeyEncrypted :: bytes
  tn_DKIMPublicKey :: string
  tn_DKIMSelector :: string
  tn_DKIMRSAPrivateKeyEncrypted :: bytes
  tn_DKIMRSAPublicKey :: string
  tn_DKIMRSASelector :: string
  tn_DKIMPoolSelector :: string

datatype private_key = RSAKey bytes | OtherKey string

text \<open>An error of the SMTP client: a reply code of the server, or something else.\<close>

datatype smtp_fault = ServerReply int string | OtherFault string

text \<open>What a server does in one conversation; None is success.\<close>

record mx_server =
  sv_dial :: "string option"
  sv_greeting :: "string option"
  sv_hello :: "string option"
  sv_starttls :: bool
  sv_tls :: "string option"
  sv_certs :: "bytes list option"
  sv_mail :: "smtp_fault option"
  sv_rcpt :: "smtp_fault option"
  sv_data :: "smtp_fault option"
  sv_write :: "string option"
  sv_close :: "smtp_fault option"

datatype smtp_event =
    SConnect
  | SHello string
  | STLS "bytes list option"
  | SMail string
  | SRcpt string
  | SBody bytes
  | SQuit

text \<open>One conversation: its number, the host and what was written.\<close>

record delivery =
  dl_index :: nat
  dl_host :: string
  dl_events :: "smtp_event list"

record tlsRequirement =
  tr_requireTLS :: bool
  tr_tlsaHashes :: "(string \<times> bytes list) list"
  tr_stsPolicy :: "MTASTSPolicy option"

datatype dns_rr = TLSA nat nat nat string | OtherRR

text \<open>The HTTP client takes the redirect check: the number of requests so far and the new host.\<close>

record sts_env =
  se_txt :: "string \<Rightarrow> string list option"
  se_redis :: "(string \<Rightarrow> bytes option) option"
  se_unmarshal :: "bytes \<Rightarrow> MTASTSPolicy option"
  se_marshal :: "MTASTSPolicy \<Rightarrow> bytes option"
  se_http :: "(nat \<Rightarrow> string \<Rightarrow> bool) \<Rightarrow> string \<Rightarrow> (int \<times> string) option"

record send_env =
  sn_tenant :: "bytes \<Rightarrow> string + tenant"
  sn_pgp :: "(string \<Rightarrow> string option) option"
  sn_export :: "string \<Rightarrow> bytes option"
  sn_base64 :: "bytes \<Rightarrow> string"
  sn_pool :: "(string \<Rightarrow> string + DKIMPoolKeys option) option"
  sn_unseal :: "(bytes \<Rightarrow> string + bytes) option"
  sn_pkcs8 :: "bytes \<Rightarrow> string + private_key"
  sn_newKeyFromSeed :: "bytes \<Rightarrow> bytes"
  sn_sign :: dkim_sign
  sn_now :: int
  sn_mx :: "string \<Rightarrow> string + string list"
  sn_tlsa :: "string \<Rightarrow> (bool \<times> dns_rr list) option"
  sn_sts :: sts_env
  sn_server :: "nat \<Rightarrow> mx_server"
  sn_helo :: string
  sn_lower :: "string \<Rightarrow> string"
  sn_sha :: "bytes \<Rightarrow> bytes"

subsection \<open>TLS policy\<close>

definition verifyTLSA :: "(bytes \<Rightarrow> bytes) \<Rightarrow> bytes list \<Rightarrow> bytes \<Rightarrow> string option" where
  "verifyTLSA sha certs expectedHash =
     (case certs of
        [] \<Rightarrow> Some ''no peer certificate for DANE verification''
      | spki # _ \<Rightarrow>
          if digest32 sha spki = expectedHash then None
          else Some ''DANE TLSA mismatch: certificate does not match published TLSA record'')"

fun tlsa_hash :: "dns_rr \<Rightarrow> bytes option" where
  "tlsa_hash OtherRR = None"
| "tlsa_hash (TLSA usage selector matchingType cert) =
     (if usage = 3 \<and> selector = 1 \<and> matchingType = 1
      then (case hexDecode cert of Some h \<Rightarrow> if length h = 32 then Some h else None | None \<Rightarrow> None)
      else None)"

text \<open>An answer without the DNSSEC flag counts as no records.\<close>

definition lookupTLSARecords :: "(string \<Rightarrow> (bool \<times> dns_rr list) option) \<Rightarrow> string \<Rightarrow> bytes list option" where
  "lookupTLSARecords query host =
     (case query (''_25._tcp.'' @ host @ ''.'') of
        None \<Rightarrow> None
      | Some (authenticated, answer) \<Rightarrow> if authenticated then Some (List.map_filter tlsa_hash answer) else Some [])"

fun tlsa_hosts :: "(string \<Rightarrow> (bool \<times> dns_rr list) option) \<Rightarrow> string list \<Rightarrow> tlsRequirement \<Rightarrow> tlsRequirement" where
  "tlsa_hosts query [] pol = pol"
| "tlsa_hosts query (mx # mxs) pol =
     (let host = trim_dot mx in
      case lookupTLSARecords query host of
        None \<Rightarrow> tlsa_hosts query mxs pol
      | Some hashes \<Rightarrow>
          tlsa_hosts query mxs
            (if hashes \<noteq> []
             then pol\<lparr>tr_tlsaHashes := AList.update host hashes (tr_tlsaHashes pol), tr_requireTLS := True\<rparr>
             else pol))"

definition mtaSTSCacheKey :: "string \<Rightarrow> string" where
  "mtaSTSCacheKey d = ''mtasts:policy:'' @ d"

definition sts_redirect_ok :: "string \<Rightarrow> nat \<Rightarrow> string \<Rightarrow> bool" where
  "sts_redirect_ok recipientDomain via host = (via < 3 \<and> host = ''mta-sts.'' @ recipientDomain)"

definition fetchMTASTSPolicyHTTP :: "sts_env \<Rightarrow> string \<Rightarrow> MTASTSPolicy option" where
  "fetchMTASTSPolicyHTTP S recipientDomain =
     (case se_http S (sts_redirect_ok recipientDomain) (''https://mta-sts.'' @ recipientDomain @ ''/.well-known/mta-sts.txt'') of
        None \<Rightarrow> None
      | Some (status, body) \<Rightarrow>
          if status \<noteq> 200 then None
          else (case ParseMTASTSPolicy (limitReader (64 * 1024) body) of Inl _ \<Rightarrow> None | Inr policy \<Rightarrow> Some policy))"

definition sts_cached :: "sts_env \<Rightarrow> string \<Rightarrow> MTASTSPolicy option" where
  "sts_cached S recipientDomain =
     (case se_redis S of
        None \<Rightarrow> None
      | Some get \<Rightarrow> Option.bind (get (mtaSTSCacheKey recipientDomain)) (se_unmarshal S))"

text \<open>The second result is what is written to Redis: key, value and time to live.\<close>

definition fetchMTASTSPolicy :: "sts_env \<Rightarrow> string \<Rightarrow> MTASTSPolicy option \<times> (string \<times> bytes \<times> int) option" where
  "fetchMTASTSPolicy S recipientDomain =
     (case sts_cached S recipientDomain of
        Some policy \<Rightarrow> (Some policy, None)
      | None \<Rightarrow>
          (case fetchMTASTSPolicyHTTP S recipientDomain of
             None \<Rightarrow> (None, None)
           | Some policy \<Rightarrow>
               (Some policy,
                if se_redis S = None then None
                else map_option
                  (\<lambda>data. let ttl = goInt (sts_MaxAge policy * second) in
                          (mtaSTSCacheKey recipientDomain, data, if ttl \<le> 0 then 24 * hour else ttl))
                  (se_marshal S policy))))"

definition lookupTLSPolicy ::
    "send_env \<Rightarrow> string \<Rightarrow> string list \<Rightarrow> tlsRequirement \<times> (string \<times> bytes \<times> int) option" where
  "lookupTLSPolicy E recipientDomain mxs =
     (let pol = tlsa_hosts (sn_tlsa E) mxs \<lparr>tr_requireTLS = False, tr_tlsaHashes = [], tr_stsPolicy = None\<rparr> in
      case se_txt (sn_sts E) (''_mta-sts.'' @ recipientDomain) of
        None \<Rightarrow> (pol, None)
      | Some txts \<Rightarrow>
          if list_ex (\<lambda>t. containsStr t ''v=STSv1'') txts then
            (case fetchMTASTSPolicy (sn_sts E) recipientDomain of
               (None, w) \<Rightarrow> (pol, w)
             | (Some p, w) \<Rightarrow>
                 (pol\<lparr>tr_stsPolicy := Some p, tr_requireTLS := tr_requireTLS pol \<or> sts_Mode p = ''enforce''\<rparr>, w))
          else (pol, None))"

subsection \<open>One server\<close>

definition classifyError :: "smtp_fault \<Rightarrow> send_error" where
  "classifyError e =
     (case e of
        ServerReply code m \<Rightarrow> if code \<ge> 500 \<and> code < 600 then ErrPermanent code m else ErrTemporary code m
      | OtherFault m \<Rightarrow> ErrTemporary 450 m)"

text \<open>The client library refuses to send a line with a line end in it.\<close>

definition line_fault :: smtp_fault where
  "line_fault = OtherFault ''smtp: A line must not contain CR or LF''"

text \<open>Connecting: whether TLS is up, or the error, and the events.\<close>

definition mx_connect :: "string \<Rightarrow> mx_server \<Rightarrow> string \<Rightarrow> (send_error + bool) \<times> smtp_event list" where
  "mx_connect helo V host =
     (case sv_dial V of
        Some e \<Rightarrow> (Inl (ErrTemporary 450 (''connect to '' @ host @ '':25: '' @ e)), [])
      | None \<Rightarrow>
     (case sv_greeting V of
        Some e \<Rightarrow> (Inl (ErrTemporary 450 (''smtp client for '' @ host @ '': '' @ e)), [SConnect])
      | None \<Rightarrow>
     (case sv_hello V of
        Some e \<Rightarrow> (Inl (ErrTemporary 450 (''EHLO '' @ helo @ '' to '' @ host @ '': '' @ e)), [SConnect, SHello helo])
      | None \<Rightarrow>
          if sv_starttls V then
            (case sv_tls V of
               Some e \<Rightarrow> (Inl (ErrTemporary 450 (''STARTTLS failed for '' @ host @ '': '' @ e)), [SConnect, SHello helo])
             | None \<Rightarrow> (Inr True, [SConnect, SHello helo, STLS (sv_certs V)]))
          else (Inr False, [SConnect, SHello helo]))))"

definition dane_check :: "(bytes \<Rightarrow> bytes) \<Rightarrow> mx_server \<Rightarrow> string \<Rightarrow> bytes list \<Rightarrow> send_error option" where
  "dane_check sha V host expectedHashes =
     (case sv_certs V of
        None \<Rightarrow> Some (ErrTemporary 450 (''DANE: no peer certificate from '' @ host))
      | Some [] \<Rightarrow> Some (ErrTemporary 450 (''DANE: no peer certificate from '' @ host))
      | Some (spki # _) \<Rightarrow>
          if list_ex (\<lambda>expected. digest32 sha spki = expected) expectedHashes then None
          else Some (ErrPermanent 550 (''DANE: TLSA hash mismatch for '' @ host)))"

text \<open>The three checks of the policy, in their order.\<close>

definition policy_check ::
    "(bytes \<Rightarrow> bytes) \<Rightarrow> (string \<Rightarrow> string) \<Rightarrow> mx_server \<Rightarrow> string \<Rightarrow> bool \<Rightarrow> tlsRequirement \<Rightarrow> send_error option" where
  "policy_check sha lower V host tlsEstablished pol =
     (if tr_requireTLS pol \<and> \<not> tlsEstablished
      then Some (ErrTemporary 450 (''TLS required by policy for '' @ host @ '' but not available''))
      else
        (case (case map_of (tr_tlsaHashes pol) host of
                 Some expectedHashes \<Rightarrow> if tlsEstablished then dane_check sha V host expectedHashes else None
               | None \<Rightarrow> None) of
           Some e \<Rightarrow> Some e
         | None \<Rightarrow>
             (case tr_stsPolicy pol of
                Some p \<Rightarrow>
                  if sts_Mode p = ''enforce'' \<and> \<not> MatchesMX lower p host
                  then Some (ErrPermanent 550 (''MTA-STS: MX host '' @ host @ '' not in policy'')) else None
              | None \<Rightarrow> None)))"

text \<open>Envelope and body; the last event list is what was written.\<close>

definition mx_transfer :: "mx_server \<Rightarrow> string \<Rightarrow> string \<Rightarrow> bytes \<Rightarrow> send_error option \<times> smtp_event list" where
  "mx_transfer V sender rcpt body =
     (if \<not> one_line sender then (Some (classifyError line_fault), [])
      else (case sv_mail V of
        Some e \<Rightarrow> (Some (classifyError e), [SMail sender])
      | None \<Rightarrow>
     (if \<not> one_line rcpt then (Some (classifyError line_fault), [SMail sender])
      else (case sv_rcpt V of
        Some e \<Rightarrow> (Some (classifyError e), [SMail sender, SRcpt rcpt])
      | None \<Rightarrow>
     (case sv_data V of
        Some e \<Rightarrow> (Some (classifyError e), [SMail sender, SRcpt rcpt])
      | None \<Rightarrow>
     (case sv_write V of
        Some e \<Rightarrow> (Some (ErrTemporary 450 (''write data: '' @ e)), [SMail sender, SRcpt rcpt, SBody body])
      | None \<Rightarrow>
     (case sv_close V of
        Some e \<Rightarrow> (Some (classifyError e), [SMail sender, SRcpt rcpt, SBody body])
      | None \<Rightarrow> (None, [SMail sender, SRcpt rcpt, SBody body, SQuit]))))))))"

definition deliverToMX ::
    "send_env \<Rightarrow> mx_server \<Rightarrow> string \<Rightarrow> string \<Rightarrow> string \<Rightarrow> bytes \<Rightarrow> tlsRequirement \<Rightarrow> send_error option \<times> smtp_event list" where
  "deliverToMX E V host sender rcpt body pol =
     (case mx_connect (sn_helo E) V host of
        (Inl e, evs) \<Rightarrow> (Some e, evs)
      | (Inr tlsEstablished, evs) \<Rightarrow>
          (case policy_check (sn_sha E) (sn_lower E) V host tlsEstablished pol of
             Some e \<Rightarrow> (Some e, evs)
           | None \<Rightarrow> (case mx_transfer V sender rcpt body of (r, evs') \<Rightarrow> (r, evs @ evs'))))"

fun is_permanent :: "send_error \<Rightarrow> bool" where
  "is_permanent (ErrPermanent _ _) = True"
| "is_permanent _ = False"

text \<open>The servers in order; \<open>i\<close> counts the conversations.\<close>

fun try_servers ::
    "send_env \<Rightarrow> nat \<Rightarrow> string list \<Rightarrow> string \<Rightarrow> string \<Rightarrow> bytes \<Rightarrow> tlsRequirement \<Rightarrow> send_error option \<Rightarrow> send_error option \<times> delivery list" where
  "try_servers E i [] sender rcpt body pol lastErr = (lastErr, [])"
| "try_servers E i (mx # mxs) sender rcpt body pol lastErr =
     (let host = trim_dot mx in
      case deliverToMX E (sn_server E i) host sender rcpt body pol of
        (None, evs) \<Rightarrow> (None, [\<lparr>dl_index = i, dl_host = host, dl_events = evs\<rparr>])
      | (Some e, evs) \<Rightarrow>
          if is_permanent e then (Some e, [\<lparr>dl_index = i, dl_host = host, dl_events = evs\<rparr>])
          else (case try_servers E (Suc i) mxs sender rcpt body pol (Some e) of
                  (r, ds) \<Rightarrow> (r, \<lparr>dl_index = i, dl_host = host, dl_events = evs\<rparr> # ds)))"

subsection \<open>Signing and sending\<close>

definition insert_autocrypt :: "send_env \<Rightarrow> string \<Rightarrow> bytes \<Rightarrow> bytes" where
  "insert_autocrypt E sender body =
     (case sn_pgp E of
        None \<Rightarrow> body
      | Some get \<Rightarrow>
          (case get sender of
             None \<Rightarrow> body
           | Some pgpKey \<Rightarrow>
               if pgpKey = [] then body
               else (case sn_export E pgpKey of
                       None \<Rightarrow> body
                     | Some minimalKey \<Rightarrow>
                         if minimalKey = [] then body
                         else (case index_of body (str_bytes crlf) of
                                 None \<Rightarrow> body
                               | Some i \<Rightarrow>
                                   take (i + 2) body
                                   @ str_bytes (''Autocrypt: '' @ FormatAutocryptHeader sender (sn_base64 E minimalKey) @ crlf)
                                   @ drop (i + 2) body))))"

definition unseal_key :: "send_env \<Rightarrow> bytes \<Rightarrow> string + bytes" where
  "unseal_key E sealed = (case sn_unseal E of None \<Rightarrow> Inr sealed | Some f \<Rightarrow> f sealed)"

text \<open>Each signing step gives the body and whether it has a signature now.\<close>

definition sign_pool :: "send_env \<Rightarrow> tenant \<Rightarrow> DKIMPoolKeys \<Rightarrow> bytes \<Rightarrow> string + bytes \<times> bool" where
  "sign_pool E t pool body =
     (case sn_pkcs8 E (pk_RSAPKCS8 pool) of
        Inl e \<Rightarrow> Inl (''parse pool rsa pkcs8: '' @ e)
      | Inr (OtherKey ty) \<Rightarrow> Inl (''pool rsa key wrong type '' @ ty)
      | Inr (RSAKey k) \<Rightarrow>
          (case SignMessageRSA (sn_sign E) (sn_now E) k (tn_Domain t) (pk_Selector pool) body of
             Inl e \<Rightarrow> Inl (''dkim rsa sign (pool): '' @ e)
           | Inr b \<Rightarrow> Inr (b, True)))"

definition sign_rsa :: "send_env \<Rightarrow> tenant \<Rightarrow> bytes \<Rightarrow> string + bytes \<times> bool" where
  "sign_rsa E t body =
     (if tn_DKIMRSAPrivateKeyEncrypted t \<noteq> [] \<and> tn_DKIMRSASelector t \<noteq> [] then
        (case unseal_key E (tn_DKIMRSAPrivateKeyEncrypted t) of
           Inl e \<Rightarrow> Inl (''unseal RSA DKIM key: '' @ e)
         | Inr rsaKeyDER \<Rightarrow>
             (case sn_pkcs8 E rsaKeyDER of
                Inl _ \<Rightarrow> Inr (body, False)
              | Inr (OtherKey _) \<Rightarrow> Inr (body, False)
              | Inr (RSAKey k) \<Rightarrow>
                  (case SignMessageRSA (sn_sign E) (sn_now E) k (tn_Domain t) (tn_DKIMRSASelector t) body of
                     Inl e \<Rightarrow> Inl (''dkim rsa sign: '' @ e)
                   | Inr b \<Rightarrow> Inr (b, True))))
      else Inr (body, False))"

definition ed25519_key :: "send_env \<Rightarrow> bytes \<Rightarrow> bytes option" where
  "ed25519_key E seed =
     (if length seed = 32 then Some (sn_newKeyFromSeed E seed)
      else if length seed = 64 then Some seed else None)"

definition sign_ed25519 :: "send_env \<Rightarrow> tenant \<Rightarrow> bytes \<times> bool \<Rightarrow> string + bytes \<times> bool" where
  "sign_ed25519 E t bs =
     (if tn_DKIMPrivateKeyEncrypted t \<noteq> [] \<and> tn_DKIMSelector t \<noteq> [] then
        (case unseal_key E (tn_DKIMPrivateKeyEncrypted t) of
           Inl e \<Rightarrow> Inl (''unseal DKIM key: '' @ e)
         | Inr seed \<Rightarrow>
             (case ed25519_key E seed of
                None \<Rightarrow> Inr bs
              | Some privKey \<Rightarrow>
                  (case SignMessage (sn_sign E) (sn_now E) privKey (tn_Domain t) (tn_DKIMSelector t) (fst bs) of
                     Inl e \<Rightarrow> Inl (''dkim sign: '' @ e)
                   | Inr b \<Rightarrow> Inr (b, True))))
      else Inr bs)"

definition dkim_sign_body :: "send_env \<Rightarrow> tenant \<Rightarrow> bytes \<Rightarrow> string + bytes \<times> bool" where
  "dkim_sign_body E t body =
     (case sn_pool E of
        Some getter \<Rightarrow>
          if tn_DKIMPoolSelector t \<noteq> [] then
            (case getter (tn_DKIMPoolSelector t) of
               Inl e \<Rightarrow> Inl (''fetch dkim pool: '' @ e)
             | Inr None \<Rightarrow> Inl ''dkim pool getter returned nil''
             | Inr (Some pool) \<Rightarrow> sign_pool E t pool body)
          else (case sign_rsa E t body of Inl e \<Rightarrow> Inl e | Inr bs \<Rightarrow> sign_ed25519 E t bs)
      | None \<Rightarrow> (case sign_rsa E t body of Inl e \<Rightarrow> Inl e | Inr bs \<Rightarrow> sign_ed25519 E t bs))"

definition recipient_domain :: "string \<Rightarrow> string" where
  "recipient_domain rcpt = (case after_last (CHR ''@'') rcpt of None \<Rightarrow> rcpt | Some d \<Rightarrow> d)"

record send_result =
  sr_error :: "send_error option"
  sr_deliveries :: "delivery list"
  sr_cache :: "(string \<times> bytes \<times> int) option"

definition not_sent :: "send_error \<Rightarrow> send_result" where
  "not_sent e = \<lparr>sr_error = Some e, sr_deliveries = [], sr_cache = None\<rparr>"

definition send_signed :: "send_env \<Rightarrow> string \<Rightarrow> string \<Rightarrow> bytes \<Rightarrow> send_result" where
  "send_signed E sender rcpt body =
     (let recipientDomain = recipient_domain rcpt in
      case sn_mx E recipientDomain of
        Inl e \<Rightarrow> not_sent (ErrTemporary 450 (''MX lookup for '' @ recipientDomain @ '': '' @ e))
      | Inr [] \<Rightarrow> not_sent (ErrPermanent 550 (''no MX records for '' @ recipientDomain))
      | Inr (m # ms) \<Rightarrow>
          (case lookupTLSPolicy E recipientDomain (m # ms) of (pol, w) \<Rightarrow>
           case try_servers E 0 (m # ms) sender rcpt body pol None of (r, ds) \<Rightarrow>
             \<lparr>sr_error = r, sr_deliveries = ds, sr_cache = w\<rparr>))"

definition SendMessage :: "send_env \<Rightarrow> string \<Rightarrow> string \<Rightarrow> bytes \<Rightarrow> bytes \<Rightarrow> send_result" where
  "SendMessage E sender rcpt body tenantID =
     (case sn_tenant E tenantID of
        Inl e \<Rightarrow> not_sent (ErrOther (''lookup tenant: '' @ e))
      | Inr t \<Rightarrow>
          (case dkim_sign_body E t (insert_autocrypt E sender body) of
             Inl e \<Rightarrow> not_sent (ErrOther e)
           | Inr (b, dkimSigned) \<Rightarrow>
               if \<not> dkimSigned then not_sent (ErrOther (''no DKIM key available for tenant domain '' @ tn_Domain t @ '': refusing to send unsigned''))
               else send_signed E sender rcpt b))"

end
