(* ===== verification/Blob_Store.thy ===== *)
theory Blob_Store
  imports Pipeline
begin

text \<open>
  \<open>internal/storage/minio.go\<close>: message and attachment blobs in an object store, with an optional
  read-only fallback that a migration reads from. The object store itself is a map from bucket and
  key to contents; each request to it may fail.
\<close>

type_synonym s3_objects = "((string \<times> string) \<times> bytes) list"

datatype blob_error = ErrBlobNotFound string | BlobErr string

record BlobStore =
  bl_objects :: s3_objects
  bl_bucket :: string
  bl_fallback :: "s3_objects option"
  bl_hits :: nat

definition NewBlobStore :: "s3_objects \<Rightarrow> BlobStore" where
  "NewBlobStore objs = \<lparr>bl_objects = objs, bl_bucket = [], bl_fallback = None, bl_hits = 0\<rparr>"

definition NewBlobStoreWithBucket :: "s3_objects \<Rightarrow> string \<Rightarrow> BlobStore" where
  "NewBlobStoreWithBucket objs bucket = (NewBlobStore objs)\<lparr>bl_bucket := bucket\<rparr>"

definition SetFallback :: "s3_objects \<Rightarrow> BlobStore \<Rightarrow> BlobStore" where
  "SetFallback objs bs = bs\<lparr>bl_fallback := Some objs\<rparr>"

text \<open>
  \<open>AttachMigrationFallback\<close>: the three variables of the environment, and whether a client can be made
  for each store; a store may be nil.
\<close>

definition AttachMigrationFallback ::
    "string \<Rightarrow> string \<Rightarrow> string \<Rightarrow> s3_objects \<Rightarrow> (bool \<times> BlobStore) option list \<Rightarrow> bool \<times> BlobStore option list" where
  "AttachMigrationFallback ep ak sk objs stores =
     (if ep = [] \<or> ak = [] \<or> sk = [] then (False, map (map_option snd) stores)
      else (list_ex (\<lambda>s. case s of Some (ok, _) \<Rightarrow> ok | None \<Rightarrow> False) stores,
            map (map_option (\<lambda>(ok, bs). if ok then SetFallback objs bs else bs)) stores))"

text \<open>\<open>blobBucket\<close> is set from the environment; a store may name its own.\<close>

definition bucketName :: "string \<Rightarrow> BlobStore \<Rightarrow> string" where
  "bucketName blobBucket bs = (if bl_bucket bs \<noteq> [] then bl_bucket bs else blobBucket)"

definition getFrom :: "bool \<Rightarrow> s3_objects \<Rightarrow> string \<Rightarrow> string \<Rightarrow> blob_error + bytes" where
  "getFrom ok objs bucket blobRef =
     (if \<not> ok then Inl (BlobErr ''read blob'')
      else (case map_of objs (bucket, blobRef) of None \<Rightarrow> Inl (ErrBlobNotFound blobRef) | Some d \<Rightarrow> Inr d))"

text \<open>The two flags: whether the request to the primary and the one to the fallback work.\<close>

definition blob_download :: "string \<Rightarrow> bool \<times> bool \<Rightarrow> string \<Rightarrow> BlobStore \<Rightarrow> (blob_error + bytes) \<times> BlobStore" where
  "blob_download blobBucket ok blobRef bs =
     (let bucket = bucketName blobBucket bs in
      case getFrom (fst ok) (bl_objects bs) bucket blobRef of
        Inr d \<Rightarrow> (Inr d, bs)
      | Inl (BlobErr e) \<Rightarrow> (Inl (BlobErr e), bs)
      | Inl (ErrBlobNotFound r) \<Rightarrow>
          (case bl_fallback bs of
             None \<Rightarrow> (Inl (ErrBlobNotFound r), bs)
           | Some objs \<Rightarrow>
               (case getFrom (snd ok) objs bucket blobRef of
                  Inr d \<Rightarrow> (Inr d, bs\<lparr>bl_hits := bl_hits bs + 1\<rparr>)
                | Inl _ \<Rightarrow> (Inl (ErrBlobNotFound r), bs))))"

definition DownloadShared :: "string \<Rightarrow> bool \<times> bool \<Rightarrow> string \<Rightarrow> BlobStore \<Rightarrow> (blob_error + bytes) \<times> BlobStore" where
  "DownloadShared blobBucket ok blobRef bs = blob_download blobBucket ok blobRef bs"

text \<open>\<open>SplitN(blobRef, "/", 3)\<close>.\<close>

definition split_ref :: "string \<Rightarrow> (string \<times> string \<times> string) option" where
  "split_ref blobRef =
     (case cut_at (CHR ''/'') blobRef of
        None \<Rightarrow> None
      | Some (a, rest) \<Rightarrow> (case cut_at (CHR ''/'') rest of None \<Rightarrow> None | Some (b, c) \<Rightarrow> Some (a, b, c)))"

definition DownloadVerified ::
    "(string \<Rightarrow> bytes option) \<Rightarrow> string \<Rightarrow> bool \<times> bool \<Rightarrow> string \<Rightarrow> bytes \<Rightarrow> BlobStore \<Rightarrow> (blob_error + bytes) \<times> BlobStore" where
  "DownloadVerified uuidParse blobBucket ok blobRef requestingUserID bs =
     (case split_ref blobRef of
        None \<Rightarrow> (Inl (BlobErr ''invalid blob reference format''), bs)
      | Some (_, u, _) \<Rightarrow>
          (case uuidParse u of
             None \<Rightarrow> (Inl (BlobErr ''invalid user ID in blob reference''), bs)
           | Some embeddedUserID \<Rightarrow>
               if embeddedUserID \<noteq> requestingUserID then (Inl (BlobErr ''blob ownership mismatch''), bs)
               else blob_download blobBucket ok blobRef bs))"

definition put_object :: "string \<Rightarrow> string \<Rightarrow> bool \<Rightarrow> string \<Rightarrow> bytes \<Rightarrow> BlobStore \<Rightarrow> (blob_error + string) \<times> BlobStore" where
  "put_object what blobBucket ok key data bs =
     (if ok then (Inr key, bs\<lparr>bl_objects := AList.update (bucketName blobBucket bs, key) data (bl_objects bs)\<rparr>)
      else (Inl (BlobErr what), bs))"

definition blob_key :: "bytes \<Rightarrow> bytes \<Rightarrow> bytes \<Rightarrow> string" where
  "blob_key tenantID userID messageID = uuid_String tenantID @ ''/'' @ uuid_String userID @ ''/'' @ uuid_String messageID"

definition shared_key :: "bytes \<Rightarrow> bytes \<Rightarrow> string" where
  "shared_key tenantID attachmentID = uuid_String tenantID @ ''/att/'' @ uuid_String attachmentID"

definition chunk_key :: "string \<Rightarrow> int \<Rightarrow> string" where
  "chunk_key blobRef chunkIndex = blobRef @ ''/'' @ showInt chunkIndex"

definition Upload :: "string \<Rightarrow> bool \<Rightarrow> bytes \<Rightarrow> bytes \<Rightarrow> bytes \<Rightarrow> bytes \<Rightarrow> BlobStore \<Rightarrow> (blob_error + string) \<times> BlobStore" where
  "Upload blobBucket ok tenantID userID messageID data bs = put_object ''upload blob'' blobBucket ok (blob_key tenantID userID messageID) data bs"

definition UploadShared :: "string \<Rightarrow> bool \<Rightarrow> bytes \<Rightarrow> bytes \<Rightarrow> bytes \<Rightarrow> BlobStore \<Rightarrow> (blob_error + string) \<times> BlobStore" where
  "UploadShared blobBucket ok tenantID attachmentID data bs = put_object ''upload shared blob'' blobBucket ok (shared_key tenantID attachmentID) data bs"

definition UploadChunk :: "string \<Rightarrow> bool \<Rightarrow> bytes \<Rightarrow> bytes \<Rightarrow> int \<Rightarrow> bytes \<Rightarrow> BlobStore \<Rightarrow> (blob_error + string) \<times> BlobStore" where
  "UploadChunk blobBucket ok tenantID fileID chunkIndex data bs =
     put_object ''upload chunk'' blobBucket ok (chunk_key (shared_key tenantID fileID) chunkIndex) data bs"

text \<open>The streaming variants send the first \<open>size\<close> bytes of the reader and fail if it has fewer.\<close>

definition put_stream :: "string \<Rightarrow> string \<Rightarrow> bool \<Rightarrow> string \<Rightarrow> bytes \<Rightarrow> nat \<Rightarrow> BlobStore \<Rightarrow> (blob_error + string) \<times> BlobStore" where
  "put_stream what blobBucket ok key reader sz bs = put_object what blobBucket (ok \<and> sz \<le> length reader) key (take sz reader) bs"

definition UploadChunkStream ::
    "string \<Rightarrow> bool \<Rightarrow> bytes \<Rightarrow> bytes \<Rightarrow> int \<Rightarrow> bytes \<Rightarrow> nat \<Rightarrow> BlobStore \<Rightarrow> (blob_error + string) \<times> BlobStore" where
  "UploadChunkStream blobBucket ok tenantID fileID chunkIndex reader sz bs =
     put_stream ''upload chunk stream'' blobBucket ok (chunk_key (shared_key tenantID fileID) chunkIndex) reader sz bs"

definition UploadSharedStream :: "string \<Rightarrow> bool \<Rightarrow> bytes \<Rightarrow> bytes \<Rightarrow> bytes \<Rightarrow> nat \<Rightarrow> BlobStore \<Rightarrow> (blob_error + string) \<times> BlobStore" where
  "UploadSharedStream blobBucket ok tenantID attachmentID reader sz bs =
     put_stream ''upload shared stream'' blobBucket ok (shared_key tenantID attachmentID) reader sz bs"

definition DownloadChunk :: "string \<Rightarrow> bool \<times> bool \<Rightarrow> string \<Rightarrow> int \<Rightarrow> BlobStore \<Rightarrow> (blob_error + bytes) \<times> BlobStore" where
  "DownloadChunk blobBucket ok blobRef chunkIndex bs = blob_download blobBucket ok (chunk_key blobRef chunkIndex) bs"

text \<open>A request that failed may have deleted the object.\<close>

datatype delete_out = Deleted | DeleteLost | DeleteFailed

definition blob_Delete :: "string \<Rightarrow> delete_out \<Rightarrow> string \<Rightarrow> BlobStore \<Rightarrow> blob_error option \<times> BlobStore" where
  "blob_Delete blobBucket out blobRef bs =
     (let bs' = bs\<lparr>bl_objects := AList.delete (bucketName blobBucket bs, blobRef) (bl_objects bs)\<rparr> in
      case out of
        Deleted \<Rightarrow> (None, bs')
      | DeleteLost \<Rightarrow> (Some (BlobErr ''delete blob''), bs')
      | DeleteFailed \<Rightarrow> (Some (BlobErr ''delete blob''), bs))"

subsection \<open>Ownership\<close>

definition no_slash :: "string \<Rightarrow> bool" where
  "no_slash s = (CHR ''/'' \<notin> set s)"

lemma cut_at_slash: "no_slash a \<Longrightarrow> cut_at (CHR ''/'') (a @ ''/'' @ b) = Some (a, b)"
  by (auto simp: cut_at_def no_slash_def takeWhile_append dropWhile_append)

lemma uuid_String_no_slash: "no_slash (uuid_String u)"
proof -
  have "c \<noteq> CHR ''/''" if "c \<in> set (hexEncode u)" for c
    using hexEncode_chars [OF that] by (auto simp: is_digit_def is_lower_def)
  then show ?thesis
    by (auto simp: no_slash_def uuid_String_def Let_def dest: in_set_takeD in_set_dropD)
qed

lemma split_ref_key: "split_ref (blob_key t u m) = Some (uuid_String t, uuid_String u, uuid_String m)"
  using cut_at_slash [OF uuid_String_no_slash] by (simp add: split_ref_def blob_key_def)

lemma split_ref_shared: "split_ref (shared_key t a) = Some (uuid_String t, ''att'', uuid_String a)"
proof -
  have "cut_at (CHR ''/'') (''att/'' @ uuid_String a) = Some (''att'', uuid_String a)"
    using cut_at_slash [of "''att''" "uuid_String a"] by (simp add: no_slash_def)
  then show ?thesis using cut_at_slash [OF uuid_String_no_slash, of t "''att/'' @ uuid_String a"]
    by (simp add: split_ref_def shared_key_def)
qed

text \<open>
  a stored message is read by its owner only. After a successful upload for a user the verified
  download gives that user the data back and refuses every other user; and whatever the store
  holds, a verified download succeeds only for a reference that names the user who asks.
\<close>

theorem blob_ownership:
  assumes "uuidParse (uuid_String u) = Some u"
    and "Upload bucket True t u m data bs = (Inr ref, bs')"
  shows "fst (DownloadVerified uuidParse bucket (True, ok) ref v bs') =
      (if v = u then Inr data else Inl (BlobErr ''blob ownership mismatch''))
    \<and> (\<forall>ref2 d. fst (DownloadVerified uuidParse bucket (True, ok) ref2 v bs') = Inr d \<longrightarrow>
         (\<exists>a owner c. split_ref ref2 = Some (a, owner, c) \<and> uuidParse owner = Some v))"
proof
  have ref: "ref = blob_key t u m" and bs': "bs' = bs\<lparr>bl_objects := AList.update (bucketName bucket bs, ref) data (bl_objects bs)\<rparr>"
    using assms(2) by (auto simp: Upload_def put_object_def)
  have "bucketName bucket bs' = bucketName bucket bs" by (simp add: bs' bucketName_def)
  then have "map_of (bl_objects bs') (bucketName bucket bs', ref) = Some data" by (simp add: bs')
  then show "fst (DownloadVerified uuidParse bucket (True, ok) ref v bs') =
      (if v = u then Inr data else Inl (BlobErr ''blob ownership mismatch''))"
    using assms(1) by (auto simp: DownloadVerified_def ref split_ref_key blob_download_def getFrom_def Let_def)
  show "\<forall>ref2 d. fst (DownloadVerified uuidParse bucket (True, ok) ref2 v bs') = Inr d \<longrightarrow>
         (\<exists>a owner c. split_ref ref2 = Some (a, owner, c) \<and> uuidParse owner = Some v)"
    by (auto simp: DownloadVerified_def split: option.splits if_splits)
qed

subsection \<open>Streams\<close>

text \<open>The streaming variants: the reader delivers the object, and its size comes with it.\<close>

definition streamFrom :: "bool \<Rightarrow> s3_objects \<Rightarrow> string \<Rightarrow> string \<Rightarrow> blob_error + bytes \<times> int" where
  "streamFrom ok objs bucket blobRef =
     (case getFrom ok objs bucket blobRef of
        Inr d \<Rightarrow> Inr (d, int (length d))
      | Inl (ErrBlobNotFound r) \<Rightarrow> Inl (ErrBlobNotFound r)
      | Inl (BlobErr _) \<Rightarrow> Inl (BlobErr ''stat blob''))"

definition DownloadStream :: "string \<Rightarrow> bool \<times> bool \<Rightarrow> string \<Rightarrow> BlobStore \<Rightarrow> (blob_error + bytes \<times> int) \<times> BlobStore" where
  "DownloadStream blobBucket ok blobRef bs =
     (let bucket = bucketName blobBucket bs in
      case streamFrom (fst ok) (bl_objects bs) bucket blobRef of
        Inr r \<Rightarrow> (Inr r, bs)
      | Inl (BlobErr e) \<Rightarrow> (Inl (BlobErr e), bs)
      | Inl (ErrBlobNotFound r) \<Rightarrow>
          (case bl_fallback bs of
             None \<Rightarrow> (Inl (ErrBlobNotFound r), bs)
           | Some objs \<Rightarrow>
               (case streamFrom (snd ok) objs bucket blobRef of
                  Inr d \<Rightarrow> (Inr d, bs\<lparr>bl_hits := bl_hits bs + 1\<rparr>)
                | Inl _ \<Rightarrow> (Inl (ErrBlobNotFound r), bs))))"

definition DownloadChunkStream :: "string \<Rightarrow> bool \<times> bool \<Rightarrow> string \<Rightarrow> int \<Rightarrow> BlobStore \<Rightarrow> (blob_error + bytes \<times> int) \<times> BlobStore" where
  "DownloadChunkStream blobBucket ok blobRef chunkIndex bs = DownloadStream blobBucket ok (chunk_key blobRef chunkIndex) bs"

definition DownloadSharedStream :: "string \<Rightarrow> bool \<times> bool \<Rightarrow> string \<Rightarrow> BlobStore \<Rightarrow> (blob_error + bytes \<times> int) \<times> BlobStore" where
  "DownloadSharedStream blobBucket ok blobRef bs = DownloadStream blobBucket ok blobRef bs"

text \<open>A stream gives what a download gives, with its length.\<close>

lemma DownloadStream_download:
  "fst (DownloadStream bucket ok ref bs) =
     (case fst (blob_download bucket ok ref bs) of
        Inr d \<Rightarrow> Inr (d, int (length d))
      | Inl (ErrBlobNotFound r) \<Rightarrow> Inl (ErrBlobNotFound r)
      | Inl (BlobErr _) \<Rightarrow> Inl (BlobErr ''stat blob''))"
  by (auto simp: DownloadStream_def blob_download_def streamFrom_def getFrom_def Let_def split: option.splits)

end
