(* ===== verification/Queue.thy ===== *)
theory Queue
  imports Crypto_Prim
begin

text \<open>
  \<open>internal/queue/nats.go\<close>: messages on the mail queue are encrypted, bound to their subject, and
  carry an authenticated time. The message broker is not modelled; HMAC is a parameter.
\<close>

subsection \<open>Keys\<close>

record QueueClient =
  qc_hmacKey :: bytes
  qc_encKey :: bytes

definition queueHKDFSalt :: bytes where
  "queueHKDFSalt = str_bytes ''bmail-queue-hkdf-salt-v1''"

definition deriveQueueEncKey :: "crypto_platform \<Rightarrow> bytes \<Rightarrow> string + bytes" where
  "deriveQueueEncKey P hmacKey =
     (case cp_hkdf P hmacKey queueHKDFSalt (str_bytes ''bmail-queue-encryption-v1'') 32 of
        None \<Rightarrow> Inl ''HKDF derive''
      | Some k \<Rightarrow> Inr k)"

text \<open>The key part of \<open>NewQueueClient\<close>: a key that has not 32 bytes is replaced by a random one.\<close>

definition NewQueueClient :: "crypto_platform \<Rightarrow> bytes option \<Rightarrow> QueueClient cr" where
  "NewQueueClient P hmacKey =
     bindm (case hmacKey of
              Some k \<Rightarrow> if length k = 32 then retm k else wrapm ''generate HMAC key'' (rand_read 32)
            | None \<Rightarrow> wrapm ''generate HMAC key'' (rand_read 32)) (\<lambda>key.
     bindm (liftm (wrap_res ''derive encryption key'' (deriveQueueEncKey P key))) (\<lambda>encKey.
     retm \<lparr>qc_hmacKey = key, qc_encKey = encKey\<rparr>))"

subsection \<open>Messages\<close>

definition hmacTagSize :: nat where "hmacTagSize = 32"
definition timestampSize :: nat where "timestampSize = 8"
definition nonceSizeX :: nat where "nonceSizeX = 24"
definition maxMessageAge :: int where "maxMessageAge = 60"
definition maxClockSkew :: int where "maxClockSkew = 30"

definition queue_mac :: "(bytes \<Rightarrow> bytes \<Rightarrow> bytes) \<Rightarrow> QueueClient \<Rightarrow> bytes \<Rightarrow> bytes \<Rightarrow> bytes" where
  "queue_mac hmac q tsBuf encPayload =
     hmac (qc_hmacKey q) (tsBuf @ be64 (word_of_nat (length encPayload)) @ encPayload)"

text \<open>\<open>now\<close> is the Unix time in seconds.\<close>

definition signMessage :: "crypto_platform \<Rightarrow> (bytes \<Rightarrow> bytes \<Rightarrow> bytes) \<Rightarrow> QueueClient \<Rightarrow> int \<Rightarrow> bytes \<Rightarrow> string \<Rightarrow> bytes cr" where
  "signMessage P hmac q now data subject =
     (if length (qc_encKey q) \<noteq> 32 then failm ''create XChaCha20-Poly1305''
      else bindm (wrapm ''generate nonce'' (rand_read nonceSizeX)) (\<lambda>nonce.
        let encPayload = nonce @ cp_seal P (qc_encKey q) nonce data (str_bytes subject);
            tsBuf = be64 (word_of_int now)
        in retm (queue_mac hmac q tsBuf encPayload @ tsBuf @ encPayload)))"

definition read_be64 :: "bytes \<Rightarrow> u64" where
  "read_be64 bs = word_of_nat (foldl (\<lambda>acc b. 256 * acc + unat b) 0 bs)"

text \<open>\<open>int64\<close> of the time stamp; the subtraction wraps.\<close>

definition message_age :: "int \<Rightarrow> bytes \<Rightarrow> int" where
  "message_age now tsBuf = goInt (now - sint (read_be64 tsBuf))"

definition verifyMessage :: "crypto_platform \<Rightarrow> (bytes \<Rightarrow> bytes \<Rightarrow> bytes) \<Rightarrow> QueueClient \<Rightarrow> int \<Rightarrow> bytes \<Rightarrow> string \<Rightarrow> string + bytes" where
  "verifyMessage P hmac q now sgnd subject =
     (if length sgnd < hmacTagSize + timestampSize + nonceSizeX then Inl ''message too short for verification''
      else
        (let tag = take hmacTagSize sgnd;
             tsBuf = take timestampSize (drop hmacTagSize sgnd);
             encPayload = drop (hmacTagSize + timestampSize) sgnd;
             age = message_age now tsBuf
         in if tag \<noteq> queue_mac hmac q tsBuf encPayload then Inl ''HMAC verification failed: message rejected''
            else if age < - maxClockSkew then Inl ''message from future''
            else if age > maxMessageAge then Inl ''message too old''
            else if length (qc_encKey q) \<noteq> 32 then Inl ''create XChaCha20-Poly1305''
            else (case cp_open P (qc_encKey q) (take nonceSizeX encPayload) (drop nonceSizeX encPayload) (str_bytes subject) of
                    None \<Rightarrow> Inl ''decrypt queue message''
                  | Some plaintext \<Rightarrow> Inr plaintext)))"

text \<open>\<open>Publish\<close>: what is handed to the broker, unless the broker refuses it.\<close>

definition Publish :: "crypto_platform \<Rightarrow> (bytes \<Rightarrow> bytes \<Rightarrow> bytes) \<Rightarrow> QueueClient \<Rightarrow> int \<Rightarrow> bool \<Rightarrow> string \<Rightarrow> bytes \<Rightarrow> (string \<times> bytes) cr" where
  "Publish P hmac q now accepted subject data =
     bindm (wrapm ''sign message'' (signMessage P hmac q now data subject)) (\<lambda>sgnd.
     if accepted then retm (subject, sgnd) else failm (''publish to '' @ subject))"

subsection \<open>Consumers\<close>

definition streamConfigs :: "(string \<times> string) list" where
  "streamConfigs = [(''MAIL_INBOUND'', ''mail.inbound.>''), (''MAIL_OUTBOUND'', ''mail.outbound.>'')]"

definition stream_of :: "string \<Rightarrow> string option" where
  "stream_of subject = map_option fst (List.find (\<lambda>cfg. hasPrefix subject (butlast (snd cfg))) streamConfigs)"

definition consumer_name :: "string \<Rightarrow> string \<Rightarrow> string" where
  "consumer_name streamName subject =
     streamName @ ''_''
     @ concat (map (\<lambda>c. if c = CHR ''.'' then ''_'' else if c = CHR ''>'' then ''all'' else if c = CHR ''*'' then ''any'' else [c]) subject)"

text \<open>
  A durable consumer whose last delivered sequence number is ahead of the stream is deleted before
  it is created again; the lookups may fail.
\<close>

definition stale_consumer :: "u64 option \<Rightarrow> u64 option \<Rightarrow> bool" where
  "stale_consumer delivered last_seq = (case (delivered, last_seq) of (Some d, Some l) \<Rightarrow> d > l | _ \<Rightarrow> False)"

datatype sub_effect = DeleteConsumer string string | CreateConsumer string string string

definition Subscribe :: "string \<Rightarrow> u64 option \<Rightarrow> u64 option \<Rightarrow> string + sub_effect list" where
  "Subscribe subject delivered last_seq =
     (case stream_of subject of
        None \<Rightarrow> Inl (''no stream found for subject: '' @ subject)
      | Some streamName \<Rightarrow>
          (let nm = consumer_name streamName subject in
           Inr ((if stale_consumer delivered last_seq then [DeleteConsumer streamName nm] else [])
                @ [CreateConsumer streamName nm subject])))"

datatype ack = Ack | Nak | Term

text \<open>The callback of the consumer: the handler returns whether it failed.\<close>

definition consume ::
    "crypto_platform \<Rightarrow> (bytes \<Rightarrow> bytes \<Rightarrow> bytes) \<Rightarrow> QueueClient \<Rightarrow> int \<Rightarrow> (bytes \<Rightarrow> 's \<Rightarrow> bool \<times> 's) \<Rightarrow> string \<Rightarrow> bytes \<Rightarrow> 's \<Rightarrow> ack \<times> 's" where
  "consume P hmac q now handler subject msg s =
     (case verifyMessage P hmac q now msg subject of
        Inl _ \<Rightarrow> (Term, s)
      | Inr data \<Rightarrow> (case handler data s of (failed, s') \<Rightarrow> (if failed then Nak else Ack, s')))"

subsection \<open>Lemmas\<close>

lemma foldl_digits:
  "foldl (\<lambda>acc i. 256 * acc + (n div 256 ^ i) mod 256) a (rev [0..<k]) = a * 256 ^ k + n mod (256 ^ k :: nat)"
proof (induction k arbitrary: a)
  case (Suc k)
  have "n mod 256 ^ Suc k = 256 ^ k * (n div 256 ^ k mod 256) + n mod 256 ^ k"
    using mod_mult2_eq [of n "256 ^ k" 256] by (simp add: mult.commute)
  then show ?case using Suc by (simp add: algebra_simps)
qed simp

lemma read_be64_be64 [simp]: "read_be64 (be64 w) = w"
proof -
  have ixs: "[7, 6, 5, 4, 3, 2, 1, 0] = rev [0..<8 :: nat]" by (simp add: upt_rec)
  have "foldl (\<lambda>acc b. 256 * acc + unat b) 0 (be64 w) = unat w mod 256 ^ 8"
    unfolding be64_def ixs by (simp only: foldl_map unat_of_nat foldl_digits) (simp add: foldl_digits)
  moreover have "unat w < 256 ^ 8" using unsigned_less [of w] by simp
  ultimately show ?thesis by (simp add: read_be64_def)
qed

lemma message_age_be64:
  assumes "0 \<le> sent" "sent < 2 ^ 62" "0 \<le> now" "now < 2 ^ 62"
  shows "message_age now (be64 (word_of_int sent)) = now - sent"
proof -
  have "sint (word_of_int sent :: u64) = sent"
    using assms by (simp add: sint_sbintrunc' signed_take_bit_int_eq_self)
  then show ?thesis using assms by (simp add: message_age_def)
qed

lemma signMessage_form:
  assumes "signMessage P hmac q now data subject r = (Inr m, r')"
  obtains nonce where "length nonce = 24" "length (qc_encKey q) = 32"
    "m = queue_mac hmac q (be64 (word_of_int now)) (nonce @ cp_seal P (qc_encKey q) nonce data (str_bytes subject))
         @ be64 (word_of_int now) @ nonce @ cp_seal P (qc_encKey q) nonce data (str_bytes subject)"
proof -
  obtain x st where x: "rand_read nonceSizeX r = (x, st)" by fastforce
  obtain nonce where "x = Inr nonce"
    using assms x by (cases x) (auto simp: signMessage_def bindm_def wrapm_def wrap_res_def failm_def split: if_splits)
  then show thesis
    using assms x that [of nonce] rand_read_length [of nonceSizeX r nonce st]
    by (auto simp: signMessage_def bindm_def wrapm_def wrap_res_def retm_def failm_def Let_def nonceSizeX_def split: if_splits)
qed

text \<open>Verification of a message this client signed is a matter of its age only.\<close>

lemma verify_signed:
  assumes "aead_laws P" "\<And>k m. length (hmac k m) = 32"
    and "0 \<le> sent" "sent < 2 ^ 62" "0 \<le> now" "now < 2 ^ 62"
    and "signMessage P hmac q sent data subject r = (Inr m, r')"
  shows "verifyMessage P hmac q now m subject =
    (if now - sent < - maxClockSkew then Inl ''message from future''
     else if now - sent > maxMessageAge then Inl ''message too old'' else Inr data)"
proof -
  obtain nonce where n: "length nonce = 24" "length (qc_encKey q) = 32"
    and m: "m = queue_mac hmac q (be64 (word_of_int sent)) (nonce @ cp_seal P (qc_encKey q) nonce data (str_bytes subject))
         @ be64 (word_of_int sent) @ nonce @ cp_seal P (qc_encKey q) nonce data (str_bytes subject)"
    using assms(7) by (rule signMessage_form)
  have "cp_open P (qc_encKey q) nonce (cp_seal P (qc_encKey q) nonce data (str_bytes subject)) (str_bytes subject) = Some data"
    using assms(1) n by (auto simp: aead_laws_def)
  then show ?thesis
    using n message_age_be64 [OF assms(3-6)] assms(2)
    by (simp add: verifyMessage_def m Let_def hmacTagSize_def timestampSize_def nonceSizeX_def queue_mac_def)
qed

text \<open>
  C25: a message that was signed for a subject is handed to the handler of that subject, with the
  data it was signed with, if it is at most 30 seconds ahead of the receiver's clock and at most
  60 seconds old. Otherwise it is terminated, which removes it from the stream for good: mail that
  waits longer than a minute for its consumer is lost.
\<close>

theorem queue_window:
  assumes "aead_laws P" "\<And>k m. length (hmac k m) = 32"
    and "0 \<le> sent" "sent < 2 ^ 62" "0 \<le> now" "now < 2 ^ 62"
    and "signMessage P hmac q sent data subject r = (Inr m, r')"
  shows "consume P hmac q now handler subject m s =
    (if - 30 \<le> now - sent \<and> now - sent \<le> 60
     then (if fst (handler data s) then Nak else Ack, snd (handler data s)) else (Term, s))"
  unfolding consume_def verify_signed [OF assms]
  by (auto simp: maxClockSkew_def maxMessageAge_def split: prod.splits)

end
