(* ===== verification/Outbound.thy ===== *)
theory Outbound
  imports Compose Sender Blob_Store Queue
begin

text \<open>
  The handler of \<open>cmd/smtp-outbound/main.go\<close>: it takes a message from the queue, fetches its
  attachments, composes and sends it, and then retries, bounces or is done. The stores, JSON and the
  parser of identifiers are parameters; the blob store, the counter of bounces, the limiter of bounce
  messages and the source of random bytes are the state.
\<close>

subsection \<open>Data\<close>

record attachment_row =
  ar_EncryptedFilename :: bytes
  ar_EncryptedContentType :: bytes
  ar_BlobKey :: string

record bounce_message =
  bm_from :: string
  bm_to :: string
  bm_tenant_id :: string
  bm_user_id :: string
  bm_encrypted :: EncryptedMessage
  bm_encryption_type :: string
  bm_folder_assignment :: string
  bm_message_id_header :: string
  bm_in_reply_to :: string
  bm_results :: "string \<times> string \<times> string"

datatype out_effect =
    Attempted send_result
  | DeleteBlob string
  | FreezeForAbuse bytes string
  | BounceEvent bytes bytes string string string string
  | PublishBounce string bounce_message
  | ScheduleRetry int string bytes

record out_env =
  oe_text :: text_lib
  oe_compose :: compose_env
  oe_send :: send_env
  oe_crypto :: crypto_platform
  oe_uuidParse :: "string \<Rightarrow> bytes option"
  oe_decode :: "bytes \<Rightarrow> OutboundMessage option"
  oe_encode :: "OutboundMessage \<Rightarrow> bytes"
  oe_blobStore :: bool
  oe_bucket :: string
  oe_get_ok :: "string \<Rightarrow> bool \<times> bool"
  oe_delete_out :: "string \<Rightarrow> delete_out"
  oe_attachments :: "(bytes \<Rightarrow> bytes \<Rightarrow> bytes \<Rightarrow> attachment_row option) option"
  oe_now :: int
  oe_user :: "string \<Rightarrow> mail_user option"
  oe_increment_ok :: bool
  oe_bounceEvents :: bool
  oe_bounce_uuid :: string
  oe_publish_ok :: bool

record out_state =
  os_blobs :: BlobStore
  os_limiter :: buckets
  os_recent_bounces :: "(bytes \<times> int) list"
  os_rnd :: rnd

subsection \<open>Attachments\<close>

fun fetch_plaintext ::
    "out_env \<Rightarrow> plaintextAttachment list \<Rightarrow> BlobStore \<Rightarrow> mimeAttachment list \<times> string list \<times> BlobStore" where
  "fetch_plaintext E [] bs = ([], [], bs)"
| "fetch_plaintext E (pa # pas) bs =
     (let entry = (\<lambda>d. \<lparr>ma_Filename = px_Filename pa, ma_ContentType = px_ContentType pa, ma_Data = d\<rparr>) in
      if oe_blobStore E \<and> containsStr (px_Data pa) ''/att/'' then
        (case DownloadShared (oe_bucket E) (oe_get_ok E (px_Data pa)) (px_Data pa) bs of
           (Inr d, bs1) \<Rightarrow>
             (case fetch_plaintext E pas bs1 of (atts, keys, bs2) \<Rightarrow> (entry d # atts, px_Data pa # keys, bs2))
         | (Inl _, bs1) \<Rightarrow> fetch_plaintext E pas bs1)
      else
        (case tl_decode (oe_text E) (px_Data pa) of
           Some d \<Rightarrow> (case fetch_plaintext E pas bs of (atts, keys, bs2) \<Rightarrow> (entry d # atts, keys, bs2))
         | None \<Rightarrow> fetch_plaintext E pas bs))"

fun fetch_legacy ::
    "out_env \<Rightarrow> (bytes \<Rightarrow> bytes \<Rightarrow> bytes \<Rightarrow> attachment_row option) \<Rightarrow> bytes \<Rightarrow> bytes \<Rightarrow> string list \<Rightarrow> BlobStore \<Rightarrow> mimeAttachment list \<times> BlobStore" where
  "fetch_legacy E getAttachment senderUID tenantID [] bs = ([], bs)"
| "fetch_legacy E getAttachment senderUID tenantID (aidStr # ids) bs =
     (case oe_uuidParse E aidStr of
        None \<Rightarrow> fetch_legacy E getAttachment senderUID tenantID ids bs
      | Some aid \<Rightarrow>
          (case getAttachment aid senderUID tenantID of
             None \<Rightarrow> fetch_legacy E getAttachment senderUID tenantID ids bs
           | Some att \<Rightarrow>
               (case DownloadVerified (oe_uuidParse E) (oe_bucket E) (oe_get_ok E (ar_BlobKey att)) (ar_BlobKey att) senderUID bs of
                  (Inl _, bs1) \<Rightarrow> fetch_legacy E getAttachment senderUID tenantID ids bs1
                | (Inr d, bs1) \<Rightarrow>
                    (case fetch_legacy E getAttachment senderUID tenantID ids bs1 of (atts, bs2) \<Rightarrow>
                       (\<lparr>ma_Filename = chars_of (ar_EncryptedFilename att), ma_ContentType = chars_of (ar_EncryptedContentType att),
                         ma_Data = d\<rparr> # atts, bs2)))))"

text \<open>The attachments, the keys of the temporary blobs they came from, and the blob store.\<close>

definition gather_attachments ::
    "out_env \<Rightarrow> OutboundMessage \<Rightarrow> bytes \<Rightarrow> BlobStore \<Rightarrow> mimeAttachment list \<times> string list \<times> BlobStore" where
  "gather_attachments E om tenantID bs =
     (if om_PlaintextAttachments om \<noteq> [] then fetch_plaintext E (om_PlaintextAttachments om) bs
      else
        (case oe_attachments E of
           None \<Rightarrow> ([], [], bs)
         | Some getAttachment \<Rightarrow>
             if om_AttachmentIDs om \<noteq> [] \<and> om_SenderUserID om \<noteq> [] \<and> oe_blobStore E then
               (case oe_uuidParse E (om_SenderUserID om) of
                  None \<Rightarrow> ([], [], bs)
                | Some senderUID \<Rightarrow>
                    (case fetch_legacy E getAttachment senderUID tenantID (om_AttachmentIDs om) bs of (atts, bs1) \<Rightarrow> (atts, [], bs1)))
             else ([], [], bs)))"

fun delete_blobs :: "out_env \<Rightarrow> string list \<Rightarrow> BlobStore \<Rightarrow> BlobStore" where
  "delete_blobs E [] bs = bs"
| "delete_blobs E (k # ks) bs = delete_blobs E ks (snd (blob_Delete (oe_bucket E) (oe_delete_out E k) k bs))"

subsection \<open>Bounces\<close>

definition BounceFreezeThreshold :: int where
  "BounceFreezeThreshold = 3"

text \<open>\<open>UPDATE users SET recent_bounces = recent_bounces + 1 ... RETURNING recent_bounces\<close>.\<close>

definition IncrementBounces :: "bool \<Rightarrow> bytes \<Rightarrow> (bytes \<times> int) list \<Rightarrow> int option \<times> (bytes \<times> int) list" where
  "IncrementBounces ok userID rows =
     (if ok then (case map_of rows userID of None \<Rightarrow> (None, rows) | Some n \<Rightarrow> (Some (n + 1), AList.update userID (n + 1) rows))
      else (None, rows))"

definition bounce_subject :: "string \<Rightarrow> string" where
  "bounce_subject originalTo = ''Undelivered: message to '' @ originalTo"

definition bounce_html :: "string \<Rightarrow> string \<Rightarrow> bool \<Rightarrow> string" where
  "bounce_html originalTo reason permanent =
     (let status = (if permanent then ''could not be delivered'' else ''could not be delivered after multiple attempts'');
          detail = (if permanent then ''This is a permanent error. The message will not be retried.''
                    else ''The server has exhausted all retry attempts.'')
      in ''<div style='' @ quot @ ''font-family: -apple-system, BlinkMacSystemFont, '' @ [CHR 0x27] @ ''Segoe UI'' @ [CHR 0x27]
         @ '', Roboto, sans-serif; max-width: 600px; line-height: 1.6;'' @ quot @ ''>'' @ [lf]
         @ ''<p>Your message to <strong>'' @ originalTo @ ''</strong> '' @ status @ ''.</p>'' @ [lf]
         @ ''<p>'' @ detail @ ''</p>'' @ [lf]
         @ ''<p style='' @ quot @ ''padding: 12px; background: #f8d7da; color: #721c24; border: 1px solid #f5c6cb; border-radius: 6px; font-family: monospace; font-size: 13px;''
         @ quot @ ''>'' @ EscapeString reason @ ''</p>'' @ [lf]
         @ ''<p style='' @ quot @ ''color: #888; font-size: 12px;'' @ quot @ ''>'' @ [CHR 0xE2, CHR 0x80, CHR 0x94] @ '' bmail mail delivery system</p>'' @ [lf]
         @ ''</div>'')"

definition bounce_kem :: "crypto_platform \<Rightarrow> mail_user \<Rightarrow> bytes option" where
  "bounce_kem P u =
     (if us_PublicKeyKEM u \<noteq> []
      then (case MLKEMEncapsulationKeyFromBytes P (us_PublicKeyKEM u) of Inl _ \<Rightarrow> None | Inr ek \<Rightarrow> Some ek) else None)"

text \<open>The bounce as a message to the sender; an error before the publication drops it.\<close>

definition publish_bounce ::
    "out_env \<Rightarrow> mail_user \<Rightarrow> string \<Rightarrow> string \<Rightarrow> string \<Rightarrow> string \<Rightarrow> bool \<Rightarrow> rnd \<Rightarrow> out_effect list \<times> rnd" where
  "publish_bounce E u originalFrom originalTo reason originalMessageID permanent r =
     (case newPublicKey (us_PublicKeyEncryption u) of
        Inl _ \<Rightarrow> ([], r)
      | Inr pub \<Rightarrow>
          (case EncryptMessageHybrid (oe_crypto E) pub (bounce_kem (oe_crypto E) u)
                  (str_bytes (bounce_subject originalTo)) (str_bytes (bounce_html originalTo reason permanent)) r of
             (Inl _, r') \<Rightarrow> ([], r')
           | (Inr encrypted, r') \<Rightarrow>
               (let msgDomain = bounce_domain originalFrom in
                (if oe_publish_ok E then
                   [PublishBounce (''mail.inbound.'' @ uuid_String (us_TenantID u))
                     \<lparr>bm_from = ''noreply@'' @ msgDomain, bm_to = originalFrom, bm_tenant_id = uuid_String (us_TenantID u),
                      bm_user_id = uuid_String (us_UserID u), bm_encrypted = encrypted, bm_encryption_type = ''received'',
                      bm_folder_assignment = ''inbox'', bm_message_id_header = ''<'' @ oe_bounce_uuid E @ ''@'' @ msgDomain @ ''>'',
                      bm_in_reply_to = originalMessageID, bm_results = (''pass'', ''pass'', ''pass'')\<rparr>]
                 else [], r'))))"

definition count_bounce :: "out_env \<Rightarrow> mail_user \<Rightarrow> bool \<Rightarrow> (bytes \<times> int) list \<Rightarrow> out_effect list \<times> (bytes \<times> int) list" where
  "count_bounce E u permanent rows =
     (if permanent then
        (case IncrementBounces (oe_increment_ok E) (us_UserID u) rows of
           (None, rows') \<Rightarrow> ([], rows')
         | (Some n, rows') \<Rightarrow>
             (if n \<ge> BounceFreezeThreshold then [FreezeForAbuse (us_UserID u) (''bounce-rate '' @ showInt n @ ''/7d'')] else [], rows'))
      else ([], rows))"

definition record_bounce :: "out_env \<Rightarrow> mail_user \<Rightarrow> string \<Rightarrow> string \<Rightarrow> bool \<Rightarrow> out_effect list" where
  "record_bounce E u originalTo reason permanent =
     (if oe_bounceEvents E then
        (case splitBounceReason reason of (smtpCode, smtpMsg) \<Rightarrow>
           [BounceEvent (us_UserID u) (us_TenantID u) originalTo smtpCode smtpMsg (if permanent then ''permanent'' else ''transient'')])
      else [])"

definition insertBounce ::
    "out_env \<Rightarrow> string \<Rightarrow> string \<Rightarrow> string \<Rightarrow> string \<Rightarrow> bool \<Rightarrow> out_state \<Rightarrow> out_effect list \<times> out_state" where
  "insertBounce E originalFrom originalTo reason originalMessageID permanent s =
     (case allowBounce (oe_now E) originalFrom (os_limiter s) of (lim, allowed) \<Rightarrow>
      let s1 = s\<lparr>os_limiter := lim\<rparr> in
      if \<not> allowed then ([], s1)
      else (case oe_user E originalFrom of
              None \<Rightarrow> ([], s1)
            | Some u \<Rightarrow>
                (case count_bounce E u permanent (os_recent_bounces s1) of (frozen, rows) \<Rightarrow>
                 case publish_bounce E u originalFrom originalTo reason originalMessageID permanent (os_rnd s1) of (pub, r) \<Rightarrow>
                   (frozen @ record_bounce E u originalTo reason permanent @ pub, s1\<lparr>os_recent_bounces := rows, os_rnd := r\<rparr>))))"

subsection \<open>The handler\<close>

definition maxAttempts :: int where
  "maxAttempts = 3"

definition tmpBlobsTerminal :: "send_error option \<Rightarrow> int \<Rightarrow> bool" where
  "tmpBlobsTerminal sendErr attempt =
     (case sendErr of
        None \<Rightarrow> True
      | Some e \<Rightarrow> is_permanent e \<or> goInt (attempt + 1) \<ge> maxAttempts)"

text \<open>\<open>Duration(30 * math.Pow(4, attempt - 1)) * Second\<close>, at most five minutes.\<close>

definition retry_backoff :: "int \<Rightarrow> int" where
  "retry_backoff attempt =
     (let secs = (if attempt \<ge> 1 then 30 * 4 ^ nat (attempt - 1) else 30 div 4 ^ nat (1 - attempt)) in
      if secs * second > 5 * minute then 5 * minute else secs * second)"

definition retry_subject :: "int \<Rightarrow> string" where
  "retry_subject attempt = ''mail.outbound.retry.'' @ showInt attempt"

text \<open>What follows the sending; the timer of a retry and its publication are \<open>out_run\<close>.\<close>

definition after_send ::
    "out_env \<Rightarrow> OutboundMessage \<Rightarrow> send_error option \<Rightarrow> out_state \<Rightarrow> out_effect list \<times> out_state" where
  "after_send E om sendErr s =
     (case sendErr of
        None \<Rightarrow> ([], s)
      | Some e \<Rightarrow>
          if is_permanent e then insertBounce E (om_SenderAddress om) (om_ToAddress om) (error_text e) (om_RFCMessageID om) True s
          else
            (let attempt = goInt (om_Attempt om + 1); om' = om\<lparr>om_Attempt := attempt\<rparr> in
             if attempt \<ge> maxAttempts
             then insertBounce E (om_SenderAddress om) (om_ToAddress om) (error_text e) (om_RFCMessageID om) False s
             else ([ScheduleRetry (retry_backoff attempt) (retry_subject attempt) (oe_encode E om')], s)))"

text \<open>A panic in the composition is the value None. The handler itself never asks for redelivery.\<close>

definition outbound_handle :: "out_env \<Rightarrow> bytes \<Rightarrow> out_state \<Rightarrow> (out_effect list \<times> out_state) option" where
  "outbound_handle E msg s =
     (case oe_decode E msg of
        None \<Rightarrow> Some ([], s)
      | Some om \<Rightarrow>
     (case oe_uuidParse E (om_TenantID om) of
        None \<Rightarrow> Some ([], s)
      | Some tenantID \<Rightarrow>
     (case gather_attachments E om tenantID (os_blobs s) of (attachments, tmpBlobKeys, bs) \<Rightarrow>
     (case composeRFC5322 (oe_text E) (oe_compose E) om attachments of
        None \<Rightarrow> None
      | Some rfcBody \<Rightarrow>
          (let sr = SendMessage (oe_send E) (om_SenderAddress om) (om_ToAddress om) rfcBody tenantID;
               terminal = tmpBlobsTerminal (sr_error sr) (om_Attempt om) \<and> oe_blobStore E;
               s1 = s\<lparr>os_blobs := (if terminal then delete_blobs E tmpBlobKeys bs else bs)\<rparr>
           in case after_send E om (sr_error sr) s1 of (effs, s2) \<Rightarrow>
                Some (Attempted sr # (if terminal then map DeleteBlob tmpBlobKeys else []) @ effs, s2))))))"

text \<open>
  The life of a message: one handler run per environment, as long as a run schedules a retry. The
  timer fires and the retry is published and consumed within the time the queue allows; a shutdown
  before that would lose it.
\<close>

fun retry_of :: "out_effect list \<Rightarrow> (int \<times> string \<times> bytes) option" where
  "retry_of [] = None"
| "retry_of (ScheduleRetry backoff subject payload # es) = Some (backoff, subject, payload)"
| "retry_of (_ # es) = retry_of es"

fun out_runs :: "out_env list \<Rightarrow> bytes \<Rightarrow> out_state \<Rightarrow> (out_effect list list \<times> out_state) option" where
  "out_runs [] msg s = Some ([], s)"
| "out_runs (E # Es) msg s =
     (case outbound_handle E msg s of
        None \<Rightarrow> None
      | Some (effs, s1) \<Rightarrow>
          (case retry_of effs of
             None \<Rightarrow> Some ([effs], s1)
           | Some (_, _, payload) \<Rightarrow>
               (case out_runs Es payload s1 of
                  None \<Rightarrow> None
                | Some (runs, s2) \<Rightarrow> Some (effs # runs, s2))))"

end
