(* ===== verification/Out_Props.thy ===== *)
theory Out_Props
  imports Outbound
begin

text \<open>
  Properties of the outbound service: what reaches a server is signed and was composed from the
  queued message, TLS policies hold before anything of the message is written, header lines
  cannot be injected, retries end and keep the attachments they need.
\<close>

subsection \<open>Lemmas: servers\<close>

text \<open>The events that carry a part of the message.\<close>

fun carries_mail :: "smtp_event \<Rightarrow> bool" where
  "carries_mail (SMail _) = True"
| "carries_mail (SRcpt _) = True"
| "carries_mail (SBody _) = True"
| "carries_mail _ = False"

lemma mx_connect_events:
  "mx_connect helo V host = (r, evs) \<Longrightarrow> e \<in> set evs \<Longrightarrow> \<not> carries_mail e"
  by (auto simp: mx_connect_def split: option.splits if_splits)

lemma mx_connect_tls:
  "mx_connect helo V host = (Inr up, evs) \<Longrightarrow>
     up = sv_starttls V \<and> (up \<longrightarrow> STLS (sv_certs V) \<in> set evs)"
  by (auto simp: mx_connect_def split: option.splits if_splits)

lemma mx_transfer_body:
  "mx_transfer V sender rcpt body = (r, evs) \<Longrightarrow> SBody b \<in> set evs \<Longrightarrow> b = body"
  by (auto simp: mx_transfer_def split: option.splits if_splits)

lemma mx_transfer_events:
  "mx_transfer V sender rcpt body = (r, evs) \<Longrightarrow> e \<in> set evs \<Longrightarrow> carries_mail e \<or> e = SQuit"
  by (auto simp: mx_transfer_def split: option.splits if_splits)

text \<open>If something of the message was written, the checks passed before it.\<close>

lemma deliver_checked:
  assumes "deliverToMX E V host sender rcpt body pol = (r, evs)" "e \<in> set evs" "carries_mail e"
  obtains up pre post where "mx_connect (sn_helo E) V host = (Inr up, pre)"
    "policy_check (sn_sha E) (sn_lower E) V host up pol = None"
    "mx_transfer V sender rcpt body = (r, post)" "evs = pre @ post"
proof -
  obtain c pre where c: "mx_connect (sn_helo E) V host = (c, pre)" by fastforce
  then obtain up where up: "c = Inr up"
    using assms mx_connect_events [OF c] by (cases c) (auto simp: deliverToMX_def)
  obtain r' post where t: "mx_transfer V sender rcpt body = (r', post)" by fastforce
  have "policy_check (sn_sha E) (sn_lower E) V host up pol = None"
    using assms mx_connect_events [OF c] c up by (auto simp: deliverToMX_def split: option.splits)
  then show thesis using assms(1) c up t that by (simp add: deliverToMX_def)
qed

lemma policy_check_None:
  assumes "policy_check sha lower V host up pol = None"
  shows "tr_requireTLS pol \<Longrightarrow> up"
    and "map_of (tr_tlsaHashes pol) host = Some hs \<Longrightarrow> up \<Longrightarrow>
           \<exists>spki rest. sv_certs V = Some (spki # rest) \<and> digest32 sha spki \<in> set hs"
    and "tr_stsPolicy pol = Some p \<Longrightarrow> sts_Mode p = ''enforce'' \<Longrightarrow> MatchesMX lower p host"
proof -
  show "up" if "tr_requireTLS pol" using assms that by (auto simp: policy_check_def split: if_splits)
  show "\<exists>spki rest. sv_certs V = Some (spki # rest) \<and> digest32 sha spki \<in> set hs"
    if "map_of (tr_tlsaHashes pol) host = Some hs" up
  proof -
    have "dane_check sha V host hs = None"
      using assms that by (auto simp: policy_check_def split: if_splits option.splits)
    then show ?thesis by (auto simp: dane_check_def list_ex_iff split: option.splits list.splits if_splits)
  qed
  show "MatchesMX lower p host" if "tr_stsPolicy pol = Some p" "sts_Mode p = ''enforce''"
    using assms that by (auto simp: policy_check_def split: if_splits option.splits)
qed

text \<open>Every conversation is one with a server of the list.\<close>

lemma try_servers_delivery:
  assumes "d \<in> set (snd (try_servers E i mxs sender rcpt body pol err))"
  shows "\<exists>mx r. mx \<in> set mxs \<and> dl_host d = trim_dot mx
           \<and> deliverToMX E (sn_server E (dl_index d)) (dl_host d) sender rcpt body pol = (r, dl_events d)"
  using assms
proof (induction mxs arbitrary: i err)
  case (Cons mx mxs)
  obtain r evs where d: "deliverToMX E (sn_server E i) (trim_dot mx) sender rcpt body pol = (r, evs)" by fastforce
  from Cons.prems have "d = \<lparr>dl_index = i, dl_host = trim_dot mx, dl_events = evs\<rparr> \<or>
      (\<exists>e. d \<in> set (snd (try_servers E (Suc i) mxs sender rcpt body pol (Some e))))"
    by (auto simp: d Let_def case_prod_beta split: option.splits if_splits)
  then show ?case
  proof
    assume "d = \<lparr>dl_index = i, dl_host = trim_dot mx, dl_events = evs\<rparr>"
    then show ?thesis using d by auto
  next
    assume "\<exists>e. d \<in> set (snd (try_servers E (Suc i) mxs sender rcpt body pol (Some e)))"
    then show ?thesis using Cons.IH by (metis list.set_intros(2))
  qed
qed simp

subsection \<open>Lemmas: policies\<close>

lemma tlsa_hosts_mono:
  "tr_requireTLS pol \<Longrightarrow> tr_requireTLS (tlsa_hosts query mxs pol)"
  by (induction mxs arbitrary: pol) (auto simp: Let_def split: option.splits)

lemma tlsa_hosts_other:
  "host \<notin> set (map trim_dot mxs) \<Longrightarrow> map_of (tr_tlsaHashes (tlsa_hosts query mxs pol)) host = map_of (tr_tlsaHashes pol) host"
  by (induction mxs arbitrary: pol) (auto simp: Let_def split: option.splits)

lemma tlsa_hosts_host:
  assumes "lookupTLSARecords query host = Some hs" "hs \<noteq> []" "host \<in> set (map trim_dot mxs)"
  shows "map_of (tr_tlsaHashes (tlsa_hosts query mxs pol)) host = Some hs \<and> tr_requireTLS (tlsa_hosts query mxs pol)"
  using assms(3)
proof (induction mxs arbitrary: pol)
  case (Cons mx mxs)
  show ?case
  proof (cases "host \<in> set (map trim_dot mxs)")
    case True
    then show ?thesis using Cons.IH by (auto simp: Let_def split: option.splits)
  next
    case False
    then have "trim_dot mx = host" using Cons.prems by auto
    then show ?thesis using assms(1,2) False tlsa_hosts_other tlsa_hosts_mono by (simp add: Let_def)
  qed
qed simp

lemma tlsa_hosts_sts [simp]: "tr_stsPolicy (tlsa_hosts query mxs pol) = tr_stsPolicy pol"
  by (induction mxs arbitrary: pol) (auto simp: Let_def split: option.splits)

lemma lookup_policy_tlsa:
  assumes "lookupTLSARecords (sn_tlsa E) host = Some hs" "hs \<noteq> []" "host \<in> set (map trim_dot mxs)"
  shows "map_of (tr_tlsaHashes (fst (lookupTLSPolicy E rd mxs))) host = Some hs
    \<and> tr_requireTLS (fst (lookupTLSPolicy E rd mxs))"
  using tlsa_hosts_host [OF assms]
  by (auto simp: lookupTLSPolicy_def Let_def split: option.splits prod.splits)

text \<open>The MTA-STS policy of a domain, if it announces one and it can be had.\<close>

definition announced_policy :: "send_env \<Rightarrow> string \<Rightarrow> MTASTSPolicy option" where
  "announced_policy E rd =
     (case se_txt (sn_sts E) (''_mta-sts.'' @ rd) of
        None \<Rightarrow> None
      | Some txts \<Rightarrow> if \<exists>t\<in>set txts. containsStr t ''v=STSv1'' then fst (fetchMTASTSPolicy (sn_sts E) rd) else None)"

lemma lookup_policy_sts:
  assumes "announced_policy E rd = Some p" "sts_Mode p = ''enforce''"
  shows "tr_stsPolicy (fst (lookupTLSPolicy E rd mxs)) = Some p \<and> tr_requireTLS (fst (lookupTLSPolicy E rd mxs))"
  using assms
  by (cases "fetchMTASTSPolicy (sn_sts E) rd")
     (auto simp: announced_policy_def lookupTLSPolicy_def Let_def list_ex_iff split: option.splits if_splits)

subsection \<open>Lemmas: sending\<close>

lemma SendMessage_delivery:
  assumes "d \<in> set (sr_deliveries (SendMessage E sender rcpt body tenantID))"
  obtains t b mxs mx r where "sn_tenant E tenantID = Inr t"
    "dkim_sign_body E t (insert_autocrypt E sender body) = Inr (b, True)"
    "sn_mx E (recipient_domain rcpt) = Inr mxs" "mx \<in> set mxs" "dl_host d = trim_dot mx"
    "deliverToMX E (sn_server E (dl_index d)) (dl_host d) sender rcpt b (fst (lookupTLSPolicy E (recipient_domain rcpt) mxs)) = (r, dl_events d)"
proof -
  obtain t where t: "sn_tenant E tenantID = Inr t"
    using assms by (cases "sn_tenant E tenantID") (auto simp: SendMessage_def not_sent_def)
  obtain b where b: "dkim_sign_body E t (insert_autocrypt E sender body) = Inr (b, True)"
    using assms t by (auto simp: SendMessage_def not_sent_def split: sum.splits prod.splits if_splits)
  have d: "d \<in> set (sr_deliveries (send_signed E sender rcpt b))" using assms t b by (simp add: SendMessage_def)
  obtain m ms where m: "sn_mx E (recipient_domain rcpt) = Inr (m # ms)"
    using d by (auto simp: send_signed_def not_sent_def Let_def split: sum.splits list.splits)
  have "d \<in> set (snd (try_servers E 0 (m # ms) sender rcpt b (fst (lookupTLSPolicy E (recipient_domain rcpt) (m # ms))) None))"
    using d m by (simp add: send_signed_def Let_def case_prod_beta del: try_servers.simps)
  from try_servers_delivery [OF this] show thesis using that [OF t b m] by blast
qed

text \<open>Whatever path signed it, a signed body is a result of the library for the tenant's domain.\<close>

definition signed_for :: "send_env \<Rightarrow> string \<Rightarrow> bytes \<Rightarrow> bytes \<Rightarrow> bool" where
  "signed_for E dn m b = (\<exists>signer selector. sn_sign E (sign_opts (sn_now E) signer dn selector) m = Inr b)"

lemma sign_opts_domain [simp]: "so_Domain (sign_opts now signer dn selector) = dn"
  by (simp add: sign_opts_def)

lemma signed_for_opts: "signed_for E dn m b \<Longrightarrow> \<exists>opts. so_Domain opts = dn \<and> sn_sign E opts m = Inr b"
  unfolding signed_for_def by (metis sign_opts_domain)

lemma SignMessageRSA_signed:
  "SignMessageRSA (sn_sign E) (sn_now E) k dn selector m = Inr b \<Longrightarrow> signed_for E dn m b"
  by (auto simp: SignMessageRSA_def signMessageWithKey_def signed_for_def split: sum.splits)

lemma SignMessage_signed:
  "SignMessage (sn_sign E) (sn_now E) k dn selector m = Inr b \<Longrightarrow> signed_for E dn m b"
  by (auto simp: SignMessage_def signMessageWithKey_def signed_for_def split: sum.splits)

text \<open>One signature, or an RSA signature and then an Ed25519 signature over the result.\<close>

lemma dkim_sign_body_signed:
  assumes "dkim_sign_body E t m = Inr (b, True)"
  shows "signed_for E (tn_Domain t) m b \<or> (\<exists>b1. signed_for E (tn_Domain t) m b1 \<and> signed_for E (tn_Domain t) b1 b)"
proof -
  have pool: "signed_for E (tn_Domain t) m b" if "sign_pool E t pool m = Inr (b, True)" for pool
    using that SignMessageRSA_signed by (auto simp: sign_pool_def split: sum.splits private_key.splits)
  have rsa: "snd bs = (fst bs \<noteq> m \<or> snd bs) \<and> (snd bs \<longrightarrow> signed_for E (tn_Domain t) m (fst bs)) \<and> (\<not> snd bs \<longrightarrow> fst bs = m)"
    if "sign_rsa E t m = Inr bs" for bs
    using that SignMessageRSA_signed by (auto simp: sign_rsa_def split: sum.splits private_key.splits if_splits)
  have ed: "bs = (b, True) \<or> signed_for E (tn_Domain t) (fst bs) b" if "sign_ed25519 E t bs = Inr (b, True)" for bs
    using that SignMessage_signed by (auto simp: sign_ed25519_def split: sum.splits option.splits if_splits)
  have legacy: ?thesis if "(case sign_rsa E t m of Inl e \<Rightarrow> Inl e | Inr bs \<Rightarrow> sign_ed25519 E t bs) = Inr (b, True)"
  proof -
    from that obtain bs where "sign_rsa E t m = Inr bs" "sign_ed25519 E t bs = Inr (b, True)" by (auto split: sum.splits)
    then show ?thesis using rsa ed by (cases bs) fastforce
  qed
  show ?thesis
    using assms pool legacy by (auto simp: dkim_sign_body_def split: option.splits sum.splits if_splits)
qed

subsection \<open>Properties: what reaches a server\<close>

text \<open>
  C13: no unsigned mail leaves: every body that is written to a server was produced by the DKIM
  library for the domain of the tenant, and behind the signature headers it is the composed message
  with at most an Autocrypt header inserted. The library is assumed to prepend its header, as it is
  documented to.
\<close>

theorem sent_mail_is_signed:
  assumes "\<And>opts m b. sn_sign E opts m = Inr b \<Longrightarrow> \<exists>h. b = h @ m"
    and "d \<in> set (sr_deliveries (SendMessage E sender rcpt body tenantID))"
    and "SBody b \<in> set (dl_events d)"
  shows "\<exists>t opts m h. sn_tenant E tenantID = Inr t \<and> so_Domain opts = tn_Domain t \<and> sn_sign E opts m = Inr b
    \<and> b = h @ insert_autocrypt E sender body"
proof -
  from assms(2) obtain t b' mxs mx r where t: "sn_tenant E tenantID = Inr t"
    and s: "dkim_sign_body E t (insert_autocrypt E sender body) = Inr (b', True)"
    and d: "deliverToMX E (sn_server E (dl_index d)) (dl_host d) sender rcpt b' (fst (lookupTLSPolicy E (recipient_domain rcpt) mxs)) = (r, dl_events d)"
    by (rule SendMessage_delivery)
  have "carries_mail (SBody b)" by simp
  with d assms(3) obtain up pre post where c: "mx_connect (sn_helo E) (sn_server E (dl_index d)) (dl_host d) = (Inr up, pre)"
    and p: "mx_transfer (sn_server E (dl_index d)) sender rcpt b' = (r, post)" "dl_events d = pre @ post"
    by (rule deliver_checked)
  have "b = b'" using p assms(3) mx_connect_events [OF c] mx_transfer_body [OF p(1)] by fastforce
  have pre: "signed_for E dn m b \<Longrightarrow> \<exists>opts h. so_Domain opts = dn \<and> sn_sign E opts m = Inr b \<and> b = h @ m" for dn m b
    using assms(1) signed_for_opts [of E dn m b] by metis
  from dkim_sign_body_signed [OF s] show ?thesis
  proof
    assume "signed_for E (tn_Domain t) (insert_autocrypt E sender body) b'"
    then show ?thesis using pre t \<open>b = b'\<close> by blast
  next
    assume "\<exists>b1. signed_for E (tn_Domain t) (insert_autocrypt E sender body) b1 \<and> signed_for E (tn_Domain t) b1 b'"
    then obtain b1 o1 o2 h1 h2 where "so_Domain o2 = tn_Domain t" "sn_sign E o2 b1 = Inr b'"
      "b' = h2 @ b1" "b1 = h1 @ insert_autocrypt E sender body"
      using pre by metis
    then show ?thesis using t \<open>b = b'\<close> by (metis append.assoc)
  qed
qed

text \<open>
  C14: TLS policies are enforced: before a sender, a recipient or a body is written to a server, the
  connection is encrypted if the server offers it, if the server has DANE records, or if the
  domain's MTA-STS policy is enforced. With DANE records the certificate matches one of them; under
  an enforced policy the host is one that the policy allows.
\<close>

theorem tls_policy_enforced:
  assumes "d \<in> set (sr_deliveries (SendMessage E sender rcpt body tenantID))"
    and "e \<in> set (dl_events d)" "carries_mail e"
  shows "\<exists>pre post. dl_events d = pre @ post \<and> e \<in> set post \<and> (\<forall>x\<in>set pre. \<not> carries_mail x)
    \<and> (sv_starttls (sn_server E (dl_index d)) \<longrightarrow> STLS (sv_certs (sn_server E (dl_index d))) \<in> set pre)
    \<and> (\<forall>hs. lookupTLSARecords (sn_tlsa E) (dl_host d) = Some hs \<and> hs \<noteq> [] \<longrightarrow>
         (\<exists>spki rest. STLS (Some (spki # rest)) \<in> set pre \<and> digest32 (sn_sha E) spki \<in> set hs))
    \<and> (\<forall>p. announced_policy E (recipient_domain rcpt) = Some p \<and> sts_Mode p = ''enforce'' \<longrightarrow>
         (\<exists>certs. STLS certs \<in> set pre) \<and> MatchesMX (sn_lower E) p (dl_host d))"
proof -
  from assms(1) obtain t b mxs mx r where mx: "mx \<in> set mxs" "dl_host d = trim_dot mx"
    and d: "deliverToMX E (sn_server E (dl_index d)) (dl_host d) sender rcpt b (fst (lookupTLSPolicy E (recipient_domain rcpt) mxs)) = (r, dl_events d)"
    by (rule SendMessage_delivery)
  define V where "V = sn_server E (dl_index d)"
  define pol where "pol = fst (lookupTLSPolicy E (recipient_domain rcpt) mxs)"
  obtain up pre post where c: "mx_connect (sn_helo E) V (dl_host d) = (Inr up, pre)"
    and chk: "policy_check (sn_sha E) (sn_lower E) V (dl_host d) up pol = None"
    and tr: "mx_transfer V sender rcpt b = (r, post)" and evs: "dl_events d = pre @ post"
    using deliver_checked [OF d assms(2,3)] unfolding V_def pol_def by blast
  note conn = mx_connect_tls [OF c]
  note ok = policy_check_None [OF chk]
  have pre: "\<forall>x\<in>set pre. \<not> carries_mail x" using mx_connect_events [OF c] by blast
  have dane: "\<exists>spki rest. STLS (Some (spki # rest)) \<in> set pre \<and> digest32 (sn_sha E) spki \<in> set hs"
    if "lookupTLSARecords (sn_tlsa E) (dl_host d) = Some hs" "hs \<noteq> []" for hs
  proof -
    have "dl_host d \<in> set (map trim_dot mxs)" using mx by simp
    from lookup_policy_tlsa [OF that this]
    have "map_of (tr_tlsaHashes pol) (dl_host d) = Some hs" "tr_requireTLS pol" by (auto simp: pol_def)
    then show ?thesis using ok(1,2) conn by fastforce
  qed
  have sts: "(\<exists>certs. STLS certs \<in> set pre) \<and> MatchesMX (sn_lower E) p (dl_host d)"
    if "announced_policy E (recipient_domain rcpt) = Some p" "sts_Mode p = ''enforce''" for p
  proof -
    from lookup_policy_sts [OF that] have "tr_stsPolicy pol = Some p" "tr_requireTLS pol" by (auto simp: pol_def)
    then show ?thesis using ok(1,3) that conn by blast
  qed
  show ?thesis
  proof (intro exI conjI)
    show "dl_events d = pre @ post" by (rule evs)
    show "e \<in> set post" using assms(2,3) evs pre by auto
    show "\<forall>x\<in>set pre. \<not> carries_mail x" by (rule pre)
    show "sv_starttls (sn_server E (dl_index d)) \<longrightarrow> STLS (sv_certs (sn_server E (dl_index d))) \<in> set pre"
      using conn by (simp add: V_def)
  qed (use dane sts in blast)+
qed

subsection \<open>Lemmas: header lines\<close>

lemma sanitized_one_line [simp]: "one_line (sanitizeHeaderValue s)"
  by (simp add: sanitizeHeaderValue_def sanitizeHeader_clean)

lemma join_comma_one_line: "list_all one_line xs \<Longrightarrow> one_line (join_comma xs)"
  by (induction xs rule: join_comma.induct) (auto simp: cr_def lf_def)

lemma from_line_one_line: "one_line (from_line om)"
  by (auto simp: from_line_def Let_def quot_def backslash_def intro!: one_line_replaceAll) (auto simp: cr_def lf_def)

lemma header_lines_one_line:
  "one_line (ce_date C) \<Longrightarrow> one_line (message_id C om) \<Longrightarrow> list_all one_line (header_lines T C om)"
  by (auto simp: header_lines_def from_line_one_line intro!: join_comma_one_line) (auto simp: cr_def lf_def list_all_iff)

lemma text_lines_emit:
  "list_all one_line ls \<Longrightarrow> text_lines [] (concat (map emit_line ls) @ rest) = ls @ text_lines [] rest"
  by (induction ls) (auto simp: emit_line_def text_lines_line)

definition field_name :: "string \<Rightarrow> string" where
  "field_name l = takeWhile (\<lambda>c. c \<noteq> CHR '':'') l"

lemma header_lines_fields:
  "map field_name (header_lines T C om) =
     [''From'', ''To''] @ (if om_CcAddresses om \<noteq> [] then [''Cc''] else []) @ [''Subject'', ''Date'', ''Message-Id'']
     @ (if om_InReplyTo om \<noteq> [] then [''In-Reply-To'', ''References''] else []) @ [''MIME-Version'']"
  by (auto simp: header_lines_def from_line_def field_name_def Let_def)

text \<open>
  no header injection on outgoing mail: whatever the addresses, the display name, the subject
  and the reply header contain, the first lines of a composed message are the fields of the
  template, each once and in order. The message identifier is the one value that is not sanitised,
  and it has to be one line.
\<close>

theorem compose_headers:
  assumes "one_line (ce_date C)" "one_line (message_id C om)"
    and "composeRFC5322 T C om attachments = Some msg"
  shows "\<exists>text rest. msg = str_bytes text \<and> text_lines [] text = header_lines T C om @ rest
    \<and> map field_name (header_lines T C om) =
        [''From'', ''To''] @ (if om_CcAddresses om \<noteq> [] then [''Cc''] else []) @ [''Subject'', ''Date'', ''Message-Id'']
        @ (if om_InReplyTo om \<noteq> [] then [''In-Reply-To'', ''References''] else []) @ [''MIME-Version'']"
proof -
  obtain parts where "mime_parts T C om attachments = Some parts"
    "msg = str_bytes (concat (map emit_line (header_lines T C om)) @ parts)"
    using assms(3) by (auto simp: composeRFC5322_def simp del: str_bytes_append split: option.splits)
  then show ?thesis
    using text_lines_emit [OF header_lines_one_line [OF assms(1,2)]] header_lines_fields by blast
qed

subsection \<open>Lemmas: blobs\<close>

definition same_blobs :: "BlobStore \<Rightarrow> BlobStore \<Rightarrow> bool" where
  "same_blobs a b = (bl_objects a = bl_objects b \<and> bl_bucket a = bl_bucket b \<and> bl_fallback a = bl_fallback b)"

lemma same_blobs_trans: "same_blobs a b \<Longrightarrow> same_blobs b c \<Longrightarrow> same_blobs a c"
  by (simp add: same_blobs_def)

lemma same_blobs_refl [simp]: "same_blobs a a"
  by (simp add: same_blobs_def)

lemma blob_download_same: "same_blobs bs (snd (blob_download bucket ok ref bs))"
  by (auto simp: blob_download_def same_blobs_def Let_def split: sum.splits blob_error.splits option.splits)

lemma blob_download_cong:
  "same_blobs a b \<Longrightarrow> fst (blob_download bucket ok ref a) = fst (blob_download bucket ok ref b)"
  by (auto simp: blob_download_def same_blobs_def bucketName_def Let_def split: sum.splits blob_error.splits option.splits)

lemma fetch_plaintext_same: "same_blobs bs (snd (snd (fetch_plaintext E pas bs)))"
proof (induction pas arbitrary: bs)
  case (Cons pa pas)
  then show ?case
    using blob_download_same [of bs "oe_bucket E" "oe_get_ok E (px_Data pa)" "px_Data pa"]
    by (auto simp: Let_def DownloadShared_def case_prod_beta split: sum.splits option.splits prod.splits
        intro: same_blobs_trans)
qed simp

lemma fetch_legacy_same: "same_blobs bs (snd (fetch_legacy E g u t ids bs))"
proof (induction ids arbitrary: bs)
  case (Cons i ids)
  have dl: "same_blobs bs (snd (DownloadVerified p bucket ok ref v bs))" for p bucket ok ref v
    using blob_download_same [of bs bucket ok ref] by (auto simp: DownloadVerified_def split: option.splits)
  have step: "same_blobs bs (snd (fetch_legacy E g u t ids c))" if "same_blobs bs c" for c
    using that Cons.IH same_blobs_trans by blast
  show ?case
    by (auto simp: case_prod_beta split: sum.splits option.splits prod.splits intro: step dl)
qed simp

lemma gather_same: "same_blobs bs (snd (snd (gather_attachments E om t bs)))"
  using fetch_plaintext_same fetch_legacy_same
  by (auto simp: gather_attachments_def case_prod_beta split: option.splits)

lemma fetch_plaintext_cong:
  assumes "same_blobs a b"
  shows "fst (fetch_plaintext E pas a) = fst (fetch_plaintext E pas b)
    \<and> fst (snd (fetch_plaintext E pas a)) = fst (snd (fetch_plaintext E pas b))"
  using assms
proof (induction pas arbitrary: a b)
  case (Cons pa pas)
  let ?dl = "blob_download (oe_bucket E) (oe_get_ok E (px_Data pa)) (px_Data pa)"
  obtain x y where x: "?dl a = (x, y)" by fastforce
  obtain z where z: "?dl b = (x, z)"
    using blob_download_cong [OF Cons.prems, of "oe_bucket E" "oe_get_ok E (px_Data pa)" "px_Data pa"] x
    by (metis fst_conv prod.exhaust_sel)
  have "same_blobs y z"
    using blob_download_same [of a "oe_bucket E" "oe_get_ok E (px_Data pa)" "px_Data pa"]
      blob_download_same [of b "oe_bucket E" "oe_get_ok E (px_Data pa)" "px_Data pa"] x z Cons.prems
    by (simp add: same_blobs_def)
  then show ?case using Cons x z by (simp add: Let_def DownloadShared_def case_prod_beta split: sum.splits option.splits)
qed simp

lemma fetch_plaintext_keys: "fst (snd (fetch_plaintext E pas bs)) \<noteq> [] \<Longrightarrow> oe_blobStore E"
  by (induction pas arbitrary: bs) (auto simp: Let_def case_prod_beta split: if_splits sum.splits option.splits prod.splits)

lemma gather_keys: "fst (snd (gather_attachments E om t bs)) \<noteq> [] \<Longrightarrow> oe_blobStore E"
  using fetch_plaintext_keys by (auto simp: gather_attachments_def case_prod_beta split: if_splits option.splits)

lemma DownloadVerified_cong:
  assumes "same_blobs a b"
  shows "fst (DownloadVerified p bucket ok ref v a) = fst (DownloadVerified p bucket ok ref v b)
    \<and> same_blobs (snd (DownloadVerified p bucket ok ref v a)) (snd (DownloadVerified p bucket ok ref v b))"
  using blob_download_cong [OF assms] blob_download_same [of a bucket ok ref] blob_download_same [of b bucket ok ref] assms
  by (auto simp: DownloadVerified_def same_blobs_def split: option.splits)

lemma fetch_legacy_cong:
  assumes "same_blobs a b"
  shows "fst (fetch_legacy E g u t ids a) = fst (fetch_legacy E g u t ids b)"
  using assms
proof (induction ids arbitrary: a b)
  case (Cons i ids)
  show ?case
  proof (cases "Option.bind (oe_uuidParse E i) (\<lambda>aid. g aid u t)")
    case None
    then show ?thesis using Cons by (auto split: option.splits)
  next
    case (Some att)
    let ?dl = "DownloadVerified (oe_uuidParse E) (oe_bucket E) (oe_get_ok E (ar_BlobKey att)) (ar_BlobKey att) u"
    obtain x y z where "?dl a = (x, y)" "?dl b = (x, z)" "same_blobs y z"
      using DownloadVerified_cong [OF Cons.prems, of "oe_uuidParse E" "oe_bucket E" "oe_get_ok E (ar_BlobKey att)" "ar_BlobKey att" u]
      by (metis prod.collapse)
    then show ?thesis using Some Cons.IH [of y z] by (auto simp: case_prod_beta split: option.splits sum.splits)
  qed
qed simp

lemma gather_cong:
  assumes "same_blobs a b"
  shows "fst (gather_attachments E om t a) = fst (gather_attachments E om t b)
    \<and> fst (snd (gather_attachments E om t a)) = fst (snd (gather_attachments E om t b))"
  using fetch_plaintext_cong [OF assms] fetch_legacy_cong [OF assms]
  by (auto simp: gather_attachments_def case_prod_beta split: option.splits)

lemma gather_attempt [simp]: "gather_attachments E (om\<lparr>om_Attempt := k\<rparr>) t bs = gather_attachments E om t bs"
  by (auto simp: gather_attachments_def split: option.splits)

lemma blob_Delete_objects:
  "bl_objects (snd (blob_Delete bucket out k bs)) =
     (if out = DeleteFailed then bl_objects bs else AList.delete (bucketName bucket bs, k) (bl_objects bs))"
  by (cases out) (auto simp: blob_Delete_def)

lemma delete_blobs_gone:
  assumes "\<And>k. k \<in> set ks \<Longrightarrow> oe_delete_out E k = Deleted" "k \<in> set ks"
  shows "map_of (bl_objects (delete_blobs E ks bs)) (bucketName (oe_bucket E) bs, k) = None"
  using assms
proof (induction ks arbitrary: bs)
  case (Cons k' ks)
  let ?bs = "snd (blob_Delete (oe_bucket E) (oe_delete_out E k') k' bs)"
  have d: "bl_objects ?bs = AList.delete (bucketName (oe_bucket E) bs, k') (bl_objects bs)"
    and nm: "bucketName (oe_bucket E) ?bs = bucketName (oe_bucket E) bs"
    using Cons.prems(1) [of k'] by (simp_all add: blob_Delete_def bucketName_def)
  have gone: "map_of (bl_objects (delete_blobs E ks b)) x = None" if "map_of (bl_objects b) x = None" for b x
    using that
  proof (induction ks arbitrary: b)
    case (Cons c cs)
    then show ?case by (simp add: blob_Delete_objects delete_conv')
  qed simp
  show ?case
  proof (cases "k \<in> set ks")
    case True
    then show ?thesis using Cons.IH [of ?bs] Cons.prems nm by simp
  next
    case False
    then show ?thesis using gone [of ?bs] d Cons.prems by (simp add: delete_conv')
  qed
qed simp

subsection \<open>Lemmas: retries\<close>

lemma retry_of_append: "retry_of (xs @ ys) = (case retry_of xs of None \<Rightarrow> retry_of ys | Some r \<Rightarrow> Some r)"
  by (induction xs rule: retry_of.induct) auto

lemma retry_of_deletes [simp]: "retry_of (map DeleteBlob ks) = None"
  by (induction ks) auto

lemma publish_bounce_effects:
  "e \<in> set (fst (publish_bounce E u a b c m p r)) \<Longrightarrow> \<exists>subj msg. e = PublishBounce subj msg"
  by (auto simp: publish_bounce_def Let_def split: sum.splits prod.splits if_splits)

text \<open>A bounce schedules no retry and deletes no blob.\<close>

lemma count_bounce_effects: "e \<in> set (fst (count_bounce E u p rows)) \<Longrightarrow> \<exists>v why. e = FreezeForAbuse v why"
  by (auto simp: count_bounce_def split: prod.splits option.splits if_splits)

lemma record_bounce_effects: "e \<in> set (record_bounce E u b c p) \<Longrightarrow> \<exists>v t x y z w. e = BounceEvent v t x y z w"
  by (cases "oe_bounceEvents E"; cases "splitBounceReason c") (simp_all add: record_bounce_def)

lemma insertBounce_set:
  "e \<in> set (fst (insertBounce E a b c m p s)) \<Longrightarrow>
     \<exists>u. e \<in> set (fst (count_bounce E u p (os_recent_bounces s))) \<or> e \<in> set (record_bounce E u b c p)
       \<or> e \<in> set (fst (publish_bounce E u a b c m p (os_rnd s)))"
  by (fastforce simp: insertBounce_def Let_def case_prod_beta split: option.splits if_splits)

lemma insertBounce_effects:
  "e \<in> set (fst (insertBounce E a b c m p s)) \<Longrightarrow>
     (\<exists>u why. e = FreezeForAbuse u why) \<or> (\<exists>u t x y z w. e = BounceEvent u t x y z w) \<or> (\<exists>subj msg. e = PublishBounce subj msg)"
  by (drule insertBounce_set) (meson count_bounce_effects record_bounce_effects publish_bounce_effects)

lemma retry_of_None: "(\<And>b subj p. ScheduleRetry b subj p \<notin> set es) \<Longrightarrow> retry_of es = None"
  by (induction es rule: retry_of.induct) auto

lemma insertBounce_retry [simp]: "retry_of (fst (insertBounce E a b c m p s)) = None"
  by (rule retry_of_None) (auto dest: insertBounce_effects)

lemma insertBounce_blobs [simp]: "os_blobs (snd (insertBounce E a b c m p s)) = os_blobs s"
  by (auto simp: insertBounce_def Let_def case_prod_beta split: option.splits)

definition retries :: "send_error option \<Rightarrow> int \<Rightarrow> bool" where
  "retries sendErr attempt = (\<exists>e. sendErr = Some e \<and> \<not> is_permanent e \<and> goInt (attempt + 1) < maxAttempts)"

lemma terminal_iff: "tmpBlobsTerminal sendErr attempt \<longleftrightarrow> \<not> retries sendErr attempt"
  by (auto simp: tmpBlobsTerminal_def retries_def split: option.splits)

lemma after_send_retry:
  "retry_of (fst (after_send E om err s)) =
     (if retries err (om_Attempt om)
      then Some (retry_backoff (goInt (om_Attempt om + 1)), retry_subject (goInt (om_Attempt om + 1)),
                 oe_encode E (om\<lparr>om_Attempt := goInt (om_Attempt om + 1)\<rparr>)) else None)"
  by (auto simp: after_send_def retries_def Let_def split: option.splits)

lemma after_send_blobs [simp]: "os_blobs (snd (after_send E om err s)) = os_blobs s"
  by (auto simp: after_send_def Let_def split: option.splits)

lemma after_send_deletes: "DeleteBlob k \<notin> set (fst (after_send E om err s))"
  by (auto simp: after_send_def Let_def split: option.splits dest: insertBounce_effects)

text \<open>One run of the handler on a message that can be read.\<close>

lemma handle_run:
  assumes "oe_decode E msg = Some om" "oe_uuidParse E (om_TenantID om) = Some t"
    and "outbound_handle E msg s = Some (effs, s')"
  obtains sr atts ks bs where "gather_attachments E om t (os_blobs s) = (atts, ks, bs)"
    "retry_of effs = (if retries (sr_error sr) (om_Attempt om)
       then Some (retry_backoff (goInt (om_Attempt om + 1)), retry_subject (goInt (om_Attempt om + 1)),
                 oe_encode E (om\<lparr>om_Attempt := goInt (om_Attempt om + 1)\<rparr>)) else None)"
    "{k. DeleteBlob k \<in> set effs} = (if retries (sr_error sr) (om_Attempt om) then {} else set ks)"
    "os_blobs s' = (if retries (sr_error sr) (om_Attempt om) \<or> \<not> oe_blobStore E then bs else delete_blobs E ks bs)"
    "Attempted sr \<in> set effs"
proof -
  obtain atts ks bs where g: "gather_attachments E om t (os_blobs s) = (atts, ks, bs)" by (metis prod.exhaust)
  obtain rfcBody where c: "composeRFC5322 (oe_text E) (oe_compose E) om atts = Some rfcBody"
    using assms g by (auto simp: outbound_handle_def split: option.splits)
  define sr where "sr = SendMessage (oe_send E) (om_SenderAddress om) (om_ToAddress om) rfcBody t"
  define s1 where "s1 = s\<lparr>os_blobs := (if \<not> retries (sr_error sr) (om_Attempt om) \<and> oe_blobStore E then delete_blobs E ks bs else bs)\<rparr>"
  define a where "a = after_send E om (sr_error sr) s1"
  have effs: "effs = Attempted sr # (if \<not> retries (sr_error sr) (om_Attempt om) \<and> oe_blobStore E then map DeleteBlob ks else []) @ fst a"
    and s': "s' = snd a"
    using assms g c by (auto simp: outbound_handle_def Let_def terminal_iff case_prod_beta a_def s1_def sr_def)
  have keys: "ks \<noteq> [] \<Longrightarrow> oe_blobStore E" using gather_keys [of E om t "os_blobs s"] g by simp
  have retry: "retry_of (fst a) = (if retries (sr_error sr) (om_Attempt om)
       then Some (retry_backoff (goInt (om_Attempt om + 1)), retry_subject (goInt (om_Attempt om + 1)),
                 oe_encode E (om\<lparr>om_Attempt := goInt (om_Attempt om + 1)\<rparr>)) else None)"
    unfolding a_def by (rule after_send_retry)
  have deletes: "DeleteBlob k \<notin> set (fst a)" for k unfolding a_def by (rule after_send_deletes)
  show thesis
  proof (rule that [OF g, of sr])
    show "retry_of effs = (if retries (sr_error sr) (om_Attempt om)
       then Some (retry_backoff (goInt (om_Attempt om + 1)), retry_subject (goInt (om_Attempt om + 1)),
                 oe_encode E (om\<lparr>om_Attempt := goInt (om_Attempt om + 1)\<rparr>)) else None)"
      unfolding effs by (simp add: retry_of_append retry)
    show "{k. DeleteBlob k \<in> set effs} = (if retries (sr_error sr) (om_Attempt om) then {} else set ks)"
      using keys deletes unfolding effs by (cases "ks = []") auto
    show "os_blobs s' = (if retries (sr_error sr) (om_Attempt om) \<or> \<not> oe_blobStore E then bs else delete_blobs E ks bs)"
      unfolding s' a_def by (simp add: s1_def)
  qed (simp add: effs)
qed

subsection \<open>Properties: retries\<close>

text \<open>
  C16: temporary attachment blobs live exactly as long as a retry may need them. A run that
  schedules a retry deletes none of them, and the same message then finds the same attachments
  again; any other run deletes all that it fetched, and if the object store obeys they are gone.
\<close>

theorem tmp_blobs_lifecycle:
  assumes "oe_decode E msg = Some om" "oe_uuidParse E (om_TenantID om) = Some t"
    and "gather_attachments E om t (os_blobs s) = (atts, ks, bs)"
    and "outbound_handle E msg s = Some (effs, s')"
  shows "if retry_of effs \<noteq> None
    then {k. DeleteBlob k \<in> set effs} = {}
      \<and> fst (gather_attachments E (om\<lparr>om_Attempt := om_Attempt om + 1\<rparr>) t (os_blobs s')) = atts
      \<and> fst (snd (gather_attachments E (om\<lparr>om_Attempt := om_Attempt om + 1\<rparr>) t (os_blobs s'))) = ks
    else {k. DeleteBlob k \<in> set effs} = set ks
      \<and> ((\<forall>k\<in>set ks. oe_delete_out E k = Deleted) \<longrightarrow>
           (\<forall>k\<in>set ks. map_of (bl_objects (os_blobs s')) (bucketName (oe_bucket E) (os_blobs s), k) = None))"
proof -
  from assms(1,2,4) obtain sr atts' ks' bs' where g: "gather_attachments E om t (os_blobs s) = (atts', ks', bs')"
    and r: "retry_of effs = (if retries (sr_error sr) (om_Attempt om)
       then Some (retry_backoff (goInt (om_Attempt om + 1)), retry_subject (goInt (om_Attempt om + 1)),
                 oe_encode E (om\<lparr>om_Attempt := goInt (om_Attempt om + 1)\<rparr>)) else None)"
    and d: "{k. DeleteBlob k \<in> set effs} = (if retries (sr_error sr) (om_Attempt om) then {} else set ks')"
    and b: "os_blobs s' = (if retries (sr_error sr) (om_Attempt om) \<or> \<not> oe_blobStore E then bs' else delete_blobs E ks' bs')"
    and "Attempted sr \<in> set effs"
    by (rule handle_run)
  have eq: "atts' = atts" "ks' = ks" "bs' = bs" using g assms(3) by simp_all
  have same: "same_blobs (os_blobs s) bs" using gather_same [of "os_blobs s" E om t] assms(3) by simp
  show ?thesis
  proof (cases "retries (sr_error sr) (om_Attempt om)")
    case True
    then have "os_blobs s' = bs" using b eq by simp
    then show ?thesis using True r d gather_cong [OF same, of E om t] assms(3) by simp
  next
    case False
    have nm: "bucketName (oe_bucket E) (os_blobs s) = bucketName (oe_bucket E) bs"
      using same by (simp add: same_blobs_def bucketName_def)
    have "map_of (bl_objects (os_blobs s')) (bucketName (oe_bucket E) bs, k) = None"
      if "\<forall>k\<in>set ks. oe_delete_out E k = Deleted" "k \<in> set ks" for k
    proof -
      have "oe_blobStore E" using gather_keys [of E om t "os_blobs s"] assms(3) that by force
      then show ?thesis using b False eq delete_blobs_gone [of ks E k bs] that by simp
    qed
    then show ?thesis using False r d eq nm by auto
  qed
qed

text \<open>Messages that are not calendar messages are composed without a panic.\<close>

lemma compose_returns: "om_BodyFormat om \<noteq> ''calendar'' \<Longrightarrow> \<exists>m. composeRFC5322 T C om atts = Some m"
  by (auto simp: composeRFC5322_def mime_parts_def Let_def split: option.splits prod.splits)

lemma handle_returns:
  assumes "oe_decode E msg = Some om" "om_BodyFormat om \<noteq> ''calendar''"
  shows "\<exists>effs s'. outbound_handle E msg s = Some (effs, s')"
proof -
  have "\<exists>m. composeRFC5322 (oe_text E) (oe_compose E) om atts = Some m" for atts
    using assms(2) by (rule compose_returns)
  then show ?thesis
    using assms(1) by (auto simp: outbound_handle_def Let_def case_prod_beta split: option.splits) (metis option.distinct(1))
qed

lemma goInt_succ: "0 \<le> a \<Longrightarrow> a < 3 \<Longrightarrow> goInt (a + 1) = a + 1"
  by simp

text \<open>The runs of a message at attempt \<open>3 - n\<close>: at most \<open>n\<close> of them, and the last schedules none.\<close>

lemma out_runs_bounded:
  assumes "\<And>E E' k. E \<in> set Es \<Longrightarrow> E' \<in> set Es \<Longrightarrow> 0 \<le> k \<Longrightarrow> k < 3 \<Longrightarrow>
      oe_decode E' (oe_encode E (om\<lparr>om_Attempt := k\<rparr>)) = Some (om\<lparr>om_Attempt := k\<rparr>)"
    and "\<And>E. E \<in> set Es \<Longrightarrow> oe_uuidParse E (om_TenantID om) = Some t"
    and "om_BodyFormat om \<noteq> ''calendar''"
    and "\<And>E. E \<in> set Es \<Longrightarrow> oe_decode E msg = Some om"
    and "0 \<le> om_Attempt om" "3 - om_Attempt om = int n" "0 < n" "n \<le> length Es"
  shows "\<exists>runs s'. out_runs Es msg s = Some (runs, s') \<and> runs \<noteq> [] \<and> length runs \<le> n
    \<and> retry_of (last runs) = None \<and> (\<forall>r\<in>set (butlast runs). retry_of r \<noteq> None)"
  using assms
proof (induction Es arbitrary: msg om s n)
  case (Cons E Es)
  obtain effs s1 where h: "outbound_handle E msg s = Some (effs, s1)"
    using handle_returns Cons.prems(3,4) by (metis list.set_intros(1))
  show ?case
  proof (cases "retry_of effs")
    case None
    then show ?thesis using h Cons.prems(7) by auto
  next
    case (Some r)
    let ?om = "om\<lparr>om_Attempt := om_Attempt om + 1\<rparr>"
    have a: "om_Attempt om < 3" using Cons.prems(6,7) by simp
    have dec: "oe_decode E msg = Some om" and uid: "oe_uuidParse E (om_TenantID om) = Some t"
      using Cons.prems(2,4) by simp_all
    obtain sr :: send_result where "retries (sr_error sr) (om_Attempt om)"
      and p: "r = (retry_backoff (om_Attempt om + 1), retry_subject (om_Attempt om + 1), oe_encode E ?om)"
      using handle_run [OF dec uid h] Some goInt_succ [OF Cons.prems(5) a] by (metis option.distinct(1) option.inject)
    then have next3: "om_Attempt om + 1 < 3" using goInt_succ [OF Cons.prems(5) a] by (auto simp: retries_def maxAttempts_def)
    have "\<exists>runs s'. out_runs Es (oe_encode E ?om) s1 = Some (runs, s') \<and> runs \<noteq> [] \<and> length runs \<le> n - 1
      \<and> retry_of (last runs) = None \<and> (\<forall>r\<in>set (butlast runs). retry_of r \<noteq> None)"
      by (rule Cons.IH [where om = ?om]) (use Cons.prems next3 in auto)
    then obtain runs s' where "out_runs Es (oe_encode E ?om) s1 = Some (runs, s')" "runs \<noteq> []" "length runs \<le> n - 1"
      "retry_of (last runs) = None" "\<forall>r\<in>set (butlast runs). retry_of r \<noteq> None" by blast
    then show ?thesis using h Some p Cons.prems(7) by auto
  qed
qed simp


subsection \<open>Bounce records\<close>

lemma no_digit_no_code:
  assumes "\<not> rx_space c" "\<not> is_digit c"
  shows "splitBounceReason (c # s) = ([], c # s)"
  using assms by (simp add: splitBounceReason_def bounceReasonRegexp_def advance_def)

text \<open>
  The reason that is split for the support panel is the text of the error, which begins with
  \<open>permanent failure\<close> or \<open>temporary failure\<close>, and so no status code is ever found in it.
\<close>

lemma bounce_code_never_found:
  "splitBounceReason (error_text (ErrPermanent code m)) = ([], error_text (ErrPermanent code m))"
  "splitBounceReason (error_text (ErrTemporary code m)) = ([], error_text (ErrTemporary code m))"
  by (simp_all add: no_digit_no_code rx_space_def is_digit_def)

text \<open>
  If lowering the organizer makes it longer (as it does for U+023A), the index of \<open>mailto:\<close> can lie
  past the end of the text, and the composition panics.
\<close>

lemma organizer_panics:
  assumes "tl_lower T org = pre @ ''mailto:''" "length org < length pre + 7"
  shows "ics_organizer T org = None"
proof -
  have "last_index (pre @ ''mailto:'') ''mailto:'' = Some (length pre)"
    by (induction pre) (simp_all add: hasPrefix_def)
  then show ?thesis using assms by (simp add: ics_organizer_def)
qed

end
