(* ===== verification/Domain_Props.thy ===== *)
theory Domain_Props
  imports Domain
begin

text \<open>
  Round trips of \<open>internal/domain\<close>: policies and records that are generated here are read back by
  the parsers and pass the verification.
\<close>

subsection \<open>Lemmas: fields and trimming\<close>

definition visible :: "char \<Rightarrow> bool" where
  "visible c = (32 < (of_char c :: nat) \<and> (of_char c :: nat) < 127)"

lemma encodings_not_visible: "list_all (\<lambda>e. e \<noteq> [] \<and> \<not> visible (hd e) \<and> \<not> visible (last e)) space_encodings"
  by code_simp

lemma visible_head:
  assumes "visible c" "e \<noteq> []" "\<not> visible (hd e)"
  shows "take (length e) (c # s) \<noteq> e"
  using assms by (cases e) auto

lemma visible_no_space: "visible c \<Longrightarrow> space_prefix (c # s) = 0"
proof -
  assume c: "visible c"
  have "List.find (\<lambda>e. take (length e) (c # s) = e) space_encodings = None"
    unfolding find_None_iff using encodings_not_visible visible_head [OF c] by (auto simp: list_all_iff)
  then show ?thesis by (simp add: space_prefix_def)
qed

lemma visible_no_space_suffix: "visible c \<Longrightarrow> space_suffix (c # s) = 0"
proof -
  assume c: "visible c"
  have "List.find (\<lambda>e. take (length e) (c # s) = rev e) space_encodings = None"
    unfolding find_None_iff
  proof clarify
    fix e
    assume e: "e \<in> set space_encodings" "take (length e) (c # s) = rev e"
    then have "e \<noteq> []" "\<not> visible (last e)" using encodings_not_visible by (auto simp: list_all_iff)
    then show False using visible_head [of c "rev e" s] c e(2) by (simp add: hd_rev)
  qed
  then show ?thesis by (simp add: space_suffix_def)
qed

lemma fields_from_word:
  "list_all visible w \<Longrightarrow> fields_from (w @ s) acc = fields_from s (acc @ w)"
proof (induction w arbitrary: acc)
  case (Cons c w)
  then show ?case by (subst fields_from.simps) (simp add: Let_def visible_no_space)
qed simp

lemma space_prefix_blank: "space_prefix (CHR '' '' # s) = 1"
  by (simp add: space_prefix_def space_encodings_def)

lemma fields_from_blank: "w \<noteq> [] \<Longrightarrow> fields_from (CHR '' '' # s) w = w # fields_from s []"
  by (subst fields_from.simps) (simp add: Let_def space_prefix_blank)

lemma fields_from_end: "w \<noteq> [] \<Longrightarrow> fields_from [] w = [w]"
  by (subst fields_from.simps) simp

text \<open>Words joined by single spaces.\<close>

fun join_space :: "string list \<Rightarrow> string" where
  "join_space [] = []"
| "join_space [w] = w"
| "join_space (w # ws) = w @ CHR '' '' # join_space ws"

lemma strFields_join:
  "list_all (\<lambda>w. w \<noteq> [] \<and> list_all visible w) ws \<Longrightarrow> strFields (join_space ws) = ws"
  unfolding strFields_def
proof (induction ws rule: join_space.induct)
  case 1
  then show ?case by (subst fields_from.simps) simp
next
  case (2 w)
  then show ?case using fields_from_word [of w "[]" "[]"] by (simp add: fields_from_end)
next
  case (3 w v vs)
  then show ?case using fields_from_word [of w _ "[]"] by (simp add: fields_from_blank)
qed

lemma trim_left_id: "s = [] \<or> f s = 0 \<Longrightarrow> trim_left f s = s"
  by (subst trim_left.simps) auto

lemma trimSpace_visible:
  assumes "s = [] \<or> visible (hd s) \<and> visible (last s)"
  shows "trimSpace s = s"
proof (cases "s = []")
  case False
  then obtain c cs where c: "s = c # cs" "visible c" using assms by (cases s) auto
  obtain d ds where d: "rev s = d # ds" "visible d" using assms False by (cases "rev s") (auto simp: last_rev hd_rev [symmetric])
  have l: "trim_left space_prefix s = s" using c by (simp add: trim_left_id visible_no_space)
  have "trim_left space_suffix (rev s) = rev s" using d by (simp add: trim_left_id visible_no_space_suffix)
  then show ?thesis by (simp add: trimSpace_def l)
qed (simp add: trimSpace_def trim_left_id)

subsection \<open>Lemmas: lines\<close>

lemma trimSpace_blank: "trimSpace (CHR '' '' # s) = trimSpace s"
  by (simp add: trimSpace_def, subst (1) trim_left.simps) (simp add: space_prefix_blank)

lemma splitStr_line: "c \<notin> set l \<Longrightarrow> splitStr c (l @ c # s) = l # splitStr c s"
  by (induction l) auto

lemma splitStr_lines:
  "list_all (\<lambda>l. c \<notin> set l) ls \<Longrightarrow> splitStr c (concat (map (\<lambda>l. l @ [c]) ls)) = ls @ [[]]"
  by (induction ls) (auto simp: splitStr_line)

definition plain_line :: "string \<Rightarrow> bool" where
  "plain_line l = (lf \<notin> set l \<and> l \<noteq> [] \<and> visible (last l) \<and> int (length l) < 65536)"

lemma scan_lines_concat:
  assumes "list_all plain_line ls"
  shows "scan_lines (concat (map (\<lambda>l. l @ [lf]) ls)) = ls"
proof -
  have "splitStr lf (concat (map (\<lambda>l. l @ [lf]) ls)) = ls @ [[]]"
    using assms by (intro splitStr_lines) (auto simp: list_all_iff plain_line_def)
  moreover have "takeWhile (\<lambda>l. length l < 65536) ls = ls"
    using assms by (auto simp: takeWhile_eq_all_conv list_all_iff plain_line_def)
  moreover have "map (\<lambda>l. if l \<noteq> [] \<and> last l = cr then butlast l else l) ls = ls"
    using assms by (intro map_idI) (auto simp: list_all_iff plain_line_def visible_def cr_def)
  ultimately show ?thesis by (simp add: scan_lines_def takeWhile_eq_all_conv [THEN iffD2])
qed

definition mx_host_ok :: "string \<Rightarrow> bool" where
  "mx_host_ok h = (h \<noteq> [] \<and> visible (hd h) \<and> visible (last h) \<and> lf \<notin> set h \<and> int (length h) < 65000)"

lemma trim_mx: "mx_host_ok h \<Longrightarrow> trimSpace (''mx: '' @ h) = ''mx: '' @ h" "mx_host_ok h \<Longrightarrow> trimSpace ('' '' @ h) = h"
  by (simp_all add: trimSpace_blank trimSpace_visible mx_host_ok_def) (simp add: trimSpace_visible visible_def)

lemma mx_plain_line: "mx_host_ok h \<Longrightarrow> plain_line (''mx: '' @ h)"
  by (simp add: mx_host_ok_def plain_line_def) (simp add: lf_def)

lemma sts_lines_mx:
  assumes "list_all mx_host_ok hs"
  shows "sts_lines (map (\<lambda>h. ''mx: '' @ h) hs @ ls) p = sts_lines ls (p\<lparr>sts_MX := sts_MX p @ hs\<rparr>)"
  using assms
proof (induction hs arbitrary: p)
  case (Cons h hs)
  have "cut_at (CHR '':'') (''mx: '' @ h) = Some (''mx'', '' '' @ h)" by (simp add: cut_at_def)
  moreover have "trimSpace ''mx'' = ''mx''" by code_simp
  ultimately show ?case using Cons trim_mx [of h] by (simp add: Let_def)
qed simp

lemma sts_lines_version: "sts_lines (''version: STSv1'' # ls) p = sts_lines ls (p\<lparr>sts_Version := ''STSv1''\<rparr>)"
proof -
  have "trimSpace ''version: STSv1'' = ''version: STSv1''" "trimSpace ''version'' = ''version''" "trimSpace '' STSv1'' = ''STSv1''"
    by code_simp+
  moreover have "cut_at (CHR '':'') ''version: STSv1'' = Some (''version'', '' STSv1'')" by code_simp
  ultimately show ?thesis by (simp add: Let_def)
qed

lemma sts_lines_mode: "sts_lines (''mode: enforce'' # ls) p = sts_lines ls (p\<lparr>sts_Mode := ''enforce''\<rparr>)"
proof -
  have "trimSpace ''mode: enforce'' = ''mode: enforce''" "trimSpace ''mode'' = ''mode''" "trimSpace '' enforce'' = ''enforce''"
    by code_simp+
  moreover have "cut_at (CHR '':'') ''mode: enforce'' = Some (''mode'', '' enforce'')" by code_simp
  ultimately show ?thesis by (simp add: Let_def)
qed

lemma sts_lines_age: "sts_lines (''max_age: 604800'' # ls) p = sts_lines ls (p\<lparr>sts_MaxAge := 604800\<rparr>)"
proof -
  have "trimSpace ''max_age: 604800'' = ''max_age: 604800''" "trimSpace ''max_age'' = ''max_age''" "trimSpace '' 604800'' = ''604800''"
    "Atoi ''604800'' = Some 604800" by code_simp+
  moreover have "cut_at (CHR '':'') ''max_age: 604800'' = Some (''max_age'', '' 604800'')" by code_simp
  ultimately show ?thesis by (simp add: Let_def)
qed

subsection \<open>Properties\<close>

text \<open>
  an MTA-STS policy that is generated for a list of mail hosts is parsed back to exactly these
  hosts, in enforce mode and with an age of a week, and each of the hosts matches it.
\<close>

theorem policy_roundtrip:
  assumes "list_all mx_host_ok hosts"
  shows "ParseMTASTSPolicy (GenerateMTASTSPolicy hosts) =
      Inr \<lparr>sts_Version = ''STSv1'', sts_Mode = ''enforce'', sts_MX = hosts, sts_MaxAge = 604800\<rparr>
    \<and> (\<forall>h\<in>set hosts. \<not> hasSuffix h ''.'' \<longrightarrow>
         MatchesMX lower \<lparr>sts_Version = ''STSv1'', sts_Mode = ''enforce'', sts_MX = hosts, sts_MaxAge = 604800\<rparr> h)"
proof
  let ?ls = "[''version: STSv1'', ''mode: enforce''] @ map (\<lambda>h. ''mx: '' @ h) hosts @ [''max_age: 604800'']"
  have gen: "GenerateMTASTSPolicy hosts = concat (map (\<lambda>l. l @ [lf]) ?ls)"
    by (simp add: GenerateMTASTSPolicy_def comp_def)
  have "plain_line ''version: STSv1''" "plain_line ''mode: enforce''" "plain_line ''max_age: 604800''" by code_simp+
  moreover have "list_all plain_line (map (\<lambda>h. ''mx: '' @ h) hosts)"
    using assms mx_plain_line by (simp add: list_all_iff)
  ultimately have ok: "list_all plain_line ?ls" by simp
  have "sts_lines ?ls p =
      Inr (p\<lparr>sts_Version := ''STSv1'', sts_Mode := ''enforce'', sts_MX := sts_MX p @ hosts, sts_MaxAge := 604800\<rparr>)" for p
    using sts_lines_mx [OF assms] by (simp only: append_Cons append_Nil sts_lines_version sts_lines_mode sts_lines_age) simp
  then show "ParseMTASTSPolicy (GenerateMTASTSPolicy hosts) =
      Inr \<lparr>sts_Version = ''STSv1'', sts_Mode = ''enforce'', sts_MX = hosts, sts_MaxAge = 604800\<rparr>"
    by (simp only: ParseMTASTSPolicy_def gen scan_lines_concat [OF ok]) (simp add: maxAllowedAge_def)
  show "\<forall>h\<in>set hosts. \<not> hasSuffix h ''.'' \<longrightarrow>
         MatchesMX lower \<lparr>sts_Version = ''STSv1'', sts_Mode = ''enforce'', sts_MX = hosts, sts_MaxAge = 604800\<rparr> h"
    using assms by (auto simp: MatchesMX_def Let_def list_ex_iff list_all_iff mx_pattern_matches_def trim_dot_def trimSpace_visible mx_host_ok_def)
qed

text \<open>
  a generated DANE record is parsed back to usage 3, selector 1, matching type 1 and the hash of
  the key; the same record cut off before the hash is not refused but makes the parser panic.
\<close>

theorem tlsa_roundtrip:
  assumes "list_all visible d" "equalFold ''TLSA'' ''TLSA''"
    and "\<not> equalFold ''IN'' ''TLSA''" "\<not> equalFold (''_25._tcp.mx.'' @ d @ ''.'') ''TLSA''"
  shows "ParseTLSARecord equalFold (GenerateTLSARecord sha d spki) = TlsaFields 3 1 1 (digest32 sha spki)
    \<and> ParseTLSARecord equalFold (''_25._tcp.mx.'' @ d @ ''. IN TLSA 3 1 1'') = TlsaPanic"
proof
  let ?nm = "''_25._tcp.mx.'' @ d @ ''.''"
  let ?hex = "hexEncode (digest32 sha spki)"
  have nm: "list_all visible ?nm" using assms(1) by (simp add: visible_def)
  have hex: "list_all visible ?hex" "?hex \<noteq> []"
    using hexEncode_chars [of _ "digest32 sha spki"] length_hexEncode [of "digest32 sha spki"] length_digest32 [of sha spki]
    by (auto simp: list_all_iff visible_def is_digit_def is_lower_def simp del: length_hexEncode) fastforce+
  have ws: "strFields (GenerateTLSARecord sha d spki) = [?nm, ''IN'', ''TLSA'', ''3'', ''1'', ''1'', ?hex]"
    using strFields_join [of "[?nm, ''IN'', ''TLSA'', ''3'', ''1'', ''1'', ?hex]"] nm hex
    by (simp add: GenerateTLSARecord_def visible_def)
  have ws': "strFields (''_25._tcp.mx.'' @ d @ ''. IN TLSA 3 1 1'') = [?nm, ''IN'', ''TLSA'', ''3'', ''1'', ''1'']"
    using strFields_join [of "[?nm, ''IN'', ''TLSA'', ''3'', ''1'', ''1'']"] nm by (simp add: visible_def)
  have num: "Atoi ''3'' = Some 3" "Atoi ''1'' = Some 1" by code_simp+
  show "ParseTLSARecord equalFold (GenerateTLSARecord sha d spki) = TlsaFields 3 1 1 (digest32 sha spki)"
    unfolding ParseTLSARecord_def ws Let_def using assms num by (simp add: index_where_def upt_rec)
  show "ParseTLSARecord equalFold (''_25._tcp.mx.'' @ d @ ''. IN TLSA 3 1 1'') = TlsaPanic"
    unfolding ParseTLSARecord_def ws' Let_def using assms num by (simp add: index_where_def upt_rec)
qed

text \<open>A name server that serves a list of records.\<close>

definition record_values :: "DNSRecord list \<Rightarrow> string \<Rightarrow> string \<Rightarrow> string + string list" where
  "record_values rs ty nm =
     (let vs = map dr_Value (filter (\<lambda>r. dr_Type r = ty \<and> dr_Name r = nm) rs) in
      if vs = [] then Inl ''no such host'' else Inr vs)"

definition serve_records :: "DNSRecord list \<Rightarrow> dns_resolver" where
  "serve_records rs = \<lparr>rs_MX = record_values rs ''MX'', rs_TXT = record_values rs ''TXT''\<rparr>"

lemma longer_name: "length p \<noteq> length q \<Longrightarrow> p @ d \<noteq> q @ (d :: string)"
  by (metis append_eq_append_conv)

text \<open>
  a domain that publishes the records it was told to passes the checks for MX, SPF, DMARC and
  MTA-STS, and the check of its DKIM selector. The general DKIM check looks at a name where none of
  the records is, so that it always fails.
\<close>

theorem published_records_verify:
  "let S = serve_records (GenerateDNSRecords ip d key sel mx); r = VerifyDNS S d in
     vr_MX r \<and> vr_SPF r \<and> vr_DMARC r \<and> vr_MTASTS r \<and> \<not> vr_DKIM r \<and> VerifyDKIMSelector S d sel = Inr True"
proof -
  have ne: "sel @ ''._domainkey.'' @ d \<noteq> ''_domainkey.'' @ d" "sel @ ''._domainkey.'' @ d \<noteq> d"
    "sel @ ''._domainkey.'' @ d \<noteq> ''_dmarc.'' @ d" "sel @ ''._domainkey.'' @ d \<noteq> ''_mta-sts.'' @ d"
    "d \<noteq> sel @ ''._domainkey.'' @ d" "''_dmarc.'' @ d \<noteq> sel @ ''._domainkey.'' @ d" "''_mta-sts.'' @ d \<noteq> sel @ ''._domainkey.'' @ d"
    by (auto dest: arg_cong [where f = length])
  have ne2: "d \<noteq> p @ d" "p @ d \<noteq> d" if "p \<noteq> []" for p using that by auto
  show ?thesis
    using ne
    by (simp add: Let_def VerifyDNS_def VerifyDKIMSelector_def serve_records_def GenerateDNSRecords_def record_values_def
        dns_record_def txt_check_def spfRecord_def hasPrefix_def)
qed

end
