(* ===== verification/Out_Witness.thy ===== *)
theory Out_Witness
  imports Out_Props Domain_Props Crypto_Witness
begin

text \<open>Concrete runs of the outbound service, its queue, the blob store and the domain functions.\<close>

subsection \<open>Queue\<close>

definition demo_hmac :: "bytes \<Rightarrow> bytes \<Rightarrow> bytes" where
  "demo_hmac k m = take 32 (k @ m @ replicate 32 0)"

definition demo_queue :: QueueClient where
  "demo_queue = \<lparr>qc_hmacKey = replicate 32 5, qc_encKey = replicate 32 6\<rparr>"

definition demo_signed :: bytes where
  "demo_signed = run_value (signMessage toy_P demo_hmac demo_queue 1000 [1, 2] ''mail.outbound.t'')"

lemma demo_signed_runs: "\<not> isl (fst (signMessage toy_P demo_hmac demo_queue 1000 [1, 2] ''mail.outbound.t'' toy_rnd))"
  by code_simp

theorem queue_window_witness:
  "consume toy_P demo_hmac demo_queue 1060 (\<lambda>d s. (False, d # s)) ''mail.outbound.t'' demo_signed [] = (Ack, [[1, 2]])
   \<and> consume toy_P demo_hmac demo_queue 1061 (\<lambda>d s. (False, d # s)) ''mail.outbound.t'' demo_signed [] = (Term, [])"
proof -
  have aead: "aead_laws toy_P" using toy_laws by (simp add: crypto_laws_def)
  have mac: "length (demo_hmac k m) = 32" for k m by (simp add: demo_hmac_def)
  note run = run_value [where m = "signMessage toy_P demo_hmac demo_queue 1000 [1, 2] ''mail.outbound.t''", OF demo_signed_runs,
      folded demo_signed_def]
  show ?thesis
    using queue_window [where P = toy_P and hmac = demo_hmac, OF aead mac _ _ _ _ run, of 1060 "\<lambda>d s. (False, d # s)" "[]"]
      queue_window [where P = toy_P and hmac = demo_hmac, OF aead mac _ _ _ _ run, of 1061 "\<lambda>d s. (False, d # s)" "[]"]
    by simp
qed

subsection \<open>Domains\<close>

theorem policy_roundtrip_witness:
  "ParseMTASTSPolicy (GenerateMTASTSPolicy [''mx.a.b'', ''*.c.d'']) =
     Inr \<lparr>sts_Version = ''STSv1'', sts_Mode = ''enforce'', sts_MX = [''mx.a.b'', ''*.c.d''], sts_MaxAge = 604800\<rparr>"
proof -
  have "list_all mx_host_ok [''mx.a.b'', ''*.c.d'']" by code_simp
  from policy_roundtrip [OF this] show ?thesis by simp
qed

theorem tlsa_roundtrip_witness:
  "ParseTLSARecord (\<lambda>a b. a = b) (GenerateTLSARecord (\<lambda>b. b) ''a.b'' [7]) = TlsaFields 3 1 1 (7 # replicate 31 0)
   \<and> ParseTLSARecord (\<lambda>a b. a = b) (''_25._tcp.mx.a.b. IN TLSA 3 1 1'') = TlsaPanic"
proof -
  have "list_all visible ''a.b''" by code_simp
  moreover have "digest32 (\<lambda>b. b) [7] = 7 # replicate 31 0" by code_simp
  ultimately show ?thesis using tlsa_roundtrip [of "''a.b''" "\<lambda>a b. a = b" "\<lambda>b. b" "[7]"] by simp
qed

subsection \<open>Blobs\<close>

definition demo_uuid :: bytes where "demo_uuid = replicate 16 1"
definition demo_uuid2 :: bytes where "demo_uuid2 = replicate 16 2"

definition demo_uuidParse :: "string \<Rightarrow> bytes option" where
  "demo_uuidParse s = (if s = uuid_String demo_uuid then Some demo_uuid else if s = uuid_String demo_uuid2 then Some demo_uuid2 else None)"

definition demo_blobs :: BlobStore where
  "demo_blobs = snd (UploadShared ''bmail'' True demo_uuid2 demo_uuid [1, 2, 3] (NewBlobStore []))"

theorem blob_ownership_witness:
  "fst (DownloadVerified demo_uuidParse ''bmail'' (True, True) (blob_key demo_uuid2 demo_uuid demo_uuid2) demo_uuid
          (snd (Upload ''bmail'' True demo_uuid2 demo_uuid demo_uuid2 [9] demo_blobs))) = Inr [9]
   \<and> fst (DownloadVerified demo_uuidParse ''bmail'' (True, True) (blob_key demo_uuid2 demo_uuid demo_uuid2) demo_uuid2
          (snd (Upload ''bmail'' True demo_uuid2 demo_uuid demo_uuid2 [9] demo_blobs))) = Inl (BlobErr ''blob ownership mismatch'')"
proof -
  have p: "demo_uuidParse (uuid_String demo_uuid) = Some demo_uuid" by (simp add: demo_uuidParse_def)
  have u: "Upload ''bmail'' True demo_uuid2 demo_uuid demo_uuid2 [9] demo_blobs =
      (Inr (blob_key demo_uuid2 demo_uuid demo_uuid2), snd (Upload ''bmail'' True demo_uuid2 demo_uuid demo_uuid2 [9] demo_blobs))"
    by (simp add: Upload_def put_object_def)
  have "demo_uuid2 \<noteq> demo_uuid" by code_simp
  then show ?thesis
    using blob_ownership [where uuidParse = demo_uuidParse and bucket = "''bmail''" and ok = True and v = demo_uuid, OF p u]
      blob_ownership [where uuidParse = demo_uuidParse and bucket = "''bmail''" and ok = True and v = demo_uuid2, OF p u] by simp
qed

subsection \<open>Sending\<close>

definition demo_text :: text_lib where
  "demo_text = \<lparr>tl_encode = hexEncode, tl_decode = (\<lambda>s. None), tl_decode_url = (\<lambda>s. None), tl_unescape = (\<lambda>s. s), tl_upper = (\<lambda>s. s),
     tl_lower = (\<lambda>s. s), tl_date = (\<lambda>s. None), tl_datetime = (\<lambda>s. None)\<rparr>"

definition demo_compose :: compose_env where
  "demo_compose = \<lparr>ce_uuid = ''u'', ce_date = ''today'', ce_alt_nano = 1, ce_rel_nano = 2, ce_mixed_nano = 3, ce_cal_nano = 4\<rparr>"

definition demo_om :: OutboundMessage where
  "demo_om = \<lparr>om_ToAddress = ''x@b.c'', om_SenderAddress = ''a@d.e'', om_EncryptedBody = ''hi'', om_EncryptedSubject = ''s'',
     om_EncryptedMessageKey = [], om_EphemeralPubkey = [], om_TenantID = uuid_String demo_uuid2, om_EncryptionType = ''plaintext'',
     om_RFCMessageID = [], om_SenderDisplayName = ''A'' @ [cr, lf] @ ''Bcc: z'', om_AttachmentIDs = [], om_SenderUserID = [],
     om_SenderTier = ''mail'', om_SenderAffiliateCode = [],
     om_PlaintextAttachments = [\<lparr>px_AttachmentID = [], px_Filename = ''f'', px_ContentType = [], px_Data = shared_key demo_uuid2 demo_uuid\<rparr>],
     om_CcAddresses = [], om_InReplyTo = [], om_BodyFormat = ''plain'', om_Attempt = 0\<rparr>"

definition demo_server :: mx_server where
  "demo_server = \<lparr>sv_dial = None, sv_greeting = None, sv_hello = None, sv_starttls = True, sv_tls = None, sv_certs = Some [[7]],
     sv_mail = None, sv_rcpt = None, sv_data = None, sv_write = None, sv_close = None\<rparr>"

definition demo_sts :: sts_env where
  "demo_sts = \<lparr>se_txt = (\<lambda>d. Some [''v=STSv1; id=1'']), se_redis = None, se_unmarshal = (\<lambda>b. None), se_marshal = (\<lambda>p. None),
     se_http = (\<lambda>chk u. Some (200, GenerateMTASTSPolicy [''mx.b.c'']))\<rparr>"

definition demo_tenant :: tenant where
  "demo_tenant = \<lparr>tn_TenantID = demo_uuid2, tn_Domain = ''d.e'', tn_DKIMPrivateKeyEncrypted = replicate 32 3, tn_DKIMPublicKey = [],
     tn_DKIMSelector = ''vp1'', tn_DKIMRSAPrivateKeyEncrypted = [4], tn_DKIMRSAPublicKey = [], tn_DKIMRSASelector = ''rsa1'',
     tn_DKIMPoolSelector = []\<rparr>"

definition demo_send :: send_env where
  "demo_send = \<lparr>sn_tenant = (\<lambda>t. Inr demo_tenant), sn_pgp = None, sn_export = (\<lambda>s. None), sn_base64 = hexEncode, sn_pool = None,
     sn_unseal = None, sn_pkcs8 = (\<lambda>k. Inr (RSAKey k)), sn_newKeyFromSeed = (\<lambda>s. s), sn_sign = (\<lambda>opts m. Inr (68 # m)), sn_now = 0,
     sn_mx = (\<lambda>d. Inr [''mx.b.c.'']), sn_tlsa = (\<lambda>n. Some (True, [TLSA 3 1 1 (hexEncode (7 # replicate 31 0))])),
     sn_sts = demo_sts, sn_server = (\<lambda>i. demo_server), sn_helo = ''h'', sn_lower = (\<lambda>s. s), sn_sha = (\<lambda>b. b)\<rparr>"

lemma demo_sent:
  "sr_deliveries (SendMessage demo_send ''a@d.e'' ''x@b.c'' [1] demo_uuid2) =
     [\<lparr>dl_index = 0, dl_host = ''mx.b.c'',
       dl_events = [SConnect, SHello ''h'', STLS (Some [[7]]), SMail ''a@d.e'', SRcpt ''x@b.c'', SBody [68, 68, 1], SQuit]\<rparr>]"
  by code_simp

theorem sent_mail_is_signed_witness:
  "\<exists>t opts m h. sn_tenant demo_send demo_uuid2 = Inr t \<and> so_Domain opts = tn_Domain t \<and> sn_sign demo_send opts m = Inr [68, 68, 1]
     \<and> [68, 68, 1] = h @ insert_autocrypt demo_send ''a@d.e'' [1]"
  by (rule sent_mail_is_signed [where rcpt = "''x@b.c''"
        and d = "\<lparr>dl_index = 0, dl_host = ''mx.b.c'',
          dl_events = [SConnect, SHello ''h'', STLS (Some [[7]]), SMail ''a@d.e'', SRcpt ''x@b.c'', SBody [68, 68, 1], SQuit]\<rparr>"])
     (simp_all add: demo_sent, simp add: demo_send_def)

lemma demo_tlsa: "lookupTLSARecords (sn_tlsa demo_send) ''mx.b.c'' = Some [7 # replicate 31 0]"
  by code_simp

lemma demo_policy:
  "announced_policy demo_send ''b.c'' =
     Some \<lparr>sts_Version = ''STSv1'', sts_Mode = ''enforce'', sts_MX = [''mx.b.c''], sts_MaxAge = 604800\<rparr>"
  by code_simp

theorem tls_policy_enforced_witness:
  "\<exists>pre post. [SConnect, SHello ''h'', STLS (Some [[7]]), SMail ''a@d.e'', SRcpt ''x@b.c'', SBody [68, 68, 1], SQuit] = pre @ post
     \<and> SBody [68, 68, 1] \<in> set post
     \<and> (\<exists>spki rest. STLS (Some (spki # rest)) \<in> set pre \<and> digest32 (sn_sha demo_send) spki \<in> {7 # replicate 31 0})
     \<and> MatchesMX (sn_lower demo_send) \<lparr>sts_Version = ''STSv1'', sts_Mode = ''enforce'', sts_MX = [''mx.b.c''], sts_MaxAge = 604800\<rparr> ''mx.b.c''"
proof -
  let ?d = "\<lparr>dl_index = 0, dl_host = ''mx.b.c'',
       dl_events = [SConnect, SHello ''h'', STLS (Some [[7]]), SMail ''a@d.e'', SRcpt ''x@b.c'', SBody [68, 68, 1], SQuit]\<rparr>"
  have d: "?d \<in> set (sr_deliveries (SendMessage demo_send ''a@d.e'' ''x@b.c'' [1] demo_uuid2))" by (simp add: demo_sent)
  have e: "SBody [68, 68, 1] \<in> set (dl_events ?d)" "carries_mail (SBody [68, 68, 1])" by simp_all
  have rd: "recipient_domain ''x@b.c'' = ''b.c''" by code_simp
  from tls_policy_enforced [OF d e] show ?thesis
  proof (elim exE conjE, goal_cases)
    case (1 pre post)
    have "\<exists>spki rest. STLS (Some (spki # rest)) \<in> set pre \<and> digest32 (sn_sha demo_send) spki \<in> {7 # replicate 31 0}"
      using 1(5) demo_tlsa by simp
    moreover have "MatchesMX (sn_lower demo_send) \<lparr>sts_Version = ''STSv1'', sts_Mode = ''enforce'', sts_MX = [''mx.b.c''], sts_MaxAge = 604800\<rparr> ''mx.b.c''"
      using 1(6) demo_policy rd by simp
    ultimately show ?case using 1(1,2) by auto
  qed
qed

theorem compose_headers_witness:
  "\<exists>msg text rest. composeRFC5322 demo_text demo_compose demo_om [] = Some msg \<and> msg = str_bytes text
     \<and> text_lines [] text = header_lines demo_text demo_compose demo_om @ rest
     \<and> map field_name (header_lines demo_text demo_compose demo_om) = [''From'', ''To'', ''Subject'', ''Date'', ''Message-Id'', ''MIME-Version'']"
proof -
  have "om_BodyFormat demo_om \<noteq> ''calendar''" by (simp add: demo_om_def)
  then obtain msg where m: "composeRFC5322 demo_text demo_compose demo_om [] = Some msg" using compose_returns by blast
  have "one_line (ce_date demo_compose)" "one_line (message_id demo_compose demo_om)" by code_simp+
  from compose_headers [OF this m] m show ?thesis by (auto simp: demo_om_def)
qed

subsection \<open>Retries\<close>

definition demo_out :: out_env where
  "demo_out = \<lparr>oe_text = demo_text, oe_compose = demo_compose, oe_send = demo_send, oe_crypto = toy_P, oe_uuidParse = demo_uuidParse,
     oe_decode = (\<lambda>b. Some (demo_om\<lparr>om_Attempt := int (length b)\<rparr>)), oe_encode = (\<lambda>m. replicate (nat (om_Attempt m)) 0),
     oe_blobStore = True, oe_bucket = ''bmail'', oe_get_ok = (\<lambda>k. (True, True)), oe_delete_out = (\<lambda>k. Deleted), oe_attachments = None,
     oe_now = 0, oe_user = (\<lambda>a. None), oe_increment_ok = True, oe_bounceEvents = True, oe_bounce_uuid = ''v'', oe_publish_ok = True\<rparr>"

definition demo_state :: out_state where
  "demo_state = \<lparr>os_blobs = demo_blobs, os_limiter = [], os_recent_bounces = [], os_rnd = toy_rnd\<rparr>"

lemma demo_gather:
  "gather_attachments demo_out demo_om demo_uuid2 demo_blobs =
     ([\<lparr>ma_Filename = ''f'', ma_ContentType = [], ma_Data = [1, 2, 3]\<rparr>], [shared_key demo_uuid2 demo_uuid], demo_blobs)"
  by code_simp

theorem tmp_blobs_lifecycle_witness:
  "\<exists>effs s'. outbound_handle demo_out [] demo_state = Some (effs, s')
     \<and> {k. DeleteBlob k \<in> set effs} \<subseteq> {shared_key demo_uuid2 demo_uuid}
     \<and> (retry_of effs = None \<longrightarrow> map_of (bl_objects (os_blobs s')) (''bmail'', shared_key demo_uuid2 demo_uuid) = None)"
proof -
  have d: "oe_decode demo_out [] = Some demo_om" by (simp add: demo_out_def demo_om_def)
  have f: "om_BodyFormat demo_om \<noteq> ''calendar''" by (simp add: demo_om_def)
  obtain effs s' where h: "outbound_handle demo_out [] demo_state = Some (effs, s')" using handle_returns [OF d f] by blast
  have u: "oe_uuidParse demo_out (om_TenantID demo_om) = Some demo_uuid2" by code_simp
  have b: "bucketName (oe_bucket demo_out) (os_blobs demo_state) = ''bmail''" by code_simp
  have del: "oe_delete_out demo_out k = Deleted" for k by (simp add: demo_out_def)
  have g: "gather_attachments demo_out demo_om demo_uuid2 (os_blobs demo_state) =
     ([\<lparr>ma_Filename = ''f'', ma_ContentType = [], ma_Data = [1, 2, 3]\<rparr>], [shared_key demo_uuid2 demo_uuid], demo_blobs)"
    using demo_gather by (simp add: demo_state_def)
  show ?thesis
    using tmp_blobs_lifecycle [OF d u g h] h b del by (auto split: if_splits)
qed


end
