(* ===== verification/Dkim_Pool.thy ===== *)
theory Dkim_Pool
  imports Ks_Props Sender
begin

text \<open>
  Shared DKIM keys: \<open>internal/keystore/dkimpool.go\<close> (the entry kept in the keystore),
  \<open>internal/keystore/client.go\<close> (the client, over the model of the server),
  \<open>internal/dnsattest/update.go\<close> and \<open>cmd/smtp-outbound/dkimpool.go\<close> (fetching, publishing, and
  the hook that admits the next release to the keys). JSON, base64, the certificate formats and the
  quote are parameters; each call of the client has its own environment.
\<close>

subsection \<open>Pool entries\<close>

record DKIMPoolEntry =
  de_Selector :: string
  de_Ed25519Seed :: bytes
  de_RSAPKCS8 :: bytes
  de_Ed25519PubB64 :: string
  de_RSAPubB64 :: string
  de_CreatedAt :: int

record pool_codec =
  pc_marshal :: "DKIMPoolEntry \<Rightarrow> bytes"
  pc_unmarshal :: "bytes \<Rightarrow> DKIMPoolEntry option"
  pc_bits :: "bytes \<Rightarrow> int"
  pc_pkcs8 :: "bytes \<Rightarrow> bytes option"
  pc_pkix :: "bytes \<Rightarrow> bytes option"
  pc_edPublic :: "bytes \<Rightarrow> bytes"
  pc_base64 :: "bytes \<Rightarrow> string"

definition DKIMPoolRoleName :: "string \<Rightarrow> role" where
  "DKIMPoolRoleName selector = ''smtp-outbound-dkim-pool-'' @ selector"

definition MarshalDKIMPoolEntry :: "pool_codec \<Rightarrow> string \<Rightarrow> bytes \<Rightarrow> bytes option \<Rightarrow> int \<Rightarrow> string + bytes" where
  "MarshalDKIMPoolEntry K selector seed rsaKey createdAt =
     (if length seed \<noteq> 32 then Inl ''ed25519 seed must be 32 bytes''
      else (case rsaKey of
        None \<Rightarrow> Inl ''rsa key required''
      | Some k \<Rightarrow>
          if pc_bits K k < 2048 then Inl ''rsa key too small''
          else (case pc_pkcs8 K k of
            None \<Rightarrow> Inl ''marshal rsa pkcs8''
          | Some rsaDER \<Rightarrow>
              (case pc_pkix K k of
                 None \<Rightarrow> Inl ''marshal rsa pubkey''
               | Some rsaPubDER \<Rightarrow>
                   Inr (pc_marshal K \<lparr>de_Selector = selector, de_Ed25519Seed = seed, de_RSAPKCS8 = rsaDER,
                     de_Ed25519PubB64 = pc_base64 K (pc_edPublic K seed), de_RSAPubB64 = pc_base64 K rsaPubDER, de_CreatedAt = createdAt\<rparr>)))))"

definition UnmarshalDKIMPoolEntry :: "pool_codec \<Rightarrow> bytes \<Rightarrow> string + DKIMPoolEntry" where
  "UnmarshalDKIMPoolEntry K b =
     (case pc_unmarshal K b of
        None \<Rightarrow> Inl ''unmarshal dkim pool entry''
      | Some e \<Rightarrow>
          if de_Selector e = [] then Inl ''dkim pool entry missing selector''
          else if length (de_Ed25519Seed e) \<noteq> 32 then Inl ''dkim pool entry ed25519 seed wrong size''
          else if de_RSAPKCS8 e = [] then Inl ''dkim pool entry missing rsa key''
          else Inr e)"

record DKIMTXTRecord =
  tx_Name :: string
  tx_Value :: string
  tx_Algorithm :: string

definition DKIMPoolDNSRecords :: "DKIMPoolEntry \<Rightarrow> string \<Rightarrow> DKIMTXTRecord list" where
  "DKIMPoolDNSRecords e zoneDomain =
     (let nm = de_Selector e @ ''._domainkey.'' @ zoneDomain in
      [\<lparr>tx_Name = nm, tx_Value = ''v=DKIM1; k=ed25519; p='' @ de_Ed25519PubB64 e, tx_Algorithm = ''ed25519''\<rparr>,
       \<lparr>tx_Name = nm, tx_Value = ''v=DKIM1; k=rsa; p='' @ de_RSAPubB64 e, tx_Algorithm = ''rsa''\<rparr>])"

subsection \<open>The keystore client\<close>

text \<open>The verification of the server's certificate: the quotes of the chain and whether each verifies.\<close>

definition client_verify :: "mrenclave \<Rightarrow> (mrenclave option \<times> bool) list \<Rightarrow> string option" where
  "client_verify expected certs =
     (case certs of
        [] \<Rightarrow> Some ''keystore-client: server presented no cert''
      | (quote, verifies) # _ \<Rightarrow>
          if expected = replicate 32 0 then None
          else (case quote of
            None \<Rightarrow> Some ''keystore-client: extract server quote''
          | Some got \<Rightarrow>
              if \<not> verifies then Some ''keystore-client: server quote verify''
              else if got \<noteq> expected then Some ''keystore-client: server MRENCLAVE mismatch''
              else None))"

text \<open>A call may not reach the server, or its reply may be lost.\<close>

datatype net_out = NetOk | NetNoRequest | NetNoReply

record ks_env =
  kv_platform :: platform
  kv_api :: api
  kv_config :: config
  kv_peer :: peerInfo
  kv_net :: "role \<Rightarrow> net_out"
  kv_h :: "role \<Rightarrow> henv"
  kv_encGet :: "GetRequest \<Rightarrow> bytes"
  kv_encDelegate :: "DelegateRequest \<Rightarrow> bytes"

definition client_do :: "net_out \<Rightarrow> (server \<Rightarrow> server \<times> ks_resp) \<Rightarrow> server \<Rightarrow> (string + ks_resp) \<times> server" where
  "client_do net call s =
     (case net of
        NetNoRequest \<Rightarrow> (Inl ''keystore round-trip'', s)
      | NetNoReply \<Rightarrow> (Inl ''keystore round-trip'', fst (call s))
      | NetOk \<Rightarrow>
          (case call s of
             (s', RspErr code m) \<Rightarrow> (if code \<ge> 400 then Inl (''keystore POST: '' @ m) else Inr (RspErr code m), s')
           | (s', r) \<Rightarrow> (Inr r, s')))"

definition client_Get :: "ks_env \<Rightarrow> role \<Rightarrow> server \<Rightarrow> (string + bytes) \<times> server" where
  "client_Get V r s =
     (case client_do (kv_net V r)
             (handleGet (kv_platform V) (kv_api V) (kv_config V) (kv_h V r) (Some (kv_peer V)) (kv_encGet V \<lparr>gr_Role = r\<rparr>)) s of
        (Inl e, s') \<Rightarrow> (Inl e, s')
      | (Inr (RspGet key _ _), s') \<Rightarrow> (Inr key, s')
      | (Inr _, s') \<Rightarrow> (Inl ''decode response'', s'))"

definition client_Delegate :: "ks_env \<Rightarrow> role \<Rightarrow> mrenclave \<Rightarrow> server \<Rightarrow> (string + mrenclave list) \<times> server" where
  "client_Delegate V r m s =
     (case client_do (kv_net V r)
             (handleDelegate (kv_platform V) (kv_api V) (kv_config V) (kv_h V r) (Some (kv_peer V))
               (kv_encDelegate V \<lparr>dr_Role = r, NewMRENCLAVE = m, dr_BreakGlass = None\<rparr>)) s of
        (Inl e, s') \<Rightarrow> (Inl e, s')
      | (Inr (RspDelegate _ allowed _), s') \<Rightarrow> (Inr allowed, s')
      | (Inr _, s') \<Rightarrow> (Inl ''decode response'', s'))"

subsection \<open>Fetching\<close>

definition fetchPoolEntry :: "pool_codec \<Rightarrow> ks_env \<Rightarrow> string \<Rightarrow> server \<Rightarrow> (string + DKIMPoolEntry) \<times> server" where
  "fetchPoolEntry K V selector s =
     (case client_Get V (DKIMPoolRoleName selector) s of
        (Inl e, s') \<Rightarrow> (Inl (''keystore Get: '' @ e), s')
      | (Inr key, s') \<Rightarrow>
          (case UnmarshalDKIMPoolEntry K key of
             Inl e \<Rightarrow> (Inl (''parse pool entry: '' @ e), s')
           | Inr entry \<Rightarrow> (Inr entry, s')))"

type_synonym poolCache = "(string \<times> DKIMPoolKeys) list"

definition pool_getter :: "pool_codec \<Rightarrow> ks_env \<Rightarrow> string \<Rightarrow> poolCache \<times> server \<Rightarrow> (string + DKIMPoolKeys) \<times> poolCache \<times> server" where
  "pool_getter K V selector cs =
     (case map_of (fst cs) selector of
        Some hit \<Rightarrow> (Inr hit, cs)
      | None \<Rightarrow>
          (case fetchPoolEntry K V selector (snd cs) of
             (Inl e, s') \<Rightarrow> (Inl e, fst cs, s')
           | (Inr entry, s') \<Rightarrow>
               (let keys = \<lparr>pk_Selector = de_Selector entry, pk_Ed25519Seed = de_Ed25519Seed entry, pk_RSAPKCS8 = de_RSAPKCS8 entry\<rparr> in
                (Inr keys, AList.update selector keys (fst cs), s'))))"

subsection \<open>Publishing\<close>

datatype update_mode = ModeReplace | ModeAdd | ModeRemove

record dns_update =
  du_host :: string
  du_type :: string
  du_value :: string
  du_mode :: update_mode
  du_ttl :: int
  du_attestation :: bytes

text \<open>The text that the quote binds.\<close>

definition attested_text :: "string \<Rightarrow> string \<Rightarrow> string \<Rightarrow> bytes" where
  "attested_text recordType host val = str_bytes (recordType @ '':'' @ host @ '':'' @ val)"

record attest_env =
  ax_attest :: "bytes \<Rightarrow> bytes option"
  ax_sha :: "bytes \<Rightarrow> bytes"
  ax_status :: "dns_update \<Rightarrow> int option"
  ax_result :: "dns_update \<Rightarrow> string"

text \<open>The request that is sent, if one is, and the error.\<close>

definition attest_Update :: "attest_env \<Rightarrow> string \<Rightarrow> string \<Rightarrow> string \<Rightarrow> update_mode option \<Rightarrow> int \<Rightarrow> dns_update option \<times> string option" where
  "attest_Update X host recordType val mode ttl =
     (if host = [] \<or> recordType = [] \<or> val = [] then (None, Some ''dnsattest: host, type, value all required'')
      else (case ax_attest X (digest32 (ax_sha X) (attested_text recordType host val)) of
        None \<Rightarrow> (None, Some ''dnsattest: attest'')
      | Some quote \<Rightarrow>
          (let u = \<lparr>du_host = host, du_type = recordType, du_value = val,
                    du_mode = (case mode of None \<Rightarrow> ModeReplace | Some m \<Rightarrow> m), du_ttl = ttl, du_attestation = quote\<rparr> in
           (Some u,
            case ax_status X u of
              None \<Rightarrow> Some ''dnsattest: post''
            | Some code \<Rightarrow>
                if code \<noteq> 200 then Some ''dnsattest: HTTP status''
                else if ax_result X u \<noteq> [] \<and> ax_result X u \<noteq> ''success'' then Some ''dnsattest: API error'' else None))))"

definition txtAlreadyLive :: "(string \<Rightarrow> string list option) \<Rightarrow> string \<Rightarrow> string list \<Rightarrow> bool" where
  "txtAlreadyLive lookupTXT host want =
     (case lookupTXT host of
        None \<Rightarrow> False
      | Some got \<Rightarrow> got \<noteq> [] \<and> length got = length want \<and> (\<forall>w\<in>set want. w \<in> set got))"

text \<open>The loop over the records; the first replaces, the others add, and an error does not stop it.\<close>

fun publish_records :: "attest_env \<Rightarrow> bool \<Rightarrow> DKIMTXTRecord list \<Rightarrow> dns_update list" where
  "publish_records X first [] = []"
| "publish_records X first (r # rs) =
     (case fst (attest_Update X (tx_Name r) ''TXT'' (tx_Value r) (Some (if first then ModeReplace else ModeAdd)) 300) of
        None \<Rightarrow> publish_records X False rs
      | Some u \<Rightarrow> u # publish_records X False rs)"

definition publish_entry :: "attest_env \<Rightarrow> (string \<Rightarrow> string list option) \<Rightarrow> string \<Rightarrow> DKIMPoolEntry \<Rightarrow> dns_update list" where
  "publish_entry X lookupTXT zone entry =
     (let records = filter (\<lambda>r. tx_Algorithm r = ''rsa'') (DKIMPoolDNSRecords entry zone) in
      if records \<noteq> [] \<and> txtAlreadyLive lookupTXT (tx_Name (hd records)) (map tx_Value records) then []
      else publish_records X True records)"

fun publish_selectors ::
    "pool_codec \<Rightarrow> ks_env \<Rightarrow> attest_env \<Rightarrow> (string \<Rightarrow> string list option) \<Rightarrow> string \<Rightarrow> string list \<Rightarrow> server \<Rightarrow> dns_update list \<times> server" where
  "publish_selectors K V X lookupTXT zone [] s = ([], s)"
| "publish_selectors K V X lookupTXT zone (sel0 # sels) s =
     (let sel = trimSpace sel0 in
      if sel = [] then publish_selectors K V X lookupTXT zone sels s
      else (case fetchPoolEntry K V sel s of
              (Inl _, s') \<Rightarrow> publish_selectors K V X lookupTXT zone sels s'
            | (Inr entry, s') \<Rightarrow>
                (case publish_selectors K V X lookupTXT zone sels s' of (us, s'') \<Rightarrow>
                   (publish_entry X lookupTXT zone entry @ us, s''))))"

definition publishDKIMPoolTXTs ::
    "pool_codec \<Rightarrow> ks_env option \<Rightarrow> attest_env \<Rightarrow> (string \<Rightarrow> string list option) \<Rightarrow> string \<Rightarrow> string \<Rightarrow> server \<Rightarrow> dns_update list \<times> server" where
  "publishDKIMPoolTXTs K client X lookupTXT selRaw zone s =
     (case client of
        None \<Rightarrow> ([], s)
      | Some V \<Rightarrow>
          if selRaw = [] \<or> zone = [] then ([], s)
          else publish_selectors K V X lookupTXT zone (splitStr (CHR '','') selRaw) s)"

subsection \<open>The hook before a deployment\<close>

fun delegate_selectors :: "ks_env \<Rightarrow> mrenclave \<Rightarrow> string list \<Rightarrow> server \<Rightarrow> (role \<times> string option) list \<times> server" where
  "delegate_selectors V newMRE [] s = ([], s)"
| "delegate_selectors V newMRE (sel0 # sels) s =
     (let sel = trimSpace sel0 in
      if sel = [] then delegate_selectors V newMRE sels s
      else
        (let r = DKIMPoolRoleName sel in
         case client_Delegate V r newMRE s of (res, s1) \<Rightarrow>
         case delegate_selectors V newMRE sels s1 of (rs, s2) \<Rightarrow>
           ((r, case res of Inl e \<Rightarrow> Some e | Inr _ \<Rightarrow> None) # rs, s2)))"

datatype predeploy_resp = PdError int string | PdNothing | PdResults int string "(role \<times> string option) list"

definition handlePreDeploy ::
    "ks_env option \<Rightarrow> string \<Rightarrow> string option \<Rightarrow> string \<Rightarrow> server \<Rightarrow> predeploy_resp \<times> server" where
  "handlePreDeploy client remoteHost new_mrenclave_hex selRaw s =
     (if remoteHost \<noteq> ''127.0.0.1'' \<and> remoteHost \<noteq> ''::1'' \<and> remoteHost \<noteq> [] then (PdError 403 ''localhost only'', s)
      else (case client of
        None \<Rightarrow> (PdError 503 ''keystore not configured'', s)
      | Some V \<Rightarrow>
     (case new_mrenclave_hex of
        None \<Rightarrow> (PdError 400 ''decode body'', s)
      | Some hexstr \<Rightarrow>
     (case hexDecode hexstr of
        None \<Rightarrow> (PdError 400 ''new_mrenclave_hex must be 32 bytes / 64 hex chars'', s)
      | Some newMRE \<Rightarrow>
          if length newMRE \<noteq> 32 then (PdError 400 ''new_mrenclave_hex must be 32 bytes / 64 hex chars'', s)
          else if selRaw = [] then (PdNothing, s)
          else (case delegate_selectors V newMRE (splitStr (CHR '','') selRaw) s of (results, s') \<Rightarrow>
                  (PdResults (if list_ex (\<lambda>x. snd x = None) results then 200 else 500) hexstr results, s'))))))"

end
