(* ===== verification/Dkim_Props.thy ===== *)
theory Dkim_Props
  imports Dkim_Pool
begin

text \<open>
  Properties of the shared DKIM keys: the hook before a deployment admits exactly the new enclave
  to exactly the pool roles the running one holds, and publishing converges to the one RSA record.
\<close>

subsection \<open>Lemmas: delegation\<close>

text \<open>
  What the client relies on of the JSON of its requests: a request for a valid role arrives as it
  was sent; one for an invalid role (its bytes may not be UTF-8 and are then replaced) does not become valid.
\<close>

definition delegate_codec :: "ks_env \<Rightarrow> bool" where
  "delegate_codec V =
     (\<forall>r m. length m = 32 \<longrightarrow>
       (case decDelegate (kv_api V) (kv_encDelegate V \<lparr>dr_Role = r, NewMRENCLAVE = m, dr_BreakGlass = None\<rparr>) of
          None \<Rightarrow> validateRole r \<noteq> None
        | Some req \<Rightarrow>
            if validateRole r = None then req = \<lparr>dr_Role = r, NewMRENCLAVE = m, dr_BreakGlass = None\<rparr>
            else validateRole (dr_Role req) \<noteq> None))"

text \<open>A delegation adds at most the new identity, and only if the caller holds the role.\<close>

lemma handleDelegate_roles:
  assumes "decDelegate api body = Some req" "dr_BreakGlass req = None"
    and "handleDelegate P api cfg h (Some p) body s = (s', rsp)"
  shows "(\<forall>r m. m \<in> set (roles_of (sv_allow s') r) \<longleftrightarrow> m \<in> set (roles_of (sv_allow s) r)
            \<or> (r = dr_Role req \<and> m = NewMRENCLAVE req \<and> m \<in> set (roles_of (sv_allow s') r)))
    \<and> (NewMRENCLAVE req \<in> set (roles_of (sv_allow s') (dr_Role req)) \<longrightarrow>
         NewMRENCLAVE req \<in> set (roles_of (sv_allow s) (dr_Role req)) \<or> pi_MRENCLAVE p \<in> set (roles_of (sv_allow s) (dr_Role req)))
    \<and> (\<forall>r l t. rsp = RspDelegate r l t \<longrightarrow> NewMRENCLAVE req \<in> set (roles_of (sv_allow s') (dr_Role req)))"
proof -
  let ?r = "dr_Role req" and ?m = "NewMRENCLAVE req"
  show ?thesis
  proof (cases "validateRole ?r = None \<and> allowlist_Allowed (sv_allow s) ?r (pi_MRENCLAVE p)")
    case False
    then have "s' = s \<and> (\<forall>r l t. rsp \<noteq> RspDelegate r l t)"
      using assms by (auto simp: handleDelegate_def delegate_auth_def split: option.splits)
    then show ?thesis by blast
  next
    case True
    obtain d' a' res where add: "allowlist_Add P (h_main h) (sv_disk s) (sv_allow s) ?r ?m = (d', a', res)" by (metis prod.exhaust)
    have "sv_allow s' = a' \<and> (isl res \<longrightarrow> (\<forall>r l t. rsp \<noteq> RspDelegate r l t))"
      using assms True add
      by (auto simp: handleDelegate_def delegate_auth_def Let_def case_prod_beta split: sum.splits)
    moreover have "roles_of a' r = (if r = ?r \<and> \<not> isl res \<and> ?m \<notin> set (roles_of (sv_allow s) ?r)
                     then roles_of (sv_allow s) ?r @ [?m] else roles_of (sv_allow s) r)" for r
      using Add_roles [OF add] by blast
    ultimately show ?thesis using True Allowed_iff by auto
  qed
qed

lemma client_Delegate_roles:
  assumes "delegate_codec V" "length m0 = 32" "client_Delegate V r0 m0 s = (res, s')"
  shows "(\<forall>r m. m \<in> set (roles_of (sv_allow s') r) \<longleftrightarrow> m \<in> set (roles_of (sv_allow s) r)
            \<or> (r = r0 \<and> m = m0 \<and> m \<in> set (roles_of (sv_allow s') r)))
    \<and> (m0 \<in> set (roles_of (sv_allow s') r0) \<longrightarrow>
         m0 \<in> set (roles_of (sv_allow s) r0) \<or> pi_MRENCLAVE (kv_peer V) \<in> set (roles_of (sv_allow s) r0))
    \<and> (\<not> isl res \<longrightarrow> m0 \<in> set (roles_of (sv_allow s') r0))"
proof -
  let ?req = "\<lparr>dr_Role = r0, NewMRENCLAVE = m0, dr_BreakGlass = None\<rparr>"
  obtain s1 rsp where h: "handleDelegate (kv_platform V) (kv_api V) (kv_config V) (kv_h V r0) (Some (kv_peer V))
      (kv_encDelegate V ?req) s = (s1, rsp)" by fastforce
  have sent: "s' = s \<and> isl res \<or> s' = s1 \<and> (isl res \<or> (\<exists>r l t. rsp = RspDelegate r l t))"
    using assms(3) h by (auto simp: client_Delegate_def client_do_def split: net_out.splits ks_resp.splits if_splits)
  have codec: "case decDelegate (kv_api V) (kv_encDelegate V ?req) of
      None \<Rightarrow> validateRole r0 \<noteq> None
    | Some req \<Rightarrow> if validateRole r0 = None then req = ?req else validateRole (dr_Role req) \<noteq> None"
    using assms(1,2) by (simp add: delegate_codec_def)
  show ?thesis
  proof (cases "validateRole r0")
    case None
    then have "decDelegate (kv_api V) (kv_encDelegate V ?req) = Some ?req" using codec by (simp split: option.splits)
    from handleDelegate_roles [OF this _ h]
    have roles: "(\<forall>r m. m \<in> set (roles_of (sv_allow s1) r) \<longleftrightarrow> m \<in> set (roles_of (sv_allow s) r)
              \<or> (r = r0 \<and> m = m0 \<and> m \<in> set (roles_of (sv_allow s1) r)))"
      "m0 \<in> set (roles_of (sv_allow s1) r0) \<longrightarrow>
           m0 \<in> set (roles_of (sv_allow s) r0) \<or> pi_MRENCLAVE (kv_peer V) \<in> set (roles_of (sv_allow s) r0)"
      "\<And>r l t. rsp = RspDelegate r l t \<Longrightarrow> m0 \<in> set (roles_of (sv_allow s1) r0)" by simp_all
    then show ?thesis using sent by blast
  next
    case (Some e)
    then have "s1 = s \<and> (\<forall>r l t. rsp \<noteq> RspDelegate r l t)"
      using h codec by (auto simp: handleDelegate_def split: option.splits)
    then show ?thesis using sent by blast
  qed
qed

lemma delegate_selectors_roles:
  assumes "delegate_codec V" "length m0 = 32" "delegate_selectors V m0 sels s = (results, s')"
  shows "(\<forall>r m. m \<in> set (roles_of (sv_allow s') r) \<longleftrightarrow> m \<in> set (roles_of (sv_allow s) r)
            \<or> (m = m0 \<and> r \<in> fst ` set results \<and> m \<in> set (roles_of (sv_allow s') r)))
    \<and> (\<forall>r. m0 \<in> set (roles_of (sv_allow s') r) \<longrightarrow>
         m0 \<in> set (roles_of (sv_allow s) r) \<or> pi_MRENCLAVE (kv_peer V) \<in> set (roles_of (sv_allow s) r))
    \<and> (\<forall>r. (r, None) \<in> set results \<longrightarrow> m0 \<in> set (roles_of (sv_allow s') r))
    \<and> fst ` set results = (\<lambda>sel. DKIMPoolRoleName (trimSpace sel)) ` {sel \<in> set sels. trimSpace sel \<noteq> []}"
  using assms(3)
proof (induction sels arbitrary: s results)
  case (Cons sel0 sels)
  show ?case
  proof (cases "trimSpace sel0 = []")
    case True
    then have d: "delegate_selectors V m0 sels s = (results, s')" using Cons.prems by simp
    have sels: "{sel \<in> set (sel0 # sels). trimSpace sel \<noteq> []} = {sel \<in> set sels. trimSpace sel \<noteq> []}" using True by auto
    show ?thesis unfolding sels by (rule Cons.IH [OF d])
  next
    case False
    let ?r = "DKIMPoolRoleName (trimSpace sel0)"
    obtain res s1 where c: "client_Delegate V ?r m0 s = (res, s1)" by fastforce
    obtain rs s2 where d: "delegate_selectors V m0 sels s1 = (rs, s2)" by fastforce
    have r: "results = (?r, case res of Inl e \<Rightarrow> Some e | Inr _ \<Rightarrow> None) # rs" "s' = s2"
      using Cons.prems False c d by (auto simp: Let_def)
    note head = client_Delegate_roles [OF assms(1,2) c]
    note tail = Cons.IH [OF d [folded r(2)], unfolded r(2)]
    have ok: "(case res of Inl e \<Rightarrow> Some e | Inr _ \<Rightarrow> None) = None \<longleftrightarrow> \<not> isl res" by (cases res) auto
    show ?thesis unfolding r
    proof (intro conjI allI impI)
      fix r x
      show "x \<in> set (roles_of (sv_allow s2) r) \<longleftrightarrow> x \<in> set (roles_of (sv_allow s) r)
            \<or> (x = m0 \<and> r \<in> fst ` set ((?r, case res of Inl e \<Rightarrow> Some e | Inr _ \<Rightarrow> None) # rs) \<and> x \<in> set (roles_of (sv_allow s2) r))"
        using head [THEN conjunct1, rule_format, of x r] tail [THEN conjunct1, rule_format, of x r]
        unfolding list.set image_insert fst_conv insert_iff by blast
    next
      fix r
      assume "m0 \<in> set (roles_of (sv_allow s2) r)"
      then show "m0 \<in> set (roles_of (sv_allow s) r) \<or> pi_MRENCLAVE (kv_peer V) \<in> set (roles_of (sv_allow s) r)"
        using head tail by metis
    next
      fix r
      assume "(r, None) \<in> set ((?r, case res of Inl e \<Rightarrow> Some e | Inr _ \<Rightarrow> None) # rs)"
      then consider "r = ?r" "\<not> isl res" | "(r, None) \<in> set rs" using ok by auto
      then show "m0 \<in> set (roles_of (sv_allow s2) r)"
      proof cases
        case 1
        then have "m0 \<in> set (roles_of (sv_allow s1) r)" using head by blast
        then show ?thesis using tail [THEN conjunct1, rule_format, of m0 r] by blast
      qed (use tail in blast)
    next
      show "fst ` set ((?r, case res of Inl e \<Rightarrow> Some e | Inr _ \<Rightarrow> None) # rs) =
          (\<lambda>sel. DKIMPoolRoleName (trimSpace sel)) ` {sel \<in> set (sel0 # sels). trimSpace sel \<noteq> []}"
        using tail False by auto
    qed
  qed
qed auto

subsection \<open>Properties\<close>

text \<open>
  C17: the hook before a deployment changes the allowlist of the keystore by the new identity
  only, and only for pool roles that the running enclave itself holds; no grant is lost; and
  each role that it reports without an error has the new identity on its list.
\<close>

theorem predeploy_delegates:
  assumes "delegate_codec V" "hexDecode hexstr = Some newMRE"
    and "handlePreDeploy (Some V) host (Some hexstr) selRaw s = (rsp, s')"
  shows "(\<forall>r m. allowlist_Allowed (sv_allow s) r m \<longrightarrow> allowlist_Allowed (sv_allow s') r m)
    \<and> (\<forall>r m. allowlist_Allowed (sv_allow s') r m \<and> \<not> allowlist_Allowed (sv_allow s) r m \<longrightarrow>
         m = newMRE \<and> length newMRE = 32 \<and> allowlist_Allowed (sv_allow s) r (pi_MRENCLAVE (kv_peer V))
         \<and> (\<exists>sel\<in>set (splitStr (CHR '','') selRaw). r = DKIMPoolRoleName (trimSpace sel)))
    \<and> (\<forall>code hx results r. rsp = PdResults code hx results \<and> (r, None) \<in> set results \<longrightarrow>
         allowlist_Allowed (sv_allow s') r newMRE)"
proof (cases "\<exists>code hx results. rsp = PdResults code hx results")
  case False
  then have "s' = s" using assms by (auto simp: handlePreDeploy_def case_prod_beta split: if_splits)
  then show ?thesis using False by blast
next
  case True
  then obtain code hx results where rsp: "rsp = PdResults code hx results" by blast
  then have len: "length newMRE = 32" and d: "delegate_selectors V newMRE (splitStr (CHR '','') selRaw) s = (results, s')"
    using assms(2,3) by (auto simp: handlePreDeploy_def case_prod_beta split: if_splits)
  note roles = delegate_selectors_roles [OF assms(1) len d]
  have sel: "\<exists>sel\<in>set (splitStr (CHR '','') selRaw). r = DKIMPoolRoleName (trimSpace sel)" if "r \<in> fst ` set results" for r
    using that roles by auto
  show ?thesis unfolding Allowed_iff
  proof (intro conjI allI impI)
    fix r m
    assume new: "m \<in> set (roles_of (sv_allow s') r) \<and> m \<notin> set (roles_of (sv_allow s) r)"
    then have "m = newMRE" "r \<in> fst ` set results" using roles by metis+
    then show "m = newMRE" "length newMRE = 32" "pi_MRENCLAVE (kv_peer V) \<in> set (roles_of (sv_allow s) r)"
      "\<exists>sel\<in>set (splitStr (CHR '','') selRaw). r = DKIMPoolRoleName (trimSpace sel)"
      using new roles len sel by blast+
  qed (use roles rsp in blast)+
qed

text \<open>A zone as the update interface documents it: a replacement leaves the one value.\<close>

definition apply_update :: "(string \<Rightarrow> string list option) \<Rightarrow> dns_update \<Rightarrow> string \<Rightarrow> string list option" where
  "apply_update zone u =
     zone(du_host u \<mapsto>
       (case du_mode u of
          ModeReplace \<Rightarrow> [du_value u]
        | ModeAdd \<Rightarrow> (case zone (du_host u) of None \<Rightarrow> [] | Some vs \<Rightarrow> vs) @ [du_value u]
        | ModeRemove \<Rightarrow> (case zone (du_host u) of None \<Rightarrow> [] | Some vs \<Rightarrow> removeAll (du_value u) vs)))"

text \<open>
  publishing a pool key converges: whatever the name held before, an Ed25519 record of an
  earlier release included, one run leaves exactly the RSA record there, its request bound to it by
  the quote, and touches no other name; a second run sends nothing.
\<close>

theorem publish_converges:
  assumes "ax_attest X (digest32 (ax_sha X) (attested_text ''TXT'' (de_Selector e @ ''._domainkey.'' @ zn) (''v=DKIM1; k=rsa; p='' @ de_RSAPubB64 e))) = Some quote"
  shows "let zone' = fold (\<lambda>u z. apply_update z u) (publish_entry X zone zn e) zone in
      zone' (de_Selector e @ ''._domainkey.'' @ zn) = Some [''v=DKIM1; k=rsa; p='' @ de_RSAPubB64 e]
    \<and> (\<forall>n. n \<noteq> de_Selector e @ ''._domainkey.'' @ zn \<longrightarrow> zone' n = zone n)
    \<and> publish_entry X zone' zn e = []
    \<and> (\<forall>u\<in>set (publish_entry X zone zn e). du_attestation u = quote \<and> du_mode u = ModeReplace)"
proof -
  let ?n = "de_Selector e @ ''._domainkey.'' @ zn" and ?v = "''v=DKIM1; k=rsa; p='' @ de_RSAPubB64 e"
  have live: "txtAlreadyLive z ?n [?v] \<longleftrightarrow> z ?n = Some [?v]" for z
    by (auto simp: txtAlreadyLive_def length_Suc_conv split: option.splits)
  have pub: "publish_entry X z zn e = (if z ?n = Some [?v] then []
      else [\<lparr>du_host = ?n, du_type = ''TXT'', du_value = ?v, du_mode = ModeReplace, du_ttl = 300, du_attestation = quote\<rparr>])" for z
    using assms live [of z] by (simp add: publish_entry_def DKIMPoolDNSRecords_def Let_def attest_Update_def)
  show ?thesis unfolding Let_def pub by (auto simp: apply_update_def)
qed

end
