(* ===== verification/Dkim_Witness.thy ===== *)
theory Dkim_Witness
  imports Dkim_Props Ks_Witness
begin

text \<open>Concrete runs of the hook before a deployment and of publishing, over the keystore on the simulated platform.\<close>

definition dk_new :: mrenclave where
  "dk_new = replicate 32 9"

definition dk_dec :: "DelegateRequest dec" where
  "dk_dec = dec_pair dec_str (\<lambda>r. dec_pair dec_bytes (\<lambda>m. dec_ret \<lparr>dr_Role = r, NewMRENCLAVE = m, dr_BreakGlass = None\<rparr>))"

definition dk_env :: ks_env where
  "dk_env = \<lparr>kv_platform = sim_platform, kv_api = w_api\<lparr>decDelegate := whole dk_dec\<rparr>, kv_config = w_cfg, kv_peer = w_peer,
     kv_net = (\<lambda>_. NetOk), kv_h = (\<lambda>_. w_h), kv_encGet = (\<lambda>r. enc_str (gr_Role r)),
     kv_encDelegate = (\<lambda>r. enc_str (dr_Role r) @ enc_bytes (NewMRENCLAVE r))\<rparr>"

definition dk_role :: role where
  "dk_role = ''smtp-outbound-dkim-pool-a''"

definition dk_s0 :: server where
  "dk_s0 = w_s0\<lparr>sv_allow := \<lparr>al_path = allow_path w_cfg, al_roles = [(dk_role, [w_mre])]\<rparr>\<rparr>"

definition dk_run :: "predeploy_resp \<times> server" where
  "dk_run = handlePreDeploy (Some dk_env) ''127.0.0.1'' (Some (hexEncode dk_new)) ''a,b'' dk_s0"

lemma dk_whole: "whole dk_dec (enc_str r @ enc_bytes m) = Some \<lparr>dr_Role = r, NewMRENCLAVE = m, dr_BreakGlass = None\<rparr>"
  by (rule whole_enc) (simp add: dk_dec_def dec_pair_def dec_ret_def)

lemma dk_codec: "delegate_codec dk_env"
  by (simp add: delegate_codec_def dk_env_def dk_whole)

lemma dk_roles: "DKIMPoolRoleName ''a'' = dk_role" "validateRole dk_role = None" "DKIMPoolRoleName ''b'' \<noteq> dk_role"
  "validateRole (DKIMPoolRoleName ''b'') = None"
  by (code_simp)+

lemma dk_allowed: "allowlist_Allowed (sv_allow dk_s0) dk_role w_mre" "\<not> allowlist_Allowed (sv_allow dk_s0) dk_role dk_new"
  by (code_simp)+

lemma dk_delegate_a:
  "fst (client_Delegate dk_env dk_role dk_new dk_s0) = Inr [w_mre, dk_new]"
proof -
  have roles: "roles_of (sv_allow dk_s0) dk_role = [w_mre]" by (simp add: dk_s0_def roles_of_def)
  have "dk_new \<noteq> w_mre" by code_simp
  moreover obtain actor where "delegate_auth sim_platform w_peer \<lparr>dr_Role = dk_role, NewMRENCLAVE = dk_new, dr_BreakGlass = None\<rparr> dk_s0
      = (dk_s0, Inr actor)"
    using dk_allowed(1) by (simp add: delegate_auth_def w_peer_def)
  ultimately show ?thesis
    using roles dk_roles(2)
    by (simp add: client_Delegate_def client_do_def handleDelegate_def dk_env_def dk_whole
        allowlist_Add_def Let_def split_beta sim_persist srv_audit_def w_h_def)
qed

theorem predeploy_delegates_witness:
  "allowlist_Allowed (sv_allow (snd dk_run)) dk_role dk_new \<and> \<not> allowlist_Allowed (sv_allow dk_s0) dk_role dk_new
    \<and> \<not> allowlist_Allowed (sv_allow (snd dk_run)) (DKIMPoolRoleName ''b'') dk_new"
proof -
  have split: "splitStr (CHR '','') ''a,b'' = [''a'', ''b'']" "trimSpace ''a'' = ''a''" "trimSpace ''b'' = ''b''" by (code_simp)+
  have len: "length dk_new = 32" by (simp add: dk_new_def)
  obtain s1 where a: "client_Delegate dk_env dk_role dk_new dk_s0 = (Inr [w_mre, dk_new], s1)"
    using dk_delegate_a by (metis prod.collapse)
  then obtain code b where rsp: "fst dk_run = PdResults code (hexEncode dk_new) ((dk_role, None) # b)"
    using dk_roles(1) len by (auto simp: dk_run_def handlePreDeploy_def split Let_def split_beta)
  have run: "handlePreDeploy (Some dk_env) ''127.0.0.1'' (Some (hexEncode dk_new)) ''a,b'' dk_s0 = (fst dk_run, snd dk_run)"
    by (simp add: dk_run_def)
  have b: "\<not> allowlist_Allowed (sv_allow dk_s0) (DKIMPoolRoleName ''b'') (pi_MRENCLAVE (kv_peer dk_env))"
    "\<not> allowlist_Allowed (sv_allow dk_s0) (DKIMPoolRoleName ''b'') dk_new" by (code_simp)+
  note spec = predeploy_delegates [OF dk_codec hexDecode_hexEncode run]
  show ?thesis using spec rsp b dk_allowed(2) by auto
qed

definition dk_entry :: DKIMPoolEntry where
  "dk_entry = \<lparr>de_Selector = ''a'', de_Ed25519Seed = replicate 32 1, de_RSAPKCS8 = [1], de_Ed25519PubB64 = ''ZQ'', de_RSAPubB64 = ''cg'', de_CreatedAt = 0\<rparr>"

definition dk_attest :: attest_env where
  "dk_attest = \<lparr>ax_attest = (\<lambda>b. Some b), ax_sha = (\<lambda>b. b), ax_status = (\<lambda>_. Some 200), ax_result = (\<lambda>_. [])\<rparr>"

definition dk_zone :: "string \<Rightarrow> string list option" where
  "dk_zone n = (if n = ''a._domainkey.b.c'' then Some [''v=DKIM1; k=ed25519; p=ZQ'', ''v=DKIM1; k=rsa; p=cg''] else None)"

theorem publish_converges_witness:
  "let zone' = fold (\<lambda>u z. apply_update z u) (publish_entry dk_attest dk_zone ''b.c'' dk_entry) dk_zone in
     zone' ''a._domainkey.b.c'' = Some [''v=DKIM1; k=rsa; p=cg''] \<and> publish_entry dk_attest zone' ''b.c'' dk_entry = []"
proof -
  have "ax_attest dk_attest (digest32 (ax_sha dk_attest) (attested_text ''TXT'' (de_Selector dk_entry @ ''._domainkey.'' @ ''b.c'')
      (''v=DKIM1; k=rsa; p='' @ de_RSAPubB64 dk_entry)))
    = Some (digest32 (\<lambda>b. b) (attested_text ''TXT'' ''a._domainkey.b.c'' ''v=DKIM1; k=rsa; p=cg''))"
    by (simp add: dk_attest_def dk_entry_def)
  from publish_converges [OF this, of dk_zone] show ?thesis by (simp add: Let_def dk_entry_def)
qed

end
