(* ===== verification/Accounts.thy ===== *)
theory Accounts
  imports Pay_Store
begin

text \<open>
  \<open>internal/storage/auth_store.go\<close>: accounts, their life cycle and sessions. Every SQL statement is a
  function on the tables; it may fail before it took effect or after (a lost reply), as in
  \<open>Pay_Store\<close>. Statements of a transaction take effect together at its commit, and after an error
  in a transaction the database refuses its further statements. The clock of the database is the
  argument \<open>now\<close>, in nanoseconds; an interval of a day has 24 hours. Values that an insertion leaves to the
  schema come from a template row. Columns that no statement sets to NULL have no NULL.
\<close>

subsection \<open>Tables\<close>

record user_row =
  uw_UserID :: bytes
  uw_TenantID :: bytes
  uw_Address :: string
  uw_PublicKeyEncryption :: bytes
  uw_PublicKeySigning :: bytes
  uw_EncryptedPrivateKey :: bytes
  uw_EncryptedRecoveryKey :: bytes
  uw_OpaqueRegistration :: bytes
  uw_KeyEpoch :: int
  uw_RecoveryVersion :: int
  uw_CreatedAt :: int
  uw_LastActivityAt :: "int option"
  uw_PGPPublicKey :: "string option"
  uw_Tier :: string
  uw_StorageUsedBytes :: int
  uw_AccountStatus :: string
  uw_PaymentFailedAt :: "int option"
  uw_StripeCustomerID :: "string option"
  uw_StripeSubscriptionID :: "string option"
  uw_TOTPSecretEncrypted :: "bytes option"
  uw_TOTPEnabled :: bool
  uw_TOTPBackupCodes :: "string option"
  uw_DeletionRequestedAt :: "int option"
  uw_OpaqueRecoveryRegistration :: bytes
  uw_RecoveryBlob :: bytes
  uw_PublicKeyKEM :: bytes
  uw_EncryptedPrivateKeyKEM :: bytes
  uw_AccountType :: string
  uw_DormancyWindowDays :: "int option"
  uw_ValidUntil :: "int option"
  uw_MaxValidUntil :: "int option"
  uw_HasFakeID :: bool
  uw_FakeIDMintedAt :: "int option"
  uw_FakeIDAllowedReleaseAt :: "int option"
  uw_FakeIDMigrated :: bool
  uw_StorageBlocks :: int
  uw_RecentBounces :: int
  uw_RecentBouncesResetAt :: int
  uw_WelcomeDismissedAt :: "int option"
  uw_AffiliateCode :: "string option"

record Session =
  sn_SessionID :: bytes
  sn_UserID :: bytes
  sn_CreatedAt :: int
  sn_ExpiresAt :: int
  sn_RefreshExpiresAt :: int
  sn_RefreshTokenHash :: bytes
  sn_TokenHash :: bytes

record tenant_row =
  tw_TenantID :: bytes
  tw_Domain :: string
  tw_CreatedAt :: int
  tw_Tier :: "string option"
  tw_OwnerUserID :: "bytes option"
  tw_CatchAllUserID :: "bytes option"
  tw_Verified :: bool

record settings_row =
  st_Signature :: string
  st_DisplayName :: string
  st_BackupEmail :: "string option"
  st_BackupEmailVerified :: bool
  st_BackupEmailToken :: "string option"
  st_BackupEmailTokenExpires :: "int option"

record invitation_row =
  iv_InvitationID :: bytes
  iv_TenantID :: bytes
  iv_Status :: string

text \<open>
  The other tables a user owns rows of are \<open>ad_owned\<close>: the name of a table and its rows (owner, tenant,
  content); a table that is not listed does not exist.
\<close>

type_synonym owned_rows = "(bytes \<times> bytes \<times> bytes) list"

record auth_db =
  ad_users :: "user_row list"
  ad_sessions :: "Session list"
  ad_tenants :: "tenant_row list"
  ad_aliases :: "(string \<times> bytes) list"
  ad_settings :: "(bytes \<times> settings_row) list"
  ad_invitations :: "invitation_row list"
  ad_roles :: "((bytes \<times> bytes) \<times> string) list"
  ad_owned :: "(string \<times> owned_rows) list"

subsection \<open>Statements\<close>

definition update_where :: "(user_row \<Rightarrow> bool) \<Rightarrow> (user_row \<Rightarrow> user_row) \<Rightarrow> auth_db \<Rightarrow> auth_db" where
  "update_where P f db = db\<lparr>ad_users := map (\<lambda>u. if P u then f u else u) (ad_users db)\<rparr>"

definition rows_affected :: "(user_row \<Rightarrow> bool) \<Rightarrow> auth_db \<Rightarrow> nat" where
  "rows_affected P db = length (filter P (ad_users db))"

text \<open>The reply of a statement, and of one whose caller checks that it found a row.\<close>

definition exec :: "db_out \<Rightarrow> string \<Rightarrow> 'd \<Rightarrow> 'd \<Rightarrow> string option \<times> 'd" where
  "exec out msg db' db =
     (case out of DbErrBefore \<Rightarrow> (Some msg, db) | DbErrAfter \<Rightarrow> (Some msg, db') | DbOk \<Rightarrow> (None, db'))"

definition exec_found :: "db_out \<Rightarrow> string \<Rightarrow> string \<Rightarrow> (user_row \<Rightarrow> bool) \<Rightarrow> (user_row \<Rightarrow> user_row) \<Rightarrow> auth_db \<Rightarrow> string option \<times> auth_db" where
  "exec_found out msg missing P f db =
     (case exec out msg (update_where P f db) db of
        (Some e, db') \<Rightarrow> (Some e, db')
      | (None, db') \<Rightarrow> (if rows_affected P db = 0 then Some missing else None, db'))"

abbreviation by_id :: "bytes \<Rightarrow> user_row \<Rightarrow> bool" where
  "by_id userID u \<equiv> uw_UserID u = userID"

definition update_user :: "db_out \<Rightarrow> string \<Rightarrow> bytes \<Rightarrow> (user_row \<Rightarrow> user_row) \<Rightarrow> auth_db \<Rightarrow> string option \<times> auth_db" where
  "update_user out msg userID f db = exec_found out msg ''user not found'' (by_id userID) f db"

text \<open>\<open>COALESCE(last_activity_at, created_at)\<close>.\<close>

definition last_active :: "user_row \<Rightarrow> int" where
  "last_active u = (case uw_LastActivityAt u of Some t \<Rightarrow> t | None \<Rightarrow> uw_CreatedAt u)"

text \<open>A comparison with NULL is not true.\<close>

definition before_opt :: "int option \<Rightarrow> int \<Rightarrow> bool" where
  "before_opt x t = (case x of None \<Rightarrow> False | Some y \<Rightarrow> y < t)"

subsection \<open>Addresses and lookups\<close>

text \<open>\<open>local\<close> and \<open>domain\<close> (with its @) of an address, at the last @.\<close>

definition StripPlusTag :: "string \<Rightarrow> string" where
  "StripPlusTag address =
     (case after_last (CHR ''@'') address of
        None \<Rightarrow> address
      | Some d \<Rightarrow>
          (let loc = take (length address - length d - 1) address in
           takeWhile (\<lambda>c. c \<noteq> CHR ''+'') loc @ CHR ''@'' # d))"

definition GetUserByAddress :: "bool \<Rightarrow> (string \<Rightarrow> string) \<Rightarrow> string \<Rightarrow> auth_db \<Rightarrow> string + user_row" where
  "GetUserByAddress ok lower address db =
     (if \<not> ok then Inl ''get user by address''
      else (case find (\<lambda>u. uw_Address u = lower (StripPlusTag address)) (ad_users db) of
        None \<Rightarrow> Inl ''user not found'' | Some u \<Rightarrow> Inr u))"

definition GetUserByID :: "bool \<Rightarrow> bytes \<Rightarrow> auth_db \<Rightarrow> string + user_row" where
  "GetUserByID ok userID db =
     (if \<not> ok then Inl ''get user by id''
      else (case find (by_id userID) (ad_users db) of None \<Rightarrow> Inl ''user not found'' | Some u \<Rightarrow> Inr u))"

definition GetUserByStripeCustomerID :: "bool \<Rightarrow> string \<Rightarrow> auth_db \<Rightarrow> string + user_row" where
  "GetUserByStripeCustomerID ok customerID db =
     (if \<not> ok then Inl ''get user by stripe customer''
      else (case find (\<lambda>u. uw_StripeCustomerID u = Some customerID) (ad_users db) of
        None \<Rightarrow> Inl ''user not found for stripe customer'' | Some u \<Rightarrow> Inr u))"

definition GetPGPPublicKeyByAddress :: "bool \<Rightarrow> string \<Rightarrow> auth_db \<Rightarrow> string + string" where
  "GetPGPPublicKeyByAddress ok address db =
     (if \<not> ok then Inl ''get PGP key''
      else (case find (\<lambda>u. uw_Address u = address) (ad_users db) of
        None \<Rightarrow> Inl ''get PGP key''
      | Some u \<Rightarrow> Inr (case uw_PGPPublicKey u of None \<Rightarrow> [] | Some k \<Rightarrow> k)))"

definition catch_all :: "bool \<Rightarrow> string \<Rightarrow> auth_db \<Rightarrow> bytes option" where
  "catch_all ok address db =
     (case after_last (CHR ''@'') address of
        None \<Rightarrow> None
      | Some d \<Rightarrow>
          if \<not> ok then None
          else (case find (\<lambda>t. tw_Domain t = d) (ad_tenants db) of None \<Rightarrow> None | Some t \<Rightarrow> tw_CatchAllUserID t))"

text \<open>The flags: whether each of the queries works.\<close>

definition ResolveRecipient :: "(nat \<Rightarrow> bool) \<Rightarrow> (string \<Rightarrow> string) \<Rightarrow> string \<Rightarrow> auth_db \<Rightarrow> string + user_row" where
  "ResolveRecipient ok lower addr db =
     (let address = lower (trimSpace addr) in
      case GetUserByAddress (ok 0) lower address db of
        Inr u \<Rightarrow> Inr u
      | Inl _ \<Rightarrow>
          if \<not> ok 1 then Inl ''resolve alias''
          else (case map_of (ad_aliases db) address of
            Some targetID \<Rightarrow> GetUserByID (ok 2) targetID db
          | None \<Rightarrow>
              (case catch_all (ok 3) address db of
                 Some userID \<Rightarrow> GetUserByID (ok 4) userID db
               | None \<Rightarrow> Inl ''no such recipient'')))"

text \<open>The join of \<open>aliases\<close> and \<open>users\<close>.\<close>

definition alias_targets :: "string \<Rightarrow> auth_db \<Rightarrow> string list" where
  "alias_targets address db =
     concat (map (\<lambda>(a, target). if a = address then map uw_Address (filter (by_id target) (ad_users db)) else []) (ad_aliases db))"

definition ResolveRecipientAddresses :: "(nat \<Rightarrow> bool) \<Rightarrow> (string \<Rightarrow> string) \<Rightarrow> string \<Rightarrow> auth_db \<Rightarrow> string + string list" where
  "ResolveRecipientAddresses ok lower addr db =
     (let address = lower (trimSpace addr) in
      case GetUserByAddress (ok 0) lower address db of
        Inr _ \<Rightarrow> Inr [address]
      | Inl _ \<Rightarrow>
          if \<not> ok 1 then Inl ''resolve alias targets''
          else if alias_targets address db \<noteq> [] then Inr (alias_targets address db)
          else (case catch_all (ok 3) address db of
                  Some userID \<Rightarrow>
                    (case GetUserByID (ok 4) userID db of Inr u \<Rightarrow> Inr [uw_Address u] | Inl _ \<Rightarrow> Inl ''no such recipient'')
                | None \<Rightarrow> Inl ''no such recipient''))"

subsection \<open>Registration\<close>

definition new_row :: "user_row \<Rightarrow> user_row \<Rightarrow> user_row" where
  "new_row defaults user =
     defaults\<lparr>uw_UserID := uw_UserID user, uw_TenantID := uw_TenantID user, uw_Address := uw_Address user,
       uw_PublicKeyEncryption := uw_PublicKeyEncryption user, uw_PublicKeySigning := uw_PublicKeySigning user,
       uw_EncryptedPrivateKey := uw_EncryptedPrivateKey user, uw_EncryptedRecoveryKey := uw_EncryptedRecoveryKey user,
       uw_OpaqueRegistration := uw_OpaqueRegistration user, uw_KeyEpoch := uw_KeyEpoch user,
       uw_RecoveryVersion := (if uw_RecoveryVersion user = 0 then 2 else uw_RecoveryVersion user),
       uw_AccountStatus := (if uw_AccountStatus user = [] then ''active'' else uw_AccountStatus user),
       uw_PublicKeyKEM := uw_PublicKeyKEM user, uw_EncryptedPrivateKeyKEM := uw_EncryptedPrivateKeyKEM user\<rparr>"

text \<open>An insertion is refused if the row violates a constraint of the schema, which is not in the repository: \<open>accepts\<close>.\<close>

definition CreateUser :: "(user_row list \<Rightarrow> user_row \<Rightarrow> bool) \<Rightarrow> db_out \<Rightarrow> user_row \<Rightarrow> user_row \<Rightarrow> auth_db \<Rightarrow> string option \<times> auth_db" where
  "CreateUser accepts out defaults user db =
     (if accepts (ad_users db) (new_row defaults user)
      then exec out ''create user'' (db\<lparr>ad_users := ad_users db @ [new_row defaults user]\<rparr>) db
      else (Some ''create user'', db))"

definition defaultFolderTypes :: "(string \<times> int) list" where
  "defaultFolderTypes = [(''inbox'', 0), (''sent'', 1), (''drafts'', 2), (''trash'', 3), (''junk'', 4), (''archive'', 5)]"

definition add_folders :: "bytes \<Rightarrow> bytes \<Rightarrow> auth_db \<Rightarrow> auth_db" where
  "add_folders userID tenantID db =
     db\<lparr>ad_owned := AList.update ''folders''
        ((case map_of (ad_owned db) ''folders'' of None \<Rightarrow> [] | Some rows \<Rightarrow> rows)
         @ map (\<lambda>f. (userID, tenantID, str_bytes (fst f))) defaultFolderTypes) (ad_owned db)\<rparr>"

text \<open>A transaction: the flags say which of its statements work, \<open>commit\<close> the reply to the commit.\<close>

definition commit :: "db_out \<Rightarrow> 'd \<Rightarrow> 'd \<Rightarrow> string option \<times> 'd" where
  "commit out db' db = exec out ''commit'' db' db"

definition registered :: "user_row \<Rightarrow> user_row \<Rightarrow> user_row" where
  "registered defaults user =
     (new_row defaults user)\<lparr>uw_OpaqueRecoveryRegistration := uw_OpaqueRecoveryRegistration user, uw_RecoveryBlob := uw_RecoveryBlob user,
       uw_AccountType := (if uw_AccountType user = [] then ''primary'' else uw_AccountType user),
       uw_DormancyWindowDays := uw_DormancyWindowDays user, uw_ValidUntil := uw_ValidUntil user, uw_MaxValidUntil := uw_MaxValidUntil user\<rparr>"

definition RegisterUser ::
    "(user_row list \<Rightarrow> user_row \<Rightarrow> bool) \<Rightarrow> (nat \<Rightarrow> bool) \<Rightarrow> db_out \<Rightarrow> user_row \<Rightarrow> user_row \<Rightarrow> auth_db \<Rightarrow> string option \<times> auth_db" where
  "RegisterUser accepts ok out defaults user db =
     (if \<not> ok 0 then (Some ''begin registration tx'', db)
      else if \<not> ok 1 \<or> \<not> accepts (ad_users db) (registered defaults user) then (Some ''create user'', db)
      else if \<not> list_all (\<lambda>i. ok (2 + i)) [0..<length defaultFolderTypes] then (Some ''create default folder'', db)
      else commit out (add_folders (uw_UserID user) (uw_TenantID user) (db\<lparr>ad_users := ad_users db @ [registered defaults user]\<rparr>)) db)"

definition invited :: "user_row \<Rightarrow> user_row \<Rightarrow> user_row" where
  "invited defaults user =
     (new_row defaults (user\<lparr>uw_AccountStatus := ''active''\<rparr>))\<lparr>uw_OpaqueRecoveryRegistration := uw_OpaqueRecoveryRegistration user,
       uw_RecoveryBlob := uw_RecoveryBlob user\<rparr>"

definition invitation_matches :: "bytes \<Rightarrow> bytes \<Rightarrow> invitation_row \<Rightarrow> bool" where
  "invitation_matches invitationID tenantID i = (iv_InvitationID i = invitationID \<and> iv_TenantID i = tenantID)"

definition RegisterInvitedUser ::
    "(user_row list \<Rightarrow> user_row \<Rightarrow> bool) \<Rightarrow> (nat \<Rightarrow> bool) \<Rightarrow> db_out \<Rightarrow> user_row \<Rightarrow> user_row \<Rightarrow> bytes \<Rightarrow> auth_db \<Rightarrow> string option \<times> auth_db" where
  "RegisterInvitedUser accepts ok out defaults user invitationID db =
     (let mine = invitation_matches invitationID (uw_TenantID user) in
      if \<not> ok 0 then (Some ''begin registration tx'', db)
      else if \<not> ok 1 \<or> \<not> accepts (ad_users db) (invited defaults user) then (Some ''create user'', db)
      else if \<not> ok 2 then (Some ''mark invitation accepted'', db)
      else if \<not> list_ex mine (ad_invitations db) then (Some ''invitation not found or tenant mismatch'', db)
      else if \<not> ok 3 then (Some ''assign member role'', db)
      else if \<not> list_all (\<lambda>i. ok (4 + i)) [0..<length defaultFolderTypes] then (Some ''create default folder'', db)
      else commit out
        (add_folders (uw_UserID user) (uw_TenantID user)
          (db\<lparr>ad_users := ad_users db @ [invited defaults user],
              ad_invitations := map (\<lambda>i. if mine i then i\<lparr>iv_Status := ''accepted''\<rparr> else i) (ad_invitations db),
              ad_roles := AList.update (uw_UserID user, uw_TenantID user) ''member'' (ad_roles db)\<rparr>)) db)"

subsection \<open>Fake ID slots\<close>

text \<open>\<open>FakeIDMaxLifetime\<close>, and the interval of some days.\<close>

definition days :: "int \<Rightarrow> int" where
  "days n = n * 24 * hour"

definition FakeIDMaxLifetime :: int where
  "FakeIDMaxLifetime = 60 * 24 * hour"

datatype claim_out = Claimed | ErrFakeIDSlotTaken | ClaimError string

definition claimable :: "bytes \<Rightarrow> user_row \<Rightarrow> bool" where
  "claimable userID u = (by_id userID u \<and> \<not> uw_HasFakeID u)"

definition ClaimFakeIDSlot :: "db_out \<Rightarrow> int \<Rightarrow> bytes \<Rightarrow> auth_db \<Rightarrow> claim_out \<times> auth_db" where
  "ClaimFakeIDSlot out now userID db =
     (case exec out ''claim fakeid slot'' (update_where (claimable userID)
             (\<lambda>u. u\<lparr>uw_HasFakeID := True, uw_FakeIDMintedAt := Some now, uw_FakeIDAllowedReleaseAt := Some (now + FakeIDMaxLifetime)\<rparr>) db) db of
        (Some e, db') \<Rightarrow> (ClaimError e, db')
      | (None, db') \<Rightarrow> (if rows_affected (claimable userID) db = 0 then ErrFakeIDSlotTaken else Claimed, db'))"

definition clear_slot :: "user_row \<Rightarrow> user_row" where
  "clear_slot u = u\<lparr>uw_HasFakeID := False, uw_FakeIDMintedAt := None, uw_FakeIDAllowedReleaseAt := None\<rparr>"

definition ReleaseFakeIDSlotIfOwned :: "db_out \<Rightarrow> int \<Rightarrow> bytes \<Rightarrow> auth_db \<Rightarrow> string option \<times> auth_db" where
  "ReleaseFakeIDSlotIfOwned out now userID db =
     exec out ''release fakeid slot'' (update_where
       (\<lambda>u. by_id userID u \<and> uw_HasFakeID u \<and> (case uw_FakeIDMintedAt u of None \<Rightarrow> False | Some t \<Rightarrow> t > now - 60 * second))
       clear_slot db) db"

definition slot_expired :: "int \<Rightarrow> user_row \<Rightarrow> bool" where
  "slot_expired now u = (uw_HasFakeID u \<and> before_opt (uw_FakeIDAllowedReleaseAt u) now)"

definition ExpireFakeIDSlots :: "db_out \<Rightarrow> int \<Rightarrow> auth_db \<Rightarrow> (string + nat) \<times> auth_db" where
  "ExpireFakeIDSlots out now db =
     (case exec out ''expire fakeid slots'' (update_where (slot_expired now) clear_slot db) db of
        (Some e, db') \<Rightarrow> (Inl e, db') | (None, db') \<Rightarrow> (Inr (rows_affected (slot_expired now) db), db'))"

definition ExtendFakeIDAllowedRelease :: "db_out \<Rightarrow> int \<Rightarrow> bytes \<Rightarrow> int \<Rightarrow> auth_db \<Rightarrow> string option \<times> auth_db" where
  "ExtendFakeIDAllowedRelease out now userID extensionDays db =
     exec out ''extend fakeid allowed release'' (update_where (\<lambda>u. by_id userID u \<and> uw_HasFakeID u)
       (\<lambda>u. u\<lparr>uw_FakeIDAllowedReleaseAt :=
          Some (max (case uw_FakeIDAllowedReleaseAt u of None \<Rightarrow> now | Some t \<Rightarrow> t) (now + days extensionDays))\<rparr>) db) db"

text \<open>The order of the rows is by identifier.\<close>

definition ListUnmigratedFakeIDPrimaries :: "bool \<Rightarrow> int \<Rightarrow> int \<Rightarrow> auth_db \<Rightarrow> string + (bytes \<times> int) list" where
  "ListUnmigratedFakeIDPrimaries ok now limit db =
     (if \<not> ok then Inl ''list unmigrated fakeid primaries''
      else Inr (take (nat (if limit \<le> 0 then 500 else limit))
        (map (\<lambda>u. (uw_UserID u, case uw_FakeIDMintedAt u of None \<Rightarrow> now | Some t \<Rightarrow> t))
          (sort_key (\<lambda>u. map unat (uw_UserID u)) (filter (\<lambda>u. uw_HasFakeID u \<and> \<not> uw_FakeIDMigrated u) (ad_users db))))))"

definition MarkFakeIDMigrated :: "db_out \<Rightarrow> bytes \<Rightarrow> auth_db \<Rightarrow> string option \<times> auth_db" where
  "MarkFakeIDMigrated out userID db =
     exec out ''mark fakeid migrated'' (update_where (by_id userID) (\<lambda>u. u\<lparr>uw_FakeIDMigrated := True\<rparr>) db) db"

text \<open>\<open>jitterSeconds\<close> of the random bytes, if there are any.\<close>

definition jitterSeconds :: "int \<Rightarrow> bytes option \<Rightarrow> int" where
  "jitterSeconds m random =
     (case random of
        None \<Rightarrow> 0
      | Some b \<Rightarrow> int (foldl (\<lambda>acc x. 256 * acc + unat x) 0 b) mod (2 * m + 1) - m)"

definition maxJitter :: int where
  "maxJitter = 2 * 24 * 3600"

text \<open>\<open>LEAST\<close> and \<open>GREATEST\<close> skip NULL.\<close>

definition least_opt :: "int \<Rightarrow> int option \<Rightarrow> int" where
  "least_opt t x = (case x of None \<Rightarrow> t | Some y \<Rightarrow> min t y)"

definition greatest_opt :: "int \<Rightarrow> int option \<Rightarrow> int" where
  "greatest_opt t x = (case x of None \<Rightarrow> t | Some y \<Rightarrow> max t y)"

definition is_fakeid :: "bytes \<Rightarrow> user_row \<Rightarrow> bool" where
  "is_fakeid userID u = (by_id userID u \<and> uw_AccountType u = ''fakeid'')"

definition returning :: "db_out \<Rightarrow> string \<Rightarrow> (user_row \<Rightarrow> bool) \<Rightarrow> (user_row \<Rightarrow> user_row) \<Rightarrow> (user_row \<Rightarrow> 'a) \<Rightarrow> auth_db \<Rightarrow> (string + 'a) \<times> auth_db" where
  "returning out msg P f sel db =
     (case exec out msg (update_where P f db) db of
        (Some e, db') \<Rightarrow> (Inl e, db')
      | (None, db') \<Rightarrow> ((case find P (ad_users db) of None \<Rightarrow> Inl msg | Some u \<Rightarrow> Inr (sel (f u))), db'))"

definition advanced_until :: "int \<Rightarrow> int \<Rightarrow> user_row \<Rightarrow> int" where
  "advanced_until now jitter u =
     least_opt (now + days (case uw_DormancyWindowDays u of None \<Rightarrow> 30 | Some d \<Rightarrow> d) + jitter * second) (uw_MaxValidUntil u)"

definition AdvanceFakeIDValidUntil :: "db_out \<Rightarrow> int \<Rightarrow> bytes option \<Rightarrow> bytes \<Rightarrow> auth_db \<Rightarrow> (string + int) \<times> auth_db" where
  "AdvanceFakeIDValidUntil out now random userID db =
     (let jitter = jitterSeconds maxJitter random in
      returning out ''advance valid_until'' (is_fakeid userID)
        (\<lambda>u. u\<lparr>uw_ValidUntil := Some (advanced_until now jitter u)\<rparr>) (\<lambda>u. the (uw_ValidUntil u)) db)"

definition AdvanceFakeIDMaxValidUntil :: "db_out \<Rightarrow> int \<Rightarrow> bytes option \<Rightarrow> bytes \<Rightarrow> int \<Rightarrow> auth_db \<Rightarrow> (string + int) \<times> auth_db" where
  "AdvanceFakeIDMaxValidUntil out now random userID extensionDays db =
     (let jitter = jitterSeconds maxJitter random in
      returning out ''advance max_valid_until'' (is_fakeid userID)
        (\<lambda>u. u\<lparr>uw_MaxValidUntil := Some (greatest_opt (now + days extensionDays + jitter * second) (uw_MaxValidUntil u))\<rparr>)
        (\<lambda>u. the (uw_MaxValidUntil u)) db)"

definition fakeid_stale :: "int \<Rightarrow> user_row \<Rightarrow> bool" where
  "fakeid_stale now u =
     (uw_AccountType u = ''fakeid'' \<and> before_opt (uw_ValidUntil u) now \<and> uw_AccountStatus u \<noteq> ''purge_pending'')"

definition set_status :: "string \<Rightarrow> user_row \<Rightarrow> user_row" where
  "set_status status u = u\<lparr>uw_AccountStatus := status\<rparr>"

definition ExpireStaleFakeIDs :: "db_out \<Rightarrow> int \<Rightarrow> auth_db \<Rightarrow> (string + nat) \<times> auth_db" where
  "ExpireStaleFakeIDs out now db =
     (case exec out ''expire stale fakeids'' (update_where (fakeid_stale now) (set_status ''purge_pending'') db) db of
        (Some e, db') \<Rightarrow> (Inl e, db') | (None, db') \<Rightarrow> (Inr (rows_affected (fakeid_stale now) db), db'))"

subsection \<open>Keys, settings and second factor\<close>

definition UpdateUserKeys :: "db_out \<Rightarrow> bytes \<Rightarrow> bytes \<Rightarrow> bytes \<Rightarrow> bytes \<Rightarrow> auth_db \<Rightarrow> string option \<times> auth_db" where
  "UpdateUserKeys out userID encryptedPrivKey encryptedRecoveryKey opaqueReg db =
     update_user out ''update user keys'' userID
       (\<lambda>u. u\<lparr>uw_EncryptedPrivateKey := encryptedPrivKey, uw_EncryptedRecoveryKey := encryptedRecoveryKey,
              uw_OpaqueRegistration := opaqueReg, uw_RecoveryVersion := 2\<rparr>) db"

definition UpdateEncryptedRecoveryKey :: "db_out \<Rightarrow> bytes \<Rightarrow> bytes \<Rightarrow> int \<Rightarrow> auth_db \<Rightarrow> string option \<times> auth_db" where
  "UpdateEncryptedRecoveryKey out userID encryptedRecoveryKey recoveryVersion db =
     update_user out ''update encrypted recovery key'' userID
       (\<lambda>u. u\<lparr>uw_EncryptedRecoveryKey := encryptedRecoveryKey, uw_RecoveryVersion := recoveryVersion\<rparr>) db"

definition UpdateRecoveryOPAQUE :: "db_out \<Rightarrow> bytes \<Rightarrow> bytes \<Rightarrow> bytes \<Rightarrow> auth_db \<Rightarrow> string option \<times> auth_db" where
  "UpdateRecoveryOPAQUE out userID opaqueRecoveryReg recoveryBlob db =
     update_user out ''update recovery opaque'' userID
       (\<lambda>u. u\<lparr>uw_OpaqueRecoveryRegistration := opaqueRecoveryReg, uw_RecoveryBlob := recoveryBlob\<rparr>) db"

definition UpdateUserPublicKeys :: "db_out \<Rightarrow> bytes \<Rightarrow> bytes \<Rightarrow> bytes \<Rightarrow> auth_db \<Rightarrow> string option \<times> auth_db" where
  "UpdateUserPublicKeys out userID pubKeyEncryption pubKeySigning db =
     update_user out ''update user public keys'' userID
       (\<lambda>u. u\<lparr>uw_PublicKeyEncryption := pubKeyEncryption, uw_PublicKeySigning := pubKeySigning\<rparr>) db"

definition UpdateUserKEMKeys :: "db_out \<Rightarrow> bytes \<Rightarrow> bytes \<Rightarrow> bytes \<Rightarrow> auth_db \<Rightarrow> string option \<times> auth_db" where
  "UpdateUserKEMKeys out userID pubKeyKEM encPrivKeyKEM db =
     update_user out ''update user KEM keys'' userID
       (\<lambda>u. u\<lparr>uw_PublicKeyKEM := pubKeyKEM, uw_EncryptedPrivateKeyKEM := encPrivKeyKEM\<rparr>) db"

definition UpdatePGPPublicKey :: "db_out \<Rightarrow> bytes \<Rightarrow> string \<Rightarrow> auth_db \<Rightarrow> string option \<times> auth_db" where
  "UpdatePGPPublicKey out userID armoredKey db =
     exec out ''update PGP public key'' (update_where (by_id userID) (\<lambda>u. u\<lparr>uw_PGPPublicKey := Some armoredKey\<rparr>) db) db"

definition SetTOTPSecret :: "db_out \<Rightarrow> bytes \<Rightarrow> bytes \<Rightarrow> auth_db \<Rightarrow> string option \<times> auth_db" where
  "SetTOTPSecret out userID encryptedSecret db =
     update_user out ''set totp secret'' userID (\<lambda>u. u\<lparr>uw_TOTPSecretEncrypted := Some encryptedSecret\<rparr>) db"

definition EnableTOTP :: "db_out \<Rightarrow> bytes \<Rightarrow> string \<Rightarrow> auth_db \<Rightarrow> string option \<times> auth_db" where
  "EnableTOTP out userID backupCodesHash db =
     update_user out ''enable totp'' userID (\<lambda>u. u\<lparr>uw_TOTPEnabled := True, uw_TOTPBackupCodes := Some backupCodesHash\<rparr>) db"

definition DisableTOTP :: "db_out \<Rightarrow> bytes \<Rightarrow> auth_db \<Rightarrow> string option \<times> auth_db" where
  "DisableTOTP out userID db =
     update_user out ''disable totp'' userID
       (\<lambda>u. u\<lparr>uw_TOTPEnabled := False, uw_TOTPSecretEncrypted := None, uw_TOTPBackupCodes := None\<rparr>) db"

definition UseTOTPBackupCode :: "db_out \<Rightarrow> bytes \<Rightarrow> string \<Rightarrow> auth_db \<Rightarrow> string option \<times> auth_db" where
  "UseTOTPBackupCode out userID newCodes db =
     update_user out ''use totp backup code'' userID (\<lambda>u. u\<lparr>uw_TOTPBackupCodes := Some newCodes\<rparr>) db"

definition UpdateUserTier :: "db_out \<Rightarrow> bytes \<Rightarrow> string \<Rightarrow> auth_db \<Rightarrow> string option \<times> auth_db" where
  "UpdateUserTier out userID tier db = update_user out ''update user tier'' userID (\<lambda>u. u\<lparr>uw_Tier := tier\<rparr>) db"

definition no_settings :: settings_row where
  "no_settings = \<lparr>st_Signature = [], st_DisplayName = [], st_BackupEmail = None, st_BackupEmailVerified = False,
     st_BackupEmailToken = None, st_BackupEmailTokenExpires = None\<rparr>"

definition settings_of :: "auth_db \<Rightarrow> bytes \<Rightarrow> settings_row" where
  "settings_of db userID = (case map_of (ad_settings db) userID of None \<Rightarrow> no_settings | Some s \<Rightarrow> s)"

definition UpsertUserSettings :: "db_out \<Rightarrow> bytes \<Rightarrow> string option \<Rightarrow> string option \<Rightarrow> auth_db \<Rightarrow> string option \<times> auth_db" where
  "UpsertUserSettings out userID signature displayName db =
     (let old = settings_of db userID;
          row = old\<lparr>st_Signature := (case signature of Some x \<Rightarrow> x | None \<Rightarrow> st_Signature old),
                    st_DisplayName := (case displayName of Some x \<Rightarrow> x | None \<Rightarrow> st_DisplayName old)\<rparr>
      in exec out ''upsert user settings'' (db\<lparr>ad_settings := AList.update userID row (ad_settings db)\<rparr>) db)"

definition GetUserSettings :: "bool \<Rightarrow> bytes \<Rightarrow> auth_db \<Rightarrow> string + string \<times> string" where
  "GetUserSettings ok userID db =
     (if \<not> ok then Inl ''get user settings''
      else (case map_of (ad_settings db) userID of
              None \<Rightarrow> Inl ''get user settings'' | Some s \<Rightarrow> Inr (st_Signature s, st_DisplayName s)))"

definition GetBackupEmail :: "bool \<Rightarrow> bytes \<Rightarrow> auth_db \<Rightarrow> string + string \<times> bool" where
  "GetBackupEmail ok userID db =
     (if \<not> ok then Inl ''get backup email''
      else (case map_of (ad_settings db) userID of
              None \<Rightarrow> Inr ([], False)
            | Some s \<Rightarrow> Inr (case st_BackupEmail s of None \<Rightarrow> [] | Some e \<Rightarrow> e, st_BackupEmailVerified s)))"

definition SetBackupEmail :: "db_out \<Rightarrow> int \<Rightarrow> bytes \<Rightarrow> string \<Rightarrow> string \<Rightarrow> auth_db \<Rightarrow> string option \<times> auth_db" where
  "SetBackupEmail out now userID email token db =
     (let row = (settings_of db userID)\<lparr>st_BackupEmail := Some email, st_BackupEmailVerified := False,
                  st_BackupEmailToken := Some token, st_BackupEmailTokenExpires := Some (now + 24 * hour)\<rparr>
      in exec out ''set backup email'' (db\<lparr>ad_settings := AList.update userID row (ad_settings db)\<rparr>) db)"

definition token_valid :: "int \<Rightarrow> string \<Rightarrow> settings_row \<Rightarrow> bool" where
  "token_valid now token s =
     (st_BackupEmailToken s = Some token \<and> (case st_BackupEmailTokenExpires s of None \<Rightarrow> False | Some t \<Rightarrow> t > now))"

definition VerifyBackupEmail :: "db_out \<Rightarrow> int \<Rightarrow> string \<Rightarrow> auth_db \<Rightarrow> (string + bytes) \<times> auth_db" where
  "VerifyBackupEmail out now token db =
     (case exec out ''verify backup email''
             (db\<lparr>ad_settings := map (\<lambda>(k, s). (k, if token_valid now token s
                then s\<lparr>st_BackupEmailVerified := True, st_BackupEmailToken := None, st_BackupEmailTokenExpires := None\<rparr> else s)) (ad_settings db)\<rparr>) db of
        (Some e, db') \<Rightarrow> (Inl e, db')
      | (None, db') \<Rightarrow>
          ((case find (\<lambda>(k, s). token_valid now token s) (ad_settings db) of
              None \<Rightarrow> Inl ''invalid or expired verification token'' | Some (k, _) \<Rightarrow> Inr k), db'))"

definition has_backup :: "auth_db \<Rightarrow> bytes \<Rightarrow> bool" where
  "has_backup db userID =
     (case map_of (ad_settings db) userID of
        None \<Rightarrow> False
      | Some s \<Rightarrow> st_BackupEmailVerified s \<and> st_BackupEmail s \<noteq> None \<and> st_BackupEmail s \<noteq> Some [])"

definition GetUserByVerifiedBackupEmail :: "(nat \<Rightarrow> bool) \<Rightarrow> string \<Rightarrow> auth_db \<Rightarrow> string + user_row" where
  "GetUserByVerifiedBackupEmail ok address db =
     (if \<not> ok 0 then Inl ''get user by verified backup email''
      else (case find (\<lambda>u. uw_Address u = address \<and> has_backup db (uw_UserID u)) (ad_users db) of
              None \<Rightarrow> Inl ''no verified backup email'' | Some u \<Rightarrow> GetUserByID (ok 1) (uw_UserID u) db))"

subsection \<open>Sessions\<close>

definition CreateSession :: "db_out \<Rightarrow> Session \<Rightarrow> auth_db \<Rightarrow> string option \<times> auth_db" where
  "CreateSession out sess db = exec out ''create session'' (db\<lparr>ad_sessions := ad_sessions db @ [sess]\<rparr>) db"

definition find_session :: "bool \<Rightarrow> string \<Rightarrow> (Session \<Rightarrow> bool) \<Rightarrow> auth_db \<Rightarrow> string + Session" where
  "find_session ok msg P db =
     (if \<not> ok then Inl msg
      else (case find P (ad_sessions db) of None \<Rightarrow> Inl ''session not found or expired'' | Some s \<Rightarrow> Inr s))"

definition GetSession :: "bool \<Rightarrow> int \<Rightarrow> bytes \<Rightarrow> auth_db \<Rightarrow> string + Session" where
  "GetSession ok now sessionID db =
     find_session ok ''get session'' (\<lambda>s. sn_SessionID s = sessionID \<and> sn_ExpiresAt s > now) db"

definition GetSessionByTokenHash :: "bool \<Rightarrow> int \<Rightarrow> bytes \<Rightarrow> auth_db \<Rightarrow> string + Session" where
  "GetSessionByTokenHash ok now tokenHash db =
     find_session ok ''get session by token hash'' (\<lambda>s. sn_TokenHash s = tokenHash \<and> sn_ExpiresAt s > now) db"

definition GetSessionByRefreshHash :: "bool \<Rightarrow> int \<Rightarrow> bytes \<Rightarrow> auth_db \<Rightarrow> string + Session" where
  "GetSessionByRefreshHash ok now refreshHash db =
     find_session ok ''get session by refresh hash'' (\<lambda>s. sn_RefreshTokenHash s = refreshHash \<and> sn_RefreshExpiresAt s > now) db"

text \<open>The newest session first.\<close>

definition ListSessions :: "bool \<Rightarrow> int \<Rightarrow> bytes \<Rightarrow> auth_db \<Rightarrow> string + Session list" where
  "ListSessions ok now userID db =
     (if \<not> ok then Inl ''list sessions''
      else Inr (sort_key (\<lambda>s. - sn_CreatedAt s) (filter (\<lambda>s. sn_UserID s = userID \<and> sn_RefreshExpiresAt s > now) (ad_sessions db))))"

definition delete_sessions :: "(Session \<Rightarrow> bool) \<Rightarrow> auth_db \<Rightarrow> auth_db" where
  "delete_sessions P db = db\<lparr>ad_sessions := filter (\<lambda>s. \<not> P s) (ad_sessions db)\<rparr>"

definition session_found :: "db_out \<Rightarrow> string \<Rightarrow> bytes \<Rightarrow> auth_db \<Rightarrow> auth_db \<Rightarrow> string option \<times> auth_db" where
  "session_found out msg sessionID db' db =
     (case exec out msg db' db of
        (Some e, db'') \<Rightarrow> (Some e, db'')
      | (None, db'') \<Rightarrow> (if list_ex (\<lambda>s. sn_SessionID s = sessionID) (ad_sessions db) then None else Some ''session not found'', db''))"

definition DeleteSession :: "db_out \<Rightarrow> bytes \<Rightarrow> auth_db \<Rightarrow> string option \<times> auth_db" where
  "DeleteSession out sessionID db =
     session_found out ''delete session'' sessionID (delete_sessions (\<lambda>s. sn_SessionID s = sessionID) db) db"

definition update_session :: "bytes \<Rightarrow> (Session \<Rightarrow> Session) \<Rightarrow> auth_db \<Rightarrow> auth_db" where
  "update_session sessionID f db = db\<lparr>ad_sessions := map (\<lambda>s. if sn_SessionID s = sessionID then f s else s) (ad_sessions db)\<rparr>"

definition UpdateSessionRefresh :: "db_out \<Rightarrow> bytes \<Rightarrow> int \<Rightarrow> int \<Rightarrow> bytes \<Rightarrow> auth_db \<Rightarrow> string option \<times> auth_db" where
  "UpdateSessionRefresh out sessionID expiresAt refreshExpiresAt newRefreshHash db =
     session_found out ''update session refresh'' sessionID
       (update_session sessionID (\<lambda>s. s\<lparr>sn_ExpiresAt := expiresAt, sn_RefreshExpiresAt := refreshExpiresAt, sn_RefreshTokenHash := newRefreshHash\<rparr>) db) db"

definition UpdateSessionRefreshAndToken :: "db_out \<Rightarrow> bytes \<Rightarrow> int \<Rightarrow> int \<Rightarrow> bytes \<Rightarrow> bytes \<Rightarrow> auth_db \<Rightarrow> string option \<times> auth_db" where
  "UpdateSessionRefreshAndToken out sessionID expiresAt refreshExpiresAt newRefreshHash newTokenHash db =
     session_found out ''update session refresh and token'' sessionID
       (update_session sessionID (\<lambda>s. s\<lparr>sn_ExpiresAt := expiresAt, sn_RefreshExpiresAt := refreshExpiresAt,
          sn_RefreshTokenHash := newRefreshHash, sn_TokenHash := newTokenHash\<rparr>) db) db"

definition DeleteSessionsExcept :: "db_out \<Rightarrow> bytes \<Rightarrow> bytes \<Rightarrow> auth_db \<Rightarrow> string option \<times> auth_db" where
  "DeleteSessionsExcept out userID exceptSessionID db =
     exec out ''delete sessions except'' (delete_sessions (\<lambda>s. sn_UserID s = userID \<and> sn_SessionID s \<noteq> exceptSessionID) db) db"

definition DeleteAllSessions :: "db_out \<Rightarrow> bytes \<Rightarrow> auth_db \<Rightarrow> string option \<times> auth_db" where
  "DeleteAllSessions out userID db = exec out ''delete all sessions'' (delete_sessions (\<lambda>s. sn_UserID s = userID) db) db"

definition session_dead :: "int \<Rightarrow> Session \<Rightarrow> bool" where
  "session_dead now s = (sn_RefreshExpiresAt s < now)"

definition PurgeExpiredSessions :: "db_out \<Rightarrow> int \<Rightarrow> auth_db \<Rightarrow> (string + nat) \<times> auth_db" where
  "PurgeExpiredSessions out now db =
     (case exec out ''purge expired sessions'' (delete_sessions (session_dead now) db) db of
        (Some e, db') \<Rightarrow> (Inl e, db') | (None, db') \<Rightarrow> (Inr (length (filter (session_dead now) (ad_sessions db))), db'))"

text \<open>\<open>acquired\<close>: the advisory lock was free.\<close>

definition PurgeExpiredSessionsWithLock :: "(nat \<Rightarrow> bool) \<Rightarrow> bool \<Rightarrow> db_out \<Rightarrow> int \<Rightarrow> auth_db \<Rightarrow> (string + nat) \<times> auth_db" where
  "PurgeExpiredSessionsWithLock ok acquired out now db =
     (if \<not> ok 0 then (Inl ''begin tx'', db)
      else if \<not> ok 1 then (Inl ''try advisory lock'', db)
      else if \<not> acquired then (Inr 0, db)
      else if \<not> ok 2 then (Inl ''purge expired sessions'', db)
      else (case commit out (delete_sessions (session_dead now) db) db of
              (Some e, db') \<Rightarrow> (Inl e, db') | (None, db') \<Rightarrow> (Inr (length (filter (session_dead now) (ad_sessions db))), db')))"

text \<open>The hashes of the tokens; without a key, plain SHA-256.\<close>

definition HashSessionToken :: "(bytes \<Rightarrow> bytes \<Rightarrow> bytes) \<Rightarrow> (bytes \<Rightarrow> bytes) \<Rightarrow> bytes option \<Rightarrow> bytes \<Rightarrow> bytes" where
  "HashSessionToken hmac sha tokenHMACKey token =
     (case tokenHMACKey of Some k \<Rightarrow> hmac k (str_bytes ''session:'' @ token) | None \<Rightarrow> sha token)"

definition HashRefreshToken :: "(bytes \<Rightarrow> bytes \<Rightarrow> bytes) \<Rightarrow> (bytes \<Rightarrow> bytes) \<Rightarrow> bytes option \<Rightarrow> bytes \<Rightarrow> bytes" where
  "HashRefreshToken hmac sha tokenHMACKey token =
     (case tokenHMACKey of Some k \<Rightarrow> hmac k (str_bytes ''refresh:'' @ token) | None \<Rightarrow> sha token)"

subsection \<open>Tenants\<close>

definition DomainTaken :: "bool \<Rightarrow> string \<Rightarrow> auth_db \<Rightarrow> string + bool" where
  "DomainTaken ok domain db =
     (if ok then Inr (list_ex (\<lambda>t. tw_Domain t = domain) (ad_tenants db)) else Inl ''check domain taken'')"

text \<open>
  The three statements of \<open>EnsureTenant\<close>; another process may insert the domain between the first two,
  which is the argument \<open>other\<close>.
\<close>

definition EnsureTenant ::
    "(nat \<Rightarrow> bool) \<Rightarrow> db_out \<Rightarrow> tenant_row \<Rightarrow> bytes \<Rightarrow> (auth_db \<Rightarrow> auth_db) \<Rightarrow> string \<Rightarrow> auth_db \<Rightarrow> (string + bytes) \<times> auth_db" where
  "EnsureTenant ok out defaults newID other domain db =
     (if \<not> ok 0 then (Inl ''lookup tenant'', db)
      else (case find (\<lambda>t. tw_Domain t = domain) (ad_tenants db) of
        Some t \<Rightarrow> (Inr (tw_TenantID t), db)
      | None \<Rightarrow>
          (let db1 = other db;
               db2 = (if list_ex (\<lambda>t. tw_Domain t = domain) (ad_tenants db1) then db1
                      else db1\<lparr>ad_tenants := ad_tenants db1 @ [defaults\<lparr>tw_TenantID := newID, tw_Domain := domain\<rparr>]\<rparr>)
           in case exec out ''create tenant'' db2 db1 of
                (Some e, db3) \<Rightarrow> (Inl e, db3)
              | (None, db3) \<Rightarrow>
                  if \<not> ok 1 then (Inl ''refetch tenant'', db3)
                  else (case find (\<lambda>t. tw_Domain t = domain) (ad_tenants db3) of
                          None \<Rightarrow> (Inl ''refetch tenant'', db3) | Some t \<Rightarrow> (Inr (tw_TenantID t), db3)))))"

definition GetTenantTier :: "bool \<Rightarrow> bytes \<Rightarrow> auth_db \<Rightarrow> string + string" where
  "GetTenantTier ok tenantID db =
     (if \<not> ok then Inl ''get tenant tier''
      else (case find (\<lambda>t. tw_TenantID t = tenantID) (ad_tenants db) of
              None \<Rightarrow> Inl ''get tenant tier'' | Some t \<Rightarrow> Inr (case tw_Tier t of None \<Rightarrow> ''mail'' | Some x \<Rightarrow> x)))"

definition ListUsersByTenant :: "bool \<Rightarrow> bytes \<Rightarrow> auth_db \<Rightarrow> string + user_row list" where
  "ListUsersByTenant ok tenantID db =
     (if \<not> ok then Inl ''list users by tenant''
      else Inr (take 10000 (sort_key uw_CreatedAt (filter (\<lambda>u. uw_TenantID u = tenantID) (ad_users db)))))"

definition ListStaleUnverifiedTenants :: "bool \<Rightarrow> int \<Rightarrow> auth_db \<Rightarrow> string + bytes list" where
  "ListStaleUnverifiedTenants ok createdBefore db =
     (if \<not> ok then Inl ''list stale unverified tenants''
      else Inr (map tw_TenantID (filter (\<lambda>t. tw_OwnerUserID t \<noteq> None \<and> \<not> tw_Verified t \<and> tw_CreatedAt t < createdBefore) (ad_tenants db))))"

subsection \<open>Life cycle\<close>

definition validAccountStatuses :: "string list" where
  "validAccountStatuses = [''active'', ''pending_payment'', ''payment_failed'', ''suspended'', ''purge_pending'', ''deletion_pending'']"

definition UpdateAccountStatus :: "db_out \<Rightarrow> bytes \<Rightarrow> string \<Rightarrow> auth_db \<Rightarrow> string option \<times> auth_db" where
  "UpdateAccountStatus out userID status db =
     (if status \<notin> set validAccountStatuses then (Some ''invalid account status'', db)
      else exec out ''update account status'' (update_where (by_id userID) (set_status status) db) db)"

text \<open>An account in a given status.\<close>

definition in_status :: "string \<Rightarrow> user_row \<Rightarrow> bool" where
  "in_status status u = (uw_AccountStatus u = status)"

definition SetPaymentFailedAt :: "db_out \<Rightarrow> int \<Rightarrow> bytes \<Rightarrow> auth_db \<Rightarrow> string option \<times> auth_db" where
  "SetPaymentFailedAt out now userID db =
     exec out ''exec'' (update_where (\<lambda>u. by_id userID u \<and> in_status ''active'' u)
       (\<lambda>u. (set_status ''payment_failed'' u)\<lparr>uw_PaymentFailedAt := Some now\<rparr>) db) db"

definition SetUserStripeCustomerID :: "db_out \<Rightarrow> bytes \<Rightarrow> string \<Rightarrow> auth_db \<Rightarrow> string option \<times> auth_db" where
  "SetUserStripeCustomerID out userID customerID db =
     exec out ''exec'' (update_where (by_id userID) (\<lambda>u. u\<lparr>uw_StripeCustomerID := Some customerID\<rparr>) db) db"

definition SetUserStripeSubscriptionID :: "db_out \<Rightarrow> bytes \<Rightarrow> string \<Rightarrow> auth_db \<Rightarrow> string option \<times> auth_db" where
  "SetUserStripeSubscriptionID out userID subID db =
     exec out ''exec'' (update_where (by_id userID) (\<lambda>u. u\<lparr>uw_StripeSubscriptionID := Some subID\<rparr>) db) db"

definition GetUserAffiliateCode :: "bool \<Rightarrow> bytes \<Rightarrow> auth_db \<Rightarrow> string + string" where
  "GetUserAffiliateCode ok userID db =
     (if \<not> ok then Inl ''query''
      else (case find (by_id userID) (ad_users db) of
              None \<Rightarrow> Inl ''no rows'' | Some u \<Rightarrow> Inr (case uw_AffiliateCode u of None \<Rightarrow> [] | Some c \<Rightarrow> c)))"

definition SetUserAffiliateCode :: "db_out \<Rightarrow> bytes \<Rightarrow> string \<Rightarrow> auth_db \<Rightarrow> string option \<times> auth_db" where
  "SetUserAffiliateCode out userID code db =
     exec out ''exec'' (update_where (by_id userID) (\<lambda>u. u\<lparr>uw_AffiliateCode := Some code\<rparr>) db) db"

definition IsWelcomeDismissed :: "bool \<Rightarrow> bytes \<Rightarrow> auth_db \<Rightarrow> string + bool" where
  "IsWelcomeDismissed ok userID db =
     (if \<not> ok then Inl ''welcome_dismissed lookup''
      else (case find (by_id userID) (ad_users db) of None \<Rightarrow> Inr False | Some u \<Rightarrow> Inr (uw_WelcomeDismissedAt u \<noteq> None)))"

definition MarkWelcomeDismissed :: "db_out \<Rightarrow> int \<Rightarrow> bytes \<Rightarrow> auth_db \<Rightarrow> string option \<times> auth_db" where
  "MarkWelcomeDismissed out now userID db =
     exec out ''mark welcome dismissed'' (update_where (\<lambda>u. by_id userID u \<and> uw_WelcomeDismissedAt u = None)
       (\<lambda>u. u\<lparr>uw_WelcomeDismissedAt := Some now\<rparr>) db) db"

text \<open>Two statements; the first stays done if the second fails.\<close>

definition suspendable :: "int \<Rightarrow> user_row \<Rightarrow> bool" where
  "suspendable now u = (in_status ''payment_failed'' u \<and> before_opt (uw_PaymentFailedAt u) (now - days 30))"

definition purgeable :: "int \<Rightarrow> user_row \<Rightarrow> bool" where
  "purgeable now u = (in_status ''suspended'' u \<and> before_opt (uw_PaymentFailedAt u) (now - days 60))"

definition TransitionPaymentFailedAccounts :: "db_out \<Rightarrow> db_out \<Rightarrow> int \<Rightarrow> auth_db \<Rightarrow> (string option \<times> nat \<times> nat) \<times> auth_db" where
  "TransitionPaymentFailedAccounts out1 out2 now db =
     (case exec out1 ''transition to suspended'' (update_where (suspendable now) (set_status ''suspended'') db) db of
        (Some e, db1) \<Rightarrow> ((Some e, 0, 0), db1)
      | (None, db1) \<Rightarrow>
          (case exec out2 ''transition to purge_pending'' (update_where (purgeable now) (set_status ''purge_pending'') db1) db1 of
             (Some e, db2) \<Rightarrow> ((Some e, rows_affected (suspendable now) db, 0), db2)
           | (None, db2) \<Rightarrow> ((None, rows_affected (suspendable now) db, rows_affected (purgeable now) db1), db2)))"

definition BumpLastActivity :: "db_out \<Rightarrow> int \<Rightarrow> bytes \<Rightarrow> auth_db \<Rightarrow> string option \<times> auth_db" where
  "BumpLastActivity out now userID db =
     exec out ''bump last_activity_at'' (update_where
       (\<lambda>u. by_id userID u \<and> (uw_LastActivityAt u = None \<or> before_opt (uw_LastActivityAt u) (now - hour)))
       (\<lambda>u. u\<lparr>uw_LastActivityAt := Some now\<rparr>) db) db"

record LifecycleTransitioned =
  lt_UserID :: bytes
  lt_TenantID :: bytes
  lt_Address :: string

definition lifecycle_row :: "user_row \<Rightarrow> LifecycleTransitioned" where
  "lifecycle_row u = \<lparr>lt_UserID = uw_UserID u, lt_TenantID = uw_TenantID u, lt_Address = uw_Address u\<rparr>"

text \<open>\<open>UPDATE ... RETURNING user_id, tenant_id, address\<close>, read by \<open>scanLifecycleRows\<close>.\<close>

definition sweep :: "db_out \<Rightarrow> string \<Rightarrow> (user_row \<Rightarrow> bool) \<Rightarrow> (user_row \<Rightarrow> user_row) \<Rightarrow> auth_db \<Rightarrow> (string + LifecycleTransitioned list) \<times> auth_db" where
  "sweep out msg P f db =
     (case exec out msg (update_where P f db) db of
        (Some e, db') \<Rightarrow> (Inl e, db') | (None, db') \<Rightarrow> (Inr (map lifecycle_row (filter P (ad_users db))), db'))"

definition lapse :: "user_row \<Rightarrow> user_row" where
  "lapse u = (set_status ''lapsed_to_free'' u)\<lparr>uw_Tier := ''free''\<rparr>"

definition DowngradeToFree :: "db_out \<Rightarrow> bytes \<Rightarrow> auth_db \<Rightarrow> string option \<times> auth_db" where
  "DowngradeToFree out userID db = exec out ''downgrade to free'' (update_where (by_id userID) lapse db) db"

definition MarkLapsedToFree :: "db_out \<Rightarrow> int \<Rightarrow> auth_db \<Rightarrow> (string + LifecycleTransitioned list) \<times> auth_db" where
  "MarkLapsedToFree out cutoff db =
     sweep out ''mark lapsed_to_free'' (\<lambda>u. in_status ''payment_failed'' u \<and> before_opt (uw_PaymentFailedAt u) cutoff) lapse db"

definition dormant :: "int \<Rightarrow> user_row \<Rightarrow> bool" where
  "dormant cutoff u = (in_status ''active'' u \<and> uw_Tier u = ''free'' \<and> last_active u < cutoff)"

definition MarkDormantTombstone :: "db_out \<Rightarrow> int \<Rightarrow> auth_db \<Rightarrow> (string + LifecycleTransitioned list) \<times> auth_db" where
  "MarkDormantTombstone out cutoff db = sweep out ''mark dormant tombstone'' (dormant cutoff) (set_status ''tombstone'') db"

definition MarkLapsedPruneWarned :: "db_out \<Rightarrow> int \<Rightarrow> auth_db \<Rightarrow> (string + LifecycleTransitioned list) \<times> auth_db" where
  "MarkLapsedPruneWarned out cutoff db =
     sweep out ''mark prune_warned'' (\<lambda>u. in_status ''lapsed_to_free'' u \<and> last_active u < cutoff) (set_status ''prune_warned'') db"

definition MarkLapsedPruning :: "db_out \<Rightarrow> int \<Rightarrow> auth_db \<Rightarrow> (string + LifecycleTransitioned list) \<times> auth_db" where
  "MarkLapsedPruning out cutoff db =
     sweep out ''mark pruning'' (\<lambda>u. in_status ''prune_warned'' u \<and> last_active u < cutoff) (set_status ''pruning'') db"

text \<open>Without an order, which users the limit keeps is the database's choice.\<close>

definition GetUsersByStatus :: "bool \<Rightarrow> (user_row list \<Rightarrow> user_row list) \<Rightarrow> string \<Rightarrow> int \<Rightarrow> auth_db \<Rightarrow> string + user_row list" where
  "GetUsersByStatus ok order status limit db =
     (if \<not> ok then Inl ''list users by status''
      else Inr (take (nat (if limit \<le> 0 then 100 else limit)) (order (filter (in_status status) (ad_users db)))))"

definition FinishPruning :: "db_out \<Rightarrow> bytes \<Rightarrow> auth_db \<Rightarrow> string option \<times> auth_db" where
  "FinishPruning out userID db =
     exec out ''finish pruning'' (update_where (\<lambda>u. by_id userID u \<and> in_status ''pruning'' u) (set_status ''active'') db) db"

definition stale_pending :: "int \<Rightarrow> user_row \<Rightarrow> bool" where
  "stale_pending cutoff u = (in_status ''pending_payment'' u \<and> uw_CreatedAt u < cutoff)"

definition MarkStalePendingPayment :: "db_out \<Rightarrow> int \<Rightarrow> int \<Rightarrow> auth_db \<Rightarrow> (string + nat) \<times> auth_db" where
  "MarkStalePendingPayment out now cutoff db =
     (case exec out ''mark stale pending_payment'' (update_where (stale_pending cutoff)
             (\<lambda>u. (set_status ''purge_pending'' u)\<lparr>uw_DeletionRequestedAt := Some now\<rparr>) db) db of
        (Some e, db') \<Rightarrow> (Inl e, db') | (None, db') \<Rightarrow> (Inr (rows_affected (stale_pending cutoff) db), db'))"

definition auth_IncrementBounces :: "db_out \<Rightarrow> bytes \<Rightarrow> auth_db \<Rightarrow> (string + int) \<times> auth_db" where
  "auth_IncrementBounces out userID db =
     returning out ''increment bounces'' (by_id userID) (\<lambda>u. u\<lparr>uw_RecentBounces := uw_RecentBounces u + 1\<rparr>) uw_RecentBounces db"

definition reset_bounces :: "int \<Rightarrow> user_row \<Rightarrow> user_row" where
  "reset_bounces now u = u\<lparr>uw_RecentBounces := 0, uw_RecentBouncesResetAt := now\<rparr>"

definition ResetUserBounces :: "db_out \<Rightarrow> int \<Rightarrow> bytes \<Rightarrow> auth_db \<Rightarrow> string option \<times> auth_db" where
  "ResetUserBounces out now userID db = exec out ''reset user bounces'' (update_where (by_id userID) (reset_bounces now) db) db"

definition ResetStaleBounceCounters :: "db_out \<Rightarrow> int \<Rightarrow> int \<Rightarrow> auth_db \<Rightarrow> (string + nat) \<times> auth_db" where
  "ResetStaleBounceCounters out now cutoff db =
     (case exec out ''reset bounce counters'' (update_where (\<lambda>u. uw_RecentBouncesResetAt u < cutoff) (reset_bounces now) db) db of
        (Some e, db') \<Rightarrow> (Inl e, db') | (None, db') \<Rightarrow> (Inr (rows_affected (\<lambda>u. uw_RecentBouncesResetAt u < cutoff) db), db'))"

definition auth_FreezeForAbuse :: "db_out \<Rightarrow> bytes \<Rightarrow> auth_db \<Rightarrow> string option \<times> auth_db" where
  "auth_FreezeForAbuse out userID db =
     exec out ''freeze for abuse'' (update_where (\<lambda>u. by_id userID u \<and> in_status ''active'' u) (set_status ''suspended'') db) db"

definition ReactivateIfTombstoned :: "db_out \<Rightarrow> int \<Rightarrow> bytes \<Rightarrow> auth_db \<Rightarrow> string option \<times> auth_db" where
  "ReactivateIfTombstoned out now userID db =
     exec out ''reactivate from tombstone''
       (update_where (\<lambda>u. by_id userID u \<and> uw_AccountStatus u \<in> {''tombstone'', ''deleted_tombstone''})
         (\<lambda>u. (set_status ''active'' u)\<lparr>uw_DeletionRequestedAt := None, uw_LastActivityAt := Some now\<rparr>) db) db"

subsection \<open>Deletion\<close>

definition RequestDeletion :: "db_out \<Rightarrow> int \<Rightarrow> bytes \<Rightarrow> auth_db \<Rightarrow> string option \<times> auth_db" where
  "RequestDeletion out now userID db =
     update_user out ''request deletion'' userID
       (\<lambda>u. (set_status ''deleted_tombstone'' u)\<lparr>uw_DeletionRequestedAt := Some now\<rparr>) db"

definition deletion_pending :: "bytes \<Rightarrow> user_row \<Rightarrow> bool" where
  "deletion_pending userID u = (by_id userID u \<and> uw_AccountStatus u \<in> {''deleted_tombstone'', ''deletion_pending''})"

definition CancelDeletion :: "db_out \<Rightarrow> bytes \<Rightarrow> auth_db \<Rightarrow> string option \<times> auth_db" where
  "CancelDeletion out userID db =
     exec_found out ''cancel deletion'' ''user not found or not pending deletion'' (deletion_pending userID)
       (\<lambda>u. (set_status ''active'' u)\<lparr>uw_DeletionRequestedAt := None\<rparr>) db"

definition wipe_due :: "int \<Rightarrow> user_row \<Rightarrow> bool" where
  "wipe_due olderThan u =
     (uw_AccountStatus u = ''tombstone''
      \<or> uw_AccountStatus u \<in> {''deleted_tombstone'', ''deletion_pending'', ''purge_pending''}
        \<and> (uw_DeletionRequestedAt u = None \<or> before_opt (uw_DeletionRequestedAt u) olderThan))"

definition GetDeletionPendingUsers :: "bool \<Rightarrow> (user_row list \<Rightarrow> user_row list) \<Rightarrow> int \<Rightarrow> auth_db \<Rightarrow> string + user_row list" where
  "GetDeletionPendingUsers ok order olderThan db =
     (if \<not> ok then Inl ''get deletion pending users''
      else Inr (take 1000 (order (filter (wipe_due olderThan) (ad_users db)))))"

text \<open>Deleting rows of a table; \<open>None\<close> is an undefined table.\<close>

definition delete_owned :: "string \<Rightarrow> (bytes \<times> bytes \<times> bytes \<Rightarrow> bool) \<Rightarrow> auth_db \<Rightarrow> auth_db option" where
  "delete_owned table P db =
     (case map_of (ad_owned db) table of
        None \<Rightarrow> None
      | Some rows \<Rightarrow> Some (db\<lparr>ad_owned := AList.update table (filter (\<lambda>r. \<not> P r) rows) (ad_owned db)\<rparr>))"

definition owned_by :: "bytes \<Rightarrow> bytes \<Rightarrow> bytes \<times> bytes \<times> bytes \<Rightarrow> bool" where
  "owned_by userID tenantID r = (fst r = userID \<and> fst (snd r) = tenantID)"

text \<open>The cascade removes what else refers to the user.\<close>

definition cascade :: "bytes \<Rightarrow> auth_db \<Rightarrow> auth_db" where
  "cascade userID db =
     db\<lparr>ad_settings := filter (\<lambda>s. fst s \<noteq> userID) (ad_settings db),
        ad_owned := map (\<lambda>(t, rows). (t, filter (\<lambda>r. fst r \<noteq> userID) rows)) (ad_owned db)\<rparr>"

definition DeleteUser :: "(nat \<Rightarrow> bool) \<Rightarrow> db_out \<Rightarrow> bytes \<Rightarrow> auth_db \<Rightarrow> string option \<times> auth_db" where
  "DeleteUser ok out userID db =
     (if \<not> ok 0 then (Some ''begin transaction'', db)
      else if \<not> ok 1 then (Some ''delete user sessions'', db)
      else if \<not> ok 2 then (Some ''delete user'', db)
      else if rows_affected (by_id userID) db = 0 then (Some ''user not found'', db)
      else commit out (cascade userID (delete_sessions (\<lambda>s. sn_UserID s = userID)
             (db\<lparr>ad_users := filter (\<lambda>u. \<not> by_id userID u) (ad_users db)\<rparr>))) db)"

definition PurgeUser :: "(nat \<Rightarrow> bool) \<Rightarrow> db_out \<Rightarrow> bytes \<Rightarrow> bytes \<Rightarrow> auth_db \<Rightarrow> string option \<times> auth_db" where
  "PurgeUser ok out userID tenantID db =
     (let mine = (\<lambda>u. by_id userID u \<and> uw_TenantID u = tenantID) in
      if \<not> ok 0 then (Some ''begin purge tx'', db)
      else (case (if ok 1 then delete_owned ''messages'' (owned_by userID tenantID) db else None) of
        None \<Rightarrow> (Some ''delete messages'', db)
      | Some db1 \<Rightarrow>
     (case (if ok 2 then delete_owned ''folders'' (owned_by userID tenantID) db1 else None) of
        None \<Rightarrow> (Some ''delete folders'', db)
      | Some db2 \<Rightarrow>
          if \<not> ok 3 then (Some ''delete sessions'', db)
          else if \<not> ok 4 then (Some ''delete user'', db)
          else if rows_affected mine db = 0 then (Some ''user not found'', db)
          else commit out (cascade userID (delete_sessions (\<lambda>s. sn_UserID s = userID)
                 (db2\<lparr>ad_users := filter (\<lambda>u. \<not> mine u) (ad_users db2)\<rparr>))) db)))"

fun purge_users :: "(nat \<Rightarrow> nat \<Rightarrow> bool) \<Rightarrow> (nat \<Rightarrow> db_out) \<Rightarrow> nat \<Rightarrow> bytes \<Rightarrow> user_row list \<Rightarrow> auth_db \<Rightarrow> string option \<times> auth_db" where
  "purge_users ok out i tenantID [] db = (None, db)"
| "purge_users ok out i tenantID (u # us) db =
     (case PurgeUser (ok i) (out i) (uw_UserID u) tenantID db of
        (Some e, db') \<Rightarrow> (Some (''purge user: '' @ e), db')
      | (None, db') \<Rightarrow> purge_users ok out (Suc i) tenantID us db')"

text \<open>
  The outcomes: of clearing the references, of the list, of each user, of the leaves, of the tenant row.
  Of what the schema deletes with the tenant row, the model has the roles and the invitations.
\<close>

definition PurgeTenant ::
    "db_out \<Rightarrow> bool \<Rightarrow> (nat \<Rightarrow> nat \<Rightarrow> bool) \<Rightarrow> (nat \<Rightarrow> db_out) \<Rightarrow> db_out \<Rightarrow> db_out \<Rightarrow> bytes \<Rightarrow> auth_db \<Rightarrow> string option \<times> auth_db" where
  "PurgeTenant out1 ok2 ok3 out3 out4 out5 tenantID db =
     (case exec out1 ''clear tenant owner refs''
             (db\<lparr>ad_tenants := map (\<lambda>t. if tw_TenantID t = tenantID then t\<lparr>tw_OwnerUserID := None, tw_CatchAllUserID := None\<rparr> else t) (ad_tenants db)\<rparr>) db of
        (Some e, db1) \<Rightarrow> (Some e, db1)
      | (None, db1) \<Rightarrow>
     (case ListUsersByTenant ok2 tenantID db1 of
        Inl e \<Rightarrow> (Some (''list tenant users: '' @ e), db1)
      | Inr users \<Rightarrow>
     (case purge_users ok3 out3 0 tenantID users db1 of
        (Some e, db2) \<Rightarrow> (Some e, db2)
      | (None, db2) \<Rightarrow>
     (case (case delete_owned ''kt_leaves'' (\<lambda>r. fst (snd r) = tenantID) db2 of
              None \<Rightarrow> (Some ''delete kt leaves'', db2)
            | Some d \<Rightarrow> exec out4 ''delete kt leaves'' d db2) of
        (Some e, db3) \<Rightarrow> (Some e, db3)
      | (None, db3) \<Rightarrow>
          exec out5 ''delete tenant''
            (db3\<lparr>ad_tenants := filter (\<lambda>t. tw_TenantID t \<noteq> tenantID) (ad_tenants db3),
                 ad_roles := filter (\<lambda>r. snd (fst r) \<noteq> tenantID) (ad_roles db3),
                 ad_invitations := filter (\<lambda>i. iv_TenantID i \<noteq> tenantID) (ad_invitations db3)\<rparr>) db3))))"

definition tenantScoped :: "string list" where
  "tenantScoped = [''messages'', ''folders'', ''contacts'', ''contact_groups'', ''labels'', ''mail_rules'', ''blocked_senders'']"

definition userScoped :: "string list" where
  "userScoped = [''api_tokens'', ''push_subscriptions'', ''webhooks'', ''pending_sends'']"

text \<open>
  The deletions of \<open>TombstoneUser\<close>. An undefined table is passed over by the code, but it aborts
  the transaction: every later statement fails, and not for an undefined table.
\<close>

fun wipe_tables :: "(nat \<Rightarrow> bool) \<Rightarrow> nat \<Rightarrow> (string \<times> (bytes \<times> bytes \<times> bytes \<Rightarrow> bool)) list \<Rightarrow> bool \<times> auth_db \<Rightarrow> string + bool \<times> auth_db" where
  "wipe_tables ok i [] s = Inr s"
| "wipe_tables ok i ((table, P) # ts) s =
     (if fst s \<or> \<not> ok i then Inl (''tombstone wipe '' @ table)
      else (case delete_owned table P (snd s) of
              None \<Rightarrow> wipe_tables ok (Suc i) ts (True, snd s)
            | Some db' \<Rightarrow> wipe_tables ok (Suc i) ts (False, db')))"

definition wiped_row :: "user_row \<Rightarrow> user_row" where
  "wiped_row u =
     u\<lparr>uw_PublicKeyEncryption := [], uw_PublicKeySigning := [], uw_EncryptedPrivateKey := [], uw_EncryptedRecoveryKey := [],
       uw_PublicKeyKEM := [], uw_EncryptedPrivateKeyKEM := [], uw_PGPPublicKey := None, uw_TOTPSecretEncrypted := None,
       uw_TOTPEnabled := False, uw_TOTPBackupCodes := None, uw_StripeCustomerID := None, uw_StripeSubscriptionID := None,
       uw_PaymentFailedAt := None, uw_StorageUsedBytes := 0, uw_StorageBlocks := 0, uw_HasFakeID := False,
       uw_FakeIDMintedAt := None, uw_FakeIDAllowedReleaseAt := None, uw_Tier := ''free''\<rparr>"

definition wipe_list :: "bytes \<Rightarrow> bytes \<Rightarrow> (string \<times> (bytes \<times> bytes \<times> bytes \<Rightarrow> bool)) list" where
  "wipe_list userID tenantID =
     map (\<lambda>t. (t, owned_by userID tenantID)) tenantScoped @ map (\<lambda>t. (t, \<lambda>r. fst r = userID)) userScoped"

definition TombstoneUser :: "(nat \<Rightarrow> bool) \<Rightarrow> db_out \<Rightarrow> bytes \<Rightarrow> bytes \<Rightarrow> auth_db \<Rightarrow> string option \<times> auth_db" where
  "TombstoneUser ok out userID tenantID db =
     (if \<not> ok 0 then (Some ''begin tombstone tx'', db)
      else (case wipe_tables ok 1 (wipe_list userID tenantID) (False, db) of
        Inl e \<Rightarrow> (Some e, db)
      | Inr (aborted, db1) \<Rightarrow>
          if aborted \<or> \<not> ok 12 then (Some ''tombstone wipe sessions'', db)
          else if \<not> ok 13 then (Some ''tombstone user row'', db)
          else commit out (update_where (\<lambda>u. by_id userID u \<and> uw_TenantID u = tenantID) wiped_row
                 (delete_sessions (\<lambda>s. sn_UserID s = userID) db1)) db))"

end
