(* ===== verification/Acct_Props.thy ===== *)
theory Acct_Props
  imports Accounts
begin

text \<open>
  Properties of the accounts: what the periodic sweeps may do to an account in use, how long a Fake ID
  slot stays taken, that purging sessions cannot be observed, and that the two ways of resolving a
  recipient agree.
\<close>

subsection \<open>Lemmas: statements\<close>

lemma ad_users_update_where [simp]: "ad_users (update_where P f db) = map (\<lambda>u. if P u then f u else u) (ad_users db)"
  by (simp add: update_where_def)

lemma update_where_other [simp]:
  "ad_sessions (update_where P f db) = ad_sessions db" "ad_owned (update_where P f db) = ad_owned db"
  by (simp_all add: update_where_def)

text \<open>Whatever the outcome, a statement has its effect or none.\<close>

lemma exec_cases: "exec out msg db' db = (r, d) \<Longrightarrow> (d = db \<or> d = db') \<and> (r = None \<longrightarrow> d = db')"
  by (auto simp: exec_def split: db_out.splits)

lemma exec_snd: "snd (exec out msg db' db) = db \<or> snd (exec out msg db' db) = db'"
  by (auto simp: exec_def split: db_out.splits)

lemma exec_case: "snd (case exec out msg db' db of (Some e, d) \<Rightarrow> (f e, d) | (None, d) \<Rightarrow> (g, d)) = snd (exec out msg db' db)"
  by (simp add: case_prod_beta split: option.splits)

subsection \<open>The periodic sweeps\<close>

text \<open>
  The steps of the cleanup worker, with the cutoffs of dormancy bounded by \<open>idle\<close>: the sweeps, and the wiping
  of a user that \<open>GetDeletionPendingUsers\<close> lists.
\<close>

inductive cleanup :: "int \<Rightarrow> auth_db \<Rightarrow> auth_db \<Rightarrow> bool" for idle where
  expire_slots: "cleanup idle db (snd (ExpireFakeIDSlots out now db))"
| expire_fakeids: "cleanup idle db (snd (ExpireStaleFakeIDs out now db))"
| payment_failed: "cleanup idle db (snd (TransitionPaymentFailedAccounts out1 out2 now db))"
| lapsed: "cleanup idle db (snd (MarkLapsedToFree out cutoff db))"
| dormant_users: "cutoff \<le> idle \<Longrightarrow> cleanup idle db (snd (MarkDormantTombstone out cutoff db))"
| prune_warned: "cleanup idle db (snd (MarkLapsedPruneWarned out cutoff db))"
| pruning: "cleanup idle db (snd (MarkLapsedPruning out cutoff db))"
| stale_pending_payment: "cleanup idle db (snd (MarkStalePendingPayment out now cutoff db))"
| stale_bounces: "cleanup idle db (snd (ResetStaleBounceCounters out now cutoff db))"
| tombstone: "GetDeletionPendingUsers True order olderThan db = Inr us \<Longrightarrow> set (order (filter (wipe_due olderThan) (ad_users db))) \<subseteq> set (ad_users db) \<inter> {u. wipe_due olderThan u} \<Longrightarrow>
    u \<in> set us \<Longrightarrow> cleanup idle db (snd (TombstoneUser ok out (uw_UserID u) (uw_TenantID u) db))"
| purge: "GetDeletionPendingUsers True order olderThan db = Inr us \<Longrightarrow> set (order (filter (wipe_due olderThan) (ad_users db))) \<subseteq> set (ad_users db) \<inter> {u. wipe_due olderThan u} \<Longrightarrow>
    u \<in> set us \<Longrightarrow> cleanup idle db (snd (PurgeUser ok out (uw_UserID u) (uw_TenantID u) db))"

text \<open>An account in use: active, not a Fake ID, with activity since \<open>idle\<close>, the only row of its identifier.\<close>

definition in_use :: "int \<Rightarrow> user_row \<Rightarrow> auth_db \<Rightarrow> bool" where
  "in_use idle u db =
     (u \<in> set (ad_users db) \<and> uw_AccountStatus u = ''active'' \<and> uw_AccountType u \<noteq> ''fakeid'' \<and> idle \<le> last_active u
      \<and> (\<forall>v\<in>set (ad_users db). uw_UserID v = uw_UserID u \<longrightarrow> v = u))"

text \<open>What belongs to a user: the rows of the other tables and the sessions.\<close>

definition belongings :: "bytes \<Rightarrow> auth_db \<Rightarrow> (string \<times> owned_rows) list \<times> Session list" where
  "belongings userID db =
     (map (\<lambda>(t, rows). (t, filter (\<lambda>r. fst r = userID) rows)) (ad_owned db), filter (\<lambda>s. sn_UserID s = userID) (ad_sessions db))"

text \<open>Two rows that agree but for the Fake ID slot and the counter of bounces.\<close>

definition same_account :: "user_row \<Rightarrow> user_row \<Rightarrow> bool" where
  "same_account u v =
     (v\<lparr>uw_HasFakeID := uw_HasFakeID u, uw_FakeIDMintedAt := uw_FakeIDMintedAt u, uw_FakeIDAllowedReleaseAt := uw_FakeIDAllowedReleaseAt u,
        uw_RecentBounces := uw_RecentBounces u, uw_RecentBouncesResetAt := uw_RecentBouncesResetAt u\<rparr> = u)"

subsection \<open>Lemmas: sweeps\<close>

definition kept :: "int \<Rightarrow> user_row \<Rightarrow> auth_db \<Rightarrow> auth_db \<Rightarrow> bool" where
  "kept idle u db db' =
     (\<exists>v. in_use idle v db' \<and> same_account u v \<and> belongings (uw_UserID u) db' = belongings (uw_UserID u) db)"

lemma same_accountE:
  assumes "same_account u v"
  obtains a b c d e where "u = v\<lparr>uw_HasFakeID := a, uw_FakeIDMintedAt := b, uw_FakeIDAllowedReleaseAt := c, uw_RecentBounces := d, uw_RecentBouncesResetAt := e\<rparr>"
  using assms unfolding same_account_def by metis

lemma same_account_id: "same_account u v \<Longrightarrow> uw_UserID v = uw_UserID u"
  by (elim same_accountE) simp

lemma same_account_refl [simp]: "same_account u u"
  by (simp add: same_account_def)

lemma same_account_trans: "same_account u v \<Longrightarrow> same_account v w \<Longrightarrow> same_account u w"
  by (elim same_accountE) (simp add: same_account_def)

lemma same_account_in_use:
  "same_account u v \<Longrightarrow> uw_AccountStatus v = uw_AccountStatus u \<and> uw_AccountType v = uw_AccountType u \<and> last_active v = last_active u"
  by (elim same_accountE) (simp add: last_active_def split: option.split)

lemma kept_refl: "in_use idle u db \<Longrightarrow> kept idle u db db"
  by (auto simp: kept_def)

lemma kept_trans:
  assumes "kept idle u db db'" "\<And>v. in_use idle v db' \<Longrightarrow> kept idle v db' db''"
  shows "kept idle u db db''"
proof -
  from assms(1) obtain v where v: "in_use idle v db'" "same_account u v" "belongings (uw_UserID u) db' = belongings (uw_UserID u) db"
    unfolding kept_def by blast
  from assms(2) [OF v(1)] obtain w where w: "in_use idle w db''" "same_account v w" "belongings (uw_UserID v) db'' = belongings (uw_UserID v) db'"
    unfolding kept_def by blast
  have "same_account u w" using v(2) w(2) by (rule same_account_trans)
  moreover have "belongings (uw_UserID u) db'' = belongings (uw_UserID u) db" using v(3) w(3) same_account_id [OF v(2)] by simp
  ultimately show ?thesis unfolding kept_def using w(1) by blast
qed

lemma kept_update:
  assumes "in_use idle u db" "\<And>v. uw_UserID (f v) = uw_UserID v" "P u \<Longrightarrow> same_account u (f u)"
  shows "kept idle u db (update_where P f db)"
proof -
  let ?v = "if P u then f u else u"
  have same: "same_account u ?v" using assms(3) by simp
  have "w = ?v" if "w \<in> set (ad_users (update_where P f db))" "uw_UserID w = uw_UserID u" for w
  proof -
    from that(1) obtain x where "x \<in> set (ad_users db)" "w = (if P x then f x else x)" by auto
    moreover from this that(2) have "uw_UserID x = uw_UserID u" using assms(2) by (auto split: if_splits)
    ultimately show ?thesis using assms(1) by (auto simp: in_use_def)
  qed
  moreover have "?v \<in> set (ad_users (update_where P f db))" using assms(1) by (auto simp: in_use_def)
  ultimately have "in_use idle ?v (update_where P f db)"
    using assms(1) same_account_in_use [OF same] same_account_id [OF same] unfolding in_use_def by metis
  then show ?thesis using same by (auto simp: kept_def belongings_def)
qed

lemma kept_exec: "in_use idle u db \<Longrightarrow> kept idle u db db' \<Longrightarrow> kept idle u db (snd (exec out msg db' db))"
  using exec_snd [of out msg db' db] kept_refl by metis

lemma owned_update:
  "map_of xs t = Some rows \<Longrightarrow> filter Q rows' = filter Q rows \<Longrightarrow>
     map (\<lambda>(t, rows). (t, filter Q rows)) (AList.update t rows' xs) = map (\<lambda>(t, rows). (t, filter Q rows)) xs"
  by (induction xs) (auto split: if_splits)

lemma delete_owned_keeps:
  assumes "delete_owned table P db = Some db'" "\<And>r. P r \<Longrightarrow> fst r \<noteq> userID"
  shows "ad_users db' = ad_users db \<and> ad_sessions db' = ad_sessions db \<and> belongings userID db' = belongings userID db"
proof -
  obtain rows where rows: "map_of (ad_owned db) table = Some rows"
    and db': "db' = db\<lparr>ad_owned := AList.update table (filter (\<lambda>r. \<not> P r) rows) (ad_owned db)\<rparr>"
    using assms(1) by (auto simp: delete_owned_def split: option.splits)
  have "filter (\<lambda>r. fst r = userID) (filter (\<lambda>r. \<not> P r) rows) = filter (\<lambda>r. fst r = userID) rows"
    using assms(2) by (auto simp: filter_filter intro!: filter_cong)
  from owned_update [OF rows this] show ?thesis by (simp add: db' belongings_def)
qed

lemma wipe_tables_keeps:
  assumes "wipe_tables ok i ts (aborted, db) = Inr (aborted', db')" "\<And>t P r. (t, P) \<in> set ts \<Longrightarrow> P r \<Longrightarrow> fst r \<noteq> userID"
  shows "ad_users db' = ad_users db \<and> ad_sessions db' = ad_sessions db \<and> belongings userID db' = belongings userID db"
  using assms
proof (induction ts arbitrary: i aborted db)
  case (Cons a ts)
  obtain t P where a: "a = (t, P)" by fastforce
  show ?case
  proof (cases "delete_owned t P db")
    case None
    then have "wipe_tables ok (Suc i) ts (True, db) = Inr (aborted', db')" using Cons.prems(1) a by (auto split: if_splits)
    then show ?thesis using Cons.IH Cons.prems(2) by (meson list.set_intros(2))
  next
    case (Some d)
    then have "wipe_tables ok (Suc i) ts (False, d) = Inr (aborted', db')" using Cons.prems(1) a by (auto split: if_splits)
    moreover have "ad_users d = ad_users db \<and> ad_sessions d = ad_sessions db \<and> belongings userID d = belongings userID db"
      using delete_owned_keeps [OF Some] Cons.prems(2) a by (metis list.set_intros(1))
    ultimately show ?thesis using Cons.IH [of "Suc i" False d] Cons.prems(2) by (metis list.set_intros(2))
  qed
qed auto

text \<open>A database that differs in other users' rows only.\<close>

lemma kept_others:
  assumes "in_use idle u db" "u \<in> set (ad_users db')"
    and "\<And>v. v \<in> set (ad_users db') \<Longrightarrow> uw_UserID v = uw_UserID u \<Longrightarrow> v \<in> set (ad_users db)"
    and "belongings (uw_UserID u) db' = belongings (uw_UserID u) db"
  shows "kept idle u db db'"
  using assms by (auto simp: kept_def in_use_def intro!: exI [of _ u])

lemma ad_users_delete_sessions [simp]: "ad_users (delete_sessions P db) = ad_users db"
  by (simp add: delete_sessions_def)

lemma delete_sessions_keeps:
  "(\<And>s. P s \<Longrightarrow> sn_UserID s \<noteq> userID) \<Longrightarrow> belongings userID (delete_sessions P db) = belongings userID db"
  by (auto simp: belongings_def delete_sessions_def filter_filter intro!: filter_cong)

lemma cascade_keeps: "w \<noteq> userID \<Longrightarrow> belongings userID (cascade w db) = belongings userID db" "ad_users (cascade w db) = ad_users db"
  by (auto simp: belongings_def cascade_def filter_filter case_prod_beta intro!: filter_cong)

lemma belongings_users [simp]: "belongings userID (db\<lparr>ad_users := us\<rparr>) = belongings userID db" "belongings userID (update_where P f db) = belongings userID db"
  by (simp_all add: belongings_def)

lemma Tombstone_keeps:
  assumes "in_use idle u db" "w \<noteq> uw_UserID u"
  shows "kept idle u db (snd (TombstoneUser ok out w tenantID db))"
proof (cases "wipe_tables ok 1 (wipe_list w tenantID) (False, db)")
  case (Inr r)
  obtain aborted db1 where r: "r = (aborted, db1)" by fastforce
  have "fst x \<noteq> uw_UserID u" if "(t, P) \<in> set (wipe_list w tenantID)" "P x" for t P x
    using that assms(2) by (auto simp: wipe_list_def owned_by_def)
  then have db1: "ad_users db1 = ad_users db" "belongings (uw_UserID u) db1 = belongings (uw_UserID u) db"
    using wipe_tables_keeps [OF Inr [unfolded r]] by metis+
  let ?db = "update_where (\<lambda>u. by_id w u \<and> uw_TenantID u = tenantID) wiped_row (delete_sessions (\<lambda>s. sn_UserID s = w) db1)"
  have "kept idle u db ?db"
  proof (rule kept_others [OF assms(1)])
    show "u \<in> set (ad_users ?db)"
      using assms db1(1) by (force simp: in_use_def)
    show "belongings (uw_UserID u) ?db = belongings (uw_UserID u) db"
      using assms(2) db1(2) by (simp add: delete_sessions_keeps)
    fix v
    assume "v \<in> set (ad_users ?db)" "uw_UserID v = uw_UserID u"
    then show "v \<in> set (ad_users db)"
      using assms(2) db1(1) by (auto simp: wiped_row_def split: if_splits)
  qed
  then have "kept idle u db (snd (commit out ?db db))" unfolding commit_def by (rule kept_exec [OF assms(1)])
  then show ?thesis using Inr r kept_refl [OF assms(1)] by (simp add: TombstoneUser_def)
qed (simp add: TombstoneUser_def kept_refl [OF assms(1)])

lemma Purge_keeps:
  assumes "in_use idle u db" "w \<noteq> uw_UserID u"
  shows "kept idle u db (snd (PurgeUser ok out w tenantID db))"
proof -
  have mine: "owned_by w tenantID r \<Longrightarrow> fst r \<noteq> uw_UserID u" for r using assms(2) by (auto simp: owned_by_def)
  have "kept idle u db (snd (commit out (cascade w (delete_sessions (\<lambda>s. sn_UserID s = w)
      (d2\<lparr>ad_users := filter (\<lambda>v. \<not> (by_id w v \<and> uw_TenantID v = tenantID)) (ad_users d2)\<rparr>))) db))"
    if d: "delete_owned ''messages'' (owned_by w tenantID) db = Some d1" "delete_owned ''folders'' (owned_by w tenantID) d1 = Some d2" for d1 d2
  proof -
    have d2: "ad_users d2 = ad_users db" "belongings (uw_UserID u) d2 = belongings (uw_UserID u) db"
      using delete_owned_keeps [OF d(1) mine] delete_owned_keeps [OF d(2) mine] by simp_all
    show ?thesis unfolding commit_def
      using assms d2
      by (intro kept_exec kept_others) (auto simp: in_use_def cascade_keeps delete_sessions_keeps)
  qed
  then show ?thesis using kept_refl [OF assms(1)] by (simp add: PurgeUser_def Let_def split: option.splits)
qed

lemma listed_other:
  assumes "in_use idle u db" "GetDeletionPendingUsers True order olderThan db = Inr us"
    and "set (order (filter (wipe_due olderThan) (ad_users db))) \<subseteq> set (ad_users db) \<inter> {u. wipe_due olderThan u}" "w \<in> set us"
  shows "uw_UserID w \<noteq> uw_UserID u"
proof -
  have "w \<in> set (ad_users db)" "wipe_due olderThan w"
    using assms(2,3,4) by (auto simp: GetDeletionPendingUsers_def dest: in_set_takeD)
  then show ?thesis using assms(1) by (auto simp: in_use_def wipe_due_def)
qed

lemma cleanup_keeps:
  assumes "cleanup idle db db'" "in_use idle u db"
  shows "kept idle u db db'"
proof -
  have act: "uw_AccountStatus u = ''active''" "uw_AccountType u \<noteq> ''fakeid''" "idle \<le> last_active u" using assms(2) by (simp_all add: in_use_def)
  note keep = kept_exec [OF assms(2) kept_update [OF assms(2)]]
  from assms(1) show ?thesis
  proof cases
    case expire_slots
    then show ?thesis unfolding ExpireFakeIDSlots_def exec_case by (auto intro!: keep simp: clear_slot_def same_account_def)
  next
    case expire_fakeids
    then show ?thesis using act unfolding ExpireStaleFakeIDs_def exec_case by (auto intro!: keep simp: set_status_def fakeid_stale_def)
  next
    case (payment_failed out1 out2 now)
    have one: "kept idle u db (snd (exec out1 ''transition to suspended'' (update_where (suspendable now) (set_status ''suspended'') db) db))"
      using act by (auto intro!: keep simp: set_status_def suspendable_def in_status_def)
    have two: "kept idle v d (snd (exec out2 ''transition to purge_pending'' (update_where (purgeable now) (set_status ''purge_pending'') d) d))"
      if "in_use idle v d" for v d
      using that by (intro kept_exec kept_update) (auto simp: set_status_def purgeable_def in_status_def in_use_def)
    obtain r1 d1 where e1: "exec out1 ''transition to suspended'' (update_where (suspendable now) (set_status ''suspended'') db) db = (r1, d1)" by fastforce
    obtain r2 d2 where e2: "exec out2 ''transition to purge_pending'' (update_where (purgeable now) (set_status ''purge_pending'') d1) d1 = (r2, d2)" by fastforce
    have "kept idle u db d1" using one unfolding e1 by simp
    moreover from this have "kept idle u db d2" using two [of _ d1] unfolding e2 snd_conv by (rule kept_trans)
    moreover have "db' = d1 \<or> db' = d2"
      using payment_failed unfolding TransitionPaymentFailedAccounts_def e1 by (cases r1; cases r2) (simp_all add: e2)
    ultimately show ?thesis by blast
  next
    case lapsed
    then show ?thesis using act unfolding MarkLapsedToFree_def sweep_def exec_case by (auto intro!: keep simp: lapse_def set_status_def in_status_def)
  next
    case dormant_users
    then show ?thesis using act unfolding MarkDormantTombstone_def sweep_def exec_case by (auto intro!: keep simp: set_status_def dormant_def)
  next
    case prune_warned
    then show ?thesis using act unfolding MarkLapsedPruneWarned_def sweep_def exec_case by (auto intro!: keep simp: set_status_def in_status_def)
  next
    case pruning
    then show ?thesis using act unfolding MarkLapsedPruning_def sweep_def exec_case by (auto intro!: keep simp: set_status_def in_status_def)
  next
    case stale_pending_payment
    then show ?thesis using act unfolding MarkStalePendingPayment_def exec_case by (auto intro!: keep simp: set_status_def in_status_def stale_pending_def)
  next
    case stale_bounces
    then show ?thesis unfolding ResetStaleBounceCounters_def exec_case by (auto intro!: keep simp: reset_bounces_def same_account_def)
  next
    case tombstone
    then show ?thesis using Tombstone_keeps [OF assms(2)] listed_other [OF assms(2)] by metis
  next
    case purge
    then show ?thesis using Purge_keeps [OF assms(2)] listed_other [OF assms(2)] by metis
  qed
qed


subsection \<open>Fake ID slots\<close>

definition slot_of :: "user_row \<Rightarrow> bool \<times> int option \<times> int option" where
  "slot_of u = (uw_HasFakeID u, uw_FakeIDMintedAt u, uw_FakeIDAllowedReleaseAt u)"

text \<open>
  What may happen to the slots after a claim of \<open>userID\<close> at \<open>t0\<close>: claims and extensions at any time, releases
  of other users or later than the 60 seconds of a failed claim, sweeps during the life time, and anything that leaves the slots of
  the user alone.
\<close>

inductive slot_step :: "bytes \<Rightarrow> int \<Rightarrow> auth_db \<Rightarrow> auth_db \<Rightarrow> bool" for userID t0 where
  claim: "slot_step userID t0 db (snd (ClaimFakeIDSlot out now w db))"
| extend: "slot_step userID t0 db (snd (ExtendFakeIDAllowedRelease out now w n db))"
| release: "w \<noteq> userID \<or> t0 + 60 * second \<le> now \<Longrightarrow> slot_step userID t0 db (snd (ReleaseFakeIDSlotIfOwned out now w db))"
| expire: "now \<le> t0 + FakeIDMaxLifetime \<Longrightarrow> slot_step userID t0 db (snd (ExpireFakeIDSlots out now db))"
| other: "slot_of ` {u \<in> set (ad_users db'). by_id userID u} \<subseteq> slot_of ` {u \<in> set (ad_users db). by_id userID u} \<Longrightarrow> slot_step userID t0 db db'"

definition slot_held :: "int \<Rightarrow> bool \<times> int option \<times> int option \<Rightarrow> bool" where
  "slot_held t0 sl = (\<exists>r. sl = (True, Some t0, Some r) \<and> t0 + FakeIDMaxLifetime \<le> r)"

definition held_by :: "bytes \<Rightarrow> int \<Rightarrow> auth_db \<Rightarrow> bool" where
  "held_by userID t0 db = (\<forall>u\<in>set (ad_users db). by_id userID u \<longrightarrow> slot_held t0 (slot_of u))"

lemma held_update:
  assumes "held_by userID t0 db" "\<And>u. uw_UserID (f u) = uw_UserID u"
    and "\<And>u. by_id userID u \<Longrightarrow> slot_held t0 (slot_of u) \<Longrightarrow> P u \<Longrightarrow> slot_held t0 (slot_of (f u))"
  shows "held_by userID t0 (snd (exec out msg (update_where P f db) db))"
proof -
  have "held_by userID t0 (update_where P f db)" using assms by (auto simp: held_by_def)
  then show ?thesis using assms(1) exec_snd [of out msg "update_where P f db" db] by metis
qed

lemma slot_step_holds:
  assumes "slot_step userID t0 db db'" "held_by userID t0 db"
  shows "held_by userID t0 db'"
  using assms(1)
proof cases
  case claim
  then show ?thesis unfolding ClaimFakeIDSlot_def exec_case
    by (auto intro!: held_update [OF assms(2)] simp: claimable_def slot_held_def slot_of_def)
next
  case extend
  then show ?thesis unfolding ExtendFakeIDAllowedRelease_def
    by (auto intro!: held_update [OF assms(2)] simp: slot_held_def slot_of_def)
next
  case release
  then show ?thesis unfolding ReleaseFakeIDSlotIfOwned_def
    by (auto intro!: held_update [OF assms(2)] simp: slot_held_def slot_of_def clear_slot_def)
next
  case expire
  then show ?thesis unfolding ExpireFakeIDSlots_def exec_case
    by (auto intro!: held_update [OF assms(2)] simp: slot_held_def slot_of_def clear_slot_def slot_expired_def before_opt_def)
next
  case other
  show ?thesis unfolding held_by_def
  proof (intro ballI impI)
    fix u
    assume "u \<in> set (ad_users db')" "by_id userID u"
    then have "slot_of u \<in> slot_of ` {u \<in> set (ad_users db). by_id userID u}" using other by blast
    then obtain v where "v \<in> set (ad_users db)" "by_id userID v" "slot_of u = slot_of v" by auto
    then show "slot_held t0 (slot_of u)" using assms(2) by (simp add: held_by_def)
  qed
qed


subsection \<open>Sessions\<close>

lemma find_filter: "(\<And>x. P x \<Longrightarrow> \<not> D x) \<Longrightarrow> find P (filter (\<lambda>x. \<not> D x) xs) = find P xs"
  by (induction xs) auto


subsection \<open>Recipients\<close>

text \<open>Rows as registration writes them: addresses are unique and normalised; aliases refer to users.\<close>

definition addresses_ok :: "(string \<Rightarrow> string) \<Rightarrow> auth_db \<Rightarrow> bool" where
  "addresses_ok lower db =
     (distinct (map uw_Address (ad_users db)) \<and> list_all (\<lambda>u. lower (StripPlusTag (uw_Address u)) = uw_Address u) (ad_users db)
      \<and> list_all (\<lambda>a. list_ex (by_id (snd a)) (ad_users db)) (ad_aliases db))"

lemma GetUserByAddress_own:
  assumes "addresses_ok lower db" "u \<in> set (ad_users db)"
  shows "GetUserByAddress True lower (uw_Address u) db = Inr u"
proof -
  have "lower (StripPlusTag (uw_Address u)) = uw_Address u" using assms by (auto simp: addresses_ok_def list_all_iff)
  moreover have "find (\<lambda>v. uw_Address v = uw_Address u) us = Some u" if "distinct (map uw_Address us)" "u \<in> set us" for us
    using that by (induction us) auto
  ultimately show ?thesis using assms by (simp add: GetUserByAddress_def addresses_ok_def)
qed

text \<open>
  the two ways of resolving a recipient agree: the one user that \<open>ResolveRecipient\<close> finds, by mailbox, alias or
  catch-all, is among those that the addresses of \<open>ResolveRecipientAddresses\<close> lead to, and where one finds nobody so does the
  other.
\<close>

theorem resolve_agrees:
  assumes "addresses_ok lower db"
  shows "case ResolveRecipient (\<lambda>_. True) lower addr db of
      Inl _ \<Rightarrow> \<exists>e. ResolveRecipientAddresses (\<lambda>_. True) lower addr db = Inl e
    | Inr u \<Rightarrow> \<exists>addrs. ResolveRecipientAddresses (\<lambda>_. True) lower addr db = Inr addrs
        \<and> (\<exists>a\<in>set addrs. GetUserByAddress True lower a db = Inr u)"
proof -
  define address where "address = lower (trimSpace addr)"
  have found: "u \<in> set (ad_users db)" if "GetUserByID True i db = Inr u" for i u
    using that by (auto simp: GetUserByID_def find_Some_iff split: option.splits)
  show ?thesis
  proof (cases "GetUserByAddress True lower address db")
    case (Inr u)
    then show ?thesis by (simp add: ResolveRecipient_def ResolveRecipientAddresses_def address_def [symmetric] Let_def)
  next
    case (Inl e)
    show ?thesis
    proof (cases "map_of (ad_aliases db) address")
      case (Some target)
      then have mem: "(address, target) \<in> set (ad_aliases db)" by (rule map_of_SomeD)
      then have "list_ex (by_id target) (ad_users db)" using assms by (auto simp: addresses_ok_def list_all_iff)
      then obtain u where u: "GetUserByID True target db = Inr u" "by_id target u"
        by (cases "find (by_id target) (ad_users db)") (auto simp: GetUserByID_def find_None_iff find_Some_iff list_ex_iff)
      have "uw_Address u \<in> set (alias_targets address db)" using mem found [OF u(1)] u(2) by (force simp: alias_targets_def)
      then show ?thesis
        using Inl Some u(1) GetUserByAddress_own [OF assms found [OF u(1)]]
        by (auto simp: ResolveRecipient_def ResolveRecipientAddresses_def address_def [symmetric] Let_def)
    next
      case None
      then have "alias_targets address db = []" by (force simp: alias_targets_def map_of_eq_None_iff)
      then show ?thesis
        using Inl None GetUserByAddress_own [OF assms found]
        by (auto simp: ResolveRecipient_def ResolveRecipientAddresses_def address_def [symmetric] Let_def split: option.splits sum.splits)
    qed
  qed
qed

subsection \<open>Defects\<close>

text \<open>A frozen user is free again by asking for deletion and cancelling it.\<close>

lemma cancel_unfreezes:
  assumes "u \<in> set (ad_users db)" "uw_AccountStatus u = ''suspended''"
  shows "\<exists>v\<in>set (ad_users (snd (CancelDeletion DbOk (uw_UserID u) (snd (RequestDeletion DbOk now (uw_UserID u) db))))).
    uw_UserID v = uw_UserID u \<and> uw_AccountStatus v = ''active''"
proof -
  have "ad_users (snd (CancelDeletion DbOk (uw_UserID u) (snd (RequestDeletion DbOk now (uw_UserID u) db)))) =
    map (\<lambda>v. if by_id (uw_UserID u) v then (set_status ''active'' v)\<lparr>uw_DeletionRequestedAt := None\<rparr> else v) (ad_users db)"
    by (auto simp: CancelDeletion_def RequestDeletion_def update_user_def exec_found_def exec_def deletion_pending_def set_status_def)
  then show ?thesis using assms(1) by (auto simp: set_status_def intro!: bexI [of _ "(set_status ''active'' u)\<lparr>uw_DeletionRequestedAt := None\<rparr>"])
qed

text \<open>The time of a payment failure that was settled long ago makes the next sweep purge an account frozen for abuse.\<close>

lemma frozen_is_purged:
  assumes "in_status ''suspended'' u" "before_opt (uw_PaymentFailedAt u) (now - days 60)" "uw_DeletionRequestedAt u = None"
  shows "purgeable now u \<and> wipe_due t (set_status ''purge_pending'' u)"
  using assms by (simp add: purgeable_def wipe_due_def set_status_def)

text \<open>Where one of the optional tables is missing, no user can be wiped.\<close>

lemma wipe_tables_missing:
  assumes "\<exists>(t, P)\<in>set ts. map_of (ad_owned db) t = None" "wipe_tables ok i ts (False, db) = Inr (aborted, db')"
  shows aborted
  using assms
proof (induction ts arbitrary: i db)
  case (Cons a ts)
  obtain t P where a: "a = (t, P)" by fastforce
  show ?case
  proof (cases "delete_owned t P db")
    case None
    then have run: "wipe_tables ok (Suc i) ts (True, db) = Inr (aborted, db')" using Cons.prems(2) a by (auto split: if_splits)
    then show ?thesis by (cases ts) auto
  next
    case (Some d)
    then have run: "wipe_tables ok (Suc i) ts (False, d) = Inr (aborted, db')" using Cons.prems(2) a by (auto split: if_splits)
    from Some obtain rows where d: "map_of (ad_owned db) t = Some rows" "d = db\<lparr>ad_owned := AList.update t (filter (\<lambda>r. \<not> P r) rows) (ad_owned db)\<rparr>"
      by (auto simp: delete_owned_def split: option.splits)
    then have "map_of (ad_owned d) x = None \<longleftrightarrow> map_of (ad_owned db) x = None" for x by (auto simp: update_conv')
    then have "\<exists>(t, P)\<in>set ts. map_of (ad_owned d) t = None" using Cons.prems(1) a d(1) by auto
    then show ?thesis using Cons.IH run by blast
  qed
qed auto

lemma tombstone_needs_all_tables:
  assumes "t \<in> set (tenantScoped @ userScoped)" "map_of (ad_owned db) t = None"
  shows "\<exists>e. TombstoneUser ok out userID tenantID db = (Some e, db)"
proof -
  have "\<exists>(t, P)\<in>set (wipe_list userID tenantID). map_of (ad_owned db) t = None" using assms by (auto simp: wipe_list_def)
  then have aborts: "aborted" if "wipe_tables ok 1 (wipe_list userID tenantID) (False, db) = Inr (aborted, d)" for aborted d
    using that by (rule wipe_tables_missing)
  show ?thesis
  proof (cases "wipe_tables ok 1 (wipe_list userID tenantID) (False, db)")
    case (Inr r)
    then obtain d where "r = (True, d)" using aborts by (metis prod.exhaust)
    then show ?thesis using Inr by (simp add: TombstoneUser_def)
  qed (simp add: TombstoneUser_def)
qed

text \<open>A wiped account is due again.\<close>

lemma wiped_stays_due: "wipe_due t (wiped_row u) = wipe_due t u"
  by (simp add: wipe_due_def wiped_row_def)

end
