(* ===== verification/Acct_Witness.thy ===== *)
theory Acct_Witness
  imports Acct_Props
begin

text \<open>Concrete accounts, sessions and sweeps.\<close>

definition row0 :: user_row where
  "row0 = \<lparr>uw_UserID = [1], uw_TenantID = [9], uw_Address = ''a@b.c'', uw_PublicKeyEncryption = [2], uw_PublicKeySigning = [3],
     uw_EncryptedPrivateKey = [4], uw_EncryptedRecoveryKey = [5], uw_OpaqueRegistration = [6], uw_KeyEpoch = 1, uw_RecoveryVersion = 2,
     uw_CreatedAt = 0, uw_LastActivityAt = Some 100, uw_PGPPublicKey = None, uw_Tier = ''free'', uw_StorageUsedBytes = 7,
     uw_AccountStatus = ''active'', uw_PaymentFailedAt = None, uw_StripeCustomerID = None, uw_StripeSubscriptionID = None,
     uw_TOTPSecretEncrypted = None, uw_TOTPEnabled = False, uw_TOTPBackupCodes = None, uw_DeletionRequestedAt = None,
     uw_OpaqueRecoveryRegistration = [], uw_RecoveryBlob = [], uw_PublicKeyKEM = [], uw_EncryptedPrivateKeyKEM = [],
     uw_AccountType = ''primary'', uw_DormancyWindowDays = None, uw_ValidUntil = None, uw_MaxValidUntil = None,
     uw_HasFakeID = False, uw_FakeIDMintedAt = None, uw_FakeIDAllowedReleaseAt = None, uw_FakeIDMigrated = False,
     uw_StorageBlocks = 0, uw_RecentBounces = 0, uw_RecentBouncesResetAt = 0, uw_WelcomeDismissedAt = None, uw_AffiliateCode = None\<rparr>"

definition row1 :: user_row where
  "row1 = row0\<lparr>uw_UserID := [2], uw_Address := ''d@b.c'', uw_LastActivityAt := Some 10\<rparr>"

definition acct_db0 :: auth_db where
  "acct_db0 = \<lparr>ad_users = [row0, row1],
     ad_sessions = [\<lparr>sn_SessionID = [1], sn_UserID = [1], sn_CreatedAt = 0, sn_ExpiresAt = 20, sn_RefreshExpiresAt = 90, sn_RefreshTokenHash = [7], sn_TokenHash = [8]\<rparr>,
                    \<lparr>sn_SessionID = [2], sn_UserID = [2], sn_CreatedAt = 0, sn_ExpiresAt = 5, sn_RefreshExpiresAt = 15, sn_RefreshTokenHash = [5], sn_TokenHash = [6]\<rparr>],
     ad_tenants = [], ad_aliases = [(''x@b.c'', [2])], ad_settings = [], ad_invitations = [], ad_roles = [],
     ad_owned = [(''messages'', [([1], [9], [5]), ([2], [9], [6])]), (''folders'', []), (''contacts'', []), (''contact_groups'', []), (''labels'', []),
       (''mail_rules'', []), (''blocked_senders'', []), (''api_tokens'', []), (''push_subscriptions'', []), (''webhooks'', []), (''pending_sends'', [])]\<rparr>"

subsection \<open>Sweeps\<close>

text \<open>The dormant neighbour becomes a tombstone and is wiped; the account in use keeps its message.\<close>

definition acct_db1 :: auth_db where
  "acct_db1 = snd (MarkDormantTombstone DbOk 50 acct_db0)"

definition acct_db2 :: auth_db where
  "acct_db2 = snd (TombstoneUser (\<lambda>_. True) DbOk [2] [9] acct_db1)"

lemma acct_run: "(cleanup 50)\<^sup>*\<^sup>* acct_db0 acct_db2"
proof -
  have "cleanup 50 acct_db0 acct_db1" unfolding acct_db1_def by (rule cleanup.dormant_users) simp
  moreover have "cleanup 50 acct_db1 acct_db2"
  proof -
    let ?w = "set_status ''tombstone'' row1"
    have due: "filter (wipe_due 0) (ad_users acct_db1) = [?w]" by (simp add: acct_db1_def MarkDormantTombstone_def sweep_def exec_def
          acct_db0_def row1_def row0_def dormant_def in_status_def last_active_def set_status_def wipe_due_def)
    then have "GetDeletionPendingUsers True (\<lambda>x. x) 0 acct_db1 = Inr [?w]" by (simp add: GetDeletionPendingUsers_def)
    moreover have "set (filter (wipe_due 0) (ad_users acct_db1)) \<subseteq> set (ad_users acct_db1) \<inter> {u. wipe_due 0 u}" by auto
    ultimately have "cleanup 50 acct_db1 (snd (TombstoneUser (\<lambda>_. True) DbOk (uw_UserID ?w) (uw_TenantID ?w) acct_db1))"
      by (rule cleanup.tombstone) simp
    then show ?thesis by (simp add: acct_db2_def set_status_def row1_def row0_def)
  qed
  ultimately show ?thesis by simp
qed

lemma acct_in_use: "in_use 50 row0 acct_db0"
  by (simp add: in_use_def acct_db0_def row1_def row0_def last_active_def)


subsection \<open>Slots, sessions, recipients\<close>

definition slot_db1 :: auth_db where
  "slot_db1 = snd (ClaimFakeIDSlot DbOk 1000 [1] acct_db0)"

definition slot_db2 :: auth_db where
  "slot_db2 = snd (ExpireFakeIDSlots DbOk 2000 slot_db1)"



theorem resolve_agrees_witness:
  "ResolveRecipient (\<lambda>_. True) (\<lambda>s. s) ''x@b.c'' acct_db0 = Inr row1
   \<and> (\<exists>addrs. ResolveRecipientAddresses (\<lambda>_. True) (\<lambda>s. s) ''x@b.c'' acct_db0 = Inr addrs
        \<and> (\<exists>a\<in>set addrs. GetUserByAddress True (\<lambda>s. s) a acct_db0 = Inr row1))"
proof -
  have "addresses_ok (\<lambda>s. s) acct_db0" by code_simp
  moreover have "ResolveRecipient (\<lambda>_. True) (\<lambda>s. s) ''x@b.c'' acct_db0 = Inr row1" by code_simp
  ultimately show ?thesis using resolve_agrees [of "\<lambda>s. s" acct_db0 "''x@b.c''"] by simp
qed

end
