(* ===== verification/Drive.thy ===== *)
theory Drive
  imports Accounts
begin

text \<open>
  \<open>internal/storage/drive_store.go\<close>: folders, files, shares and the epoch keys of shared folders. The tables are lists
  of records and a statement is a function on them, with failures as in \<open>Accounts\<close>. Unique constraints are
  those the statements rely on: identifiers, (folder, epoch) of names, (folder, epoch, recipient) of keys, (folder, recipient) of members.
  A statement that fails for another reason is a flag. A list that is cut short while it is read is not noticed by the code
  (\<open>QueryCut\<close>); a recursive query may run forever (\<open>None\<close>).
\<close>

subsection \<open>Tables\<close>

record DriveFolder =
  fo_FolderID :: bytes
  fo_UserID :: bytes
  fo_TenantID :: bytes
  fo_ParentID :: "bytes option"
  fo_CurrentEpoch :: int
  fo_CreatedAt :: int
  fo_UpdatedAt :: int

record DriveFolderEpochKey =
  fk_FolderID :: bytes
  fk_Epoch :: int
  fk_RecipientUserID :: bytes
  fk_TenantID :: bytes
  fk_WrappedFCK :: bytes
  fk_WrappedFCKEphPubkey :: bytes
  fk_CreatedAt :: int

record DriveFolderEpochName =
  fn_FolderID :: bytes
  fn_Epoch :: int
  fn_EncryptedName :: bytes

record DriveFolderShareMember =
  sm_FolderID :: bytes
  sm_RecipientUserID :: bytes
  sm_TenantID :: bytes
  sm_OwnerUserID :: bytes
  sm_JoinedEpoch :: int
  sm_PastEpochAccess :: bool
  sm_CanEdit :: bool
  sm_ExpiresAt :: "int option"
  sm_CreatedAt :: int

record DriveFile =
  fi_FileID :: bytes
  fi_UserID :: bytes
  fi_TenantID :: bytes
  fi_FolderID :: "bytes option"
  fi_EncryptedName :: bytes
  fi_EncryptedContentType :: bytes
  fi_SizeBytes :: int
  fi_OriginalSizeBytes :: "int option"
  fi_BlobRef :: string
  fi_EphemeralPubkey :: bytes
  fi_EncryptedFileKey :: bytes
  fi_FCKWrappedMessageKey :: "bytes option"
  fi_Epoch :: int
  fi_EncryptionFormat :: string
  fi_ChunkCount :: int
  fi_UploadComplete :: bool
  fi_Starred :: bool
  fi_Trashed :: bool
  fi_TrashedAt :: "int option"
  fi_CreatedAt :: int
  fi_UpdatedAt :: int

record DriveShare =
  sh_ShareID :: bytes
  sh_FileID :: "bytes option"
  sh_FolderID :: "bytes option"
  sh_ParentShareID :: "bytes option"
  sh_UserID :: bytes
  sh_TenantID :: bytes
  sh_ShareType :: string
  sh_LinkEncryptedFileKey :: bytes
  sh_PasswordSalt :: bytes
  sh_EncryptedBlob :: bytes
  sh_EncryptedName :: bytes
  sh_EncryptedContentType :: bytes
  sh_RecipientUserID :: "bytes option"
  sh_RecipientEncryptedFileKey :: bytes
  sh_RecipientEphemeralPubkey :: bytes
  sh_CanEdit :: bool
  sh_ExpiresAt :: "int option"
  sh_AccessCount :: int
  sh_CreatedAt :: int
  sh_EncryptedLinkToken :: bytes
  sh_LinkTokenEphPubkey :: bytes

record drive_db =
  dv_folders :: "DriveFolder list"
  dv_keys :: "DriveFolderEpochKey list"
  dv_names :: "DriveFolderEpochName list"
  dv_members :: "DriveFolderShareMember list"
  dv_files :: "DriveFile list"
  dv_shares :: "DriveShare list"

subsection \<open>Statements\<close>

datatype query_out = QueryErr | QueryScan | QueryCut nat | QueryAll

text \<open>The loop over the rows of a query: \<open>rows.Err\<close> is not asked.\<close>

definition fetch :: "query_out \<Rightarrow> string \<Rightarrow> string \<Rightarrow> 'a list \<Rightarrow> string + 'a list" where
  "fetch q msg scan rows =
     (case q of
        QueryErr \<Rightarrow> Inl msg
      | QueryScan \<Rightarrow> if rows = [] then Inr [] else Inl scan
      | QueryCut n \<Rightarrow> Inr (take n rows)
      | QueryAll \<Rightarrow> Inr rows)"

definition fetch_one :: "query_out \<Rightarrow> string \<Rightarrow> string \<Rightarrow> 'a list \<Rightarrow> string + 'a" where
  "fetch_one q msg missing rows =
     (case fetch q msg ''scan'' rows of Inl e \<Rightarrow> Inl e | Inr [] \<Rightarrow> Inl missing | Inr (r # _) \<Rightarrow> Inr r)"

definition exec_rows :: "db_out \<Rightarrow> string \<Rightarrow> string \<Rightarrow> bool \<Rightarrow> 'd \<Rightarrow> 'd \<Rightarrow> string option \<times> 'd" where
  "exec_rows out msg missing found db' db =
     (case exec out msg db' db of
        (Some e, d) \<Rightarrow> (Some e, d)
      | (None, d) \<Rightarrow> (if found then None else Some missing, d))"

definition update_list :: "('a \<Rightarrow> bool) \<Rightarrow> ('a \<Rightarrow> 'a) \<Rightarrow> 'a list \<Rightarrow> 'a list" where
  "update_list P f xs = map (\<lambda>x. if P x then f x else x) xs"

text \<open>\<open>expires_at IS NULL OR expires_at > now()\<close>.\<close>

definition unexpired :: "int \<Rightarrow> int option \<Rightarrow> bool" where
  "unexpired now e = (case e of None \<Rightarrow> True | Some t \<Rightarrow> t > now)"

text \<open>
  \<open>WITH RECURSIVE ... UNION ALL\<close>: the rows of the last round give the rows of the next, until there are none.
\<close>

partial_function (option) cte :: "('a list \<Rightarrow> 'a list) \<Rightarrow> 'a list \<Rightarrow> 'a list option" where
  "cte step work =
     (if work = [] then Some []
      else Option.bind (cte step (step work)) (\<lambda>rest. Some (work @ rest)))"

definition uuid_Nil :: bytes where
  "uuid_Nil = replicate 16 0"

definition fresh_id :: "bytes \<Rightarrow> bytes \<Rightarrow> bytes" where
  "fresh_id newID x = (if x = uuid_Nil then newID else x)"

subsection \<open>Folders\<close>

definition owned_folder :: "bytes \<Rightarrow> bytes \<Rightarrow> bytes \<Rightarrow> DriveFolder \<Rightarrow> bool" where
  "owned_folder folderID userID tenantID f = (fo_FolderID f = folderID \<and> fo_UserID f = userID \<and> fo_TenantID f = tenantID)"

definition folder_exists :: "bytes \<Rightarrow> drive_db \<Rightarrow> bool" where
  "folder_exists folderID db = list_ex (\<lambda>f. fo_FolderID f = folderID) (dv_folders db)"

definition name_exists :: "bytes \<Rightarrow> int \<Rightarrow> drive_db \<Rightarrow> bool" where
  "name_exists folderID epoch db = list_ex (\<lambda>n. fn_FolderID n = folderID \<and> fn_Epoch n = epoch) (dv_names db)"

definition key_exists :: "bytes \<Rightarrow> int \<Rightarrow> bytes \<Rightarrow> drive_db \<Rightarrow> bool" where
  "key_exists folderID epoch userID db =
     list_ex (\<lambda>k. fk_FolderID k = folderID \<and> fk_Epoch k = epoch \<and> fk_RecipientUserID k = userID) (dv_keys db)"

definition new_name :: "bytes \<Rightarrow> int \<Rightarrow> bytes \<Rightarrow> DriveFolderEpochName" where
  "new_name folderID epoch encryptedName = \<lparr>fn_FolderID = folderID, fn_Epoch = epoch, fn_EncryptedName = encryptedName\<rparr>"

definition new_key :: "int \<Rightarrow> bytes \<Rightarrow> int \<Rightarrow> bytes \<Rightarrow> bytes \<Rightarrow> bytes \<Rightarrow> bytes \<Rightarrow> DriveFolderEpochKey" where
  "new_key now folderID epoch userID tenantID wrapped eph =
     \<lparr>fk_FolderID = folderID, fk_Epoch = epoch, fk_RecipientUserID = userID, fk_TenantID = tenantID,
      fk_WrappedFCK = wrapped, fk_WrappedFCKEphPubkey = eph, fk_CreatedAt = now\<rparr>"

record CreateFolderInput =
  cf_Folder :: DriveFolder
  cf_WrappedFCK :: bytes
  cf_WrappedFCKEph :: bytes
  cf_EncryptedName :: bytes

definition new_folder :: "bytes \<Rightarrow> int \<Rightarrow> DriveFolder \<Rightarrow> DriveFolder" where
  "new_folder newID now f =
     f\<lparr>fo_FolderID := fresh_id newID (fo_FolderID f), fo_CreatedAt := now, fo_UpdatedAt := now, fo_CurrentEpoch := 0\<rparr>"

definition CreateFolder :: "(nat \<Rightarrow> bool) \<Rightarrow> db_out \<Rightarrow> bytes \<Rightarrow> int \<Rightarrow> CreateFolderInput \<Rightarrow> drive_db \<Rightarrow> string option \<times> drive_db" where
  "CreateFolder ok out newID now inp db =
     (let f = new_folder newID now (cf_Folder inp) in
      if \<not> ok 0 then (Some ''begin create folder tx'', db)
      else if \<not> ok 1 \<or> folder_exists (fo_FolderID f) db then (Some ''insert folder'', db)
      else if \<not> ok 2 \<or> key_exists (fo_FolderID f) 0 (fo_UserID f) db then (Some ''insert epoch 0 key'', db)
      else if \<not> ok 3 \<or> name_exists (fo_FolderID f) 0 db then (Some ''insert epoch 0 name'', db)
      else commit out (db\<lparr>dv_folders := dv_folders db @ [f],
             dv_keys := dv_keys db @ [new_key now (fo_FolderID f) 0 (fo_UserID f) (fo_TenantID f) (cf_WrappedFCK inp) (cf_WrappedFCKEph inp)],
             dv_names := dv_names db @ [new_name (fo_FolderID f) 0 (cf_EncryptedName inp)]\<rparr>) db)"

definition GetFolder :: "query_out \<Rightarrow> bytes \<Rightarrow> bytes \<Rightarrow> bytes \<Rightarrow> drive_db \<Rightarrow> string + DriveFolder" where
  "GetFolder q userID tenantID folderID db =
     fetch_one q ''get drive folder'' ''drive folder not found'' (filter (owned_folder folderID userID tenantID) (dv_folders db))"

definition ListFolders :: "query_out \<Rightarrow> bytes \<Rightarrow> bytes \<Rightarrow> bytes option \<Rightarrow> drive_db \<Rightarrow> string + DriveFolder list" where
  "ListFolders q userID tenantID parentID db =
     fetch q ''list drive folders'' ''scan drive folder'' (sort_key fo_CreatedAt
       (filter (\<lambda>f. fo_UserID f = userID \<and> fo_TenantID f = tenantID \<and> fo_ParentID f = parentID) (dv_folders db)))"

definition UpdateFolder :: "db_out \<Rightarrow> int \<Rightarrow> DriveFolder \<Rightarrow> drive_db \<Rightarrow> string option \<times> drive_db" where
  "UpdateFolder out now f db =
     (let P = owned_folder (fo_FolderID f) (fo_UserID f) (fo_TenantID f) in
      exec_rows out ''update drive folder'' ''drive folder not found'' (list_ex P (dv_folders db))
        (db\<lparr>dv_folders := update_list P (\<lambda>g. g\<lparr>fo_ParentID := fo_ParentID f, fo_UpdatedAt := now\<rparr>) (dv_folders db)\<rparr>) db)"

text \<open>The name of a folder at its current epoch.\<close>

definition at_current_epoch :: "bytes \<Rightarrow> drive_db \<Rightarrow> DriveFolderEpochName \<Rightarrow> bool" where
  "at_current_epoch folderID db n =
     (fn_FolderID n = folderID \<and> list_ex (\<lambda>f. fo_FolderID f = folderID \<and> fo_CurrentEpoch f = fn_Epoch n) (dv_folders db))"

definition UpdateFolderName :: "db_out \<Rightarrow> bytes \<Rightarrow> bytes \<Rightarrow> drive_db \<Rightarrow> string option \<times> drive_db" where
  "UpdateFolderName out folderID encryptedName db =
     exec_rows out ''update folder name'' ''folder epoch name not found'' (list_ex (at_current_epoch folderID db) (dv_names db))
       (db\<lparr>dv_names := update_list (at_current_epoch folderID db) (\<lambda>n. n\<lparr>fn_EncryptedName := encryptedName\<rparr>) (dv_names db)\<rparr>) db"

text \<open>
  The foreign keys, as the comment on \<open>DeleteFolder\<close> states them: subfolders go with their folder, files fall back to the root.
  \<open>fk\<close>: whether the schema also removes the keys, names and members of a removed folder. The cascade visits each folder once.
\<close>

fun cascade_folders :: "nat \<Rightarrow> DriveFolder list \<Rightarrow> bytes list \<Rightarrow> bytes list" where
  "cascade_folders 0 fs ids = ids"
| "cascade_folders (Suc n) fs ids =
     cascade_folders n fs (remdups (ids @ map fo_FolderID (filter (\<lambda>f. \<exists>p\<in>set ids. fo_ParentID f = Some p) fs)))"

definition remove_folder :: "bool \<Rightarrow> bytes \<Rightarrow> drive_db \<Rightarrow> drive_db" where
  "remove_folder fk folderID db =
     (let gone = cascade_folders (length (dv_folders db)) (dv_folders db) [folderID] in
      db\<lparr>dv_folders := filter (\<lambda>f. fo_FolderID f \<notin> set gone) (dv_folders db),
         dv_files := update_list (\<lambda>x. \<exists>i\<in>set gone. fi_FolderID x = Some i) (\<lambda>x. x\<lparr>fi_FolderID := None\<rparr>) (dv_files db),
         dv_keys := filter (\<lambda>k. \<not> (fk \<and> fk_FolderID k \<in> set gone)) (dv_keys db),
         dv_names := filter (\<lambda>n. \<not> (fk \<and> fn_FolderID n \<in> set gone)) (dv_names db),
         dv_members := filter (\<lambda>m. \<not> (fk \<and> sm_FolderID m \<in> set gone)) (dv_members db)\<rparr>)"

definition delete_folder :: "bool \<Rightarrow> bytes \<Rightarrow> bytes \<Rightarrow> bytes \<Rightarrow> drive_db \<Rightarrow> drive_db" where
  "delete_folder fk userID tenantID folderID db =
     (if list_ex (owned_folder folderID userID tenantID) (dv_folders db) then remove_folder fk folderID db else db)"

definition DeleteFolder :: "bool \<Rightarrow> db_out \<Rightarrow> bytes \<Rightarrow> bytes \<Rightarrow> bytes \<Rightarrow> drive_db \<Rightarrow> string option \<times> drive_db" where
  "DeleteFolder fk out userID tenantID folderID db =
     exec_rows out ''delete drive folder'' ''drive folder not found'' (list_ex (owned_folder folderID userID tenantID) (dv_folders db))
       (delete_folder fk userID tenantID folderID db) db"

text \<open>The folders of a user below a folder.\<close>

definition children_of :: "bytes \<Rightarrow> bytes \<Rightarrow> drive_db \<Rightarrow> DriveFolder list \<Rightarrow> DriveFolder list" where
  "children_of userID tenantID db work =
     concat (map (\<lambda>t. filter (\<lambda>f. fo_ParentID f = Some (fo_FolderID t) \<and> fo_UserID f = userID \<and> fo_TenantID f = tenantID) (dv_folders db)) work)"

definition subfolders :: "bytes \<Rightarrow> bytes \<Rightarrow> bytes \<Rightarrow> drive_db \<Rightarrow> DriveFolder list option" where
  "subfolders userID tenantID folderID db =
     cte (children_of userID tenantID db) (filter (owned_folder folderID userID tenantID) (dv_folders db))"

definition in_folders :: "DriveFolder list \<Rightarrow> DriveFile \<Rightarrow> bool" where
  "in_folders fs x = list_ex (\<lambda>f. fi_FolderID x = Some (fo_FolderID f)) fs"

definition trash :: "int \<Rightarrow> DriveFile \<Rightarrow> DriveFile" where
  "trash now x = x\<lparr>fi_Trashed := True, fi_TrashedAt := Some now, fi_UpdatedAt := now\<rparr>"

definition to_trash :: "bytes \<Rightarrow> bytes \<Rightarrow> DriveFolder list \<Rightarrow> DriveFile \<Rightarrow> bool" where
  "to_trash userID tenantID fs x =
     (fi_UserID x = userID \<and> fi_TenantID x = tenantID \<and> in_folders fs x \<and> \<not> fi_Trashed x)"

definition DeleteFolderCascadeTrash ::
    "bool \<Rightarrow> (nat \<Rightarrow> bool) \<Rightarrow> db_out \<Rightarrow> int \<Rightarrow> bytes \<Rightarrow> bytes \<Rightarrow> bytes \<Rightarrow> drive_db \<Rightarrow> ((string + nat) \<times> drive_db) option" where
  "DeleteFolderCascadeTrash fk ok out now userID tenantID folderID db =
     (if \<not> ok 0 then Some (Inl ''begin tx'', db)
      else if \<not> ok 1 then Some (Inl ''cascade trash files'', db)
      else (case subfolders userID tenantID folderID db of
        None \<Rightarrow> None
      | Some fs \<Rightarrow>
          (let hit = to_trash userID tenantID fs;
               db1 = db\<lparr>dv_files := update_list hit (trash now) (dv_files db)\<rparr>
           in if \<not> ok 2 then Some (Inl ''delete drive folder'', db)
              else if \<not> list_ex (owned_folder folderID userID tenantID) (dv_folders db1) then Some (Inl ''drive folder not found'', db)
              else (case commit out (delete_folder fk userID tenantID folderID db1) db of
                      (Some e, d) \<Rightarrow> Some (Inl ''commit tx'', d)
                    | (None, d) \<Rightarrow> Some (Inr (length (filter hit (dv_files db))), d)))))"


subsection \<open>Files\<close>

definition owned_file :: "bytes \<Rightarrow> bytes \<Rightarrow> bytes \<Rightarrow> DriveFile \<Rightarrow> bool" where
  "owned_file fileID userID tenantID x = (fi_FileID x = fileID \<and> fi_UserID x = userID \<and> fi_TenantID x = tenantID)"

definition file_exists :: "bytes \<Rightarrow> drive_db \<Rightarrow> bool" where
  "file_exists fileID db = list_ex (\<lambda>x. fi_FileID x = fileID) (dv_files db)"

definition new_file :: "bytes \<Rightarrow> int \<Rightarrow> DriveFile \<Rightarrow> DriveFile" where
  "new_file newID now x = x\<lparr>fi_FileID := fresh_id newID (fi_FileID x), fi_CreatedAt := now, fi_UpdatedAt := now\<rparr>"

definition insert_file :: "db_out \<Rightarrow> string \<Rightarrow> DriveFile \<Rightarrow> drive_db \<Rightarrow> string option \<times> drive_db" where
  "insert_file out msg x db =
     (if file_exists (fi_FileID x) db then (Some msg, db)
      else exec out msg (db\<lparr>dv_files := dv_files db @ [x]\<rparr>) db)"

definition CreateFile :: "db_out \<Rightarrow> bytes \<Rightarrow> int \<Rightarrow> DriveFile \<Rightarrow> drive_db \<Rightarrow> string option \<times> drive_db" where
  "CreateFile out newID now x db = insert_file out ''create drive file'' (new_file newID now x) db"

definition GetFile :: "query_out \<Rightarrow> bytes \<Rightarrow> bytes \<Rightarrow> bytes \<Rightarrow> drive_db \<Rightarrow> string + DriveFile" where
  "GetFile q userID tenantID fileID db =
     fetch_one q ''get drive file'' ''drive file not found''
       (filter (\<lambda>x. owned_file fileID userID tenantID x \<and> fi_UploadComplete x) (dv_files db))"

definition ListFiles :: "query_out \<Rightarrow> bytes \<Rightarrow> bytes \<Rightarrow> bytes option \<Rightarrow> drive_db \<Rightarrow> string + DriveFile list" where
  "ListFiles q userID tenantID folderID db =
     fetch q ''list drive files'' ''scan drive file'' (sort_key (\<lambda>x. - fi_CreatedAt x)
       (filter (\<lambda>x. fi_UserID x = userID \<and> fi_TenantID x = tenantID \<and> fi_FolderID x = folderID
          \<and> \<not> fi_Trashed x \<and> fi_UploadComplete x) (dv_files db)))"

definition update_file :: "db_out \<Rightarrow> string \<Rightarrow> bytes \<Rightarrow> bytes \<Rightarrow> bytes \<Rightarrow> (DriveFile \<Rightarrow> DriveFile) \<Rightarrow> drive_db \<Rightarrow> string option \<times> drive_db" where
  "update_file out msg userID tenantID fileID g db =
     exec_rows out msg ''drive file not found'' (list_ex (owned_file fileID userID tenantID) (dv_files db))
       (db\<lparr>dv_files := update_list (owned_file fileID userID tenantID) g (dv_files db)\<rparr>) db"

definition UpdateFile :: "db_out \<Rightarrow> int \<Rightarrow> DriveFile \<Rightarrow> drive_db \<Rightarrow> string option \<times> drive_db" where
  "UpdateFile out now x db =
     update_file out ''update drive file'' (fi_UserID x) (fi_TenantID x) (fi_FileID x)
       (\<lambda>y. y\<lparr>fi_FolderID := fi_FolderID x, fi_EncryptedName := fi_EncryptedName x, fi_EncryptedContentType := fi_EncryptedContentType x,
         fi_EphemeralPubkey := fi_EphemeralPubkey x, fi_EncryptedFileKey := fi_EncryptedFileKey x,
         fi_Starred := fi_Starred x, fi_Trashed := fi_Trashed x, fi_TrashedAt := fi_TrashedAt x, fi_UpdatedAt := now\<rparr>) db"

definition DeleteFile :: "db_out \<Rightarrow> bytes \<Rightarrow> bytes \<Rightarrow> bytes \<Rightarrow> drive_db \<Rightarrow> string option \<times> drive_db" where
  "DeleteFile out userID tenantID fileID db =
     exec_rows out ''delete drive file'' ''drive file not found'' (list_ex (owned_file fileID userID tenantID) (dv_files db))
       (db\<lparr>dv_files := filter (\<lambda>x. \<not> owned_file fileID userID tenantID x) (dv_files db)\<rparr>) db"

definition ListStarred :: "query_out \<Rightarrow> bytes \<Rightarrow> bytes \<Rightarrow> drive_db \<Rightarrow> string + DriveFile list" where
  "ListStarred q userID tenantID db =
     fetch q ''list starred drive files'' ''scan starred drive file'' (sort_key (\<lambda>x. - fi_UpdatedAt x)
       (filter (\<lambda>x. fi_UserID x = userID \<and> fi_TenantID x = tenantID \<and> fi_Starred x \<and> \<not> fi_Trashed x \<and> fi_UploadComplete x) (dv_files db)))"

text \<open>In the order of \<open>trashed_at\<close>, latest first; NULL comes before all times.\<close>

definition ListTrashed :: "query_out \<Rightarrow> bytes \<Rightarrow> bytes \<Rightarrow> drive_db \<Rightarrow> string + DriveFile list" where
  "ListTrashed q userID tenantID db =
     (let rows = filter (\<lambda>x. fi_UserID x = userID \<and> fi_TenantID x = tenantID \<and> fi_Trashed x) (dv_files db) in
      fetch q ''list trashed drive files'' ''scan trashed drive file''
        (filter (\<lambda>x. fi_TrashedAt x = None) rows
         @ sort_key (\<lambda>x. - the (fi_TrashedAt x)) (filter (\<lambda>x. fi_TrashedAt x \<noteq> None) rows)))"

definition TrashFile :: "db_out \<Rightarrow> int \<Rightarrow> bytes \<Rightarrow> bytes \<Rightarrow> bytes \<Rightarrow> drive_db \<Rightarrow> string option \<times> drive_db" where
  "TrashFile out now userID tenantID fileID db = update_file out ''trash drive file'' userID tenantID fileID (trash now) db"

definition RestoreFile :: "db_out \<Rightarrow> int \<Rightarrow> bytes \<Rightarrow> bytes \<Rightarrow> bytes \<Rightarrow> drive_db \<Rightarrow> string option \<times> drive_db" where
  "RestoreFile out now userID tenantID fileID db =
     update_file out ''restore drive file'' userID tenantID fileID
       (\<lambda>x. x\<lparr>fi_Trashed := False, fi_TrashedAt := None, fi_UpdatedAt := now\<rparr>) db"

text \<open>
  \<open>DELETE ... RETURNING\<close>. A query that fails or breaks off has deleted its rows or not (\<open>finished\<close>); one that is read to the end has.
\<close>

definition delete_returning ::
    "query_out \<Rightarrow> bool \<Rightarrow> string \<Rightarrow> string \<Rightarrow> (DriveFile \<Rightarrow> bool) \<Rightarrow> drive_db \<Rightarrow> (string + DriveFile list) \<times> drive_db" where
  "delete_returning q finished msg scan P db =
     (fetch q msg scan (filter P (dv_files db)),
      if q = QueryAll \<or> finished then db\<lparr>dv_files := filter (\<lambda>x. \<not> P x) (dv_files db)\<rparr> else db)"

definition PurgeOldTrashed :: "query_out \<Rightarrow> bool \<Rightarrow> int \<Rightarrow> drive_db \<Rightarrow> (string + DriveFile list) \<times> drive_db" where
  "PurgeOldTrashed q finished olderThan db =
     delete_returning q finished ''purge old trashed drive files'' ''scan purged drive file''
       (\<lambda>x. fi_Trashed x \<and> before_opt (fi_TrashedAt x) olderThan) db"

definition EmptyTrash :: "query_out \<Rightarrow> bool \<Rightarrow> bytes \<Rightarrow> bytes \<Rightarrow> drive_db \<Rightarrow> (string + DriveFile list) \<times> drive_db" where
  "EmptyTrash q finished userID tenantID db =
     delete_returning q finished ''empty trash'' ''scan emptied trash file''
       (\<lambda>x. fi_UserID x = userID \<and> fi_TenantID x = tenantID \<and> fi_Trashed x) db"

definition GetFileByID :: "query_out \<Rightarrow> bytes \<Rightarrow> drive_db \<Rightarrow> string + DriveFile" where
  "GetFileByID q fileID db =
     fetch_one q ''get drive file by id'' ''drive file not found'' (filter (\<lambda>x. fi_FileID x = fileID) (dv_files db))"

definition AddFileSize :: "db_out \<Rightarrow> int \<Rightarrow> bytes \<Rightarrow> int \<Rightarrow> drive_db \<Rightarrow> string option \<times> drive_db" where
  "AddFileSize out now fileID additionalBytes db =
     exec out ''add file size'' (db\<lparr>dv_files := update_list (\<lambda>x. fi_FileID x = fileID)
       (\<lambda>x. x\<lparr>fi_SizeBytes := fi_SizeBytes x + additionalBytes, fi_UpdatedAt := now\<rparr>) (dv_files db)\<rparr>) db"

definition MarkUploadComplete :: "db_out \<Rightarrow> int \<Rightarrow> bytes \<Rightarrow> drive_db \<Rightarrow> string option \<times> drive_db" where
  "MarkUploadComplete out now fileID db =
     exec out ''mark upload complete'' (db\<lparr>dv_files := update_list (\<lambda>x. fi_FileID x = fileID)
       (\<lambda>x. x\<lparr>fi_UploadComplete := True, fi_UpdatedAt := now\<rparr>) (dv_files db)\<rparr>) db"

text \<open>The number of seconds goes through a floating-point number, which is exact for whole seconds.\<close>

definition stale_upload :: "int \<Rightarrow> int \<Rightarrow> DriveFile \<Rightarrow> bool" where
  "stale_upload now seconds x = (\<not> fi_UploadComplete x \<and> fi_CreatedAt x < now - seconds * second)"

definition ReapStaleUploads :: "db_out \<Rightarrow> int \<Rightarrow> int \<Rightarrow> drive_db \<Rightarrow> (string + nat) \<times> drive_db" where
  "ReapStaleUploads out now olderThan db =
     (let seconds = max 1 (olderThan div second) in
      case exec out ''reap stale uploads'' (db\<lparr>dv_files := filter (\<lambda>x. \<not> stale_upload now seconds x) (dv_files db)\<rparr>) db of
        (Some e, d) \<Rightarrow> (Inl e, d) | (None, d) \<Rightarrow> (Inr (length (filter (stale_upload now seconds) (dv_files db))), d))"

definition GetStorageUsed :: "bool \<Rightarrow> bytes \<Rightarrow> bytes \<Rightarrow> drive_db \<Rightarrow> string + int \<times> nat" where
  "GetStorageUsed ok userID tenantID db =
     (let rows = filter (\<lambda>x. fi_UserID x = userID \<and> fi_TenantID x = tenantID) (dv_files db) in
      if ok then Inr (sum_list (map fi_SizeBytes rows), length rows) else Inl ''get drive storage used'')"


subsection \<open>Shares of files\<close>

definition direct_user_share :: "DriveShare \<Rightarrow> bool" where
  "direct_user_share s =
     (sh_ShareType s = ''user'' \<and> sh_FileID s \<noteq> None \<and> sh_ParentShareID s = None \<and> sh_RecipientUserID s \<noteq> None)"

definition share_conflict :: "DriveShare \<Rightarrow> DriveShare \<Rightarrow> bool" where
  "share_conflict share s =
     (direct_user_share s \<and> sh_FileID s = sh_FileID share \<and> sh_RecipientUserID s = sh_RecipientUserID share)"

definition CreateShare :: "db_out \<Rightarrow> bytes \<Rightarrow> int \<Rightarrow> DriveShare \<Rightarrow> drive_db \<Rightarrow> string option \<times> drive_db" where
  "CreateShare out newID now share0 db =
     (let share = share0\<lparr>sh_ShareID := fresh_id newID (sh_ShareID share0), sh_CreatedAt := now\<rparr> in
      if direct_user_share share \<and> list_ex (share_conflict share) (dv_shares db)
      then exec out ''create drive share'' (db\<lparr>dv_shares := update_list (share_conflict share)
             (\<lambda>s. s\<lparr>sh_RecipientEncryptedFileKey := sh_RecipientEncryptedFileKey share,
                    sh_RecipientEphemeralPubkey := sh_RecipientEphemeralPubkey share,
                    sh_CanEdit := sh_CanEdit share, sh_ExpiresAt := sh_ExpiresAt share\<rparr>) (dv_shares db)\<rparr>) db
      else if list_ex (\<lambda>s. sh_ShareID s = sh_ShareID share) (dv_shares db) then (Some ''create drive share'', db)
      else exec out ''create drive share'' (db\<lparr>dv_shares := dv_shares db @ [share]\<rparr>) db)"

definition GetShare :: "query_out \<Rightarrow> bytes \<Rightarrow> drive_db \<Rightarrow> string + DriveShare" where
  "GetShare q shareID db =
     fetch_one q ''get drive share'' ''drive share not found'' (filter (\<lambda>s. sh_ShareID s = shareID) (dv_shares db))"

definition ListSharesByFile :: "query_out \<Rightarrow> bytes \<Rightarrow> bytes \<Rightarrow> bytes \<Rightarrow> drive_db \<Rightarrow> string + DriveShare list" where
  "ListSharesByFile q userID tenantID fileID db =
     fetch q ''list drive shares'' ''scan drive share'' (sort_key (\<lambda>s. - sh_CreatedAt s)
       (filter (\<lambda>s. sh_FileID s = Some fileID \<and> sh_UserID s = userID \<and> sh_TenantID s = tenantID \<and> sh_ParentShareID s = None) (dv_shares db)))"

definition ListSharesByFolder :: "query_out \<Rightarrow> bytes \<Rightarrow> bytes \<Rightarrow> bytes \<Rightarrow> drive_db \<Rightarrow> string + DriveShare list" where
  "ListSharesByFolder q userID tenantID folderID db =
     fetch q ''list drive shares by folder'' ''scan drive share'' (sort_key (\<lambda>s. - sh_CreatedAt s)
       (filter (\<lambda>s. sh_FolderID s = Some folderID \<and> sh_UserID s = userID \<and> sh_TenantID s = tenantID \<and> sh_ShareType s = ''link'') (dv_shares db)))"

definition DeleteShare :: "db_out \<Rightarrow> bytes \<Rightarrow> bytes \<Rightarrow> bytes \<Rightarrow> drive_db \<Rightarrow> string option \<times> drive_db" where
  "DeleteShare out userID tenantID shareID db =
     (let P = (\<lambda>s. sh_ShareID s = shareID \<and> sh_UserID s = userID \<and> sh_TenantID s = tenantID) in
      exec_rows out ''delete drive share'' ''drive share not found'' (list_ex P (dv_shares db))
        (db\<lparr>dv_shares := filter (\<lambda>s. \<not> P s) (dv_shares db)\<rparr>) db)"

definition IncrementShareAccess :: "db_out \<Rightarrow> bytes \<Rightarrow> drive_db \<Rightarrow> string option \<times> drive_db" where
  "IncrementShareAccess out shareID db =
     exec out ''increment share access'' (db\<lparr>dv_shares := update_list (\<lambda>s. sh_ShareID s = shareID)
       (\<lambda>s. s\<lparr>sh_AccessCount := sh_AccessCount s + 1\<rparr>) (dv_shares db)\<rparr>) db"

text \<open>A file as a recipient sees it, and the address of its owner.\<close>

type_synonym SharedDriveFile = "DriveFile \<times> string"

definition owner_address :: "user_row list \<Rightarrow> bytes \<Rightarrow> string" where
  "owner_address users userID = (case find (by_id userID) users of None \<Rightarrow> [] | Some u \<Rightarrow> uw_Address u)"

definition share_grants :: "int \<Rightarrow> bytes \<Rightarrow> bytes \<Rightarrow> DriveFile \<Rightarrow> DriveShare \<Rightarrow> bool" where
  "share_grants now recipientUserID tenantID x s =
     (sh_FileID s = Some (fi_FileID x) \<and> sh_RecipientUserID s = Some recipientUserID \<and> sh_TenantID s = tenantID
      \<and> sh_ShareType s = ''user'' \<and> unexpired now (sh_ExpiresAt s) \<and> fi_UploadComplete x)"

definition swap_keys :: "user_row list \<Rightarrow> DriveFile \<times> DriveShare \<Rightarrow> SharedDriveFile" where
  "swap_keys users p =
     ((fst p)\<lparr>fi_EphemeralPubkey := sh_RecipientEphemeralPubkey (snd p), fi_EncryptedFileKey := sh_RecipientEncryptedFileKey (snd p)\<rparr>,
      owner_address users (fi_UserID (fst p)))"

definition shared_rows :: "int \<Rightarrow> bytes \<Rightarrow> bytes \<Rightarrow> drive_db \<Rightarrow> (DriveFile \<times> DriveShare) list" where
  "shared_rows now recipientUserID tenantID db =
     filter (\<lambda>(x, s). share_grants now recipientUserID tenantID x s) (List.product (dv_files db) (dv_shares db))"

definition ListSharedWithUser :: "query_out \<Rightarrow> int \<Rightarrow> user_row list \<Rightarrow> bytes \<Rightarrow> bytes \<Rightarrow> drive_db \<Rightarrow> string + SharedDriveFile list" where
  "ListSharedWithUser q now users recipientUserID tenantID db =
     fetch q ''list shared with user'' ''scan shared drive file''
       (map (swap_keys users) (sort_key (\<lambda>p. - sh_CreatedAt (snd p)) (shared_rows now recipientUserID tenantID db)))"

definition GetSharedFile :: "bool \<Rightarrow> int \<Rightarrow> user_row list \<Rightarrow> bytes \<Rightarrow> bytes \<Rightarrow> bytes \<Rightarrow> drive_db \<Rightarrow> string + SharedDriveFile" where
  "GetSharedFile ok now users recipientUserID tenantID fileID db =
     (if \<not> ok then Inl ''get shared file''
      else (case find (\<lambda>p. fi_FileID (fst p) = fileID) (shared_rows now recipientUserID tenantID db) of
              None \<Rightarrow> Inl ''get shared file'' | Some p \<Rightarrow> Inr (swap_keys users p)))"

subsection \<open>Shared folders and their epochs\<close>

definition GetFolderEpochKeysForUser :: "query_out \<Rightarrow> bytes \<Rightarrow> bytes \<Rightarrow> bytes \<Rightarrow> drive_db \<Rightarrow> string + DriveFolderEpochKey list" where
  "GetFolderEpochKeysForUser q folderID recipientUserID tenantID db =
     fetch q ''get folder epoch keys'' ''scan epoch key'' (sort_key fk_Epoch
       (filter (\<lambda>k. fk_FolderID k = folderID \<and> fk_RecipientUserID k = recipientUserID \<and> fk_TenantID k = tenantID) (dv_keys db)))"

definition GetEpochNameForFolder :: "bool \<Rightarrow> bytes \<Rightarrow> int \<Rightarrow> drive_db \<Rightarrow> string + bytes" where
  "GetEpochNameForFolder ok folderID epoch db =
     (if \<not> ok then Inl ''get epoch name''
      else (case find (\<lambda>n. fn_FolderID n = folderID \<and> fn_Epoch n = epoch) (dv_names db) of
              None \<Rightarrow> Inl ''get epoch name'' | Some n \<Rightarrow> Inr (fn_EncryptedName n)))"

text \<open>
  The query for the current epoch has one placeholder and is given two arguments, which the driver refuses.
\<close>

definition GetFolderEpochName :: "bool \<Rightarrow> bytes \<Rightarrow> int \<Rightarrow> drive_db \<Rightarrow> string + bytes" where
  "GetFolderEpochName ok folderID epoch db =
     (if \<not> ok \<or> epoch < 0 then Inl ''get folder epoch name''
      else (case find (\<lambda>n. fn_FolderID n = folderID \<and> fn_Epoch n = epoch) (dv_names db) of
              None \<Rightarrow> Inl ''get folder epoch name'' | Some n \<Rightarrow> Inr (fn_EncryptedName n)))"

definition ListFolderShareMembers :: "query_out \<Rightarrow> int \<Rightarrow> bytes \<Rightarrow> bytes \<Rightarrow> drive_db \<Rightarrow> string + DriveFolderShareMember list" where
  "ListFolderShareMembers q now folderID tenantID db =
     fetch q ''list folder share members'' ''scan folder share member'' (sort_key sm_CreatedAt
       (filter (\<lambda>m. sm_FolderID m = folderID \<and> sm_TenantID m = tenantID \<and> unexpired now (sm_ExpiresAt m)) (dv_members db)))"

text \<open>A folder and the folders above it, within the tenant.\<close>

definition parents_of :: "bytes \<Rightarrow> drive_db \<Rightarrow> DriveFolder list \<Rightarrow> DriveFolder list" where
  "parents_of tenantID db work =
     concat (map (\<lambda>a. filter (\<lambda>f. fo_ParentID a = Some (fo_FolderID f) \<and> fo_TenantID f = tenantID) (dv_folders db)) work)"

definition in_tenant :: "bytes \<Rightarrow> bytes \<Rightarrow> DriveFolder \<Rightarrow> bool" where
  "in_tenant folderID tenantID f = (fo_FolderID f = folderID \<and> fo_TenantID f = tenantID)"

definition ancestors :: "bytes \<Rightarrow> bytes \<Rightarrow> drive_db \<Rightarrow> DriveFolder list option" where
  "ancestors tenantID folderID db = cte (parents_of tenantID db) (filter (in_tenant folderID tenantID) (dv_folders db))"

definition member_of :: "int \<Rightarrow> bytes \<Rightarrow> bytes \<Rightarrow> DriveFolder list \<Rightarrow> DriveFolderShareMember \<Rightarrow> bool" where
  "member_of now userID tenantID fs m =
     (list_ex (\<lambda>f. fo_FolderID f = sm_FolderID m) fs \<and> sm_RecipientUserID m = userID \<and> sm_TenantID m = tenantID \<and> unexpired now (sm_ExpiresAt m))"

definition HasFolderShareAccess :: "bool \<Rightarrow> int \<Rightarrow> bytes \<Rightarrow> bytes \<Rightarrow> bytes \<Rightarrow> drive_db \<Rightarrow> (string + bool) option" where
  "HasFolderShareAccess ok now recipientUserID tenantID folderID db =
     (if \<not> ok then Some (Inl ''check folder share access'')
      else (case ancestors tenantID folderID db of
              None \<Rightarrow> None
            | Some fs \<Rightarrow> Some (Inr (length (filter (member_of now recipientUserID tenantID fs) (dv_members db)) > 0))))"


record EpochKeyWrap =
  kw_RecipientUserID :: bytes
  kw_WrappedFCK :: bytes
  kw_WrappedFCKEphPubkey :: bytes

record FCKFileWrapInput =
  fw_FileID :: bytes
  fw_FCKWrappedMessageKey :: bytes
  fw_Epoch :: int

record ShareFolderEpochInput =
  se_FolderID :: bytes
  se_OwnerUserID :: bytes
  se_TenantID :: bytes
  se_NewEpochKeyWraps :: "EpochKeyWrap list"
  se_EncryptedName :: bytes
  se_FileWraps :: "FCKFileWrapInput list"
  se_SubFolderNames :: "DriveFolderEpochName list"

text \<open>The loops of \<open>AdvanceFolderEpoch\<close>; the flags are those of the statements of the loop.\<close>

fun insert_wraps :: "(nat \<Rightarrow> bool) \<Rightarrow> nat \<Rightarrow> int \<Rightarrow> bytes \<Rightarrow> int \<Rightarrow> bytes \<Rightarrow> EpochKeyWrap list \<Rightarrow> drive_db \<Rightarrow> drive_db option" where
  "insert_wraps ok i now folderID epoch tenantID [] db = Some db"
| "insert_wraps ok i now folderID epoch tenantID (kw # kws) db =
     (if \<not> ok i \<or> key_exists folderID epoch (kw_RecipientUserID kw) db then None
      else insert_wraps ok (Suc i) now folderID epoch tenantID kws
             (db\<lparr>dv_keys := dv_keys db @ [new_key now folderID epoch (kw_RecipientUserID kw) tenantID (kw_WrappedFCK kw) (kw_WrappedFCKEphPubkey kw)]\<rparr>))"

definition upsert_name :: "bytes \<Rightarrow> int \<Rightarrow> bytes \<Rightarrow> drive_db \<Rightarrow> drive_db" where
  "upsert_name folderID epoch encryptedName db =
     (if name_exists folderID epoch db
      then db\<lparr>dv_names := update_list (\<lambda>n. fn_FolderID n = folderID \<and> fn_Epoch n = epoch) (\<lambda>n. n\<lparr>fn_EncryptedName := encryptedName\<rparr>) (dv_names db)\<rparr>
      else db\<lparr>dv_names := dv_names db @ [new_name folderID epoch encryptedName]\<rparr>)"

fun insert_subnames :: "(nat \<Rightarrow> bool) \<Rightarrow> nat \<Rightarrow> int \<Rightarrow> DriveFolderEpochName list \<Rightarrow> drive_db \<Rightarrow> drive_db option" where
  "insert_subnames ok i epoch [] db = Some db"
| "insert_subnames ok i epoch (sfn # sfns) db =
     (if \<not> ok i then None
      else insert_subnames ok (Suc i) epoch sfns (upsert_name (fn_FolderID sfn) epoch (fn_EncryptedName sfn) db))"

fun wrap_files :: "(nat \<Rightarrow> bool) \<Rightarrow> nat \<Rightarrow> (bytes \<Rightarrow> DriveFile \<Rightarrow> bool) \<Rightarrow> (FCKFileWrapInput \<Rightarrow> DriveFile \<Rightarrow> DriveFile) \<Rightarrow> FCKFileWrapInput list \<Rightarrow> drive_db \<Rightarrow> drive_db option" where
  "wrap_files ok i P g [] db = Some db"
| "wrap_files ok i P g (fw # fws) db =
     (if \<not> ok i then None
      else wrap_files ok (Suc i) P g fws (db\<lparr>dv_files := update_list (P (fw_FileID fw)) (g fw) (dv_files db)\<rparr>))"

definition advance_wrap :: "int \<Rightarrow> int \<Rightarrow> FCKFileWrapInput \<Rightarrow> DriveFile \<Rightarrow> DriveFile" where
  "advance_wrap now epoch fw x =
     x\<lparr>fi_FCKWrappedMessageKey := Some (fw_FCKWrappedMessageKey fw), fi_Epoch := epoch, fi_UpdatedAt := now\<rparr>"

definition bump_epoch :: "int \<Rightarrow> ShareFolderEpochInput \<Rightarrow> drive_db \<Rightarrow> drive_db" where
  "bump_epoch now inp db =
     db\<lparr>dv_folders := update_list (owned_folder (se_FolderID inp) (se_OwnerUserID inp) (se_TenantID inp))
          (\<lambda>f. f\<lparr>fo_CurrentEpoch := fo_CurrentEpoch f + 1, fo_UpdatedAt := now\<rparr>) (dv_folders db)\<rparr>"

text \<open>The transaction up to its commit, for the folder row \<open>f\<close> it found. The flags: statement group, index.\<close>

definition advance_tx :: "(nat \<Rightarrow> nat \<Rightarrow> bool) \<Rightarrow> int \<Rightarrow> ShareFolderEpochInput \<Rightarrow> int \<Rightarrow> drive_db \<Rightarrow> string + drive_db" where
  "advance_tx ok now inp epoch db =
     (case insert_wraps (ok 2) 0 now (se_FolderID inp) epoch (se_TenantID inp) (se_NewEpochKeyWraps inp) (bump_epoch now inp db) of
        None \<Rightarrow> Inl ''insert epoch key wrap''
      | Some db1 \<Rightarrow>
          if \<not> ok 3 0 \<or> name_exists (se_FolderID inp) epoch db1 then Inl ''insert epoch name''
          else (case insert_subnames (ok 4) 0 epoch (se_SubFolderNames inp)
                       (db1\<lparr>dv_names := dv_names db1 @ [new_name (se_FolderID inp) epoch (se_EncryptedName inp)]\<rparr>) of
                  None \<Rightarrow> Inl ''insert subfolder epoch name''
                | Some db2 \<Rightarrow>
                    (case wrap_files (ok 5) 0 (\<lambda>i. owned_file i (se_OwnerUserID inp) (se_TenantID inp)) (advance_wrap now epoch) (se_FileWraps inp) db2 of
                       None \<Rightarrow> Inl ''backfill file wrap''
                     | Some db3 \<Rightarrow> Inr db3)))"

definition AdvanceFolderEpoch ::
    "(nat \<Rightarrow> nat \<Rightarrow> bool) \<Rightarrow> db_out \<Rightarrow> int \<Rightarrow> ShareFolderEpochInput \<Rightarrow> drive_db \<Rightarrow> (string + int) \<times> drive_db" where
  "AdvanceFolderEpoch ok out now inp db =
     (if \<not> ok 0 0 then (Inl ''begin epoch advance tx'', db)
      else (case (if ok 1 0 then find (owned_folder (se_FolderID inp) (se_OwnerUserID inp) (se_TenantID inp)) (dv_folders db) else None) of
        None \<Rightarrow> (Inl ''advance epoch'', db)
      | Some f \<Rightarrow>
          (case advance_tx ok now inp (fo_CurrentEpoch f + 1) db of
             Inl e \<Rightarrow> (Inl e, db)
           | Inr db' \<Rightarrow>
               (case commit out db' db of
                  (Some e, d) \<Rightarrow> (Inl ''commit epoch advance'', d)
                | (None, d) \<Rightarrow> (Inr (fo_CurrentEpoch f + 1), d)))))"

definition AddFolderShareMember :: "db_out \<Rightarrow> int \<Rightarrow> DriveFolderShareMember \<Rightarrow> drive_db \<Rightarrow> string option \<times> drive_db" where
  "AddFolderShareMember out now m0 db =
     (let m = m0\<lparr>sm_CreatedAt := now\<rparr>;
          same = (\<lambda>x. sm_FolderID x = sm_FolderID m \<and> sm_RecipientUserID x = sm_RecipientUserID m)
      in exec out ''add folder share member''
           (if list_ex same (dv_members db)
            then db\<lparr>dv_members := update_list same (\<lambda>x. x\<lparr>sm_JoinedEpoch := sm_JoinedEpoch m, sm_PastEpochAccess := sm_PastEpochAccess m,
                   sm_CanEdit := sm_CanEdit m, sm_ExpiresAt := sm_ExpiresAt m\<rparr>) (dv_members db)\<rparr>
            else db\<lparr>dv_members := dv_members db @ [m]\<rparr>) db)"

definition insert_key :: "DriveFolderEpochKey \<Rightarrow> drive_db \<Rightarrow> drive_db" where
  "insert_key k db =
     (if key_exists (fk_FolderID k) (fk_Epoch k) (fk_RecipientUserID k) db then db else db\<lparr>dv_keys := dv_keys db @ [k]\<rparr>)"

text \<open>
  The loop over the epochs. The inner loop over the wraps leaves at its first round, so that every epoch gets the
  first wrap.
\<close>

fun backfill_epochs :: "(nat \<Rightarrow> db_out) \<Rightarrow> nat \<Rightarrow> int \<Rightarrow> bytes \<Rightarrow> bytes \<Rightarrow> bytes \<Rightarrow> EpochKeyWrap list \<Rightarrow> int list \<Rightarrow> drive_db \<Rightarrow> string option \<times> drive_db" where
  "backfill_epochs out i now folderID recipientUserID tenantID wraps [] db = (None, db)"
| "backfill_epochs out i now folderID recipientUserID tenantID wraps (epoch # epochs) db =
     (case wraps of
        [] \<Rightarrow> backfill_epochs out i now folderID recipientUserID tenantID wraps epochs db
      | kw # _ \<Rightarrow>
          (case exec (out i) ''backfill epoch key''
                  (insert_key (new_key now folderID epoch recipientUserID tenantID (kw_WrappedFCK kw) (kw_WrappedFCKEphPubkey kw)) db) db of
             (Some e, d) \<Rightarrow> (Some e, d)
           | (None, d) \<Rightarrow> backfill_epochs out (Suc i) now folderID recipientUserID tenantID wraps epochs d))"

definition BackfillEpochKeysForMember ::
    "(nat \<Rightarrow> db_out) \<Rightarrow> int \<Rightarrow> bytes \<Rightarrow> bytes \<Rightarrow> bytes \<Rightarrow> EpochKeyWrap list \<Rightarrow> int \<Rightarrow> int \<Rightarrow> drive_db \<Rightarrow> string option \<times> drive_db" where
  "BackfillEpochKeysForMember out now folderID recipientUserID tenantID wraps fromEpoch toEpoch db =
     backfill_epochs out 0 now folderID recipientUserID tenantID wraps [fromEpoch..toEpoch - 1] db"

definition RemoveFolderShareMember :: "(nat \<Rightarrow> bool) \<Rightarrow> db_out \<Rightarrow> bytes \<Rightarrow> bytes \<Rightarrow> bytes \<Rightarrow> drive_db \<Rightarrow> string option \<times> drive_db" where
  "RemoveFolderShareMember ok out folderID recipientUserID tenantID db =
     (if \<not> ok 0 then (Some ''begin remove member tx'', db)
      else if \<not> ok 1 then (Some ''delete folder share member'', db)
      else if \<not> ok 2 then (Some ''delete epoch keys for removed member'', db)
      else commit out (db\<lparr>
        dv_members := filter (\<lambda>m. \<not> (sm_FolderID m = folderID \<and> sm_RecipientUserID m = recipientUserID \<and> sm_TenantID m = tenantID)) (dv_members db),
        dv_keys := filter (\<lambda>k. \<not> (fk_FolderID k = folderID \<and> fk_RecipientUserID k = recipientUserID \<and> fk_TenantID k = tenantID)) (dv_keys db)\<rparr>) db)"

record SharedFolderEntry =
  sf_DriveFolder :: DriveFolder
  sf_OwnerAddress :: string
  sf_CanEdit :: bool
  sf_JoinedEpoch :: int
  sf_PastEpochAccess :: bool
  sf_EncryptedName :: "bytes option"
  sf_WrappedFCK :: "bytes option"
  sf_WrappedFCKEphPubkey :: "bytes option"

definition current_name :: "DriveFolder \<Rightarrow> drive_db \<Rightarrow> bytes option" where
  "current_name f db =
     map_option fn_EncryptedName (find (\<lambda>n. fn_FolderID n = fo_FolderID f \<and> fn_Epoch n = fo_CurrentEpoch f) (dv_names db))"

definition ListSharedFolderContents ::
    "query_out \<Rightarrow> query_out \<Rightarrow> user_row list \<Rightarrow> bytes \<Rightarrow> bytes \<Rightarrow> drive_db \<Rightarrow> string + SharedDriveFile list \<times> SharedFolderEntry list" where
  "ListSharedFolderContents q1 q2 users tenantID folderID db =
     (case fetch q1 ''list shared folder files'' ''scan shared folder file''
             (map (\<lambda>x. (x, owner_address users (fi_UserID x))) (sort_key (\<lambda>x. - fi_CreatedAt x)
               (filter (\<lambda>x. fi_FolderID x = Some folderID \<and> fi_TenantID x = tenantID \<and> \<not> fi_Trashed x \<and> fi_UploadComplete x) (dv_files db)))) of
        Inl e \<Rightarrow> Inl e
      | Inr files \<Rightarrow>
          (case fetch q2 ''list shared folder subfolders'' ''scan shared subfolder''
                  (map (\<lambda>f. \<lparr>sf_DriveFolder = f, sf_OwnerAddress = owner_address users (fo_UserID f), sf_CanEdit = False, sf_JoinedEpoch = 0,
                             sf_PastEpochAccess = False, sf_EncryptedName = current_name f db, sf_WrappedFCK = None, sf_WrappedFCKEphPubkey = None\<rparr>)
                    (sort_key fo_CreatedAt (filter (\<lambda>f. fo_ParentID f = Some folderID \<and> fo_TenantID f = tenantID) (dv_folders db)))) of
             Inl e \<Rightarrow> Inl e
           | Inr folders \<Rightarrow> Inr (files, folders)))"


text \<open>The ancestors with their distance; the nearest that has a share, expired or not.\<close>

definition parents_depth :: "bytes \<Rightarrow> drive_db \<Rightarrow> (DriveFolder \<times> int) list \<Rightarrow> (DriveFolder \<times> int) list" where
  "parents_depth tenantID db work =
     concat (map (\<lambda>a. map (\<lambda>f. (f, snd a + 1))
       (filter (\<lambda>f. fo_ParentID (fst a) = Some (fo_FolderID f) \<and> fo_TenantID f = tenantID) (dv_folders db))) work)"

definition has_share :: "drive_db \<Rightarrow> DriveFolder \<Rightarrow> bool" where
  "has_share db f = list_ex (\<lambda>m. sm_FolderID m = fo_FolderID f) (dv_members db)"

definition share_roots :: "drive_db \<Rightarrow> (DriveFolder \<times> int) list \<Rightarrow> (bytes \<times> int) list" where
  "share_roots db anc =
     concat (map (\<lambda>a. map (\<lambda>df. (fo_FolderID (fst a), fo_CurrentEpoch df)) (filter (\<lambda>df. fo_FolderID df = fo_FolderID (fst a)) (dv_folders db)))
       (sort_key snd (filter (\<lambda>a. has_share db (fst a)) anc)))"

definition GetShareRootForFolder :: "bool \<Rightarrow> bytes \<Rightarrow> bytes \<Rightarrow> drive_db \<Rightarrow> (string + bytes \<times> int) option" where
  "GetShareRootForFolder ok tenantID folderID db =
     (if \<not> ok then Some (Inl ''query'')
      else (case cte (parents_depth tenantID db) (map (\<lambda>f. (f, 0)) (filter (in_tenant folderID tenantID) (dv_folders db))) of
              None \<Rightarrow> None
            | Some anc \<Rightarrow> (case share_roots db anc of [] \<Rightarrow> Some (Inl ''no rows in result set'') | r # _ \<Rightarrow> Some (Inr r))))"

text \<open>The result: whether the user can write, and the owner.\<close>

definition CanWriteToFolder :: "(nat \<Rightarrow> bool) \<Rightarrow> int \<Rightarrow> bytes \<Rightarrow> bytes \<Rightarrow> bytes \<Rightarrow> drive_db \<Rightarrow> (string + bool \<times> bytes) option" where
  "CanWriteToFolder ok now userID tenantID folderID db =
     (case (if ok 0 then find (in_tenant folderID tenantID) (dv_folders db) else None) of
        None \<Rightarrow> Some (Inl ''lookup folder owner'')
      | Some f \<Rightarrow>
          if fo_UserID f = userID then Some (Inr (True, fo_UserID f))
          else if \<not> ok 1 then Some (Inl ''check folder write access'')
          else (case ancestors tenantID folderID db of
                  None \<Rightarrow> None
                | Some fs \<Rightarrow> Some (Inr (length (filter (\<lambda>m. member_of now userID tenantID fs m \<and> sm_CanEdit m) (dv_members db)) > 0, fo_UserID f))))"

record FolderShareParty =
  sp_UserID :: bytes
  sp_Address :: string
  sp_PublicKey :: bytes
  sp_PublicKeyKEM :: bytes

definition party :: "user_row \<Rightarrow> FolderShareParty" where
  "party u = \<lparr>sp_UserID = uw_UserID u, sp_Address = uw_Address u, sp_PublicKey = uw_PublicKeyEncryption u, sp_PublicKeyKEM = uw_PublicKeyKEM u\<rparr>"

definition GetFolderShareParties ::
    "bool \<Rightarrow> query_out \<Rightarrow> int \<Rightarrow> user_row list \<Rightarrow> bytes \<Rightarrow> bytes \<Rightarrow> drive_db \<Rightarrow> string + FolderShareParty \<times> FolderShareParty list" where
  "GetFolderShareParties ok q now users folderID tenantID db =
     (case (if ok then concat (map (\<lambda>f. filter (by_id (fo_UserID f)) users) (filter (in_tenant folderID tenantID) (dv_folders db))) else []) of
        [] \<Rightarrow> Inl ''lookup folder owner''
      | ow # _ \<Rightarrow>
          (case fetch q ''list folder share parties'' ''scan party''
                  (concat (map (\<lambda>m. map party (filter (by_id (sm_RecipientUserID m)) users))
                    (filter (\<lambda>m. sm_FolderID m = folderID \<and> sm_TenantID m = tenantID \<and> unexpired now (sm_ExpiresAt m)) (dv_members db)))) of
             Inl e \<Rightarrow> Inl e | Inr recipients \<Rightarrow> Inr (party ow, recipients)))"

text \<open>\<open>upload_complete\<close> is left to the schema: \<open>dflt\<close>.\<close>

definition CreateFileViaSharedFolder :: "db_out \<Rightarrow> bool \<Rightarrow> bytes \<Rightarrow> int \<Rightarrow> DriveFile \<Rightarrow> drive_db \<Rightarrow> string option \<times> drive_db" where
  "CreateFileViaSharedFolder out dflt newID now x db =
     insert_file out ''create shared folder file'' ((new_file newID now x)\<lparr>fi_UploadComplete := dflt\<rparr>) db"

definition CreateFolderViaSharedFolder :: "(nat \<Rightarrow> bool) \<Rightarrow> db_out \<Rightarrow> bytes \<Rightarrow> int \<Rightarrow> DriveFolder \<Rightarrow> bytes \<Rightarrow> drive_db \<Rightarrow> string option \<times> drive_db" where
  "CreateFolderViaSharedFolder ok out newID now folder encryptedName db =
     (let f = new_folder newID now folder in
      if \<not> ok 0 then (Some ''begin create shared subfolder tx'', db)
      else if \<not> ok 1 \<or> folder_exists (fo_FolderID f) db then (Some ''insert shared subfolder'', db)
      else if \<not> ok 2 \<or> name_exists (fo_FolderID f) 0 db then (Some ''insert subfolder epoch name'', db)
      else commit out (db\<lparr>dv_folders := dv_folders db @ [f], dv_names := dv_names db @ [new_name (fo_FolderID f) 0 encryptedName]\<rparr>) db)"

definition ListFilesInFolderRecursive :: "query_out \<Rightarrow> bytes \<Rightarrow> bytes \<Rightarrow> bytes \<Rightarrow> drive_db \<Rightarrow> (string + DriveFile list) option" where
  "ListFilesInFolderRecursive q ownerUserID tenantID rootFolderID db =
     map_option (\<lambda>fs. fetch q ''list files in folder recursive'' ''scan recursive file''
         (filter (\<lambda>x. in_folders fs x \<and> fi_UserID x = ownerUserID \<and> fi_TenantID x = tenantID \<and> \<not> fi_Trashed x) (dv_files db)))
       (subfolders ownerUserID tenantID rootFolderID db)"

definition ListSubfoldersRecursive :: "query_out \<Rightarrow> bytes \<Rightarrow> bytes \<Rightarrow> bytes \<Rightarrow> drive_db \<Rightarrow> (string + DriveFolder list) option" where
  "ListSubfoldersRecursive q ownerUserID tenantID rootFolderID db =
     map_option (fetch q ''list subfolders recursive'' ''scan recursive folder'')
       (cte (children_of ownerUserID tenantID db)
         (filter (\<lambda>f. fo_ParentID f = Some rootFolderID \<and> fo_UserID f = ownerUserID \<and> fo_TenantID f = tenantID) (dv_folders db)))"

definition BackfillFCKFileWraps :: "(nat \<Rightarrow> bool) \<Rightarrow> bool \<Rightarrow> db_out \<Rightarrow> int \<Rightarrow> bytes \<Rightarrow> bytes \<Rightarrow> FCKFileWrapInput list \<Rightarrow> drive_db \<Rightarrow> string option \<times> drive_db" where
  "BackfillFCKFileWraps ok ok_begin out now ownerUserID tenantID wraps db =
     (if wraps = [] then (None, db)
      else if \<not> ok_begin then (Some ''begin backfill tx'', db)
      else (case wrap_files ok 0 (\<lambda>i x. owned_file i ownerUserID tenantID x \<and> fi_FCKWrappedMessageKey x = None)
                   (\<lambda>fw x. x\<lparr>fi_FCKWrappedMessageKey := Some (fw_FCKWrappedMessageKey fw), fi_UpdatedAt := now\<rparr>) wraps db of
              None \<Rightarrow> (Some ''backfill file wrap'', db)
            | Some db' \<Rightarrow> commit out db' db))"

definition GetFolderByID :: "query_out \<Rightarrow> bytes \<Rightarrow> drive_db \<Rightarrow> string + DriveFolder" where
  "GetFolderByID q folderID db =
     fetch_one q ''get folder by id'' ''folder not found'' (filter (\<lambda>f. fo_FolderID f = folderID) (dv_folders db))"

text \<open>The folders below a folder, whoever owns them.\<close>

definition all_children :: "drive_db \<Rightarrow> DriveFolder list \<Rightarrow> DriveFolder list" where
  "all_children db work = concat (map (\<lambda>t. filter (\<lambda>f. fo_ParentID f = Some (fo_FolderID t)) (dv_folders db)) work)"

definition ListFilesInFolderByID :: "query_out \<Rightarrow> bytes \<Rightarrow> drive_db \<Rightarrow> (string + DriveFile list) option" where
  "ListFilesInFolderByID q rootFolderID db =
     map_option (\<lambda>fs. fetch q ''list files in folder by id'' ''scan file'' (filter (\<lambda>x. in_folders fs x \<and> \<not> fi_Trashed x) (dv_files db)))
       (cte (all_children db) (filter (\<lambda>f. fo_FolderID f = rootFolderID) (dv_folders db)))"

definition ListSubfoldersByID :: "query_out \<Rightarrow> bytes \<Rightarrow> drive_db \<Rightarrow> (string + DriveFolder list) option" where
  "ListSubfoldersByID q rootFolderID db =
     map_option (fetch q ''list subfolders by id'' ''scan subfolder'')
       (cte (all_children db) (filter (\<lambda>f. fo_ParentID f = Some rootFolderID) (dv_folders db)))"

definition shared_entry :: "user_row list \<Rightarrow> bytes \<Rightarrow> drive_db \<Rightarrow> DriveFolderShareMember \<Rightarrow> DriveFolder \<Rightarrow> SharedFolderEntry" where
  "shared_entry users recipientUserID db m f =
     (let k = find (\<lambda>k. fk_FolderID k = fo_FolderID f \<and> fk_Epoch k = fo_CurrentEpoch f \<and> fk_RecipientUserID k = recipientUserID) (dv_keys db) in
      \<lparr>sf_DriveFolder = f, sf_OwnerAddress = owner_address users (fo_UserID f), sf_CanEdit = sm_CanEdit m, sf_JoinedEpoch = sm_JoinedEpoch m,
       sf_PastEpochAccess = sm_PastEpochAccess m, sf_EncryptedName = current_name f db,
       sf_WrappedFCK = map_option fk_WrappedFCK k, sf_WrappedFCKEphPubkey = map_option fk_WrappedFCKEphPubkey k\<rparr>)"

definition ListFolderSharesForRecipient :: "query_out \<Rightarrow> int \<Rightarrow> user_row list \<Rightarrow> bytes \<Rightarrow> bytes \<Rightarrow> drive_db \<Rightarrow> string + SharedFolderEntry list" where
  "ListFolderSharesForRecipient q now users recipientUserID tenantID db =
     fetch q ''list folder shares for recipient'' ''scan shared folder entry''
       (concat (map (\<lambda>m. map (shared_entry users recipientUserID db m) (filter (\<lambda>f. fo_FolderID f = sm_FolderID m) (dv_folders db)))
         (sort_key (\<lambda>m. - sm_CreatedAt m)
           (filter (\<lambda>m. sm_RecipientUserID m = recipientUserID \<and> sm_TenantID m = tenantID \<and> unexpired now (sm_ExpiresAt m)) (dv_members db)))))"

definition ListSharedIDs :: "query_out \<Rightarrow> query_out \<Rightarrow> bytes \<Rightarrow> bytes \<Rightarrow> drive_db \<Rightarrow> string + bytes list \<times> bytes list" where
  "ListSharedIDs q1 q2 userID tenantID db =
     (let mine = filter (\<lambda>s. sh_UserID s = userID \<and> sh_TenantID s = tenantID) (dv_shares db) in
      case fetch q1 ''list shared file ids'' ''scan shared file id'' (remdups (List.map_filter sh_FileID mine)) of
        Inl e \<Rightarrow> Inl e
      | Inr fileIDs \<Rightarrow>
          (case fetch q2 ''list shared folder ids'' ''scan shared folder id''
                  (remdups (List.map_filter sh_FolderID mine
                    @ map sm_FolderID (filter (\<lambda>m. sm_OwnerUserID m = userID \<and> sm_TenantID m = tenantID) (dv_members db)))) of
             Inl e \<Rightarrow> Inl e | Inr folderIDs \<Rightarrow> Inr (fileIDs, folderIDs)))"

declare cte.simps [code]

end
