(* ===== verification/Drive_Props.thy ===== *)
theory Drive_Props
  imports Drive Acct_Props "HOL-Library.Multiset"
begin

text \<open>
  Properties of the drive: the recursive queries decide reachability and return exactly where no cycle of folders is in their way;
  access to shared folders; the keys of a removed member; deletion of a folder with its files; uploads in chunks.
\<close>

subsection \<open>Recursive queries\<close>

definition next_row :: "('a \<Rightarrow> 'a list) \<Rightarrow> 'a \<Rightarrow> 'a \<Rightarrow> bool" where
  "next_row succs x y = (y \<in> set (succs x))"

lemma cte_induct [consumes 1, case_names empty again]:
  assumes "cte s w = Some r" "P [] []" "\<And>w rest. w \<noteq> [] \<Longrightarrow> P (s w) rest \<Longrightarrow> P w (w @ rest)"
  shows "P w r"
proof -
  have "s = s \<longrightarrow> P w r"
    by (rule cte.raw_induct [where P = "\<lambda>s' w r. s' = s \<longrightarrow> P w r", OF _ assms(1)])
      (use assms(2,3) in \<open>auto simp: Option.bind_eq_Some_conv split: if_splits\<close>)
  then show ?thesis by simp
qed

text \<open>The contract of a query whose rounds join every row with its successors.\<close>

locale recursive_query =
  fixes step :: "'a list \<Rightarrow> 'a list" and succs :: "'a \<Rightarrow> 'a list"
  assumes step_succs: "step w = concat (map succs w)"
begin

lemma step_rows: "y \<in> set (step w) \<longleftrightarrow> (\<exists>x\<in>set w. next_row succs x y)"
  by (auto simp: step_succs next_row_def)

lemma cte_rows:
  assumes "cte step w = Some r"
  shows "y \<in> set r \<longleftrightarrow> (\<exists>x\<in>set w. (next_row succs)\<^sup>*\<^sup>* x y)"
  using assms
proof (induction rule: cte_induct)
  case (again w rest)
  have "y \<in> set rest \<longleftrightarrow> (\<exists>x\<in>set w. \<exists>z. next_row succs x z \<and> (next_row succs)\<^sup>*\<^sup>* z y)"
    unfolding again(2) using step_rows by blast
  then show ?case
    unfolding set_append Un_iff by (blast intro: converse_rtranclp_into_rtranclp elim: converse_rtranclpE)
qed simp

lemma cte_accessible:
  assumes "cte step w = Some r" "x \<in> set w"
  shows "Wellfounded.accp (\<lambda>a b. next_row succs b a) x"
proof -
  from assms(1) have "\<forall>x\<in>set w. Wellfounded.accp (\<lambda>a b. next_row succs b a) x"
  proof (induction rule: cte_induct)
    case (again w rest)
    then show ?case using step_rows by (blast intro: accp.accI)
  qed simp
  then show ?thesis using assms(2) by blast
qed

lemma cyclic_not_accessible: "Wellfounded.accp (\<lambda>a b. next_row succs b a) x \<Longrightarrow> (next_row succs)\<^sup>+\<^sup>+ x x \<Longrightarrow> False"
proof (induction rule: accp.induct)
  case (accI x)
  then obtain y where y: "next_row succs x y" "(next_row succs)\<^sup>*\<^sup>* y x" by (meson tranclpD)
  then have "(next_row succs)\<^sup>+\<^sup>+ y y" by (meson rtranclp_into_tranclp1)
  then show ?case using accI.IH y(1) by blast
qed

lemma reach_accessible:
  "(next_row succs)\<^sup>*\<^sup>* x y \<Longrightarrow> Wellfounded.accp (\<lambda>a b. next_row succs b a) x \<Longrightarrow> Wellfounded.accp (\<lambda>a b. next_row succs b a) y"
  by (induction rule: rtranclp_induct) (auto intro: accp_downward)

text \<open>The query returns exactly if no cycle is reachable from its first rows.\<close>

lemma cte_returns:
  assumes "finite U" "set w \<subseteq> U" "\<And>x. x \<in> U \<Longrightarrow> set (succs x) \<subseteq> U"
  shows "(\<exists>r. cte step w = Some r) \<longleftrightarrow> \<not> (\<exists>x\<in>set w. \<exists>y. (next_row succs)\<^sup>*\<^sup>* x y \<and> (next_row succs)\<^sup>+\<^sup>+ y y)"
proof
  assume "\<exists>r. cte step w = Some r"
  then show "\<not> (\<exists>x\<in>set w. \<exists>y. (next_row succs)\<^sup>*\<^sup>* x y \<and> (next_row succs)\<^sup>+\<^sup>+ y y)"
    using cte_accessible reach_accessible cyclic_not_accessible by blast
next
  assume no: "\<not> (\<exists>x\<in>set w. \<exists>y. (next_row succs)\<^sup>*\<^sup>* x y \<and> (next_row succs)\<^sup>+\<^sup>+ y y)"
  define V where "V = {y. \<exists>x\<in>set w. (next_row succs)\<^sup>*\<^sup>* x y}"
  define rel where "rel = {(y, x). x \<in> V \<and> next_row succs x y}"
  have inU: "y \<in> U" if "(next_row succs)\<^sup>*\<^sup>* x y" "x \<in> set w" for x y
    using that by (induction rule: rtranclp_induct) (use assms(2,3) in \<open>auto simp: next_row_def\<close>)
  have closed: "y \<in> V" if "x \<in> V" "next_row succs x y" for x y
    using that unfolding V_def by (blast intro: rtranclp.rtrancl_into_rtrancl)
  have "rel \<subseteq> U \<times> U" using closed inU by (auto simp: rel_def V_def)
  then have "finite rel" using assms(1) finite_subset by blast
  moreover have path: "(next_row succs)\<^sup>+\<^sup>+ x y \<and> x \<in> V" if "(y, x) \<in> rel\<^sup>+" for x y
    using that
  proof (induction rule: trancl_induct)
    case (base z)
    then show ?case by (auto simp: rel_def)
  next
    case (step a b)
    then show ?case by (auto simp: rel_def intro: tranclp_into_tranclp2)
  qed
  have "acyclic rel" unfolding acyclic_def using path no by (auto simp: V_def)
  ultimately have wf: "wf (mult rel)" by (intro wf_mult finite_acyclic_wf)
  have "\<exists>r. cte step v = Some r" if "set v \<subseteq> V" for v
    using that
  proof (induction "mset v" arbitrary: v rule: wf_induct_rule [OF wf])
    case (1 v)
    show ?case
    proof (cases "v = []")
      case False
      have "({#} + mset (step v), {#} + mset v) \<in> mult rel"
        using False 1(2) by (intro one_step_implies_mult) (auto simp: step_rows rel_def, blast)
      moreover have "set (step v) \<subseteq> V" using 1(2) closed unfolding subset_iff step_rows by blast
      ultimately obtain r where "cte step (step v) = Some r" using 1(1) by fastforce
      then show ?thesis using False by (subst cte.simps) simp
    qed (subst cte.simps, simp)
  qed
  moreover have "set w \<subseteq> V" by (auto simp: V_def)
  ultimately show "\<exists>r. cte step w = Some r" by blast
qed

end


subsection \<open>Access to shared folders\<close>

text \<open>The parents of a folder in its tenant, and the children a user owns.\<close>

definition parent_rows :: "bytes \<Rightarrow> drive_db \<Rightarrow> DriveFolder \<Rightarrow> DriveFolder list" where
  "parent_rows tenantID db a = filter (\<lambda>f. fo_ParentID a = Some (fo_FolderID f) \<and> fo_TenantID f = tenantID) (dv_folders db)"

definition child_rows :: "bytes \<Rightarrow> bytes \<Rightarrow> drive_db \<Rightarrow> DriveFolder \<Rightarrow> DriveFolder list" where
  "child_rows userID tenantID db t =
     filter (\<lambda>f. fo_ParentID f = Some (fo_FolderID t) \<and> fo_UserID f = userID \<and> fo_TenantID f = tenantID) (dv_folders db)"

interpretation up: recursive_query "parents_of tenantID db" "parent_rows tenantID db" for tenantID db
  by unfold_locales (simp add: parents_of_def parent_rows_def [abs_def])

interpretation down: recursive_query "children_of userID tenantID db" "child_rows userID tenantID db" for userID tenantID db
  by unfold_locales (simp add: children_of_def child_rows_def [abs_def])

interpretation public: recursive_query "all_children db" "\<lambda>t. filter (\<lambda>f. fo_ParentID f = Some (fo_FolderID t)) (dv_folders db)" for db
  by unfold_locales (simp add: all_children_def)

text \<open>A folder lies in or below another.\<close>

abbreviation below :: "bytes \<Rightarrow> drive_db \<Rightarrow> DriveFolder \<Rightarrow> DriveFolder \<Rightarrow> bool" where
  "below tenantID db \<equiv> (next_row (parent_rows tenantID db))\<^sup>*\<^sup>*"

text \<open>The folder is in or below one that is its own ancestor.\<close>

definition in_cycle :: "bytes \<Rightarrow> bytes \<Rightarrow> drive_db \<Rightarrow> bool" where
  "in_cycle tenantID folderID db =
     (\<exists>f g. f \<in> set (dv_folders db) \<and> in_tenant folderID tenantID f \<and> below tenantID db f g \<and> (next_row (parent_rows tenantID db))\<^sup>+\<^sup>+ g g)"

text \<open>A valid share of the folder or of one above it, that satisfies \<open>Q\<close>.\<close>

definition granted :: "(DriveFolderShareMember \<Rightarrow> bool) \<Rightarrow> int \<Rightarrow> bytes \<Rightarrow> bytes \<Rightarrow> bytes \<Rightarrow> drive_db \<Rightarrow> bool" where
  "granted Q now userID tenantID folderID db =
     (\<exists>f g m. f \<in> set (dv_folders db) \<and> in_tenant folderID tenantID f \<and> below tenantID db f g
        \<and> m \<in> set (dv_members db) \<and> sm_FolderID m = fo_FolderID g \<and> sm_RecipientUserID m = userID \<and> sm_TenantID m = tenantID
        \<and> unexpired now (sm_ExpiresAt m) \<and> Q m)"

lemma ancestors_returns: "(\<exists>fs. ancestors tenantID folderID db = Some fs) \<longleftrightarrow> \<not> in_cycle tenantID folderID db"
  unfolding ancestors_def
  by (subst up.cte_returns [of "set (dv_folders db)"]) (auto simp: parent_rows_def in_cycle_def)

lemma ancestors_granted:
  assumes "ancestors tenantID folderID db = Some fs"
  shows "(\<exists>m\<in>set (dv_members db). member_of now userID tenantID fs m \<and> Q m) \<longleftrightarrow> granted Q now userID tenantID folderID db"
proof -
  have fs: "g \<in> set fs \<longleftrightarrow> (\<exists>f\<in>set (dv_folders db). in_tenant folderID tenantID f \<and> below tenantID db f g)" for g
    using up.cte_rows [OF assms [unfolded ancestors_def]] by auto
  have "list_ex (\<lambda>f. fo_FolderID f = i) fs \<longleftrightarrow>
      (\<exists>f\<in>set (dv_folders db). in_tenant folderID tenantID f \<and> (\<exists>g. below tenantID db f g \<and> i = fo_FolderID g))" for i
    using fs by (auto simp: list_ex_iff)
  then show ?thesis unfolding granted_def member_of_def by blast
qed

text \<open>
  C23: who may read and write a shared folder: the question is answered exactly if the folder is not in or below a folder that is its
  own ancestor, by whether the folder or one above it is shared with the user by a share that has not expired (for
  writing, one that allows editing); the owner may write.
\<close>

theorem access_by_ancestors:
  "(HasFolderShareAccess True now userID tenantID folderID db =
      (if in_cycle tenantID folderID db then None else Some (Inr (granted (\<lambda>_. True) now userID tenantID folderID db))))
   \<and> (find (in_tenant folderID tenantID) (dv_folders db) = Some f \<longrightarrow>
       CanWriteToFolder (\<lambda>_. True) now userID tenantID folderID db =
         (if fo_UserID f = userID then Some (Inr (True, userID))
          else if in_cycle tenantID folderID db then None
          else Some (Inr (granted sm_CanEdit now userID tenantID folderID db, fo_UserID f))))"
proof (cases "in_cycle tenantID folderID db")
  case True
  then have "ancestors tenantID folderID db = None" using ancestors_returns by (metis not_None_eq)
  then show ?thesis using True by (simp add: HasFolderShareAccess_def CanWriteToFolder_def)
next
  case False
  then obtain fs where fs: "ancestors tenantID folderID db = Some fs" using ancestors_returns by blast
  have "0 < length (filter (\<lambda>m. member_of now userID tenantID fs m \<and> Q m) (dv_members db)) \<longleftrightarrow> granted Q now userID tenantID folderID db" for Q
    using ancestors_granted [OF fs, of now userID Q] by (auto simp: filter_empty_conv)
  from this [of "\<lambda>_. True"] this [of sm_CanEdit] show ?thesis using False fs
    by (simp add: HasFolderShareAccess_def CanWriteToFolder_def)
qed

text \<open>Moving a folder into itself is not refused, and then no access query for it returns.\<close>

lemma moved_into_itself_diverges:
  assumes "f \<in> set (dv_folders db)" "uuid = fo_FolderID f"
    and "db' = snd (UpdateFolder DbOk t (f\<lparr>fo_ParentID := Some uuid\<rparr>) db)"
  shows "HasFolderShareAccess True now userID (fo_TenantID f) uuid db' = None"
proof -
  define g where "g = f\<lparr>fo_ParentID := Some uuid, fo_UpdatedAt := t\<rparr>"
  have "g \<in> set (dv_folders db')"
    using assms by (auto simp: UpdateFolder_def exec_rows_def exec_def update_list_def owned_folder_def g_def)
  moreover from this have "next_row (parent_rows (fo_TenantID f) db') g g"
    using assms(2) by (simp add: next_row_def parent_rows_def g_def)
  ultimately have "in_cycle (fo_TenantID f) uuid db'"
    using assms(2) unfolding in_cycle_def in_tenant_def by (metis g_def DriveFolder.select_convs(1,3) DriveFolder.surjective DriveFolder.update_convs(4,7) rtranclp.rtrancl_refl tranclp.r_into_trancl)
  then have "ancestors (fo_TenantID f) uuid db' = None" using ancestors_returns by (metis not_None_eq)
  then show ?thesis by (simp add: HasFolderShareAccess_def)
qed


subsection \<open>Lemmas: effects on keys and members\<close>

lemma exec_rows_snd: "snd (exec_rows out msg missing found db' db) = snd (exec out msg db' db)"
  by (simp add: exec_rows_def case_prod_beta split: option.split)

lemma commit_snd: "snd (commit out db' db) = db \<or> snd (commit out db' db) = db'"
  by (simp add: commit_def exec_snd)

definition wrap_key :: "int \<Rightarrow> bytes \<Rightarrow> int \<Rightarrow> bytes \<Rightarrow> EpochKeyWrap \<Rightarrow> DriveFolderEpochKey" where
  "wrap_key now folderID epoch tenantID kw =
     new_key now folderID epoch (kw_RecipientUserID kw) tenantID (kw_WrappedFCK kw) (kw_WrappedFCKEphPubkey kw)"

lemma wrap_key_select [simp]:
  "fk_FolderID (wrap_key now i e t kw) = i" "fk_Epoch (wrap_key now i e t kw) = e" "fk_TenantID (wrap_key now i e t kw) = t"
  "fk_RecipientUserID (wrap_key now i e t kw) = kw_RecipientUserID kw" "fk_WrappedFCK (wrap_key now i e t kw) = kw_WrappedFCK kw"
  by (simp_all add: wrap_key_def new_key_def)

lemma insert_wraps_effect:
  "insert_wraps ok i now folderID epoch tenantID kws db = Some db' \<Longrightarrow>
     db' = db\<lparr>dv_keys := dv_keys db @ map (wrap_key now folderID epoch tenantID) kws\<rparr>"
proof (induction kws arbitrary: i db)
  case (Cons a kws)
  then have "insert_wraps ok (Suc i) now folderID epoch tenantID kws (db\<lparr>dv_keys := dv_keys db @ [wrap_key now folderID epoch tenantID a]\<rparr>) = Some db'"
    by (auto simp: wrap_key_def split: if_splits)
  from Cons.IH [OF this] show ?case by simp
qed simp

text \<open>The tables that the other statements of a transaction leave alone.\<close>

lemma insert_subnames_effect:
  "insert_subnames ok i epoch sfns db = Some db' \<Longrightarrow>
     dv_keys db' = dv_keys db \<and> dv_members db' = dv_members db \<and> dv_folders db' = dv_folders db \<and> dv_files db' = dv_files db"
proof (induction sfns arbitrary: i db)
  case (Cons a sfns)
  then have "insert_subnames ok (Suc i) epoch sfns (upsert_name (fn_FolderID a) epoch (fn_EncryptedName a) db) = Some db'"
    by (auto split: if_splits)
  from Cons.IH [OF this] show ?case by (simp add: upsert_name_def)
qed simp

lemma wrap_files_effect:
  "wrap_files ok i P g fws db = Some db' \<Longrightarrow>
     dv_keys db' = dv_keys db \<and> dv_members db' = dv_members db \<and> dv_folders db' = dv_folders db \<and> dv_names db' = dv_names db"
proof (induction fws arbitrary: i db)
  case (Cons a fws)
  then have "wrap_files ok (Suc i) P g fws (db\<lparr>dv_files := update_list (P (fw_FileID a)) (g a) (dv_files db)\<rparr>) = Some db'"
    by (auto split: if_splits)
  from Cons.IH [OF this] show ?case by simp
qed simp

lemma advance_tx_effect:
  assumes "advance_tx ok now inp epoch db = Inr db'"
  shows "dv_keys db' = dv_keys db @ map (wrap_key now (se_FolderID inp) epoch (se_TenantID inp)) (se_NewEpochKeyWraps inp)
    \<and> dv_members db' = dv_members db \<and> dv_folders db' = dv_folders (bump_epoch now inp db)"
proof -
  obtain db1 where db1: "insert_wraps (ok 2) 0 now (se_FolderID inp) epoch (se_TenantID inp) (se_NewEpochKeyWraps inp) (bump_epoch now inp db) = Some db1"
    using assms by (auto simp: advance_tx_def split: option.splits)
  then obtain db2 where db2: "insert_subnames (ok 4) 0 epoch (se_SubFolderNames inp)
      (db1\<lparr>dv_names := dv_names db1 @ [new_name (se_FolderID inp) epoch (se_EncryptedName inp)]\<rparr>) = Some db2"
    and db3: "wrap_files (ok 5) 0 (\<lambda>i. owned_file i (se_OwnerUserID inp) (se_TenantID inp)) (advance_wrap now epoch) (se_FileWraps inp) db2 = Some db'"
    using assms by (auto simp: advance_tx_def split: option.splits if_splits)
  show ?thesis
    using insert_wraps_effect [OF db1] insert_subnames_effect [OF db2] wrap_files_effect [OF db3] by (auto simp: bump_epoch_def)
qed

lemma advance_effect:
  assumes "AdvanceFolderEpoch ok out now inp db = (r, db')"
  obtains "db' = db" "\<nexists>e. r = Inr e"
  | f where "find (owned_folder (se_FolderID inp) (se_OwnerUserID inp) (se_TenantID inp)) (dv_folders db) = Some f"
      "dv_keys db' = dv_keys db @ map (wrap_key now (se_FolderID inp) (fo_CurrentEpoch f + 1) (se_TenantID inp)) (se_NewEpochKeyWraps inp)"
      "dv_members db' = dv_members db" "dv_folders db' = dv_folders (bump_epoch now inp db)"
      "\<And>e. r = Inr e \<Longrightarrow> e = fo_CurrentEpoch f + 1"
proof -
  define P where "P = owned_folder (se_FolderID inp) (se_OwnerUserID inp) (se_TenantID inp)"
  show thesis
  proof (cases "ok 0 0 \<and> ok 1 0")
    case False
    then show thesis using assms that(1) by (auto simp: AdvanceFolderEpoch_def split: if_splits)
  next
    case True
    show thesis
    proof (cases "find P (dv_folders db)")
      case None
      then show thesis using assms that(1) True by (auto simp: AdvanceFolderEpoch_def P_def)
    next
      case (Some f)
      show thesis
      proof (cases "advance_tx ok now inp (fo_CurrentEpoch f + 1) db")
        case (Inl e)
        then show thesis using assms that(1) True Some by (auto simp: AdvanceFolderEpoch_def P_def)
      next
        case (Inr d)
        then have cases: "r = (case fst (commit out d db) of Some e \<Rightarrow> Inl ''commit epoch advance'' | None \<Rightarrow> Inr (fo_CurrentEpoch f + 1))"
          "db' = snd (commit out d db)"
          using assms True Some by (auto simp: AdvanceFolderEpoch_def P_def case_prod_beta split: option.splits)
        then consider "db' = db" "\<nexists>e. r = Inr e" | "db' = d" "\<And>e. r = Inr e \<Longrightarrow> e = fo_CurrentEpoch f + 1"
          by (auto simp: commit_def exec_def split: db_out.splits)
        then show thesis
        proof cases
          case 2
          then show thesis using that(2) Some advance_tx_effect [OF Inr] by (simp add: P_def)
        qed (rule that(1))
      qed
    qed
  qed
qed

lemma backfill_effect:
  assumes "backfill_epochs out j now i u t wraps epochs db = (r, db')"
  shows "dv_members db' = dv_members db \<and> (\<forall>k\<in>set (dv_keys db'). k \<in> set (dv_keys db) \<or> fk_FolderID k = i \<and> fk_RecipientUserID k = u)"
  using assms
proof (induction epochs arbitrary: j db)
  case (Cons epoch epochs)
  show ?case
  proof (cases wraps)
    case (Cons kw kws)
    define d where "d = insert_key (new_key now i epoch u t (kw_WrappedFCK kw) (kw_WrappedFCKEphPubkey kw)) db"
    have d: "dv_members d = dv_members db \<and> (\<forall>k\<in>set (dv_keys d). k \<in> set (dv_keys db) \<or> fk_FolderID k = i \<and> fk_RecipientUserID k = u)"
      by (auto simp: d_def insert_key_def new_key_def)
    show ?thesis
      using Cons.prems Cons.IH [of "Suc j" d] d
      by (auto simp: Cons d_def [symmetric] exec_def split: db_out.splits)
  qed (use Cons in auto)
qed auto


subsection \<open>A removed member\<close>

text \<open>
  Operations on the drive other than those that give the keys of the folder \<open>i\<close> to the user \<open>u\<close> again; \<open>other\<close> is any
  operation on files and names.
\<close>

inductive drive_step :: "bytes \<Rightarrow> bytes \<Rightarrow> drive_db \<Rightarrow> drive_db \<Rightarrow> bool" for u i where
  create: "fo_FolderID (new_folder newID now (cf_Folder inp)) \<noteq> i \<or> fo_UserID (cf_Folder inp) \<noteq> u \<Longrightarrow>
    drive_step u i db (snd (CreateFolder ok out newID now inp db))"
| create_shared: "drive_step u i db (snd (CreateFolderViaSharedFolder ok out newID now f encryptedName db))"
| move: "drive_step u i db (snd (UpdateFolder out now f db))"
| delete: "drive_step u i db (snd (DeleteFolder fk out userID tenantID folderID db))"
| delete_tree: "DeleteFolderCascadeTrash fk ok out now userID tenantID folderID db = Some r \<Longrightarrow> drive_step u i db (snd r)"
| advance: "se_FolderID inp \<noteq> i \<or> u \<notin> kw_RecipientUserID ` set (se_NewEpochKeyWraps inp) \<Longrightarrow>
    drive_step u i db (snd (AdvanceFolderEpoch flags out now inp db))"
| add: "sm_FolderID m \<noteq> i \<or> sm_RecipientUserID m \<noteq> u \<Longrightarrow> drive_step u i db (snd (AddFolderShareMember out now m db))"
| backfill: "folderID \<noteq> i \<or> userID \<noteq> u \<Longrightarrow>
    drive_step u i db (snd (BackfillEpochKeysForMember outs now folderID userID tenantID wraps a b db))"
| remove: "drive_step u i db (snd (RemoveFolderShareMember ok out folderID userID tenantID db))"
| other: "dv_keys db' = dv_keys db \<Longrightarrow> dv_members db' = dv_members db \<Longrightarrow> dv_folders db' = dv_folders db \<Longrightarrow> drive_step u i db db'"

text \<open>The user has no key of the folder and is no member of it.\<close>

definition locked_out :: "bytes \<Rightarrow> bytes \<Rightarrow> bytes \<Rightarrow> drive_db \<Rightarrow> bool" where
  "locked_out u i t db =
     ((\<forall>k\<in>set (dv_keys db). \<not> (fk_FolderID k = i \<and> fk_RecipientUserID k = u \<and> fk_TenantID k = t))
      \<and> (\<forall>m\<in>set (dv_members db). \<not> (sm_FolderID m = i \<and> sm_RecipientUserID m = u \<and> sm_TenantID m = t)))"

lemma locked_out_mono:
  assumes "locked_out u i t db"
    and "\<forall>k\<in>set (dv_keys db'). k \<in> set (dv_keys db) \<or> fk_FolderID k \<noteq> i \<or> fk_RecipientUserID k \<noteq> u"
    and "\<forall>m\<in>set (dv_members db'). (\<exists>n\<in>set (dv_members db). sm_FolderID m = sm_FolderID n \<and> sm_RecipientUserID m = sm_RecipientUserID n
      \<and> sm_TenantID m = sm_TenantID n) \<or> sm_FolderID m \<noteq> i \<or> sm_RecipientUserID m \<noteq> u"
  shows "locked_out u i t db'"
  using assms unfolding locked_out_def by fastforce

lemma locked_out_exec:
  assumes "locked_out u i t db" "locked_out u i t db'"
  shows "locked_out u i t (snd (exec out msg db' db))" "locked_out u i t (snd (commit out db' db))"
  using assms exec_snd [of out msg db' db] commit_snd [of out db' db] by metis+

lemma locked_out_tables:
  "dv_keys db' = dv_keys db \<Longrightarrow> dv_members db' = dv_members db \<Longrightarrow> locked_out u i t db \<Longrightarrow> locked_out u i t db'"
  by (simp add: locked_out_def)

lemma locked_out_delete: "locked_out u i t db \<Longrightarrow> locked_out u i t (delete_folder fk userID tenantID folderID db)"
  by (erule locked_out_mono) (auto simp: delete_folder_def remove_folder_def Let_def)

lemma locked_out_filter: "locked_out u i t db \<Longrightarrow> locked_out u i t (db\<lparr>dv_members := filter P (dv_members db), dv_keys := filter Q (dv_keys db)\<rparr>)"
  by (simp add: locked_out_def)

lemma drive_step_locked_out:
  assumes "drive_step u i db db'" "locked_out u i t db"
  shows "locked_out u i t db'"
  using assms(1)
proof cases
  case (create newID now inp ok out)
  define f where "f = new_folder newID now (cf_Folder inp)"
  define d where "d = db\<lparr>dv_folders := dv_folders db @ [f],
    dv_keys := dv_keys db @ [new_key now (fo_FolderID f) 0 (fo_UserID f) (fo_TenantID f) (cf_WrappedFCK inp) (cf_WrappedFCKEph inp)],
    dv_names := dv_names db @ [new_name (fo_FolderID f) 0 (cf_EncryptedName inp)]\<rparr>"
  have "fo_FolderID f \<noteq> i \<or> fo_UserID f \<noteq> u" using create(2) by (simp add: f_def new_folder_def)
  then have "locked_out u i t d" by (intro locked_out_mono [OF assms(2)]) (auto simp: d_def new_key_def)
  then have "locked_out u i t (snd (commit out d db))" by (rule locked_out_exec(2) [OF assms(2)])
  then show ?thesis using assms(2) create(1) by (simp add: CreateFolder_def Let_def f_def [symmetric] d_def)
next
  case create_shared
  then show ?thesis using assms(2)
    by (auto simp: CreateFolderViaSharedFolder_def Let_def intro!: locked_out_exec intro: locked_out_tables [of _ db])
next
  case move
  then show ?thesis using assms(2)
    by (auto simp: UpdateFolder_def Let_def exec_rows_snd intro!: locked_out_exec intro: locked_out_tables [of _ db])
next
  case delete
  then show ?thesis using assms(2) by (simp add: DeleteFolder_def exec_rows_snd locked_out_exec locked_out_delete)
next
  case (delete_tree fk ok out now userID tenantID folderID r)
  have trashed: "locked_out u i t (db\<lparr>dv_files := files\<rparr>)" for files using assms(2) by (simp add: locked_out_tables [of _ db])
  have "snd (case commit out d db of (Some e, d) \<Rightarrow> (Inl c, d) | (None, d) \<Rightarrow> (Inr n, d)) = snd (commit out d db)" for d c n
    by (simp add: case_prod_beta split: option.split)
  then show ?thesis
    using delete_tree assms(2) trashed
    by (auto simp: DeleteFolderCascadeTrash_def Let_def case_prod_beta locked_out_exec locked_out_delete split: if_splits option.splits)
next
  case (advance inp flags out now)
  obtain r where "AdvanceFolderEpoch flags out now inp db = (r, db')" using advance(1) by (metis prod.collapse)
  then show ?thesis
  proof (cases rule: advance_effect)
    case (2 f)
    then show ?thesis using advance(2) by (intro locked_out_mono [OF assms(2)]) auto
  qed (use assms(2) in simp)
next
  case (add m out now)
  then show ?thesis unfolding add(1) AddFolderShareMember_def Let_def
    by (intro locked_out_exec assms(2) locked_out_mono [OF assms(2)]) (auto simp: update_list_def)
next
  case (backfill folderID userID outs now tenantID wraps a b)
  have "backfill_epochs outs 0 now folderID userID tenantID wraps [a..b - 1] db =
      (fst (backfill_epochs outs 0 now folderID userID tenantID wraps [a..b - 1] db), db')"
    using backfill(1) by (simp add: BackfillEpochKeysForMember_def)
  from backfill_effect [OF this] show ?thesis using backfill(2) by (intro locked_out_mono [OF assms(2)]) auto
next
  case (remove ok out folderID userID tenantID)
  then show ?thesis using assms(2) by (simp add: RemoveFolderShareMember_def locked_out_exec locked_out_filter)
next
  case other
  then show ?thesis using assms(2) by (simp add: locked_out_tables [of _ db])
qed


text \<open>After an advance and the removal of a user without a wrap, the new key is held by those it was wrapped for.\<close>

lemma new_epoch_holders:
  assumes "AdvanceFolderEpoch flags out1 now1 inp db0 = (Inr e, db1)" "se_FolderID inp = i" "u \<notin> kw_RecipientUserID ` set (se_NewEpochKeyWraps inp)"
    and "\<forall>k\<in>set (dv_keys db0). fk_FolderID k = i \<longrightarrow> fk_Epoch k < e"
    and db2: "dv_keys db2 = filter (\<lambda>k. \<not> (fk_FolderID k = i \<and> fk_RecipientUserID k = u \<and> fk_TenantID k = t)) (dv_keys db1)"
  shows "(\<exists>k\<in>set (dv_keys db2). fk_FolderID k = i \<and> fk_Epoch k = e \<and> fk_RecipientUserID k = v)
      \<longleftrightarrow> v \<in> kw_RecipientUserID ` set (se_NewEpochKeyWraps inp)"
  using assms(1)
proof (cases rule: advance_effect)
  case (2 f)
  then have db1: "dv_keys db1 = dv_keys db0 @ map (wrap_key now1 i e (se_TenantID inp)) (se_NewEpochKeyWraps inp)" using assms(2) by blast
  have "fk_Epoch k = e \<and> fk_FolderID k = i \<and> k \<in> set (dv_keys db1) \<longleftrightarrow> k \<in> wrap_key now1 i e (se_TenantID inp) ` set (se_NewEpochKeyWraps inp)" for k
    unfolding db1 using assms(4) by auto
  moreover have "k \<in> set (dv_keys db2)" if "k \<in> set (dv_keys db1)" "fk_RecipientUserID k \<noteq> u" for k using that by (simp add: db2)
  moreover have "k \<in> set (dv_keys db1)" if "k \<in> set (dv_keys db2)" for k using that by (simp add: db2)
  ultimately have "(\<exists>k\<in>set (dv_keys db2). fk_FolderID k = i \<and> fk_Epoch k = e \<and> fk_RecipientUserID k = v)
      \<longleftrightarrow> (\<exists>k\<in>wrap_key now1 i e (se_TenantID inp) ` set (se_NewEpochKeyWraps inp). fk_RecipientUserID k = v \<and> k \<in> set (dv_keys db2))" by blast
  also have "\<dots> \<longleftrightarrow> (\<exists>k\<in>wrap_key now1 i e (se_TenantID inp) ` set (se_NewEpochKeyWraps inp). fk_RecipientUserID k = v)"
    using assms(3) by (auto simp: db2 db1)
  finally show ?thesis by auto
qed simp



subsection \<open>Deleting a folder with its files\<close>

text \<open>A step of the cascade, and the folders it ends with.\<close>

definition cascade_step :: "DriveFolder list \<Rightarrow> bytes list \<Rightarrow> bytes list" where
  "cascade_step fs ids = remdups (ids @ map fo_FolderID (filter (\<lambda>f. \<exists>p\<in>set ids. fo_ParentID f = Some p) fs))"

definition closed_below :: "DriveFolder list \<Rightarrow> bytes set \<Rightarrow> bool" where
  "closed_below fs S = (\<forall>f\<in>set fs. \<forall>p\<in>S. fo_ParentID f = Some p \<longrightarrow> fo_FolderID f \<in> S)"

lemma cascade_folders_Suc: "cascade_folders (Suc n) fs ids = cascade_folders n fs (cascade_step fs ids)"
  by (simp add: cascade_step_def)

lemma cascade_step_set: "set (cascade_step fs ids) = set ids \<union> {fo_FolderID f | f. f \<in> set fs \<and> (\<exists>p\<in>set ids. fo_ParentID f = Some p)}"
  by (auto simp: cascade_step_def)

lemma cascade_grows: "set ids \<subseteq> set (cascade_folders n fs ids)"
proof (induction n arbitrary: ids)
  case (Suc n)
  have "set ids \<subseteq> set (cascade_step fs ids)" by (simp add: cascade_step_set)
  then show ?case using Suc [of "cascade_step fs ids"] unfolding cascade_folders_Suc by blast
qed simp

lemma cascade_closed:
  assumes "card (set (map fo_FolderID fs) - set ids) \<le> n"
  shows "closed_below fs (set (cascade_folders n fs ids))"
  using assms
proof (induction n arbitrary: ids)
  case 0
  then have "set (map fo_FolderID fs) \<subseteq> set ids" by (metis Diff_eq_empty_iff List.finite_set card_0_eq finite_Diff le_zero_eq)
  then show ?case by (auto simp: closed_below_def)
next
  case (Suc n)
  show ?case
  proof (cases "set (cascade_step fs ids) = set ids")
    case True
    then have closed: "closed_below fs (set ids)" by (auto simp: cascade_step_set closed_below_def)
    have "set (cascade_folders m fs ids') = set ids" if "set ids' = set ids" for m ids'
      using that
    proof (induction m arbitrary: ids')
      case (Suc m)
      have "set (cascade_step fs ids') = set ids" using Suc.prems True by (simp add: cascade_step_set)
      then show ?case using Suc.IH unfolding cascade_folders_Suc by blast
    qed simp
    then show ?thesis using closed by metis
  next
    case False
    have "set (map fo_FolderID fs) - set (cascade_step fs ids) \<subset> set (map fo_FolderID fs) - set ids"
      using False by (auto simp: cascade_step_set)
    then have "card (set (map fo_FolderID fs) - set (cascade_step fs ids)) < card (set (map fo_FolderID fs) - set ids)"
      by (intro psubset_card_mono) auto
    then show ?thesis unfolding cascade_folders_Suc using Suc.prems by (intro Suc.IH) simp
  qed
qed

lemma card_ids: "card (set (map fo_FolderID fs) - A) \<le> length fs"
proof -
  have "card (set (map fo_FolderID fs) - A) \<le> card (set (map fo_FolderID fs))" by (simp add: card_mono)
  also have "\<dots> \<le> length fs" using card_length [of "map fo_FolderID fs"] by simp
  finally show ?thesis .
qed

text \<open>The identifiers of the folders that go with a folder.\<close>

abbreviation gone :: "bytes \<Rightarrow> drive_db \<Rightarrow> bytes set" where
  "gone folderID db \<equiv> set (cascade_folders (length (dv_folders db)) (dv_folders db) [folderID])"

lemma gone_closed: "closed_below (dv_folders db) (gone folderID db)" "folderID \<in> gone folderID db"
  using cascade_closed [OF card_ids] cascade_grows [of "[folderID]"] by auto

text \<open>A file of the user in the folder or below it.\<close>

definition in_tree :: "bytes \<Rightarrow> bytes \<Rightarrow> bytes \<Rightarrow> drive_db \<Rightarrow> DriveFile \<Rightarrow> bool" where
  "in_tree userID tenantID folderID db x =
     (fi_UserID x = userID \<and> fi_TenantID x = tenantID
      \<and> (\<exists>f g. f \<in> set (dv_folders db) \<and> owned_folder folderID userID tenantID f
           \<and> (next_row (child_rows userID tenantID db))\<^sup>*\<^sup>* f g \<and> fi_FolderID x = Some (fo_FolderID g)))"

text \<open>A folder below it is in a cycle of folders.\<close>

definition tree_cycle :: "bytes \<Rightarrow> bytes \<Rightarrow> bytes \<Rightarrow> drive_db \<Rightarrow> bool" where
  "tree_cycle userID tenantID folderID db =
     (\<exists>f g. f \<in> set (dv_folders db) \<and> owned_folder folderID userID tenantID f
        \<and> (next_row (child_rows userID tenantID db))\<^sup>*\<^sup>* f g \<and> (next_row (child_rows userID tenantID db))\<^sup>+\<^sup>+ g g)"

lemma subfolders_returns: "(\<exists>fs. subfolders userID tenantID folderID db = Some fs) \<longleftrightarrow> \<not> tree_cycle userID tenantID folderID db"
  unfolding subfolders_def
  by (subst down.cte_returns [of "set (dv_folders db)"]) (auto simp: child_rows_def tree_cycle_def)

lemma subfolders_rows:
  assumes "subfolders userID tenantID folderID db = Some fs"
  shows "g \<in> set fs \<longleftrightarrow> (\<exists>f\<in>set (dv_folders db). owned_folder folderID userID tenantID f \<and> (next_row (child_rows userID tenantID db))\<^sup>*\<^sup>* f g)"
  using down.cte_rows [OF assms [unfolded subfolders_def]] by auto

lemma tree_gone:
  assumes "(next_row (child_rows userID tenantID db))\<^sup>*\<^sup>* f g" "fo_FolderID f \<in> gone folderID db"
  shows "fo_FolderID g \<in> gone folderID db"
  using assms
proof (induction rule: rtranclp_induct)
  case (step g h)
  then show ?case using gone_closed(1) [of db folderID] by (auto simp: next_row_def child_rows_def closed_below_def)
qed

text \<open>
  C24: deleting a folder with its files loses none of them: unless a folder below is in a cycle, where the query does not return, every
  file of the user in the tree is in the trash and at the root afterwards, with its content and keys; no other file
  changes its trash state; the count is that of the files newly in the trash; no folder is left below a folder
  that went.
\<close>

theorem delete_tree_keeps_files:
  assumes "list_ex (owned_folder folderID userID tenantID) (dv_folders db)"
  shows "if tree_cycle userID tenantID folderID db
    then DeleteFolderCascadeTrash fk (\<lambda>_. True) DbOk now userID tenantID folderID db = None
    else \<exists>db'. DeleteFolderCascadeTrash fk (\<lambda>_. True) DbOk now userID tenantID folderID db =
          Some (Inr (length (filter (\<lambda>x. in_tree userID tenantID folderID db x \<and> \<not> fi_Trashed x) (dv_files db))), db')
      \<and> list_all2 (\<lambda>x y. (in_tree userID tenantID folderID db x \<longrightarrow> fi_Trashed y \<and> fi_FolderID y = None)
           \<and> (\<not> in_tree userID tenantID folderID db x \<longrightarrow> fi_Trashed y = fi_Trashed x \<and> fi_TrashedAt y = fi_TrashedAt x)
           \<and> fi_FileID y = fi_FileID x \<and> fi_BlobRef y = fi_BlobRef x \<and> fi_EncryptedFileKey y = fi_EncryptedFileKey x) (dv_files db) (dv_files db')
      \<and> \<not> folder_exists folderID db'
      \<and> (\<forall>f\<in>set (dv_folders db'). \<forall>p. fo_ParentID f = Some p \<and> folder_exists p db \<longrightarrow> folder_exists p db')"
proof (cases "tree_cycle userID tenantID folderID db")
  case True
  then have "subfolders userID tenantID folderID db = None" using subfolders_returns by (metis not_None_eq)
  then show ?thesis using True by (simp add: DeleteFolderCascadeTrash_def)
next
  case False
  then obtain fs where fs: "subfolders userID tenantID folderID db = Some fs" using subfolders_returns by blast
  have hit: "to_trash userID tenantID fs x \<longleftrightarrow> in_tree userID tenantID folderID db x \<and> \<not> fi_Trashed x" for x
    unfolding to_trash_def in_tree_def in_folders_def list_ex_iff using subfolders_rows [OF fs] by blast
  define db1 where "db1 = db\<lparr>dv_files := update_list (to_trash userID tenantID fs) (trash now) (dv_files db)\<rparr>"
  define db' where "db' = remove_folder fk folderID db1"
  have run: "DeleteFolderCascadeTrash fk (\<lambda>_. True) DbOk now userID tenantID folderID db =
      Some (Inr (length (filter (to_trash userID tenantID fs) (dv_files db))), db')"
    using fs assms by (simp add: DeleteFolderCascadeTrash_def Let_def delete_folder_def commit_def exec_def db1_def db'_def)
  have files: "dv_files db' = map (\<lambda>x. if (\<exists>i\<in>gone folderID db. fi_FolderID x = Some i) then x\<lparr>fi_FolderID := None\<rparr> else x)
      (map (\<lambda>x. if to_trash userID tenantID fs x then trash now x else x) (dv_files db))"
    by (simp add: db'_def db1_def remove_folder_def update_list_def Let_def)
  have "fi_FolderID x = Some i \<Longrightarrow> i \<in> gone folderID db" if "in_tree userID tenantID folderID db x" for x i
    using that tree_gone gone_closed(2) unfolding in_tree_def owned_folder_def by fastforce
  moreover have "\<exists>i. fi_FolderID x = Some i" if "in_tree userID tenantID folderID db x" for x using that by (auto simp: in_tree_def)
  ultimately have at_root: "\<exists>i\<in>gone folderID db. fi_FolderID x = Some i" if "in_tree userID tenantID folderID db x" for x using that by blast
  have "list_all2 (\<lambda>x y. (in_tree userID tenantID folderID db x \<longrightarrow> fi_Trashed y \<and> fi_FolderID y = None)
       \<and> (\<not> in_tree userID tenantID folderID db x \<longrightarrow> fi_Trashed y = fi_Trashed x \<and> fi_TrashedAt y = fi_TrashedAt x)
       \<and> fi_FileID y = fi_FileID x \<and> fi_BlobRef y = fi_BlobRef x \<and> fi_EncryptedFileKey y = fi_EncryptedFileKey x) (dv_files db) (dv_files db')"
    unfolding files list_all2_map2 using at_root by (auto simp: list_all2_same hit trash_def)
  moreover have folders: "dv_folders db' = filter (\<lambda>f. fo_FolderID f \<notin> gone folderID db) (dv_folders db)"
    by (simp add: db'_def db1_def remove_folder_def Let_def)
  have "\<not> folder_exists folderID db'" using gone_closed(2) by (auto simp: folder_exists_def folders list_ex_iff)
  moreover have "\<forall>f\<in>set (dv_folders db'). \<forall>p. fo_ParentID f = Some p \<and> folder_exists p db \<longrightarrow> folder_exists p db'"
    using gone_closed(1) [of db folderID] by (auto simp: folder_exists_def folders list_ex_iff closed_below_def)
  moreover have "to_trash userID tenantID fs = (\<lambda>x. in_tree userID tenantID folderID db x \<and> \<not> fi_Trashed x)" by (simp add: hit fun_eq_iff)
  ultimately show ?thesis using False run by simp
qed


subsection \<open>Uploads in chunks\<close>

text \<open>The sizes of the further chunks are added one by one.\<close>

definition add_chunks :: "int \<Rightarrow> bytes \<Rightarrow> int list \<Rightarrow> drive_db \<Rightarrow> drive_db" where
  "add_chunks now fileID sizes db = fold (\<lambda>n d. snd (AddFileSize DbOk now fileID n d)) sizes db"

lemma add_chunks_files:
  "dv_files (add_chunks now i sizes db) =
     (if sizes = [] then dv_files db
      else update_list (\<lambda>x. fi_FileID x = i) (\<lambda>x. x\<lparr>fi_SizeBytes := fi_SizeBytes x + sum_list sizes, fi_UpdatedAt := now\<rparr>) (dv_files db))"
proof (induction sizes arbitrary: db)
  case (Cons n sizes)
  have first: "add_chunks now i (n # sizes) db = add_chunks now i sizes (snd (AddFileSize DbOk now i n db))" by (simp add: add_chunks_def)
  show ?case unfolding first Cons by (auto simp: AddFileSize_def exec_def update_list_def)
qed (simp add: add_chunks_def)

lemma filter_none: "(\<And>x. x \<in> set xs \<Longrightarrow> \<not> P x) \<Longrightarrow> filter P xs = []"
  by (simp add: filter_empty_conv)

text \<open>The row of an upload in progress.\<close>

lemma upload_row:
  assumes "i = fresh_id newID (fi_FileID x)" "\<not> file_exists i db"
  shows "dv_files (add_chunks t1 i sizes (snd (CreateFile DbOk newID t0 x db))) = dv_files db
      @ [(new_file newID t0 x)\<lparr>fi_SizeBytes := fi_SizeBytes x + sum_list sizes, fi_UpdatedAt := (if sizes = [] then t0 else t1)\<rparr>]"
    and "update_list (\<lambda>y. fi_FileID y = i) g (dv_files db) = dv_files db"
proof -
  have old: "fi_FileID y \<noteq> i" if "y \<in> set (dv_files db)" for y using assms(2) that by (auto simp: file_exists_def list_ex_iff)
  have same: "update_list (\<lambda>y. fi_FileID y = i) g (dv_files db) = dv_files db" for g using old by (simp add: update_list_def map_idI)
  have id: "fi_FileID (new_file newID t0 x) = i" using assms(1) by (simp add: new_file_def)
  have "dv_files (snd (CreateFile DbOk newID t0 x db)) = dv_files db @ [new_file newID t0 x]"
    using assms(2) id by (simp add: CreateFile_def insert_file_def exec_def)
  then show "dv_files (add_chunks t1 i sizes (snd (CreateFile DbOk newID t0 x db))) = dv_files db
      @ [(new_file newID t0 x)\<lparr>fi_SizeBytes := fi_SizeBytes x + sum_list sizes, fi_UpdatedAt := (if sizes = [] then t0 else t1)\<rparr>]"
    unfolding add_chunks_files using same id by (auto simp: update_list_def new_file_def)
  show "update_list (\<lambda>y. fi_FileID y = i) g (dv_files db) = dv_files db" by (rule same)
qed



subsection \<open>Defects\<close>

lemma list_ex_update: "(\<And>x. Q (g x) = Q x) \<Longrightarrow> list_ex Q (update_list P g xs) = list_ex Q xs"
  by (induction xs) (auto simp: update_list_def)

lemma name_exists_upsert: "name_exists i e (upsert_name j e' n db) \<longleftrightarrow> name_exists i e db \<or> i = j \<and> e = e'"
  by (auto simp: name_exists_def upsert_name_def new_name_def list_ex_update)

lemma insert_subnames_names:
  "insert_subnames ok j epoch sfns db = Some db' \<Longrightarrow> name_exists i e db \<or> (\<exists>sfn\<in>set sfns. fn_FolderID sfn = i \<and> e = epoch) \<Longrightarrow> name_exists i e db'"
proof (induction sfns arbitrary: j db)
  case (Cons a sfns)
  then have run: "insert_subnames ok (Suc j) epoch sfns (upsert_name (fn_FolderID a) epoch (fn_EncryptedName a) db) = Some db'"
    by (auto split: if_splits)
  show ?case using Cons.IH [OF run] Cons.prems(2) by (auto simp: name_exists_upsert)
qed simp

text \<open>
  Sharing a folder stores the names of its subfolders under the epoch of the folder; if that is the next epoch of a subfolder, the
  subfolder can never be shared by itself.
\<close>

lemma subfolder_share_blocked:
  assumes "advance_tx ok now inp e db = Inr db1" "sfn \<in> set (se_SubFolderNames inp)"
    and "se_FolderID inp2 = fn_FolderID sfn" "dv_names db2 = dv_names db1"
    and "find (owned_folder (se_FolderID inp2) (se_OwnerUserID inp2) (se_TenantID inp2)) (dv_folders db2) = Some f" "fo_CurrentEpoch f + 1 = e"
  shows "\<exists>err. AdvanceFolderEpoch ok2 out2 now2 inp2 db2 = (Inl err, db2)"
proof -
  obtain d1 d2 where sub: "insert_subnames (ok 4) 0 e (se_SubFolderNames inp) d1 = Some d2"
    and wraps: "wrap_files (ok 5) 0 (\<lambda>i. owned_file i (se_OwnerUserID inp) (se_TenantID inp)) (advance_wrap now e) (se_FileWraps inp) d2 = Some db1"
    using assms(1) by (auto simp: advance_tx_def split: option.splits if_splits)
  have "name_exists (se_FolderID inp2) e d2" using insert_subnames_names [OF sub] assms(2,3) by metis
  then have there: "name_exists (se_FolderID inp2) e db2" using wrap_files_effect [OF wraps] assms(4) by (simp add: name_exists_def)
  have "\<exists>err. advance_tx ok2 now2 inp2 e db2 = Inl err"
  proof (cases "insert_wraps (ok2 2) 0 now2 (se_FolderID inp2) e (se_TenantID inp2) (se_NewEpochKeyWraps inp2) (bump_epoch now2 inp2 db2)")
    case (Some d)
    have "name_exists (se_FolderID inp2) e d" using there insert_wraps_effect [OF Some] by (simp add: name_exists_def bump_epoch_def)
    then show ?thesis using Some by (simp add: advance_tx_def)
  qed (simp add: advance_tx_def)
  then show ?thesis using assms(5,6) by (auto simp: AdvanceFolderEpoch_def)
qed

text \<open>A name stored under another epoch is not the one that the list of a shared folder shows.\<close>

lemma subnames_other_epoch:
  "insert_subnames ok j e sfns db = Some db' \<Longrightarrow> e' \<noteq> e \<Longrightarrow>
     find (\<lambda>n. fn_FolderID n = i \<and> fn_Epoch n = e') (dv_names db') = find (\<lambda>n. fn_FolderID n = i \<and> fn_Epoch n = e') (dv_names db)"
proof (induction sfns arbitrary: j db)
  case (Cons a sfns)
  then have run: "insert_subnames ok (Suc j) e sfns (upsert_name (fn_FolderID a) e (fn_EncryptedName a) db) = Some db'"
    by (auto split: if_splits)
  have upd: "find (\<lambda>n. fn_FolderID n = i \<and> fn_Epoch n = e') (update_list (\<lambda>n. fn_FolderID n = k \<and> fn_Epoch n = e) (\<lambda>n. n\<lparr>fn_EncryptedName := c\<rparr>) ns)
      = find (\<lambda>n. fn_FolderID n = i \<and> fn_Epoch n = e') ns" for k c ns
    using Cons.prems(2) by (induction ns) (auto simp: update_list_def)
  have app: "find (\<lambda>n. fn_FolderID n = i \<and> fn_Epoch n = e') (ns @ [new_name k e c]) = find (\<lambda>n. fn_FolderID n = i \<and> fn_Epoch n = e') ns" for k c ns
    using Cons.prems(2) by (induction ns) (auto simp: new_name_def)
  show ?case using Cons.IH [OF run Cons.prems(2)] by (simp add: upsert_name_def upd app)
qed simp

text \<open>Every epoch a new member is given holds the wrap of one and the same key.\<close>

lemma backfill_first_wrap:
  assumes "backfill_epochs out j now i u t (kw # kws) epochs db = (r, db')" "k \<in> set (dv_keys db')"
  shows "k \<in> set (dv_keys db) \<or> fk_WrappedFCK k = kw_WrappedFCK kw"
  using assms
proof (induction epochs arbitrary: j db)
  case (Cons epoch epochs)
  define d where "d = insert_key (new_key now i epoch u t (kw_WrappedFCK kw) (kw_WrappedFCKEphPubkey kw)) db"
  have "k \<in> set (dv_keys db) \<or> fk_WrappedFCK k = kw_WrappedFCK kw" if "k \<in> set (dv_keys d)"
    using that by (auto simp: d_def insert_key_def new_key_def split: if_splits)
  then show ?case using Cons.prems Cons.IH [of "Suc j" d] by (auto simp: d_def [symmetric] exec_def split: db_out.splits)
qed simp

text \<open>A list that breaks off is taken for complete: the rows are gone and their blobs are not reported.\<close>

lemma purge_cut_orphans:
  assumes "x \<in> set (dv_files db)" "fi_Trashed x" "fi_TrashedAt x = Some t" "t < olderThan"
  shows "fst (PurgeOldTrashed (QueryCut 0) True olderThan db) = Inr [] \<and> x \<notin> set (dv_files (snd (PurgeOldTrashed (QueryCut 0) True olderThan db)))"
  using assms by (simp add: PurgeOldTrashed_def delete_returning_def fetch_def before_opt_def)

text \<open>A public link lists files whose upload is not complete.\<close>

lemma public_link_lists_partial:
  assumes "ListFilesInFolderByID QueryAll (fo_FolderID f) db = Some (Inr ys)" "f \<in> set (dv_folders db)"
    and "x \<in> set (dv_files db)" "fi_FolderID x = Some (fo_FolderID f)" "\<not> fi_Trashed x" "\<not> fi_UploadComplete x"
  shows "x \<in> set ys"
proof -
  obtain fs where fs: "cte (all_children db) (filter (\<lambda>g. fo_FolderID g = fo_FolderID f) (dv_folders db)) = Some fs"
    and ys: "ys = filter (\<lambda>x. in_folders fs x \<and> \<not> fi_Trashed x) (dv_files db)"
    using assms(1) by (auto simp: ListFilesInFolderByID_def fetch_def)
  have "f \<in> set fs" using public.cte_rows [OF fs] assms(2) by auto
  then show ?thesis using assms by (auto simp: ys in_folders_def list_ex_iff)
qed

end
