(* ===== verification/Drive_Witness.thy ===== *)
theory Drive_Witness
  imports Drive_Props
begin

text \<open>The properties of the drive at concrete tables.\<close>

definition w_root :: DriveFolder where
  "w_root = \<lparr>fo_FolderID = [1], fo_UserID = [10], fo_TenantID = [9], fo_ParentID = None, fo_CurrentEpoch = 0, fo_CreatedAt = 0, fo_UpdatedAt = 0\<rparr>"

definition w_sub :: DriveFolder where
  "w_sub = w_root\<lparr>fo_FolderID := [2], fo_ParentID := Some [1]\<rparr>"

definition w_member :: DriveFolderShareMember where
  "w_member = \<lparr>sm_FolderID = [1], sm_RecipientUserID = [20], sm_TenantID = [9], sm_OwnerUserID = [10], sm_JoinedEpoch = 0,
     sm_PastEpochAccess = False, sm_CanEdit = True, sm_ExpiresAt = Some 100, sm_CreatedAt = 0\<rparr>"

definition w_file :: DriveFile where
  "w_file = \<lparr>fi_FileID = [5], fi_UserID = [10], fi_TenantID = [9], fi_FolderID = Some [2], fi_EncryptedName = [], fi_EncryptedContentType = [],
     fi_SizeBytes = 10, fi_OriginalSizeBytes = None, fi_BlobRef = ''b'', fi_EphemeralPubkey = [], fi_EncryptedFileKey = [], fi_FCKWrappedMessageKey = None,
     fi_Epoch = 0, fi_EncryptionFormat = ''aesgcm'', fi_ChunkCount = 0, fi_UploadComplete = False, fi_Starred = False, fi_Trashed = False,
     fi_TrashedAt = None, fi_CreatedAt = 0, fi_UpdatedAt = 0\<rparr>"

definition w_drive :: drive_db where
  "w_drive = \<lparr>dv_folders = [w_root, w_sub], dv_keys = [new_key 0 [1] 0 [10] [9] [7] [], new_key 0 [1] 0 [20] [9] [8] []],
     dv_names = [new_name [1] 0 [], new_name [2] 0 []], dv_members = [w_member], dv_files = [], dv_shares = []\<rparr>"

definition w_advance :: ShareFolderEpochInput where
  "w_advance = \<lparr>se_FolderID = [1], se_OwnerUserID = [10], se_TenantID = [9],
     se_NewEpochKeyWraps = [\<lparr>kw_RecipientUserID = [10], kw_WrappedFCK = [3], kw_WrappedFCKEphPubkey = []\<rparr>],
     se_EncryptedName = [], se_FileWraps = [], se_SubFolderNames = []\<rparr>"

lemma w_access: "HasFolderShareAccess True 50 [20] [9] [2] w_drive = Some (Inr True)"
  by code_simp

lemma w_tree: "subfolders [10] [9] [1] w_drive = Some [w_root, w_sub]"
  by code_simp

theorem access_by_ancestors_witness:
  "granted (\<lambda>_. True) 50 [20] [9] [2] w_drive \<and> \<not> in_cycle [9] [2] w_drive
   \<and> CanWriteToFolder (\<lambda>_. True) 50 [20] [9] [2] w_drive = Some (Inr (granted sm_CanEdit 50 [20] [9] [2] w_drive, [10]))"
proof -
  have "find (in_tenant [2] [9]) (dv_folders w_drive) = Some w_sub" by (simp add: w_drive_def in_tenant_def w_root_def w_sub_def)
  then show ?thesis using access_by_ancestors [of 50 "[20]" "[9]" "[2]" w_drive w_sub] w_access
    by (simp add: w_sub_def w_root_def split: if_splits)
qed

theorem delete_tree_keeps_files_witness:
  "\<exists>db'. DeleteFolderCascadeTrash True (\<lambda>_. True) DbOk 7 [10] [9] [1] (w_drive\<lparr>dv_files := [w_file]\<rparr>) =
      Some (Inr (length (filter (\<lambda>x. in_tree [10] [9] [1] (w_drive\<lparr>dv_files := [w_file]\<rparr>) x \<and> \<not> fi_Trashed x) [w_file])), db')
    \<and> \<not> folder_exists [1] db'"
proof -
  have owned: "list_ex (owned_folder [1] [10] [9]) (dv_folders (w_drive\<lparr>dv_files := [w_file]\<rparr>))"
    by (simp add: w_drive_def owned_folder_def w_root_def)
  have "subfolders [10] [9] [1] (w_drive\<lparr>dv_files := [w_file]\<rparr>) = subfolders [10] [9] [1] w_drive"
    by (simp add: subfolders_def children_of_def [abs_def])
  then have "\<not> tree_cycle [10] [9] [1] (w_drive\<lparr>dv_files := [w_file]\<rparr>)" using w_tree subfolders_returns by metis
  then show ?thesis using delete_tree_keeps_files [OF owned, of True 7] by (auto simp: w_drive_def)
qed



end
