(* ===== verification/Kt.thy ===== *)
theory Kt
  imports Drive
begin

text \<open>
  \<open>internal/storage/kt_store.go\<close>: the leaves and signed roots of the key transparency log. The unique constraints are those the
  statements name: (user, epoch) of leaves and (tenant, epoch) of roots. The identifiers that the sequence gives to new leaves
  are an argument. \<open>AdvanceEpochTx\<close> runs in a serializable transaction and is one step.
\<close>

record KTLeaf =
  kl_LeafID :: int
  kl_UserID :: bytes
  kl_TenantID :: bytes
  kl_Epoch :: int
  kl_PubkeyHash :: bytes
  kl_CreatedAt :: int

record KTRoot =
  kr_Epoch :: int
  kr_TenantID :: bytes
  kr_RootHash :: bytes
  kr_Signature :: bytes
  kr_TreeSize :: int
  kr_CreatedAt :: int

record kt_db =
  kd_leaves :: "KTLeaf list"
  kd_roots :: "KTRoot list"

text \<open>\<open>ORDER BY epoch DESC LIMIT 1\<close>.\<close>

definition latest_root :: "bytes \<Rightarrow> kt_db \<Rightarrow> KTRoot option" where
  "latest_root tenantID db =
     (case sort_key (\<lambda>r. - kr_Epoch r) (filter (\<lambda>r. kr_TenantID r = tenantID) (kd_roots db)) of [] \<Rightarrow> None | r # _ \<Rightarrow> Some r)"

definition GetLatestEpoch :: "bool \<Rightarrow> bytes \<Rightarrow> kt_db \<Rightarrow> string + int" where
  "GetLatestEpoch ok tenantID db =
     (case (if ok then latest_root tenantID db else None) of None \<Rightarrow> Inl ''no epochs for tenant'' | Some r \<Rightarrow> Inr (kr_Epoch r))"

text \<open>Every error is taken for an empty log.\<close>

definition NextEpoch :: "bool \<Rightarrow> bytes \<Rightarrow> kt_db \<Rightarrow> int" where
  "NextEpoch ok tenantID db =
     (case (if ok then latest_root tenantID db else None) of None \<Rightarrow> 1 | Some r \<Rightarrow> kr_Epoch r + 1)"

definition leaf_exists :: "bytes \<Rightarrow> int \<Rightarrow> kt_db \<Rightarrow> bool" where
  "leaf_exists userID epoch db = list_ex (\<lambda>l. kl_UserID l = userID \<and> kl_Epoch l = epoch) (kd_leaves db)"

definition new_leaf :: "int \<Rightarrow> int \<Rightarrow> bytes \<Rightarrow> bytes \<Rightarrow> int \<Rightarrow> bytes \<Rightarrow> KTLeaf" where
  "new_leaf leafID now userID tenantID epoch pubkeyHash =
     \<lparr>kl_LeafID = leafID, kl_UserID = userID, kl_TenantID = tenantID, kl_Epoch = epoch, kl_PubkeyHash = pubkeyHash, kl_CreatedAt = now\<rparr>"

definition AddOrUpdateLeaf :: "db_out \<Rightarrow> int \<Rightarrow> int \<Rightarrow> bytes \<Rightarrow> bytes \<Rightarrow> int \<Rightarrow> bytes \<Rightarrow> kt_db \<Rightarrow> string option \<times> kt_db" where
  "AddOrUpdateLeaf out leafID now userID tenantID epoch pubkeyHash db =
     exec out ''upsert kt_leaf''
       (if leaf_exists userID epoch db
        then db\<lparr>kd_leaves := update_list (\<lambda>l. kl_UserID l = userID \<and> kl_Epoch l = epoch) (\<lambda>l. l\<lparr>kl_PubkeyHash := pubkeyHash\<rparr>) (kd_leaves db)\<rparr>
        else db\<lparr>kd_leaves := kd_leaves db @ [new_leaf leafID now userID tenantID epoch pubkeyHash]\<rparr>) db"

definition AddLeaf :: "db_out \<Rightarrow> int \<Rightarrow> int \<Rightarrow> bytes \<Rightarrow> bytes \<Rightarrow> int \<Rightarrow> bytes \<Rightarrow> kt_db \<Rightarrow> (string + int) \<times> kt_db" where
  "AddLeaf out leafID now userID tenantID epoch pubkeyHash db =
     (if leaf_exists userID epoch db then (Inl ''insert kt_leaf'', db)
      else (case exec out ''insert kt_leaf'' (db\<lparr>kd_leaves := kd_leaves db @ [new_leaf leafID now userID tenantID epoch pubkeyHash]\<rparr>) db of
              (Some e, d) \<Rightarrow> (Inl e, d) | (None, d) \<Rightarrow> (Inr leafID, d)))"

definition epoch_leaves :: "bytes \<Rightarrow> int \<Rightarrow> KTLeaf list \<Rightarrow> KTLeaf list" where
  "epoch_leaves tenantID epoch ls = sort_key kl_LeafID (filter (\<lambda>l. kl_TenantID l = tenantID \<and> kl_Epoch l = epoch) ls)"

text \<open>Here \<open>rows.Err\<close> is returned: a list is whole or an error.\<close>

definition GetLeaves :: "bool \<Rightarrow> bytes \<Rightarrow> int \<Rightarrow> kt_db \<Rightarrow> string + KTLeaf list" where
  "GetLeaves ok tenantID epoch db = (if ok then Inr (epoch_leaves tenantID epoch (kd_leaves db)) else Inl ''query kt_leaves'')"

definition GetLeavesByUser :: "bool \<Rightarrow> bytes \<Rightarrow> bytes \<Rightarrow> kt_db \<Rightarrow> string + KTLeaf list" where
  "GetLeavesByUser ok tenantID userID db =
     (if ok then Inr (sort_key kl_Epoch (sort_key kl_LeafID (filter (\<lambda>l. kl_TenantID l = tenantID \<and> kl_UserID l = userID) (kd_leaves db))))
      else Inl ''query kt_leaves by user'')"

definition root_exists :: "bytes \<Rightarrow> int \<Rightarrow> kt_db \<Rightarrow> bool" where
  "root_exists tenantID epoch db = list_ex (\<lambda>r. kr_TenantID r = tenantID \<and> kr_Epoch r = epoch) (kd_roots db)"

definition new_root :: "int \<Rightarrow> bytes \<Rightarrow> int \<Rightarrow> bytes \<Rightarrow> bytes \<Rightarrow> int \<Rightarrow> KTRoot" where
  "new_root now tenantID epoch rootHash signature treeSize =
     \<lparr>kr_Epoch = epoch, kr_TenantID = tenantID, kr_RootHash = rootHash, kr_Signature = signature, kr_TreeSize = treeSize, kr_CreatedAt = now\<rparr>"

text \<open>\<open>treeSize\<close> is the list of the variadic arguments.\<close>

definition StoreRoot :: "db_out \<Rightarrow> int \<Rightarrow> bytes \<Rightarrow> int \<Rightarrow> bytes \<Rightarrow> bytes \<Rightarrow> int list \<Rightarrow> kt_db \<Rightarrow> string option \<times> kt_db" where
  "StoreRoot out now tenantID epoch rootHash signature treeSize db =
     (let sz = (case treeSize of [] \<Rightarrow> 0 | n # _ \<Rightarrow> n) in
      exec_rows out ''insert kt_root'' ''kt root for epoch already exists'' (\<not> root_exists tenantID epoch db)
        (if root_exists tenantID epoch db then db
         else db\<lparr>kd_roots := kd_roots db @ [new_root now tenantID epoch rootHash signature sz]\<rparr>) db)"

definition GetRoot :: "bool \<Rightarrow> bytes \<Rightarrow> int \<Rightarrow> kt_db \<Rightarrow> string + KTRoot" where
  "GetRoot ok tenantID epoch db =
     (case (if ok then find (\<lambda>r. kr_TenantID r = tenantID \<and> kr_Epoch r = epoch) (kd_roots db) else None) of
        None \<Rightarrow> Inl ''get kt_root'' | Some r \<Rightarrow> Inr r)"

definition GetLatestRoot :: "bool \<Rightarrow> bytes \<Rightarrow> kt_db \<Rightarrow> string + KTRoot" where
  "GetLatestRoot ok tenantID db =
     (case (if ok then latest_root tenantID db else None) of None \<Rightarrow> Inl ''get latest kt_root'' | Some r \<Rightarrow> Inr r)"

text \<open>The users of the last epoch that have no leaf in the new one yet; their leaves are copied.\<close>

definition carried :: "bytes \<Rightarrow> int \<Rightarrow> kt_db \<Rightarrow> KTLeaf list" where
  "carried tenantID epoch db =
     filter (\<lambda>l. kl_TenantID l = tenantID \<and> kl_Epoch l = epoch - 1
       \<and> \<not> list_ex (\<lambda>k. kl_TenantID k = tenantID \<and> kl_Epoch k = epoch \<and> kl_UserID k = kl_UserID l) (kd_leaves db)) (kd_leaves db)"

definition copy_leaf :: "(nat \<Rightarrow> int) \<Rightarrow> int \<Rightarrow> int \<Rightarrow> nat \<times> KTLeaf \<Rightarrow> KTLeaf" where
  "copy_leaf ids now epoch p = new_leaf (ids (fst p)) now (kl_UserID (snd p)) (kl_TenantID (snd p)) epoch (kl_PubkeyHash (snd p))"

text \<open>The statement fails as a whole if a copy conflicts with an existing leaf or another copy.\<close>

definition carry_forward :: "(nat \<Rightarrow> int) \<Rightarrow> int \<Rightarrow> bytes \<Rightarrow> int \<Rightarrow> kt_db \<Rightarrow> kt_db option" where
  "carry_forward ids now tenantID epoch db =
     (let ls = carried tenantID epoch db in
      if list_ex (\<lambda>l. leaf_exists (kl_UserID l) epoch db) ls \<or> \<not> distinct (map kl_UserID ls) then None
      else Some (db\<lparr>kd_leaves := kd_leaves db @ map (copy_leaf ids now epoch) (enumerate 0 ls)\<rparr>))"

text \<open>After a failed statement the transaction is aborted, so that the error of the first query shows at the next one.\<close>

definition AdvanceEpochTx ::
    "(nat \<Rightarrow> bool) \<Rightarrow> db_out \<Rightarrow> (nat \<Rightarrow> int) \<Rightarrow> int \<Rightarrow> bytes \<Rightarrow> (int \<Rightarrow> KTLeaf list \<Rightarrow> string + bytes \<times> bytes \<times> int) \<Rightarrow> kt_db \<Rightarrow> (string + int) \<times> kt_db" where
  "AdvanceEpochTx ok out ids now tenantID computeRoot db =
     (if \<not> ok 0 then (Inl ''begin tx'', db)
      else if \<not> ok 1 then (Inl ''query leaves in tx'', db)
      else
        (let currentEpoch = (case latest_root tenantID db of None \<Rightarrow> 0 | Some r \<Rightarrow> kr_Epoch r) + 1 in
         case (if currentEpoch > 1 then (if ok 2 then carry_forward ids now tenantID currentEpoch db else None) else Some db) of
           None \<Rightarrow> (Inl ''carry forward leaves'', db)
         | Some db1 \<Rightarrow>
             if \<not> ok 3 then (Inl ''query leaves in tx'', db)
             else
               (let leaves = epoch_leaves tenantID currentEpoch (kd_leaves db1) in
                if leaves = [] then (Inl ''no leaves for epoch'', db)
                else (case computeRoot currentEpoch leaves of
                  Inl e \<Rightarrow> (Inl e, db)
                | Inr (rootHash, sig, treeSize) \<Rightarrow>
                    if \<not> ok 4 then (Inl ''insert root in tx'', db)
                    else if root_exists tenantID currentEpoch db1 then (Inl ''kt root for epoch already exists'', db)
                    else (case commit out (db1\<lparr>kd_roots := kd_roots db1 @ [new_root now tenantID currentEpoch rootHash sig treeSize]\<rparr>) db of
                            (Some e, d) \<Rightarrow> (Inl ''commit tx'', d)
                          | (None, d) \<Rightarrow> (Inr currentEpoch, d))))))"

definition GetTenantByUserID :: "bool \<Rightarrow> bytes \<Rightarrow> kt_db \<Rightarrow> string + bytes" where
  "GetTenantByUserID ok userID db =
     (case sort_key (\<lambda>l. - kl_Epoch l) (filter (\<lambda>l. ok \<and> kl_UserID l = userID) (kd_leaves db)) of
        [] \<Rightarrow> Inl ''get tenant by user_id'' | l # _ \<Rightarrow> Inr (kl_TenantID l))"

definition GetRootsSince :: "bool \<Rightarrow> bytes \<Rightarrow> int \<Rightarrow> kt_db \<Rightarrow> string + KTRoot list" where
  "GetRootsSince ok tenantID since db =
     (if ok then Inr (sort_key kr_Epoch (filter (\<lambda>r. kr_TenantID r = tenantID \<and> kr_CreatedAt r > since) (kd_roots db)))
      else Inl ''query kt_roots since'')"

end
