(* ===== verification/Kt_Props.thy ===== *)
theory Kt_Props
  imports Kt Drive_Props
begin

text \<open>
  Properties of the key transparency log: signed roots stay true of the stored leaves, and no key is dropped from one epoch to the next.
\<close>

subsection \<open>Lemmas\<close>

lemma latest_root_max:
  assumes "r \<in> set (kd_roots db)" "kr_TenantID r = tenantID"
  shows "\<exists>m. latest_root tenantID db = Some m \<and> kr_Epoch r \<le> kr_Epoch m"
proof -
  define rs where "rs = sort_key (\<lambda>r. - kr_Epoch r) (filter (\<lambda>r. kr_TenantID r = tenantID) (kd_roots db))"
  have r: "r \<in> set rs" using assms by (simp add: rs_def)
  then obtain m ms where rs: "rs = m # ms" by (cases rs) auto
  have "sorted (map (\<lambda>r. - kr_Epoch r) rs)" by (simp add: rs_def)
  then have "kr_Epoch r \<le> kr_Epoch m" using r by (auto simp: rs)
  then show ?thesis using rs by (simp add: latest_root_def rs_def)
qed

lemma epoch_leaves_append:
  "\<forall>l\<in>set new. kl_TenantID l \<noteq> tenantID \<or> kl_Epoch l \<noteq> epoch \<Longrightarrow> epoch_leaves tenantID epoch (ls @ new) = epoch_leaves tenantID epoch ls"
  by (simp add: epoch_leaves_def filter_none)

lemma epoch_leaves_update:
  assumes "\<And>l. l \<in> set ls \<Longrightarrow> P l \<Longrightarrow> kl_TenantID l \<noteq> tenantID \<or> kl_Epoch l \<noteq> epoch"
    and "\<And>l. kl_TenantID (g l) = kl_TenantID l \<and> kl_Epoch (g l) = kl_Epoch l"
  shows "epoch_leaves tenantID epoch (update_list P g ls) = epoch_leaves tenantID epoch ls"
proof -
  have "filter (\<lambda>l. kl_TenantID l = tenantID \<and> kl_Epoch l = epoch) (update_list P g ls) = filter (\<lambda>l. kl_TenantID l = tenantID \<and> kl_Epoch l = epoch) ls"
    using assms by (induction ls) (auto simp: update_list_def)
  then show ?thesis by (simp add: epoch_leaves_def)
qed

subsection \<open>Runs\<close>

text \<open>No root of the tenant has this epoch or a later one.\<close>

definition pending :: "bytes \<Rightarrow> int \<Rightarrow> kt_db \<Rightarrow> bool" where
  "pending tenantID epoch db = (\<forall>r\<in>set (kd_roots db). kr_TenantID r = tenantID \<longrightarrow> kr_Epoch r < epoch)"

text \<open>
  The operations as their comments prescribe: leaves are published for a pending epoch only, under the one tenant (\<open>home\<close>) of the user;
  roots are computed from the leaves of the epoch by \<open>sign\<close>.
\<close>

inductive kt_step :: "(bytes \<Rightarrow> bytes) \<Rightarrow> (bytes \<Rightarrow> int \<Rightarrow> KTLeaf list \<Rightarrow> string + bytes \<times> bytes \<times> int) \<Rightarrow> kt_db \<Rightarrow> kt_db \<Rightarrow> bool" for home sign where
  add: "pending (home userID) epoch db \<Longrightarrow> kt_step home sign db (snd (AddLeaf out leafID now userID (home userID) epoch h db))"
| upsert: "pending (home userID) epoch db \<Longrightarrow> kt_step home sign db (snd (AddOrUpdateLeaf out leafID now userID (home userID) epoch h db))"
| advance: "kt_step home sign db (snd (AdvanceEpochTx ok out ids now tenantID (sign tenantID) db))"
| store: "pending tenantID epoch db \<Longrightarrow> sign tenantID epoch (epoch_leaves tenantID epoch (kd_leaves db)) = Inr (h, s, n) \<Longrightarrow>
    kt_step home sign db (snd (StoreRoot out now tenantID epoch h s [n] db))"

definition root_valid :: "(bytes \<Rightarrow> int \<Rightarrow> KTLeaf list \<Rightarrow> string + bytes \<times> bytes \<times> int) \<Rightarrow> kt_db \<Rightarrow> KTRoot \<Rightarrow> bool" where
  "root_valid sign db r =
     (sign (kr_TenantID r) (kr_Epoch r) (epoch_leaves (kr_TenantID r) (kr_Epoch r) (kd_leaves db)) = Inr (kr_RootHash r, kr_Signature r, kr_TreeSize r))"

definition kt_inv :: "(bytes \<Rightarrow> bytes) \<Rightarrow> (bytes \<Rightarrow> int \<Rightarrow> KTLeaf list \<Rightarrow> string + bytes \<times> bytes \<times> int) \<Rightarrow> kt_db \<Rightarrow> bool" where
  "kt_inv home sign db =
     ((\<forall>l\<in>set (kd_leaves db). kl_TenantID l = home (kl_UserID l)) \<and> (\<forall>r\<in>set (kd_roots db). root_valid sign db r)
      \<and> distinct (map (\<lambda>r. (kr_TenantID r, kr_Epoch r)) (kd_roots db)))"

text \<open>What a step may do to the tables: leaves of signed epochs stay, and a new root is the one of its leaves.\<close>

definition extends :: "(bytes \<Rightarrow> bytes) \<Rightarrow> (bytes \<Rightarrow> int \<Rightarrow> KTLeaf list \<Rightarrow> string + bytes \<times> bytes \<times> int) \<Rightarrow> kt_db \<Rightarrow> kt_db \<Rightarrow> bool" where
  "extends home sign db db' =
     ((\<forall>l\<in>set (kd_leaves db'). kl_TenantID l = home (kl_UserID l))
      \<and> (\<forall>r\<in>set (kd_roots db). epoch_leaves (kr_TenantID r) (kr_Epoch r) (kd_leaves db') = epoch_leaves (kr_TenantID r) (kr_Epoch r) (kd_leaves db))
      \<and> (kd_roots db' = kd_roots db \<or> (\<exists>r. kd_roots db' = kd_roots db @ [r] \<and> root_valid sign db' r \<and> \<not> root_exists (kr_TenantID r) (kr_Epoch r) db)))"

lemma extends_refl: "kt_inv home sign db \<Longrightarrow> extends home sign db db"
  by (simp add: extends_def kt_inv_def)

lemma extends_inv:
  assumes "kt_inv home sign db" "extends home sign db db'"
  shows "kt_inv home sign db'"
proof -
  have valid: "root_valid sign db' r" if "r \<in> set (kd_roots db)" for r using assms that by (simp add: kt_inv_def extends_def root_valid_def)
  from assms(2) consider "kd_roots db' = kd_roots db"
    | r where "kd_roots db' = kd_roots db @ [r]" "root_valid sign db' r" "\<not> root_exists (kr_TenantID r) (kr_Epoch r) db"
    by (auto simp: extends_def)
  then show ?thesis
  proof cases
    case 1
    then show ?thesis using assms valid by (simp add: kt_inv_def extends_def)
  next
    case (2 r)
    have "(kr_TenantID r, kr_Epoch r) \<notin> (\<lambda>r. (kr_TenantID r, kr_Epoch r)) ` set (kd_roots db)"
      using 2(3) by (auto simp: root_exists_def list_ex_iff)
    then show ?thesis using assms 2 valid by (auto simp: kt_inv_def extends_def)
  qed
qed

lemma extends_leaves:
  assumes "kt_inv home sign db" "pending (home u) epoch db" "\<forall>l\<in>set new. kl_UserID l = u \<and> kl_TenantID l = home u \<and> kl_Epoch l = epoch"
  shows "extends home sign db (db\<lparr>kd_leaves := kd_leaves db @ new\<rparr>)"
    "extends home sign db (db\<lparr>kd_leaves := update_list (\<lambda>l. kl_UserID l = u \<and> kl_Epoch l = epoch) (\<lambda>l. l\<lparr>kl_PubkeyHash := h\<rparr>) (kd_leaves db)\<rparr>)"
proof -
  have other: "kr_TenantID r \<noteq> home u \<or> kr_Epoch r \<noteq> epoch" if "r \<in> set (kd_roots db)" for r
    using assms(2) that by (auto simp: pending_def)
  have home: "kl_TenantID l = home (kl_UserID l)" if "l \<in> set (kd_leaves db)" for l using assms(1) that by (simp add: kt_inv_def)
  have "epoch_leaves (kr_TenantID r) (kr_Epoch r) (kd_leaves db @ new) = epoch_leaves (kr_TenantID r) (kr_Epoch r) (kd_leaves db)"
    if "r \<in> set (kd_roots db)" for r
    by (rule epoch_leaves_append) (use assms(3) other [OF that] in auto)
  then show "extends home sign db (db\<lparr>kd_leaves := kd_leaves db @ new\<rparr>)" using assms(3) home by (auto simp: extends_def)
  have "epoch_leaves (kr_TenantID r) (kr_Epoch r) (update_list (\<lambda>l. kl_UserID l = u \<and> kl_Epoch l = epoch) (\<lambda>l. l\<lparr>kl_PubkeyHash := h\<rparr>) (kd_leaves db))
      = epoch_leaves (kr_TenantID r) (kr_Epoch r) (kd_leaves db)" if "r \<in> set (kd_roots db)" for r
    by (rule epoch_leaves_update) (use home other [OF that] in auto)
  then show "extends home sign db (db\<lparr>kd_leaves := update_list (\<lambda>l. kl_UserID l = u \<and> kl_Epoch l = epoch) (\<lambda>l. l\<lparr>kl_PubkeyHash := h\<rparr>) (kd_leaves db)\<rparr>)"
    using home by (auto simp: extends_def update_list_def)
qed


lemma extends_exec:
  assumes "kt_inv home sign db" "extends home sign db db'"
  shows "extends home sign db (snd (exec out msg db' db))" "extends home sign db (snd (commit out db' db))"
  using extends_refl [OF assms(1)] assms(2) exec_snd [of out msg db' db] commit_snd [of out db' db] by metis+

text \<open>The leaves that the next epoch is computed from.\<close>

lemma carry_forward_leaves:
  assumes "carry_forward ids now tenantID epoch db = Some db1"
  shows "kd_roots db1 = kd_roots db \<and> (\<exists>new. kd_leaves db1 = kd_leaves db @ new
    \<and> (\<forall>k\<in>set new. kl_TenantID k = tenantID \<and> kl_Epoch k = epoch \<and> (\<exists>l\<in>set (kd_leaves db). kl_TenantID l = tenantID \<and> kl_UserID l = kl_UserID k))
    \<and> (\<forall>l\<in>set (carried tenantID epoch db). \<exists>k\<in>set new. kl_UserID k = kl_UserID l \<and> kl_PubkeyHash k = kl_PubkeyHash l))"
proof -
  define new where "new = map (copy_leaf ids now epoch) (enumerate 0 (carried tenantID epoch db))"
  have db1: "db1 = db\<lparr>kd_leaves := kd_leaves db @ new\<rparr>"
    using assms by (auto simp: carry_forward_def Let_def new_def split: if_splits)
  have mem: "snd ` set (enumerate 0 (carried tenantID epoch db)) = set (carried tenantID epoch db)"
    by (metis list.set_map map_snd_enumerate)
  have "kl_TenantID k = tenantID \<and> kl_Epoch k = epoch \<and> (\<exists>l\<in>set (kd_leaves db). kl_TenantID l = tenantID \<and> kl_UserID l = kl_UserID k)" if k: "k \<in> set new" for k
  proof -
    obtain p where p: "p \<in> set (enumerate 0 (carried tenantID epoch db))" "k = copy_leaf ids now epoch p" using k by (auto simp: new_def)
    have "snd p \<in> set (carried tenantID epoch db)" using p(1) mem by blast
    then show ?thesis using p(2) by (auto simp: copy_leaf_def new_leaf_def carried_def)
  qed
  moreover have "\<exists>k\<in>set new. kl_UserID k = kl_UserID l \<and> kl_PubkeyHash k = kl_PubkeyHash l" if "l \<in> set (carried tenantID epoch db)" for l
  proof -
    obtain p where "p \<in> set (enumerate 0 (carried tenantID epoch db))" "l = snd p" using \<open>l \<in> _\<close> mem by blast
    then show ?thesis by (auto simp: new_def copy_leaf_def new_leaf_def)
  qed
  ultimately show ?thesis using db1 by auto
qed

definition next_epoch :: "bytes \<Rightarrow> kt_db \<Rightarrow> int" where
  "next_epoch tenantID db = (case latest_root tenantID db of None \<Rightarrow> 0 | Some r \<Rightarrow> kr_Epoch r) + 1"

lemma next_epoch_pending: "pending tenantID (next_epoch tenantID db) db"
  unfolding pending_def next_epoch_def using latest_root_max by fastforce

lemma advance_epoch_effect:
  assumes "AdvanceEpochTx ok out ids now tenantID computeRoot db = (r, db')"
  obtains "db' = db" "\<nexists>e. r = Inr e"
  | db1 h s n where "kd_roots db1 = kd_roots db" "db' = db1\<lparr>kd_roots := kd_roots db1 @ [new_root now tenantID (next_epoch tenantID db) h s n]\<rparr>"
      "computeRoot (next_epoch tenantID db) (epoch_leaves tenantID (next_epoch tenantID db) (kd_leaves db1)) = Inr (h, s, n)"
      "db1 = db \<and> next_epoch tenantID db \<le> 1 \<or> carry_forward ids now tenantID (next_epoch tenantID db) db = Some db1"
      "\<And>e. r = Inr e \<Longrightarrow> e = next_epoch tenantID db"
proof -
  define e where "e = next_epoch tenantID db"
  define d where "d = (if e > 1 then (if ok 2 then carry_forward ids now tenantID e db else None) else Some db)"
  note defs = AdvanceEpochTx_def e_def [unfolded next_epoch_def, symmetric] Let_def d_def [symmetric]
  have stay: thesis if "db' = db" "\<exists>x. r = Inl x" using that assms that(1) \<open>db' = db \<Longrightarrow> \<nexists>e. r = Inr e \<Longrightarrow> thesis\<close> by auto
  show thesis
  proof (cases d)
    case None
    then show thesis using assms stay by (auto simp: defs split: if_splits)
  next
    case (Some db1)
    have db1: "db1 = db \<and> e \<le> 1 \<or> carry_forward ids now tenantID e db = Some db1" using Some by (auto simp: d_def split: if_splits)
    then have roots: "kd_roots db1 = kd_roots db" using carry_forward_leaves by blast
    show thesis
    proof (cases "computeRoot e (epoch_leaves tenantID e (kd_leaves db1))")
      case (Inl x)
      then show thesis using assms stay Some by (auto simp: defs split: if_splits)
    next
      case (Inr t)
      obtain h s n where t: "t = (h, s, n)" by (cases t)
      define d' where "d' = db1\<lparr>kd_roots := kd_roots db1 @ [new_root now tenantID e h s n]\<rparr>"
      consider "db' = db" "\<exists>x. r = Inl x" | "db' = d'" "\<And>x. r = Inr x \<Longrightarrow> x = e"
        using assms Some Inr by (auto simp: defs t d'_def [symmetric] commit_def exec_def split: if_splits db_out.splits)
      then show thesis
      proof cases
        case 2
        then show thesis using that(2) [of db1 h s n] roots db1 Inr by (simp add: e_def d'_def t)
      qed (rule stay)
    qed
  qed
qed


lemma kt_step_extends:
  assumes "kt_step home sign db db'" "kt_inv home sign db"
  shows "extends home sign db db'"
  using assms(1)
proof cases
  case (add userID epoch out leafID now h)
  have "extends home sign db (db\<lparr>kd_leaves := kd_leaves db @ [new_leaf leafID now userID (home userID) epoch h]\<rparr>)"
    by (rule extends_leaves(1) [OF assms(2) add(2)]) (simp add: new_leaf_def)
  then show ?thesis using add(1) extends_refl [OF assms(2)] extends_exec(1) [OF assms(2)] by (simp add: AddLeaf_def exec_case)
next
  case (upsert userID epoch out leafID now h)
  have "extends home sign db (db\<lparr>kd_leaves := kd_leaves db @ [new_leaf leafID now userID (home userID) epoch h]\<rparr>)"
    by (rule extends_leaves(1) [OF assms(2) upsert(2)]) (simp add: new_leaf_def)
  then show ?thesis
    using upsert(1) extends_leaves(2) [OF assms(2) upsert(2), of "[]" h] extends_exec(1) [OF assms(2)] by (simp add: AddOrUpdateLeaf_def)
next
  case (advance ok out ids now tenantID)
  define e where "e = next_epoch tenantID db"
  obtain r where "AdvanceEpochTx ok out ids now tenantID (sign tenantID) db = (r, db')" using advance by (metis prod.collapse)
  then show ?thesis
  proof (cases rule: advance_epoch_effect)
    case 1
    then show ?thesis using extends_refl [OF assms(2)] by simp
  next
    case (2 db1 h s n)
    obtain new where new: "kd_leaves db1 = kd_leaves db @ new"
      "\<forall>k\<in>set new. kl_TenantID k = tenantID \<and> kl_Epoch k = e \<and> (\<exists>l\<in>set (kd_leaves db). kl_TenantID l = tenantID \<and> kl_UserID l = kl_UserID k)"
    proof -
      from 2(4) show thesis
      proof
        assume "db1 = db \<and> next_epoch tenantID db \<le> 1"
        then show thesis using that [of "[]"] by simp
      next
        assume "carry_forward ids now tenantID (next_epoch tenantID db) db = Some db1"
        from carry_forward_leaves [OF this] show thesis using that unfolding e_def by blast
      qed
    qed
    have "\<forall>k\<in>set new. kl_TenantID k = home (kl_UserID k)" using new(2) assms(2) unfolding kt_inv_def by metis
    then have home: "\<forall>l\<in>set (kd_leaves db'). kl_TenantID l = home (kl_UserID l)" using assms(2) 2(2) new(1) by (auto simp: kt_inv_def)
    have "epoch_leaves (kr_TenantID r) (kr_Epoch r) (kd_leaves db') = epoch_leaves (kr_TenantID r) (kr_Epoch r) (kd_leaves db)"
      if "r \<in> set (kd_roots db)" for r
    proof -
      have "kr_TenantID r \<noteq> tenantID \<or> kr_Epoch r \<noteq> e" using next_epoch_pending [of tenantID db] that by (auto simp: pending_def e_def)
      then have "epoch_leaves (kr_TenantID r) (kr_Epoch r) (kd_leaves db @ new) = epoch_leaves (kr_TenantID r) (kr_Epoch r) (kd_leaves db)"
        using new(2) by (intro epoch_leaves_append) auto
      then show ?thesis using 2(2) new(1) by simp
    qed
    moreover have "\<not> root_exists tenantID e db" using next_epoch_pending [of tenantID db] by (auto simp: pending_def root_exists_def list_ex_iff e_def)
    ultimately show ?thesis using home 2 by (simp add: extends_def root_valid_def new_root_def e_def)
  qed
next
  case (store tenantID epoch h s n out now)
  have "\<not> root_exists tenantID epoch db" using store(2) by (auto simp: pending_def root_exists_def list_ex_iff)
  moreover have "extends home sign db (db\<lparr>kd_roots := kd_roots db @ [new_root now tenantID epoch h s n]\<rparr>)"
    using assms(2) store(3) \<open>\<not> root_exists tenantID epoch db\<close> by (simp add: extends_def kt_inv_def root_valid_def new_root_def)
  ultimately show ?thesis using store(1) extends_exec(1) [OF assms(2)] by (simp add: StoreRoot_def exec_rows_snd)
qed

lemma kt_run_keeps:
  assumes "(kt_step home sign)\<^sup>*\<^sup>* db db'" "kt_inv home sign db" "r \<in> set (kd_roots db)"
  shows "kt_inv home sign db' \<and> r \<in> set (kd_roots db')
    \<and> epoch_leaves (kr_TenantID r) (kr_Epoch r) (kd_leaves db') = epoch_leaves (kr_TenantID r) (kr_Epoch r) (kd_leaves db)"
  using assms(1)
proof (induction rule: rtranclp_induct)
  case (step d d')
  then have ext: "extends home sign d d'" using kt_step_extends by blast
  then have "kt_inv home sign d'" using extends_inv step.IH by blast
  moreover have "set (kd_roots d) \<subseteq> set (kd_roots d')" using ext by (auto simp: extends_def)
  ultimately show ?case using step.IH ext by (auto simp: extends_def)
qed (use assms in simp)

lemma kt_run_inv:
  assumes "(kt_step home sign)\<^sup>*\<^sup>* db db'" "kt_inv home sign db"
  shows "kt_inv home sign db'"
  using assms by (induction rule: rtranclp_induct) (blast intro: extends_inv kt_step_extends)+


text \<open>
  C21: advancing the epoch drops no key: every user with a leaf in the last epoch has one in the new epoch, with the same key unless another
  was published for the new epoch, and the signed root covers exactly the leaves stored.
\<close>

theorem epoch_carries_keys:
  assumes "AdvanceEpochTx ok out ids now tenantID computeRoot db = (Inr e, db')"
  shows "e = NextEpoch True tenantID db
    \<and> (\<exists>r ls. GetLeaves True tenantID e db' = Inr ls \<and> r \<in> set (kd_roots db') \<and> kr_Epoch r = e \<and> kr_TenantID r = tenantID
         \<and> computeRoot e ls = Inr (kr_RootHash r, kr_Signature r, kr_TreeSize r)
         \<and> (1 < e \<longrightarrow> (\<forall>l\<in>set (epoch_leaves tenantID (e - 1) (kd_leaves db)). \<exists>k\<in>set ls. kl_UserID k = kl_UserID l
              \<and> (k \<in> set (kd_leaves db) \<or> kl_PubkeyHash k = kl_PubkeyHash l))))"
  using assms
proof (cases rule: advance_epoch_effect)
  case (2 db1 h s n)
  then have e: "e = next_epoch tenantID db" by blast
  then have "e = NextEpoch True tenantID db" by (simp add: next_epoch_def NextEpoch_def split: option.split)
  moreover have "\<exists>k\<in>set (epoch_leaves tenantID e (kd_leaves db1)). kl_UserID k = kl_UserID l \<and> (k \<in> set (kd_leaves db) \<or> kl_PubkeyHash k = kl_PubkeyHash l)"
    if "1 < e" and l: "l \<in> set (epoch_leaves tenantID (e - 1) (kd_leaves db))" for l
  proof -
    have "carry_forward ids now tenantID e db = Some db1" using 2(4) that(1) by (simp add: e)
    from carry_forward_leaves [OF this] obtain new where new: "kd_leaves db1 = kd_leaves db @ new"
      "\<forall>k\<in>set new. kl_TenantID k = tenantID \<and> kl_Epoch k = e"
      "\<forall>l\<in>set (carried tenantID e db). \<exists>k\<in>set new. kl_UserID k = kl_UserID l \<and> kl_PubkeyHash k = kl_PubkeyHash l" by blast
    show ?thesis
    proof (cases "l \<in> set (carried tenantID e db)")
      case True
      then show ?thesis using new by (fastforce simp: epoch_leaves_def)
    next
      case False
      then show ?thesis using l new(1) by (auto simp: carried_def epoch_leaves_def list_ex_iff)
    qed
  qed
  ultimately show ?thesis using 2(2,3) by (auto simp: e GetLeaves_def new_root_def)
qed simp

subsection \<open>Defects\<close>

text \<open>A leaf that arrives for the epoch after it was signed is stored, and the root does not cover it.\<close>

lemma late_leaf_not_covered:
  assumes "AdvanceEpochTx ok out ids now tenantID computeRoot db = (Inr e, db1)" "\<not> leaf_exists userID e db1"
    and "AddLeaf DbOk leafID now2 userID tenantID e h db1 = (Inr i, db2)"
  shows "length (epoch_leaves tenantID e (kd_leaves db2)) = length (epoch_leaves tenantID e (kd_leaves db1)) + 1"
  using assms(2,3) by (auto simp: AddLeaf_def exec_def epoch_leaves_def new_leaf_def)

text \<open>A failing query makes the next leaf one of the first epoch, signed or not.\<close>

lemma next_epoch_on_error: "NextEpoch False tenantID db = 1"
  by (simp add: NextEpoch_def)

end
