(* ===== verification/Kt_Witness.thy ===== *)
theory Kt_Witness
  imports Kt_Props
begin

text \<open>A log of two epochs: a key is published and signed, a second user joins, and the next epoch carries the first key over.\<close>

text \<open>The root of the model run: the hashes of the leaves one after the other.\<close>

definition w_sign :: "int \<Rightarrow> KTLeaf list \<Rightarrow> string + bytes \<times> bytes \<times> int" where
  "w_sign epoch ls = Inr (concat (map kl_PubkeyHash ls), [7], int (length ls))"

definition w_log0 :: kt_db where
  "w_log0 = snd (AddLeaf DbOk 1 0 [1] [9] 1 [11] \<lparr>kd_leaves = [], kd_roots = []\<rparr>)"

definition w_log1 :: kt_db where
  "w_log1 = snd (AdvanceEpochTx (\<lambda>_. True) DbOk (\<lambda>n. 10 + int n) 5 [9] w_sign w_log0)"

definition w_log2 :: kt_db where
  "w_log2 = snd (AddOrUpdateLeaf DbOk 2 6 [2] [9] 2 [22] w_log1)"

definition w_log3 :: kt_db where
  "w_log3 = snd (AdvanceEpochTx (\<lambda>_. True) DbOk (\<lambda>n. 10 + int n) 8 [9] w_sign w_log2)"

lemma w_log1_roots: "kd_roots w_log1 = [new_root 5 [9] 1 [11] [7] 1]"
  by code_simp

lemma kt_run_to_log1: "(kt_step (\<lambda>_. [9]) (\<lambda>_. w_sign))\<^sup>*\<^sup>* \<lparr>kd_leaves = [], kd_roots = []\<rparr> w_log1"
proof -
  have "kt_step (\<lambda>_. [9]) (\<lambda>_. w_sign) \<lparr>kd_leaves = [], kd_roots = []\<rparr> w_log0"
    unfolding w_log0_def by (rule kt_step.add) (simp add: pending_def)
  moreover have "kt_step (\<lambda>_. [9]) (\<lambda>_. w_sign) w_log0 w_log1" unfolding w_log1_def by (rule kt_step.advance)
  ultimately show ?thesis by simp
qed

lemma kt_run_to_log3: "(kt_step (\<lambda>_. [9]) (\<lambda>_. w_sign))\<^sup>*\<^sup>* w_log1 w_log3"
proof -
  have "kt_step (\<lambda>_. [9]) (\<lambda>_. w_sign) w_log1 w_log2"
    unfolding w_log2_def by (rule kt_step.upsert) (simp add: pending_def w_log1_roots new_root_def)
  moreover have "kt_step (\<lambda>_. [9]) (\<lambda>_. w_sign) w_log2 w_log3" unfolding w_log3_def by (rule kt_step.advance)
  ultimately show ?thesis by simp
qed


theorem epoch_carries_keys_witness:
  "\<exists>ls. GetLeaves True [9] 2 w_log3 = Inr ls \<and> (\<exists>k\<in>set ls. kl_UserID k = [1])"
proof -
  have "fst (AdvanceEpochTx (\<lambda>_. True) DbOk (\<lambda>n. 10 + int n) 8 [9] w_sign w_log2) = Inr 2" by code_simp
  then have "AdvanceEpochTx (\<lambda>_. True) DbOk (\<lambda>n. 10 + int n) 8 [9] w_sign w_log2 = (Inr 2, w_log3)" by (simp add: w_log3_def prod_eq_iff)
  from epoch_carries_keys [OF this] obtain ls where ls: "GetLeaves True [9] 2 w_log3 = Inr ls"
    "\<forall>l\<in>set (epoch_leaves [9] 1 (kd_leaves w_log2)). \<exists>k\<in>set ls. kl_UserID k = kl_UserID l
      \<and> (k \<in> set (kd_leaves w_log2) \<or> kl_PubkeyHash k = kl_PubkeyHash l)" by auto
  have "map kl_UserID (epoch_leaves [9] 1 (kd_leaves w_log2)) = [[1]]" by code_simp
  then have "[1] \<in> kl_UserID ` set (epoch_leaves [9] 1 (kd_leaves w_log2))" by (metis list.set_intros(1) list.set_map)
  then show ?thesis using ls by fastforce
qed

end
